(* ===== verification/Prelude.thy ===== *)
theory Prelude
  imports Complex_Main "HOL-Library.AList" "HOL-Library.Multiset" "HOL-Library.Char_ord"
    "HOL-Library.List_Lexorder" "HOL-Library.Product_Lexorder" "HOL-Library.Option_ord"
begin

text \<open>
  Shared vocabulary of the development: Python exceptions as values of a sum type, Python
  dictionaries as association lists in insertion order, slices, \<^verbatim>\<open>sorted(..., key=...)\<close>, the
  clock, and the two library interfaces every component relies on:
  \<^item> \<open>dictionary\<close>: the laws of a Python \<^verbatim>\<open>dict\<close>, interpreted on the association lists;
  \<^item> \<open>codec\<close>: an encoder with a partial decoder, from which injectivity of the encoder follows;
    it is interpreted by the byte, hex, frame and JSON encoders.
\<close>

named_theorems dict_simps \<open>laws of Python dictionaries\<close>
named_theorems result_simps \<open>laws of the exception monad\<close>

section \<open>Exceptions as values\<close>

datatype py_error =
    ValueError string
  | TypeError
  | RuntimeError string
  | KeyError
  | StructError
  | IncompleteReadError
  | IntegrityError
  | FileNotFoundError
  | AttributeError
  | InvalidHexError
  | InvalidTag
  | OverflowError
  | OpenSSLExecutionError

type_synonym 'a result = "py_error + 'a"

definition rbind :: "'a result \<Rightarrow> ('a \<Rightarrow> 'b result) \<Rightarrow> 'b result" where
  "rbind m f = (case m of Inl e \<Rightarrow> Inl e | Inr x \<Rightarrow> f x)"

lemma rbind_simps [simp, result_simps]:
  "rbind (Inl e) f = Inl e"
  "rbind (Inr x) f = f x"
  by (simp_all add: rbind_def)

lemma rbind_Inr_iff [result_simps]:
  "rbind m f = Inr y \<longleftrightarrow> (\<exists>x. m = Inr x \<and> f x = Inr y)"
  by (cases m) auto

lemma rbind_Inl_iff:
  "rbind m f = Inl e \<longleftrightarrow> m = Inl e \<or> (\<exists>x. m = Inr x \<and> f x = Inl e)"
  by (cases m) auto

text \<open>A \<^verbatim>\<open>for\<close> loop that appends \<open>f item\<close> to a list and stops at the first exception.\<close>

fun rmap :: "('a \<Rightarrow> 'b result) \<Rightarrow> 'a list \<Rightarrow> 'b list result" where
  "rmap f [] = Inr []"
| "rmap f (x # xs) = rbind (f x) (\<lambda>y. rbind (rmap f xs) (\<lambda>ys. Inr (y # ys)))"

lemma rmap_Inr_iff:
  "rmap f xs = Inr ys \<longleftrightarrow> list_all2 (\<lambda>x y. f x = Inr y) xs ys"
proof (induction xs arbitrary: ys)
  case Nil
  then show ?case by auto
next
  case (Cons x xs)
  then show ?case
    by (cases ys) (auto simp: rbind_Inr_iff)
qed

lemma rmap_all: "rmap f xs = Inr ys \<Longrightarrow> (\<And>x y. f x = Inr y \<Longrightarrow> P y) \<Longrightarrow> list_all P ys"
  by (induction xs arbitrary: ys) (auto simp: rbind_Inr_iff)

lemma rmap_map: "(\<And>x. x \<in> set xs \<Longrightarrow> f (g x) = Inr x) \<Longrightarrow> rmap f (map g xs) = Inr xs"
  by (induction xs) auto

text \<open>A list comprehension with a filter whose test may raise.\<close>

fun rfilter :: "('a \<Rightarrow> bool result) \<Rightarrow> 'a list \<Rightarrow> 'a list result" where
  "rfilter p [] = Inr []"
| "rfilter p (x # xs) =
     rbind (p x) (\<lambda>b. rbind (rfilter p xs) (\<lambda>ys. Inr (if b then x # ys else ys)))"

lemma rfilter_Inr_filter:
  "rfilter p xs = Inr ys \<Longrightarrow> ys = filter (\<lambda>x. p x = Inr True) xs"
  by (induction xs arbitrary: ys) (auto simp: rbind_Inr_iff)

lemma rfilter_total:
  "(\<And>x. x \<in> set xs \<Longrightarrow> \<exists>b. p x = Inr b) \<Longrightarrow>
   rfilter p xs = Inr (filter (\<lambda>x. p x = Inr True) xs)"
proof (induction xs)
  case (Cons x xs)
  then obtain b where "p x = Inr b" by fastforce
  with Cons show ?case by auto
qed simp

lemma rfilter_Inl_iff:
  "(\<exists>e. rfilter p xs = Inl e) \<longleftrightarrow> (\<exists>x \<in> set xs. \<exists>e. p x = Inl e)"
proof (induction xs)
  case (Cons x xs)
  show ?case
    using Cons.IH by (cases "p x"; cases "rfilter p xs") auto
qed simp

text \<open>\<^verbatim>\<open>all(p(x) for x in xs)\<close> with a test that may raise: it stops at the first \<^verbatim>\<open>False\<close>.\<close>

fun rall :: "('a \<Rightarrow> bool result) \<Rightarrow> 'a list \<Rightarrow> bool result" where
  "rall p [] = Inr True"
| "rall p (x # xs) = rbind (p x) (\<lambda>b. if b then rall p xs else Inr False)"

lemma rall_True_iff: "rall p xs = Inr True \<longleftrightarrow> (\<forall>x \<in> set xs. p x = Inr True)"
  by (induction xs) (auto simp: rbind_Inr_iff)

text \<open>
  A computation that may also run forever is an \<^verbatim>\<open>option\<close> of a result: \<^const>\<open>None\<close> is a loop that
  never ends.
\<close>

definition obind :: "'a result option \<Rightarrow> ('a \<Rightarrow> 'b result option) \<Rightarrow> 'b result option" where
  "obind m f = (case m of None \<Rightarrow> None | Some (Inl e) \<Rightarrow> Some (Inl e) | Some (Inr x) \<Rightarrow> f x)"

lemma obind_simps [simp, result_simps]:
  "obind None f = None" "obind (Some (Inl e)) f = Some (Inl e)" "obind (Some (Inr x)) f = f x"
  by (simp_all add: obind_def)

lemma obind_Inr_iff [result_simps]:
  "obind m f = Some (Inr y) \<longleftrightarrow> (\<exists>x. m = Some (Inr x) \<and> f x = Some (Inr y))"
  by (auto simp: obind_def split: option.splits sum.splits)

fun omap :: "('a \<Rightarrow> 'b result option) \<Rightarrow> 'a list \<Rightarrow> 'b list result option" where
  "omap f [] = Some (Inr [])"
| "omap f (x # xs) = obind (f x) (\<lambda>y. obind (omap f xs) (\<lambda>ys. Some (Inr (y # ys))))"

lemma omap_Inr_iff: "omap f xs = Some (Inr ys) \<longleftrightarrow> list_all2 (\<lambda>x y. f x = Some (Inr y)) xs ys"
proof (induction xs arbitrary: ys)
  case (Cons x xs)
  then show ?case by (cases ys) (auto simp: obind_Inr_iff)
qed auto

section \<open>Python dictionaries in insertion order\<close>

type_synonym ('k, 'v) dict = "('k \<times> 'v) list"

definition dict_get :: "('k, 'v) dict \<Rightarrow> 'k \<Rightarrow> 'v option" where
  "dict_get d k = map_of d k"

definition dict_set :: "'k \<Rightarrow> 'v \<Rightarrow> ('k, 'v) dict \<Rightarrow> ('k, 'v) dict" where
  "dict_set k v d = AList.update k v d"

definition dict_pop :: "'k \<Rightarrow> ('k, 'v) dict \<Rightarrow> ('k, 'v) dict" where
  "dict_pop k d = AList.delete k d"

definition dict_setdefault :: "'k \<Rightarrow> 'v \<Rightarrow> ('k, 'v) dict \<Rightarrow> ('k, 'v) dict" where
  "dict_setdefault k v d = (case dict_get d k of None \<Rightarrow> dict_set k v d | Some _ \<Rightarrow> d)"

definition dict_ok :: "('k, 'v) dict \<Rightarrow> bool" where
  "dict_ok d \<longleftrightarrow> distinct (map fst d)"

abbreviation dict_values :: "('k, 'v) dict \<Rightarrow> 'v list" where
  "dict_values d \<equiv> map snd d"

abbreviation dict_keys :: "('k, 'v) dict \<Rightarrow> 'k list" where
  "dict_keys d \<equiv> map fst d"

text \<open>The laws a client of a dictionary uses, and what follows from them alone.\<close>

locale dictionary =
  fixes get :: "'d \<Rightarrow> 'k \<Rightarrow> 'v option"
    and set_item :: "'k \<Rightarrow> 'v \<Rightarrow> 'd \<Rightarrow> 'd"
    and pop_item :: "'k \<Rightarrow> 'd \<Rightarrow> 'd"
    and ok :: "'d \<Rightarrow> bool"
    and empty :: 'd
  assumes get_empty: "get empty k = None"
    and get_set: "get (set_item k v d) k' = (if k' = k then Some v else get d k')"
    and get_pop: "get (pop_item k d) k' = (if k' = k then None else get d k')"
    and ok_empty: "ok empty"
    and ok_set: "ok d \<Longrightarrow> ok (set_item k v d)"
    and ok_pop: "ok d \<Longrightarrow> ok (pop_item k d)"
begin

lemma get_set_same: "get (set_item k v d) k = Some v"
  by (simp add: get_set)

lemma get_pop_other: "k' \<noteq> k \<Longrightarrow> get (pop_item k d) k' = get d k'"
  by (simp add: get_pop)

lemma get_pop_set: "get (pop_item k (set_item k v d)) k' = get (pop_item k d) k'"
  by (simp add: get_pop get_set)

lemma get_fold_set:
  "get (fold (\<lambda>(k, v). set_item k v) kvs d) k' =
     (case map_of (rev kvs) k' of None \<Rightarrow> get d k' | Some v \<Rightarrow> Some v)"
  by (induction kvs arbitrary: d) (auto simp: get_set map_add_def split: option.splits)

lemma ok_fold_set: "ok d \<Longrightarrow> ok (fold (\<lambda>(k, v). set_item k v) kvs d)"
  by (induction kvs arbitrary: d) (auto simp: ok_set)

end

interpretation pd: dictionary dict_get dict_set dict_pop dict_ok "[]"
  by unfold_locales
    (auto simp: dict_get_def dict_set_def dict_pop_def dict_ok_def update_conv' delete_conv'
       distinct_update distinct_delete)

lemmas pd_laws [simp, dict_simps] = pd.get_empty pd.get_set pd.get_pop pd.ok_empty pd.ok_set pd.ok_pop

lemma dict_get_setdefault [simp, dict_simps]:
  "dict_get (dict_setdefault k v d) k' =
     (if k' = k then (case dict_get d k of None \<Rightarrow> Some v | Some w \<Rightarrow> Some w) else dict_get d k')"
  by (auto simp: dict_setdefault_def split: option.splits)

lemma dict_ok_setdefault [simp, dict_simps]: "dict_ok d \<Longrightarrow> dict_ok (dict_setdefault k v d)"
  by (auto simp: dict_setdefault_def split: option.splits)

lemma dict_get_Some_in: "dict_get d k = Some v \<Longrightarrow> (k, v) \<in> set d"
  by (simp add: dict_get_def map_of_SomeD)

lemma dict_get_iff: "dict_ok d \<Longrightarrow> dict_get d k = Some v \<longleftrightarrow> (k, v) \<in> set d"
  by (simp add: dict_get_def dict_ok_def)

lemma dict_get_None_iff: "dict_get d k = None \<longleftrightarrow> k \<notin> fst ` set d"
  by (simp add: dict_get_def map_of_eq_None_iff)

lemma length_dict_pop: "dict_get d k = Some v \<Longrightarrow> length (dict_pop k d) < length d"
  by (induction d) (auto simp: dict_get_def dict_pop_def le_imp_less_Suc length_delete_le
      split: if_splits)

lemma set_dict_set: "dict_ok d \<Longrightarrow>
  set (dict_set k v d) = {(k, v)} \<union> {(k', v') \<in> set d. k' \<noteq> k}"
  unfolding set_eq_iff
  by (auto simp: dict_get_iff [OF pd.ok_set, symmetric] dict_get_iff [symmetric])

lemma set_dict_pop: "set (dict_pop k d) = {(k', v') \<in> set d. k' \<noteq> k}"
  by (auto simp: dict_pop_def AList.delete_eq)

lemma dict_keys_dict_set:
  "dict_get d k = None \<Longrightarrow> dict_keys (dict_set k v d) = dict_keys d @ [k]"
  by (induction d) (auto simp: dict_get_def dict_set_def split: if_splits)

lemma dict_set_append:
  "dict_get d k = None \<Longrightarrow> dict_set k v d = d @ [(k, v)]"
  by (induction d) (auto simp: dict_get_def dict_set_def split: if_splits)

lemma dict_keys_dict_set_same:
  "dict_get d k = Some w \<Longrightarrow> dict_keys (dict_set k v d) = dict_keys d"
  by (induction d) (auto simp: dict_get_def dict_set_def split: if_splits)

section \<open>Slices and stable sorting\<close>

text \<open>\<^verbatim>\<open>xs[:k]\<close> of Python: a negative bound counts from the end.\<close>

definition slice_upto :: "'a list \<Rightarrow> int \<Rightarrow> 'a list" where
  "slice_upto xs k = (if 0 \<le> k then take (nat k) xs else take (length xs - nat (- k)) xs)"

lemma slice_upto_take: "\<exists>n. slice_upto xs k = take n xs"
  by (auto simp: slice_upto_def)

text \<open>\<^verbatim>\<open>sorted(xs, key=f)\<close> is the stable \<^const>\<open>sort_key\<close>.\<close>

abbreviation py_sorted :: "('a \<Rightarrow> 'k::linorder) \<Rightarrow> 'a list \<Rightarrow> 'a list" where
  "py_sorted f xs \<equiv> sort_key f xs"

lemma distinct_sort_key_map:
  "distinct (map f xs) \<Longrightarrow> distinct (map f (sort_key g xs))"
  by (metis mset_map mset_sort mset_eq_imp_distinct_iff)

lemma sort_key_idem_list: "sorted (map f xs) \<Longrightarrow> sort_key f xs = xs"
  by (induction xs) (auto simp: insort_is_Cons)

lemma sort_key_mset_eq:
  assumes "mset xs = mset ys" and "inj_on f (set xs)"
  shows "sort_key f xs = sort_key f ys"
proof (rule properties_for_sort_key)
  show "mset (sort_key f ys) = mset xs" using assms(1) by simp
  show "sorted (map f (sort_key f ys))" by simp
  fix k assume k: "k \<in> set (sort_key f ys)"
  have "set ys = set xs" using assms(1) by (metis set_mset_mset)
  with k have kx: "k \<in> set xs" by simp
  have one: "filter (\<lambda>x. f k = f x) zs = replicate (count (mset zs) k) k" if "set zs = set xs" for zs
  proof -
    have "filter (\<lambda>x. f k = f x) zs = filter (\<lambda>x. k = x) zs"
      using assms(2) kx that by (intro filter_cong) (auto simp: inj_on_def)
    also have "\<dots> = replicate (count (mset zs) k) k"
      by (induction zs) auto
    finally show ?thesis .
  qed
  show "filter (\<lambda>x. f k = f x) (sort_key f ys) = filter (\<lambda>x. f k = f x) xs"
    using one [of "sort_key f ys"] one [of xs] \<open>set ys = set xs\<close> assms(1) by simp
qed

lemma mset_map_filter: "mset xs = mset ys \<Longrightarrow> mset (List.map_filter f xs) = mset (List.map_filter f ys)"
  unfolding map_filter_def by (metis mset_filter mset_map)

text \<open>The first \<open>n\<close> of a list sorted by an injective key are strictly closer than the rest.\<close>

lemma take_sort_key_closest:
  assumes "distinct xs" and "inj_on f (set xs)" and "x \<in> set (take n (sort_key f xs))"
    and "y \<in> set xs" and "y \<notin> set (take n (sort_key f xs))"
  shows "f x < f y"
proof -
  let ?s = "sort_key f xs"
  have "y \<in> set (drop n ?s)"
    using assms(4,5) by (metis Un_iff append_take_drop_id set_append set_sort)
  moreover have "sorted (map f (take n ?s) @ map f (drop n ?s))"
    by (metis append_take_drop_id map_append sorted_sort_key)
  ultimately have "f x \<le> f y" using assms(3) by (auto simp: sorted_append)
  moreover have "f x \<noteq> f y"
    using assms by (metis in_set_takeD inj_onD set_sort)
  ultimately show ?thesis by simp
qed

section \<open>Text helpers\<close>

text \<open>
  A Python \<^verbatim>\<open>str\<close> is the list of its code points, restricted to code points below 256, and a
  Python \<^verbatim>\<open>bytes\<close> the list of its bytes; both are \<^typ>\<open>string\<close>. \<^verbatim>\<open>str.lower\<close> on that range.
\<close>

definition lower_char :: "char \<Rightarrow> char" where
  "lower_char c = (let n = (of_char c :: nat) in
     if 65 \<le> n \<and> n \<le> 90 \<or> 192 \<le> n \<and> n \<le> 222 \<and> n \<noteq> 215 then char_of (n + 32) else c)"

definition py_lower :: "string \<Rightarrow> string" where
  "py_lower s = map lower_char s"

text \<open>\<^verbatim>\<open>str.strip()\<close> on that range.\<close>

definition py_space :: "char \<Rightarrow> bool" where
  "py_space c \<longleftrightarrow> (let n = (of_char c :: nat) in n = 32 \<or> 9 \<le> n \<and> n \<le> 13 \<or> 28 \<le> n \<and> n \<le> 31 \<or> n = 133 \<or> n = 160)"

definition py_strip :: "string \<Rightarrow> string" where
  "py_strip s = rev (dropWhile py_space (rev (dropWhile py_space s)))"

text \<open>\<^verbatim>\<open>str.encode("utf-8")\<close>: code points below 128 are one byte, those below 256 two.\<close>

definition utf8_encode :: "string \<Rightarrow> string" where
  "utf8_encode s = concat (map (\<lambda>c. let n = (of_char c :: nat) in
     if n < 128 then [c] else [char_of (192 + n div 64), char_of (128 + n mod 64)]) s)"

lemma py_strip_plain: "list_all (\<lambda>c. \<not> py_space c) s \<Longrightarrow> py_strip s = s"
proof -
  assume s: "list_all (\<lambda>c. \<not> py_space c) s"
  have id: "dropWhile py_space t = t" if "list_all (\<lambda>c. \<not> py_space c) t" for t
    using that by (cases t) simp_all
  have "dropWhile py_space (rev s) = rev s" using s by (intro id) (simp add: list_all_iff)
  with id [OF s] show ?thesis by (simp add: py_strip_def)
qed

text \<open>
  \<^verbatim>\<open>bytes.decode("utf-8")\<close>: \<^const>\<open>None\<close> for bytes that are not UTF-8 and for text with code points
  above 255, which are outside the model.
\<close>

fun utf8_decode :: "string \<Rightarrow> string option" where
  "utf8_decode [] = Some []"
| "utf8_decode (a # r) =
     (if (of_char a :: nat) < 128 then map_option (Cons a) (utf8_decode r)
      else case r of [] \<Rightarrow> None
        | b # r' \<Rightarrow>
            if (of_char a = (194 :: nat) \<or> of_char a = (195 :: nat)) \<and> 128 \<le> (of_char b :: nat) \<and> (of_char b :: nat) < 192
            then map_option (Cons (char_of ((of_char a - 192) * 64 + (of_char b - 128) :: nat))) (utf8_decode r') else None)"

lemma byte_less: "(of_char (c::char) :: nat) < 256"
proof -
  have "(of_char c :: nat) \<in> range of_char" by simp
  then show ?thesis unfolding range_nat_of_char by simp
qed

lemma utf8_encode_Cons: "utf8_encode (c # s) = (let n = (of_char c :: nat) in
  if n < 128 then [c] else [char_of (192 + n div 64), char_of (128 + n mod 64)]) @ utf8_encode s"
  by (simp add: utf8_encode_def)

lemma utf8_round_trip [simp]: "utf8_decode (utf8_encode s) = Some s"
proof (induction s)
  case Nil
  show ?case by (simp add: utf8_encode_def)
next
  case (Cons c s)
  let ?n = "of_char c :: nat"
  show ?case
  proof (cases "?n < 128")
    case True
    with Cons show ?thesis by (simp add: utf8_encode_Cons)
  next
    case False
    have less: "?n < 256" by (rule byte_less)
    with False have d: "?n div 64 = 2 \<or> ?n div 64 = 3" by linarith
    then have d4: "?n div 64 < 4" by auto
    have hi: "(of_char (char_of (192 + ?n div 64) :: char) :: nat) = 192 + ?n div 64"
      using d4 by (simp add: of_char_of)
    have lo: "(of_char (char_of (128 + ?n mod 64) :: char) :: nat) = 128 + ?n mod 64"
      by (simp add: of_char_of)
    have code: "(192 + ?n div 64 - 192) * 64 + (128 + ?n mod 64 - 128) = ?n" by simp
    have "utf8_encode (c # s) = char_of (192 + ?n div 64) # char_of (128 + ?n mod 64) # utf8_encode s"
      using False by (simp add: utf8_encode_Cons Let_def)
    moreover have "\<not> 192 + ?n div 64 < 128" "192 + ?n div 64 = 194 \<or> 192 + ?n div 64 = 195"
      "128 \<le> 128 + ?n mod 64 \<and> 128 + ?n mod 64 < 192" using d by auto
    ultimately show ?thesis
      using Cons.IH by (simp only: utf8_decode.simps hi lo code list.case if_True if_False simp_thms option.map char_of_char)
  qed
qed

text \<open>Text of code points below 128 is its own encoding.\<close>

definition ascii :: "string \<Rightarrow> bool" where
  "ascii s \<longleftrightarrow> list_all (\<lambda>c. (of_char c :: nat) < 128) s"

lemma utf8_ascii: "ascii s \<Longrightarrow> utf8_encode s = s"
  by (induction s) (auto simp: ascii_def utf8_encode_def)

section \<open>Time\<close>

text \<open>
  A \<^verbatim>\<open>datetime\<close> in UTC is its number of microseconds since an epoch. Every reading of the clock
  in an operation is an argument of its model. \<^verbatim>\<open>timedelta(seconds=r)\<close> rounds to whole
  microseconds, ties to the even one.
\<close>

type_synonym time_us = int

definition round_half_even :: "rat \<Rightarrow> int" where
  "round_half_even r = (let f = \<lfloor>r\<rfloor>; d = r - of_int f in
     if d < 1 / 2 then f else if 1 / 2 < d then f + 1 else if even f then f else f + 1)"

definition timedelta_seconds :: "rat \<Rightarrow> int" where
  "timedelta_seconds r = round_half_even (r * 1000000)"

lemma timedelta_seconds_int [simp]: "timedelta_seconds (of_int n) = n * 1000000"
proof -
  have "of_int n * (1000000 :: rat) = of_int (n * 1000000)" by simp
  then show ?thesis
    unfolding timedelta_seconds_def round_half_even_def by (simp only: floor_of_int Let_def) simp
qed

lemma round_half_even_bounds: "r - 1 / 2 \<le> of_int (round_half_even r) \<and>
  of_int (round_half_even r) \<le> r + 1 / 2"
proof -
  have "of_int \<lfloor>r\<rfloor> \<le> r" "r < of_int \<lfloor>r\<rfloor> + 1" by linarith+
  then have "of_int \<lfloor>r\<rfloor> \<le> r + 1 / 2" "r - 1 / 2 \<le> of_int \<lfloor>r\<rfloor> + 1" by linarith+
  then show ?thesis
    by (auto simp: round_half_even_def Let_def)
qed

lemma round_half_even_mono: "r \<le> s \<Longrightarrow> round_half_even r \<le> round_half_even s"
proof -
  assume rs: "r \<le> s"
  show ?thesis
  proof (cases "\<lfloor>r\<rfloor> = \<lfloor>s\<rfloor>")
    case True
    with rs show ?thesis by (auto simp: round_half_even_def Let_def)
  next
    case False
    with rs have "\<lfloor>r\<rfloor> + 1 \<le> \<lfloor>s\<rfloor>" using floor_mono [OF rs] by linarith
    moreover have "round_half_even r \<le> \<lfloor>r\<rfloor> + 1" "\<lfloor>s\<rfloor> \<le> round_half_even s"
      by (auto simp: round_half_even_def Let_def)
    ultimately show ?thesis by linarith
  qed
qed

lemma timedelta_seconds_mono: "r \<le> s \<Longrightarrow> timedelta_seconds r \<le> timedelta_seconds s"
  by (simp add: timedelta_seconds_def round_half_even_mono)

section \<open>Encoders with a decoder\<close>

locale codec =
  fixes enc :: "'a \<Rightarrow> 'b"
    and dec :: "'b \<Rightarrow> 'a option"
    and dom_ok :: "'a \<Rightarrow> bool"
  assumes dec_enc: "dom_ok x \<Longrightarrow> dec (enc x) = Some x"
begin

lemma enc_inj: "dom_ok x \<Longrightarrow> dom_ok y \<Longrightarrow> enc x = enc y \<longleftrightarrow> x = y"
  by (metis dec_enc option.inject)

lemma enc_inj_on: "inj_on enc {x. dom_ok x}"
  by (auto simp: inj_on_def enc_inj)

lemma map_enc_inj:
  "list_all dom_ok xs \<Longrightarrow> list_all dom_ok ys \<Longrightarrow> map enc xs = map enc ys \<longleftrightarrow> xs = ys"
proof (induction xs arbitrary: ys)
  case (Cons x xs)
  then show ?case by (cases ys) (auto simp: enc_inj)
qed auto

end

end
