(* ===== verification/Json.thy ===== *)
theory Json
  imports Prelude
begin

text \<open>
  \<^verbatim>\<open>app/common/json.py\<close> and what it uses of Python's \<^verbatim>\<open>json\<close> module: JSON values, the compact
  writer (\<^verbatim>\<open>separators=(",", ":"), sort_keys=True\<close>, ASCII escapes), the reader, and the
  hexadecimal text of bytes. Objects are dictionaries in insertion order. A float is the
  decimal fraction \<open>m / 10 ^ k\<close> that its \<^verbatim>\<open>repr\<close> shows; exponent notation, NaN, the infinities and
  escapes of code points above 255 are outside the model (the reader returns \<^const>\<open>None\<close> on them).
  The main result is the round trip \<open>loads_dumps\<close>: reading what was written gives the value
  back with its keys sorted, so the text that is hashed and signed determines the value.
\<close>

section \<open>Values\<close>

datatype json =
    JNull
  | JBool bool
  | JInt int
  | JFloat int nat
  | JStr string
  | JList "json list"
  | JObj "(string \<times> json) list"

type_synonym payload = "(string, json) dict"

text \<open>
  \<^verbatim>\<open>isinstance(x, int)\<close> also holds of \<^verbatim>\<open>True\<close> and \<^verbatim>\<open>False\<close>, so an integer field can hold a boolean:
  its number is 1 or 0, its text is \<^verbatim>\<open>True\<close> or \<^verbatim>\<open>False\<close>.
\<close>

datatype pyint = PyInt int | PyBool bool

fun pyint_val :: "pyint \<Rightarrow> int" where
  "pyint_val (PyInt i) = i"
| "pyint_val (PyBool b) = (if b then 1 else 0)"

fun json_of_pyint :: "pyint \<Rightarrow> json" where
  "json_of_pyint (PyInt i) = JInt i"
| "json_of_pyint (PyBool b) = JBool b"

fun as_pyint :: "json \<Rightarrow> pyint option" where
  "as_pyint (JInt i) = Some (PyInt i)"
| "as_pyint (JBool b) = Some (PyBool b)"
| "as_pyint _ = None"

fun as_str :: "json \<Rightarrow> string option" where
  "as_str (JStr s) = Some s"
| "as_str _ = None"

fun as_obj :: "json \<Rightarrow> payload option" where
  "as_obj (JObj kvs) = Some kvs"
| "as_obj _ = None"

fun as_list :: "json \<Rightarrow> json list option" where
  "as_list (JList xs) = Some xs"
| "as_list _ = None"

text \<open>A field that holds a string or \<^verbatim>\<open>None\<close>.\<close>

fun opt_str :: "string option \<Rightarrow> json" where
  "opt_str None = JNull"
| "opt_str (Some s) = JStr s"

text \<open>\<^verbatim>\<open>payload.get(name)\<close>: a missing key reads as \<^verbatim>\<open>None\<close>.\<close>

definition jget :: "payload \<Rightarrow> string \<Rightarrow> json" where
  "jget p f = (case dict_get p f of None \<Rightarrow> JNull | Some v \<Rightarrow> v)"

text \<open>A field read as a non-empty string: \<^verbatim>\<open>isinstance(value, str) and value\<close>.\<close>

definition jget_nonempty_str :: "payload \<Rightarrow> string \<Rightarrow> string option" where
  "jget_nonempty_str p f = (case as_str (jget p f) of
     Some s \<Rightarrow> if s = [] then None else Some s | None \<Rightarrow> None)"

lemma as_pyint_json_of_pyint [simp]: "as_pyint (json_of_pyint i) = Some i"
  by (cases i) auto

section \<open>The writer\<close>

fun digit_char :: "nat \<Rightarrow> char" where
  "digit_char n = char_of (n + 48)"

fun nat_text :: "nat \<Rightarrow> string" where
  "nat_text n = (if n < 10 then [digit_char n] else nat_text (n div 10) @ [digit_char (n mod 10)])"

declare nat_text.simps [simp del]

definition int_text :: "int \<Rightarrow> string" where
  "int_text i = (if i < 0 then CHR ''-'' # nat_text (nat (- i)) else nat_text (nat i))"

text \<open>\<^verbatim>\<open>str(x)\<close> of an integer or a boolean.\<close>

fun pyint_str :: "pyint \<Rightarrow> string" where
  "pyint_str (PyInt i) = int_text i"
| "pyint_str (PyBool b) = (if b then ''True'' else ''False'')"

text \<open>The last \<open>k\<close> decimal digits of a number.\<close>

fun frac_text :: "nat \<Rightarrow> nat \<Rightarrow> string" where
  "frac_text 0 n = []"
| "frac_text (Suc k) n = frac_text k (n div 10) @ [digit_char (n mod 10)]"

definition float_text :: "int \<Rightarrow> nat \<Rightarrow> string" where
  "float_text m k = (let a = nat \<bar>m\<bar> in
     (if m < 0 then [CHR ''-''] else []) @ nat_text (a div 10 ^ k) @ CHR ''.'' # frac_text k (a mod 10 ^ k))"

definition hex_digit :: "nat \<Rightarrow> char" where
  "hex_digit n = (if n < 10 then char_of (n + 48) else char_of (n + 87))"

definition hex_byte :: "char \<Rightarrow> string" where
  "hex_byte c = [hex_digit (of_char c div 16), hex_digit (of_char c mod 16)]"

definition esc_char :: "char \<Rightarrow> string" where
  "esc_char c =
     (if c = CHR 0x22 then [CHR 0x5C, CHR 0x22]
      else if c = CHR 0x5C then [CHR 0x5C, CHR 0x5C]
      else if c = CHR 0x08 then [CHR 0x5C, CHR ''b'']
      else if c = CHR 0x0C then [CHR 0x5C, CHR ''f'']
      else if c = CHR 0x0A then [CHR 0x5C, CHR ''n'']
      else if c = CHR 0x0D then [CHR 0x5C, CHR ''r'']
      else if c = CHR 0x09 then [CHR 0x5C, CHR ''t'']
      else if (of_char c :: nat) < 32 \<or> 126 < (of_char c :: nat)
        then [CHR 0x5C, CHR ''u'', CHR ''0'', CHR ''0''] @ hex_byte c
      else [c])"

definition quote :: "string \<Rightarrow> string" where
  "quote s = CHR 0x22 # concat (map esc_char s) @ [CHR 0x22]"

fun comma_join :: "string list \<Rightarrow> string" where
  "comma_join [] = []"
| "comma_join [x] = x"
| "comma_join (x # y # ys) = x @ CHR '','' # comma_join (y # ys)"

primrec enc :: "json \<Rightarrow> string" where
  "enc JNull = ''null''"
| "enc (JBool b) = (if b then ''true'' else ''false'')"
| "enc (JInt i) = int_text i"
| "enc (JFloat m k) = float_text m k"
| "enc (JStr s) = quote s"
| "enc (JList xs) = CHR ''['' # comma_join (map enc xs) @ '']''"
| "enc (JObj kvs) = CHR ''{'' #
     comma_join (map (\<lambda>(k, t). quote k @ CHR '':'' # t) (map (map_prod id enc) kvs)) @ ''}''"

primrec canon :: "json \<Rightarrow> json" where
  "canon JNull = JNull"
| "canon (JBool b) = JBool b"
| "canon (JInt i) = JInt i"
| "canon (JFloat m k) = JFloat m k"
| "canon (JStr s) = JStr s"
| "canon (JList xs) = JList (map canon xs)"
| "canon (JObj kvs) = JObj (sort_key fst (map (map_prod id canon) kvs))"

definition json_dumps :: "json \<Rightarrow> string" where
  "json_dumps v = enc (canon v)"

definition compact_json_text :: "payload \<Rightarrow> string" where
  "compact_json_text p = json_dumps (JObj p)"

text \<open>The compact text is ASCII, so its UTF-8 bytes are the text itself.\<close>

definition compact_json_bytes :: "payload \<Rightarrow> string" where
  "compact_json_bytes p = compact_json_text p"

definition bytes_to_hex :: "string \<Rightarrow> string" where
  "bytes_to_hex s = concat (map hex_byte s)"

definition canonical_payload_hex :: "payload \<Rightarrow> string" where
  "canonical_payload_hex p = bytes_to_hex (compact_json_bytes p)"

section \<open>The reader\<close>

definition is_ws :: "char \<Rightarrow> bool" where
  "is_ws c \<longleftrightarrow> c = CHR 0x20 \<or> c = CHR 0x09 \<or> c = CHR 0x0A \<or> c = CHR 0x0D"

definition skip_ws :: "string \<Rightarrow> string" where
  "skip_ws s = dropWhile is_ws s"

definition is_digit :: "char \<Rightarrow> bool" where
  "is_digit c \<longleftrightarrow> 48 \<le> (of_char c :: nat) \<and> (of_char c :: nat) \<le> 57"

definition digits_val :: "string \<Rightarrow> nat" where
  "digits_val s = foldl (\<lambda>n c. 10 * n + (of_char c - 48)) 0 s"

definition hex_val :: "char \<Rightarrow> nat option" where
  "hex_val c = (let n = of_char c in
     if 48 \<le> n \<and> n \<le> 57 then Some (n - 48)
     else if 97 \<le> n \<and> n \<le> 102 then Some (n - 87)
     else if 65 \<le> n \<and> n \<le> 70 then Some (n - 55) else None)"

definition hex2 :: "char \<Rightarrow> char \<Rightarrow> nat option" where
  "hex2 a b = (case (hex_val a, hex_val b) of
     (Some x, Some y) \<Rightarrow> Some (16 * x + y) | _ \<Rightarrow> None)"

text \<open>The escape after a backslash: the character it stands for and the rest of the text.\<close>

definition unescape :: "string \<Rightarrow> (char \<times> string) option" where
  "unescape s = (case s of [] \<Rightarrow> None
   | c # r \<Rightarrow>
       if c = CHR 0x22 \<or> c = CHR 0x5C \<or> c = CHR ''/'' then Some (c, r)
       else if c = CHR ''b'' then Some (CHR 0x08, r)
       else if c = CHR ''f'' then Some (CHR 0x0C, r)
       else if c = CHR ''n'' then Some (CHR 0x0A, r)
       else if c = CHR ''r'' then Some (CHR 0x0D, r)
       else if c = CHR ''t'' then Some (CHR 0x09, r)
       else if c = CHR ''u'' then (case r of
           h1 # h2 # h3 # h4 # r' \<Rightarrow>
             (case (hex2 h1 h2, hex2 h3 h4) of
                (Some 0, Some n) \<Rightarrow> Some (char_of n, r') | _ \<Rightarrow> None)
         | _ \<Rightarrow> None)
       else None)"

lemma unescape_shorter: "unescape s = Some (c, r) \<Longrightarrow> length r < length s"
  by (auto simp: unescape_def split: list.splits if_splits option.splits nat.splits)

function parse_str :: "string \<Rightarrow> (string \<times> string) option" where
  "parse_str s = (case s of [] \<Rightarrow> None
   | c # r \<Rightarrow>
       if c = CHR 0x22 then Some ([], r)
       else if c = CHR 0x5C then (case unescape r of None \<Rightarrow> None
         | Some (d, r') \<Rightarrow> map_option (apfst (Cons d)) (parse_str r'))
       else if (of_char c :: nat) < 32 then None
       else map_option (apfst (Cons c)) (parse_str r))"
  by pat_completeness auto
termination
  by (relation "measure length") (auto dest: unescape_shorter)

declare parse_str.simps [simp del]

text \<open>Trailing zeros of a decimal fraction are dropped down to one digit.\<close>

fun norm_frac :: "int \<Rightarrow> nat \<Rightarrow> json" where
  "norm_frac m 0 = JFloat m 0"
| "norm_frac m (Suc k) = (if 0 < k \<and> m mod 10 = 0 then norm_frac (m div 10) k else JFloat m (Suc k))"

definition split_sign :: "string \<Rightarrow> bool \<times> string" where
  "split_sign s = (if s \<noteq> [] \<and> hd s = CHR ''-'' then (True, tl s) else (False, s))"

definition lead_digits :: "string \<Rightarrow> string" where
  "lead_digits s = (if s \<noteq> [] \<and> hd s = CHR ''0'' then ''0'' else takeWhile is_digit s)"

definition frac_digits :: "string \<Rightarrow> string" where
  "frac_digits s = (if s \<noteq> [] \<and> hd s = CHR ''.'' then takeWhile is_digit (tl s) else [])"

definition parse_tail :: "bool \<Rightarrow> string \<Rightarrow> string \<Rightarrow> (json \<times> string) option" where
  "parse_tail neg ds r =
     (let fs = frac_digits r;
          r' = (if fs = [] then r else drop (length fs) (tl r));
          n = int (digits_val (ds @ fs));
          m = (if neg then - n else n)
      in if r' \<noteq> [] \<and> (hd r' = CHR ''e'' \<or> hd r' = CHR ''E'') then None
         else Some (if fs = [] then JInt m else norm_frac m (length fs), r'))"

definition parse_number :: "string \<Rightarrow> (json \<times> string) option" where
  "parse_number s =
     (let (neg, r) = split_sign s; ds = lead_digits r
      in if ds = [] then None else parse_tail neg ds (drop (length ds) r))"

text \<open>
  \<open>parse_value\<close> reads one value, \<open>parse_items\<close> the elements of an array after the opening
  bracket, \<open>parse_members\<close> the members of an object. Each call spends one unit of fuel; every
  second call consumes a character, so twice the length of the text is enough.
\<close>

fun parse_value :: "nat \<Rightarrow> string \<Rightarrow> (json \<times> string) option"
  and parse_items :: "nat \<Rightarrow> string \<Rightarrow> (json list \<times> string) option"
  and parse_members :: "nat \<Rightarrow> string \<Rightarrow> ((string \<times> json) list \<times> string) option" where
  "parse_value 0 s = None"
| "parse_value (Suc n) s = (case s of [] \<Rightarrow> None
   | c # r \<Rightarrow>
       if c = CHR 0x22 then map_option (apfst JStr) (parse_str r)
       else if c = CHR ''{'' then (case skip_ws r of [] \<Rightarrow> None
         | d # r' \<Rightarrow> if d = CHR ''}'' then Some (JObj [], r')
             else map_option (apfst (\<lambda>ps. JObj (fold (\<lambda>(k, v). dict_set k v) ps []))) (parse_members n (d # r')))
       else if c = CHR ''['' then (case skip_ws r of [] \<Rightarrow> None
         | d # r' \<Rightarrow> if d = CHR '']'' then Some (JList [], r')
             else map_option (apfst JList) (parse_items n (d # r')))
       else if take 4 s = ''null'' then Some (JNull, drop 4 s)
       else if take 4 s = ''true'' then Some (JBool True, drop 4 s)
       else if take 5 s = ''false'' then Some (JBool False, drop 5 s)
       else parse_number s)"
| "parse_items 0 s = None"
| "parse_items (Suc n) s = (case parse_value n s of None \<Rightarrow> None
   | Some (v, r) \<Rightarrow> (case skip_ws r of [] \<Rightarrow> None
     | d # r' \<Rightarrow> if d = CHR '']'' then Some ([v], r')
         else if d = CHR '','' then map_option (apfst (Cons v)) (parse_items n (skip_ws r'))
         else None))"
| "parse_members 0 s = None"
| "parse_members (Suc n) s = (case s of [] \<Rightarrow> None
   | q # s' \<Rightarrow> if q \<noteq> CHR 0x22 then None else
     (case parse_str s' of None \<Rightarrow> None
      | Some (k, r) \<Rightarrow> (case skip_ws r of [] \<Rightarrow> None
        | d # r' \<Rightarrow> if d \<noteq> CHR '':'' then None else
          (case parse_value n (skip_ws r') of None \<Rightarrow> None
           | Some (v, t) \<Rightarrow> (case skip_ws t of [] \<Rightarrow> None
             | e # t' \<Rightarrow> if e = CHR ''}'' then Some ([(k, v)], t')
                 else if e = CHR '','' then map_option (apfst (Cons (k, v))) (parse_members n (skip_ws t'))
                 else None)))))"

definition json_loads :: "string \<Rightarrow> json option" where
  "json_loads s = (case parse_value (2 * length s + 2) (skip_ws s) of
     Some (v, r) \<Rightarrow> if skip_ws r = [] then Some v else None | None \<Rightarrow> None)"

definition load_json_object :: "string option \<Rightarrow> payload" where
  "load_json_object raw = (case raw of None \<Rightarrow> [] | Some s \<Rightarrow>
     if s = [] then [] else (case json_loads s of
       Some (JObj p) \<Rightarrow> p | _ \<Rightarrow> []))"

section \<open>Round trip\<close>

lemma nat_text_nonempty [simp]: "nat_text n \<noteq> []"
  by (subst nat_text.simps) simp

lemma of_digit_char [simp]: "n < 10 \<Longrightarrow> (of_char (digit_char n) :: nat) = n + 48"
  by simp

lemma is_digit_digit_char [simp]: "n < 10 \<Longrightarrow> is_digit (digit_char n)"
  unfolding is_digit_def by (simp del: digit_char.simps)

declare digit_char.simps [simp del]

lemma digits_val_snoc [simp]: "digits_val (s @ [c]) = 10 * digits_val s + (of_char c - 48)"
  by (simp add: digits_val_def)

lemma digits_val_nat_text [simp]: "digits_val (nat_text n) = n"
proof (induction n rule: nat_text.induct)
  case (1 n)
  show ?case
  proof (cases "n < 10")
    case True
    then show ?thesis by (simp add: nat_text.simps [of n] digits_val_def)
  next
    case False
    with 1 show ?thesis by (simp add: nat_text.simps [of n])
  qed
qed

lemma nat_text_digits [simp]: "c \<in> set (nat_text n) \<Longrightarrow> is_digit c"
proof (induction n rule: nat_text.induct)
  case (1 n)
  then show ?case
    by (cases "n < 10") (auto simp: nat_text.simps [of n])
qed

lemma nat_text_zero: "hd (nat_text n) = CHR ''0'' \<Longrightarrow> n = 0"
proof (induction n rule: nat_text.induct)
  case (1 n)
  show ?case
  proof (cases "n < 10")
    case True
    with 1(2) have "digit_char n = CHR ''0''" by (simp add: nat_text.simps [of n])
    then have "(of_char (digit_char n) :: nat) = of_char (CHR ''0'')" by simp
    with True show ?thesis by simp
  next
    case False
    then have "hd (nat_text n) = hd (nat_text (n div 10))"
      by (simp add: nat_text.simps [of n])
    with 1 False have "n div 10 = 0" by simp
    with False show ?thesis by simp
  qed
qed

lemma length_frac_text [simp]: "length (frac_text k n) = k"
  by (induction k arbitrary: n) auto

lemma frac_text_digits [simp]: "c \<in> set (frac_text k n) \<Longrightarrow> is_digit c"
  by (induction k arbitrary: n) auto

lemma digits_val_frac_text: "digits_val (s @ frac_text k n) = digits_val s * 10 ^ k + n mod 10 ^ k"
proof (induction k arbitrary: n)
  case (Suc k)
  have "digits_val (s @ frac_text (Suc k) n) = 10 * digits_val (s @ frac_text k (n div 10)) + n mod 10"
    using digits_val_snoc [of "s @ frac_text k (n div 10)" "digit_char (n mod 10)"] by simp
  also have "\<dots> = digits_val s * 10 ^ Suc k + (10 * (n div 10 mod 10 ^ k) + n mod 10)"
    by (simp add: Suc.IH)
  also have "10 * (n div 10 mod 10 ^ k) + n mod 10 = n mod 10 ^ Suc k"
    by (simp add: mod_mult2_eq)
  finally show ?case .
qed simp

definition stop :: "string \<Rightarrow> bool" where
  "stop r \<longleftrightarrow> r = [] \<or> hd r = CHR '','' \<or> hd r = CHR '']'' \<or> hd r = CHR ''}''"

lemma not_digit [simp]: "\<not> is_digit CHR '',''" "\<not> is_digit CHR '']''" "\<not> is_digit CHR ''}''"
  "\<not> is_digit CHR ''.''" "\<not> is_digit CHR ''-''"
  by (simp_all add: is_digit_def)

lemma takeWhile_no_digit: "r = [] \<or> \<not> is_digit (hd r) \<Longrightarrow> takeWhile is_digit r = []"
  by (cases r) auto

lemma nat_text_0: "nat_text 0 = ''0''"
  by code_simp

lemma hd_nat_text: "is_digit (hd (nat_text n))"
  by (rule nat_text_digits [of _ n]) simp

lemma lead_digits_nat_text:
  assumes "r = [] \<or> \<not> is_digit (hd r)"
  shows "lead_digits (nat_text n @ r) = nat_text n"
proof (cases "n = 0")
  case True
  then show ?thesis by (simp add: lead_digits_def nat_text_0)
next
  case False
  with nat_text_zero [of n] have "hd (nat_text n) \<noteq> CHR ''0''" by blast
  with takeWhile_no_digit [OF assms] show ?thesis by (simp add: lead_digits_def)
qed

lemma split_sign_nat_text [simp]: "split_sign (nat_text n @ r) = (False, nat_text n @ r)"
  using hd_nat_text [of n] by (auto simp: split_sign_def)

lemma split_sign_minus [simp]: "split_sign (CHR ''-'' # s) = (True, s)"
  by (simp add: split_sign_def)

lemma parse_number_signed:
  assumes "r = [] \<or> \<not> is_digit (hd r)"
  shows "parse_number ((if neg then [CHR ''-''] else []) @ nat_text n @ r) = parse_tail neg (nat_text n) r"
  using assms by (auto simp: parse_number_def lead_digits_nat_text)

lemma parse_tail_int:
  "stop r \<Longrightarrow> parse_tail neg (nat_text n) r = Some (JInt (if neg then - int n else int n), r)"
  by (auto simp: parse_tail_def stop_def frac_digits_def Let_def)

lemma stop_not_digit: "stop r \<Longrightarrow> r = [] \<or> \<not> is_digit (hd r)"
  by (auto simp: stop_def)

lemma parse_number_int:
  assumes "stop r"
  shows "parse_number (int_text i @ r) = Some (JInt i, r)"
proof -
  have "int_text i @ r = (if i < 0 then [CHR ''-''] else []) @ nat_text (nat \<bar>i\<bar>) @ r"
    by (simp add: int_text_def)
  then show ?thesis
    using parse_number_signed [OF stop_not_digit [OF assms], of "i < 0" "nat \<bar>i\<bar>"]
      parse_tail_int [OF assms, of "i < 0" "nat \<bar>i\<bar>"] by auto
qed

lemma norm_frac_canonical: "k = 1 \<or> m mod 10 \<noteq> 0 \<Longrightarrow> 1 \<le> k \<Longrightarrow> norm_frac m k = JFloat m k"
  by (cases k) auto

lemma parse_tail_frac:
  assumes "stop r" and "1 \<le> k" and "n = a * 10 ^ k + b mod 10 ^ k"
  shows "parse_tail neg (nat_text a) (CHR ''.'' # frac_text k b @ r) =
    Some (norm_frac (if neg then - int n else int n) k, r)"
proof -
  have fd: "frac_digits (CHR ''.'' # frac_text k b @ r) = frac_text k b"
    by (simp add: frac_digits_def takeWhile_no_digit [OF stop_not_digit [OF assms(1)]])
  have "frac_text k b \<noteq> []" using assms(2) length_frac_text [of k b] by fastforce
  with assms(1) show ?thesis
    by (auto simp: parse_tail_def fd Let_def digits_val_frac_text stop_def assms(3))
qed

lemma parse_number_float:
  assumes "stop r" and "1 \<le> k" and "k = 1 \<or> m mod 10 \<noteq> 0"
  shows "parse_number (float_text m k @ r) = Some (JFloat m k, r)"
proof -
  let ?a = "nat \<bar>m\<bar>"
  have txt_eq: "float_text m k @ r = (if m < 0 then [CHR ''-''] else []) @ nat_text (?a div 10 ^ k) @
      (CHR ''.'' # frac_text k (?a mod 10 ^ k) @ r)"
    by (simp add: float_text_def Let_def)
  have val: "?a = ?a div 10 ^ k * 10 ^ k + ?a mod 10 ^ k mod 10 ^ k"
    by (simp add: div_mult_mod_eq)
  have "parse_number (float_text m k @ r) = Some (norm_frac (if m < 0 then - int ?a else int ?a) k, r)"
    unfolding txt_eq by (subst parse_number_signed) (simp, rule parse_tail_frac [OF assms(1,2) val])
  then show ?thesis
    using norm_frac_canonical [OF assms(3,2)] by simp
qed

lemma hex_val_hex_digit [simp]: "n < 16 \<Longrightarrow> hex_val (hex_digit n) = Some n"
  by (auto simp: hex_val_def hex_digit_def Let_def)

lemma byte_nibbles: "(of_char c :: nat) div 16 < 16" "(of_char c :: nat) mod 16 < 16"
proof -
  have "(of_char c :: nat) < 256" by simp
  then show "(of_char c :: nat) div 16 < 16" "(of_char c :: nat) mod 16 < 16" by linarith+
qed

lemma hex2_byte [simp]:
  "hex2 (hex_digit (of_char c div 16)) (hex_digit (of_char c mod 16)) = Some (of_char c)"
  by (simp add: hex2_def byte_nibbles)

lemma hex2_00 [simp]: "hex2 CHR ''0'' CHR ''0'' = Some 0"
  by (simp add: hex2_def hex_val_def)

lemma esc_char_plain:
  "32 \<le> (of_char c :: nat) \<Longrightarrow> (of_char c :: nat) \<le> 126 \<Longrightarrow> c \<noteq> CHR 0x22 \<Longrightarrow> c \<noteq> CHR 0x5C \<Longrightarrow>
   esc_char c = [c]"
  by (auto simp: esc_char_def)

lemma parse_str_esc:
  "parse_str (esc_char c @ r) = map_option (apfst (Cons c)) (parse_str r)"
proof (cases "32 \<le> (of_char c :: nat) \<and> (of_char c :: nat) \<le> 126 \<and> c \<noteq> CHR 0x22 \<and> c \<noteq> CHR 0x5C")
  case True
  then show ?thesis by (simp add: esc_char_plain parse_str.simps [of "c # r"])
next
  case False
  then have "\<exists>t. esc_char c @ r = CHR 0x5C # t \<and> unescape t = Some (c, r)"
    by (auto simp: esc_char_def unescape_def hex_byte_def)
  then show ?thesis by (auto simp: parse_str.simps [of "esc_char c @ r"])
qed

lemma parse_str_quoted: "parse_str (concat (map esc_char s) @ CHR 0x22 # r) = Some (s, r)"
proof (induction s)
  case Nil
  then show ?case by (simp add: parse_str.simps)
next
  case (Cons c s)
  then show ?case by (simp add: parse_str_esc)
qed


primrec wf_json :: "json \<Rightarrow> bool" where
  "wf_json JNull = True"
| "wf_json (JBool b) = True"
| "wf_json (JInt i) = True"
| "wf_json (JFloat m k) = (1 \<le> k \<and> (k = 1 \<or> m mod 10 \<noteq> 0))"
| "wf_json (JStr s) = True"
| "wf_json (JList xs) = list_all id (map wf_json xs)"
| "wf_json (JObj kvs) = (distinct (map fst kvs) \<and> list_all snd (map (map_prod id wf_json) kvs))"

lemma wf_json_JObj: "wf_json (JObj kvs) \<longleftrightarrow> distinct (map fst kvs) \<and> (\<forall>(k, v) \<in> set kvs. wf_json v)"
  by (auto simp: list_all_iff)

lemma wf_json_JList: "wf_json (JList xs) \<longleftrightarrow> (\<forall>v \<in> set xs. wf_json v)"
  by (auto simp: list_all_iff)

declare wf_json.simps(6,7) [simp del]
declare wf_json_JObj [simp] wf_json_JList [simp]

text \<open>No encoded value starts with white space or a closing bracket.\<close>

definition starter :: "char \<Rightarrow> bool" where
  "starter c \<longleftrightarrow> \<not> is_ws c \<and> c \<noteq> CHR '']'' \<and> c \<noteq> CHR ''}''"

lemma starter_digit: "is_digit c \<Longrightarrow> starter c"
  by (auto simp: starter_def is_digit_def is_ws_def)

lemma starter_enc: "enc v \<noteq> [] \<and> starter (hd (enc v))"
proof (cases v)
  case (JInt i)
  then show ?thesis
    using hd_nat_text by (auto simp: int_text_def starter_digit) (auto simp: starter_def is_ws_def)
next
  case (JFloat m k)
  then show ?thesis
    using hd_nat_text by (auto simp: float_text_def Let_def starter_digit) (auto simp: starter_def is_ws_def)
qed (auto simp: starter_def is_ws_def quote_def)

lemma skip_ws_starter: "s \<noteq> [] \<Longrightarrow> starter (hd s) \<Longrightarrow> skip_ws s = s"
  by (cases s) (auto simp: skip_ws_def starter_def)

lemma skip_ws_enc [simp]: "skip_ws (enc v @ r) = enc v @ r"
  using starter_enc [of v] by (intro skip_ws_starter) auto

lemma skip_ws_stop [simp]: "stop r \<Longrightarrow> skip_ws r = r"
  by (cases r) (auto simp: skip_ws_def stop_def is_ws_def)

lemma stop_simps [simp]: "stop []" "stop (CHR '','' # r)" "stop (CHR '']'' # r)" "stop (CHR ''}'' # r)"
  by (simp_all add: stop_def)

lemma skip_ws_quote [simp]: "skip_ws (CHR 0x22 # r) = CHR 0x22 # r" "skip_ws (CHR '':'' # r) = CHR '':'' # r"
  by (simp_all add: skip_ws_def is_ws_def)

lemma number_start:
  assumes "is_digit c \<or> c = CHR ''-''"
  shows "c \<notin> set [CHR 0x22, CHR ''{'', CHR ''['', CHR ''n'', CHR ''t'', CHR ''f'']"
  using assms by (auto simp: is_digit_def)

lemma parse_value_number:
  assumes "is_digit c \<or> c = CHR ''-''"
  shows "parse_value (Suc n) (c # r) = parse_number (c # r)"
proof -
  have "take 4 (c # r) \<noteq> ''null''" "take 4 (c # r) \<noteq> ''true''" "take 5 (c # r) \<noteq> ''false''"
    using number_start [OF assms] by (auto simp: numeral_eq_Suc)
  with number_start [OF assms] show ?thesis by (simp del: take_Suc_Cons)
qed

lemma parse_value_number_text:
  assumes "s = (if neg then [CHR ''-''] else []) @ nat_text a @ t" and "0 < n"
  shows "parse_value n s = parse_number s"
proof -
  obtain m where n: "n = Suc m" using assms(2) by (cases n) auto
  obtain c r where s: "s = c # r" "is_digit c \<or> c = CHR ''-''"
    using assms(1) hd_nat_text [of a] by (cases neg; cases "nat_text a") auto
  show ?thesis unfolding n s(1) by (rule parse_value_number [OF s(2)])
qed

definition reads_back :: "json \<Rightarrow> bool" where
  "reads_back v \<longleftrightarrow> (\<forall>n r. stop r \<longrightarrow> 2 * length (enc v) \<le> n \<longrightarrow>
     parse_value n (enc v @ r) = Some (v, r))"

lemma reads_backD:
  "reads_back v \<Longrightarrow> stop r \<Longrightarrow> 2 * length (enc v) \<le> n \<Longrightarrow> parse_value n (enc v @ r) = Some (v, r)"
  by (simp add: reads_back_def)

lemma parse_items_enc:
  assumes "xs \<noteq> []" and "\<And>x. x \<in> set xs \<Longrightarrow> reads_back x"
    and "2 * length (comma_join (map enc xs)) < n"
  shows "parse_items n (comma_join (map enc xs) @ CHR '']'' # r) = Some (xs, r)"
  using assms
proof (induction xs arbitrary: n rule: induct_list012)
  case 1
  then show ?case by simp
next
  case (2 x)
  then obtain m where n: "n = Suc m" by (cases n) auto
  have "parse_value m (enc x @ CHR '']'' # r) = Some (x, CHR '']'' # r)"
    using 2 n by (intro reads_backD) auto
  with n show ?case by simp
next
  case (3 x y ys)
  then obtain m where n: "n = Suc m" by (cases n) auto
  let ?rest = "comma_join (map enc (y # ys)) @ CHR '']'' # r"
  have v: "parse_value m (enc x @ CHR '','' # ?rest) = Some (x, CHR '','' # ?rest)"
    using 3 n by (intro reads_backD) auto
  have i: "parse_items m ?rest = Some (y # ys, r)"
    using 3 n by (intro "3.IH") auto
  have "skip_ws ?rest = ?rest"
    using starter_enc [of y] by (intro skip_ws_starter) (cases ys; simp)+
  with n v i show ?case by simp
qed

definition member_text :: "string \<times> json \<Rightarrow> string" where
  "member_text kv = quote (fst kv) @ CHR '':'' # enc (snd kv)"

lemma enc_JObj: "enc (JObj kvs) = CHR ''{'' # comma_join (map member_text kvs) @ ''}''"
proof -
  have "map (\<lambda>(k, t). quote k @ CHR '':'' # t) (map (map_prod id enc) kvs) = map member_text kvs"
    by (auto simp: member_text_def)
  then show ?thesis by (simp only: enc.simps)
qed

lemma parse_members_step:
  assumes "reads_back v" and "stop t" and "2 * length (enc v) \<le> m"
  shows "parse_members (Suc m) (member_text (k, v) @ t) =
    (case t of [] \<Rightarrow> None
     | e # t' \<Rightarrow> if e = CHR ''}'' then Some ([(k, v)], t')
         else if e = CHR '','' then map_option (apfst (Cons (k, v))) (parse_members m (skip_ws t'))
         else None)"
proof -
  have "parse_str (concat (map esc_char k) @ CHR 0x22 # CHR '':'' # enc v @ t) = Some (k, CHR '':'' # enc v @ t)"
    by (rule parse_str_quoted)
  with reads_backD [OF assms] assms(2) show ?thesis
    by (simp add: member_text_def quote_def)
qed

lemma member_text_hd [simp]: "member_text kv \<noteq> []" "hd (member_text kv) = CHR 0x22"
  by (auto simp: member_text_def quote_def)

lemma starter_members: "kvs \<noteq> [] \<Longrightarrow>
  \<exists>s. comma_join (map member_text kvs) @ t = CHR 0x22 # s"
  by (cases kvs; cases "tl kvs") (auto simp: member_text_def quote_def)

lemma length_member_text: "length (enc v) < length (member_text (k, v))"
  by (simp add: member_text_def quote_def)

lemma parse_members_enc:
  assumes "kvs \<noteq> []" and "\<And>k v. (k, v) \<in> set kvs \<Longrightarrow> reads_back v"
    and "2 * length (comma_join (map member_text kvs)) < n"
  shows "parse_members n (comma_join (map member_text kvs) @ CHR ''}'' # r) = Some (kvs, r)"
  using assms
proof (induction kvs arbitrary: n rule: induct_list012)
  case 1
  then show ?case by simp
next
  case (2 kv)
  then obtain m where n: "n = Suc m" by (cases n) auto
  obtain k v where kv: "kv = (k, v)" by (cases kv)
  have "parse_members (Suc m) (member_text (k, v) @ CHR ''}'' # r) = Some ([(k, v)], r)"
    using 2 n kv length_member_text [of v k] by (subst parse_members_step) auto
  with n kv show ?case by simp
next
  case (3 kv kv' kvs)
  then obtain m where n: "n = Suc m" by (cases n) auto
  obtain k v where kv: "kv = (k, v)" by (cases kv)
  let ?rest = "comma_join (map member_text (kv' # kvs)) @ CHR ''}'' # r"
  have i: "parse_members m ?rest = Some (kv' # kvs, r)"
    using 3 n by (intro "3.IH") auto
  have "parse_members (Suc m) (member_text (k, v) @ CHR '','' # ?rest) =
      map_option (apfst (Cons (k, v))) (parse_members m (skip_ws ?rest))"
    using 3 n kv length_member_text [of v k] by (subst parse_members_step) auto
  moreover have "skip_ws ?rest = ?rest"
    using starter_members [of "kv' # kvs" "CHR ''}'' # r"] by auto
  ultimately show ?case using n kv i by simp
qed

lemma fold_dict_set_distinct:
  "distinct (map fst (d @ ps)) \<Longrightarrow> fold (\<lambda>(k, v). dict_set k v) ps d = d @ ps"
proof (induction ps arbitrary: d)
  case (Cons p ps)
  obtain k v where p: "p = (k, v)" by (cases p)
  with Cons.prems have "dict_set k v d = d @ [(k, v)]"
    by (intro dict_set_append) (auto simp: dict_get_None_iff)
  with Cons.IH [of "d @ [(k, v)]"] Cons.prems p show ?case by simp
qed simp

lemma enc_fuel: "2 * length (enc v) \<le> n \<Longrightarrow> \<exists>m. n = Suc m"
  using starter_enc [of v] by (cases n) auto

lemma reads_backI:
  "(\<And>m r. stop r \<Longrightarrow> parse_value (Suc m) (enc v @ r) = Some (v, r)) \<Longrightarrow> reads_back v"
  unfolding reads_back_def using enc_fuel by blast

lemma reads_back_JInt: "reads_back (JInt i)"
  unfolding reads_back_def
proof (intro allI impI)
  fix n r assume r: "stop r" and "2 * length (enc (JInt i)) \<le> n"
  then have "0 < n" using enc_fuel by blast
  then have "parse_value n (int_text i @ r) = parse_number (int_text i @ r)"
    by (intro parse_value_number_text [of _ "i < 0" "nat \<bar>i\<bar>" r]) (auto simp: int_text_def)
  with parse_number_int [OF r] show "parse_value n (enc (JInt i) @ r) = Some (JInt i, r)" by simp
qed

lemma reads_back_JFloat:
  assumes "wf_json (JFloat m k)"
  shows "reads_back (JFloat m k)"
  unfolding reads_back_def
proof (intro allI impI)
  fix n r assume r: "stop r" and "2 * length (enc (JFloat m k)) \<le> n"
  then have "0 < n" using enc_fuel by blast
  then have "parse_value n (float_text m k @ r) = parse_number (float_text m k @ r)"
    by (intro parse_value_number_text [of _ "m < 0" "nat \<bar>m\<bar> div 10 ^ k"])
      (auto simp: float_text_def Let_def)
  with parse_number_float [OF r, of k m] assms
  show "parse_value n (enc (JFloat m k) @ r) = Some (JFloat m k, r)" by simp
qed

lemma reads_back_JList:
  assumes "\<And>x. x \<in> set xs \<Longrightarrow> reads_back x"
  shows "reads_back (JList xs)"
  unfolding reads_back_def
proof (intro allI impI)
  fix n r assume "stop r" and n: "2 * length (enc (JList xs)) \<le> n"
  then obtain m where m: "n = Suc m" by (cases n) auto
  show "parse_value n (enc (JList xs) @ r) = Some (JList xs, r)"
  proof (cases "xs = []")
    case True
    with m show ?thesis by (simp add: skip_ws_stop)
  next
    case False
    let ?body = "comma_join (map enc xs) @ CHR '']'' # r"
    have items: "parse_items m ?body = Some (xs, r)"
      using False assms n m by (intro parse_items_enc) auto
    obtain x ys where xs: "xs = x # ys" using False by (cases xs) auto
    then have "?body \<noteq> []" "starter (hd ?body)"
      using starter_enc [of x] by (cases ys; simp)+
    then obtain c s where c: "?body = c # s" "starter c" by (cases ?body) auto
    then have "skip_ws (c # s) = c # s" "c \<noteq> CHR '']''"
      by (auto simp: starter_def skip_ws_def)
    with m c(1) items show ?thesis by simp
  qed
qed

lemma reads_back_JObj:
  assumes "\<And>k v. (k, v) \<in> set kvs \<Longrightarrow> reads_back v" and "distinct (map fst kvs)"
  shows "reads_back (JObj kvs)"
  unfolding reads_back_def
proof (intro allI impI)
  fix n r assume "stop r" and n: "2 * length (enc (JObj kvs)) \<le> n"
  then obtain m where m: "n = Suc m" using enc_fuel by blast
  show "parse_value n (enc (JObj kvs) @ r) = Some (JObj kvs, r)"
  proof (cases "kvs = []")
    case True
    with m show ?thesis by (simp add: skip_ws_stop)
  next
    case False
    let ?body = "comma_join (map member_text kvs) @ CHR ''}'' # r"
    have members: "parse_members m ?body = Some (kvs, r)"
      using False assms(1) n m by (intro parse_members_enc) (auto simp: enc_JObj simp del: enc.simps)
    obtain s where s: "?body = CHR 0x22 # s"
      using starter_members [OF False] by blast
    have "fold (\<lambda>(k, v). dict_set k v) kvs [] = kvs"
      using fold_dict_set_distinct [of "[]" kvs] assms(2) by simp
    with members s m show ?thesis by (simp add: enc_JObj del: enc.simps)
  qed
qed

lemma wf_json_reads_back: "wf_json v \<Longrightarrow> reads_back v"
proof (induction v)
  case (JList xs)
  then show ?case by (intro reads_back_JList) auto
next
  case (JObj kvs)
  then show ?case
    by (intro reads_back_JObj) (auto simp: snds.simps)
next
  case (JStr s)
  show ?case by (rule reads_backI) (simp add: quote_def parse_str_quoted)
next
  case JNull
  show ?case by (rule reads_backI) simp
next
  case (JBool b)
  show ?case by (rule reads_backI) simp
qed (auto intro: reads_back_JInt reads_back_JFloat)


lemma wf_json_canon: "wf_json v \<Longrightarrow> wf_json (canon v)"
proof (induction v)
  case (JList xs)
  then show ?case by (auto simp: wf_json_JList)
next
  case (JObj kvs)
  have "distinct (map fst (sort_key fst (map (map_prod id canon) kvs)))"
    using JObj.prems by (intro distinct_sort_key_map) (simp add: comp_def)
  with JObj show ?case by (fastforce simp: wf_json_JObj snds.simps)
qed auto

text \<open>What was written reads back, with the keys of every object sorted.\<close>

lemma enc_read: "wf_json v \<Longrightarrow> json_loads (enc v) = Some v"
proof -
  assume "wf_json v"
  then have "parse_value (2 * length (enc v) + 2) (enc v @ []) = Some (v, [])"
    by (intro reads_backD wf_json_reads_back) auto
  moreover have "skip_ws (enc v @ []) = enc v @ []" by (rule skip_ws_enc)
  ultimately show ?thesis by (simp add: json_loads_def skip_ws_def)
qed

lemma loads_dumps: "wf_json v \<Longrightarrow> json_loads (json_dumps v) = Some (canon v)"
  by (simp add: json_dumps_def enc_read wf_json_canon)

interpretation js: codec enc json_loads wf_json
  by unfold_locales (rule enc_read)

lemma json_dumps_eq_iff:
  "wf_json v \<Longrightarrow> wf_json w \<Longrightarrow> json_dumps v = json_dumps w \<longleftrightarrow> canon v = canon w"
  by (simp add: json_dumps_def js.enc_inj wf_json_canon)

text \<open>Hexadecimal text of bytes.\<close>

fun hex_to_bytes_opt :: "string \<Rightarrow> string option" where
  "hex_to_bytes_opt [] = Some []"
| "hex_to_bytes_opt [c] = None"
| "hex_to_bytes_opt (a # b # r) = (case hex2 a b of None \<Rightarrow> None
     | Some n \<Rightarrow> map_option (Cons (char_of n)) (hex_to_bytes_opt r))"

interpretation hx: codec bytes_to_hex hex_to_bytes_opt "\<lambda>_. True"
proof
  fix s :: string
  show "hex_to_bytes_opt (bytes_to_hex s) = Some s"
    by (induction s) (auto simp: bytes_to_hex_def hex_byte_def)
qed

lemma canonical_payload_hex_eq_iff:
  assumes "wf_json (JObj p)" and "wf_json (JObj q)"
  shows "canonical_payload_hex p = canonical_payload_hex q \<longleftrightarrow> canon (JObj p) = canon (JObj q)"
  by (simp add: canonical_payload_hex_def compact_json_bytes_def compact_json_text_def hx.enc_inj
      json_dumps_eq_iff [OF assms] del: canon.simps)

lemma length_bytes_to_hex [simp]: "length (bytes_to_hex s) = 2 * length s"
  by (induction s) (auto simp: bytes_to_hex_def hex_byte_def)

text \<open>Two objects with the same canonical text hold the same value, canonically, at every key.\<close>

lemma dict_get_sorted:
  assumes "distinct (map fst kvs)"
  shows "dict_get (sort_key fst kvs) k = dict_get kvs k"
proof -
  have "distinct (map fst (sort_key fst kvs))" by (rule distinct_sort_key_map [OF assms])
  then have "map_of (sort_key fst kvs) = map_of kvs"
    using assms by (intro map_of_inject_set [THEN iffD2]) auto
  then show ?thesis by (simp add: dict_get_def)
qed

lemma dict_get_map_canon: "dict_get (map (map_prod id canon) d) k = map_option canon (dict_get d k)"
  by (simp add: dict_get_def map_prod_def id_def map_of_map)

lemma canon_obj_get:
  assumes "distinct (map fst p)" and "distinct (map fst q)" and "canon (JObj p) = canon (JObj q)"
  shows "map_option canon (dict_get p k) = map_option canon (dict_get q k)"
proof -
  have "dict_get (sort_key fst (map (map_prod id canon) p)) k =
      dict_get (sort_key fst (map (map_prod id canon) q)) k"
    using assms(3) by simp
  with assms(1,2) show ?thesis
    by (simp add: dict_get_sorted comp_def dict_get_map_canon)
qed

lemma compact_json_text_nonempty: "compact_json_text p \<noteq> []"
  using starter_enc [of "canon (JObj p)"] by (simp add: compact_json_text_def json_dumps_def del: canon.simps)

text \<open>What the reader returns is well formed, canonical values are their own canonical form, and the
  written text is ASCII.\<close>

lemma wf_norm_frac: "0 < k \<Longrightarrow> wf_json (norm_frac m k)"
  by (induction m k rule: norm_frac.induct) auto

lemma parse_number_wf: "parse_number s = Some (v, r) \<Longrightarrow> wf_json v"
  by (auto simp: parse_number_def parse_tail_def Let_def wf_norm_frac split: prod.splits if_splits)

lemma wf_json_fold_dict_set:
  assumes "dict_ok d" and "list_all (\<lambda>(k, v). wf_json v) d" and "list_all (\<lambda>(k, v). wf_json v) ps"
  shows "wf_json (JObj (fold (\<lambda>(k, v). dict_set k v) ps d))"
  using assms
proof (induction ps arbitrary: d)
  case Nil
  then show ?case by (auto simp: wf_json_JObj dict_ok_def list_all_iff)
next
  case (Cons p ps)
  obtain k v where p: "p = (k, v)" by (cases p)
  have "dict_ok (dict_set k v d)" using Cons.prems(1) by simp
  moreover have "list_all (\<lambda>(k, v). wf_json v) (dict_set k v d)"
    using Cons.prems p by (auto simp: list_all_iff set_dict_set)
  moreover have "list_all (\<lambda>(k, v). wf_json v) ps" using Cons.prems(3) by simp
  ultimately have "wf_json (JObj (fold (\<lambda>(k, v). dict_set k v) ps (dict_set k v d)))" by (rule Cons.IH)
  then show ?case unfolding p by (simp only: fold_simps prod.case)
qed

lemma wf_json_members: "list_all (\<lambda>(k, v). wf_json v) ps \<Longrightarrow> wf_json (JObj (fold (\<lambda>(k, v). dict_set k v) ps []))"
  by (rule wf_json_fold_dict_set) auto

lemma parse_wf:
  "parse_value n s = Some (v, r) \<Longrightarrow> wf_json v"
  "parse_items n s = Some (vs, r) \<Longrightarrow> list_all wf_json vs"
  "parse_members n s = Some (ps, r) \<Longrightarrow> list_all (\<lambda>(k, v). wf_json v) ps"
proof (induction n s and n s and n s arbitrary: v r and vs r and ps r
    rule: parse_value_parse_items_parse_members.induct)
  case (2 n s)
  then show ?case
    by (auto simp: parse_number_wf list_all_iff [of wf_json] wf_json_JObj [of "[]"] intro!: wf_json_members split: list.splits if_splits
        simp del: wf_json_JObj)
next
  case (4 n s)
  then show ?case
    by (auto split: list.splits if_splits option.splits)
next
  case (6 n s)
  then show ?case
    by (auto split: list.splits if_splits option.splits)
qed simp_all

lemma json_loads_wf: "json_loads s = Some v \<Longrightarrow> wf_json v"
  by (auto simp: json_loads_def simp del: parse_value.simps split: option.splits if_splits dest: parse_wf(1))

lemma sort_key_map_prod: "sort_key fst (map (map_prod id g) xs) = map (map_prod id g) (sort_key fst xs)"
proof -
  have "insort_key fst (map_prod id g x) (map (map_prod id g) ys) = map (map_prod id g) (insort_key fst x ys)" for x ys
    by (induction ys) auto
  note step = this
  show ?thesis by (induction xs) (simp_all only: list.map sort_key_simps step)
qed

lemma canon_idem [simp]: "canon (canon v) = canon v"
proof (induction v)
  case (JObj kvs)
  then have "map (map_prod id canon) (map (map_prod id canon) kvs) = map (map_prod id canon) kvs"
    by (auto simp: snds.simps)
  then show ?case by (simp only: canon.simps sort_key_map_prod [symmetric]) (simp add: sort_key_idem_list)
qed auto

lemma ascii_simps [simp]: "ascii []" "ascii (c # s) \<longleftrightarrow> (of_char c :: nat) < 128 \<and> ascii s"
  "ascii (s @ t) \<longleftrightarrow> ascii s \<and> ascii t"
  by (auto simp: ascii_def)

lemma ascii_digits: "(\<And>c. c \<in> set s \<Longrightarrow> is_digit c) \<Longrightarrow> ascii s"
  unfolding ascii_def list_all_iff is_digit_def by force

lemma ascii_hex_digit: "n < 16 \<Longrightarrow> (of_char (hex_digit n) :: nat) < 128"
  by (simp add: hex_digit_def of_char_of)

lemma ascii_esc_char: "ascii (esc_char c)"
  by (auto simp: esc_char_def hex_byte_def ascii_hex_digit byte_nibbles)

lemma ascii_quote: "ascii (quote s)"
  by (induction s) (auto simp: quote_def ascii_esc_char)

lemma ascii_comma_join: "(\<And>x. x \<in> set xs \<Longrightarrow> ascii x) \<Longrightarrow> ascii (comma_join xs)"
  by (induction xs rule: comma_join.induct) auto

lemma ascii_enc: "ascii (enc v)"
proof (induction v)
  case (JList xs)
  then show ?case by (auto intro!: ascii_comma_join)
next
  case (JObj kvs)
  then show ?case by (auto intro!: ascii_comma_join simp: ascii_quote snds.simps)
qed (auto simp: ascii_quote int_text_def float_text_def Let_def intro!: ascii_digits)

lemma ascii_json_dumps: "ascii (json_dumps v)"
  by (simp add: json_dumps_def ascii_enc)

lemma utf8_decode_ascii: "ascii s \<Longrightarrow> utf8_decode s = Some s"
  using utf8_round_trip [of s] by (simp add: utf8_ascii)

lemma json_dumps_loads_utf8:
  assumes "wf_json v"
  shows "utf8_decode (json_dumps v) = Some (json_dumps v)" and "json_loads (json_dumps v) = Some (canon v)"
  using assms by (simp_all add: utf8_decode_ascii ascii_json_dumps loads_dumps)

section \<open>Properties\<close>

text \<open>
  What \<^verbatim>\<open>compact_json_text\<close> writes for an object, \<^verbatim>\<open>load_json_object\<close> reads back: the same
  object with the keys sorted at every level.
\<close>

theorem json_object_round_trip:
  assumes "wf_json (JObj p)"
  shows "JObj (load_json_object (Some (compact_json_text p))) = canon (JObj p)"
  using loads_dumps [OF assms] compact_json_text_nonempty [of p]
  by (simp add: load_json_object_def compact_json_text_def)

theorem json_object_round_trip_witness:
  "JObj (load_json_object (Some (compact_json_text [(''b'', JInt 2), (''a'', JList [JStr ''x'', JNull])]))) =
     JObj [(''a'', JList [JStr ''x'', JNull]), (''b'', JInt 2)]"
  by (subst json_object_round_trip) code_simp+

text \<open>
  The canonical text that is hashed and signed determines the object: two objects with the same
  \<^verbatim>\<open>canonical_payload_hex\<close> have the same keys and, at every key, the same value up to the order of
  keys inside it.
\<close>

theorem canonical_text_determines_object:
  assumes "wf_json (JObj p)" and "wf_json (JObj q)" and "canonical_payload_hex p = canonical_payload_hex q"
  shows "map_option canon (dict_get p k) = map_option canon (dict_get q k)"
  using assms canonical_payload_hex_eq_iff [OF assms(1,2)]
  by (intro canon_obj_get) (simp_all add: wf_json_JObj del: canon.simps)

theorem canonical_text_determines_object_witness:
  "map_option canon (dict_get [(''b'', JInt 2), (''a'', JNull)] ''b'') =
   map_option canon (dict_get [(''a'', JNull), (''b'', JInt 2)] ''b'')"
  by (rule canonical_text_determines_object) code_simp+

end
