(* ===== verification/Reliable.thy ===== *)
theory Reliable
  imports Json
begin

text \<open>
  \<^verbatim>\<open>app/sessions/reliable.py\<close>: the per-session state of the reliable-delivery layer, the
  construction of numbered outbound messages and the reception of inbound payloads (duplicate
  detection, buffering of out-of-order payloads, in-order delivery). \<^verbatim>\<open>datetime.isoformat\<close> is the
  parameter \<open>isofmt\<close>, \<^verbatim>\<open>uuid4\<close> the argument \<open>uuid\<close>.
\<close>

section \<open>Data\<close>

record reliable_outbound_message =
  ro_session_id :: string
  ro_session_scope :: string
  ro_reliable_message_id :: string
  ro_sequence_number :: int
  ro_inner_message_type :: string
  ro_inner_payload :: payload
  ro_created_at :: time_us
  ro_retry_after_seconds :: rat
  ro_max_attempts :: int
  ro_attempts :: int
  ro_last_sent_at :: "time_us option"
  ro_acked_at :: "time_us option"
  ro_failed_at :: "time_us option"
  ro_failure_reason :: "string option"

record reliable_inbound_message =
  ri_reliable_message_id :: string
  ri_sequence_number :: pyint
  ri_inner_message_type :: string
  ri_inner_payload :: payload
  ri_received_at :: time_us

record reliable_session_state =
  rs_session_id :: string
  rs_session_scope :: string
  rs_next_outbound_sequence :: int
  rs_next_expected_inbound_sequence :: int
  rs_outbound_by_sequence :: "(int, reliable_outbound_message) dict"
  rs_inbound_buffer_by_sequence :: "(int, reliable_inbound_message) dict"
  rs_delivered_message_ids :: "string set"

record reliable_receive_result =
  rr_ack_payload :: payload
  rr_deliveries :: "reliable_inbound_message list"
  rr_duplicate :: bool
  rr_buffered :: bool

definition new_reliable_session_state :: "string \<Rightarrow> string \<Rightarrow> reliable_session_state" where
  "new_reliable_session_state sid scope = \<lparr> rs_session_id = sid, rs_session_scope = scope,
     rs_next_outbound_sequence = 1, rs_next_expected_inbound_sequence = 1,
     rs_outbound_by_sequence = [], rs_inbound_buffer_by_sequence = [],
     rs_delivered_message_ids = {} \<rparr>"

section \<open>Outbound messages\<close>

definition pending :: "reliable_outbound_message \<Rightarrow> bool" where
  "pending m \<longleftrightarrow> ro_acked_at m = None \<and> ro_failed_at m = None"

definition due_for_send :: "reliable_outbound_message \<Rightarrow> time_us \<Rightarrow> rat option \<Rightarrow> bool" where
  "due_for_send m now retry_after_seconds =
     (if \<not> pending m then False
      else case ro_last_sent_at m of
        None \<Rightarrow> True
      | Some t \<Rightarrow>
          let retry_after = (case retry_after_seconds of Some r \<Rightarrow> r | None \<Rightarrow> ro_retry_after_seconds m)
          in t + timedelta_seconds retry_after \<le> now)"

definition to_reliable_payload :: "(time_us \<Rightarrow> string) \<Rightarrow> reliable_outbound_message \<Rightarrow> payload" where
  "to_reliable_payload isofmt m =
     [(''reliable_message_id'', JStr (ro_reliable_message_id m)),
      (''sequence_number'', JInt (ro_sequence_number m)),
      (''inner_message_type'', JStr (ro_inner_message_type m)),
      (''inner_payload'', JObj (ro_inner_payload m)),
      (''created_at'', JStr (isofmt (ro_created_at m))),
      (''attempt'', JInt (ro_attempts m + 1))]"

definition build_reliable_outbound ::
  "reliable_session_state \<Rightarrow> string \<Rightarrow> payload \<Rightarrow> rat \<Rightarrow> int \<Rightarrow> string \<Rightarrow> time_us
   \<Rightarrow> reliable_session_state \<times> reliable_outbound_message" where
  "build_reliable_outbound st inner_message_type inner_payload retry_after_seconds max_attempts uuid now =
     (let m = \<lparr> ro_session_id = rs_session_id st, ro_session_scope = rs_session_scope st,
            ro_reliable_message_id = uuid, ro_sequence_number = rs_next_outbound_sequence st,
            ro_inner_message_type = inner_message_type, ro_inner_payload = inner_payload,
            ro_created_at = now, ro_retry_after_seconds = retry_after_seconds,
            ro_max_attempts = max_attempts, ro_attempts = 0, ro_last_sent_at = None,
            ro_acked_at = None, ro_failed_at = None, ro_failure_reason = None \<rparr>
      in (st \<lparr> rs_outbound_by_sequence := dict_set (ro_sequence_number m) m (rs_outbound_by_sequence st),
               rs_next_outbound_sequence := rs_next_outbound_sequence st + 1 \<rparr>, m))"

section \<open>Inbound payloads\<close>

definition parse_reliable_payload :: "payload \<Rightarrow> time_us \<Rightarrow> reliable_inbound_message result" where
  "parse_reliable_payload p received_at =
     (case jget_nonempty_str p ''reliable_message_id'' of
        None \<Rightarrow> Inl (ValueError ''reliable_message_id_required'')
      | Some mid \<Rightarrow>
     (case as_pyint (jget p ''sequence_number'') of
        None \<Rightarrow> Inl (ValueError ''sequence_number_invalid'')
      | Some sn \<Rightarrow> if pyint_val sn < 1 then Inl (ValueError ''sequence_number_invalid'') else
     (case jget_nonempty_str p ''inner_message_type'' of
        None \<Rightarrow> Inl (ValueError ''inner_message_type_required'')
      | Some ty \<Rightarrow>
     (case as_obj (jget p ''inner_payload'') of
        None \<Rightarrow> Inl (ValueError ''inner_payload_must_be_object'')
      | Some ip \<Rightarrow> Inr \<lparr> ri_reliable_message_id = mid, ri_sequence_number = sn,
          ri_inner_message_type = ty, ri_inner_payload = ip, ri_received_at = received_at \<rparr>))))"

abbreviation ri_seq :: "reliable_inbound_message \<Rightarrow> int" where
  "ri_seq m \<equiv> pyint_val (ri_sequence_number m)"

text \<open>The \<^verbatim>\<open>while True\<close> loop: pop the next expected message until it is missing.\<close>

function deliver_loop ::
  "reliable_session_state \<Rightarrow> reliable_inbound_message list
   \<Rightarrow> reliable_session_state \<times> reliable_inbound_message list" where
  "deliver_loop st deliveries =
     (case dict_get (rs_inbound_buffer_by_sequence st) (rs_next_expected_inbound_sequence st) of
        None \<Rightarrow> (st, deliveries)
      | Some m \<Rightarrow>
          let fresh = ri_reliable_message_id m \<notin> rs_delivered_message_ids st in
          deliver_loop
            (st \<lparr> rs_inbound_buffer_by_sequence :=
                   dict_pop (rs_next_expected_inbound_sequence st) (rs_inbound_buffer_by_sequence st),
                 rs_delivered_message_ids :=
                   (if fresh then insert (ri_reliable_message_id m) (rs_delivered_message_ids st)
                    else rs_delivered_message_ids st),
                 rs_next_expected_inbound_sequence := rs_next_expected_inbound_sequence st + 1 \<rparr>)
            (if fresh then deliveries @ [m] else deliveries))"
  by pat_completeness auto
termination
  by (relation "measure (\<lambda>(st, _). length (rs_inbound_buffer_by_sequence st))")
    (auto intro: length_dict_pop)

declare deliver_loop.simps [simp del]

definition reliable_ack_payload ::
  "(time_us \<Rightarrow> string) \<Rightarrow> reliable_inbound_message \<Rightarrow> time_us \<Rightarrow> payload" where
  "reliable_ack_payload isofmt m now =
     [(''ack_for_message_id'', JStr (ri_reliable_message_id m)),
      (''ack_for_sequence_number'', json_of_pyint (ri_sequence_number m)),
      (''received_at'', JStr (isofmt now))]"

text \<open>The part of \<^verbatim>\<open>receive_reliable_payload\<close> after the payload has been parsed.\<close>

definition receive_inbound ::
  "reliable_session_state \<Rightarrow> reliable_inbound_message \<Rightarrow> payload
   \<Rightarrow> reliable_session_state \<times> reliable_receive_result" where
  "receive_inbound st m ack =
     (if ri_reliable_message_id m \<in> rs_delivered_message_ids st then
        (st, \<lparr> rr_ack_payload = ack, rr_deliveries = [], rr_duplicate = True, rr_buffered = False \<rparr>)
      else if ri_seq m < rs_next_expected_inbound_sequence st then
        (st, \<lparr> rr_ack_payload = ack, rr_deliveries = [], rr_duplicate = True, rr_buffered = False \<rparr>)
      else if rs_next_expected_inbound_sequence st < ri_seq m then
        (st \<lparr> rs_inbound_buffer_by_sequence :=
               dict_setdefault (ri_seq m) m (rs_inbound_buffer_by_sequence st) \<rparr>,
         \<lparr> rr_ack_payload = ack, rr_deliveries = [], rr_duplicate = False, rr_buffered = True \<rparr>)
      else
        (case deliver_loop
                (st \<lparr> rs_inbound_buffer_by_sequence :=
                       dict_set (ri_seq m) m (rs_inbound_buffer_by_sequence st) \<rparr>) [] of
           (st', ds) \<Rightarrow>
             (st', \<lparr> rr_ack_payload = ack, rr_deliveries = ds, rr_duplicate = False, rr_buffered = False \<rparr>)))"

definition receive_reliable_payload ::
  "(time_us \<Rightarrow> string) \<Rightarrow> reliable_session_state \<Rightarrow> payload \<Rightarrow> time_us \<Rightarrow> time_us
   \<Rightarrow> (reliable_session_state \<times> reliable_receive_result) result" where
  "receive_reliable_payload isofmt st p received_at now =
     rbind (parse_reliable_payload p received_at)
       (\<lambda>m. Inr (receive_inbound st m (reliable_ack_payload isofmt m now)))"

section \<open>Delivery\<close>

text \<open>What a message carries, apart from its number and its time of arrival.\<close>

definition ri_content :: "reliable_inbound_message \<Rightarrow> string \<times> string \<times> payload" where
  "ri_content m = (ri_reliable_message_id m, ri_inner_message_type m, ri_inner_payload m)"

text \<open>
  \<open>src k\<close> is what the sender put into its message number \<open>k\<close>. \<open>authentic src\<close> holds of the
  messages that this sender built; \<open>receiver_ok src\<close> is the invariant of the receiver between
  two payloads.
\<close>

definition authentic :: "(int \<Rightarrow> string \<times> string \<times> payload) \<Rightarrow> reliable_inbound_message \<Rightarrow> bool" where
  "authentic src m \<longleftrightarrow> 1 \<le> ri_seq m \<and> ri_content m = src (ri_seq m)"

definition fresh_ids :: "(int \<Rightarrow> string \<times> string \<times> payload) \<Rightarrow> bool" where
  "fresh_ids src \<longleftrightarrow> inj_on (\<lambda>k. fst (src k)) {1..}"

definition buffered_from ::
  "(int \<Rightarrow> string \<times> string \<times> payload) \<Rightarrow> int \<Rightarrow> (int, reliable_inbound_message) dict \<Rightarrow> bool" where
  "buffered_from src lo b \<longleftrightarrow> dict_ok b \<and>
     (\<forall>k m. dict_get b k = Some m \<longrightarrow> lo \<le> k \<and> ri_seq m = k \<and> ri_content m = src k)"

definition delivered_upto :: "(int \<Rightarrow> string \<times> string \<times> payload) \<Rightarrow> reliable_session_state \<Rightarrow> bool" where
  "delivered_upto src st \<longleftrightarrow> 1 \<le> rs_next_expected_inbound_sequence st \<and>
     rs_delivered_message_ids st = (\<lambda>k. fst (src k)) ` {1..<rs_next_expected_inbound_sequence st}"

definition receiver_ok :: "(int \<Rightarrow> string \<times> string \<times> payload) \<Rightarrow> reliable_session_state \<Rightarrow> bool" where
  "receiver_ok src st \<longleftrightarrow> delivered_upto src st \<and>
     buffered_from src (rs_next_expected_inbound_sequence st + 1) (rs_inbound_buffer_by_sequence st)"

definition seen_numbers :: "reliable_session_state \<Rightarrow> int set" where
  "seen_numbers st = {1..<rs_next_expected_inbound_sequence st} \<union>
     {k. dict_get (rs_inbound_buffer_by_sequence st) k \<noteq> None}"

text \<open>The state inside the loop: the next message may already be in the buffer.\<close>

definition loop_ok :: "(int \<Rightarrow> string \<times> string \<times> payload) \<Rightarrow> reliable_session_state \<Rightarrow> bool" where
  "loop_ok src st \<longleftrightarrow> delivered_upto src st \<and>
     buffered_from src (rs_next_expected_inbound_sequence st) (rs_inbound_buffer_by_sequence st)"

lemma buffered_from_pop: "buffered_from src n b \<Longrightarrow> buffered_from src (n + 1) (dict_pop n b)"
  by (force simp: buffered_from_def)

lemma buffered_from_absent: "buffered_from src n b \<Longrightarrow> dict_get b n = None \<Longrightarrow> buffered_from src (n + 1) b"
  unfolding buffered_from_def by (metis add1_zle_eq option.discI order_le_less)

lemma buffered_from_weaken: "buffered_from src (n + 1) b \<Longrightarrow> buffered_from src n b"
  by (force simp: buffered_from_def)

lemma buffered_from_gap:
  assumes "buffered_from src (n + 1) b"
  shows "dict_get b n = None"
proof (rule ccontr)
  assume "dict_get b n \<noteq> None"
  then obtain m where "dict_get b n = Some m" by blast
  with assms have "n + 1 \<le> n" unfolding buffered_from_def by blast
  then show False by simp
qed

lemma buffered_from_set: "buffered_from src n b \<Longrightarrow> n \<le> ri_seq m \<Longrightarrow> ri_content m = src (ri_seq m) \<Longrightarrow>
    buffered_from src n (dict_set (ri_seq m) m b)"
  "buffered_from src n b \<Longrightarrow> n \<le> ri_seq m \<Longrightarrow> ri_content m = src (ri_seq m) \<Longrightarrow>
    buffered_from src n (dict_setdefault (ri_seq m) m b)"
  by (auto simp: buffered_from_def split: if_splits option.splits)

lemmas buffered_from_intros = buffered_from_pop buffered_from_absent buffered_from_weaken buffered_from_set

lemma atLeastLessThan_int_Suc: "(a::int) \<le> b \<Longrightarrow> {a..<b + 1} = insert b {a..<b}"
  by auto

lemma fresh_next:
  assumes "fresh_ids src" and "1 \<le> (n::int)"
  shows "fst (src n) \<notin> (\<lambda>k. fst (src k)) ` {1..<n}"
  using assms by (force simp: fresh_ids_def inj_on_def)

lemma deliver_loop_spec:
  assumes "fresh_ids src" and "loop_ok src st" and "deliver_loop st acc = (st', ds)"
  shows "receiver_ok src st' \<and>
    rs_next_expected_inbound_sequence st \<le> rs_next_expected_inbound_sequence st' \<and>
    map ri_content ds = map ri_content acc @
      map src [rs_next_expected_inbound_sequence st..rs_next_expected_inbound_sequence st' - 1] \<and>
    seen_numbers st' = seen_numbers st"
  using assms
proof (induction st acc arbitrary: st' ds rule: deliver_loop.induct)
  case (1 st acc)
  let ?n = "rs_next_expected_inbound_sequence st" and ?b = "rs_inbound_buffer_by_sequence st"
  show ?case
  proof (cases "dict_get ?b ?n")
    case None
    then have "st' = st" "ds = acc"
      using "1.prems"(3) by (auto simp: deliver_loop.simps [of st])
    moreover have "receiver_ok src st"
      using "1.prems"(2) None by (simp add: loop_ok_def receiver_ok_def buffered_from_intros)
    ultimately show ?thesis by simp
  next
    case (Some m)
    have m: "ri_content m = src ?n" and n1: "1 \<le> ?n"
      using "1.prems"(2) Some by (auto simp: loop_ok_def delivered_upto_def buffered_from_def)
    have mid: "ri_reliable_message_id m = fst (src ?n)"
      using m by (metis fst_conv ri_content_def)
    have fresh: "ri_reliable_message_id m \<notin> rs_delivered_message_ids st"
      using "1.prems"(2) mid fresh_next [OF "1.prems"(1) n1] by (simp add: loop_ok_def delivered_upto_def)
    let ?s = "st \<lparr> rs_inbound_buffer_by_sequence := dict_pop ?n ?b,
      rs_delivered_message_ids := insert (ri_reliable_message_id m) (rs_delivered_message_ids st),
      rs_next_expected_inbound_sequence := ?n + 1 \<rparr>"
    have step: "deliver_loop ?s (acc @ [m]) = (st', ds)"
      using "1.prems"(3) Some fresh by (simp add: deliver_loop.simps [of st])
    have ok: "loop_ok src ?s"
      using "1.prems"(2)
      by (auto simp: loop_ok_def delivered_upto_def mid atLeastLessThan_int_Suc buffered_from_pop)
    have IH: "receiver_ok src st' \<and> ?n + 1 \<le> rs_next_expected_inbound_sequence st' \<and>
        map ri_content ds = map ri_content (acc @ [m]) @
          map src [?n + 1..rs_next_expected_inbound_sequence st' - 1] \<and>
        seen_numbers st' = seen_numbers ?s"
      using "1.IH" [OF Some refl "1.prems"(1)] fresh ok step by simp
    moreover have "seen_numbers ?s = seen_numbers st"
      using n1 Some by (auto simp: seen_numbers_def split: if_splits)
    moreover have "[?n..rs_next_expected_inbound_sequence st' - 1] =
        ?n # [?n + 1..rs_next_expected_inbound_sequence st' - 1]"
      using IH by (intro upto_rec1) auto
    ultimately show ?thesis using m by simp
  qed
qed

lemma authentic_delivered_iff:
  assumes "fresh_ids src" and "authentic src m" and "receiver_ok src st"
  shows "ri_reliable_message_id m \<in> rs_delivered_message_ids st \<longleftrightarrow>
    ri_seq m < rs_next_expected_inbound_sequence st"
proof -
  have mid: "ri_reliable_message_id m = fst (src (ri_seq m))" and m1: "1 \<le> ri_seq m"
    using assms(2) by (auto simp: authentic_def ri_content_def dest: arg_cong [of _ _ fst])
  have "fst (src (ri_seq m)) = fst (src k) \<Longrightarrow> 1 \<le> k \<Longrightarrow> ri_seq m = k" for k
    using assms(1) m1 by (auto simp: fresh_ids_def inj_on_def)
  with assms(3) m1 show ?thesis by (auto simp: receiver_ok_def delivered_upto_def mid)
qed

lemma receive_inbound_spec:
  assumes "fresh_ids src" and "receiver_ok src st" and "authentic src m"
    and "receive_inbound st m ack = (st', r)"
  shows "receiver_ok src st' \<and>
    rs_next_expected_inbound_sequence st \<le> rs_next_expected_inbound_sequence st' \<and>
    map ri_content (rr_deliveries r) =
      map src [rs_next_expected_inbound_sequence st..rs_next_expected_inbound_sequence st' - 1] \<and>
    seen_numbers st' = insert (ri_seq m) (seen_numbers st)"
proof -
  let ?n = "rs_next_expected_inbound_sequence st" and ?b = "rs_inbound_buffer_by_sequence st"
  have m: "1 \<le> ri_seq m" "ri_content m = src (ri_seq m)" using assms(3) by (auto simp: authentic_def)
  note iff = authentic_delivered_iff [OF assms(1,3,2)]
  consider (old) "ri_seq m < ?n" | (gap) "?n < ri_seq m" | (nxt) "ri_seq m = ?n" by linarith
  then show ?thesis
  proof cases
    case old
    with assms(4) iff m(1) have "st' = st" "rr_deliveries r = []" "ri_seq m \<in> seen_numbers st"
      by (auto simp: receive_inbound_def seen_numbers_def)
    with assms(2) show ?thesis by (simp add: insert_absorb)
  next
    case gap
    with assms(4) iff have st': "st' = st \<lparr> rs_inbound_buffer_by_sequence := dict_setdefault (ri_seq m) m ?b \<rparr>"
      and "rr_deliveries r = []" by (auto simp: receive_inbound_def)
    moreover have "receiver_ok src st'"
      using assms(2) m gap by (simp add: st' receiver_ok_def delivered_upto_def buffered_from_intros)
    ultimately show ?thesis
      using gap by (auto simp: seen_numbers_def split: if_splits option.splits)
  next
    case nxt
    let ?s = "st \<lparr> rs_inbound_buffer_by_sequence := dict_set (ri_seq m) m ?b \<rparr>"
    obtain ds where l: "deliver_loop ?s [] = (st', ds)" and r: "rr_deliveries r = ds"
      using assms(4) iff nxt by (auto simp: receive_inbound_def split: prod.splits)
    have "loop_ok src ?s"
      using assms(2) m nxt buffered_from_set(1) [of src ?n ?b m] buffered_from_weaken [of src ?n ?b]
      by (simp add: receiver_ok_def loop_ok_def delivered_upto_def)
    from deliver_loop_spec [OF assms(1) this l] r
    show ?thesis by (auto simp: seen_numbers_def split: if_splits)
  qed
qed

section \<open>The contract of an in-order receiver\<close>

fun recv_all :: "('s \<Rightarrow> 'm \<Rightarrow> 's \<times> 'm list) \<Rightarrow> 's \<Rightarrow> 'm list \<Rightarrow> 's \<times> 'm list" where
  "recv_all recv s [] = (s, [])"
| "recv_all recv s (m # ms) = (case recv s m of (s', ds) \<Rightarrow>
     (case recv_all recv s' ms of (s'', ds') \<Rightarrow> (s'', ds @ ds')))"

locale in_order_receiver =
  fixes recv :: "'s \<Rightarrow> 'm \<Rightarrow> 's \<times> 'm list"
    and nxt :: "'s \<Rightarrow> int"
    and seen :: "'s \<Rightarrow> int set"
    and ok :: "'s \<Rightarrow> bool"
    and auth :: "'m \<Rightarrow> bool"
    and num :: "'m \<Rightarrow> int"
    and cont :: "'m \<Rightarrow> 'c"
    and source :: "int \<Rightarrow> 'c"
  assumes recv_ok: "ok s \<Longrightarrow> auth m \<Longrightarrow> recv s m = (s', ds) \<Longrightarrow> ok s'"
    and recv_mono: "ok s \<Longrightarrow> auth m \<Longrightarrow> recv s m = (s', ds) \<Longrightarrow> nxt s \<le> nxt s'"
    and recv_deliveries: "ok s \<Longrightarrow> auth m \<Longrightarrow> recv s m = (s', ds) \<Longrightarrow>
      map cont ds = map source [nxt s..nxt s' - 1]"
    and recv_seen: "ok s \<Longrightarrow> auth m \<Longrightarrow> recv s m = (s', ds) \<Longrightarrow> seen s' = insert (num m) (seen s)"
    and ok_gap: "ok s \<Longrightarrow> 1 \<le> nxt s \<and> {1..<nxt s} \<subseteq> seen s \<and> nxt s \<notin> seen s"
begin

lemma upto_join: "(a::int) \<le> b \<Longrightarrow> b \<le> c \<Longrightarrow> [a..b - 1] @ [b..c - 1] = [a..c - 1]"
  using upto_split1 [of a "b" "c - 1"] by (cases "b = c") auto

lemma recv_all_spec:
  assumes "ok s" and "\<And>m. m \<in> set ms \<Longrightarrow> auth m" and "recv_all recv s ms = (s', ds)"
  shows "ok s' \<and> nxt s \<le> nxt s' \<and> map cont ds = map source [nxt s..nxt s' - 1] \<and>
    seen s' = seen s \<union> num ` set ms"
  using assms
proof (induction ms arbitrary: s ds)
  case (Cons m ms)
  obtain s1 d1 where 1: "recv s m = (s1, d1)" by force
  obtain d2 where 2: "recv_all recv s1 ms = (s', d2)" and ds: "ds = d1 @ d2"
    using Cons.prems(3) 1 by (auto split: prod.splits)
  have a: "auth m" using Cons.prems(2) by simp
  note facts = recv_ok [OF Cons.prems(1) a 1] recv_mono [OF Cons.prems(1) a 1]
    recv_deliveries [OF Cons.prems(1) a 1] recv_seen [OF Cons.prems(1) a 1]
  have IH: "ok s' \<and> nxt s1 \<le> nxt s' \<and> map cont d2 = map source [nxt s1..nxt s' - 1] \<and>
      seen s' = seen s1 \<union> num ` set ms"
    using Cons.prems(2) facts(1) by (intro Cons.IH [OF _ _ 2]) auto
  moreover have "[nxt s..nxt s' - 1] = [nxt s..nxt s1 - 1] @ [nxt s1..nxt s' - 1]"
    using IH facts(2) by (intro upto_join [symmetric]) auto
  ultimately show ?case using facts by (simp add: ds)
qed simp

text \<open>The next number depends only on the set of numbers that have arrived.\<close>

lemma nxt_determined:
  assumes "ok s" and "ok t" and "seen s = seen t"
  shows "nxt s = nxt t"
proof -
  have "\<not> nxt s < nxt t" "\<not> nxt t < nxt s"
    using ok_gap [OF assms(1)] ok_gap [OF assms(2)] assms(3) by (auto simp: subset_iff)
  then show ?thesis by linarith
qed

lemma order_insensitive:
  assumes "ok s" and "\<And>m. m \<in> set ms \<union> set ms' \<Longrightarrow> auth m"
    and "num ` set ms = num ` set ms'"
    and "recv_all recv s ms = (s1, ds1)" and "recv_all recv s ms' = (s2, ds2)"
  shows "map cont ds1 = map cont ds2"
proof -
  note 1 = recv_all_spec [OF assms(1) _ assms(4)] and 2 = recv_all_spec [OF assms(1) _ assms(5)]
  have "ok s1 \<and> ok s2 \<and> seen s1 = seen s2" using 1 2 assms(2,3) by auto
  then have "nxt s1 = nxt s2" using nxt_determined by blast
  with 1 2 assms(2) show ?thesis by auto
qed

lemma nothing_lost:
  assumes "ok s" and "\<And>m. m \<in> set ms \<Longrightarrow> auth m" and "recv_all recv s ms = (s', ds)"
    and "{1..n} \<subseteq> seen s \<union> num ` set ms"
  shows "n < nxt s'"
proof (rule ccontr)
  assume "\<not> n < nxt s'"
  moreover have "ok s'" "seen s' = seen s \<union> num ` set ms"
    using recv_all_spec [OF assms(1) _ assms(3)] assms(2) by auto
  ultimately show False using ok_gap [of s'] assms(4) by (auto simp: subset_iff)
qed

lemma nothing_invented:
  assumes "ok s" and "\<And>m. m \<in> set ms \<Longrightarrow> auth m" and "recv_all recv s ms = (s', ds)"
    and "seen s \<union> num ` set ms \<subseteq> {..n}" and "0 \<le> n"
  shows "nxt s' \<le> n + 1"
proof (rule ccontr)
  assume "\<not> nxt s' \<le> n + 1"
  then have n: "n + 1 \<in> {1..<nxt s'}" using assms(5) by simp
  have s': "ok s'" "seen s' = seen s \<union> num ` set ms"
    using recv_all_spec [OF assms(1) _ assms(3)] assms(2) by auto
  with n have "n + 1 \<in> seen s'" using ok_gap [of s'] by blast
  with s'(2) assms(4) show False by auto
qed

end

text \<open>The receiver of the code meets the contract for every sender whose identifiers are fresh.\<close>

definition recv_step ::
  "(time_us \<Rightarrow> string) \<Rightarrow> time_us \<Rightarrow> reliable_session_state \<Rightarrow> reliable_inbound_message
   \<Rightarrow> reliable_session_state \<times> reliable_inbound_message list" where
  "recv_step isofmt now st m = map_prod id rr_deliveries (receive_inbound st m (reliable_ack_payload isofmt m now))"

interpretation rcv: in_order_receiver "recv_step isofmt now" rs_next_expected_inbound_sequence
  seen_numbers "\<lambda>st. fresh_ids src \<and> receiver_ok src st" "authentic src" ri_seq ri_content src
  for isofmt now src
proof
  fix s m s' ds
  assume ok: "fresh_ids src \<and> receiver_ok src s" and m: "authentic src m"
    and "recv_step isofmt now s m = (s', ds)"
  then obtain r where "receive_inbound s m (reliable_ack_payload isofmt m now) = (s', r)" "rr_deliveries r = ds"
    by (cases "receive_inbound s m (reliable_ack_payload isofmt m now)") (auto simp: recv_step_def)
  note spec = receive_inbound_spec [OF _ _ m this(1)] this(2)
  then show "fresh_ids src \<and> receiver_ok src s'"
    and "rs_next_expected_inbound_sequence s \<le> rs_next_expected_inbound_sequence s'"
    and "map ri_content ds = map src [rs_next_expected_inbound_sequence s..rs_next_expected_inbound_sequence s' - 1]"
    and "seen_numbers s' = insert (ri_seq m) (seen_numbers s)"
    using ok by auto
next
  fix s assume "fresh_ids src \<and> receiver_ok src s"
  then show "1 \<le> rs_next_expected_inbound_sequence s \<and>
      {1..<rs_next_expected_inbound_sequence s} \<subseteq> seen_numbers s \<and>
      rs_next_expected_inbound_sequence s \<notin> seen_numbers s"
    by (auto simp: receiver_ok_def delivered_upto_def seen_numbers_def dest: buffered_from_gap)
qed

lemma receiver_ok_new: "receiver_ok src (new_reliable_session_state sid scope)"
  by (simp add: receiver_ok_def delivered_upto_def buffered_from_def new_reliable_session_state_def)

lemma seen_numbers_new: "seen_numbers (new_reliable_session_state sid scope) = {}"
  by (simp add: seen_numbers_def new_reliable_session_state_def)

end
