(* ===== verification/Session_Manager.thy ===== *)
theory Session_Manager
  imports Reliable
begin

text \<open>
  \<^verbatim>\<open>app/sessions/models.py\<close>, \<^verbatim>\<open>messages.py\<close>, \<^verbatim>\<open>helpers.py\<close> and \<^verbatim>\<open>manager.py\<close>: the in-memory session table.
  The code keeps each \<^verbatim>\<open>NetworkSession\<close> object in two dictionaries and mutates it in place, so the
  model has an explicit store \<open>sm_heap\<close>: the dictionaries hold references (positions in the
  store) and every mutation of a session is an update of the store. Reliable-delivery states
  live in a third dictionary, keyed by session id.
\<close>

section \<open>Data\<close>

record network_session =
  ns_id :: int
  ns_session_id :: string
  ns_session_scope :: string
  ns_local_identity_type :: string
  ns_local_identity_id :: string
  ns_remote_identity_type :: string
  ns_remote_identity_id :: string
  ns_direction :: string
  ns_initiator_side :: string
  ns_handshake_state :: string
  ns_session_state :: string
  ns_transport :: "string option"
  ns_remote_host :: "string option"
  ns_remote_port :: "int option"
  ns_local_endpoint_id :: "int option"
  ns_remote_endpoint_id :: "int option"
  ns_key_exchange_algorithm :: "string option"
  ns_signature_algorithm :: "string option"
  ns_symmetric_algorithm :: "string option"
  ns_hash_algorithm :: "string option"
  ns_remote_public_key :: "string option"
  ns_local_ephemeral_private_key :: "string option"
  ns_local_ephemeral_public_key :: "string option"
  ns_remote_ephemeral_public_key :: "string option"
  ns_shared_secret_hex :: "string option"
  ns_session_key_id :: "string option"
  ns_established_at :: "time_us option"
  ns_last_activity_at :: time_us
  ns_last_keepalive_sent_at :: "time_us option"
  ns_keepalive_interval_seconds :: int
  ns_keepalive_deadline :: "time_us option"
  ns_expires_at :: "time_us option"
  ns_closed_at :: "time_us option"
  ns_close_reason :: "string option"
  ns_bound_route_id :: "string option"
  ns_metadata_json :: "string option"

record session_create_input =
  sc_session_id :: string
  sc_session_scope :: string
  sc_local_identity_type :: string
  sc_local_identity_id :: string
  sc_remote_identity_type :: string
  sc_remote_identity_id :: string
  sc_direction :: string
  sc_initiator_side :: string
  sc_handshake_state :: string
  sc_session_state :: string
  sc_transport :: "string option"
  sc_remote_host :: "string option"
  sc_remote_port :: "int option"
  sc_local_endpoint_id :: "int option"
  sc_remote_endpoint_id :: "int option"
  sc_key_exchange_algorithm :: "string option"
  sc_signature_algorithm :: "string option"
  sc_symmetric_algorithm :: "string option"
  sc_hash_algorithm :: "string option"
  sc_remote_public_key :: "string option"
  sc_local_ephemeral_private_key :: "string option"
  sc_local_ephemeral_public_key :: "string option"
  sc_remote_ephemeral_public_key :: "string option"
  sc_shared_secret_hex :: "string option"
  sc_session_key_id :: "string option"
  sc_established_at :: "time_us option"
  sc_last_activity_at :: "time_us option"
  sc_last_keepalive_sent_at :: "time_us option"
  sc_keepalive_interval_seconds :: int
  sc_keepalive_deadline :: "time_us option"
  sc_expires_at :: "time_us option"
  sc_closed_at :: "time_us option"
  sc_close_reason :: "string option"
  sc_bound_route_id :: "string option"
  sc_metadata_json :: "string option"

record session_state_update_input =
  su_handshake_state :: "string option"
  su_session_state :: "string option"
  su_last_activity_at :: "time_us option"
  su_keepalive_deadline :: "time_us option"
  su_expires_at :: "time_us option"
  su_closed_at :: "time_us option"
  su_close_reason :: "string option"
  su_bound_route_id :: "string option"
  su_session_key_id :: "string option"
  su_metadata_json :: "string option"

definition session_state_update_defaults :: session_state_update_input where
  "session_state_update_defaults = \<lparr> su_handshake_state = None, su_session_state = None,
     su_last_activity_at = None, su_keepalive_deadline = None, su_expires_at = None,
     su_closed_at = None, su_close_reason = None, su_bound_route_id = None,
     su_session_key_id = None, su_metadata_json = None \<rparr>"

record virtual_session_message =
  vm_session_id :: string
  vm_local_virtual_node_id :: string
  vm_remote_virtual_node_id :: string
  vm_app_message_type :: string
  vm_payload :: payload
  vm_route_path_id :: "string option"
  vm_request_id :: "string option"

text \<open>The payload of a reply is checked to be an object only when it is returned.\<close>

record virtual_session_message_reply =
  vr_app_message_type :: string
  vr_payload :: json
  vr_request_id :: "string option"

datatype handler_value = HNone | HReply virtual_session_message_reply | HOther

type_synonym virtual_session_message_handler = "virtual_session_message \<Rightarrow> handler_value"

record session_manager =
  sm_heap :: "network_session list"
  sm_sessions_by_id :: "(int, nat) dict"
  sm_sessions_by_session_id :: "(string, nat) dict"
  sm_virtual_message_handlers :: "(string, virtual_session_message_handler) dict"
  sm_reliable_states_by_session_id :: "(string, reliable_session_state) dict"
  sm_next_id :: int

definition new_session_manager :: session_manager where
  "new_session_manager = \<lparr> sm_heap = [], sm_sessions_by_id = [], sm_sessions_by_session_id = [],
     sm_virtual_message_handlers = [], sm_reliable_states_by_session_id = [], sm_next_id = 1 \<rparr>"

section \<open>Virtual message handlers\<close>

text \<open>A handler argument that is not callable is \<^const>\<open>None\<close>.\<close>

definition register_virtual_message_handler ::
  "session_manager \<Rightarrow> string \<Rightarrow> virtual_session_message_handler option \<Rightarrow> session_manager result" where
  "register_virtual_message_handler sm app_message_type handler =
     (if app_message_type = [] then Inl (ValueError ''app_message_type cannot be empty.'')
      else case handler of
        None \<Rightarrow> Inl TypeError
      | Some h \<Rightarrow> Inr (sm \<lparr> sm_virtual_message_handlers :=
          dict_set app_message_type h (sm_virtual_message_handlers sm) \<rparr>))"

definition unregister_virtual_message_handler :: "session_manager \<Rightarrow> string \<Rightarrow> session_manager" where
  "unregister_virtual_message_handler sm app_message_type =
     sm \<lparr> sm_virtual_message_handlers := dict_pop app_message_type (sm_virtual_message_handlers sm) \<rparr>"

definition has_virtual_message_handler :: "session_manager \<Rightarrow> string \<Rightarrow> bool" where
  "has_virtual_message_handler sm app_message_type \<longleftrightarrow>
     dict_get (sm_virtual_message_handlers sm) app_message_type \<noteq> None"

definition handle_virtual_message ::
  "session_manager \<Rightarrow> virtual_session_message \<Rightarrow> virtual_session_message_reply option result" where
  "handle_virtual_message sm msg =
     (case dict_get (sm_virtual_message_handlers sm) (vm_app_message_type msg) of
        None \<Rightarrow> Inr None
      | Some h \<Rightarrow> (case h msg of
          HNone \<Rightarrow> Inr None
        | HOther \<Rightarrow> Inl TypeError
        | HReply r \<Rightarrow> (case vr_payload r of JObj _ \<Rightarrow> Inr (Some r) | _ \<Rightarrow> Inl TypeError)))"

section \<open>Sessions\<close>

abbreviation sm_object :: "session_manager \<Rightarrow> nat \<Rightarrow> network_session" where
  "sm_object sm a \<equiv> sm_heap sm ! a"

definition get_session_by_id :: "session_manager \<Rightarrow> int \<Rightarrow> network_session option" where
  "get_session_by_id sm db_id = map_option (sm_object sm) (dict_get (sm_sessions_by_id sm) db_id)"

definition get_session_by_session_id :: "session_manager \<Rightarrow> string \<Rightarrow> network_session option" where
  "get_session_by_session_id sm session_id =
     map_option (sm_object sm) (dict_get (sm_sessions_by_session_id sm) session_id)"

text \<open>
  Look a session up and mutate the object: the common frame of the operations that return
  \<^verbatim>\<open>None\<close> for an unknown session.
\<close>

definition modify_session ::
  "session_manager \<Rightarrow> string \<Rightarrow> (network_session \<Rightarrow> network_session)
   \<Rightarrow> session_manager \<times> network_session option" where
  "modify_session sm session_id f =
     (case dict_get (sm_sessions_by_session_id sm) session_id of
        None \<Rightarrow> (sm, None)
      | Some a \<Rightarrow> let s = f (sm_object sm a) in
          (sm \<lparr> sm_heap := (sm_heap sm)[a := s] \<rparr>, Some s))"

definition build_keepalive_deadline :: "int \<Rightarrow> time_us \<Rightarrow> time_us" where
  "build_keepalive_deadline keepalive_interval_seconds now =
     now + timedelta_seconds (of_int keepalive_interval_seconds)"

definition create_session ::
  "session_manager \<Rightarrow> session_create_input \<Rightarrow> time_us \<Rightarrow> (session_manager \<times> network_session) result" where
  "create_session sm data now =
     (if dict_get (sm_sessions_by_session_id sm) (sc_session_id data) \<noteq> None
      then Inl (ValueError (''Session '' @ [CHR 0x27] @ sc_session_id data @ [CHR 0x27] @ '' ja existe em memoria.''))
      else
        let s = \<lparr> ns_id = sm_next_id sm, ns_session_id = sc_session_id data,
              ns_session_scope = sc_session_scope data,
              ns_local_identity_type = sc_local_identity_type data,
              ns_local_identity_id = sc_local_identity_id data,
              ns_remote_identity_type = sc_remote_identity_type data,
              ns_remote_identity_id = sc_remote_identity_id data,
              ns_direction = sc_direction data, ns_initiator_side = sc_initiator_side data,
              ns_handshake_state = sc_handshake_state data, ns_session_state = sc_session_state data,
              ns_transport = sc_transport data, ns_remote_host = sc_remote_host data,
              ns_remote_port = sc_remote_port data, ns_local_endpoint_id = sc_local_endpoint_id data,
              ns_remote_endpoint_id = sc_remote_endpoint_id data,
              ns_key_exchange_algorithm = sc_key_exchange_algorithm data,
              ns_signature_algorithm = sc_signature_algorithm data,
              ns_symmetric_algorithm = sc_symmetric_algorithm data,
              ns_hash_algorithm = sc_hash_algorithm data, ns_remote_public_key = sc_remote_public_key data,
              ns_local_ephemeral_private_key = sc_local_ephemeral_private_key data,
              ns_local_ephemeral_public_key = sc_local_ephemeral_public_key data,
              ns_remote_ephemeral_public_key = sc_remote_ephemeral_public_key data,
              ns_shared_secret_hex = sc_shared_secret_hex data, ns_session_key_id = sc_session_key_id data,
              ns_established_at = sc_established_at data,
              ns_last_activity_at = (case sc_last_activity_at data of Some t \<Rightarrow> t | None \<Rightarrow> now),
              ns_last_keepalive_sent_at = sc_last_keepalive_sent_at data,
              ns_keepalive_interval_seconds = sc_keepalive_interval_seconds data,
              ns_keepalive_deadline = sc_keepalive_deadline data, ns_expires_at = sc_expires_at data,
              ns_closed_at = sc_closed_at data, ns_close_reason = sc_close_reason data,
              ns_bound_route_id = sc_bound_route_id data, ns_metadata_json = sc_metadata_json data \<rparr>;
            a = length (sm_heap sm)
        in Inr (sm \<lparr> sm_heap := sm_heap sm @ [s],
                    sm_sessions_by_id := dict_set (ns_id s) a (sm_sessions_by_id sm),
                    sm_sessions_by_session_id := dict_set (ns_session_id s) a (sm_sessions_by_session_id sm),
                    sm_next_id := sm_next_id sm + 1 \<rparr>, s))"

definition bind_remote_endpoint ::
  "session_manager \<Rightarrow> string \<Rightarrow> string option \<Rightarrow> string option \<Rightarrow> int option
   \<Rightarrow> session_manager \<times> network_session option" where
  "bind_remote_endpoint sm session_id tr host port =
     modify_session sm session_id (\<lambda>s.
       let s = (case tr of None \<Rightarrow> s | Some _ \<Rightarrow> s \<lparr> ns_transport := tr \<rparr>);
           s = (case host of None \<Rightarrow> s | Some _ \<Rightarrow> s \<lparr> ns_remote_host := host \<rparr>)
       in (case port of None \<Rightarrow> s | Some _ \<Rightarrow> s \<lparr> ns_remote_port := port \<rparr>))"

text \<open>The arguments of \<^verbatim>\<open>SessionCreateInput\<close> that the four constructors share.\<close>

definition base_create_input :: session_create_input where
  "base_create_input = \<lparr> sc_session_id = [], sc_session_scope = [], sc_local_identity_type = [],
     sc_local_identity_id = [], sc_remote_identity_type = [], sc_remote_identity_id = [],
     sc_direction = [], sc_initiator_side = [], sc_handshake_state = [], sc_session_state = [],
     sc_transport = None, sc_remote_host = None, sc_remote_port = None, sc_local_endpoint_id = None,
     sc_remote_endpoint_id = None, sc_key_exchange_algorithm = None, sc_signature_algorithm = None,
     sc_symmetric_algorithm = None, sc_hash_algorithm = None, sc_remote_public_key = None,
     sc_local_ephemeral_private_key = None, sc_local_ephemeral_public_key = None,
     sc_remote_ephemeral_public_key = None, sc_shared_secret_hex = None, sc_session_key_id = None,
     sc_established_at = None, sc_last_activity_at = None, sc_last_keepalive_sent_at = None,
     sc_keepalive_interval_seconds = 30, sc_keepalive_deadline = None, sc_expires_at = None,
     sc_closed_at = None, sc_close_reason = None, sc_bound_route_id = None, sc_metadata_json = None \<rparr>"

definition create_outbound_physical_session ::
  "session_manager \<Rightarrow> string \<Rightarrow> string \<Rightarrow> string \<Rightarrow> string option \<Rightarrow> string \<Rightarrow> string \<Rightarrow> int \<Rightarrow> int
   \<Rightarrow> time_us \<Rightarrow> time_us \<Rightarrow> (session_manager \<times> network_session) result" where
  "create_outbound_physical_session sm uuid local_physical_node_id remote_physical_node_id
     remote_public_key tr remote_host remote_port keepalive_interval_seconds now now' =
   create_session sm (base_create_input \<lparr> sc_session_id := uuid, sc_session_scope := ''physical'',
     sc_local_identity_type := ''physical_node'', sc_local_identity_id := local_physical_node_id,
     sc_remote_identity_type := ''physical_node'', sc_remote_identity_id := remote_physical_node_id,
     sc_direction := ''outbound'', sc_initiator_side := ''initiator'',
     sc_handshake_state := ''init_sent'', sc_session_state := ''pending'',
     sc_transport := Some tr, sc_remote_host := Some remote_host, sc_remote_port := Some remote_port,
     sc_key_exchange_algorithm := Some ''ml-kem-768'', sc_signature_algorithm := Some ''ml-dsa-65'',
     sc_symmetric_algorithm := Some ''aes-256-gcm-siv'', sc_hash_algorithm := Some ''sha512'',
     sc_remote_public_key := remote_public_key,
     sc_keepalive_interval_seconds := keepalive_interval_seconds,
     sc_keepalive_deadline := Some (build_keepalive_deadline keepalive_interval_seconds now) \<rparr>) now'"

definition create_inbound_physical_session ::
  "session_manager \<Rightarrow> string \<Rightarrow> string \<Rightarrow> string \<Rightarrow> string option \<Rightarrow> string \<Rightarrow> string option \<Rightarrow> int option
   \<Rightarrow> int \<Rightarrow> time_us \<Rightarrow> time_us \<Rightarrow> (session_manager \<times> network_session) result" where
  "create_inbound_physical_session sm session_id local_physical_node_id remote_physical_node_id
     remote_public_key tr remote_host remote_port keepalive_interval_seconds now now' =
   (case get_session_by_session_id sm session_id of
      Some existing \<Rightarrow>
        (case bind_remote_endpoint sm session_id (Some tr) remote_host remote_port of
           (sm', Some s) \<Rightarrow> Inr (sm', s) | (sm', None) \<Rightarrow> Inr (sm', existing))
    | None \<Rightarrow>
        create_session sm (base_create_input \<lparr> sc_session_id := session_id, sc_session_scope := ''physical'',
          sc_local_identity_type := ''physical_node'', sc_local_identity_id := local_physical_node_id,
          sc_remote_identity_type := ''physical_node'', sc_remote_identity_id := remote_physical_node_id,
          sc_direction := ''inbound'', sc_initiator_side := ''responder'',
          sc_handshake_state := ''init_received'', sc_session_state := ''pending'',
          sc_transport := Some tr, sc_remote_host := remote_host, sc_remote_port := remote_port,
          sc_key_exchange_algorithm := Some ''ml-kem-768'', sc_signature_algorithm := Some ''ml-dsa-65'',
          sc_symmetric_algorithm := Some ''aes-256-gcm-siv'', sc_hash_algorithm := Some ''sha512'',
          sc_remote_public_key := remote_public_key,
          sc_keepalive_interval_seconds := keepalive_interval_seconds,
          sc_keepalive_deadline := Some (build_keepalive_deadline keepalive_interval_seconds now) \<rparr>) now')"

definition create_outbound_virtual_session ::
  "session_manager \<Rightarrow> string \<Rightarrow> string \<Rightarrow> string \<Rightarrow> string option \<Rightarrow> string option \<Rightarrow> int
   \<Rightarrow> time_us \<Rightarrow> time_us \<Rightarrow> (session_manager \<times> network_session) result" where
  "create_outbound_virtual_session sm uuid local_virtual_node_id remote_virtual_node_id
     remote_public_key bound_route_id keepalive_interval_seconds now now' =
   create_session sm (base_create_input \<lparr> sc_session_id := uuid, sc_session_scope := ''virtual'',
     sc_local_identity_type := ''virtual_node'', sc_local_identity_id := local_virtual_node_id,
     sc_remote_identity_type := ''virtual_node'', sc_remote_identity_id := remote_virtual_node_id,
     sc_direction := ''outbound'', sc_initiator_side := ''initiator'',
     sc_handshake_state := ''init_sent'', sc_session_state := ''pending'',
     sc_key_exchange_algorithm := Some ''ml-kem-768'', sc_signature_algorithm := Some ''ml-dsa-65'',
     sc_symmetric_algorithm := Some ''aes-256-gcm-siv'', sc_hash_algorithm := Some ''sha512'',
     sc_remote_public_key := remote_public_key, sc_bound_route_id := bound_route_id,
     sc_keepalive_interval_seconds := keepalive_interval_seconds,
     sc_keepalive_deadline := Some (build_keepalive_deadline keepalive_interval_seconds now) \<rparr>) now'"

definition create_inbound_virtual_session ::
  "session_manager \<Rightarrow> string \<Rightarrow> string \<Rightarrow> string \<Rightarrow> string option \<Rightarrow> string option \<Rightarrow> int
   \<Rightarrow> time_us \<Rightarrow> time_us \<Rightarrow> (session_manager \<times> network_session) result" where
  "create_inbound_virtual_session sm session_id local_virtual_node_id remote_virtual_node_id
     remote_public_key bound_route_id keepalive_interval_seconds now now' =
   (case get_session_by_session_id sm session_id of
      Some existing \<Rightarrow> Inr (sm, existing)
    | None \<Rightarrow>
        create_session sm (base_create_input \<lparr> sc_session_id := session_id, sc_session_scope := ''virtual'',
          sc_local_identity_type := ''virtual_node'', sc_local_identity_id := local_virtual_node_id,
          sc_remote_identity_type := ''virtual_node'', sc_remote_identity_id := remote_virtual_node_id,
          sc_direction := ''inbound'', sc_initiator_side := ''responder'',
          sc_handshake_state := ''init_received'', sc_session_state := ''pending'',
          sc_key_exchange_algorithm := Some ''ml-kem-768'', sc_signature_algorithm := Some ''ml-dsa-65'',
          sc_symmetric_algorithm := Some ''aes-256-gcm-siv'', sc_hash_algorithm := Some ''sha512'',
          sc_remote_public_key := remote_public_key, sc_bound_route_id := bound_route_id,
          sc_keepalive_interval_seconds := keepalive_interval_seconds,
          sc_keepalive_deadline := Some (build_keepalive_deadline keepalive_interval_seconds now) \<rparr>) now')"

section \<open>Queries\<close>

definition list_sessions :: "session_manager \<Rightarrow> string option \<Rightarrow> network_session list" where
  "list_sessions sm session_scope =
     (let sessions = map (sm_object sm) (dict_values (sm_sessions_by_id sm));
          sessions = (case session_scope of None \<Rightarrow> sessions
            | Some sc \<Rightarrow> filter (\<lambda>s. ns_session_scope s = sc) sessions)
      in py_sorted ns_id sessions)"

definition list_active_sessions :: "session_manager \<Rightarrow> network_session list" where
  "list_active_sessions sm = filter (\<lambda>s. ns_session_state s = ''active'') (list_sessions sm None)"

definition list_active_physical_sessions :: "session_manager \<Rightarrow> network_session list" where
  "list_active_physical_sessions sm =
     filter (\<lambda>s. ns_session_scope s = ''physical'') (list_active_sessions sm)"

definition get_session_by_remote_identity ::
  "session_manager \<Rightarrow> string \<Rightarrow> string \<Rightarrow> string option \<Rightarrow> network_session option" where
  "get_session_by_remote_identity sm remote_identity_type remote_identity_id session_scope =
     List.find (\<lambda>s. ns_remote_identity_type s = remote_identity_type \<and>
                   ns_remote_identity_id s = remote_identity_id)
       (list_sessions sm session_scope)"

definition get_active_session_by_remote_identity ::
  "session_manager \<Rightarrow> string \<Rightarrow> string \<Rightarrow> string option \<Rightarrow> network_session option" where
  "get_active_session_by_remote_identity sm remote_identity_type remote_identity_id session_scope =
     List.find (\<lambda>s. (case session_scope of None \<Rightarrow> True | Some sc \<Rightarrow> ns_session_scope s = sc) \<and>
                   ns_remote_identity_type s = remote_identity_type \<and>
                   ns_remote_identity_id s = remote_identity_id)
       (list_active_sessions sm)"

definition get_session_by_remote_physical_node_id :: "session_manager \<Rightarrow> string \<Rightarrow> network_session option" where
  "get_session_by_remote_physical_node_id sm remote_physical_node_id =
     get_session_by_remote_identity sm ''physical_node'' remote_physical_node_id (Some ''physical'')"

definition get_session_by_remote_virtual_node_id :: "session_manager \<Rightarrow> string \<Rightarrow> network_session option" where
  "get_session_by_remote_virtual_node_id sm remote_virtual_node_id =
     get_session_by_remote_identity sm ''virtual_node'' remote_virtual_node_id None"

definition get_active_session_by_remote_virtual_node_id ::
  "session_manager \<Rightarrow> string \<Rightarrow> network_session option" where
  "get_active_session_by_remote_virtual_node_id sm remote_virtual_node_id =
     get_active_session_by_remote_identity sm ''virtual_node'' remote_virtual_node_id None"

definition get_active_virtual_session_by_local_and_remote_node_id ::
  "session_manager \<Rightarrow> string \<Rightarrow> string \<Rightarrow> network_session option" where
  "get_active_virtual_session_by_local_and_remote_node_id sm local_virtual_node_id remote_virtual_node_id =
     List.find (\<lambda>s. ns_session_scope s = ''virtual'' \<and> ns_local_identity_id s = local_virtual_node_id \<and>
                   ns_remote_identity_id s = remote_virtual_node_id)
       (list_active_sessions sm)"

definition has_active_virtual_session_bound_to_route :: "session_manager \<Rightarrow> string option list \<Rightarrow> bool" where
  "has_active_virtual_session_bound_to_route sm route_ids =
     (let active_route_ids = concat (map (\<lambda>r. case r of None \<Rightarrow> [] | Some x \<Rightarrow> if x = [] then [] else [x]) route_ids)
      in if active_route_ids = [] then False
         else list_ex (\<lambda>s. ns_session_scope s = ''virtual'' \<and>
                (case ns_bound_route_id s of None \<Rightarrow> False | Some r \<Rightarrow> r \<in> set active_route_ids))
              (list_active_sessions sm))"

definition has_open_physical_session :: "session_manager \<Rightarrow> string \<Rightarrow> bool" where
  "has_open_physical_session sm remote_physical_node_id \<longleftrightarrow>
     (\<exists>s \<in> set (list_sessions sm (Some ''physical'')).
        ns_remote_identity_id s = remote_physical_node_id \<and>
        ns_session_state s \<in> {''pending'', ''active''})"

definition get_active_physical_session_by_remote_node_id ::
  "session_manager \<Rightarrow> string \<Rightarrow> network_session option" where
  "get_active_physical_session_by_remote_node_id sm remote_physical_node_id =
     get_active_session_by_remote_identity sm ''physical_node'' remote_physical_node_id (Some ''physical'')"

section \<open>Mutations\<close>

definition touched :: "int option \<Rightarrow> time_us \<Rightarrow> time_us \<Rightarrow> network_session \<Rightarrow> network_session" where
  "touched keepalive_interval_seconds now now' s =
     (let s = (case keepalive_interval_seconds of None \<Rightarrow> s
          | Some k \<Rightarrow> s \<lparr> ns_keepalive_interval_seconds := k \<rparr>)
      in s \<lparr> ns_last_activity_at := now,
             ns_keepalive_deadline := Some (build_keepalive_deadline (ns_keepalive_interval_seconds s) now') \<rparr>)"

definition touch_session ::
  "session_manager \<Rightarrow> string \<Rightarrow> int option \<Rightarrow> time_us \<Rightarrow> time_us \<Rightarrow> session_manager \<times> network_session option" where
  "touch_session sm session_id keepalive_interval_seconds now now' =
     modify_session sm session_id (touched keepalive_interval_seconds now now')"

definition store_local_ephemeral_keypair ::
  "session_manager \<Rightarrow> string \<Rightarrow> string \<Rightarrow> string \<Rightarrow> string \<Rightarrow> time_us \<Rightarrow> time_us
   \<Rightarrow> session_manager \<times> network_session option" where
  "store_local_ephemeral_keypair sm session_id private_key_pem public_key_pem handshake_state now now' =
     modify_session sm session_id (\<lambda>s. touched None now now'
       (s \<lparr> ns_local_ephemeral_private_key := Some private_key_pem,
            ns_local_ephemeral_public_key := Some public_key_pem,
            ns_handshake_state := handshake_state \<rparr>))"

definition store_remote_ephemeral_public_key ::
  "session_manager \<Rightarrow> string \<Rightarrow> string \<Rightarrow> string \<Rightarrow> time_us \<Rightarrow> time_us
   \<Rightarrow> session_manager \<times> network_session option" where
  "store_remote_ephemeral_public_key sm session_id public_key_pem handshake_state now now' =
     modify_session sm session_id (\<lambda>s. touched None now now'
       (s \<lparr> ns_remote_ephemeral_public_key := Some public_key_pem, ns_handshake_state := handshake_state \<rparr>))"

definition store_shared_secret ::
  "session_manager \<Rightarrow> string \<Rightarrow> string \<Rightarrow> string \<Rightarrow> string \<Rightarrow> time_us \<Rightarrow> time_us
   \<Rightarrow> session_manager \<times> network_session option" where
  "store_shared_secret sm session_id shared_secret_hex handshake_state session_state now now' =
     modify_session sm session_id (\<lambda>s. touched None now now'
       (s \<lparr> ns_shared_secret_hex := Some shared_secret_hex, ns_session_key_id := Some session_id,
            ns_handshake_state := handshake_state, ns_session_state := session_state \<rparr>))"

definition activate_session ::
  "session_manager \<Rightarrow> string \<Rightarrow> time_us \<Rightarrow> time_us \<Rightarrow> session_manager \<times> network_session option" where
  "activate_session sm session_id now now' =
     modify_session sm session_id (\<lambda>s. s \<lparr> ns_handshake_state := ''ready'', ns_session_state := ''active'',
       ns_established_at := Some now, ns_last_activity_at := now,
       ns_keepalive_deadline := Some (build_keepalive_deadline (ns_keepalive_interval_seconds s) now') \<rparr>)"

definition mark_keepalive_sent ::
  "session_manager \<Rightarrow> string \<Rightarrow> time_us \<Rightarrow> session_manager \<times> network_session option" where
  "mark_keepalive_sent sm session_id now =
     modify_session sm session_id (\<lambda>s. s \<lparr> ns_last_keepalive_sent_at := Some now \<rparr>)"

text \<open>\<^verbatim>\<open>if value is not None: session.field = value\<close>.\<close>

definition set_some :: "'a option \<Rightarrow> 'a option \<Rightarrow> 'a option" where
  "set_some new old = (case new of None \<Rightarrow> old | Some _ \<Rightarrow> new)"

definition apply_state_update :: "session_state_update_input \<Rightarrow> network_session \<Rightarrow> network_session" where
  "apply_state_update d s =
     s \<lparr> ns_handshake_state := (case su_handshake_state d of None \<Rightarrow> ns_handshake_state s | Some x \<Rightarrow> x),
        ns_session_state := (case su_session_state d of None \<Rightarrow> ns_session_state s | Some x \<Rightarrow> x),
        ns_last_activity_at := (case su_last_activity_at d of None \<Rightarrow> ns_last_activity_at s | Some x \<Rightarrow> x),
        ns_keepalive_deadline := set_some (su_keepalive_deadline d) (ns_keepalive_deadline s),
        ns_expires_at := set_some (su_expires_at d) (ns_expires_at s),
        ns_closed_at := set_some (su_closed_at d) (ns_closed_at s),
        ns_close_reason := set_some (su_close_reason d) (ns_close_reason s),
        ns_bound_route_id := set_some (su_bound_route_id d) (ns_bound_route_id s),
        ns_session_key_id := set_some (su_session_key_id d) (ns_session_key_id s),
        ns_metadata_json := set_some (su_metadata_json d) (ns_metadata_json s) \<rparr>"

definition update_session_state ::
  "session_manager \<Rightarrow> string \<Rightarrow> session_state_update_input \<Rightarrow> session_manager \<times> network_session option" where
  "update_session_state sm session_id data = modify_session sm session_id (apply_state_update data)"

definition close_session ::
  "session_manager \<Rightarrow> string \<Rightarrow> string \<Rightarrow> time_us \<Rightarrow> session_manager \<times> network_session option" where
  "close_session sm session_id close_reason now =
     update_session_state sm session_id (session_state_update_defaults \<lparr>
       su_handshake_state := Some ''closed'', su_session_state := Some ''closed'',
       su_closed_at := Some now, su_close_reason := Some close_reason \<rparr>)"

definition delete_session :: "session_manager \<Rightarrow> string \<Rightarrow> session_manager \<times> bool" where
  "delete_session sm session_id =
     (case dict_get (sm_sessions_by_session_id sm) session_id of
        None \<Rightarrow> (sm, False)
      | Some a \<Rightarrow>
          (sm \<lparr> sm_sessions_by_session_id := dict_pop session_id (sm_sessions_by_session_id sm),
                sm_sessions_by_id := dict_pop (ns_id (sm_object sm a)) (sm_sessions_by_id sm),
                sm_reliable_states_by_session_id :=
                  dict_pop session_id (sm_reliable_states_by_session_id sm) \<rparr>, True))"

definition session_exists :: "session_manager \<Rightarrow> string \<Rightarrow> bool" where
  "session_exists sm session_id \<longleftrightarrow> dict_get (sm_sessions_by_session_id sm) session_id \<noteq> None"

section \<open>Reliable delivery of a session\<close>

definition get_reliable_state ::
  "session_manager \<Rightarrow> network_session \<Rightarrow> session_manager \<times> reliable_session_state" where
  "get_reliable_state sm session =
     (case dict_get (sm_reliable_states_by_session_id sm) (ns_session_id session) of
        Some st \<Rightarrow> (sm, st)
      | None \<Rightarrow> let st = new_reliable_session_state (ns_session_id session) (ns_session_scope session)
          in (sm \<lparr> sm_reliable_states_by_session_id :=
                 dict_set (ns_session_id session) st (sm_reliable_states_by_session_id sm) \<rparr>, st))"

definition set_reliable_state ::
  "session_manager \<Rightarrow> string \<Rightarrow> reliable_session_state \<Rightarrow> session_manager" where
  "set_reliable_state sm session_id st = sm \<lparr> sm_reliable_states_by_session_id :=
     dict_set session_id st (sm_reliable_states_by_session_id sm) \<rparr>"

definition get_reliable_outbound ::
  "session_manager \<Rightarrow> string \<Rightarrow> int \<Rightarrow> reliable_outbound_message option" where
  "get_reliable_outbound sm session_id sequence_number =
     (case dict_get (sm_reliable_states_by_session_id sm) session_id of
        None \<Rightarrow> None
      | Some st \<Rightarrow> dict_get (rs_outbound_by_sequence st) sequence_number)"

text \<open>Mutate the outbound message object stored under a session id and a sequence number.\<close>

definition modify_reliable_outbound ::
  "session_manager \<Rightarrow> string \<Rightarrow> int \<Rightarrow> (reliable_outbound_message \<Rightarrow> reliable_outbound_message)
   \<Rightarrow> session_manager" where
  "modify_reliable_outbound sm session_id sequence_number f =
     (case dict_get (sm_reliable_states_by_session_id sm) session_id of
        None \<Rightarrow> sm
      | Some st \<Rightarrow> (case dict_get (rs_outbound_by_sequence st) sequence_number of
          None \<Rightarrow> sm
        | Some m \<Rightarrow> set_reliable_state sm session_id (st \<lparr> rs_outbound_by_sequence :=
            dict_set sequence_number (f m) (rs_outbound_by_sequence st) \<rparr>)))"

definition prepare_reliable_outbound ::
  "session_manager \<Rightarrow> string \<Rightarrow> string \<Rightarrow> payload \<Rightarrow> rat \<Rightarrow> int \<Rightarrow> string \<Rightarrow> time_us
   \<Rightarrow> (session_manager \<times> reliable_outbound_message) result" where
  "prepare_reliable_outbound sm session_id inner_message_type inner_payload retry_after_seconds
     max_attempts uuid now =
     (case get_session_by_session_id sm session_id of
        None \<Rightarrow> Inl (ValueError ''session_not_found_for_reliable_outbound'')
      | Some session \<Rightarrow> (case get_reliable_state sm session of (sm1, st) \<Rightarrow>
          (case build_reliable_outbound st inner_message_type inner_payload retry_after_seconds
                  max_attempts uuid now of
             (st', m) \<Rightarrow> Inr (set_reliable_state sm1 (ns_session_id session) st', m))))"

definition mark_reliable_outbound_sent ::
  "session_manager \<Rightarrow> string \<Rightarrow> int \<Rightarrow> time_us \<Rightarrow> session_manager \<times> reliable_outbound_message option" where
  "mark_reliable_outbound_sent sm session_id sequence_number now =
     (case get_reliable_outbound sm session_id sequence_number of
        None \<Rightarrow> (sm, None)
      | Some m \<Rightarrow> if \<not> pending m then (sm, None) else
          let f = (\<lambda>m. m \<lparr> ro_attempts := ro_attempts m + 1, ro_last_sent_at := Some now \<rparr>)
          in (modify_reliable_outbound sm session_id sequence_number f, Some (f m)))"

definition mark_reliable_outbound_acked ::
  "session_manager \<Rightarrow> string \<Rightarrow> int \<Rightarrow> string \<Rightarrow> time_us
   \<Rightarrow> session_manager \<times> reliable_outbound_message option" where
  "mark_reliable_outbound_acked sm session_id sequence_number reliable_message_id now =
     (case get_reliable_outbound sm session_id sequence_number of
        None \<Rightarrow> (sm, None)
      | Some m \<Rightarrow> if ro_reliable_message_id m \<noteq> reliable_message_id then (sm, None) else
          ((case dict_get (sm_reliable_states_by_session_id sm) session_id of
              None \<Rightarrow> sm
            | Some st \<Rightarrow> set_reliable_state sm session_id (st \<lparr> rs_outbound_by_sequence :=
                dict_pop sequence_number (rs_outbound_by_sequence st) \<rparr>)),
           Some (m \<lparr> ro_acked_at := Some now \<rparr>)))"

definition receive_reliable_inbound ::
  "(time_us \<Rightarrow> string) \<Rightarrow> session_manager \<Rightarrow> string \<Rightarrow> payload \<Rightarrow> time_us \<Rightarrow> time_us
   \<Rightarrow> session_manager \<times> reliable_receive_result result" where
  "receive_reliable_inbound isofmt sm session_id p received_at now =
     (case get_session_by_session_id sm session_id of
        None \<Rightarrow> (sm, Inl (ValueError ''session_not_found_for_reliable_inbound''))
      | Some session \<Rightarrow> (case get_reliable_state sm session of (sm1, st) \<Rightarrow>
          (case receive_reliable_payload isofmt st p received_at now of
             Inl e \<Rightarrow> (sm1, Inl e)
           | Inr (st', r) \<Rightarrow> (set_reliable_state sm1 (ns_session_id session) st', Inr r))))"

text \<open>Pending messages with the place they are stored at, in the order the code sorts them.\<close>

definition outbound_sort_key :: "reliable_outbound_message \<Rightarrow> time_us \<times> int" where
  "outbound_sort_key m =
     ((case ro_last_sent_at m of Some t \<Rightarrow> t | None \<Rightarrow> ro_created_at m), ro_sequence_number m)"

definition pending_refs :: "session_manager \<Rightarrow> ((string \<times> int) \<times> reliable_outbound_message) list" where
  "pending_refs sm = py_sorted (\<lambda>(r, m). outbound_sort_key m)
     (concat (map (\<lambda>(sid, st). map (\<lambda>(k, m). ((sid, k), m))
         (filter (\<lambda>(k, m). pending m) (rs_outbound_by_sequence st)))
       (sm_reliable_states_by_session_id sm)))"

definition list_pending_reliable_outbound_messages ::
  "session_manager \<Rightarrow> reliable_outbound_message list" where
  "list_pending_reliable_outbound_messages sm = map snd (pending_refs sm)"

definition mark_failed :: "time_us \<Rightarrow> string \<Rightarrow> reliable_outbound_message \<Rightarrow> reliable_outbound_message" where
  "mark_failed now reason m = m \<lparr> ro_failed_at := Some now, ro_failure_reason := Some reason \<rparr>"

definition list_due_reliable_outbound_messages ::
  "session_manager \<Rightarrow> time_us \<Rightarrow> session_manager \<times> reliable_outbound_message list" where
  "list_due_reliable_outbound_messages sm now =
     (let refs = pending_refs sm;
          exhausted = filter (\<lambda>(r, m). ro_max_attempts m \<le> ro_attempts m) refs;
          sm' = fold (\<lambda>((sid, k), m) s.
                  modify_reliable_outbound s sid k (mark_failed now ''max_attempts_exceeded'')) exhausted sm
      in (sm', py_sorted outbound_sort_key
                 (map snd (filter (\<lambda>(r, m). ro_attempts m < ro_max_attempts m \<and> due_for_send m now None) refs))))"

definition mark_reliable_outbound_failed ::
  "session_manager \<Rightarrow> string \<Rightarrow> int \<Rightarrow> string \<Rightarrow> time_us
   \<Rightarrow> session_manager \<times> reliable_outbound_message option" where
  "mark_reliable_outbound_failed sm session_id sequence_number reason now =
     (case get_reliable_outbound sm session_id sequence_number of
        None \<Rightarrow> (sm, None)
      | Some m \<Rightarrow> if \<not> pending m then (sm, None) else
          (modify_reliable_outbound sm session_id sequence_number (mark_failed now reason),
           Some (mark_failed now reason m)))"

definition count_pending_reliable_outbound :: "session_manager \<Rightarrow> string \<Rightarrow> nat" where
  "count_pending_reliable_outbound sm session_id =
     (case dict_get (sm_reliable_states_by_session_id sm) session_id of
        None \<Rightarrow> 0
      | Some st \<Rightarrow> length (filter pending (dict_values (rs_outbound_by_sequence st))))"

section \<open>Session helpers\<close>

definition load_session_metadata :: "network_session \<Rightarrow> payload" where
  "load_session_metadata s = load_json_object (ns_metadata_json s)"

definition is_observed_only_physical_endpoint :: "network_session \<Rightarrow> bool" where
  "is_observed_only_physical_endpoint s \<longleftrightarrow>
     jget (load_session_metadata s) ''physical_endpoint_source'' = JStr ''observed''"

definition is_observed_only_physical_session :: "network_session \<Rightarrow> bool" where
  "is_observed_only_physical_session s =
     (if ns_session_scope s \<noteq> ''physical'' then False else is_observed_only_physical_endpoint s)"

record transport_endpoint =
  te_transport_name :: string
  te_host :: string
  te_port :: int
  te_metadata :: payload

record transport_packet =
  tp_transport_name :: string
  tp_payload :: string
  tp_remote_endpoint :: transport_endpoint
  tp_local_endpoint :: "transport_endpoint option"
  tp_received_at :: time_us
  tp_metadata :: payload

record outbound_message =
  om_transport_name :: string
  om_payload :: string
  om_remote_endpoint :: transport_endpoint
  om_local_endpoint :: "transport_endpoint option"
  om_metadata :: payload

definition build_remote_endpoint_from_session :: "network_session \<Rightarrow> transport_endpoint result" where
  "build_remote_endpoint_from_session s =
     (case (ns_transport s, ns_remote_host s, ns_remote_port s) of
        (Some t, Some h, Some p) \<Rightarrow>
          if t = [] \<or> h = []
          then Inl (ValueError ''The physical session has no associated remote endpoint.'')
          else Inr \<lparr> te_transport_name = t, te_host = h, te_port = p, te_metadata = load_session_metadata s \<rparr>
      | _ \<Rightarrow> Inl (ValueError ''The physical session has no associated remote endpoint.''))"

section \<open>The invariant of the session table\<close>

text \<open>The two dictionaries index the same live objects, under the identifiers stored in them.\<close>

definition index_ok :: "session_manager \<Rightarrow> bool" where
  "index_ok sm \<longleftrightarrow>
     dict_ok (sm_sessions_by_id sm) \<and> dict_ok (sm_sessions_by_session_id sm) \<and>
     (\<forall>i a. dict_get (sm_sessions_by_id sm) i = Some a \<longrightarrow>
        a < length (sm_heap sm) \<and> ns_id (sm_object sm a) = i \<and> i < sm_next_id sm \<and>
        dict_get (sm_sessions_by_session_id sm) (ns_session_id (sm_object sm a)) = Some a) \<and>
     (\<forall>k a. dict_get (sm_sessions_by_session_id sm) k = Some a \<longrightarrow>
        a < length (sm_heap sm) \<and> ns_session_id (sm_object sm a) = k \<and>
        dict_get (sm_sessions_by_id sm) (ns_id (sm_object sm a)) = Some a)"

text \<open>Outbound messages are filed under their own number, below the next number.\<close>

definition outbound_ok :: "reliable_session_state \<Rightarrow> bool" where
  "outbound_ok st \<longleftrightarrow> 1 \<le> rs_next_outbound_sequence st \<and> dict_ok (rs_outbound_by_sequence st) \<and>
     (\<forall>k m. dict_get (rs_outbound_by_sequence st) k = Some m \<longrightarrow>
        ro_sequence_number m = k \<and> 1 \<le> k \<and> k < rs_next_outbound_sequence st \<and>
        ro_session_id m = rs_session_id st \<and> ro_acked_at m = None)"

definition reliable_ok :: "session_manager \<Rightarrow> bool" where
  "reliable_ok sm \<longleftrightarrow> dict_ok (sm_reliable_states_by_session_id sm) \<and>
     (\<forall>k st. dict_get (sm_reliable_states_by_session_id sm) k = Some st \<longrightarrow>
        dict_get (sm_sessions_by_session_id sm) k \<noteq> None \<and> rs_session_id st = k \<and> outbound_ok st)"

definition sm_ok :: "session_manager \<Rightarrow> bool" where
  "sm_ok sm \<longleftrightarrow> index_ok sm \<and> reliable_ok sm"

lemma index_okD:
  assumes "index_ok sm"
  shows "dict_ok (sm_sessions_by_id sm)" and "dict_ok (sm_sessions_by_session_id sm)"
    and "dict_get (sm_sessions_by_id sm) i = Some a \<Longrightarrow>
      a < length (sm_heap sm) \<and> ns_id (sm_object sm a) = i \<and> i < sm_next_id sm \<and>
      dict_get (sm_sessions_by_session_id sm) (ns_session_id (sm_object sm a)) = Some a"
    and "dict_get (sm_sessions_by_session_id sm) k = Some a \<Longrightarrow>
      a < length (sm_heap sm) \<and> ns_session_id (sm_object sm a) = k \<and>
      dict_get (sm_sessions_by_id sm) (ns_id (sm_object sm a)) = Some a"
  using assms unfolding index_ok_def by blast+

lemma index_okI:
  assumes "dict_ok (sm_sessions_by_id sm)" and "dict_ok (sm_sessions_by_session_id sm)"
    and "\<And>i a. dict_get (sm_sessions_by_id sm) i = Some a \<Longrightarrow>
      a < length (sm_heap sm) \<and> ns_id (sm_object sm a) = i \<and> i < sm_next_id sm \<and>
      dict_get (sm_sessions_by_session_id sm) (ns_session_id (sm_object sm a)) = Some a"
    and "\<And>k a. dict_get (sm_sessions_by_session_id sm) k = Some a \<Longrightarrow>
      a < length (sm_heap sm) \<and> ns_session_id (sm_object sm a) = k \<and>
      dict_get (sm_sessions_by_id sm) (ns_id (sm_object sm a)) = Some a"
  shows "index_ok sm"
  using assms unfolding index_ok_def by blast

lemma sm_ok_new: "sm_ok new_session_manager"
  by (simp add: sm_ok_def index_ok_def reliable_ok_def new_session_manager_def)

definition keeps_ids :: "(network_session \<Rightarrow> network_session) \<Rightarrow> bool" where
  "keeps_ids f \<longleftrightarrow> (\<forall>s. ns_id (f s) = ns_id s \<and> ns_session_id (f s) = ns_session_id s)"

lemma nth_update_key:
  assumes "\<And>x. g (f x) = g x"
  shows "g ((xs[a := f (xs ! a)]) ! b) = g (xs ! b)"
proof (cases "a = b \<and> a < length xs")
  case True
  then show ?thesis by (simp add: assms)
next
  case False
  then have "(xs[a := f (xs ! a)]) ! b = xs ! b" by (cases "a = b") (auto simp: list_update_beyond)
  then show ?thesis by simp
qed

lemma index_ok_modify:
  assumes "index_ok sm" and "keeps_ids f"
  shows "index_ok (fst (modify_session sm sid f))"
proof (cases "dict_get (sm_sessions_by_session_id sm) sid")
  case None
  with assms(1) show ?thesis by (simp add: modify_session_def)
next
  case (Some a)
  have k: "\<And>x. ns_id (f x) = ns_id x" "\<And>x. ns_session_id (f x) = ns_session_id x"
    using assms(2) by (simp_all add: keeps_ids_def)
  note ids = nth_update_key [of ns_id f, OF k(1)] nth_update_key [of ns_session_id f, OF k(2)]
  from assms(1) Some show ?thesis
    by (simp add: modify_session_def index_ok_def Let_def ids)
qed

lemma modify_session_frame [simp]:
  "sm_sessions_by_session_id (fst (modify_session sm sid f)) = sm_sessions_by_session_id sm"
  "sm_sessions_by_id (fst (modify_session sm sid f)) = sm_sessions_by_id sm"
  "sm_reliable_states_by_session_id (fst (modify_session sm sid f)) = sm_reliable_states_by_session_id sm"
  "sm_next_id (fst (modify_session sm sid f)) = sm_next_id sm"
  "length (sm_heap (fst (modify_session sm sid f))) = length (sm_heap sm)"
  by (simp_all add: modify_session_def Let_def split: option.splits)

lemma sm_ok_modify: "sm_ok sm \<Longrightarrow> keeps_ids f \<Longrightarrow> sm_ok (fst (modify_session sm sid f))"
  by (simp add: sm_ok_def index_ok_modify reliable_ok_def)

lemma modify_session_same:
  "index_ok sm \<Longrightarrow> get_session_by_session_id sm sid = Some s \<Longrightarrow>
   get_session_by_session_id (fst (modify_session sm sid f)) sid = Some (f s)"
  by (auto simp: get_session_by_session_id_def modify_session_def index_ok_def Let_def)

lemma modify_session_other:
  assumes "index_ok sm" and "sid' \<noteq> sid"
  shows "get_session_by_session_id (fst (modify_session sm sid f)) sid' = get_session_by_session_id sm sid'"
proof (cases "dict_get (sm_sessions_by_session_id sm) sid")
  case (Some a)
  have "dict_get (sm_sessions_by_session_id sm) sid' = Some b \<Longrightarrow> b \<noteq> a" for b
    using index_okD(4) [OF assms(1) Some] index_okD(4) [OF assms(1), of sid' b] assms(2) by auto
  with Some show ?thesis
    by (cases "dict_get (sm_sessions_by_session_id sm) sid'")
      (auto simp: get_session_by_session_id_def modify_session_def Let_def)
qed (simp add: modify_session_def)

text \<open>Every in-place mutation of the manager keeps the identifiers.\<close>

lemma keeps_ids_touched: "keeps_ids (touched k now now')"
  by (auto simp: keeps_ids_def touched_def Let_def split: option.splits)

lemma touched_ids [simp]:
  "ns_id (touched k now now' s) = ns_id s" "ns_session_id (touched k now now' s) = ns_session_id s"
  using keeps_ids_touched by (auto simp: keeps_ids_def)

lemma keeps_ids_apply_state_update: "keeps_ids (apply_state_update d)"
  by (simp add: keeps_ids_def apply_state_update_def)

lemmas sm_mutation_defs = touch_session_def store_local_ephemeral_keypair_def
  store_remote_ephemeral_public_key_def store_shared_secret_def activate_session_def
  mark_keepalive_sent_def bind_remote_endpoint_def update_session_state_def close_session_def

lemma sm_ok_mutations:
  assumes "sm_ok sm"
  shows "sm_ok (fst (touch_session sm sid k t t'))"
    and "sm_ok (fst (store_local_ephemeral_keypair sm sid priv pub h t t'))"
    and "sm_ok (fst (store_remote_ephemeral_public_key sm sid pub h t t'))"
    and "sm_ok (fst (store_shared_secret sm sid sec h ss t t'))"
    and "sm_ok (fst (activate_session sm sid t t'))"
    and "sm_ok (fst (mark_keepalive_sent sm sid t))"
    and "sm_ok (fst (bind_remote_endpoint sm sid tr host port))"
    and "sm_ok (fst (update_session_state sm sid d))"
    and "sm_ok (fst (close_session sm sid r t))"
  unfolding sm_mutation_defs
  by (rule sm_ok_modify [OF assms], simp add: keeps_ids_def apply_state_update_def Let_def split: option.split)+

lemma sm_ok_create:
  assumes "sm_ok sm" and "create_session sm d now = Inr (sm', s)"
  shows "sm_ok sm'"
proof -
  have fresh: "dict_get (sm_sessions_by_session_id sm) (sc_session_id d) = None"
    using assms(2) by (auto simp: create_session_def split: if_splits)
  have idx: "index_ok sm" using assms(1) by (simp add: sm_ok_def)
  have fresh_id: "dict_get (sm_sessions_by_id sm) (sm_next_id sm) = None"
    using index_okD(3) [OF idx, of "sm_next_id sm"] by (cases "dict_get (sm_sessions_by_id sm) (sm_next_id sm)") auto
  have sm': "sm_heap sm' = sm_heap sm @ [s]" "ns_id s = sm_next_id sm" "ns_session_id s = sc_session_id d"
    "sm_sessions_by_id sm' = dict_set (sm_next_id sm) (length (sm_heap sm)) (sm_sessions_by_id sm)"
    "sm_sessions_by_session_id sm' = dict_set (sc_session_id d) (length (sm_heap sm)) (sm_sessions_by_session_id sm)"
    "sm_next_id sm' = sm_next_id sm + 1"
    "sm_reliable_states_by_session_id sm' = sm_reliable_states_by_session_id sm"
    using assms(2) by (auto simp: create_session_def Let_def split: if_splits)
  let ?n = "length (sm_heap sm)"
  have by_id: "a < length (sm_heap sm') \<and> ns_id (sm_object sm' a) = i \<and> i < sm_next_id sm' \<and>
      dict_get (sm_sessions_by_session_id sm') (ns_session_id (sm_object sm' a)) = Some a"
    if "dict_get (sm_sessions_by_id sm') i = Some a" for i a
  proof (cases "i = sm_next_id sm")
    case True
    with that have "a = ?n" by (simp add: sm')
    with True show ?thesis by (simp add: sm')
  next
    case False
    with that have "dict_get (sm_sessions_by_id sm) i = Some a" by (simp add: sm')
    from index_okD(3) [OF idx this] fresh show ?thesis
      by (simp add: sm' nth_append) (metis option.distinct(1))
  qed
  have by_sid: "a < length (sm_heap sm') \<and> ns_session_id (sm_object sm' a) = k \<and>
      dict_get (sm_sessions_by_id sm') (ns_id (sm_object sm' a)) = Some a"
    if "dict_get (sm_sessions_by_session_id sm') k = Some a" for k a
  proof (cases "k = sc_session_id d")
    case True
    with that have "a = ?n" by (simp add: sm')
    with True show ?thesis by (simp add: sm')
  next
    case False
    with that have "dict_get (sm_sessions_by_session_id sm) k = Some a" by (simp add: sm')
    from index_okD(4) [OF idx this] fresh_id show ?thesis
      by (simp add: sm' nth_append) (metis option.distinct(1))
  qed
  have "index_ok sm'"
    by (rule index_okI [OF _ _ by_id by_sid]) (simp_all add: sm'(4,5) index_okD(1,2) [OF idx])
  moreover have "reliable_ok sm'"
    using assms(1) by (auto simp: sm_ok_def reliable_ok_def sm')
  ultimately show ?thesis by (simp add: sm_ok_def)
qed

lemma sm_ok_delete:
  assumes "sm_ok sm"
  shows "sm_ok (fst (delete_session sm sid))"
proof (cases "dict_get (sm_sessions_by_session_id sm) sid")
  case None
  with assms show ?thesis by (simp add: delete_session_def)
next
  case (Some a)
  have idx: "index_ok sm" using assms by (simp add: sm_ok_def)
  let ?sm = "fst (delete_session sm sid)"
  have sm': "sm_heap ?sm = sm_heap sm" "sm_next_id ?sm = sm_next_id sm"
    "sm_sessions_by_id ?sm = dict_pop (ns_id (sm_object sm a)) (sm_sessions_by_id sm)"
    "sm_sessions_by_session_id ?sm = dict_pop sid (sm_sessions_by_session_id sm)"
    "sm_reliable_states_by_session_id ?sm = dict_pop sid (sm_reliable_states_by_session_id sm)"
    using Some by (simp_all add: delete_session_def)
  note a = index_okD(4) [OF idx Some]
  have by_id: "b < length (sm_heap ?sm) \<and> ns_id (sm_object ?sm b) = i \<and> i < sm_next_id ?sm \<and>
      dict_get (sm_sessions_by_session_id ?sm) (ns_session_id (sm_object ?sm b)) = Some b"
    if "dict_get (sm_sessions_by_id ?sm) i = Some b" for i b
  proof -
    have ib: "i \<noteq> ns_id (sm_object sm a)" "dict_get (sm_sessions_by_id sm) i = Some b"
      using that by (simp_all add: sm' split: if_splits)
    note b = index_okD(3) [OF idx ib(2)]
    have "ns_session_id (sm_object sm b) \<noteq> sid" using b ib(1) Some by auto
    with b show ?thesis by (simp add: sm')
  qed
  have by_sid: "b < length (sm_heap ?sm) \<and> ns_session_id (sm_object ?sm b) = k \<and>
      dict_get (sm_sessions_by_id ?sm) (ns_id (sm_object ?sm b)) = Some b"
    if "dict_get (sm_sessions_by_session_id ?sm) k = Some b" for k b
  proof -
    have kb: "k \<noteq> sid" "dict_get (sm_sessions_by_session_id sm) k = Some b"
      using that by (simp_all add: sm' split: if_splits)
    note b = index_okD(4) [OF idx kb(2)]
    have "ns_id (sm_object sm b) \<noteq> ns_id (sm_object sm a)" using a b kb(1) by auto
    with b show ?thesis by (simp add: sm')
  qed
  have "index_ok ?sm"
    by (rule index_okI [OF _ _ by_id by_sid]) (simp_all add: sm'(3,4) index_okD(1,2) [OF idx])
  moreover have "reliable_ok ?sm"
    using assms by (auto simp: sm_ok_def reliable_ok_def sm')
  ultimately show ?thesis by (simp add: sm_ok_def)
qed

lemma sm_ok_set_reliable_state:
  assumes "sm_ok sm" and "dict_get (sm_sessions_by_session_id sm) sid \<noteq> None"
    and "rs_session_id st = sid" and "outbound_ok st"
  shows "sm_ok (set_reliable_state sm sid st)"
  using assms by (auto simp: sm_ok_def index_ok_def reliable_ok_def set_reliable_state_def)

lemma reliable_okD:
  assumes "sm_ok sm" and "dict_get (sm_reliable_states_by_session_id sm) k = Some st"
  shows "dict_get (sm_sessions_by_session_id sm) k \<noteq> None" and "rs_session_id st = k" and "outbound_ok st"
  using assms by (auto simp: sm_ok_def reliable_ok_def)

lemma outbound_ok_new: "outbound_ok (new_reliable_session_state sid scope)"
  by (simp add: outbound_ok_def new_reliable_session_state_def)

lemma sm_ok_get_reliable_state:
  assumes "sm_ok sm" and "get_session_by_session_id sm sid = Some session"
    and "get_reliable_state sm session = (sm1, st)"
  shows "sm_ok sm1 \<and> ns_session_id session = sid \<and> rs_session_id st = sid \<and> outbound_ok st \<and>
    sm_sessions_by_session_id sm1 = sm_sessions_by_session_id sm \<and>
    dict_get (sm_sessions_by_session_id sm) sid \<noteq> None"
proof -
  obtain a where a: "dict_get (sm_sessions_by_session_id sm) sid = Some a" "session = sm_object sm a"
    using assms(2) by (auto simp: get_session_by_session_id_def)
  have sid: "ns_session_id session = sid"
    using index_okD(4) [OF _ a(1)] assms(1) a(2) by (simp add: sm_ok_def)
  show ?thesis
  proof (cases "dict_get (sm_reliable_states_by_session_id sm) sid")
    case None
    let ?st = "new_reliable_session_state sid (ns_session_scope session)"
    have "sm1 = set_reliable_state sm sid ?st" "st = ?st"
      using assms(3) None sid by (auto simp: get_reliable_state_def set_reliable_state_def Let_def)
    with sm_ok_set_reliable_state [OF assms(1), of sid ?st] a sid show ?thesis
      by (simp add: outbound_ok_new) (simp add: new_reliable_session_state_def set_reliable_state_def)
  next
    case (Some st')
    with assms(3) sid reliable_okD [OF assms(1) Some] a assms(1) show ?thesis
      by (auto simp: get_reliable_state_def)
  qed
qed

lemma outbound_ok_build:
  assumes "outbound_ok st" and "build_reliable_outbound st ty p r mx uuid now = (st', m)"
  shows "outbound_ok st' \<and> rs_session_id st' = rs_session_id st"
proof -
  have st': "rs_outbound_by_sequence st' = dict_set (rs_next_outbound_sequence st) m (rs_outbound_by_sequence st)"
    "rs_next_outbound_sequence st' = rs_next_outbound_sequence st + 1" "rs_session_id st' = rs_session_id st"
    "ro_sequence_number m = rs_next_outbound_sequence st" "ro_session_id m = rs_session_id st" "ro_acked_at m = None"
    using assms(2) by (auto simp: build_reliable_outbound_def Let_def)
  have old: "ro_sequence_number x = k \<and> 1 \<le> k \<and> k < rs_next_outbound_sequence st + 1 \<and>
      ro_session_id x = rs_session_id st \<and> ro_acked_at x = None"
    if "dict_get (rs_outbound_by_sequence st) k = Some x" for k x
    using assms(1) that unfolding outbound_ok_def by fastforce
  with assms(1) show ?thesis
    by (simp add: outbound_ok_def [of st'] st') (simp add: outbound_ok_def)
qed

lemma receive_inbound_outbound:
  assumes "receive_inbound st m ack = (st', r)"
  shows "rs_outbound_by_sequence st' = rs_outbound_by_sequence st \<and>
    rs_next_outbound_sequence st' = rs_next_outbound_sequence st \<and> rs_session_id st' = rs_session_id st"
proof -
  have loop: "deliver_loop s acc = (s', ds) \<Longrightarrow> rs_outbound_by_sequence s' = rs_outbound_by_sequence s \<and>
      rs_next_outbound_sequence s' = rs_next_outbound_sequence s \<and> rs_session_id s' = rs_session_id s"
    for s acc s' ds
  proof (induction s acc arbitrary: s' ds rule: deliver_loop.induct)
    case (1 s acc)
    show ?case
    proof (cases "dict_get (rs_inbound_buffer_by_sequence s) (rs_next_expected_inbound_sequence s)")
      case None
      with 1(2) show ?thesis by (simp add: deliver_loop.simps [of s])
    next
      case (Some x)
      from 1(2) Some have "deliver_loop (s \<lparr> rs_inbound_buffer_by_sequence :=
           dict_pop (rs_next_expected_inbound_sequence s) (rs_inbound_buffer_by_sequence s),
         rs_delivered_message_ids := (if ri_reliable_message_id x \<notin> rs_delivered_message_ids s
           then insert (ri_reliable_message_id x) (rs_delivered_message_ids s) else rs_delivered_message_ids s),
         rs_next_expected_inbound_sequence := rs_next_expected_inbound_sequence s + 1 \<rparr>)
         (if ri_reliable_message_id x \<notin> rs_delivered_message_ids s then acc @ [x] else acc) = (s', ds)"
        by (simp add: deliver_loop.simps [of s] Let_def)
      from 1(1) [OF Some refl this] show ?thesis by simp
    qed
  qed
  show ?thesis
    using assms loop by (fastforce simp: receive_inbound_def split: if_splits prod.splits)
qed

lemma sm_ok_prepare:
  assumes "sm_ok sm" and "prepare_reliable_outbound sm sid ty p r mx uuid now = Inr (sm', m)"
  shows "sm_ok sm'"
proof -
  obtain session sm1 st st' where 1: "get_session_by_session_id sm sid = Some session"
    "get_reliable_state sm session = (sm1, st)" "build_reliable_outbound st ty p r mx uuid now = (st', m)"
    "sm' = set_reliable_state sm1 (ns_session_id session) st'"
    using assms(2) by (auto simp: prepare_reliable_outbound_def split: option.splits prod.splits)
  with sm_ok_get_reliable_state [OF assms(1) 1(1,2)] outbound_ok_build [OF _ 1(3)]
  show ?thesis by (auto intro!: sm_ok_set_reliable_state)
qed

lemma sm_ok_receive:
  assumes "sm_ok sm"
  shows "sm_ok (fst (receive_reliable_inbound isofmt sm sid p t t'))"
proof (cases "get_session_by_session_id sm sid")
  case None
  with assms show ?thesis by (simp add: receive_reliable_inbound_def)
next
  case (Some session)
  obtain sm1 st where 1: "get_reliable_state sm session = (sm1, st)" by force
  note ok = sm_ok_get_reliable_state [OF assms Some 1]
  show ?thesis
  proof (cases "receive_reliable_payload isofmt st p t t'")
    case (Inl e)
    with Some 1 ok show ?thesis by (simp add: receive_reliable_inbound_def)
  next
    case (Inr x)
    obtain st' r where x: "x = (st', r)" by force
    then obtain m where "receive_inbound st m (reliable_ack_payload isofmt m t') = (st', r)"
      using Inr by (auto simp: receive_reliable_payload_def rbind_Inr_iff)
    from receive_inbound_outbound [OF this] ok have "outbound_ok st' \<and> rs_session_id st' = sid"
      by (simp add: outbound_ok_def)
    with Some 1 ok Inr x show ?thesis
      by (auto simp: receive_reliable_inbound_def intro!: sm_ok_set_reliable_state)
  qed
qed

lemma sm_ok_modify_outbound:
  assumes "sm_ok sm"
    and f: "\<And>m. ro_sequence_number (f m) = ro_sequence_number m \<and> ro_session_id (f m) = ro_session_id m \<and>
      ro_acked_at (f m) = ro_acked_at m"
  shows "sm_ok (modify_reliable_outbound sm sid k f)"
proof -
  have "sm_ok (set_reliable_state sm sid (st \<lparr> rs_outbound_by_sequence := dict_set k (f m) (rs_outbound_by_sequence st) \<rparr>))"
    if st: "dict_get (sm_reliable_states_by_session_id sm) sid = Some st"
      and m: "dict_get (rs_outbound_by_sequence st) k = Some m" for st m
  proof (rule sm_ok_set_reliable_state [OF assms(1)])
    show "outbound_ok (st \<lparr> rs_outbound_by_sequence := dict_set k (f m) (rs_outbound_by_sequence st) \<rparr>)"
      using reliable_okD(3) [OF assms(1) st] m f by (auto simp: outbound_ok_def split: if_splits)
  qed (use reliable_okD [OF assms(1) st] in simp_all)
  with assms(1) show ?thesis
    by (auto simp: modify_reliable_outbound_def split: option.split)
qed

lemma sm_ok_mark_acked:
  assumes "sm_ok sm"
  shows "sm_ok (fst (mark_reliable_outbound_acked sm sid k mid t))"
proof -
  have "sm_ok (set_reliable_state sm sid (st \<lparr> rs_outbound_by_sequence := dict_pop k (rs_outbound_by_sequence st) \<rparr>))"
    if st: "dict_get (sm_reliable_states_by_session_id sm) sid = Some st" for st
  proof (rule sm_ok_set_reliable_state [OF assms])
    show "outbound_ok (st \<lparr> rs_outbound_by_sequence := dict_pop k (rs_outbound_by_sequence st) \<rparr>)"
      using reliable_okD(3) [OF assms st] by (auto simp: outbound_ok_def split: if_splits)
  qed (use reliable_okD [OF assms st] in simp_all)
  with assms show ?thesis
    by (auto simp: mark_reliable_outbound_acked_def split: option.split)
qed

lemma sm_ok_mark_sent: "sm_ok sm \<Longrightarrow> sm_ok (fst (mark_reliable_outbound_sent sm sid k t))"
  by (auto simp: mark_reliable_outbound_sent_def Let_def intro!: sm_ok_modify_outbound split: option.split)

lemma sm_ok_mark_failed: "sm_ok sm \<Longrightarrow> sm_ok (fst (mark_reliable_outbound_failed sm sid k r t))"
  by (auto simp: mark_reliable_outbound_failed_def mark_failed_def intro!: sm_ok_modify_outbound split: option.split)

lemma sm_ok_list_due: "sm_ok sm \<Longrightarrow> sm_ok (fst (list_due_reliable_outbound_messages sm now))"
proof -
  have "sm_ok s \<Longrightarrow> sm_ok (fold (\<lambda>((sid, k), m) s. modify_reliable_outbound s sid k (mark_failed now r)) refs s)"
    for refs :: "((string \<times> int) \<times> reliable_outbound_message) list" and s r
  proof (induction refs arbitrary: s)
    case (Cons x refs)
    obtain sid k m where x: "x = ((sid, k), m)" by (metis surj_pair)
    have "sm_ok (modify_reliable_outbound s sid k (mark_failed now r))"
      by (rule sm_ok_modify_outbound [OF Cons.prems]) (simp add: mark_failed_def)
    then show ?case by (simp add: x Cons.IH)
  qed simp
  then show "sm_ok sm \<Longrightarrow> sm_ok (fst (list_due_reliable_outbound_messages sm now))"
    by (simp add: list_due_reliable_outbound_messages_def Let_def)
qed

end
