(* ===== verification/Session_Table.thy ===== *)
theory Session_Table
  imports Session_Manager
begin

text \<open>
  The session manager as a state machine: one rule per public operation that changes its state,
  the tables that can be reached from an empty manager, the invariant of every reachable table,
  and what the queries, \<^verbatim>\<open>close_session\<close>, \<^verbatim>\<open>delete_session\<close> and the retry bookkeeping promise.
\<close>

inductive sm_step :: "(time_us \<Rightarrow> string) \<Rightarrow> session_manager \<Rightarrow> session_manager \<Rightarrow> bool"
  for isofmt :: "time_us \<Rightarrow> string" where
  register: "register_virtual_message_handler sm ty h = Inr sm' \<Longrightarrow> sm_step isofmt sm sm'"
| unregister: "sm_step isofmt sm (unregister_virtual_message_handler sm ty)"
| create: "create_session sm d t = Inr (sm', s) \<Longrightarrow> sm_step isofmt sm sm'"
| create_outbound_physical:
    "create_outbound_physical_session sm uuid l r pk tr h p k t t' = Inr (sm', s) \<Longrightarrow> sm_step isofmt sm sm'"
| create_inbound_physical:
    "create_inbound_physical_session sm sid l r pk tr ho po k t t' = Inr (sm', s) \<Longrightarrow> sm_step isofmt sm sm'"
| create_outbound_virtual:
    "create_outbound_virtual_session sm uuid l r pk b k t t' = Inr (sm', s) \<Longrightarrow> sm_step isofmt sm sm'"
| create_inbound_virtual:
    "create_inbound_virtual_session sm sid l r pk b k t t' = Inr (sm', s) \<Longrightarrow> sm_step isofmt sm sm'"
| touch: "sm_step isofmt sm (fst (touch_session sm sid ko t t'))"
| store_local_keypair: "sm_step isofmt sm (fst (store_local_ephemeral_keypair sm sid priv pub h t t'))"
| store_remote_key: "sm_step isofmt sm (fst (store_remote_ephemeral_public_key sm sid pub h t t'))"
| store_secret: "sm_step isofmt sm (fst (store_shared_secret sm sid sec h st t t'))"
| activate: "sm_step isofmt sm (fst (activate_session sm sid t t'))"
| keepalive_sent: "sm_step isofmt sm (fst (mark_keepalive_sent sm sid t))"
| bind_endpoint: "sm_step isofmt sm (fst (bind_remote_endpoint sm sid tro ho po))"
| update: "sm_step isofmt sm (fst (update_session_state sm sid u))"
| close: "sm_step isofmt sm (fst (close_session sm sid reason t))"
| delete: "sm_step isofmt sm (fst (delete_session sm sid))"
| prepare_outbound: "prepare_reliable_outbound sm sid ty p rt mx uuid t = Inr (sm', m) \<Longrightarrow> sm_step isofmt sm sm'"
| outbound_sent: "sm_step isofmt sm (fst (mark_reliable_outbound_sent sm sid n t))"
| outbound_acked: "sm_step isofmt sm (fst (mark_reliable_outbound_acked sm sid n mid t))"
| outbound_failed: "sm_step isofmt sm (fst (mark_reliable_outbound_failed sm sid n reason t))"
| receive_inbound: "sm_step isofmt sm (fst (receive_reliable_inbound isofmt sm sid p t t'))"
| list_due: "sm_step isofmt sm (fst (list_due_reliable_outbound_messages sm t))"

inductive sm_reachable :: "(time_us \<Rightarrow> string) \<Rightarrow> session_manager \<Rightarrow> bool"
  for isofmt :: "time_us \<Rightarrow> string" where
  start: "sm_reachable isofmt new_session_manager"
| step: "sm_reachable isofmt sm \<Longrightarrow> sm_step isofmt sm sm' \<Longrightarrow> sm_reachable isofmt sm'"

lemma sm_ok_create_inbound_physical:
  assumes "sm_ok sm" and "create_inbound_physical_session sm sid l r pk tr ho po k t t' = Inr (sm', s)"
  shows "sm_ok sm'"
proof (cases "get_session_by_session_id sm sid")
  case None
  with assms show ?thesis by (auto simp: create_inbound_physical_session_def intro: sm_ok_create)
next
  case (Some e)
  with assms(2) have "sm' = fst (bind_remote_endpoint sm sid (Some tr) ho po)"
    by (auto simp: create_inbound_physical_session_def split: prod.splits option.splits)
  with sm_ok_mutations(7) [OF assms(1)] show ?thesis by simp
qed

lemma sm_ok_handlers: "sm_ok (sm \<lparr> sm_virtual_message_handlers := hs \<rparr>) = sm_ok sm"
  by (simp add: sm_ok_def index_ok_def reliable_ok_def)

lemma sm_ok_step: "sm_step isofmt sm sm' \<Longrightarrow> sm_ok sm \<Longrightarrow> sm_ok sm'"
proof (induction rule: sm_step.induct)
  case (register sm ty h sm')
  then show ?case
    by (auto simp: register_virtual_message_handler_def sm_ok_handlers split: if_splits option.splits)
next
  case (unregister sm ty)
  then show ?case by (simp add: unregister_virtual_message_handler_def sm_ok_handlers)
next
  case (create_outbound_physical sm uuid l r pk tr h p k t t' sm' s)
  then show ?case unfolding create_outbound_physical_session_def by (blast intro: sm_ok_create)
next
  case (create_outbound_virtual sm uuid l r pk b k t t' sm' s)
  then show ?case unfolding create_outbound_virtual_session_def by (blast intro: sm_ok_create)
next
  case (create_inbound_virtual sm sid l r pk b k t t' sm' s)
  then show ?case
    by (auto simp: create_inbound_virtual_session_def intro: sm_ok_create split: option.splits)
qed (blast intro: sm_ok_create sm_ok_create_inbound_physical sm_ok_mutations sm_ok_delete sm_ok_prepare
      sm_ok_mark_sent sm_ok_mark_acked sm_ok_mark_failed sm_ok_receive sm_ok_list_due)+

lemma sm_reachable_ok: "sm_reachable isofmt sm \<Longrightarrow> sm_ok sm"
  by (induction rule: sm_reachable.induct) (auto intro: sm_ok_new sm_ok_step)

section \<open>Queries\<close>

lemma set_list_sessions:
  assumes "index_ok sm"
  shows "set (list_sessions sm None) = {s. \<exists>sid. get_session_by_session_id sm sid = Some s}"
proof (intro set_eqI iffI)
  fix s assume "s \<in> set (list_sessions sm None)"
  then obtain i a where "(i, a) \<in> set (sm_sessions_by_id sm)" "s = sm_object sm a"
    by (auto simp: list_sessions_def)
  then have "dict_get (sm_sessions_by_id sm) i = Some a"
    using index_okD(1) [OF assms] by (simp add: dict_get_iff)
  from index_okD(3) [OF assms this] \<open>s = _\<close> show "s \<in> {s. \<exists>sid. get_session_by_session_id sm sid = Some s}"
    by (auto simp: get_session_by_session_id_def)
next
  fix s assume "s \<in> {s. \<exists>sid. get_session_by_session_id sm sid = Some s}"
  then obtain sid a where "dict_get (sm_sessions_by_session_id sm) sid = Some a" "s = sm_object sm a"
    by (auto simp: get_session_by_session_id_def)
  with index_okD(4) [OF assms] have "dict_get (sm_sessions_by_id sm) (ns_id s) = Some a" by blast
  then have "(ns_id s, a) \<in> set (sm_sessions_by_id sm)" by (rule dict_get_Some_in)
  with \<open>s = _\<close> show "s \<in> set (list_sessions sm None)"
    by (force simp: list_sessions_def)
qed

lemma list_sessions_scope:
  assumes "index_ok sm"
  shows "set (list_sessions sm (Some sc)) = {s \<in> set (list_sessions sm None). ns_session_scope s = sc}"
  by (auto simp: list_sessions_def)

lemma map_ns_id_values:
  assumes "index_ok sm"
  shows "map ns_id (map (sm_object sm) (dict_values (sm_sessions_by_id sm))) = dict_keys (sm_sessions_by_id sm)"
proof -
  have "ns_id (sm_object sm a) = i" if "(i, a) \<in> set (sm_sessions_by_id sm)" for i a
    using index_okD(1,3) [OF assms] that by (simp add: dict_get_iff)
  then show ?thesis by (auto simp: case_prod_beta)
qed

lemma list_sessions_sorted:
  assumes "index_ok sm"
  shows "sorted (map ns_id (list_sessions sm sc)) \<and> distinct (map ns_id (list_sessions sm sc))"
proof -
  have d: "distinct (map ns_id (map (sm_object sm) (dict_values (sm_sessions_by_id sm))))"
    unfolding map_ns_id_values [OF assms] using index_okD(1) [OF assms] by (simp add: dict_ok_def)
  then have "distinct (map ns_id (filter P (map (sm_object sm) (dict_values (sm_sessions_by_id sm)))))" for P
    by (rule distinct_map_filter)
  with d have "distinct (map ns_id (case sc of None \<Rightarrow> map (sm_object sm) (dict_values (sm_sessions_by_id sm))
      | Some x \<Rightarrow> filter (\<lambda>s. ns_session_scope s = x) (map (sm_object sm) (dict_values (sm_sessions_by_id sm)))))"
    by (cases sc) auto
  then show ?thesis
    unfolding list_sessions_def Let_def by (blast intro: distinct_sort_key_map sorted_sort_key)
qed

text \<open>The first match in a list with increasing keys has the least key.\<close>

lemma find_sorted_least:
  assumes "sorted (map f xs)" and "List.find P xs = Some x"
  shows "x \<in> set xs \<and> P x \<and> (\<forall>y \<in> set xs. P y \<longrightarrow> f x \<le> f y)"
  using assms
proof (induction xs)
  case (Cons y ys)
  then show ?case by (cases "P y") auto
qed simp

lemma list_active_sorted: "index_ok sm \<Longrightarrow> sorted (map ns_id (list_active_sessions sm))"
  unfolding list_active_sessions_def using list_sessions_sorted sorted_filter by blast

lemma set_list_active:
  "index_ok sm \<Longrightarrow> set (list_active_sessions sm) =
     {s. (\<exists>sid. get_session_by_session_id sm sid = Some s) \<and> ns_session_state s = ''active''}"
  by (auto simp: list_active_sessions_def set_list_sessions)

lemma get_session_by_session_id_key:
  assumes "index_ok sm" and "get_session_by_session_id sm sid = Some s"
  shows "ns_session_id s = sid"
  using assms index_okD(4) [OF assms(1)] by (auto simp: get_session_by_session_id_def)

lemma delete_session_get:
  assumes "index_ok sm"
  shows "get_session_by_session_id (fst (delete_session sm sid)) sid' =
    (if sid' = sid then None else get_session_by_session_id sm sid')"
  by (auto simp: get_session_by_session_id_def delete_session_def split: option.splits)

section \<open>Retry bookkeeping\<close>

lemma get_modify_reliable_outbound:
  "get_reliable_outbound (modify_reliable_outbound sm sid k f) sid' k' =
     (if sid' = sid \<and> k' = k then map_option f (get_reliable_outbound sm sid k)
      else get_reliable_outbound sm sid' k')"
  by (auto simp: get_reliable_outbound_def modify_reliable_outbound_def set_reliable_state_def
      split: option.splits)

lemma mark_failed_idem [simp]: "mark_failed t r (mark_failed t r m) = mark_failed t r m"
  by (simp add: mark_failed_def)

lemma get_fold_mark_failed:
  "get_reliable_outbound (fold (\<lambda>((sid, k), m) s. modify_reliable_outbound s sid k (mark_failed t r)) refs sm) sid k =
     map_option (\<lambda>m. if (sid, k) \<in> fst ` set refs then mark_failed t r m else m)
       (get_reliable_outbound sm sid k)"
proof (induction refs arbitrary: sm)
  case Nil
  then show ?case by (simp add: option.map_ident)
next
  case (Cons x refs)
  obtain sid' k' m where x: "x = ((sid', k'), m)" by (metis surj_pair)
  show ?case
    by (auto simp: x Cons.IH get_modify_reliable_outbound option.map_comp comp_def
        intro!: option.map_cong)
qed

lemma pending_refs_iff:
  assumes "sm_ok sm"
  shows "((sid, k), m) \<in> set (pending_refs sm) \<longleftrightarrow> get_reliable_outbound sm sid k = Some m \<and> pending m"
proof -
  have rel: "dict_ok (sm_reliable_states_by_session_id sm)"
    using assms by (simp add: sm_ok_def reliable_ok_def)
  have out: "dict_ok (rs_outbound_by_sequence st)"
    if "dict_get (sm_reliable_states_by_session_id sm) sid = Some st" for sid st
    using reliable_okD(3) [OF assms that] by (simp add: outbound_ok_def)
  have "((sid, k), m) \<in> set (pending_refs sm) \<longleftrightarrow>
      (\<exists>st. (sid, st) \<in> set (sm_reliable_states_by_session_id sm) \<and>
        (k, m) \<in> set (rs_outbound_by_sequence st) \<and> pending m)"
    unfolding pending_refs_def by force
  also have "\<dots> \<longleftrightarrow> (\<exists>st. dict_get (sm_reliable_states_by_session_id sm) sid = Some st \<and>
      dict_get (rs_outbound_by_sequence st) k = Some m \<and> pending m)"
    using out by (metis dict_get_iff rel)
  finally show ?thesis
    by (simp add: get_reliable_outbound_def split: option.split)
qed

lemma in_snd_filter: "y \<in> snd ` set (filter P xs) \<longleftrightarrow> (\<exists>r. (r, y) \<in> set xs \<and> P (r, y))"
  by force

lemma in_fst_filter: "r \<in> fst ` set (filter P xs) \<longleftrightarrow> (\<exists>y. (r, y) \<in> set xs \<and> P (r, y))"
  by force

lemma list_due_messages:
  assumes "sm_ok sm" and "list_due_reliable_outbound_messages sm now = (sm', due)"
  shows "m \<in> set due \<longleftrightarrow> (\<exists>sid k. get_reliable_outbound sm sid k = Some m \<and> pending m \<and>
      ro_attempts m < ro_max_attempts m \<and> due_for_send m now None)"
proof -
  have "set due = snd ` set (filter (\<lambda>(r, m). ro_attempts m < ro_max_attempts m \<and> due_for_send m now None)
      (pending_refs sm))"
  proof -
    have "due = sort_key outbound_sort_key (map snd (filter (\<lambda>(r, m). ro_attempts m < ro_max_attempts m \<and>
        due_for_send m now None) (pending_refs sm)))"
      using assms(2) by (simp only: list_due_reliable_outbound_messages_def Let_def prod.inject)
    then show ?thesis by (simp only: set_sort set_map)
  qed
  then have "m \<in> set due \<longleftrightarrow> (\<exists>sid k. ((sid, k), m) \<in> set (pending_refs sm) \<and>
      ro_attempts m < ro_max_attempts m \<and> due_for_send m now None)"
    by (simp only: in_snd_filter split_paired_Ex prod.case)
  then show ?thesis by (simp only: pending_refs_iff [OF assms(1)] conj_assoc)
qed

lemma list_due_get:
  assumes "sm_ok sm" and "list_due_reliable_outbound_messages sm now = (sm', due)"
  shows "get_reliable_outbound sm' sid k =
    map_option (\<lambda>m. if pending m \<and> ro_max_attempts m \<le> ro_attempts m
        then mark_failed now ''max_attempts_exceeded'' m else m) (get_reliable_outbound sm sid k)"
proof (cases "get_reliable_outbound sm sid k")
  case None
  with assms(2) show ?thesis
    by (auto simp: list_due_reliable_outbound_messages_def Let_def get_fold_mark_failed)
next
  case (Some m)
  let ?ex = "filter (\<lambda>(r, m). ro_max_attempts m \<le> ro_attempts m) (pending_refs sm)"
  have "(sid, k) \<in> fst ` set ?ex \<longleftrightarrow> pending m \<and> ro_max_attempts m \<le> ro_attempts m"
    using Some by (auto simp only: in_fst_filter prod.case pending_refs_iff [OF assms(1)] option.inject)
  moreover have "sm' = fold (\<lambda>((sid, k), m) s.
      modify_reliable_outbound s sid k (mark_failed now ''max_attempts_exceeded'')) ?ex sm"
    using assms(2) by (simp only: list_due_reliable_outbound_messages_def Let_def prod.inject)
  ultimately show ?thesis
    using Some by (simp only: get_fold_mark_failed option.map)
qed

section \<open>A concrete table\<close>

text \<open>One active physical session with a pending reliable message, for the concrete instances below.\<close>

definition demo_sessions :: session_manager where
  "demo_sessions =
     (case create_outbound_physical_session new_session_manager ''s1'' ''me'' ''peer'' None ''udp'' ''h'' 9 30 0 0 of
        Inl e \<Rightarrow> new_session_manager
      | Inr (sm, s) \<Rightarrow> fst (activate_session sm ''s1'' 1 1))"

definition demo_table :: session_manager where
  "demo_table = (case prepare_reliable_outbound demo_sessions ''s1'' ''chat'' [] 3 5 ''m1'' 2 of
     Inl e \<Rightarrow> demo_sessions | Inr (sm, m) \<Rightarrow> sm)"

lemma demo_sessions_reachable: "sm_reachable isofmt demo_sessions"
proof -
  have "sm_reachable isofmt (fst (activate_session sm ''s1'' 1 1))"
    if "create_outbound_physical_session new_session_manager ''s1'' ''me'' ''peer'' None ''udp'' ''h'' 9 30 0 0 =
      Inr (sm, s)" for sm s
    using sm_reachable.step [OF sm_reachable.start create_outbound_physical [OF that]]
    by (rule sm_reachable.step) (rule activate)
  then show ?thesis
    unfolding demo_sessions_def by (auto split: sum.split intro: sm_reachable.start)
qed

lemma demo_table_reachable: "sm_reachable isofmt demo_table"
  unfolding demo_table_def
  by (auto split: sum.split intro: demo_sessions_reachable sm_reachable.step sm_step.intros)

lemma demo_lookup: "map_option ns_id (get_session_by_session_id demo_table ''s1'') = Some 1"
  by code_simp

section \<open>Properties\<close>

text \<open>
  C30. Every table that the operations of the session manager can produce from an empty one is
  well formed: the dictionaries by database id and by session id hold the same live sessions,
  each under the ids stored in it, ids stay below the next id, reliable states belong to live
  sessions, and every outbound message is filed under its own sequence number.
\<close>

theorem session_table_invariant: "sm_reachable isofmt sm \<Longrightarrow> sm_ok sm"
  by (rule sm_reachable_ok)

theorem session_table_invariant_witness: "sm_ok demo_table"
  by (rule session_table_invariant [OF demo_table_reachable [of "\<lambda>t. []"]])

text \<open>
  \<^verbatim>\<open>list_sessions\<close> returns exactly the sessions that can be looked up by session id, in
  increasing order of database id and each once.
\<close>

theorem list_sessions_exact:
  assumes "sm_reachable isofmt sm"
  shows "set (list_sessions sm None) = {s. \<exists>sid. get_session_by_session_id sm sid = Some s} \<and>
    sorted (map ns_id (list_sessions sm None)) \<and> distinct (map ns_id (list_sessions sm None))"
  using set_list_sessions list_sessions_sorted sm_reachable_ok [OF assms] by (simp add: sm_ok_def)

theorem list_sessions_exact_witness:
  "set (list_sessions demo_table None) = {s. \<exists>sid. get_session_by_session_id demo_table sid = Some s} \<and>
    get_session_by_session_id demo_table ''s1'' \<noteq> None"
  using list_sessions_exact [OF demo_table_reachable [of "\<lambda>t. []"]] demo_lookup by auto

text \<open>
  \<^verbatim>\<open>get_active_session_by_remote_identity\<close> returns the oldest active session with the remote
  identity (and scope, when one is asked for), and \<^verbatim>\<open>None\<close> exactly when there is none.
\<close>

theorem active_lookup_oldest:
  assumes "sm_reachable isofmt sm"
  shows "case get_active_session_by_remote_identity sm ty rid (Some sc) of
      None \<Rightarrow> \<not> (\<exists>sid s. get_session_by_session_id sm sid = Some s \<and> ns_session_state s = ''active'' \<and>
        ns_session_scope s = sc \<and> ns_remote_identity_type s = ty \<and> ns_remote_identity_id s = rid)
    | Some s \<Rightarrow> get_session_by_session_id sm (ns_session_id s) = Some s \<and> ns_session_state s = ''active'' \<and>
        ns_session_scope s = sc \<and> ns_remote_identity_type s = ty \<and> ns_remote_identity_id s = rid \<and>
        (\<forall>sid s'. get_session_by_session_id sm sid = Some s' \<and> ns_session_state s' = ''active'' \<and>
           ns_session_scope s' = sc \<and> ns_remote_identity_type s' = ty \<and> ns_remote_identity_id s' = rid
           \<longrightarrow> ns_id s \<le> ns_id s')"
proof -
  have idx: "index_ok sm" using sm_reachable_ok [OF assms] by (simp add: sm_ok_def)
  note act = set_list_active [OF idx] and srt = list_active_sorted [OF idx]
    and key = get_session_by_session_id_key [OF idx]
  show ?thesis
  proof (cases "get_active_session_by_remote_identity sm ty rid (Some sc)")
    case None
    then have "\<not> (ns_session_scope s = sc \<and> ns_remote_identity_type s = ty \<and> ns_remote_identity_id s = rid)"
      if "s \<in> set (list_active_sessions sm)" for s
      using that by (simp add: get_active_session_by_remote_identity_def find_None_iff)
    with None act show ?thesis by auto
  next
    case (Some s)
    with find_sorted_least [OF srt] have s: "s \<in> set (list_active_sessions sm)" "ns_session_scope s = sc"
      "ns_remote_identity_type s = ty" "ns_remote_identity_id s = rid"
      "\<forall>y \<in> set (list_active_sessions sm). ns_session_scope y = sc \<and> ns_remote_identity_type y = ty \<and>
        ns_remote_identity_id y = rid \<longrightarrow> ns_id s \<le> ns_id y"
      unfolding get_active_session_by_remote_identity_def by auto
    with Some act key show ?thesis by auto
  qed
qed

theorem active_lookup_oldest_witness:
  "\<exists>s. get_active_session_by_remote_identity demo_table ''physical_node'' ''peer'' (Some ''physical'') = Some s \<and>
     get_session_by_session_id demo_table (ns_session_id s) = Some s \<and> ns_session_state s = ''active''"
proof -
  have "get_active_session_by_remote_identity demo_table ''physical_node'' ''peer'' (Some ''physical'') \<noteq> None"
    by code_simp
  with active_lookup_oldest [OF demo_table_reachable [of "\<lambda>t. []"],
    where ty = "''physical_node''" and rid = "''peer''" and sc = "''physical''"]
  show ?thesis by (auto split: option.splits)
qed

text \<open>
  Closing a live session marks it closed with the given reason and time, takes it out of the
  active sessions, and leaves every other session as it was.
\<close>

theorem close_session_effect:
  assumes "sm_reachable isofmt sm" and "get_session_by_session_id sm sid = Some s"
  shows "get_session_by_session_id (fst (close_session sm sid reason now)) sid =
      Some (s \<lparr> ns_handshake_state := ''closed'', ns_session_state := ''closed'',
        ns_closed_at := Some now, ns_close_reason := Some reason \<rparr>) \<and>
    (\<forall>x \<in> set (list_active_sessions (fst (close_session sm sid reason now))). ns_session_id x \<noteq> sid) \<and>
    (\<forall>sid'. sid' \<noteq> sid \<longrightarrow> get_session_by_session_id (fst (close_session sm sid reason now)) sid' =
      get_session_by_session_id sm sid')"
proof -
  have idx: "index_ok sm" using sm_reachable_ok [OF assms(1)] by (simp add: sm_ok_def)
  let ?sm = "fst (close_session sm sid reason now)"
  have idx': "index_ok ?sm"
    using sm_ok_mutations(9) sm_reachable_ok [OF assms(1)] by (simp add: sm_ok_def)
  have same: "get_session_by_session_id ?sm sid =
      Some (s \<lparr> ns_handshake_state := ''closed'', ns_session_state := ''closed'',
        ns_closed_at := Some now, ns_close_reason := Some reason \<rparr>)"
    using modify_session_same [OF idx assms(2)]
    by (simp add: close_session_def update_session_state_def apply_state_update_def set_some_def
        session_state_update_defaults_def)
  moreover have "ns_session_id x \<noteq> sid" if "x \<in> set (list_active_sessions ?sm)" for x
  proof
    assume "ns_session_id x = sid"
    moreover obtain k where "get_session_by_session_id ?sm k = Some x" "ns_session_state x = ''active''"
      using \<open>x \<in> _\<close> set_list_active [OF idx'] by auto
    ultimately show False using same get_session_by_session_id_key [OF idx'] by fastforce
  qed
  moreover have "get_session_by_session_id ?sm sid' = get_session_by_session_id sm sid'" if "sid' \<noteq> sid" for sid'
    unfolding close_session_def update_session_state_def by (rule modify_session_other [OF idx that])
  ultimately show ?thesis by blast
qed

theorem close_session_effect_witness:
  "\<exists>s. get_session_by_session_id (fst (close_session demo_table ''s1'' ''bye'' 7)) ''s1'' = Some s \<and>
     ns_session_state s = ''closed'' \<and> ns_close_reason s = Some ''bye''"
proof -
  obtain s where "get_session_by_session_id demo_table ''s1'' = Some s" using demo_lookup by auto
  from close_session_effect [OF demo_table_reachable [of "\<lambda>t. []"] this, of "''bye''" 7]
  show ?thesis by simp
qed

text \<open>
  Deleting a session removes it from the table together with its reliable state, reports
  whether it was there, and leaves every other session and its messages as they were.
\<close>

theorem delete_session_effect:
  assumes "sm_reachable isofmt sm"
  shows "snd (delete_session sm sid) = session_exists sm sid \<and>
    \<not> session_exists (fst (delete_session sm sid)) sid \<and>
    (\<forall>x \<in> set (list_sessions (fst (delete_session sm sid)) None). ns_session_id x \<noteq> sid) \<and>
    (\<forall>k. get_reliable_outbound (fst (delete_session sm sid)) sid k = None) \<and>
    (\<forall>sid' k. sid' \<noteq> sid \<longrightarrow>
       get_session_by_session_id (fst (delete_session sm sid)) sid' = get_session_by_session_id sm sid' \<and>
       get_reliable_outbound (fst (delete_session sm sid)) sid' k = get_reliable_outbound sm sid' k)"
proof -
  have ok: "sm_ok sm" by (rule sm_reachable_ok [OF assms])
  then have idx: "index_ok sm" "index_ok (fst (delete_session sm sid))"
    using sm_ok_delete by (auto simp: sm_ok_def)
  let ?sm = "fst (delete_session sm sid)"
  have live: "ns_session_id x \<noteq> sid" if "x \<in> set (list_sessions ?sm None)" for x
  proof -
    from that obtain k where k: "get_session_by_session_id ?sm k = Some x"
      unfolding set_list_sessions [OF idx(2)] by blast
    then have "k \<noteq> sid" by (cases "k = sid") (simp_all add: delete_session_get [OF idx(1)])
    with get_session_by_session_id_key [OF idx(2) k] show ?thesis by simp
  qed
  have none: "dict_get (sm_reliable_states_by_session_id sm) sid = None"
    if "dict_get (sm_sessions_by_session_id sm) sid = None"
    using reliable_okD(1) [OF ok, of sid] that by (metis not_Some_eq)
  have rel: "get_reliable_outbound ?sm sid' k = (if sid' = sid then None else get_reliable_outbound sm sid' k)" for sid' k
    using none by (auto simp: get_reliable_outbound_def delete_session_def split: option.splits)
  have "snd (delete_session sm sid) = session_exists sm sid" "\<not> session_exists ?sm sid"
    by (simp_all add: session_exists_def delete_session_def split: option.splits)
  with live rel delete_session_get [OF idx(1)] show ?thesis by simp
qed

theorem delete_session_effect_witness:
  "snd (delete_session demo_table ''s1'') \<and> \<not> session_exists (fst (delete_session demo_table ''s1'')) ''s1''"
proof -
  have "session_exists demo_table ''s1''" by code_simp
  with delete_session_effect [OF demo_table_reachable [of "\<lambda>t. []"], of "''s1''"] show ?thesis by simp
qed

text \<open>
  The retry scan of the manager returns exactly the pending messages that still have attempts
  left and whose retry time has come; a pending message whose attempts are used up is marked
  failed, so that after the scan every message still pending has attempts left.
\<close>

theorem retry_scan:
  assumes "sm_reachable isofmt sm" and "list_due_reliable_outbound_messages sm now = (sm', due)"
  shows "(m \<in> set due \<longleftrightarrow> (\<exists>sid k. get_reliable_outbound sm sid k = Some m \<and> pending m \<and>
        ro_attempts m < ro_max_attempts m \<and> due_for_send m now None)) \<and>
    (get_reliable_outbound sm' sid k = Some m' \<and> pending m' \<longrightarrow> ro_attempts m' < ro_max_attempts m')"
proof -
  note ok = sm_reachable_ok [OF assms(1)]
  have "ro_attempts m' < ro_max_attempts m'" if "get_reliable_outbound sm' sid k = Some m'" "pending m'"
  proof (cases "get_reliable_outbound sm sid k")
    case None
    with that(1) list_due_get [OF ok assms(2), of sid k] show ?thesis by simp
  next
    case (Some m)
    then have m': "m' = (if pending m \<and> ro_max_attempts m \<le> ro_attempts m
        then mark_failed now ''max_attempts_exceeded'' m else m)"
      using that(1) list_due_get [OF ok assms(2), of sid k] by (simp only: option.map option.inject)
    have "\<not> (pending m \<and> ro_max_attempts m \<le> ro_attempts m)"
    proof
      assume "pending m \<and> ro_max_attempts m \<le> ro_attempts m"
      with m' that(2) show False by (simp add: mark_failed_def pending_def)
    qed
    with m' that(2) show ?thesis by (simp only: if_False not_le simp_thms)
  qed
  with list_due_messages [OF ok assms(2)] show ?thesis by blast
qed

theorem retry_scan_witness:
  "map ro_sequence_number (snd (list_due_reliable_outbound_messages demo_table 100)) = [1] \<and>
   list_all (\<lambda>m. ro_attempts m < ro_max_attempts m) (snd (list_due_reliable_outbound_messages demo_table 100))"
proof -
  have "map ro_sequence_number (snd (list_due_reliable_outbound_messages demo_table 100)) = [1]"
    by code_simp
  moreover obtain sm' due where "list_due_reliable_outbound_messages demo_table 100 = (sm', due)" by force
  ultimately show ?thesis
    using retry_scan [OF demo_table_reachable [of "\<lambda>t. []"]] by (auto simp: list_all_iff)
qed

end
