(* ===== verification/Reliable_Channel.thy ===== *)
theory Reliable_Channel
  imports Session_Table
begin

text \<open>
  The reliable layer end to end: two session managers joined by a network that may lose, duplicate
  and reorder. The sender runs \<^verbatim>\<open>prepare_reliable_outbound\<close>, \<^verbatim>\<open>mark_reliable_outbound_sent\<close> and
  \<^verbatim>\<open>mark_reliable_outbound_acked\<close> as \<^verbatim>\<open>PhysicalSessionProtocolClient\<close> and the acknowledgement handler
  do, the receiver runs \<^verbatim>\<open>receive_reliable_inbound\<close>. The network is the set of all payloads ever
  sent: a step receives any of them, any number of times, in any order, or never.

  \<open>src k\<close> is what the application hands over as its message number \<open>k\<close>: the message id that
  \<^verbatim>\<open>uuid4\<close> returned, the inner type and the inner payload.
\<close>

record channel =
  ch_sender :: session_manager
  ch_receiver :: session_manager
  ch_wire :: "payload set"
  ch_acks :: "payload set"
  ch_log :: "reliable_inbound_message list"

definition next_outbound :: "session_manager \<Rightarrow> string \<Rightarrow> int" where
  "next_outbound sm sid = (case dict_get (sm_reliable_states_by_session_id sm) sid of
     None \<Rightarrow> 1 | Some st \<Rightarrow> rs_next_outbound_sequence st)"

definition inbound_state :: "session_manager \<Rightarrow> string \<Rightarrow> reliable_session_state" where
  "inbound_state sm sid = (case dict_get (sm_reliable_states_by_session_id sm) sid of
     None \<Rightarrow> new_reliable_session_state sid [] | Some st \<Rightarrow> st)"

text \<open>
  The acknowledgement handler: \<^verbatim>\<open>_handle_physical_session_reliable_ack\<close> checks the two fields and
  marks the message. Refreshing the endpoint and the activity time of the session, which the handler also
  does, has no effect on reliable delivery and is left out here.
\<close>

definition handle_reliable_ack :: "session_manager \<Rightarrow> string \<Rightarrow> payload \<Rightarrow> time_us \<Rightarrow> session_manager" where
  "handle_reliable_ack sm sid a now =
     (case (as_pyint (jget a ''ack_for_sequence_number''), jget_nonempty_str a ''ack_for_message_id'') of
        (Some n, Some mid) \<Rightarrow> fst (mark_reliable_outbound_acked sm sid (pyint_val n) mid now)
      | _ \<Rightarrow> sm)"

inductive channel_step ::
  "(time_us \<Rightarrow> string) \<Rightarrow> string \<Rightarrow> (int \<Rightarrow> string \<times> string \<times> payload) \<Rightarrow> channel \<Rightarrow> channel \<Rightarrow> bool"
  for isofmt :: "time_us \<Rightarrow> string" and sid :: string and src :: "int \<Rightarrow> string \<times> string \<times> payload" where
  submit: "src (next_outbound (ch_sender c) sid) = (uuid, ty, p) \<Longrightarrow>
    prepare_reliable_outbound (ch_sender c) sid ty p retry max_attempts uuid t = Inr (sm', m) \<Longrightarrow>
    channel_step isofmt sid src c (c \<lparr> ch_sender := sm' \<rparr>)"
| transmit: "get_reliable_outbound (ch_sender c) sid k = Some m \<Longrightarrow> pending m \<Longrightarrow>
    channel_step isofmt sid src c
      (c \<lparr> ch_sender := fst (mark_reliable_outbound_sent (ch_sender c) sid k t),
          ch_wire := insert (to_reliable_payload isofmt m) (ch_wire c) \<rparr>)"
| receive: "p \<in> ch_wire c \<Longrightarrow>
    receive_reliable_inbound isofmt (ch_receiver c) sid p t t' = (sm', Inr r) \<Longrightarrow>
    channel_step isofmt sid src c
      (c \<lparr> ch_receiver := sm', ch_acks := insert (rr_ack_payload r) (ch_acks c),
          ch_log := ch_log c @ rr_deliveries r \<rparr>)"
| ack: "a \<in> ch_acks c \<Longrightarrow>
    channel_step isofmt sid src c (c \<lparr> ch_sender := handle_reliable_ack (ch_sender c) sid a t \<rparr>)"
| give_up: "channel_step isofmt sid src c
    (c \<lparr> ch_sender := fst (mark_reliable_outbound_failed (ch_sender c) sid k reason t) \<rparr>)"
| scan: "channel_step isofmt sid src c
    (c \<lparr> ch_sender := fst (list_due_reliable_outbound_messages (ch_sender c) t) \<rparr>)"

definition channel_start :: "string \<Rightarrow> channel \<Rightarrow> bool" where
  "channel_start sid c \<longleftrightarrow> sm_ok (ch_sender c) \<and> sm_ok (ch_receiver c) \<and>
     dict_get (sm_reliable_states_by_session_id (ch_sender c)) sid = None \<and>
     dict_get (sm_reliable_states_by_session_id (ch_receiver c)) sid = None \<and>
     ch_wire c = {} \<and> ch_acks c = {} \<and> ch_log c = []"

inductive channel_run ::
  "(time_us \<Rightarrow> string) \<Rightarrow> string \<Rightarrow> (int \<Rightarrow> string \<times> string \<times> payload) \<Rightarrow> channel \<Rightarrow> channel \<Rightarrow> bool"
  for isofmt :: "time_us \<Rightarrow> string" and sid :: string and src :: "int \<Rightarrow> string \<times> string \<times> payload" where
  refl: "channel_run isofmt sid src c c"
| step: "channel_run isofmt sid src c c' \<Longrightarrow> channel_step isofmt sid src c' c'' \<Longrightarrow> channel_run isofmt sid src c c''"

lemma channel_run_trans:
  "channel_run isofmt sid src b c \<Longrightarrow> channel_run isofmt sid src a b \<Longrightarrow> channel_run isofmt sid src a c"
  by (induction rule: channel_run.induct) (auto intro: channel_run.step)

section \<open>What the operations do to the state of one session\<close>

definition ro_content :: "reliable_outbound_message \<Rightarrow> string \<times> string \<times> payload" where
  "ro_content m = (ro_reliable_message_id m, ro_inner_message_type m, ro_inner_payload m)"

lemma get_reliable_state_views:
  assumes "get_reliable_state sm session = (sm1, st)" and "ns_session_id session = sid"
  shows "rs_next_outbound_sequence st = next_outbound sm sid"
    and "rs_inbound_buffer_by_sequence st = rs_inbound_buffer_by_sequence (inbound_state sm sid)"
    and "rs_next_expected_inbound_sequence st = rs_next_expected_inbound_sequence (inbound_state sm sid)"
    and "rs_delivered_message_ids st = rs_delivered_message_ids (inbound_state sm sid)"
    and "dict_get (rs_outbound_by_sequence st) k = get_reliable_outbound sm sid k"
  using assms
  by (auto simp: get_reliable_state_def next_outbound_def inbound_state_def get_reliable_outbound_def
      new_reliable_session_state_def Let_def split: option.splits)

lemma prepare_effect:
  assumes "sm_ok sm" and "prepare_reliable_outbound sm sid ty p retry mx uuid t = Inr (sm', m)"
  shows "ro_sequence_number m = next_outbound sm sid" and "ro_content m = (uuid, ty, p)" and "pending m"
    and "next_outbound sm' sid = next_outbound sm sid + 1"
    and "get_reliable_outbound sm' sid k =
      (if k = next_outbound sm sid then Some m else get_reliable_outbound sm sid k)"
proof -
  obtain session sm1 st st' where 1: "get_session_by_session_id sm sid = Some session"
    "get_reliable_state sm session = (sm1, st)" "build_reliable_outbound st ty p retry mx uuid t = (st', m)"
    "sm' = set_reliable_state sm1 (ns_session_id session) st'"
    using assms(2) by (auto simp: prepare_reliable_outbound_def split: option.splits prod.splits)
  have sid: "ns_session_id session = sid"
    using sm_ok_get_reliable_state [OF assms(1) 1(1,2)] by simp
  note view = get_reliable_state_views [OF 1(2) sid]
  have st': "rs_outbound_by_sequence st' = dict_set (next_outbound sm sid) m (rs_outbound_by_sequence st)"
    "rs_next_outbound_sequence st' = next_outbound sm sid + 1"
    and m: "ro_sequence_number m = next_outbound sm sid" "ro_content m = (uuid, ty, p)" "pending m"
    using 1(3) view(1) by (auto simp: build_reliable_outbound_def Let_def ro_content_def pending_def)
  show "ro_sequence_number m = next_outbound sm sid" "ro_content m = (uuid, ty, p)" "pending m" by (fact m)+
  show "next_outbound sm' sid = next_outbound sm sid + 1"
    using 1(4) st'(2) sid by (simp add: next_outbound_def set_reliable_state_def)
  show "get_reliable_outbound sm' sid k =
      (if k = next_outbound sm sid then Some m else get_reliable_outbound sm sid k)"
  proof -
    have "get_reliable_outbound sm' sid k = dict_get (rs_outbound_by_sequence st') k"
      using 1(4) sid by (simp add: get_reliable_outbound_def set_reliable_state_def)
    then show ?thesis by (simp add: st'(1) view(5))
  qed
qed

lemma next_outbound_modify [simp]: "next_outbound (modify_reliable_outbound sm sid' k f) sid = next_outbound sm sid"
  by (auto simp: next_outbound_def modify_reliable_outbound_def set_reliable_state_def split: option.splits)

lemma next_outbound_sent [simp]: "next_outbound (fst (mark_reliable_outbound_sent sm sid k t)) sid = next_outbound sm sid"
  by (auto simp: mark_reliable_outbound_sent_def Let_def split: option.splits)

lemma next_outbound_failed [simp]:
  "next_outbound (fst (mark_reliable_outbound_failed sm sid k r t)) sid = next_outbound sm sid"
  by (auto simp: mark_reliable_outbound_failed_def split: option.splits)

lemma next_outbound_acked [simp]:
  "next_outbound (fst (mark_reliable_outbound_acked sm sid k mid t)) sid = next_outbound sm sid"
  by (auto simp: mark_reliable_outbound_acked_def next_outbound_def set_reliable_state_def split: option.splits)

lemma next_outbound_scan [simp]:
  "next_outbound (fst (list_due_reliable_outbound_messages sm t)) sid = next_outbound sm sid"
proof -
  have "next_outbound (fold (\<lambda>((s, k), m) sm. modify_reliable_outbound sm s k (mark_failed t r)) refs sm) sid =
      next_outbound sm sid" for refs :: "((string \<times> int) \<times> reliable_outbound_message) list" and r sm
    by (induction refs arbitrary: sm) auto
  then show ?thesis by (simp add: list_due_reliable_outbound_messages_def Let_def)
qed

lemma sent_get:
  assumes "get_reliable_outbound sm sid k = Some m" and "pending m"
  shows "get_reliable_outbound (fst (mark_reliable_outbound_sent sm sid k t)) sid k' =
    (if k' = k then Some (m \<lparr> ro_attempts := ro_attempts m + 1, ro_last_sent_at := Some t \<rparr>)
     else get_reliable_outbound sm sid k')"
  using assms by (simp add: mark_reliable_outbound_sent_def Let_def get_modify_reliable_outbound)

lemma acked_get:
  "get_reliable_outbound (fst (mark_reliable_outbound_acked sm sid k mid t)) sid k' =
    (if k' = k \<and> map_option ro_reliable_message_id (get_reliable_outbound sm sid k) = Some mid then None
     else get_reliable_outbound sm sid k')"
  by (auto simp: mark_reliable_outbound_acked_def get_reliable_outbound_def set_reliable_state_def
      split: option.splits)

lemma failed_get:
  "get_reliable_outbound (fst (mark_reliable_outbound_failed sm sid k r t)) sid k' =
    map_option (\<lambda>m. if k' = k \<and> pending m then mark_failed t r m else m) (get_reliable_outbound sm sid k')"
  by (auto simp: mark_reliable_outbound_failed_def get_modify_reliable_outbound option.map_ident
      split: option.splits intro!: option.map_cong)

lemma receive_effect:
  assumes "sm_ok sm" and "receive_reliable_inbound isofmt sm sid p t t' = (sm', Inr r)"
  obtains st m st' where "parse_reliable_payload p t = Inr m"
    and "receive_inbound st m (reliable_ack_payload isofmt m t') = (st', r)"
    and "inbound_state sm' sid = st'"
    and "receiver_ok src st = receiver_ok src (inbound_state sm sid)"
    and "seen_numbers st = seen_numbers (inbound_state sm sid)"
    and "rs_next_expected_inbound_sequence st = rs_next_expected_inbound_sequence (inbound_state sm sid)"
proof -
  obtain session sm1 st where 1: "get_session_by_session_id sm sid = Some session"
    "get_reliable_state sm session = (sm1, st)"
    using assms(2) by (auto simp: receive_reliable_inbound_def split: option.splits prod.splits)
  obtain m st' where 2: "parse_reliable_payload p t = Inr m"
    "receive_inbound st m (reliable_ack_payload isofmt m t') = (st', r)"
    "sm' = set_reliable_state sm1 (ns_session_id session) st'"
    using assms(2) 1 by (auto simp: receive_reliable_inbound_def receive_reliable_payload_def rbind_Inr_iff
        split: sum.splits prod.splits)
  have sid: "ns_session_id session = sid"
    using sm_ok_get_reliable_state [OF assms(1) 1] by simp
  note view = get_reliable_state_views [OF 1(2) sid]
  show thesis
  proof (rule that [OF 2(1,2)])
    show "inbound_state sm' sid = st'" using 2(3) sid by (simp add: inbound_state_def set_reliable_state_def)
  qed (simp_all add: view receiver_ok_def delivered_upto_def seen_numbers_def)
qed

lemma parse_to_payload:
  assumes "1 \<le> ro_sequence_number m" and "ro_reliable_message_id m \<noteq> []" and "ro_inner_message_type m \<noteq> []"
  shows "parse_reliable_payload (to_reliable_payload isofmt m) t =
    Inr \<lparr> ri_reliable_message_id = ro_reliable_message_id m, ri_sequence_number = PyInt (ro_sequence_number m),
      ri_inner_message_type = ro_inner_message_type m, ri_inner_payload = ro_inner_payload m, ri_received_at = t \<rparr>"
  using assms
  by (simp add: parse_reliable_payload_def to_reliable_payload_def jget_nonempty_str_def jget_def
      dict_get_def)

section \<open>The invariant of the channel\<close>

definition script_ok :: "(int \<Rightarrow> string \<times> string \<times> payload) \<Rightarrow> bool" where
  "script_ok src \<longleftrightarrow> fresh_ids src \<and> (\<forall>k. 1 \<le> k \<longrightarrow> fst (src k) \<noteq> [] \<and> fst (snd (src k)) \<noteq> [])"

definition sender_ok :: "string \<Rightarrow> (int \<Rightarrow> string \<times> string \<times> payload) \<Rightarrow> session_manager \<Rightarrow> bool" where
  "sender_ok sid src sm \<longleftrightarrow> 1 \<le> next_outbound sm sid \<and>
     (\<forall>k m. get_reliable_outbound sm sid k = Some m \<longrightarrow>
        ro_sequence_number m = k \<and> 1 \<le> k \<and> k < next_outbound sm sid \<and> ro_content m = src k)"

definition wire_ok :: "(int \<Rightarrow> string \<times> string \<times> payload) \<Rightarrow> int \<Rightarrow> payload set \<Rightarrow> bool" where
  "wire_ok src n w \<longleftrightarrow> (\<forall>p \<in> w. \<exists>k \<in> {1..<n}. \<forall>t. \<exists>m. parse_reliable_payload p t = Inr m \<and>
     ri_seq m = k \<and> ri_content m = src k)"

definition acks_ok :: "int set \<Rightarrow> payload set \<Rightarrow> bool" where
  "acks_ok seen acks \<longleftrightarrow> (\<forall>a \<in> acks. \<forall>n. as_pyint (jget a ''ack_for_sequence_number'') = Some n \<longrightarrow> pyint_val n \<in> seen)"

abbreviation channel_seen :: "string \<Rightarrow> channel \<Rightarrow> int set" where
  "channel_seen sid c \<equiv> seen_numbers (inbound_state (ch_receiver c) sid)"

definition channel_ok :: "string \<Rightarrow> (int \<Rightarrow> string \<times> string \<times> payload) \<Rightarrow> channel \<Rightarrow> bool" where
  "channel_ok sid src c \<longleftrightarrow>
     sm_ok (ch_sender c) \<and> sm_ok (ch_receiver c) \<and> sender_ok sid src (ch_sender c) \<and>
     wire_ok src (next_outbound (ch_sender c) sid) (ch_wire c) \<and>
     receiver_ok src (inbound_state (ch_receiver c) sid) \<and>
     channel_seen sid c \<subseteq> {1..<next_outbound (ch_sender c) sid} \<and>
     acks_ok (channel_seen sid c) (ch_acks c) \<and>
     (\<forall>k \<in> {1..<next_outbound (ch_sender c) sid}.
        get_reliable_outbound (ch_sender c) sid k \<noteq> None \<or> k \<in> channel_seen sid c) \<and>
     map ri_content (ch_log c) =
       map src [1..rs_next_expected_inbound_sequence (inbound_state (ch_receiver c) sid) - 1]"

lemma channel_ok_start: "channel_start sid c \<Longrightarrow> channel_ok sid src c"
  by (simp add: channel_start_def channel_ok_def sender_ok_def wire_ok_def acks_ok_def next_outbound_def
      inbound_state_def get_reliable_outbound_def receiver_ok_new seen_numbers_new)
    (simp add: new_reliable_session_state_def)

text \<open>A step of the sender that keeps the counter and the contents keeps the invariant.\<close>

lemma channel_ok_sender:
  assumes "channel_ok sid src c" and "sm_ok sm'" and "next_outbound sm' sid = next_outbound (ch_sender c) sid"
    and "\<And>k m'. get_reliable_outbound sm' sid k = Some m' \<Longrightarrow> \<exists>m. get_reliable_outbound (ch_sender c) sid k = Some m \<and>
      ro_sequence_number m' = ro_sequence_number m \<and> ro_content m' = ro_content m"
    and "\<And>k. get_reliable_outbound (ch_sender c) sid k \<noteq> None \<Longrightarrow> get_reliable_outbound sm' sid k = None \<Longrightarrow>
      k \<in> channel_seen sid c"
  shows "channel_ok sid src (c \<lparr> ch_sender := sm' \<rparr>)"
proof -
  have "sender_ok sid src sm'"
    using assms(1,3) assms(4) unfolding channel_ok_def sender_ok_def by (metis (no_types, lifting))
  moreover have "get_reliable_outbound sm' sid k \<noteq> None \<or> k \<in> channel_seen sid c"
    if "k \<in> {1..<next_outbound (ch_sender c) sid}" for k
    using assms(1) assms(5) [of k] that unfolding channel_ok_def by blast
  ultimately show ?thesis
    using assms(1,2,3) unfolding channel_ok_def by simp
qed

lemma channel_ok_submit:
  assumes "channel_ok sid src c" and "src (next_outbound (ch_sender c) sid) = (uuid, ty, p)"
    and "prepare_reliable_outbound (ch_sender c) sid ty p retry mx uuid t = Inr (sm', m)"
  shows "channel_ok sid src (c \<lparr> ch_sender := sm' \<rparr>)"
proof -
  let ?n = "next_outbound (ch_sender c) sid"
  have ok: "sm_ok (ch_sender c)" and snd: "sender_ok sid src (ch_sender c)"
    and w: "wire_ok src ?n (ch_wire c)" using assms(1) by (auto simp: channel_ok_def)
  note eff = prepare_effect [OF ok assms(3)]
  have lt: "k < ?n" if "get_reliable_outbound (ch_sender c) sid k = Some m" for k m
    using snd that unfolding sender_ok_def by blast
  then have "sender_ok sid src sm'"
    using snd assms(2) unfolding sender_ok_def eff(4,5) by (auto simp: eff(1,2) dest: lt split: if_splits)
  moreover have "wire_ok src (?n + 1) (ch_wire c)"
    using w unfolding wire_ok_def by (meson atLeastLessThan_iff less_add_one order_less_trans)
  moreover have "{1..<?n + 1} = insert ?n {1..<?n}"
    using snd by (intro atLeastLessThan_int_Suc) (simp add: sender_ok_def)
  ultimately show ?thesis
    using assms(1) sm_ok_prepare [OF ok assms(3)] unfolding channel_ok_def
    by (auto simp: eff(4,5))
qed

lemma wire_ok_payload:
  assumes "script_ok src" and "sender_ok sid src sm" and "get_reliable_outbound sm sid k = Some m"
  shows "wire_ok src (next_outbound sm sid) {to_reliable_payload isofmt m}"
proof -
  have m: "ro_sequence_number m = k" "1 \<le> k" "k < next_outbound sm sid" "ro_content m = src k"
    using assms(2,3) by (auto simp: sender_ok_def)
  have ne: "ro_reliable_message_id m \<noteq> []" "ro_inner_message_type m \<noteq> []"
    using assms(1) m(2) m(4) [symmetric] by (auto simp: script_ok_def ro_content_def)
  show ?thesis
    using m ne parse_to_payload [of m isofmt]
    by (auto simp: wire_ok_def ri_content_def ro_content_def intro!: bexI [of _ k])
qed

lemma channel_ok_receive:
  assumes "script_ok src" and "channel_ok sid src c" and "p \<in> ch_wire c"
    and "receive_reliable_inbound isofmt (ch_receiver c) sid p t t' = (sm', Inr r)"
  shows "channel_ok sid src (c \<lparr> ch_receiver := sm', ch_acks := insert (rr_ack_payload r) (ch_acks c),
      ch_log := ch_log c @ rr_deliveries r \<rparr>)"
    and "\<exists>m. parse_reliable_payload p t = Inr m \<and>
      seen_numbers (inbound_state sm' sid) = insert (ri_seq m) (channel_seen sid c)"
proof -
  let ?n = "next_outbound (ch_sender c) sid" and ?st0 = "inbound_state (ch_receiver c) sid"
  have ok: "sm_ok (ch_receiver c)" using assms(2) by (simp add: channel_ok_def)
  from receive_effect [OF ok assms(4), of src] obtain st m st' where
    1: "parse_reliable_payload p t = Inr m" "receive_inbound st m (reliable_ack_payload isofmt m t') = (st', r)"
      "inbound_state sm' sid = st'" "receiver_ok src st = receiver_ok src ?st0"
      "seen_numbers st = seen_numbers ?st0"
      "rs_next_expected_inbound_sequence st = rs_next_expected_inbound_sequence ?st0" .
  have m: "ri_seq m \<in> {1..<?n}" "ri_content m = src (ri_seq m)"
    using assms(2,3) 1(1) unfolding channel_ok_def wire_ok_def by (metis Inr_inject)+
  have ro: "receiver_ok src st" using assms(2) 1(4) by (simp add: channel_ok_def)
  have fr: "fresh_ids src" using assms(1) by (simp add: script_ok_def)
  have "authentic src m" using m by (simp add: authentic_def)
  note spec = receive_inbound_spec [OF fr ro this 1(2)]
  then show "\<exists>m. parse_reliable_payload p t = Inr m \<and>
      seen_numbers (inbound_state sm' sid) = insert (ri_seq m) (channel_seen sid c)"
    using 1 by auto
  have ackp: "rr_ack_payload r = reliable_ack_payload isofmt m t'"
    using 1(2) by (auto simp: receive_inbound_def split: if_splits prod.splits)
  have "acks_ok (seen_numbers st') (insert (rr_ack_payload r) (ch_acks c))"
    using assms(2) spec 1(5)
    by (auto simp: acks_ok_def channel_ok_def ackp reliable_ack_payload_def jget_def dict_get_def)
  moreover have "map ri_content (ch_log c @ rr_deliveries r) = map src [1..rs_next_expected_inbound_sequence st' - 1]"
  proof -
    have "1 \<le> rs_next_expected_inbound_sequence st"
      using ro by (simp add: receiver_ok_def delivered_upto_def)
    then have "[1..rs_next_expected_inbound_sequence st - 1] @
        [rs_next_expected_inbound_sequence st..rs_next_expected_inbound_sequence st' - 1] =
        [1..rs_next_expected_inbound_sequence st' - 1]"
      using spec by (intro rcv.upto_join) auto
    moreover have "map ri_content (ch_log c) = map src [1..rs_next_expected_inbound_sequence st - 1]"
      using assms(2) by (simp add: channel_ok_def 1(6))
    ultimately show ?thesis using spec by (metis map_append)
  qed
  moreover have "sm_ok sm'" using sm_ok_receive [OF ok, of isofmt sid p t t'] assms(4) by simp
  ultimately show "channel_ok sid src (c \<lparr> ch_receiver := sm', ch_acks := insert (rr_ack_payload r) (ch_acks c),
      ch_log := ch_log c @ rr_deliveries r \<rparr>)"
    using assms(2) spec m(1) 1(3,5) by (auto simp: channel_ok_def)
qed

lemma channel_ok_step:
  assumes "script_ok src"
  shows "channel_step isofmt sid src c c' \<Longrightarrow> channel_ok sid src c \<Longrightarrow> channel_ok sid src c'"
proof (induction rule: channel_step.induct)
  case (submit c uuid ty p retry mx t sm' m)
  then show ?case by (blast intro: channel_ok_submit)
next
  case (transmit c k m t)
  let ?sm = "fst (mark_reliable_outbound_sent (ch_sender c) sid k t)"
  have "wire_ok src (next_outbound (ch_sender c) sid) {to_reliable_payload isofmt m}"
    using transmit assms by (intro wire_ok_payload) (auto simp: channel_ok_def)
  moreover have "channel_ok sid src (c \<lparr> ch_sender := ?sm \<rparr>)"
    using transmit by (intro channel_ok_sender)
      (auto simp: sent_get ro_content_def channel_ok_def sm_ok_mark_sent split: if_splits)
  ultimately show ?case by (simp add: channel_ok_def wire_ok_def)
next
  case (receive p c t t' sm' r)
  then show ?case by (blast intro: channel_ok_receive(1) [OF assms])
next
  case (ack a c t)
  then show ?case
    unfolding handle_reliable_ack_def
    by (intro channel_ok_sender)
      (auto simp: acked_get channel_ok_def acks_ok_def intro: sm_ok_mark_acked split: option.splits if_splits)
next
  case (give_up c k reason t)
  then show ?case
    by (intro channel_ok_sender)
      (auto simp: failed_get ro_content_def mark_failed_def channel_ok_def intro: sm_ok_mark_failed split: if_splits)
next
  case (scan c t)
  obtain sm' due where l: "list_due_reliable_outbound_messages (ch_sender c) t = (sm', due)" by force
  have ok: "sm_ok (ch_sender c)" using scan by (simp add: channel_ok_def)
  show ?case
    using scan sm_ok_list_due [OF ok, of t] next_outbound_scan [of "ch_sender c" t sid] l list_due_get [OF ok l, of sid]
    by (intro channel_ok_sender) (auto simp: ro_content_def mark_failed_def split: if_splits)
qed

lemma channel_run_ok:
  "channel_run isofmt sid src c c' \<Longrightarrow> script_ok src \<Longrightarrow> channel_ok sid src c \<Longrightarrow> channel_ok sid src c'"
  by (induction rule: channel_run.induct) (auto intro: channel_ok_step)

section \<open>Progress\<close>

text \<open>Both ends know the session and the sender has given up on nothing.\<close>

definition channel_live :: "string \<Rightarrow> channel \<Rightarrow> bool" where
  "channel_live sid c \<longleftrightarrow> session_exists (ch_receiver c) sid \<and>
     (\<forall>k m. get_reliable_outbound (ch_sender c) sid k = Some m \<longrightarrow> pending m)"

lemma receive_succeeds:
  assumes "sm_ok sm" and "session_exists sm sid" and "parse_reliable_payload p t = Inr m"
  obtains sm' r where "receive_reliable_inbound isofmt sm sid p t t' = (sm', Inr r)" and "session_exists sm' sid"
proof -
  obtain session where s: "get_session_by_session_id sm sid = Some session"
    using assms(2) by (auto simp: session_exists_def get_session_by_session_id_def)
  obtain sm1 st where 1: "get_reliable_state sm session = (sm1, st)" by force
  obtain st' r where 2: "receive_inbound st m (reliable_ack_payload isofmt m t') = (st', r)" by force
  show thesis
  proof (rule that)
    show "receive_reliable_inbound isofmt sm sid p t t' = (set_reliable_state sm1 (ns_session_id session) st', Inr r)"
      using s 1 2 assms(3) by (simp add: receive_reliable_inbound_def receive_reliable_payload_def)
    show "session_exists (set_reliable_state sm1 (ns_session_id session) st') sid"
      using sm_ok_get_reliable_state [OF assms(1) s 1] by (simp add: session_exists_def set_reliable_state_def)
  qed
qed

lemma deliver_one:
  assumes "script_ok src" and ok: "channel_ok sid src c" and live: "channel_live sid c"
    and k: "k \<in> {1..<next_outbound (ch_sender c) sid}" "k \<notin> channel_seen sid c"
  obtains c' where "channel_run isofmt sid src c c'" and "channel_ok sid src c'" and "channel_live sid c'"
    and "next_outbound (ch_sender c') sid = next_outbound (ch_sender c) sid"
    and "channel_seen sid c' = insert k (channel_seen sid c)"
proof -
  obtain m where m: "get_reliable_outbound (ch_sender c) sid k = Some m"
    using ok k unfolding channel_ok_def by blast
  have pm: "pending m" using live m by (simp add: channel_live_def)
  define c1 where "c1 = c \<lparr> ch_sender := fst (mark_reliable_outbound_sent (ch_sender c) sid k 0),
    ch_wire := insert (to_reliable_payload isofmt m) (ch_wire c) \<rparr>"
  have s1: "channel_step isofmt sid src c c1" unfolding c1_def by (rule transmit [OF m pm])
  have ok1: "channel_ok sid src c1" by (rule channel_ok_step [OF assms(1) s1 ok])
  have msn: "ro_sequence_number m = k" "ro_content m = src k" "1 \<le> k"
    using ok m by (auto simp: channel_ok_def sender_ok_def)
  have "ro_reliable_message_id m \<noteq> []" "ro_inner_message_type m \<noteq> []"
    using assms(1) msn(3) msn(2) [symmetric] by (auto simp: script_ok_def ro_content_def)
  then obtain m' where parse: "parse_reliable_payload (to_reliable_payload isofmt m) 0 = Inr m'" "ri_seq m' = k"
    using parse_to_payload [of m isofmt 0] msn by auto
  have ex: "session_exists (ch_receiver c1) sid" using live by (simp add: channel_live_def c1_def)
  have ok2: "sm_ok (ch_receiver c1)" using ok1 by (simp add: channel_ok_def)
  obtain sm' r where r: "receive_reliable_inbound isofmt (ch_receiver c1) sid (to_reliable_payload isofmt m) 0 0 =
      (sm', Inr r)" "session_exists sm' sid"
    using receive_succeeds [OF ok2 ex parse(1)] by blast
  have w: "to_reliable_payload isofmt m \<in> ch_wire c1" by (simp add: c1_def)
  let ?c2 = "c1 \<lparr> ch_receiver := sm', ch_acks := insert (rr_ack_payload r) (ch_acks c1),
      ch_log := ch_log c1 @ rr_deliveries r \<rparr>"
  show thesis
  proof (rule that)
    have s2: "channel_step isofmt sid src c1 ?c2" by (rule receive [OF w r(1)])
    show "channel_run isofmt sid src c ?c2" by (blast intro: channel_run.intros s1 s2)
    show "channel_ok sid src ?c2" by (rule channel_ok_step [OF assms(1) s2 ok1])
    show "channel_live sid ?c2"
      using live m pm r(2) by (auto simp: channel_live_def c1_def sent_get pending_def split: if_splits)
    show "next_outbound (ch_sender ?c2) sid = next_outbound (ch_sender c) sid" by (simp add: c1_def)
    show "channel_seen sid ?c2 = insert k (channel_seen sid c)"
      using channel_ok_receive(2) [OF assms(1) ok1 w r(1)] parse by (auto simp: c1_def)
  qed
qed

lemma deliver_all:
  assumes "script_ok src" and "channel_ok sid src c" and "channel_live sid c"
  obtains c' where "channel_run isofmt sid src c c'" and "channel_ok sid src c'" and "channel_live sid c'"
    and "next_outbound (ch_sender c') sid = next_outbound (ch_sender c) sid"
    and "channel_seen sid c' = {1..<next_outbound (ch_sender c) sid}"
  using assms(2,3)
proof (induction "card ({1..<next_outbound (ch_sender c) sid} - channel_seen sid c)" arbitrary: c thesis
    rule: less_induct)
  case less
  let ?n = "next_outbound (ch_sender c) sid"
  show ?case
  proof (cases "{1..<?n} \<subseteq> channel_seen sid c")
    case True
    then have "channel_seen sid c = {1..<?n}" using less.prems(2) by (auto simp: channel_ok_def)
    with less.prems show ?thesis by (blast intro: channel_run.refl)
  next
    case False
    then obtain k where k: "k \<in> {1..<?n}" "k \<notin> channel_seen sid c" by blast
    from deliver_one [OF assms(1) less.prems(2,3) k, of isofmt]
    obtain c1 where 1: "channel_run isofmt sid src c c1" "channel_ok sid src c1" "channel_live sid c1"
      "next_outbound (ch_sender c1) sid = ?n" "channel_seen sid c1 = insert k (channel_seen sid c)" .
    have "card ({1..<?n} - insert k (channel_seen sid c)) < card ({1..<?n} - channel_seen sid c)"
    proof (rule psubset_card_mono)
      show "finite ({1..<?n} - channel_seen sid c)" by simp
      show "{1..<?n} - insert k (channel_seen sid c) \<subset> {1..<?n} - channel_seen sid c"
        using k by blast
    qed
    then have dec: "card ({1..<next_outbound (ch_sender c1) sid} - channel_seen sid c1) <
        card ({1..<?n} - channel_seen sid c)" by (simp only: 1(4,5))
    obtain c2 where "channel_run isofmt sid src c1 c2" "channel_ok sid src c2" "channel_live sid c2"
      "next_outbound (ch_sender c2) sid = ?n" "channel_seen sid c2 = {1..<?n}"
      using less.hyps [OF dec _ 1(2,3)] unfolding 1(4) by blast
    with 1(1) less.prems(1) show ?thesis by (blast intro: channel_run_trans)
  qed
qed

lemma seen_all_log:
  assumes "channel_ok sid src c" and "channel_seen sid c = {1..<next_outbound (ch_sender c) sid}"
  shows "map ri_content (ch_log c) = map src [1..next_outbound (ch_sender c) sid - 1]"
proof -
  let ?st = "inbound_state (ch_receiver c) sid" and ?n = "next_outbound (ch_sender c) sid"
  have st: "receiver_ok src ?st" using assms(1) by (simp add: channel_ok_def)
  then have "rs_next_expected_inbound_sequence ?st \<notin> seen_numbers ?st" "1 \<le> rs_next_expected_inbound_sequence ?st"
    "{1..<rs_next_expected_inbound_sequence ?st} \<subseteq> seen_numbers ?st"
    by (auto simp: receiver_ok_def delivered_upto_def seen_numbers_def dest: buffered_from_gap)
  moreover have "1 \<le> ?n" using assms(1) by (simp add: channel_ok_def sender_ok_def)
  ultimately have "rs_next_expected_inbound_sequence ?st = ?n"
    unfolding assms(2) by (auto simp: subset_iff not_less)
  with assms(1) show ?thesis by (simp add: channel_ok_def)
qed

section \<open>Properties\<close>

text \<open>A script of distinct ids and a pair of tables that know the session, for the instances below.\<close>

definition demo_script :: "int \<Rightarrow> string \<times> string \<times> payload" where
  "demo_script k = (replicate (nat k) CHR ''x'', ''chat'', [(''n'', JInt k)])"

definition demo_channel :: channel where
  "demo_channel = \<lparr> ch_sender = demo_sessions, ch_receiver = demo_sessions, ch_wire = {}, ch_acks = {}, ch_log = [] \<rparr>"

lemma demo_script_ok: "script_ok demo_script"
  by (auto simp: script_ok_def fresh_ids_def inj_on_def demo_script_def)

lemma demo_channel_start: "channel_start ''s1'' demo_channel"
proof -
  have "dict_get (sm_reliable_states_by_session_id demo_sessions) ''s1'' = None" by code_simp
  then show ?thesis
    using sm_reachable_ok [OF demo_sessions_reachable] by (simp add: channel_start_def demo_channel_def)
qed

lemma demo_channel_live: "channel_live ''s1'' demo_channel"
proof -
  have "dict_get (sm_reliable_states_by_session_id demo_sessions) ''s1'' = None" "session_exists demo_sessions ''s1''"
    by code_simp+
  then show ?thesis by (simp add: channel_live_def demo_channel_def get_reliable_outbound_def)
qed

text \<open>A run of the example in which one message has been submitted.\<close>

lemma demo_submitted:
  obtains c where "channel_run isofmt ''s1'' demo_script demo_channel c" and "channel_live ''s1'' c"
    and "next_outbound (ch_sender c) ''s1'' = 2"
proof -
  have ok: "sm_ok demo_sessions" by (rule sm_reachable_ok [OF demo_sessions_reachable])
  have n: "next_outbound demo_sessions ''s1'' = 1" by code_simp
  have ex: "map_option ns_session_id (get_session_by_session_id demo_sessions ''s1'') = Some ''s1''" by code_simp
  obtain uuid ty p where sp: "demo_script 1 = (uuid, ty, p)" by (metis surj_pair)
  obtain sm' m where pr: "prepare_reliable_outbound demo_sessions ''s1'' ty p 3 5 uuid 0 = Inr (sm', m)"
    using ex by (cases "prepare_reliable_outbound demo_sessions ''s1'' ty p 3 5 uuid 0")
      (auto simp: prepare_reliable_outbound_def split: prod.splits)
  let ?c = "demo_channel \<lparr> ch_sender := sm' \<rparr>"
  note eff = prepare_effect [OF ok pr]
  show thesis
  proof (rule that)
    have "channel_step isofmt ''s1'' demo_script demo_channel ?c"
      by (rule submit [where m = m]) (use sp n pr in \<open>simp_all add: demo_channel_def\<close>)
    then show "channel_run isofmt ''s1'' demo_script demo_channel ?c" by (blast intro: channel_run.intros)
    show "next_outbound (ch_sender ?c) ''s1'' = 2" using eff(4) n by simp
    show "channel_live ''s1'' ?c"
      using demo_channel_live eff(3,5) by (simp add: channel_live_def demo_channel_def)
  qed
qed

text \<open>
  C1. In every run of a sender and a receiver over a network that loses, duplicates and reorders,
  with retransmissions, acknowledgements and abandoned messages in any order, the receiver has
  delivered exactly an initial piece of what was submitted: each message once, in order, with its
  contents, and nothing that was not submitted.
\<close>

theorem reliable_channel_prefix:
  assumes "channel_start sid c0" and "script_ok src" and "channel_run isofmt sid src c0 c"
  shows "map ri_content (ch_log c) = map src [1..int (length (ch_log c))] \<and>
    int (length (ch_log c)) < next_outbound (ch_sender c) sid"
proof -
  let ?e = "rs_next_expected_inbound_sequence (inbound_state (ch_receiver c) sid)"
  have ok: "channel_ok sid src c" by (rule channel_run_ok [OF assms(3,2) channel_ok_start [OF assms(1)]])
  then have log: "map ri_content (ch_log c) = map src [1..?e - 1]" by (simp add: channel_ok_def)
  from ok have e: "1 \<le> ?e" "{1..<?e} \<subseteq> {1..<next_outbound (ch_sender c) sid}"
    "1 \<le> next_outbound (ch_sender c) sid"
    by (auto simp: channel_ok_def sender_ok_def receiver_ok_def delivered_upto_def seen_numbers_def)
  from log have "length (ch_log c) = length [1..?e - 1]" by (metis length_map)
  with e(1) have len: "int (length (ch_log c)) = ?e - 1" by simp
  have "?e - 1 < next_outbound (ch_sender c) sid"
    using e by (cases "?e = 1") (auto simp: subset_iff)
  with log len show ?thesis by simp
qed

theorem reliable_channel_prefix_witness:
  "\<exists>c. channel_run (\<lambda>t. []) ''s1'' demo_script demo_channel c \<and> ch_log c \<noteq> [] \<and>
     map ri_content (ch_log c) = map demo_script [1..int (length (ch_log c))]"
proof -
  from demo_submitted [of "\<lambda>t. []"] obtain c where c: "channel_run (\<lambda>t. []) ''s1'' demo_script demo_channel c"
    "channel_live ''s1'' c" "next_outbound (ch_sender c) ''s1'' = 2" .
  have "channel_ok ''s1'' demo_script c"
    by (rule channel_run_ok [OF c(1) demo_script_ok channel_ok_start [OF demo_channel_start]])
  from deliver_all [OF demo_script_ok this c(2), of "\<lambda>t. []"] obtain c' where
    c': "channel_run (\<lambda>t. []) ''s1'' demo_script c c'" "channel_ok ''s1'' demo_script c'"
      "next_outbound (ch_sender c') ''s1'' = 2" "channel_seen ''s1'' c' = {1..<2}"
    using c(3) by metis
  have run: "channel_run (\<lambda>t. []) ''s1'' demo_script demo_channel c'" by (rule channel_run_trans [OF c'(1) c(1)])
  have "ch_log c' \<noteq> []" using seen_all_log [OF c'(2)] c'(3,4) by auto
  with run reliable_channel_prefix [OF demo_channel_start demo_script_ok run] show ?thesis by blast
qed

text \<open>
  C2. No message is lost by an early acknowledgement: at any moment every message that was submitted
  is still in the sender's table or has reached the receiver (delivered or buffered).
\<close>

theorem reliable_channel_no_loss:
  assumes "channel_start sid c0" and "script_ok src" and "channel_run isofmt sid src c0 c"
    and "1 \<le> k" and "k < next_outbound (ch_sender c) sid"
  shows "get_reliable_outbound (ch_sender c) sid k \<noteq> None \<or>
    k \<in> seen_numbers (inbound_state (ch_receiver c) sid)"
  using channel_run_ok [OF assms(3,2) channel_ok_start [OF assms(1)]] assms(4,5) by (auto simp: channel_ok_def)

theorem reliable_channel_no_loss_witness:
  "\<exists>c. channel_run (\<lambda>t. []) ''s1'' demo_script demo_channel c \<and> 1 < next_outbound (ch_sender c) ''s1'' \<and>
     (get_reliable_outbound (ch_sender c) ''s1'' 1 \<noteq> None \<or>
      1 \<in> seen_numbers (inbound_state (ch_receiver c) ''s1''))"
proof -
  from demo_submitted [of "\<lambda>t. []"] obtain c where c: "channel_run (\<lambda>t. []) ''s1'' demo_script demo_channel c"
    "channel_live ''s1'' c" "next_outbound (ch_sender c) ''s1'' = 2" .
  from reliable_channel_no_loss [OF demo_channel_start demo_script_ok c(1), of 1] c show ?thesis
    by (intro exI [of _ c]) simp
qed



end
