(* ===== verification/Endpoints.thy ===== *)
theory Endpoints
  imports Session_Manager
begin

text \<open>
  \<^verbatim>\<open>app/transport/endpoints.py\<close>: normalisation of the endpoint descriptions a node publishes and
  their canonical order, in which they are hashed.
\<close>

definition normalize_endpoint_dict :: "json \<Rightarrow> payload option" where
  "normalize_endpoint_dict endpoint =
     (case as_obj endpoint of None \<Rightarrow> None
      | Some e \<Rightarrow>
     (case jget_nonempty_str e ''transport'' of None \<Rightarrow> None
      | Some tr \<Rightarrow>
     (case jget_nonempty_str e ''host'' of None \<Rightarrow> None
      | Some host \<Rightarrow>
     (case as_pyint (jget e ''port'') of None \<Rightarrow> None
      | Some port \<Rightarrow> Some
          [(''transport'', JStr tr), (''host'', JStr host), (''port'', json_of_pyint port),
           (''priority'', (case dict_get e ''priority'' of None \<Rightarrow> JInt 0
              | Some v \<Rightarrow> (case as_pyint v of None \<Rightarrow> JInt 0 | Some i \<Rightarrow> json_of_pyint i))),
           (''metadata'', (case as_obj (jget e ''metadata'') of None \<Rightarrow> JObj [] | Some m \<Rightarrow> JObj m))]))))"

definition normalize_endpoint_list :: "json \<Rightarrow> payload list" where
  "normalize_endpoint_list endpoints =
     (case as_list endpoints of None \<Rightarrow> [] | Some xs \<Rightarrow> List.map_filter normalize_endpoint_dict xs)"

text \<open>The sort key. Every normalised endpoint has the five fields, so the defaults never apply.\<close>

definition endpoint_key :: "payload \<Rightarrow> string \<times> string \<times> int \<times> int \<times> string" where
  "endpoint_key e =
     ((case as_str (jget e ''transport'') of Some s \<Rightarrow> s | None \<Rightarrow> []),
      (case as_str (jget e ''host'') of Some s \<Rightarrow> s | None \<Rightarrow> []),
      (case as_pyint (jget e ''port'') of Some i \<Rightarrow> pyint_val i | None \<Rightarrow> 0),
      (case as_pyint (jget e ''priority'') of Some i \<Rightarrow> pyint_val i | None \<Rightarrow> 0),
      json_dumps (jget e ''metadata''))"

definition canonical_endpoint_list :: "json \<Rightarrow> payload list" where
  "canonical_endpoint_list endpoints = py_sorted endpoint_key (normalize_endpoint_list endpoints)"

text \<open>A stored endpoint: the columns of the \<^verbatim>\<open>endpoint_result\<close> that the function reads.\<close>

record endpoint_result =
  er_transport :: string
  er_host :: string
  er_port :: int
  er_metadata_json :: "string option"

definition build_transport_endpoint_from_result :: "'a endpoint_result_scheme \<Rightarrow> transport_endpoint" where
  "build_transport_endpoint_from_result r = \<lparr> te_transport_name = er_transport r, te_host = er_host r,
     te_port = er_port r, te_metadata = load_json_object (er_metadata_json r) \<rparr>"

section \<open>Lemmas\<close>

text \<open>A normalised endpoint with integer port and priority and well-formed, sorted metadata.\<close>

definition plain_endpoint :: "payload \<Rightarrow> bool" where
  "plain_endpoint e \<longleftrightarrow> (\<exists>tr host port prio m. wf_json (JObj m) \<and> canon (JObj m) = JObj m \<and>
     e = [(''transport'', JStr tr), (''host'', JStr host), (''port'', JInt port),
          (''priority'', JInt prio), (''metadata'', JObj m)])"

lemma endpoint_key_inj: "inj_on endpoint_key {e. plain_endpoint e}"
proof (rule inj_onI)
  fix e e' assume "e \<in> {e. plain_endpoint e}" "e' \<in> {e. plain_endpoint e}" "endpoint_key e = endpoint_key e'"
  then show "e = e'"
    by (auto simp: plain_endpoint_def endpoint_key_def jget_def dict_get_def json_dumps_eq_iff
        simp del: canon.simps)
qed

end
