(* ===== verification/Dht_Records.thy ===== *)
theory Dht_Records
  imports Endpoints
begin

text \<open>
  \<^verbatim>\<open>app/dht/records.py\<close>: the five record types of the distributed hash tables (physical nodes,
  routes, content holders, tags, pages), their parser from JSON with every check and error, and
  their serialisation. The main result is that parsing what was serialised gives the record back.
\<close>

section \<open>Data\<close>

record dpnt_record =
  dpnt_pk_physical_node :: string
  dpnt_endpoints :: "payload list"
  dpnt_transport_methods :: "string list"
  dpnt_reachability_class :: string
  dpnt_relay_capable :: bool
  dpnt_hole_punch_capable :: bool
  dpnt_protocol_version :: string
  dpnt_feature_flags :: "string list"
  dpnt_last_validated_at :: string
  dpnt_status :: string
  dpnt_signature :: string
  dpnt_pow_nonce :: "pyint option"

record drt_route_entry =
  re_pk_physical_node :: string
  re_virtual_node_signature :: string
  re_final_path_id :: string
  re_entry_point_virtual_node_signature :: string
  re_entry_point_physical_node_signature :: string
  re_physical_node_signature :: string
  re_expires_at :: string
  re_rtt :: pyint
  re_rtt_physical_node_signature :: string
  re_pow_nonce :: "pyint option"

record drt_record =
  drt_pk_virtual_node :: string
  drt_route_entries :: "drt_route_entry list"
  drt_last_update :: string

record ddt_holder =
  dh_pk_virtual_node :: string
  dh_expires_at :: string
  dh_signature :: string
  dh_pow_nonce :: "pyint option"

record ddt_record =
  ddt_title :: string
  ddt_type :: string
  ddt_tags :: "string list"
  ddt_holders :: "ddt_holder list"

record dtt_entry =
  dt_resource_id :: string
  dt_pk_virtual_node :: string
  dt_created_at :: string
  dt_expires_at :: string
  dt_signature :: string
  dt_pow_nonce :: "pyint option"

record dtt_record =
  dtt_entries :: "dtt_entry list"

record dpt_record =
  dpt_pk_virtual_node_owner :: string
  dpt_title :: string
  dpt_type :: string
  dpt_last_modified :: string
  dpt_target_ref :: string
  dpt_signature :: string
  dpt_pow_nonce :: "pyint option"

datatype dht_payload =
    Dpnt dpnt_record
  | Drt drt_record
  | Ddt ddt_record
  | Dtt dtt_record
  | Dpt dpt_record

section \<open>Field readers\<close>

abbreviation quoted :: "string \<Rightarrow> string" where
  "quoted f \<equiv> [CHR 0x27] @ f @ [CHR 0x27]"

definition read_list :: "(json \<Rightarrow> 'a option) \<Rightarrow> string \<Rightarrow> payload \<Rightarrow> string \<Rightarrow> 'a list result" where
  "read_list item what p f =
     (case jget p f of
        JNull \<Rightarrow> Inr []
      | JList xs \<Rightarrow> rmap (\<lambda>x. case item x of
          None \<Rightarrow> Inl (ValueError (''O campo '' @ quoted f @ '' precisa conter apenas '' @ what @ ''.''))
        | Some y \<Rightarrow> Inr y) xs
      | _ \<Rightarrow> Inl (ValueError (''O campo '' @ quoted f @ '' precisa ser uma lista.'')))"

definition read_list_of_dicts :: "payload \<Rightarrow> string \<Rightarrow> payload list result" where
  "read_list_of_dicts p f = read_list as_obj ''objetos'' p f"

definition read_list_of_strings :: "payload \<Rightarrow> string \<Rightarrow> string list result" where
  "read_list_of_strings p f = read_list as_str ''strings'' p f"

definition read_required_string :: "payload \<Rightarrow> string \<Rightarrow> string result" where
  "read_required_string p f =
     (case jget_nonempty_str p f of
        None \<Rightarrow> Inl (ValueError (''The '' @ quoted f @ '' field must be a non-empty string.''))
      | Some s \<Rightarrow> Inr s)"

definition read_metadata :: "payload \<Rightarrow> payload result" where
  "read_metadata p = (case jget p ''metadata'' of
     JNull \<Rightarrow> Inr [] | JObj m \<Rightarrow> Inr m
   | _ \<Rightarrow> Inl (ValueError (''O campo '' @ quoted ''metadata'' @ '' precisa ser um objeto.'')))"

definition read_required_int :: "payload \<Rightarrow> string \<Rightarrow> pyint result" where
  "read_required_int p f = (case as_pyint (jget p f) of
     None \<Rightarrow> Inl (ValueError (''O campo '' @ quoted f @ '' precisa ser um inteiro.''))
   | Some i \<Rightarrow> Inr i)"

definition read_pow_nonce :: "payload \<Rightarrow> pyint option result" where
  "read_pow_nonce p = (case jget p ''pow_nonce'' of
     JNull \<Rightarrow> Inr None
   | v \<Rightarrow> (case as_pyint v of
       None \<Rightarrow> Inl (ValueError (''O campo '' @ quoted ''pow_nonce'' @ '' precisa ser um inteiro.''))
     | Some i \<Rightarrow> Inr (Some i)))"

definition read_required_bool :: "payload \<Rightarrow> string \<Rightarrow> bool result" where
  "read_required_bool p f = (case jget p f of
     JBool b \<Rightarrow> Inr b
   | _ \<Rightarrow> Inl (ValueError (''O campo '' @ quoted f @ '' precisa ser um booleano.'')))"

text \<open>
  A list of objects, each read by \<open>item\<close>: the loop checks that an element is an object and reads
  it before it looks at the next one.
\<close>

definition read_entries :: "(payload \<Rightarrow> 'a result) \<Rightarrow> payload \<Rightarrow> string \<Rightarrow> 'a list result" where
  "read_entries item p f =
     (case jget p f of
        JNull \<Rightarrow> Inr []
      | JList xs \<Rightarrow> rmap (\<lambda>x. case as_obj x of
          None \<Rightarrow> Inl (ValueError (''O campo '' @ quoted f @ '' precisa conter apenas objetos.''))
        | Some e \<Rightarrow> item e) xs
      | _ \<Rightarrow> Inl (ValueError (''O campo '' @ quoted f @ '' precisa ser uma lista.'')))"

definition read_ddt_holder :: "payload \<Rightarrow> ddt_holder result" where
  "read_ddt_holder e =
     rbind (read_required_string e ''pk_virtual_node'') (\<lambda>pk.
     rbind (read_required_string e ''expires_at'') (\<lambda>ex.
     rbind (read_required_string e ''signature'') (\<lambda>sg.
     rbind (read_pow_nonce e) (\<lambda>n.
       Inr \<lparr> dh_pk_virtual_node = pk, dh_expires_at = ex, dh_signature = sg, dh_pow_nonce = n \<rparr>))))"

definition read_ddt_holders :: "payload \<Rightarrow> ddt_holder list result" where
  "read_ddt_holders p = read_entries read_ddt_holder p ''holders''"

definition read_drt_route_entry :: "payload \<Rightarrow> drt_route_entry result" where
  "read_drt_route_entry e =
     rbind (read_required_string e ''pk_physical_node'') (\<lambda>pk.
     rbind (read_required_string e ''virtual_node_signature'') (\<lambda>vs.
     rbind (read_required_string e ''final_path_id'') (\<lambda>fp.
     rbind (read_required_string e ''entry_point_virtual_node_signature'') (\<lambda>ev.
     rbind (read_required_string e ''entry_point_physical_node_signature'') (\<lambda>ep.
     rbind (read_required_string e ''physical_node_signature'') (\<lambda>ps.
     rbind (read_required_string e ''expires_at'') (\<lambda>ex.
     rbind (read_required_int e ''rtt'') (\<lambda>rtt.
     rbind (read_required_string e ''rtt_physical_node_signature'') (\<lambda>rs.
     rbind (read_pow_nonce e) (\<lambda>n.
       Inr \<lparr> re_pk_physical_node = pk, re_virtual_node_signature = vs, re_final_path_id = fp,
         re_entry_point_virtual_node_signature = ev, re_entry_point_physical_node_signature = ep,
         re_physical_node_signature = ps, re_expires_at = ex, re_rtt = rtt,
         re_rtt_physical_node_signature = rs, re_pow_nonce = n \<rparr>))))))))))"

definition read_drt_route_entries :: "payload \<Rightarrow> drt_route_entry list result" where
  "read_drt_route_entries p = read_entries read_drt_route_entry p ''route_entries''"

definition read_dtt_entry :: "payload \<Rightarrow> dtt_entry result" where
  "read_dtt_entry e =
     rbind (read_required_string e ''resource_id'') (\<lambda>rid.
     rbind (read_required_string e ''pk_virtual_node'') (\<lambda>pk.
     rbind (read_required_string e ''created_at'') (\<lambda>cr.
     rbind (read_required_string e ''expires_at'') (\<lambda>ex.
     rbind (read_required_string e ''signature'') (\<lambda>sg.
     rbind (read_pow_nonce e) (\<lambda>n.
       Inr \<lparr> dt_resource_id = rid, dt_pk_virtual_node = pk, dt_created_at = cr, dt_expires_at = ex,
         dt_signature = sg, dt_pow_nonce = n \<rparr>))))))"

definition read_dtt_entries :: "payload \<Rightarrow> dtt_entry list result" where
  "read_dtt_entries p = read_entries read_dtt_entry p ''entries''"

section \<open>Parsers\<close>

definition parse_dpnt :: "payload \<Rightarrow> dpnt_record result" where
  "parse_dpnt p =
     rbind (read_required_string p ''pk_physical_node'') (\<lambda>pk.
     rbind (read_list_of_dicts p ''endpoints'') (\<lambda>eps.
     rbind (read_list_of_strings p ''transport_methods'') (\<lambda>tms.
     rbind (read_required_string p ''reachability_class'') (\<lambda>rc.
     rbind (read_required_bool p ''relay_capable'') (\<lambda>rel.
     rbind (read_required_bool p ''hole_punch_capable'') (\<lambda>hol.
     rbind (read_required_string p ''protocol_version'') (\<lambda>pv.
     rbind (read_list_of_strings p ''feature_flags'') (\<lambda>ffs.
     rbind (read_required_string p ''last_validated_at'') (\<lambda>lv.
     rbind (read_required_string p ''status'') (\<lambda>st.
     rbind (read_required_string p ''signature'') (\<lambda>sg.
     rbind (read_pow_nonce p) (\<lambda>n.
       Inr \<lparr> dpnt_pk_physical_node = pk, dpnt_endpoints = eps, dpnt_transport_methods = tms,
         dpnt_reachability_class = rc, dpnt_relay_capable = rel, dpnt_hole_punch_capable = hol,
         dpnt_protocol_version = pv, dpnt_feature_flags = ffs, dpnt_last_validated_at = lv,
         dpnt_status = st, dpnt_signature = sg, dpnt_pow_nonce = n \<rparr>))))))))))))"

definition parse_drt :: "payload \<Rightarrow> drt_record result" where
  "parse_drt p =
     rbind (read_required_string p ''pk_virtual_node'') (\<lambda>pk.
     rbind (read_drt_route_entries p) (\<lambda>es.
     rbind (read_required_string p ''last_update'') (\<lambda>lu.
       Inr \<lparr> drt_pk_virtual_node = pk, drt_route_entries = es, drt_last_update = lu \<rparr>)))"

definition parse_ddt :: "payload \<Rightarrow> ddt_record result" where
  "parse_ddt p =
     rbind (read_required_string p ''title'') (\<lambda>ti.
     rbind (read_required_string p ''type'') (\<lambda>ty.
     rbind (read_list_of_strings p ''tags'') (\<lambda>tags.
     rbind (read_ddt_holders p) (\<lambda>hs.
       Inr \<lparr> ddt_title = ti, ddt_type = ty, ddt_tags = tags, ddt_holders = hs \<rparr>))))"

definition parse_dtt :: "payload \<Rightarrow> dtt_record result" where
  "parse_dtt p = rbind (read_dtt_entries p) (\<lambda>es. Inr \<lparr> dtt_entries = es \<rparr>)"

definition parse_dpt :: "payload \<Rightarrow> dpt_record result" where
  "parse_dpt p =
     rbind (read_required_string p ''pk_virtual_node_owner'') (\<lambda>pk.
     rbind (read_required_string p ''title'') (\<lambda>ti.
     rbind (read_required_string p ''type'') (\<lambda>ty.
     rbind (read_required_string p ''last_modified'') (\<lambda>lm.
     rbind (read_required_string p ''target_ref'') (\<lambda>tr.
     rbind (read_required_string p ''signature'') (\<lambda>sg.
     rbind (read_pow_nonce p) (\<lambda>n.
       Inr \<lparr> dpt_pk_virtual_node_owner = pk, dpt_title = ti, dpt_type = ty, dpt_last_modified = lm,
         dpt_target_ref = tr, dpt_signature = sg, dpt_pow_nonce = n \<rparr>)))))))"

definition parse_record_dict :: "string \<Rightarrow> payload \<Rightarrow> dht_payload result" where
  "parse_record_dict namespace p =
     (let ns = py_lower namespace in
      if ns = ''dpnt'' then rbind (parse_dpnt p) (Inr \<circ> Dpnt)
      else if ns = ''drt'' then rbind (parse_drt p) (Inr \<circ> Drt)
      else if ns = ''ddt'' then rbind (parse_ddt p) (Inr \<circ> Ddt)
      else if ns = ''dtt'' then rbind (parse_dtt p) (Inr \<circ> Dtt)
      else if ns = ''dpt'' then rbind (parse_dpt p) (Inr \<circ> Dpt)
      else Inl (ValueError (''Unsupported DHT namespace: '' @ namespace)))"

definition parse_record :: "string \<Rightarrow> string \<Rightarrow> dht_payload result" where
  "parse_record namespace record_json =
     (if namespace = [] then Inl (ValueError ''namespace e obrigatorio.'')
      else if record_json = [] then Inl (ValueError ''record_json e obrigatorio.'')
      else case json_loads record_json of
        None \<Rightarrow> Inl (ValueError ''record_json does not contain valid JSON.'')
      | Some (JObj p) \<Rightarrow> parse_record_dict namespace p
      | Some _ \<Rightarrow> Inl (ValueError ''record_json precisa ser um objeto JSON.''))"

section \<open>Serialisation\<close>

text \<open>\<^verbatim>\<open>dataclasses.asdict\<close> of each record, fields in the order of declaration.\<close>

definition json_nonce :: "pyint option \<Rightarrow> json" where
  "json_nonce n = (case n of None \<Rightarrow> JNull | Some i \<Rightarrow> json_of_pyint i)"

definition dpnt_asdict :: "dpnt_record \<Rightarrow> payload" where
  "dpnt_asdict r =
     [(''pk_physical_node'', JStr (dpnt_pk_physical_node r)),
      (''endpoints'', JList (map JObj (dpnt_endpoints r))),
      (''transport_methods'', JList (map JStr (dpnt_transport_methods r))),
      (''reachability_class'', JStr (dpnt_reachability_class r)),
      (''relay_capable'', JBool (dpnt_relay_capable r)),
      (''hole_punch_capable'', JBool (dpnt_hole_punch_capable r)),
      (''protocol_version'', JStr (dpnt_protocol_version r)),
      (''feature_flags'', JList (map JStr (dpnt_feature_flags r))),
      (''last_validated_at'', JStr (dpnt_last_validated_at r)),
      (''status'', JStr (dpnt_status r)),
      (''signature'', JStr (dpnt_signature r)),
      (''pow_nonce'', json_nonce (dpnt_pow_nonce r))]"

definition route_entry_asdict :: "drt_route_entry \<Rightarrow> payload" where
  "route_entry_asdict e =
     [(''pk_physical_node'', JStr (re_pk_physical_node e)),
      (''virtual_node_signature'', JStr (re_virtual_node_signature e)),
      (''final_path_id'', JStr (re_final_path_id e)),
      (''entry_point_virtual_node_signature'', JStr (re_entry_point_virtual_node_signature e)),
      (''entry_point_physical_node_signature'', JStr (re_entry_point_physical_node_signature e)),
      (''physical_node_signature'', JStr (re_physical_node_signature e)),
      (''expires_at'', JStr (re_expires_at e)),
      (''rtt'', json_of_pyint (re_rtt e)),
      (''rtt_physical_node_signature'', JStr (re_rtt_physical_node_signature e)),
      (''pow_nonce'', json_nonce (re_pow_nonce e))]"

definition drt_asdict :: "drt_record \<Rightarrow> payload" where
  "drt_asdict r =
     [(''pk_virtual_node'', JStr (drt_pk_virtual_node r)),
      (''route_entries'', JList (map (JObj \<circ> route_entry_asdict) (drt_route_entries r))),
      (''last_update'', JStr (drt_last_update r))]"

definition holder_asdict :: "ddt_holder \<Rightarrow> payload" where
  "holder_asdict h =
     [(''pk_virtual_node'', JStr (dh_pk_virtual_node h)),
      (''expires_at'', JStr (dh_expires_at h)),
      (''signature'', JStr (dh_signature h)),
      (''pow_nonce'', json_nonce (dh_pow_nonce h))]"

definition ddt_asdict :: "ddt_record \<Rightarrow> payload" where
  "ddt_asdict r =
     [(''title'', JStr (ddt_title r)),
      (''type'', JStr (ddt_type r)),
      (''tags'', JList (map JStr (ddt_tags r))),
      (''holders'', JList (map (JObj \<circ> holder_asdict) (ddt_holders r)))]"

definition dtt_entry_asdict :: "dtt_entry \<Rightarrow> payload" where
  "dtt_entry_asdict e =
     [(''resource_id'', JStr (dt_resource_id e)),
      (''pk_virtual_node'', JStr (dt_pk_virtual_node e)),
      (''created_at'', JStr (dt_created_at e)),
      (''expires_at'', JStr (dt_expires_at e)),
      (''signature'', JStr (dt_signature e)),
      (''pow_nonce'', json_nonce (dt_pow_nonce e))]"

definition dtt_asdict :: "dtt_record \<Rightarrow> payload" where
  "dtt_asdict r = [(''entries'', JList (map (JObj \<circ> dtt_entry_asdict) (dtt_entries r)))]"

definition dpt_asdict :: "dpt_record \<Rightarrow> payload" where
  "dpt_asdict r =
     [(''pk_virtual_node_owner'', JStr (dpt_pk_virtual_node_owner r)),
      (''title'', JStr (dpt_title r)),
      (''type'', JStr (dpt_type r)),
      (''last_modified'', JStr (dpt_last_modified r)),
      (''target_ref'', JStr (dpt_target_ref r)),
      (''signature'', JStr (dpt_signature r)),
      (''pow_nonce'', json_nonce (dpt_pow_nonce r))]"

fun payload_asdict :: "dht_payload \<Rightarrow> payload" where
  "payload_asdict (Dpnt r) = dpnt_asdict r"
| "payload_asdict (Drt r) = drt_asdict r"
| "payload_asdict (Ddt r) = ddt_asdict r"
| "payload_asdict (Dtt r) = dtt_asdict r"
| "payload_asdict (Dpt r) = dpt_asdict r"

definition serialize_record :: "dht_payload \<Rightarrow> string" where
  "serialize_record p = json_dumps (JObj (payload_asdict p))"

section \<open>Round trip\<close>

text \<open>The object that is read back: keys sorted at every level.\<close>

definition cobj :: "payload \<Rightarrow> payload" where
  "cobj d = sort_key fst (map (map_prod id canon) d)"

lemma canon_JObj_cobj: "canon (JObj d) = JObj (cobj d)"
  by (simp add: cobj_def)

lemma jget_cobj: "distinct (map fst d) \<Longrightarrow> jget (cobj d) f = canon (jget d f)"
proof -
  assume "distinct (map fst d)"
  then have "distinct (map fst (map (map_prod id canon) d))" by (simp add: comp_def)
  then have "dict_get (cobj d) f = dict_get (map (map_prod id canon) d) f"
    unfolding cobj_def by (rule dict_get_sorted)
  also have "\<dots> = map_option canon (dict_get d f)"
    by (simp add: dict_get_def map_prod_def id_def map_of_map)
  finally show ?thesis by (simp add: jget_def split: option.split)
qed

lemma jget_Cons [simp]: "jget ((k, v) # d) f = (if f = k then v else jget d f)" "jget [] f = JNull"
  by (simp_all add: jget_def dict_get_def)

definition wf_route_entry :: "drt_route_entry \<Rightarrow> bool" where
  "wf_route_entry e \<longleftrightarrow> re_pk_physical_node e \<noteq> [] \<and> re_virtual_node_signature e \<noteq> [] \<and>
     re_final_path_id e \<noteq> [] \<and> re_entry_point_virtual_node_signature e \<noteq> [] \<and>
     re_entry_point_physical_node_signature e \<noteq> [] \<and> re_physical_node_signature e \<noteq> [] \<and>
     re_expires_at e \<noteq> [] \<and> re_rtt_physical_node_signature e \<noteq> []"

definition wf_holder :: "ddt_holder \<Rightarrow> bool" where
  "wf_holder h \<longleftrightarrow> dh_pk_virtual_node h \<noteq> [] \<and> dh_expires_at h \<noteq> [] \<and> dh_signature h \<noteq> []"

definition wf_dtt_entry :: "dtt_entry \<Rightarrow> bool" where
  "wf_dtt_entry e \<longleftrightarrow> dt_resource_id e \<noteq> [] \<and> dt_pk_virtual_node e \<noteq> [] \<and> dt_created_at e \<noteq> [] \<and>
     dt_expires_at e \<noteq> [] \<and> dt_signature e \<noteq> []"

fun wf_payload :: "dht_payload \<Rightarrow> bool" where
  "wf_payload (Dpnt r) \<longleftrightarrow> dpnt_pk_physical_node r \<noteq> [] \<and> dpnt_reachability_class r \<noteq> [] \<and>
     dpnt_protocol_version r \<noteq> [] \<and> dpnt_last_validated_at r \<noteq> [] \<and> dpnt_status r \<noteq> [] \<and>
     dpnt_signature r \<noteq> [] \<and> list_all (\<lambda>e. wf_json (JObj e) \<and> canon (JObj e) = JObj e) (dpnt_endpoints r)"
| "wf_payload (Drt r) \<longleftrightarrow> drt_pk_virtual_node r \<noteq> [] \<and> drt_last_update r \<noteq> [] \<and>
     list_all wf_route_entry (drt_route_entries r)"
| "wf_payload (Ddt r) \<longleftrightarrow> ddt_title r \<noteq> [] \<and> ddt_type r \<noteq> [] \<and> list_all wf_holder (ddt_holders r)"
| "wf_payload (Dtt r) \<longleftrightarrow> list_all wf_dtt_entry (dtt_entries r)"
| "wf_payload (Dpt r) \<longleftrightarrow> dpt_pk_virtual_node_owner r \<noteq> [] \<and> dpt_title r \<noteq> [] \<and> dpt_type r \<noteq> [] \<and>
     dpt_last_modified r \<noteq> [] \<and> dpt_target_ref r \<noteq> [] \<and> dpt_signature r \<noteq> []"

fun payload_namespace :: "dht_payload \<Rightarrow> string" where
  "payload_namespace (Dpnt r) = ''dpnt''"
| "payload_namespace (Drt r) = ''drt''"
| "payload_namespace (Ddt r) = ''ddt''"
| "payload_namespace (Dtt r) = ''dtt''"
| "payload_namespace (Dpt r) = ''dpt''"

lemmas asdict_defs = dpnt_asdict_def route_entry_asdict_def drt_asdict_def holder_asdict_def ddt_asdict_def
  dtt_entry_asdict_def dtt_asdict_def dpt_asdict_def

lemma canon_pyint [simp]: "canon (json_of_pyint i) = json_of_pyint i" "wf_json (json_of_pyint i)"
  by (cases i; simp)+

lemma canon_nonce [simp]: "canon (json_nonce n) = json_nonce n" "wf_json (json_nonce n)"
  by (auto simp: json_nonce_def split: option.split)

lemma distinct_asdict [simp]:
  "distinct (map fst (dpnt_asdict r))" "distinct (map fst (route_entry_asdict e))"
  "distinct (map fst (drt_asdict r2))" "distinct (map fst (holder_asdict h))"
  "distinct (map fst (ddt_asdict r3))" "distinct (map fst (dtt_entry_asdict t))"
  "distinct (map fst (dtt_asdict r4))" "distinct (map fst (dpt_asdict r5))"
  by (simp_all add: asdict_defs)

lemma distinct_payload_asdict: "distinct (map fst (payload_asdict p))"
  by (cases p) simp_all

lemma wf_members:
  "(k, v) \<in> set (route_entry_asdict e) \<Longrightarrow> wf_json v" "(k, v) \<in> set (holder_asdict h) \<Longrightarrow> wf_json v"
  "(k, v) \<in> set (dtt_entry_asdict t) \<Longrightarrow> wf_json v"
  by (auto simp: route_entry_asdict_def holder_asdict_def dtt_entry_asdict_def)

lemma wf_payload_asdict: "wf_payload p \<Longrightarrow> wf_json (JObj (payload_asdict p))"
proof (cases p)
  case (Dpnt r)
  assume "wf_payload p"
  with Dpnt show ?thesis by (auto simp: wf_json_JObj wf_json_JList dpnt_asdict_def list_all_iff simp del: canon.simps)
qed (auto simp: wf_json_JObj wf_json_JList drt_asdict_def ddt_asdict_def dtt_asdict_def dpt_asdict_def dest: wf_members)

lemma read_required_string_iff [simp]:
  "jget p f = JStr s \<Longrightarrow> s \<noteq> [] \<Longrightarrow> read_required_string p f = Inr s"
  by (simp add: read_required_string_def jget_nonempty_str_def)

lemma read_pow_nonce_json [simp]: "jget p ''pow_nonce'' = json_nonce n \<Longrightarrow> read_pow_nonce p = Inr n"
proof (cases n)
  case (Some i)
  assume "jget p ''pow_nonce'' = json_nonce n"
  with Some show ?thesis by (cases i) (simp_all add: json_nonce_def read_pow_nonce_def)
qed (simp add: json_nonce_def read_pow_nonce_def)

lemma read_required_int_json [simp]: "jget p f = json_of_pyint i \<Longrightarrow> read_required_int p f = Inr i"
  by (cases i) (simp_all add: read_required_int_def)

lemma read_required_bool_json [simp]: "jget p f = JBool b \<Longrightarrow> read_required_bool p f = Inr b"
  by (simp add: read_required_bool_def)

lemma read_list_of_strings_json [simp]:
  "jget p f = JList (map JStr ss) \<Longrightarrow> read_list_of_strings p f = Inr ss"
  by (auto simp: read_list_of_strings_def read_list_def intro: rmap_map)

lemma read_list_of_dicts_json [simp]:
  "jget p f = JList (map JObj ds) \<Longrightarrow> read_list_of_dicts p f = Inr ds"
  by (auto simp: read_list_of_dicts_def read_list_def intro: rmap_map)

lemma read_entries_json:
  assumes "jget p f = JList (map (\<lambda>x. JObj (g x)) xs)" and "\<And>x. x \<in> set xs \<Longrightarrow> item (g x) = Inr x"
  shows "read_entries item p f = Inr xs"
  using assms(1) rmap_map [of xs "\<lambda>x. case as_obj x of
      None \<Rightarrow> Inl (ValueError (''O campo '' @ quoted f @ '' precisa conter apenas objetos.'')) | Some e \<Rightarrow> item e"
      "\<lambda>x. JObj (g x)"]
  by (simp add: read_entries_def assms(2))

text \<open>Field access on the dictionaries of the records.\<close>

lemmas asdict_get =
  dpnt_asdict_def [THEN arg_cong, of "\<lambda>d. jget d f" for f, simplified]
  route_entry_asdict_def [THEN arg_cong, of "\<lambda>d. jget d f" for f, simplified]
  drt_asdict_def [THEN arg_cong, of "\<lambda>d. jget d f" for f, simplified]
  holder_asdict_def [THEN arg_cong, of "\<lambda>d. jget d f" for f, simplified]
  ddt_asdict_def [THEN arg_cong, of "\<lambda>d. jget d f" for f, simplified]
  dtt_entry_asdict_def [THEN arg_cong, of "\<lambda>d. jget d f" for f, simplified]
  dtt_asdict_def [THEN arg_cong, of "\<lambda>d. jget d f" for f, simplified]
  dpt_asdict_def [THEN arg_cong, of "\<lambda>d. jget d f" for f, simplified]

lemma read_route_entry_back: "wf_route_entry e \<Longrightarrow> read_drt_route_entry (cobj (route_entry_asdict e)) = Inr e"
  by (simp add: read_drt_route_entry_def wf_route_entry_def jget_cobj asdict_get)

lemma read_holder_back: "wf_holder h \<Longrightarrow> read_ddt_holder (cobj (holder_asdict h)) = Inr h"
  by (simp add: read_ddt_holder_def wf_holder_def jget_cobj asdict_get)

lemma read_dtt_entry_back: "wf_dtt_entry e \<Longrightarrow> read_dtt_entry (cobj (dtt_entry_asdict e)) = Inr e"
  by (simp add: read_dtt_entry_def wf_dtt_entry_def jget_cobj asdict_get)

lemma parse_dpnt_back:
  assumes "wf_payload (Dpnt r)"
  shows "parse_dpnt (cobj (dpnt_asdict r)) = Inr r"
proof -
  have "map canon (map JObj (dpnt_endpoints r)) = map JObj (dpnt_endpoints r)"
    using assms by (simp add: list_all_iff del: canon.simps)
  then have "jget (cobj (dpnt_asdict r)) ''endpoints'' = JList (map JObj (dpnt_endpoints r))"
    by (simp add: jget_cobj asdict_get del: canon.simps(7))
  note eps = read_list_of_dicts_json [OF this]
  have strs: "jget (cobj (dpnt_asdict r)) ''transport_methods'' = JList (map JStr (dpnt_transport_methods r))"
    "jget (cobj (dpnt_asdict r)) ''feature_flags'' = JList (map JStr (dpnt_feature_flags r))"
    by (simp_all add: jget_cobj asdict_get comp_def)
  show ?thesis
    using assms by (simp add: parse_dpnt_def eps strs [THEN read_list_of_strings_json] jget_cobj asdict_get)
qed

lemma parse_drt_back:
  assumes "wf_payload (Drt r)"
  shows "parse_drt (cobj (drt_asdict r)) = Inr r"
proof -
  have "read_drt_route_entries (cobj (drt_asdict r)) = Inr (drt_route_entries r)"
    unfolding read_drt_route_entries_def
  proof (rule read_entries_json)
    show "jget (cobj (drt_asdict r)) ''route_entries'' =
        JList (map (\<lambda>e. JObj (cobj (route_entry_asdict e))) (drt_route_entries r))"
      by (simp add: jget_cobj asdict_get comp_def canon_JObj_cobj del: canon.simps(7))
  qed (use assms in \<open>simp add: list_all_iff read_route_entry_back\<close>)
  with assms show ?thesis by (simp add: parse_drt_def jget_cobj asdict_get)
qed

lemma parse_ddt_back:
  assumes "wf_payload (Ddt r)"
  shows "parse_ddt (cobj (ddt_asdict r)) = Inr r"
proof -
  have hs: "read_ddt_holders (cobj (ddt_asdict r)) = Inr (ddt_holders r)"
    unfolding read_ddt_holders_def
  proof (rule read_entries_json)
    show "jget (cobj (ddt_asdict r)) ''holders'' = JList (map (\<lambda>e. JObj (cobj (holder_asdict e))) (ddt_holders r))"
      by (simp add: jget_cobj asdict_get comp_def canon_JObj_cobj del: canon.simps(7))
  qed (use assms in \<open>simp add: list_all_iff read_holder_back\<close>)
  have tags: "read_list_of_strings (cobj (ddt_asdict r)) ''tags'' = Inr (ddt_tags r)"
    by (rule read_list_of_strings_json) (simp add: jget_cobj asdict_get comp_def)
  show ?thesis using assms by (simp add: parse_ddt_def tags hs jget_cobj asdict_get)
qed

lemma parse_dtt_back:
  assumes "wf_payload (Dtt r)"
  shows "parse_dtt (cobj (dtt_asdict r)) = Inr r"
proof -
  have "read_dtt_entries (cobj (dtt_asdict r)) = Inr (dtt_entries r)"
    unfolding read_dtt_entries_def
  proof (rule read_entries_json)
    show "jget (cobj (dtt_asdict r)) ''entries'' = JList (map (\<lambda>e. JObj (cobj (dtt_entry_asdict e))) (dtt_entries r))"
      by (simp add: jget_cobj asdict_get comp_def canon_JObj_cobj del: canon.simps(7))
  qed (use assms in \<open>simp add: list_all_iff read_dtt_entry_back\<close>)
  then show ?thesis by (simp add: parse_dtt_def)
qed

lemma parse_dpt_back: "wf_payload (Dpt r) \<Longrightarrow> parse_dpt (cobj (dpt_asdict r)) = Inr r"
  by (simp add: parse_dpt_def jget_cobj asdict_get)

lemma lower_lowercase [simp]:
  "py_lower ''dpnt'' = ''dpnt''" "py_lower ''drt'' = ''drt''" "py_lower ''ddt'' = ''ddt''"
  "py_lower ''dtt'' = ''dtt''" "py_lower ''dpt'' = ''dpt''"
  by code_simp+

lemma parse_record_back:
  assumes "wf_payload p" and "py_lower ns = payload_namespace p"
  shows "parse_record ns (serialize_record p) = Inr p"
proof -
  have "ns \<noteq> []" using assms(2) by (cases p) (auto simp: py_lower_def)
  moreover have "serialize_record p \<noteq> []"
    using compact_json_text_nonempty [of "payload_asdict p"] by (simp add: serialize_record_def compact_json_text_def)
  moreover have "json_loads (serialize_record p) = Some (JObj (cobj (payload_asdict p)))"
    unfolding serialize_record_def canon_JObj_cobj [symmetric] by (rule loads_dumps [OF wf_payload_asdict [OF assms(1)]])
  ultimately show ?thesis
    using assms
    by (cases p) (simp_all add: parse_record_def parse_record_dict_def Let_def parse_dpnt_back parse_drt_back
        parse_ddt_back parse_dtt_back parse_dpt_back del: wf_payload.simps)
qed

text \<open>The serialisation is a codec, so it is injective on well-formed records of one namespace.\<close>

interpretation rec: codec serialize_record
  "\<lambda>s. case parse_record ns s of Inl e \<Rightarrow> None | Inr p \<Rightarrow> Some p"
  "\<lambda>p. wf_payload p \<and> py_lower ns = payload_namespace p" for ns
  by unfold_locales (simp add: parse_record_back)

lemma read_entries_all:
  assumes "read_entries item q f = Inr ys" and "\<And>e y. item e = Inr y \<Longrightarrow> P y"
  shows "list_all P ys"
proof (cases "jget q f")
  case (JList xs)
  with assms(1) have "rmap (\<lambda>x. case as_obj x of
        None \<Rightarrow> Inl (ValueError (''O campo '' @ quoted f @ '' precisa conter apenas objetos.''))
      | Some e \<Rightarrow> item e) xs = Inr ys"
    by (simp add: read_entries_def)
  then show ?thesis by (rule rmap_all) (auto intro: assms(2) split: option.splits)
qed (use assms(1) in \<open>simp_all add: read_entries_def\<close>)

lemma read_required_string_nonempty: "read_required_string q f = Inr x \<Longrightarrow> x \<noteq> []"
  by (auto simp: read_required_string_def jget_nonempty_str_def split: option.splits if_splits)

lemma read_entry_wf:
  "read_drt_route_entry q = Inr e \<Longrightarrow> wf_route_entry e"
  "read_ddt_holder q = Inr h \<Longrightarrow> wf_holder h"
  "read_dtt_entry q = Inr t \<Longrightarrow> wf_dtt_entry t"
  by (auto simp: read_drt_route_entry_def read_ddt_holder_def read_dtt_entry_def rbind_Inr_iff
      read_required_string_nonempty wf_route_entry_def wf_holder_def wf_dtt_entry_def)

section \<open>Properties\<close>

text \<open>
  C33. Parsing a serialised record in its namespace (in any letter case) gives the record back: no
  field is lost, renamed or reordered. The fields the parser requires must be non-empty, and the
  endpoint objects of a physical-node record well formed with sorted keys.
\<close>

theorem parse_serialize_record:
  assumes "wf_payload p" and "py_lower ns = payload_namespace p"
  shows "parse_record ns (serialize_record p) = Inr p"
  by (rule parse_record_back [OF assms])

theorem parse_serialize_record_witness:
  "parse_record ''DDT'' (serialize_record (Ddt \<lparr> ddt_title = ''t'', ddt_type = ''file'', ddt_tags = [''a''],
     ddt_holders = [\<lparr> dh_pk_virtual_node = ''pk'', dh_expires_at = ''2030'', dh_signature = ''00'', dh_pow_nonce = Some (PyInt 7) \<rparr>] \<rparr>)) =
   Inr (Ddt \<lparr> ddt_title = ''t'', ddt_type = ''file'', ddt_tags = [''a''],
     ddt_holders = [\<lparr> dh_pk_virtual_node = ''pk'', dh_expires_at = ''2030'', dh_signature = ''00'', dh_pow_nonce = Some (PyInt 7) \<rparr>] \<rparr>)"
proof (rule parse_serialize_record)
  show "py_lower ''DDT'' = payload_namespace (Ddt r)" for r by code_simp
qed (simp add: wf_holder_def)

text \<open>
  A record that the parser accepts has every required field: parsing never yields an empty
  identifier, signature or expiry, whatever the text.
\<close>

theorem parse_record_complete:
  assumes "parse_record ns s = Inr p"
  shows "py_lower ns = payload_namespace p \<and> (case p of
      Dpnt r \<Rightarrow> dpnt_pk_physical_node r \<noteq> [] \<and> dpnt_status r \<noteq> [] \<and> dpnt_signature r \<noteq> []
    | Drt r \<Rightarrow> drt_pk_virtual_node r \<noteq> [] \<and> list_all wf_route_entry (drt_route_entries r)
    | Ddt r \<Rightarrow> ddt_title r \<noteq> [] \<and> ddt_type r \<noteq> [] \<and> list_all wf_holder (ddt_holders r)
    | Dtt r \<Rightarrow> list_all wf_dtt_entry (dtt_entries r)
    | Dpt r \<Rightarrow> dpt_pk_virtual_node_owner r \<noteq> [] \<and> dpt_signature r \<noteq> [] \<and> dpt_target_ref r \<noteq> [])"
proof -
  from assms obtain d where d: "parse_record_dict ns d = Inr p"
    by (auto simp: parse_record_def split: if_splits option.splits json.splits)
  show ?thesis
    using d
    by (auto simp: parse_record_dict_def Let_def parse_dpnt_def parse_drt_def parse_ddt_def parse_dtt_def parse_dpt_def
        read_drt_route_entries_def read_ddt_holders_def read_dtt_entries_def rbind_Inr_iff read_required_string_nonempty
        split: if_splits intro: read_entries_all [OF _ read_entry_wf(1)] read_entries_all [OF _ read_entry_wf(2)]
          read_entries_all [OF _ read_entry_wf(3)])
qed

theorem parse_record_complete_witness:
  "case parse_record ''dtt'' (serialize_record (Dtt \<lparr> dtt_entries = [\<lparr> dt_resource_id = ''r'', dt_pk_virtual_node = ''p'',
      dt_created_at = ''c'', dt_expires_at = ''e'', dt_signature = ''s'', dt_pow_nonce = None \<rparr>] \<rparr>)) of
     Inl e \<Rightarrow> False | Inr p \<Rightarrow> py_lower ''dtt'' = payload_namespace p"
proof -
  let ?p = "Dtt \<lparr> dtt_entries = [\<lparr> dt_resource_id = ''r'', dt_pk_virtual_node = ''p'',
      dt_created_at = ''c'', dt_expires_at = ''e'', dt_signature = ''s'', dt_pow_nonce = None \<rparr>] \<rparr>"
  have parse: "parse_record ''dtt'' (serialize_record ?p) = Inr ?p"
    by (rule parse_record_back) (simp_all add: wf_dtt_entry_def)
  from parse_record_complete [OF this] parse show ?thesis by simp
qed

end
