(* ===== verification/Dht_Pow.thy ===== *)
theory Dht_Pow
  imports Dht_Records
begin

text \<open>
  \<^verbatim>\<open>app/dht/pow.py\<close>: proof of work over the canonical bytes of a record. The hash function is the
  parameter \<open>h\<close>, \<^verbatim>\<open>sha512(x).hexdigest()\<close> as a function from bytes to lower-case hexadecimal text;
  that it returns 128 such digits is the hypothesis \<open>hexdigest_ok h\<close>. The search for a nonce is a
  \<^verbatim>\<open>while True\<close> loop: \<^const>\<open>None\<close> stands for a search that never ends.
\<close>

section \<open>Hash text as a number\<close>

definition hexdigest_ok :: "(string \<Rightarrow> string) \<Rightarrow> bool" where
  "hexdigest_ok h \<longleftrightarrow> (\<forall>x. length (h x) = 128 \<and> (\<forall>c \<in> set (h x). hex_val c \<noteq> None))"

text \<open>\<^verbatim>\<open>int(s, 16)\<close> of a text of hexadecimal digits; other texts raise.\<close>

fun hex_nat_acc :: "nat \<Rightarrow> string \<Rightarrow> nat option" where
  "hex_nat_acc a [] = Some a"
| "hex_nat_acc a (c # s) = (case hex_val c of None \<Rightarrow> None | Some d \<Rightarrow> hex_nat_acc (16 * a + d) s)"

definition hex_nat :: "string \<Rightarrow> nat option" where
  "hex_nat s = (if s = [] then None else hex_nat_acc 0 s)"

text \<open>\<^verbatim>\<open>bin(n)[2:]\<close> and \<^verbatim>\<open>zfill\<close>.\<close>

fun bin_digits :: "nat \<Rightarrow> string" where
  "bin_digits n = (if n < 2 then [digit_char n] else bin_digits (n div 2) @ [digit_char (n mod 2)])"

declare bin_digits.simps [simp del]

definition zfill :: "nat \<Rightarrow> string \<Rightarrow> string" where
  "zfill w s = replicate (w - length s) CHR ''0'' @ s"

section \<open>Canonical bytes\<close>

datatype pow_payload =
    PowDpnt dpnt_record
  | PowRouteEntry drt_route_entry
  | PowHolder ddt_holder
  | PowDttEntry dtt_entry
  | PowDpt dpt_record

fun pow_type_name :: "pow_payload \<Rightarrow> string" where
  "pow_type_name (PowDpnt r) = ''DpntRecordPayload''"
| "pow_type_name (PowRouteEntry e) = ''DrtRouteEntryRecord''"
| "pow_type_name (PowHolder r) = ''DdtHolderRecord''"
| "pow_type_name (PowDttEntry e) = ''DttEntryRecord''"
| "pow_type_name (PowDpt r) = ''DptRecordPayload''"

fun pow_asdict :: "pow_payload \<Rightarrow> payload" where
  "pow_asdict (PowDpnt r) = dpnt_asdict r"
| "pow_asdict (PowRouteEntry e) = route_entry_asdict e"
| "pow_asdict (PowHolder r) = holder_asdict r"
| "pow_asdict (PowDttEntry e) = dtt_entry_asdict e"
| "pow_asdict (PowDpt r) = dpt_asdict r"

fun pow_dict :: "pow_payload \<Rightarrow> payload" where
  "pow_dict (PowDpnt r) = dict_set ''endpoints''
     (JList (map JObj (canonical_endpoint_list (JList (map JObj (dpnt_endpoints r))))))
     (dict_pop ''pow_nonce'' (dpnt_asdict r))"
| "pow_dict p = dict_pop ''pow_nonce'' (pow_asdict p)"

definition pow_base :: "string \<Rightarrow> string \<Rightarrow> pow_payload \<Rightarrow> payload" where
  "pow_base namespace key_hex p =
     [(''kind'', JStr (py_lower namespace @ ''_'' @ pow_type_name p @ ''_pow_v1'')),
      (''key'', JStr key_hex),
      (''payload'', JObj (pow_dict p))]"

definition payload_pow_canonical_bytes ::
  "(string \<Rightarrow> string) \<Rightarrow> string \<Rightarrow> string \<Rightarrow> pow_payload \<Rightarrow> string option \<Rightarrow> string result" where
  "payload_pow_canonical_bytes h namespace key_hex p parent_pk_virtual_node =
     (case p of
        PowRouteEntry e \<Rightarrow>
          (case parent_pk_virtual_node of
             None \<Rightarrow> Inl (ValueError ''parent_pk_virtual_node is required for DRT route entry PoW.'')
           | Some pk \<Rightarrow> if pk = []
               then Inl (ValueError ''parent_pk_virtual_node is required for DRT route entry PoW.'')
               else Inr (json_dumps (JObj (pow_base namespace key_hex p @
                      [(''pk_virtual_node_id'', JStr (h (utf8_encode pk)))]))))
      | _ \<Rightarrow> Inr (json_dumps (JObj (pow_base namespace key_hex p))))"

section \<open>Validation\<close>

record pow_details =
  pd_canonical_hash :: string
  pd_proof_hash :: "string option"
  pd_proof_hash_prefix :: "string option"
  pd_difficulty_bits :: int
  pd_nonce :: "pyint option"
  pd_is_valid :: bool

definition invalid_pow_details :: "string \<Rightarrow> int \<Rightarrow> pyint option \<Rightarrow> pow_details" where
  "invalid_pow_details canonical_hash difficulty_bits nonce =
     \<lparr> pd_canonical_hash = canonical_hash, pd_proof_hash = None, pd_proof_hash_prefix = None,
       pd_difficulty_bits = difficulty_bits, pd_nonce = nonce, pd_is_valid = False \<rparr>"

definition bits_valid :: "int \<Rightarrow> nat \<Rightarrow> bool" where
  "bits_valid difficulty_bits n \<longleftrightarrow> difficulty_bits \<le> 0 \<or>
     take (nat difficulty_bits) (zfill 512 (bin_digits n)) = replicate (nat difficulty_bits) CHR ''0''"

definition build_payload_pow_details ::
  "(string \<Rightarrow> string) \<Rightarrow> string \<Rightarrow> string \<Rightarrow> pow_payload \<Rightarrow> pyint option \<Rightarrow> int \<Rightarrow> string option
   \<Rightarrow> pow_details result" where
  "build_payload_pow_details h namespace key_hex p nonce difficulty_bits parent =
     rbind (payload_pow_canonical_bytes h namespace key_hex p parent) (\<lambda>canonical_material.
       let canonical_hash = h canonical_material in
       case nonce of
         None \<Rightarrow> Inr (invalid_pow_details canonical_hash difficulty_bits nonce)
       | Some n \<Rightarrow>
           if pyint_val n < 0 then Inr (invalid_pow_details canonical_hash difficulty_bits nonce)
           else
             let proof_hash = h (canonical_material @ ''|'' @ pyint_str n) in
             case hex_nat proof_hash of
               None \<Rightarrow> Inl (ValueError ''invalid literal for int() with base 16'')
             | Some v \<Rightarrow> Inr \<lparr> pd_canonical_hash = canonical_hash, pd_proof_hash = Some proof_hash,
                 pd_proof_hash_prefix = Some (take 16 proof_hash), pd_difficulty_bits = difficulty_bits,
                 pd_nonce = nonce, pd_is_valid = bits_valid difficulty_bits v \<rparr>)"

definition validate_payload_pow_nonce ::
  "(string \<Rightarrow> string) \<Rightarrow> string \<Rightarrow> string \<Rightarrow> pow_payload \<Rightarrow> pyint option \<Rightarrow> int \<Rightarrow> string option
   \<Rightarrow> bool result" where
  "validate_payload_pow_nonce h namespace key_hex p nonce difficulty_bits parent =
     rbind (build_payload_pow_details h namespace key_hex p nonce difficulty_bits parent) (\<lambda>d. Inr (pd_is_valid d))"

definition validate_dpnt_pow :: "(string \<Rightarrow> string) \<Rightarrow> dpnt_record \<Rightarrow> string \<Rightarrow> int \<Rightarrow> bool result" where
  "validate_dpnt_pow h r key_hex d =
     validate_payload_pow_nonce h ''dpnt'' key_hex (PowDpnt r) (dpnt_pow_nonce r) d None"

definition validate_drt_route_entry_pow ::
  "(string \<Rightarrow> string) \<Rightarrow> drt_route_entry \<Rightarrow> string \<Rightarrow> string \<Rightarrow> int \<Rightarrow> bool result" where
  "validate_drt_route_entry_pow h e key_hex pk_virtual_node d =
     validate_payload_pow_nonce h ''drt'' key_hex (PowRouteEntry e) (re_pow_nonce e) d (Some pk_virtual_node)"

definition validate_ddt_holder_pow :: "(string \<Rightarrow> string) \<Rightarrow> ddt_holder \<Rightarrow> string \<Rightarrow> int \<Rightarrow> bool result" where
  "validate_ddt_holder_pow h r key_hex d =
     validate_payload_pow_nonce h ''ddt'' key_hex (PowHolder r) (dh_pow_nonce r) d None"

definition validate_dtt_entry_pow :: "(string \<Rightarrow> string) \<Rightarrow> dtt_entry \<Rightarrow> string \<Rightarrow> int \<Rightarrow> bool result" where
  "validate_dtt_entry_pow h e key_hex d =
     validate_payload_pow_nonce h ''dtt'' key_hex (PowDttEntry e) (dt_pow_nonce e) d None"

definition validate_dpt_pow :: "(string \<Rightarrow> string) \<Rightarrow> dpt_record \<Rightarrow> string \<Rightarrow> int \<Rightarrow> bool result" where
  "validate_dpt_pow h r key_hex d =
     validate_payload_pow_nonce h ''dpt'' key_hex (PowDpt r) (dpt_pow_nonce r) d None"

definition validate_payload_pow :: "(string \<Rightarrow> string) \<Rightarrow> string \<Rightarrow> string \<Rightarrow> dht_payload \<Rightarrow> int \<Rightarrow> bool result" where
  "validate_payload_pow h namespace key_hex p d =
     (case p of
        Dpnt r \<Rightarrow> if py_lower namespace = ''dpnt'' then validate_dpnt_pow h r key_hex d else Inr False
      | Drt r \<Rightarrow> if py_lower namespace = ''drt'' then
            if drt_route_entries r = [] then Inr False
            else rall (\<lambda>e. validate_drt_route_entry_pow h e key_hex (drt_pk_virtual_node r) d) (drt_route_entries r)
          else Inr False
      | Ddt r \<Rightarrow> if py_lower namespace = ''ddt'' then
            if ddt_holders r = [] then Inr False
            else rall (\<lambda>x. validate_ddt_holder_pow h x key_hex d) (ddt_holders r)
          else Inr False
      | Dtt r \<Rightarrow> if py_lower namespace = ''dtt'' then
            if dtt_entries r = [] then Inr False
            else rall (\<lambda>x. validate_dtt_entry_pow h x key_hex d) (dtt_entries r)
          else Inr False
      | Dpt r \<Rightarrow> if py_lower namespace = ''dpt'' then validate_dpt_pow h r key_hex d else Inr False)"

text \<open>\<^verbatim>\<open>except Exception: return False\<close>.\<close>

definition validate_record_payload_pow :: "(string \<Rightarrow> string) \<Rightarrow> string \<Rightarrow> string \<Rightarrow> string \<Rightarrow> int \<Rightarrow> bool" where
  "validate_record_payload_pow h namespace key_hex record_json d =
     (case rbind (parse_record namespace record_json) (\<lambda>p. validate_payload_pow h namespace key_hex p d) of
        Inl e \<Rightarrow> False | Inr b \<Rightarrow> b)"

section \<open>The search\<close>

partial_function (option) pow_search :: "(int \<Rightarrow> bool result) \<Rightarrow> int \<Rightarrow> int result option" where
  [code]: "pow_search valid nonce = (case valid nonce of
     Inl e \<Rightarrow> Some (Inl e)
   | Inr b \<Rightarrow> if b then Some (Inr nonce) else pow_search valid (nonce + 1))"

fun set_pow_nonce :: "int \<Rightarrow> pow_payload \<Rightarrow> pow_payload" where
  "set_pow_nonce n (PowDpnt r) = PowDpnt (r \<lparr> dpnt_pow_nonce := Some (PyInt n) \<rparr>)"
| "set_pow_nonce n (PowRouteEntry e) = PowRouteEntry (e \<lparr> re_pow_nonce := Some (PyInt n) \<rparr>)"
| "set_pow_nonce n (PowHolder r) = PowHolder (r \<lparr> dh_pow_nonce := Some (PyInt n) \<rparr>)"
| "set_pow_nonce n (PowDttEntry e) = PowDttEntry (e \<lparr> dt_pow_nonce := Some (PyInt n) \<rparr>)"
| "set_pow_nonce n (PowDpt r) = PowDpt (r \<lparr> dpt_pow_nonce := Some (PyInt n) \<rparr>)"

text \<open>\<^verbatim>\<open>_with_payload_pow_nonce\<close>: the nonce that is put into the payload.\<close>

definition find_pow_nonce ::
  "(string \<Rightarrow> string) \<Rightarrow> string \<Rightarrow> string \<Rightarrow> pow_payload \<Rightarrow> int \<Rightarrow> string option \<Rightarrow> int result option" where
  "find_pow_nonce h namespace key_hex p d parent =
     (if d \<le> 0 then Some (Inr 0)
      else pow_search (\<lambda>n. validate_payload_pow_nonce h namespace key_hex p (Some (PyInt n)) d parent) 0)"

definition attach_dpnt_pow :: "(string \<Rightarrow> string) \<Rightarrow> dpnt_record \<Rightarrow> string \<Rightarrow> int \<Rightarrow> dpnt_record result option" where
  "attach_dpnt_pow h r key_hex d = obind (find_pow_nonce h ''dpnt'' key_hex (PowDpnt r) d None)
     (\<lambda>n. Some (Inr (r \<lparr> dpnt_pow_nonce := Some (PyInt n) \<rparr>)))"

definition attach_drt_route_entry_pow ::
  "(string \<Rightarrow> string) \<Rightarrow> drt_route_entry \<Rightarrow> string \<Rightarrow> string \<Rightarrow> int \<Rightarrow> drt_route_entry result option" where
  "attach_drt_route_entry_pow h e key_hex pk_virtual_node d =
     obind (find_pow_nonce h ''drt'' key_hex (PowRouteEntry e) d (Some pk_virtual_node))
       (\<lambda>n. Some (Inr (e \<lparr> re_pow_nonce := Some (PyInt n) \<rparr>)))"

definition attach_ddt_holder_pow :: "(string \<Rightarrow> string) \<Rightarrow> ddt_holder \<Rightarrow> string \<Rightarrow> int \<Rightarrow> ddt_holder result option" where
  "attach_ddt_holder_pow h r key_hex d = obind (find_pow_nonce h ''ddt'' key_hex (PowHolder r) d None)
     (\<lambda>n. Some (Inr (r \<lparr> dh_pow_nonce := Some (PyInt n) \<rparr>)))"

definition attach_dtt_entry_pow :: "(string \<Rightarrow> string) \<Rightarrow> dtt_entry \<Rightarrow> string \<Rightarrow> int \<Rightarrow> dtt_entry result option" where
  "attach_dtt_entry_pow h e key_hex d = obind (find_pow_nonce h ''dtt'' key_hex (PowDttEntry e) d None)
     (\<lambda>n. Some (Inr (e \<lparr> dt_pow_nonce := Some (PyInt n) \<rparr>)))"

definition attach_dpt_pow :: "(string \<Rightarrow> string) \<Rightarrow> dpt_record \<Rightarrow> string \<Rightarrow> int \<Rightarrow> dpt_record result option" where
  "attach_dpt_pow h r key_hex d = obind (find_pow_nonce h ''dpt'' key_hex (PowDpt r) d None)
     (\<lambda>n. Some (Inr (r \<lparr> dpt_pow_nonce := Some (PyInt n) \<rparr>)))"

definition attach_payload_pow_nonces ::
  "(string \<Rightarrow> string) \<Rightarrow> string \<Rightarrow> string \<Rightarrow> dht_payload \<Rightarrow> int \<Rightarrow> dht_payload result option" where
  "attach_payload_pow_nonces h namespace key_hex p d =
     (let unsupported = Some (Inl (ValueError (''Unsupported payload for semantic DHT PoW: '' @ namespace))) in
      case p of
        Dpnt r \<Rightarrow> if py_lower namespace = ''dpnt''
          then obind (attach_dpnt_pow h r key_hex d) (\<lambda>r'. Some (Inr (Dpnt r'))) else unsupported
      | Drt r \<Rightarrow> if py_lower namespace = ''drt''
          then obind (omap (\<lambda>e. attach_drt_route_entry_pow h e key_hex (drt_pk_virtual_node r) d) (drt_route_entries r))
            (\<lambda>es. Some (Inr (Drt (r \<lparr> drt_route_entries := es \<rparr>)))) else unsupported
      | Ddt r \<Rightarrow> if py_lower namespace = ''ddt''
          then obind (omap (\<lambda>x. attach_ddt_holder_pow h x key_hex d) (ddt_holders r))
            (\<lambda>hs. Some (Inr (Ddt (r \<lparr> ddt_holders := hs \<rparr>)))) else unsupported
      | Dtt r \<Rightarrow> if py_lower namespace = ''dtt''
          then obind (omap (\<lambda>x. attach_dtt_entry_pow h x key_hex d) (dtt_entries r))
            (\<lambda>es. Some (Inr (Dtt (r \<lparr> dtt_entries := es \<rparr>)))) else unsupported
      | Dpt r \<Rightarrow> if py_lower namespace = ''dpt''
          then obind (attach_dpt_pow h r key_hex d) (\<lambda>r'. Some (Inr (Dpt r'))) else unsupported)"

definition attach_record_payload_pow_nonces ::
  "(string \<Rightarrow> string) \<Rightarrow> string \<Rightarrow> string \<Rightarrow> string \<Rightarrow> int \<Rightarrow> string result option" where
  "attach_record_payload_pow_nonces h namespace key_hex record_json d =
     obind (Some (parse_record namespace record_json)) (\<lambda>p.
     obind (attach_payload_pow_nonces h namespace key_hex p d) (\<lambda>p'.
       Some (Inr (serialize_record p'))))"

section \<open>Leading zero bits and the size of the hash\<close>

fun bits_text :: "nat \<Rightarrow> nat \<Rightarrow> string" where
  "bits_text 0 n = []"
| "bits_text (Suc w) n = bits_text w (n div 2) @ [digit_char (n mod 2)]"

lemma digit_char_0: "digit_char 0 = CHR ''0''"
  by code_simp

lemma digit_char_bit: "n < 2 \<Longrightarrow> digit_char n = CHR ''0'' \<longleftrightarrow> n = 0"
  by (auto simp: digit_char_0 less_2_cases_iff) (use of_digit_char [of 1] in \<open>simp add: digit_char_0\<close>)

lemma length_bits_text [simp]: "length (bits_text w n) = w"
  by (induction w n rule: bits_text.induct) auto

lemma bits_text_0: "bits_text w 0 = replicate w CHR ''0''"
  by (induction w) (auto simp: digit_char_0 replicate_append_same)

lemma length_bin_digits: "n < 2 ^ w \<Longrightarrow> 0 < w \<Longrightarrow> length (bin_digits n) \<le> w"
proof (induction n arbitrary: w rule: bin_digits.induct)
  case (1 n)
  show ?case
  proof (cases "n < 2")
    case False
    with 1 obtain w' where w: "w = Suc w'" "0 < w'" by (cases w; cases "w - 1") auto
    with 1 False have "length (bin_digits (n div 2)) \<le> w'" by (intro "1.IH") auto
    with w False show ?thesis by (simp add: bin_digits.simps [of n])
  qed (use 1 in \<open>simp add: bin_digits.simps [of n]\<close>)
qed

lemma zfill_bin: "n < 2 ^ w \<Longrightarrow> 0 < w \<Longrightarrow> zfill w (bin_digits n) = bits_text w n"
proof (induction n arbitrary: w rule: bin_digits.induct)
  case (1 n)
  then obtain w' where w: "w = Suc w'" by (cases w) auto
  show ?case
  proof (cases "n < 2")
    case True
    then have "n div 2 = 0" "n mod 2 = n" by simp_all
    with True show ?thesis by (simp add: w bin_digits.simps [of n] zfill_def bits_text_0)
  next
    case False
    with 1 w have w': "0 < w'" by (cases w') auto
    have lt: "n div 2 < 2 ^ w'" using 1(2) w by auto
    with False w' "1.IH" have IH: "zfill w' (bin_digits (n div 2)) = bits_text w' (n div 2)" by blast
    have "zfill (Suc w') (bin_digits n) = zfill w' (bin_digits (n div 2)) @ [digit_char (n mod 2)]"
      using False length_bin_digits [OF lt w'] by (simp add: zfill_def bin_digits.simps [of n])
    with IH w show ?thesis by simp
  qed
qed

lemma take_bits_text: "d \<le> w \<Longrightarrow> take d (bits_text w n) = bits_text d (n div 2 ^ (w - d))"
proof (induction w arbitrary: n)
  case (Suc w)
  show ?case
  proof (cases "d = Suc w")
    case True
    then show ?thesis by (simp del: bits_text.simps)
  next
    case False
    with Suc have "d \<le> w" by simp
    with Suc.IH [OF this, of "n div 2"] show ?thesis
      by (simp add: Suc_diff_le div_mult2_eq)
  qed
qed simp

lemma bits_text_zero_iff: "n < 2 ^ d \<Longrightarrow> bits_text d n = replicate d CHR ''0'' \<longleftrightarrow> n = 0"
proof (induction d arbitrary: n)
  case (Suc d)
  have "bits_text (Suc d) n = replicate (Suc d) CHR ''0'' \<longleftrightarrow>
      bits_text d (n div 2) = replicate d CHR ''0'' \<and> digit_char (n mod 2) = CHR ''0''"
  proof -
    have "replicate (Suc d) CHR ''0'' = replicate d CHR ''0'' @ [CHR ''0'']"
      by (simp add: replicate_append_same)
    then show ?thesis by (simp only: bits_text.simps append1_eq_conv)
  qed
  also have "\<dots> \<longleftrightarrow> n div 2 = 0 \<and> n mod 2 = 0"
    using Suc by (simp add: digit_char_bit less_mult_imp_div_less mult.commute)
  also have "\<dots> \<longleftrightarrow> n = 0" by (metis div_0 mod_0 div_mult_mod_eq mult_0 add_0)
  finally show ?case .
qed simp

lemma bits_valid_iff:
  assumes "n < 2 ^ 512"
  shows "bits_valid d n \<longleftrightarrow> d \<le> 0 \<or> (d \<le> 512 \<and> n < 2 ^ (512 - nat d))"
proof (cases "d \<le> 0")
  case False
  let ?d = "nat d"
  have z: "zfill 512 (bin_digits n) = bits_text 512 n" using assms by (intro zfill_bin) auto
  show ?thesis
  proof (cases "?d \<le> 512")
    case True
    have "n div 2 ^ (512 - ?d) < 2 ^ ?d"
      using assms True by (simp add: less_mult_imp_div_less flip: power_add)
    then have "take ?d (bits_text 512 n) = replicate ?d CHR ''0'' \<longleftrightarrow> n div 2 ^ (512 - ?d) = 0"
      using True by (simp add: take_bits_text bits_text_zero_iff)
    also have "\<dots> \<longleftrightarrow> n < 2 ^ (512 - ?d)" by (simp add: div_eq_0_iff)
    finally show ?thesis using False True by (auto simp: bits_valid_def z nat_le_iff)
  next
    case far: False
    have "take ?d (bits_text 512 n) \<noteq> replicate ?d CHR ''0''"
    proof
      assume "take ?d (bits_text 512 n) = replicate ?d CHR ''0''"
      then have "length (take ?d (bits_text 512 n)) = ?d" by (simp only: length_replicate)
      with far show False by (simp only: length_take length_bits_text)
    qed
    moreover have "\<not> d \<le> 512" using far by simp
    ultimately show ?thesis using False by (simp only: bits_valid_def z simp_thms)
  qed
qed (simp add: bits_valid_def)

lemma hex_val_less: "hex_val c = Some d \<Longrightarrow> d < 16"
  by (auto simp: hex_val_def Let_def split: if_splits)

lemma hex_nat_acc_bound:
  "(\<And>c. c \<in> set s \<Longrightarrow> hex_val c \<noteq> None) \<Longrightarrow> \<exists>v. hex_nat_acc a s = Some v \<and> v < (a + 1) * 16 ^ length s"
proof (induction s arbitrary: a)
  case (Cons c s)
  then obtain d where d: "hex_val c = Some d" by force
  obtain v where v: "hex_nat_acc (16 * a + d) s = Some v" "v < (16 * a + d + 1) * 16 ^ length s"
    using Cons by (metis list.set_intros(2))
  have "(16 * a + d + 1) * 16 ^ length s \<le> (a + 1) * 16 ^ length (c # s)"
  proof -
    have "16 * a + d + 1 \<le> (a + 1) * 16" using hex_val_less [OF d] by simp
    then have "(16 * a + d + 1) * 16 ^ length s \<le> ((a + 1) * 16) * 16 ^ length s" by (rule mult_le_mono1)
    then show ?thesis by (simp only: length_Cons power_Suc ac_simps)
  qed
  with v(2) have "v < (a + 1) * 16 ^ length (c # s)" by (rule order_less_le_trans)
  moreover have "hex_nat_acc a (c # s) = Some v" using v(1) d by simp
  ultimately show ?case by blast
qed simp

definition digest_nat :: "(string \<Rightarrow> string) \<Rightarrow> string \<Rightarrow> nat" where
  "digest_nat h x = (case hex_nat (h x) of Some v \<Rightarrow> v | None \<Rightarrow> 0)"

lemma digest_nat:
  assumes "hexdigest_ok h"
  shows "hex_nat (h x) = Some (digest_nat h x)" and "digest_nat h x < 2 ^ 512"
proof -
  have x: "length (h x) = 128" "\<And>c. c \<in> set (h x) \<Longrightarrow> hex_val c \<noteq> None"
    using assms by (auto simp: hexdigest_ok_def)
  then obtain v where v: "hex_nat_acc 0 (h x) = Some v" "v < 16 ^ 128"
    using hex_nat_acc_bound [of "h x" 0] by force
  have "h x \<noteq> []" using x(1) by auto
  with v have hv: "hex_nat (h x) = Some v" by (simp add: hex_nat_def)
  then show "hex_nat (h x) = Some (digest_nat h x)" by (simp add: digest_nat_def)
  have "(16::nat) ^ 128 = 2 ^ 512" by (simp add: power_mult [symmetric, of 2 4 128, simplified])
  with v hv show "digest_nat h x < 2 ^ 512" by (simp add: digest_nat_def)
qed

lemma validate_nonce_eq:
  assumes "hexdigest_ok h" and "payload_pow_canonical_bytes h ns key p parent = Inr m" and "0 \<le> pyint_val n"
  shows "validate_payload_pow_nonce h ns key p (Some n) d parent =
    Inr (d \<le> 0 \<or> d \<le> 512 \<and> digest_nat h (m @ ''|'' @ pyint_str n) < 2 ^ (512 - nat d))"
  using assms digest_nat [OF assms(1)]
  by (simp add: validate_payload_pow_nonce_def build_payload_pow_details_def Let_def bits_valid_iff)

section \<open>The search finds the least valid nonce\<close>

lemma pow_search_found:
  "valid n = Inr True \<Longrightarrow> (\<And>k. m \<le> k \<Longrightarrow> k < n \<Longrightarrow> valid k = Inr False) \<Longrightarrow> m \<le> n \<Longrightarrow>
   pow_search valid m = Some (Inr n)"
proof (induction "nat (n - m)" arbitrary: m)
  case 0
  then show ?case by (simp add: pow_search.simps [of valid m])
next
  case (Suc k)
  then have "valid m = Inr False" "pow_search valid (m + 1) = Some (Inr n)" by auto
  then show ?case by (simp add: pow_search.simps [of valid m])
qed

lemma pow_search_sound:
  assumes "pow_search valid m = Some r"
  shows "\<exists>n. m \<le> n \<and> (\<forall>k. m \<le> k \<and> k < n \<longrightarrow> valid k = Inr False) \<and>
    (r = Inr n \<and> valid n = Inr True \<or> (\<exists>e. r = Inl e \<and> valid n = Inl e))"
  using assms
proof (induction valid m r rule: pow_search.raw_induct [rotated, consumes 1, case_names 1])
  case (1 search valid m r)
  show ?case
  proof (cases "valid m")
    case (Inl e)
    with 1(2) show ?thesis by (intro exI [of _ m]) auto
  next
    case (Inr b)
    show ?thesis
    proof (cases b)
      case True
      with 1(2) Inr show ?thesis by (intro exI [of _ m]) auto
    next
      case False
      with 1(2) Inr have "search valid (m + 1) = Some r" by simp
      from 1(1) [OF this] obtain n where n: "m + 1 \<le> n \<and> (\<forall>k. m + 1 \<le> k \<and> k < n \<longrightarrow> valid k = Inr False) \<and>
        (r = Inr n \<and> valid n = Inr True \<or> (\<exists>e. r = Inl e \<and> valid n = Inl e))" by (rule exE)
      note n = conjunct1 [OF n] conjunct1 [OF conjunct2 [OF n]] conjunct2 [OF conjunct2 [OF n]]
      have "valid k = Inr False" if "m \<le> k" "k < n" for k
      proof (cases "k = m")
        case True
        with Inr \<open>\<not> b\<close> show ?thesis by simp
      next
        case False
        with that have "m + 1 \<le> k" by simp
        with n(2) that(2) show ?thesis by (simp only: simp_thms)
      qed
      moreover have "m \<le> n" using n(1) by simp
      ultimately show ?thesis using n(3) by (intro exI [of _ n] conjI allI impI) simp_all
    qed
  qed
qed

text \<open>A search over tests that all return ends at the least success as soon as there is one.\<close>

lemma pow_search_ends:
  assumes "valid k = Inr True" and "0 \<le> k" and "\<And>i. 0 \<le> i \<Longrightarrow> \<exists>b. valid i = Inr b"
  shows "\<exists>n. pow_search valid 0 = Some (Inr n) \<and> 0 \<le> n \<and> n \<le> k \<and> valid n = Inr True \<and>
    (\<forall>j. 0 \<le> j \<and> j < n \<longrightarrow> valid j = Inr False)"
proof -
  define n where "n = (LEAST j. valid (int j) = Inr True)"
  have "valid (int (nat k)) = Inr True" using assms(1,2) by simp
  then have n: "valid (int n) = Inr True" "n \<le> nat k" unfolding n_def by (rule LeastI, rule Least_le)
  have less: "valid i = Inr False" if "0 \<le> i" "i < int n" for i
  proof -
    have "valid (int (nat i)) \<noteq> Inr True" using that not_less_Least [of "nat i" "\<lambda>j. valid (int j) = Inr True"]
      unfolding n_def by simp
    then show ?thesis using that assms(3) [of i] by auto
  qed
  then have "pow_search valid 0 = Some (Inr (int n))" using n(1) by (intro pow_search_found) auto
  with n less assms(2) show ?thesis by (intro exI [of _ "int n"]) auto
qed

section \<open>Attached nonces are valid\<close>

lemma pow_dict_nonce [simp]: "pow_dict (set_pow_nonce n p) = pow_dict p" "pow_type_name (set_pow_nonce n p) = pow_type_name p"
  by (cases p; simp add: dict_pop_def asdict_defs)+

lemma canonical_bytes_nonce [simp]:
  "payload_pow_canonical_bytes h ns key (set_pow_nonce n p) parent = payload_pow_canonical_bytes h ns key p parent"
proof -
  have "pow_base ns key (set_pow_nonce n p) = pow_base ns key p" by (simp add: pow_base_def)
  then show ?thesis by (cases p) (simp_all add: payload_pow_canonical_bytes_def split: option.split)
qed

lemma validate_set_nonce [simp]:
  "validate_payload_pow_nonce h ns key (set_pow_nonce k p) nonce d parent =
   validate_payload_pow_nonce h ns key p nonce d parent"
  by (simp add: validate_payload_pow_nonce_def build_payload_pow_details_def)

lemma find_pow_nonce_valid:
  assumes "hexdigest_ok h" and "find_pow_nonce h ns key p d parent = Some (Inr n)"
    and "payload_pow_canonical_bytes h ns key p parent = Inr m"
  shows "0 \<le> n" and "validate_payload_pow_nonce h ns key p (Some (PyInt n)) d parent = Inr True"
    and "0 < d \<Longrightarrow> 0 \<le> k \<Longrightarrow> k < n \<Longrightarrow> validate_payload_pow_nonce h ns key p (Some (PyInt k)) d parent = Inr False"
proof -
  have "0 \<le> n \<and> validate_payload_pow_nonce h ns key p (Some (PyInt n)) d parent = Inr True \<and>
    (0 < d \<longrightarrow> 0 \<le> k \<longrightarrow> k < n \<longrightarrow> validate_payload_pow_nonce h ns key p (Some (PyInt k)) d parent = Inr False)"
  proof (cases "d \<le> 0")
    case True
    with assms(2) have "n = 0" by (simp add: find_pow_nonce_def)
    with True validate_nonce_eq [OF assms(1,3), of "PyInt 0" d] show ?thesis by simp
  next
    case False
    with assms(2) pow_search_sound show ?thesis
      unfolding find_pow_nonce_def by (fastforce dest: pow_search_sound)
  qed
  then show "0 \<le> n" and "validate_payload_pow_nonce h ns key p (Some (PyInt n)) d parent = Inr True"
    and "0 < d \<Longrightarrow> 0 \<le> k \<Longrightarrow> k < n \<Longrightarrow> validate_payload_pow_nonce h ns key p (Some (PyInt k)) d parent = Inr False"
    by blast+
qed

lemma find_pow_nonce_ends:
  assumes "hexdigest_ok h" and "payload_pow_canonical_bytes h ns key p parent = Inr m"
    and "0 \<le> k" and "validate_payload_pow_nonce h ns key p (Some (PyInt k)) d parent = Inr True"
  shows "\<exists>n. find_pow_nonce h ns key p d parent = Some (Inr n) \<and> n \<le> k"
proof (cases "d \<le> 0")
  case False
  have "\<exists>b. validate_payload_pow_nonce h ns key p (Some (PyInt i)) d parent = Inr b" if "0 \<le> i" for i
    using that validate_nonce_eq [OF assms(1,2), of "PyInt i" d] by simp
  from pow_search_ends [where valid = "\<lambda>n. validate_payload_pow_nonce h ns key p (Some (PyInt n)) d parent", OF assms(4,3) this] False show ?thesis by (auto simp: find_pow_nonce_def)
qed (use assms(3) in \<open>simp add: find_pow_nonce_def\<close>)

lemma canonical_bytes_total:
  "(case p of PowRouteEntry e \<Rightarrow> parent \<noteq> None \<and> parent \<noteq> Some [] | _ \<Rightarrow> True) \<Longrightarrow>
   \<exists>m. payload_pow_canonical_bytes h ns key p parent = Inr m"
  by (auto simp: payload_pow_canonical_bytes_def split: pow_payload.splits option.splits)

lemma attach_one_valid:
  assumes "hexdigest_ok h"
  shows "attach_dpnt_pow h r key d = Some (Inr r') \<Longrightarrow> validate_dpnt_pow h r' key d = Inr True"
    and "pk \<noteq> [] \<Longrightarrow> attach_drt_route_entry_pow h e key pk d = Some (Inr e') \<Longrightarrow>
      validate_drt_route_entry_pow h e' key pk d = Inr True"
    and "attach_ddt_holder_pow h x key d = Some (Inr x') \<Longrightarrow> validate_ddt_holder_pow h x' key d = Inr True"
    and "attach_dtt_entry_pow h t key d = Some (Inr t') \<Longrightarrow> validate_dtt_entry_pow h t' key d = Inr True"
    and "attach_dpt_pow h s key d = Some (Inr s') \<Longrightarrow> validate_dpt_pow h s' key d = Inr True"
proof -
  have step: "validate_payload_pow_nonce h ns key (set_pow_nonce n p) (Some (PyInt n)) d parent = Inr True"
    if "find_pow_nonce h ns key p d parent = Some (Inr n)"
      "case p of PowRouteEntry e \<Rightarrow> parent \<noteq> None \<and> parent \<noteq> Some [] | _ \<Rightarrow> True" for ns p parent n
    using find_pow_nonce_valid(2) [OF assms that(1)] canonical_bytes_total [OF that(2)] by (metis validate_set_nonce)
  show "attach_dpnt_pow h r key d = Some (Inr r') \<Longrightarrow> validate_dpnt_pow h r' key d = Inr True"
    using step [of "''dpnt''" "PowDpnt r"] by (auto simp: attach_dpnt_pow_def validate_dpnt_pow_def obind_Inr_iff)
  show "pk \<noteq> [] \<Longrightarrow> attach_drt_route_entry_pow h e key pk d = Some (Inr e') \<Longrightarrow>
      validate_drt_route_entry_pow h e' key pk d = Inr True"
    using step [of "''drt''" "PowRouteEntry e"]
    by (auto simp: attach_drt_route_entry_pow_def validate_drt_route_entry_pow_def obind_Inr_iff)
  show "attach_ddt_holder_pow h x key d = Some (Inr x') \<Longrightarrow> validate_ddt_holder_pow h x' key d = Inr True"
    using step [of "''ddt''" "PowHolder x"]
    by (auto simp: attach_ddt_holder_pow_def validate_ddt_holder_pow_def obind_Inr_iff)
  show "attach_dtt_entry_pow h t key d = Some (Inr t') \<Longrightarrow> validate_dtt_entry_pow h t' key d = Inr True"
    using step [of "''dtt''" "PowDttEntry t"]
    by (auto simp: attach_dtt_entry_pow_def validate_dtt_entry_pow_def obind_Inr_iff)
  show "attach_dpt_pow h s key d = Some (Inr s') \<Longrightarrow> validate_dpt_pow h s' key d = Inr True"
    using step [of "''dpt''" "PowDpt s"] by (auto simp: attach_dpt_pow_def validate_dpt_pow_def obind_Inr_iff)
qed

text \<open>A record with at least one entry to carry a nonce.\<close>

fun pow_entries_nonempty :: "dht_payload \<Rightarrow> bool" where
  "pow_entries_nonempty (Drt r) \<longleftrightarrow> drt_pk_virtual_node r \<noteq> [] \<and> drt_route_entries r \<noteq> []"
| "pow_entries_nonempty (Ddt r) \<longleftrightarrow> ddt_holders r \<noteq> []"
| "pow_entries_nonempty (Dtt r) \<longleftrightarrow> dtt_entries r \<noteq> []"
| "pow_entries_nonempty p \<longleftrightarrow> True"

lemma list_all2_right: "list_all2 P xs ys \<Longrightarrow> (\<And>x y. P x y \<Longrightarrow> Q y) \<Longrightarrow> \<forall>y \<in> set ys. Q y"
  by (induction rule: list_all2_induct) auto

lemma attach_payload_valid:
  assumes "hexdigest_ok h" and "attach_payload_pow_nonces h ns key p d = Some (Inr p')" and "pow_entries_nonempty p"
  shows "validate_payload_pow h ns key p' d = Inr True"
proof (cases p)
  case (Drt r)
  with assms(2) obtain es where es: "py_lower ns = ''drt''" "p' = Drt (r \<lparr> drt_route_entries := es \<rparr>)"
    "list_all2 (\<lambda>e e'. attach_drt_route_entry_pow h e key (drt_pk_virtual_node r) d = Some (Inr e')) (drt_route_entries r) es"
    by (auto simp: attach_payload_pow_nonces_def obind_Inr_iff omap_Inr_iff split: if_splits)
  moreover have "\<forall>e' \<in> set es. validate_drt_route_entry_pow h e' key (drt_pk_virtual_node r) d = Inr True"
    using es(3) assms(3) Drt by (auto elim!: list_all2_right intro: attach_one_valid(2) [OF assms(1)])
  moreover have "es \<noteq> []" using es(3) assms(3) Drt by auto
  ultimately show ?thesis by (simp add: validate_payload_pow_def rall_True_iff)
next
  case (Ddt r)
  with assms(2) obtain es where es: "py_lower ns = ''ddt''" "p' = Ddt (r \<lparr> ddt_holders := es \<rparr>)"
    "list_all2 (\<lambda>e e'. attach_ddt_holder_pow h e key d = Some (Inr e')) (ddt_holders r) es"
    by (auto simp: attach_payload_pow_nonces_def obind_Inr_iff omap_Inr_iff split: if_splits)
  moreover have "\<forall>e' \<in> set es. validate_ddt_holder_pow h e' key d = Inr True"
    using es(3) by (auto elim!: list_all2_right intro: attach_one_valid(3) [OF assms(1)])
  moreover have "es \<noteq> []" using es(3) assms(3) Ddt by auto
  ultimately show ?thesis by (simp add: validate_payload_pow_def rall_True_iff)
next
  case (Dtt r)
  with assms(2) obtain es where es: "py_lower ns = ''dtt''" "p' = Dtt (r \<lparr> dtt_entries := es \<rparr>)"
    "list_all2 (\<lambda>e e'. attach_dtt_entry_pow h e key d = Some (Inr e')) (dtt_entries r) es"
    by (auto simp: attach_payload_pow_nonces_def obind_Inr_iff omap_Inr_iff split: if_splits)
  moreover have "\<forall>e' \<in> set es. validate_dtt_entry_pow h e' key d = Inr True"
    using es(3) by (auto elim!: list_all2_right intro: attach_one_valid(4) [OF assms(1)])
  moreover have "es \<noteq> []" using es(3) assms(3) Dtt by auto
  ultimately show ?thesis by (simp add: validate_payload_pow_def rall_True_iff)
qed (use assms in \<open>auto simp: attach_payload_pow_nonces_def validate_payload_pow_def obind_Inr_iff
      intro: attach_one_valid split: if_splits\<close>)

lemma list_all2_transfer:
  "list_all2 P xs ys \<Longrightarrow> list_all V xs \<Longrightarrow> (\<And>x y. P x y \<Longrightarrow> W y = V x) \<Longrightarrow> list_all W ys"
  by (induction rule: list_all2_induct) auto

lemma attach_payload_wf:
  assumes "attach_payload_pow_nonces h ns key p d = Some (Inr p')" and "wf_payload p"
  shows "wf_payload p' \<and> payload_namespace p' = payload_namespace p \<and> py_lower ns = payload_namespace p"
proof -
  have entry: "attach_drt_route_entry_pow h e key pk d = Some (Inr e') \<Longrightarrow> wf_route_entry e' = wf_route_entry e"
    "attach_ddt_holder_pow h x key d = Some (Inr x') \<Longrightarrow> wf_holder x' = wf_holder x"
    "attach_dtt_entry_pow h t key d = Some (Inr t') \<Longrightarrow> wf_dtt_entry t' = wf_dtt_entry t" for e e' x x' t t' pk
    by (auto simp: attach_drt_route_entry_pow_def attach_ddt_holder_pow_def attach_dtt_entry_pow_def
        obind_Inr_iff wf_route_entry_def wf_holder_def wf_dtt_entry_def)
  show ?thesis
  proof (cases p)
    case (Dpnt r)
    then show ?thesis using assms
      by (auto simp: attach_payload_pow_nonces_def attach_dpnt_pow_def obind_Inr_iff split: if_splits)
  next
    case (Dpt r)
    then show ?thesis using assms
      by (auto simp: attach_payload_pow_nonces_def attach_dpt_pow_def obind_Inr_iff split: if_splits)
  next
    case (Drt r)
    then show ?thesis using assms
      by (auto simp: attach_payload_pow_nonces_def obind_Inr_iff omap_Inr_iff split: if_splits
          elim!: list_all2_transfer dest: entry(1))
  next
    case (Ddt r)
    then show ?thesis using assms
      by (auto simp: attach_payload_pow_nonces_def obind_Inr_iff omap_Inr_iff split: if_splits
          elim!: list_all2_transfer dest: entry(2))
  next
    case (Dtt r)
    then show ?thesis using assms
      by (auto simp: attach_payload_pow_nonces_def obind_Inr_iff omap_Inr_iff split: if_splits
          elim!: list_all2_transfer dest: entry(3))
  qed
qed

section \<open>What the canonical bytes determine\<close>

lemma wf_pow_dict:
  assumes "pow_type_name p \<noteq> ''DpntRecordPayload''"
  shows "wf_json (JObj (pow_dict p))"
proof -
  have "distinct (map fst (pow_asdict p))" by (cases p) simp_all
  then have "dict_ok (dict_pop ''pow_nonce'' (pow_asdict p))" by (intro pd.ok_pop) (simp add: dict_ok_def)
  moreover have "\<forall>(k, v) \<in> set (dict_pop ''pow_nonce'' (pow_asdict p)). wf_json v"
  proof -
    have "\<forall>(k, v) \<in> set (pow_asdict p). wf_json v"
      using assms by (cases p) (auto simp: dpt_asdict_def dest: wf_members)
    then show ?thesis by (auto simp: set_dict_pop)
  qed
  moreover have "pow_dict p = dict_pop ''pow_nonce'' (pow_asdict p)" using assms by (cases p) simp_all
  ultimately show ?thesis by (simp add: wf_json_JObj dict_ok_def)
qed

lemma canonical_bytes_form:
  assumes "payload_pow_canonical_bytes h ns key p parent = Inr m"
  obtains x where "m = json_dumps (JObj (pow_base ns key p @ x))"
    and "x = [] \<or> (\<exists>v. x = [(''pk_virtual_node_id'', JStr v)])"
proof (cases p)
  case (PowRouteEntry e)
  with assms obtain v where "m = json_dumps (JObj (pow_base ns key p @ [(''pk_virtual_node_id'', JStr v)]))"
    by (auto simp: payload_pow_canonical_bytes_def split: option.splits if_splits)
  then show thesis by (rule that) blast
qed (use assms that [of "[]"] in \<open>simp_all add: payload_pow_canonical_bytes_def\<close>)

lemma wf_pow_base:
  assumes "pow_type_name p \<noteq> ''DpntRecordPayload''" and "x = [] \<or> (\<exists>v. x = [(''pk_virtual_node_id'', JStr v)])"
  shows "wf_json (JObj (pow_base ns key p @ x))" and "distinct (map fst (pow_base ns key p @ x))"
  using wf_pow_dict [OF assms(1)] assms(2) by (auto simp: pow_base_def wf_json_JObj)

lemma canonical_bytes_fields:
  assumes "payload_pow_canonical_bytes h ns key p parent = Inr m" and "pow_type_name p \<noteq> ''DpntRecordPayload''"
    and "payload_pow_canonical_bytes h ns' key' p' parent' = Inr m" and "pow_type_name p' \<noteq> ''DpntRecordPayload''"
  shows "key = key'" and "py_lower ns @ ''_'' @ pow_type_name p = py_lower ns' @ ''_'' @ pow_type_name p'"
    and "canon (JObj (pow_dict p)) = canon (JObj (pow_dict p'))"
proof -
  obtain x where x: "m = json_dumps (JObj (pow_base ns key p @ x))"
    "x = [] \<or> (\<exists>v. x = [(''pk_virtual_node_id'', JStr v)])" using canonical_bytes_form [OF assms(1)] .
  obtain y where y: "m = json_dumps (JObj (pow_base ns' key' p' @ y))"
    "y = [] \<or> (\<exists>v. y = [(''pk_virtual_node_id'', JStr v)])" using canonical_bytes_form [OF assms(3)] .
  note wx = wf_pow_base [OF assms(2) x(2), of ns key] and wy = wf_pow_base [OF assms(4) y(2), of ns' key']
  have "canon (JObj (pow_base ns key p @ x)) = canon (JObj (pow_base ns' key' p' @ y))"
    using x(1) y(1) json_dumps_eq_iff [OF wx(1) wy(1)] by metis
  note get = canon_obj_get [OF wx(2) wy(2) this]
  show "key = key'" using get [of "''key''"] by (simp add: pow_base_def dict_get_def)
  show "py_lower ns @ ''_'' @ pow_type_name p = py_lower ns' @ ''_'' @ pow_type_name p'"
    using get [of "''kind''"] by (simp add: pow_base_def dict_get_def)
  show "canon (JObj (pow_dict p)) = canon (JObj (pow_dict p'))"
    using get [of "''payload''"] by (simp add: pow_base_def dict_get_def)
qed

lemma json_of_pyint_inj [simp]: "json_of_pyint i = json_of_pyint j \<longleftrightarrow> i = j"
  by (cases i; cases j) auto

lemma pow_dict_inj:
  assumes "canon (JObj (pow_dict p)) = canon (JObj (pow_dict p'))" and "pow_type_name p = pow_type_name p'"
    and "pow_type_name p \<noteq> ''DpntRecordPayload''"
  shows "set_pow_nonce 0 p = set_pow_nonce 0 p'"
proof -
  have ne: "pow_type_name p' \<noteq> ''DpntRecordPayload''" using assms(2,3) by simp
  have d: "distinct (map fst (pow_dict p))" "distinct (map fst (pow_dict p'))"
    using wf_pow_dict [OF assms(3)] wf_pow_dict [OF ne] by (simp_all add: wf_json_JObj)
  note get = canon_obj_get [OF d assms(1)]
  have fields: "map_option canon (dict_get (dict_pop ''pow_nonce'' (pow_asdict p)) f) =
      map_option canon (dict_get (dict_pop ''pow_nonce'' (pow_asdict p')) f)" for f
    using get [of f] assms(3) ne by (cases p; cases p') auto
  have eq: "f \<noteq> ''pow_nonce'' \<Longrightarrow> map_option canon (dict_get (pow_asdict p) f) = map_option canon (dict_get (pow_asdict p') f)" for f
    using fields [of f] by simp
  show ?thesis
  proof (cases p)
    case (PowRouteEntry e)
    with assms(2) obtain e' where e': "p' = PowRouteEntry e'" by (cases p') auto
    note eq = eq [unfolded PowRouteEntry e' pow_asdict.simps]
    have "re_pk_physical_node e = re_pk_physical_node e'" "re_virtual_node_signature e = re_virtual_node_signature e'"
      "re_final_path_id e = re_final_path_id e'" "re_expires_at e = re_expires_at e'" "re_rtt e = re_rtt e'"
      "re_physical_node_signature e = re_physical_node_signature e'"
      "re_entry_point_virtual_node_signature e = re_entry_point_virtual_node_signature e'"
      "re_entry_point_physical_node_signature e = re_entry_point_physical_node_signature e'"
      "re_rtt_physical_node_signature e = re_rtt_physical_node_signature e'"
      using eq [of "''pk_physical_node''"] apply (simp add: route_entry_asdict_def dict_get_def)
      using eq [of "''virtual_node_signature''"] apply (simp add: route_entry_asdict_def dict_get_def)
      using eq [of "''final_path_id''"] apply (simp add: route_entry_asdict_def dict_get_def)
      using eq [of "''expires_at''"] apply (simp add: route_entry_asdict_def dict_get_def)
      using eq [of "''rtt''"] apply (simp add: route_entry_asdict_def dict_get_def)
      using eq [of "''physical_node_signature''"] apply (simp add: route_entry_asdict_def dict_get_def)
      using eq [of "''entry_point_virtual_node_signature''"] apply (simp add: route_entry_asdict_def dict_get_def)
      using eq [of "''entry_point_physical_node_signature''"] apply (simp add: route_entry_asdict_def dict_get_def)
      using eq [of "''rtt_physical_node_signature''"] apply (simp add: route_entry_asdict_def dict_get_def)
      done
    then show ?thesis by (simp add: PowRouteEntry e')
  next
    case (PowHolder e)
    with assms(2) obtain e' where e': "p' = PowHolder e'" by (cases p') auto
    show ?thesis
      using eq [of "''pk_virtual_node''"] eq [of "''expires_at''"] eq [of "''signature''"]
      by (simp add: PowHolder e' holder_asdict_def dict_get_def)
  next
    case (PowDttEntry e)
    with assms(2) obtain e' where e': "p' = PowDttEntry e'" by (cases p') auto
    show ?thesis
      using eq [of "''resource_id''"] eq [of "''pk_virtual_node''"] eq [of "''created_at''"] eq [of "''expires_at''"]
        eq [of "''signature''"]
      by (simp add: PowDttEntry e' dtt_entry_asdict_def dict_get_def)
  next
    case (PowDpt e)
    with assms(2) obtain e' where e': "p' = PowDpt e'" by (cases p') auto
    show ?thesis
      using eq [of "''pk_virtual_node_owner''"] eq [of "''title''"] eq [of "''type''"] eq [of "''last_modified''"]
        eq [of "''target_ref''"] eq [of "''signature''"]
      by (simp add: PowDpt e' dpt_asdict_def dict_get_def)
  qed (use assms(3) in simp)
qed

section \<open>Properties\<close>

text \<open>A hash function and a record for the concrete instances below.\<close>

definition zero_digest :: "string \<Rightarrow> string" where
  "zero_digest x = replicate 128 CHR ''0''"

lemma zero_digest_ok: "hexdigest_ok zero_digest"
proof -
  have "hex_val CHR ''0'' = Some 0" by code_simp
  then show ?thesis by (simp add: hexdigest_ok_def zero_digest_def)
qed

lemma zero_digest_nat [simp]: "digest_nat zero_digest x = 0"
proof -
  have "hex_nat (replicate 128 CHR ''0'') = Some 0" by code_simp
  then show ?thesis by (simp add: digest_nat_def zero_digest_def)
qed

definition demo_holder :: ddt_holder where
  "demo_holder = \<lparr> dh_pk_virtual_node = ''pk'', dh_expires_at = ''2030'', dh_signature = ''00'', dh_pow_nonce = None \<rparr>"

lemma demo_canonical: "payload_pow_canonical_bytes h ''ddt'' ''k'' (PowHolder demo_holder) None =
    Inr (json_dumps (JObj (pow_base ''ddt'' ''k'' (PowHolder demo_holder))))"
  by (simp add: payload_pow_canonical_bytes_def)

text \<open>
  The text test of the code (binary text of the hash, padded to 512 digits, starting with as many
  zeros as the difficulty asks) is the numeric one: a non-negative nonce is valid exactly when the
  difficulty is not positive or the hash of the canonical bytes with the nonce, as a number, is
  below \<open>2 ^ (512 - difficulty)\<close>; a difficulty above 512 is met by nothing.
\<close>

theorem pow_valid_numeric:
  assumes "hexdigest_ok h" and "payload_pow_canonical_bytes h ns key p parent = Inr m" and "0 \<le> pyint_val n"
  shows "validate_payload_pow_nonce h ns key p (Some n) d parent =
    Inr (d \<le> 0 \<or> d \<le> 512 \<and> digest_nat h (m @ ''|'' @ pyint_str n) < 2 ^ (512 - nat d))"
  by (rule validate_nonce_eq [OF assms])

theorem pow_valid_numeric_witness:
  "validate_payload_pow_nonce zero_digest ''ddt'' ''k'' (PowHolder demo_holder) (Some (PyInt 4)) 20 None = Inr True"
  using pow_valid_numeric [OF zero_digest_ok demo_canonical, of "PyInt 4" 20] zero_digest_nat by simp

text \<open>
  C29. The nonce search returns whenever some nonce is valid, and returns the least valid one: every
  smaller nonce fails the test.
\<close>

theorem pow_search_least:
  assumes "hexdigest_ok h" and "payload_pow_canonical_bytes h ns key p parent = Inr m" and "0 < d"
    and "0 \<le> k" and "validate_payload_pow_nonce h ns key p (Some (PyInt k)) d parent = Inr True"
  shows "\<exists>n. find_pow_nonce h ns key p d parent = Some (Inr n) \<and> 0 \<le> n \<and> n \<le> k \<and>
    validate_payload_pow_nonce h ns key p (Some (PyInt n)) d parent = Inr True \<and>
    (\<forall>j. 0 \<le> j \<and> j < n \<longrightarrow> validate_payload_pow_nonce h ns key p (Some (PyInt j)) d parent = Inr False)"
proof -
  obtain n where n: "find_pow_nonce h ns key p d parent = Some (Inr n)" "n \<le> k"
    using find_pow_nonce_ends [OF assms(1,2,4,5)] by blast
  note v = find_pow_nonce_valid [OF assms(1) n(1) assms(2)]
  from n v(1,2) v(3) [OF assms(3)] show ?thesis by blast
qed

theorem pow_search_least_witness:
  "\<exists>n. find_pow_nonce zero_digest ''ddt'' ''k'' (PowHolder demo_holder) 20 None = Some (Inr n) \<and> n \<le> 4"
proof -
  have "validate_payload_pow_nonce zero_digest ''ddt'' ''k'' (PowHolder demo_holder) (Some (PyInt 4)) 20 None = Inr True"
    using validate_nonce_eq [OF zero_digest_ok demo_canonical, of "PyInt 4" 20] zero_digest_nat by simp
  from pow_search_least [OF zero_digest_ok demo_canonical _ _ this] show ?thesis by auto
qed

text \<open>
  C28. Publishing and checking agree: if attaching nonces to a record text returns a text, then the
  validator accepts that text under the same namespace, key and difficulty. The record must parse
  to a well-formed payload that has at least one entry.
\<close>

theorem attach_then_validate:
  assumes "hexdigest_ok h" and "attach_record_payload_pow_nonces h ns key s d = Some (Inr s')"
    and "parse_record ns s = Inr p" and "wf_payload p" and "pow_entries_nonempty p"
  shows "validate_record_payload_pow h ns key s' d"
proof -
  obtain p' where p': "attach_payload_pow_nonces h ns key p d = Some (Inr p')" "s' = serialize_record p'"
    using assms(2,3) by (auto simp: attach_record_payload_pow_nonces_def obind_Inr_iff)
  note wf = attach_payload_wf [OF p'(1) assms(4)]
  have "parse_record ns s' = Inr p'" unfolding p'(2) using wf by (intro parse_record_back) auto
  with attach_payload_valid [OF assms(1) p'(1) assms(5)] show ?thesis by (simp add: validate_record_payload_pow_def)
qed

theorem attach_then_validate_witness:
  "\<exists>s'. attach_record_payload_pow_nonces zero_digest ''ddt'' ''k''
       (serialize_record (Ddt \<lparr> ddt_title = ''t'', ddt_type = ''f'', ddt_tags = [], ddt_holders = [demo_holder] \<rparr>)) 20 =
       Some (Inr s') \<and> validate_record_payload_pow zero_digest ''ddt'' ''k'' s' 20"
proof -
  let ?p = "Ddt \<lparr> ddt_title = ''t'', ddt_type = ''f'', ddt_tags = [], ddt_holders = [demo_holder] \<rparr>"
  have wf: "wf_payload ?p" by (simp add: wf_holder_def demo_holder_def)
  then have parse: "parse_record ''ddt'' (serialize_record ?p) = Inr ?p" by (rule parse_record_back) simp
  have "validate_payload_pow_nonce zero_digest ''ddt'' ''k'' (PowHolder demo_holder) (Some (PyInt 4)) 20 None = Inr True"
    using validate_nonce_eq [OF zero_digest_ok demo_canonical, of "PyInt 4" 20] by simp
  then obtain n where "find_pow_nonce zero_digest ''ddt'' ''k'' (PowHolder demo_holder) 20 None = Some (Inr n)"
    using find_pow_nonce_ends [OF zero_digest_ok demo_canonical, of 4 20] by auto
  then obtain s' where "attach_record_payload_pow_nonces zero_digest ''ddt'' ''k'' (serialize_record ?p) 20 = Some (Inr s')"
    using parse by (simp add: attach_record_payload_pow_nonces_def attach_payload_pow_nonces_def attach_ddt_holder_pow_def)
  with attach_then_validate [OF zero_digest_ok this parse wf] show ?thesis by auto
qed

text \<open>
  A proof of work cannot be moved: if the canonical bytes of two records of the same type (other
  than physical-node records) coincide, the records were hashed under the same key and namespace
  and agree in every field except the nonce.
\<close>

theorem pow_binds_record:
  assumes "payload_pow_canonical_bytes h ns key p parent = Inr m"
    and "payload_pow_canonical_bytes h ns' key' p' parent' = Inr m"
    and "pow_type_name p = pow_type_name p'" and "pow_type_name p \<noteq> ''DpntRecordPayload''"
  shows "key = key' \<and> py_lower ns = py_lower ns' \<and> set_pow_nonce 0 p = set_pow_nonce 0 p'"
proof -
  have ne: "pow_type_name p' \<noteq> ''DpntRecordPayload''" using assms(3,4) by simp
  note f = canonical_bytes_fields [OF assms(1,4,2) ne]
  from f(2) assms(3) have "py_lower ns = py_lower ns'" by simp
  with f(1) pow_dict_inj [OF f(3) assms(3,4)] show ?thesis by blast
qed

theorem pow_binds_record_witness:
  "set_pow_nonce 0 (PowHolder demo_holder) = set_pow_nonce 0 (PowHolder (demo_holder \<lparr> dh_pow_nonce := Some (PyInt 9) \<rparr>))"
proof -
  have low: "py_lower ''DDT'' = py_lower ''ddt''" by code_simp
  have "payload_pow_canonical_bytes zero_digest ''DDT'' ''k'' (PowHolder (demo_holder \<lparr> dh_pow_nonce := Some (PyInt 9) \<rparr>)) None =
      Inr (json_dumps (JObj (pow_base ''ddt'' ''k'' (PowHolder demo_holder))))"
    using pow_dict_nonce [of 9 "PowHolder demo_holder"]
    by (simp add: payload_pow_canonical_bytes_def pow_base_def low)
  from pow_binds_record [OF demo_canonical this] show ?thesis by simp
qed

end
