(* ===== verification/Dht_Merge.thy ===== *)
theory Dht_Merge
  imports Dht_Pow
begin

text \<open>
  \<^verbatim>\<open>app/dht/merge.py\<close>: validation of the entries of a received record (expiry, signatures, proof of
  work, key) and their merge into the stored record. What the code takes from outside is the
  record \<open>merge_env\<close>: the hash, \<^verbatim>\<open>dilithium_verify_hex\<close> (\<^const>\<open>None\<close> when it raises),
  \<^verbatim>\<open>datetime.fromisoformat\<close> (\<^const>\<open>None\<close> on \<^verbatim>\<open>ValueError\<close>) and \<^verbatim>\<open>isoformat\<close> of the current time.
  \<open>clk i\<close> is the reading of the clock at the check of entry \<open>i\<close>, counted over the parent's
  entries and then the fragment's; the last reading stamps the result.
\<close>

section \<open>Environment and time stamps\<close>

text \<open>A \<^verbatim>\<open>datetime\<close> with a time zone, as its instant, or without one, as its wall-clock value.\<close>

datatype py_datetime = Aware int | Naive int

record merge_env =
  me_hash :: "string \<Rightarrow> string"
  me_verify :: "string \<Rightarrow> string \<Rightarrow> string \<Rightarrow> bool option"
  me_fromiso :: "string \<Rightarrow> py_datetime option"
  me_isofmt :: "time_us \<Rightarrow> string"

text \<open>Ordering a \<^verbatim>\<open>datetime\<close> with a time zone against one without raises \<^verbatim>\<open>TypeError\<close>.\<close>

fun dt_le :: "py_datetime \<Rightarrow> py_datetime \<Rightarrow> bool result" where
  "dt_le (Aware a) (Aware b) = Inr (a \<le> b)"
| "dt_le (Naive a) (Naive b) = Inr (a \<le> b)"
| "dt_le _ _ = Inl TypeError"

fun dt_gt :: "py_datetime \<Rightarrow> py_datetime \<Rightarrow> bool result" where
  "dt_gt (Aware a) (Aware b) = Inr (b < a)"
| "dt_gt (Naive a) (Naive b) = Inr (b < a)"
| "dt_gt _ _ = Inl TypeError"

definition replace_z :: "string \<Rightarrow> string" where
  "replace_z s = concat (map (\<lambda>c. if c = CHR ''Z'' then ''+00:00'' else [c]) s)"

definition parse_datetime :: "merge_env \<Rightarrow> string \<Rightarrow> py_datetime option" where
  "parse_datetime env v = me_fromiso env (replace_z v)"

definition is_expired :: "merge_env \<Rightarrow> time_us \<Rightarrow> string \<Rightarrow> bool result" where
  "is_expired env now v = (case parse_datetime env v of
     None \<Rightarrow> Inr True | Some t \<Rightarrow> dt_le t (Aware now))"

definition is_fragment_newer :: "merge_env \<Rightarrow> string \<Rightarrow> string \<Rightarrow> bool result" where
  "is_fragment_newer env parent_timestamp fragment_timestamp =
     (case parse_datetime env fragment_timestamp of
        None \<Rightarrow> Inr False
      | Some f \<Rightarrow> (case parse_datetime env parent_timestamp of
          None \<Rightarrow> Inr True
        | Some p \<Rightarrow> dt_gt f p))"

section \<open>Keys and types\<close>

fun payload_type_name :: "dht_payload \<Rightarrow> string" where
  "payload_type_name (Dpnt r) = ''DpntRecordPayload''"
| "payload_type_name (Drt r) = ''DrtRecordPayload''"
| "payload_type_name (Ddt r) = ''DdtRecordPayload''"
| "payload_type_name (Dtt r) = ''DttRecordPayload''"
| "payload_type_name (Dpt r) = ''DptRecordPayload''"

definition wrong_type :: "dht_payload \<Rightarrow> string \<Rightarrow> string \<Rightarrow> py_error" where
  "wrong_type p expected namespace = ValueError (''Payload invalido para namespace '' @ quoted namespace @ ''. '' @
     ''Esperado: '' @ expected @ ''. '' @ ''Recebido: '' @ payload_type_name p @ ''.'')"

definition ensure_payload_type :: "dht_payload \<Rightarrow> string \<Rightarrow> string \<Rightarrow> unit result" where
  "ensure_payload_type p expected namespace =
     (if payload_type_name p = expected then Inr () else Inl (wrong_type p expected namespace))"

definition node_id :: "merge_env \<Rightarrow> string \<Rightarrow> string" where
  "node_id env pk = me_hash env (utf8_encode pk)"

definition ensure_drt_key_matches_virtual_node :: "merge_env \<Rightarrow> string \<Rightarrow> string \<Rightarrow> unit result" where
  "ensure_drt_key_matches_virtual_node env key pk_virtual_node =
     (if key = me_hash env (utf8_encode (''drt|'' @ node_id env pk_virtual_node)) then Inr ()
      else Inl (ValueError ''The DRT key does not match the provided virtual_node_id.''))"

definition ensure_dpnt_key_matches_physical_node :: "merge_env \<Rightarrow> string \<Rightarrow> string \<Rightarrow> unit result" where
  "ensure_dpnt_key_matches_physical_node env key pk_physical_node =
     (if key = me_hash env (utf8_encode (''dpnt|'' @ node_id env pk_physical_node)) then Inr ()
      else Inl (ValueError ''The DPNT key does not match the node_id derived from pk_physical_node.''))"

definition ensure_dpt_key_matches_owner_and_title :: "merge_env \<Rightarrow> string \<Rightarrow> string \<Rightarrow> string \<Rightarrow> unit result" where
  "ensure_dpt_key_matches_owner_and_title env key pk_virtual_node_owner title =
     (if key = me_hash env (utf8_encode (''dpt|'' @ node_id env pk_virtual_node_owner @ ''|'' @ title)) then Inr ()
      else Inl (ValueError ''The DPT key does not match the provided virtual node owner id and title.''))"

definition ensure_ddt_metadata_matches :: "ddt_record \<Rightarrow> ddt_record \<Rightarrow> unit result" where
  "ensure_ddt_metadata_matches parent fragment =
     (if ddt_title parent \<noteq> ddt_title fragment
        then Inl (ValueError ''Cannot merge DDT fragments with different titles.'')
      else if ddt_type parent \<noteq> ddt_type fragment
        then Inl (ValueError ''Cannot merge DDT fragments with different types.'')
      else if ddt_tags parent \<noteq> ddt_tags fragment
        then Inl (ValueError ''Cannot merge DDT fragments with different tags.'')
      else Inr ())"

section \<open>Validity of entries\<close>

definition entry_point_virtual_payload :: "merge_env \<Rightarrow> drt_route_entry \<Rightarrow> payload" where
  "entry_point_virtual_payload env e =
     [(''final_path_id'', JStr (re_final_path_id e)),
      (''final_physical_node_id'', JStr (node_id env (re_pk_physical_node e)))]"

definition entry_point_physical_payload :: "merge_env \<Rightarrow> string \<Rightarrow> drt_route_entry \<Rightarrow> payload" where
  "entry_point_physical_payload env pk_virtual_node e =
     [(''virtual_node_id'', JStr (node_id env pk_virtual_node)),
      (''final_path_id'', JStr (re_final_path_id e)),
      (''virtual_node_signature'', JStr (re_virtual_node_signature e))]"

definition rtt_payload :: "drt_route_entry \<Rightarrow> payload" where
  "rtt_payload e =
     [(''pk_physical_node'', JStr (re_pk_physical_node e)),
      (''expires_at'', JStr (re_expires_at e)),
      (''rtt'', json_of_pyint (re_rtt e))]"

text \<open>The \<^verbatim>\<open>try\<close> block: any exception of a verification makes the entry invalid.\<close>

definition route_entry_signatures_ok :: "merge_env \<Rightarrow> drt_route_entry \<Rightarrow> string \<Rightarrow> bool" where
  "route_entry_signatures_ok env e pk_virtual_node =
     (let verify = me_verify env;
          evp = canonical_payload_hex (entry_point_virtual_payload env e);
          epp = canonical_payload_hex (entry_point_physical_payload env pk_virtual_node e)
      in case verify evp (re_virtual_node_signature e) pk_virtual_node of None \<Rightarrow> False
       | Some virtual_signature_valid \<Rightarrow>
     (case verify evp (re_entry_point_virtual_node_signature e) pk_virtual_node of None \<Rightarrow> False
       | Some entry_point_virtual_signature_valid \<Rightarrow>
     (case verify epp (re_physical_node_signature e) (re_pk_physical_node e) of None \<Rightarrow> False
       | Some physical_signature_valid \<Rightarrow>
     (case verify epp (re_entry_point_physical_node_signature e) (re_pk_physical_node e) of None \<Rightarrow> False
       | Some entry_point_physical_signature_valid \<Rightarrow>
     (case verify (canonical_payload_hex (rtt_payload e)) (re_rtt_physical_node_signature e) (re_pk_physical_node e) of
         None \<Rightarrow> False
       | Some rtt_signature_valid \<Rightarrow>
           virtual_signature_valid \<and> entry_point_virtual_signature_valid \<and>
           re_entry_point_virtual_node_signature e = re_virtual_node_signature e \<and>
           physical_signature_valid \<and> entry_point_physical_signature_valid \<and> rtt_signature_valid)))))"

definition is_valid_drt_route_entry ::
  "merge_env \<Rightarrow> time_us \<Rightarrow> drt_route_entry \<Rightarrow> string \<Rightarrow> string \<Rightarrow> int \<Rightarrow> bool result" where
  "is_valid_drt_route_entry env now e pk_virtual_node key d =
     rbind (is_expired env now (re_expires_at e)) (\<lambda>expired.
       if expired then Inr False
       else if re_virtual_node_signature e = [] \<or> re_entry_point_virtual_node_signature e = [] \<or>
         re_entry_point_physical_node_signature e = [] \<or> re_physical_node_signature e = [] \<or>
         re_rtt_physical_node_signature e = [] then Inr False
       else rbind (build_payload_pow_details (me_hash env) ''drt'' key (PowRouteEntry e) (re_pow_nonce e) d
              (Some pk_virtual_node)) (\<lambda>det.
         if \<not> pd_is_valid det then Inr False else Inr (route_entry_signatures_ok env e pk_virtual_node)))"

text \<open>\<^verbatim>\<open>try: return dilithium_verify_hex(...) except Exception: return False\<close>.\<close>

definition verify_or_false :: "merge_env \<Rightarrow> payload \<Rightarrow> string \<Rightarrow> string \<Rightarrow> bool" where
  "verify_or_false env signed_payload sig pk =
     (case me_verify env (canonical_payload_hex signed_payload) sig pk of None \<Rightarrow> False | Some b \<Rightarrow> b)"

definition dpnt_signed_payload :: "string \<Rightarrow> dpnt_record \<Rightarrow> payload" where
  "dpnt_signed_payload key r =
     (let endpoints = canonical_endpoint_list (JList (map JObj (dpnt_endpoints r))) in
      [(''key'', JStr key),
       (''pk_physical_node'', JStr (dpnt_pk_physical_node r)),
       (''endpoints'', JList (map JObj endpoints)),
       (''transport_methods'', JList (map JStr
          (sort (remdups (List.map_filter (\<lambda>e. as_str (jget e ''transport'')) endpoints))))),
       (''reachability_class'', JStr (dpnt_reachability_class r)),
       (''relay_capable'', JBool (dpnt_relay_capable r)),
       (''hole_punch_capable'', JBool (dpnt_hole_punch_capable r)),
       (''protocol_version'', JStr (dpnt_protocol_version r)),
       (''feature_flags'', JList (map JStr (dpnt_feature_flags r))),
       (''status'', JStr (dpnt_status r))])"

definition is_valid_dpnt_fragment :: "merge_env \<Rightarrow> string \<Rightarrow> dpnt_record \<Rightarrow> int \<Rightarrow> bool result" where
  "is_valid_dpnt_fragment env key r d =
     rbind (build_payload_pow_details (me_hash env) ''dpnt'' key (PowDpnt r) (dpnt_pow_nonce r) d None) (\<lambda>det.
       if \<not> pd_is_valid det then Inr False
       else Inr (verify_or_false env (dpnt_signed_payload key r) (dpnt_signature r) (dpnt_pk_physical_node r)))"

definition dpt_signed_payload :: "string \<Rightarrow> dpt_record \<Rightarrow> payload" where
  "dpt_signed_payload key r =
     [(''key'', JStr key),
      (''pk_virtual_node_owner'', JStr (dpt_pk_virtual_node_owner r)),
      (''title'', JStr (dpt_title r)),
      (''type'', JStr (dpt_type r)),
      (''last_modified'', JStr (dpt_last_modified r)),
      (''target_ref'', JStr (dpt_target_ref r))]"

definition is_valid_dpt_fragment :: "merge_env \<Rightarrow> string \<Rightarrow> dpt_record \<Rightarrow> int \<Rightarrow> bool result" where
  "is_valid_dpt_fragment env key r d =
     rbind (build_payload_pow_details (me_hash env) ''dpt'' key (PowDpt r) (dpt_pow_nonce r) d None) (\<lambda>det.
       if \<not> pd_is_valid det then Inr False
       else Inr (verify_or_false env (dpt_signed_payload key r) (dpt_signature r) (dpt_pk_virtual_node_owner r)))"

definition dtt_signed_payload :: "string \<Rightarrow> dtt_entry \<Rightarrow> payload" where
  "dtt_signed_payload key e =
     [(''key'', JStr key),
      (''resource_id'', JStr (dt_resource_id e)),
      (''pk_virtual_node'', JStr (dt_pk_virtual_node e)),
      (''created_at'', JStr (dt_created_at e)),
      (''expires_at'', JStr (dt_expires_at e))]"

definition is_valid_dtt_entry :: "merge_env \<Rightarrow> time_us \<Rightarrow> string \<Rightarrow> dtt_entry \<Rightarrow> int \<Rightarrow> bool result" where
  "is_valid_dtt_entry env now key e d =
     rbind (is_expired env now (dt_expires_at e)) (\<lambda>expired.
       if expired then Inr False
       else rbind (build_payload_pow_details (me_hash env) ''dtt'' key (PowDttEntry e) (dt_pow_nonce e) d None) (\<lambda>det.
         if \<not> pd_is_valid det then Inr False
         else Inr (verify_or_false env (dtt_signed_payload key e) (dt_signature e) (dt_pk_virtual_node e))))"

definition ddt_signed_payload :: "string \<Rightarrow> ddt_holder \<Rightarrow> payload" where
  "ddt_signed_payload key x =
     [(''key'', JStr key),
      (''pk_virtual_node'', JStr (dh_pk_virtual_node x)),
      (''expires_at'', JStr (dh_expires_at x))]"

definition is_valid_ddt_holder :: "merge_env \<Rightarrow> time_us \<Rightarrow> string \<Rightarrow> ddt_holder \<Rightarrow> int \<Rightarrow> bool result" where
  "is_valid_ddt_holder env now key x d =
     rbind (is_expired env now (dh_expires_at x)) (\<lambda>expired.
       if expired then Inr False
       else rbind (build_payload_pow_details (me_hash env) ''ddt'' key (PowHolder x) (dh_pow_nonce x) d None) (\<lambda>det.
         if \<not> pd_is_valid det then Inr False
         else Inr (verify_or_false env (ddt_signed_payload key x) (dh_signature x) (dh_pk_virtual_node x))))"

section \<open>Deduplication\<close>

definition is_better_drt_route_entry :: "merge_env \<Rightarrow> drt_route_entry \<Rightarrow> drt_route_entry \<Rightarrow> bool result" where
  "is_better_drt_route_entry env candidate current =
     (let rest = Inr (if pyint_val (re_rtt candidate) \<noteq> pyint_val (re_rtt current)
            then pyint_val (re_rtt candidate) < pyint_val (re_rtt current)
            else re_pk_physical_node candidate < re_pk_physical_node current)
      in case (parse_datetime env (re_expires_at candidate), parse_datetime env (re_expires_at current)) of
           (Some a, Some b) \<Rightarrow> if a \<noteq> b then dt_gt a b else rest
         | _ \<Rightarrow> rest)"

text \<open>
  The loop over the entries: a dictionary keeps, per key, the entry seen first unless a later one
  is better. The test may raise.
\<close>

fun keep_best ::
  "('e \<Rightarrow> 'k) \<Rightarrow> ('e \<Rightarrow> 'e \<Rightarrow> bool result) \<Rightarrow> 'e list \<Rightarrow> ('k, 'e) dict \<Rightarrow> ('k, 'e) dict result" where
  "keep_best key better [] d = Inr d"
| "keep_best key better (e # es) d =
     (case dict_get d (key e) of
        None \<Rightarrow> keep_best key better es (dict_set (key e) e d)
      | Some current \<Rightarrow> rbind (better e current) (\<lambda>b.
          keep_best key better es (if b then dict_set (key e) e d else d)))"

definition route_entry_sort_key ::
  "drt_route_entry \<Rightarrow> string \<times> string \<times> string \<times> int \<times> string \<times> string \<times> string \<times> string \<times> string" where
  "route_entry_sort_key e =
     (re_final_path_id e, re_pk_physical_node e, re_expires_at e, pyint_val (re_rtt e),
      re_physical_node_signature e, re_virtual_node_signature e, re_entry_point_virtual_node_signature e,
      re_entry_point_physical_node_signature e, re_rtt_physical_node_signature e)"

definition deduplicate_drt_route_entries :: "merge_env \<Rightarrow> drt_route_entry list \<Rightarrow> drt_route_entry list result" where
  "deduplicate_drt_route_entries env es =
     rbind (keep_best re_final_path_id (is_better_drt_route_entry env) es []) (\<lambda>d.
       Inr (py_sorted route_entry_sort_key (dict_values d)))"

text \<open>
  A dictionary whose keys are records: two records are the same key when all their fields are
  equal, where \<^verbatim>\<open>True == 1\<close>; the first record stays as the key.
\<close>

definition keep_first :: "('e \<Rightarrow> 'k) \<Rightarrow> 'e list \<Rightarrow> 'e list" where
  "keep_first key es = dict_values (fold (\<lambda>e. dict_setdefault (key e) e) es [])"

definition holder_key :: "ddt_holder \<Rightarrow> string \<times> string \<times> string \<times> int option" where
  "holder_key x = (dh_pk_virtual_node x, dh_expires_at x, dh_signature x, map_option pyint_val (dh_pow_nonce x))"

definition deduplicate_exact_ddt_holders :: "ddt_holder list \<Rightarrow> ddt_holder list" where
  "deduplicate_exact_ddt_holders hs =
     py_sorted (\<lambda>x. (dh_pk_virtual_node x, dh_expires_at x, dh_signature x)) (keep_first holder_key hs)"

definition dtt_entry_key :: "dtt_entry \<Rightarrow> string \<times> string \<times> string \<times> string \<times> string \<times> int option" where
  "dtt_entry_key e = (dt_resource_id e, dt_pk_virtual_node e, dt_created_at e, dt_expires_at e, dt_signature e,
     map_option pyint_val (dt_pow_nonce e))"

definition deduplicate_exact_dtt_entries :: "dtt_entry list \<Rightarrow> dtt_entry list" where
  "deduplicate_exact_dtt_entries es =
     py_sorted (\<lambda>e. (dt_resource_id e, dt_pk_virtual_node e, dt_created_at e, dt_expires_at e, dt_signature e))
       (keep_first dtt_entry_key es)"

section \<open>Merges\<close>

text \<open>The list comprehensions: each entry is checked at its own reading of the clock.\<close>

definition filter_at :: "(time_us \<Rightarrow> 'e \<Rightarrow> bool result) \<Rightarrow> (nat \<Rightarrow> time_us) \<Rightarrow> nat \<Rightarrow> 'e list \<Rightarrow> 'e list result" where
  "filter_at valid clk k es =
     rbind (rfilter (\<lambda>(i, e). valid (clk i) e) (List.enumerate k es)) (\<lambda>ies. Inr (map snd ies))"

definition validate_and_merge_dpnt_fragment ::
  "merge_env \<Rightarrow> string \<Rightarrow> dht_payload \<Rightarrow> dht_payload \<Rightarrow> int \<Rightarrow> dht_payload result" where
  "validate_and_merge_dpnt_fragment env key parent fragment d =
     rbind (ensure_payload_type parent ''DpntRecordPayload'' ''dpnt'') (\<lambda>_.
     case fragment of
       Dpnt f \<Rightarrow>
         rbind (ensure_dpnt_key_matches_physical_node env key (dpnt_pk_physical_node f)) (\<lambda>_.
         rbind (is_valid_dpnt_fragment env key f d) (\<lambda>valid.
           if \<not> valid then Inl (ValueError ''O fragmento DPNT possui assinatura invalida.'')
           else Inr (Dpnt f)))
     | _ \<Rightarrow> Inl (wrong_type fragment ''DpntRecordPayload'' ''dpnt''))"

definition validate_and_merge_drt_fragment ::
  "merge_env \<Rightarrow> (nat \<Rightarrow> time_us) \<Rightarrow> string \<Rightarrow> dht_payload \<Rightarrow> dht_payload \<Rightarrow> int \<Rightarrow> dht_payload result" where
  "validate_and_merge_drt_fragment env clk key parent fragment d =
     (case parent of Drt p \<Rightarrow> (case fragment of Drt f \<Rightarrow>
        rbind (ensure_drt_key_matches_virtual_node env key (drt_pk_virtual_node p)) (\<lambda>_.
        if drt_pk_virtual_node p \<noteq> drt_pk_virtual_node f
        then Inl (ValueError ''Cannot merge DRT fragments from different virtual nodes.'')
        else
        rbind (filter_at (\<lambda>now e. is_valid_drt_route_entry env now e (drt_pk_virtual_node p) key d) clk 0
                 (drt_route_entries p)) (\<lambda>valid_parent_entries.
        rbind (filter_at (\<lambda>now e. is_valid_drt_route_entry env now e (drt_pk_virtual_node f) key d) clk
                 (length (drt_route_entries p)) (drt_route_entries f)) (\<lambda>valid_fragment_entries.
        if drt_route_entries f \<noteq> [] \<and> valid_fragment_entries = []
        then Inl (ValueError ''The DRT fragment has no valid route entries.'')
        else
        rbind (deduplicate_drt_route_entries env (valid_parent_entries @ valid_fragment_entries)) (\<lambda>merged.
          Inr (Drt (p \<lparr> drt_route_entries := merged,
            drt_last_update := me_isofmt env (clk (length (drt_route_entries p) + length (drt_route_entries f))) \<rparr>))))))
      | _ \<Rightarrow> Inl (wrong_type fragment ''DrtRecordPayload'' ''drt''))
      | _ \<Rightarrow> Inl (wrong_type parent ''DrtRecordPayload'' ''drt''))"

definition validate_and_merge_ddt_fragment ::
  "merge_env \<Rightarrow> (nat \<Rightarrow> time_us) \<Rightarrow> string \<Rightarrow> dht_payload \<Rightarrow> dht_payload \<Rightarrow> int \<Rightarrow> dht_payload result" where
  "validate_and_merge_ddt_fragment env clk key parent fragment d =
     (case parent of Ddt p \<Rightarrow> (case fragment of Ddt f \<Rightarrow>
        rbind (ensure_ddt_metadata_matches p f) (\<lambda>_.
        rbind (filter_at (\<lambda>now x. is_valid_ddt_holder env now key x d) clk 0 (ddt_holders f)) (\<lambda>valid_fragment_holders.
        if ddt_holders f \<noteq> [] \<and> valid_fragment_holders = []
        then Inl (ValueError ''The DDT fragment has no valid holders.'')
        else Inr (Ddt (p \<lparr> ddt_holders := deduplicate_exact_ddt_holders (ddt_holders p @ valid_fragment_holders) \<rparr>))))
      | _ \<Rightarrow> Inl (wrong_type fragment ''DdtRecordPayload'' ''ddt''))
      | _ \<Rightarrow> Inl (wrong_type parent ''DdtRecordPayload'' ''ddt''))"

definition validate_and_merge_dtt_fragment ::
  "merge_env \<Rightarrow> (nat \<Rightarrow> time_us) \<Rightarrow> string \<Rightarrow> dht_payload \<Rightarrow> dht_payload \<Rightarrow> int \<Rightarrow> dht_payload result" where
  "validate_and_merge_dtt_fragment env clk key parent fragment d =
     (case parent of Dtt p \<Rightarrow> (case fragment of Dtt f \<Rightarrow>
        rbind (filter_at (\<lambda>now e. is_valid_dtt_entry env now key e d) clk 0 (dtt_entries f)) (\<lambda>valid_fragment_entries.
        if dtt_entries f \<noteq> [] \<and> valid_fragment_entries = []
        then Inl (ValueError ''The DTT fragment has no valid entries.'')
        else Inr (Dtt (p \<lparr> dtt_entries := deduplicate_exact_dtt_entries (dtt_entries p @ valid_fragment_entries) \<rparr>)))
      | _ \<Rightarrow> Inl (wrong_type fragment ''DttRecordPayload'' ''dtt''))
      | _ \<Rightarrow> Inl (wrong_type parent ''DttRecordPayload'' ''dtt''))"

definition validate_and_merge_dpt_fragment ::
  "merge_env \<Rightarrow> string \<Rightarrow> dht_payload \<Rightarrow> dht_payload \<Rightarrow> int \<Rightarrow> dht_payload result" where
  "validate_and_merge_dpt_fragment env key parent fragment d =
     (case parent of Dpt p \<Rightarrow> (case fragment of Dpt f \<Rightarrow>
        rbind (ensure_dpt_key_matches_owner_and_title env key (dpt_pk_virtual_node_owner f) (dpt_title f)) (\<lambda>_.
        rbind (is_valid_dpt_fragment env key f d) (\<lambda>valid.
        if \<not> valid then Inl (ValueError ''O fragmento DPT possui assinatura invalida.'')
        else rbind (is_fragment_newer env (dpt_last_modified p) (dpt_last_modified f)) (\<lambda>newer.
          if \<not> newer then Inr (Dpt p) else Inr (Dpt f))))
      | _ \<Rightarrow> Inl (wrong_type fragment ''DptRecordPayload'' ''dpt''))
      | _ \<Rightarrow> Inl (wrong_type parent ''DptRecordPayload'' ''dpt''))"

definition validate_and_merge ::
  "merge_env \<Rightarrow> (nat \<Rightarrow> time_us) \<Rightarrow> string \<Rightarrow> string \<Rightarrow> dht_payload \<Rightarrow> dht_payload \<Rightarrow> int \<Rightarrow> dht_payload result" where
  "validate_and_merge env clk namespace key parent fragment d =
     (let ns = py_lower namespace in
      if ns = ''dpnt'' then validate_and_merge_dpnt_fragment env key parent fragment d
      else if ns = ''drt'' then validate_and_merge_drt_fragment env clk key parent fragment d
      else if ns = ''ddt'' then validate_and_merge_ddt_fragment env clk key parent fragment d
      else if ns = ''dtt'' then validate_and_merge_dtt_fragment env clk key parent fragment d
      else if ns = ''dpt'' then validate_and_merge_dpt_fragment env key parent fragment d
      else Inl (ValueError (''Unsupported DHT namespace for merge: '' @ namespace)))"

section \<open>The contract of keeping the best entry per key\<close>

locale best_per_key =
  fixes key :: "'e \<Rightarrow> 'k"
    and better :: "'e \<Rightarrow> 'e \<Rightarrow> bool result"
    and rank :: "'e \<Rightarrow> 'r::linorder"
    and comparable :: "'e \<Rightarrow> bool"
  assumes better_rank: "comparable a \<Longrightarrow> comparable b \<Longrightarrow> better a b = Inr (rank a < rank b)"
begin

definition holds_best :: "'e list \<Rightarrow> ('k, 'e) dict \<Rightarrow> bool" where
  "holds_best es d \<longleftrightarrow> dict_ok d \<and> (\<forall>e \<in> set es. dict_get d (key e) \<noteq> None) \<and>
     (\<forall>k e. dict_get d k = Some e \<longrightarrow> e \<in> set es \<and> key e = k \<and> (\<forall>e' \<in> set es. key e' = k \<longrightarrow> rank e \<le> rank e'))"

lemma holds_best_add:
  assumes "holds_best es d" and "dict_get d (key e) = None \<or> (\<exists>c. dict_get d (key e) = Some c \<and> rank e < rank c)"
  shows "holds_best (es @ [e]) (dict_set (key e) e d)"
proof -
  have least: "rank e \<le> rank e'" if "e' \<in> set es" "key e' = key e" for e'
  proof -
    from assms(1) that obtain c where c: "dict_get d (key e) = Some c" unfolding holds_best_def by fastforce
    with assms(1) that have "rank c \<le> rank e'" unfolding holds_best_def by blast
    moreover have "rank e < rank c" using assms(2) c by auto
    ultimately show ?thesis by simp
  qed
  have old: "x \<in> set es \<and> key x = k \<and> (\<forall>e' \<in> set es. key e' = k \<longrightarrow> rank x \<le> rank e')"
    if "dict_get d k = Some x" for k x
    using assms(1) that unfolding holds_best_def by blast
  show ?thesis
    unfolding holds_best_def
  proof (intro conjI)
    show "dict_ok (dict_set (key e) e d)" using assms(1) by (simp add: holds_best_def)
    show "\<forall>x \<in> set (es @ [e]). dict_get (dict_set (key e) e d) (key x) \<noteq> None"
      using assms(1) by (simp add: holds_best_def)
    show "\<forall>k x. dict_get (dict_set (key e) e d) k = Some x \<longrightarrow> x \<in> set (es @ [e]) \<and> key x = k \<and>
        (\<forall>e' \<in> set (es @ [e]). key e' = k \<longrightarrow> rank x \<le> rank e')"
      using old least by (auto split: if_splits)
  qed
qed

lemma holds_best_skip:
  assumes "holds_best es d" and "dict_get d (key e) = Some c" and "\<not> rank e < rank c"
  shows "holds_best (es @ [e]) d"
proof -
  have old: "x \<in> set es \<and> key x = k \<and> (\<forall>e' \<in> set es. key e' = k \<longrightarrow> rank x \<le> rank e')"
    if "dict_get d k = Some x" for k x
    using assms(1) that unfolding holds_best_def by blast
  have "x \<in> set (es @ [e]) \<and> key x = k \<and> (\<forall>e' \<in> set (es @ [e]). key e' = k \<longrightarrow> rank x \<le> rank e')"
    if "dict_get d k = Some x" for k x
    using old [OF that] that assms(2,3) by auto
  moreover have "\<forall>x \<in> set (es @ [e]). dict_get d (key x) \<noteq> None" "dict_ok d"
    using assms(1,2) by (simp_all add: holds_best_def)
  ultimately show ?thesis unfolding holds_best_def by blast
qed

lemma keep_best_ok:
  assumes "holds_best es0 d" and "\<And>e. e \<in> set (es0 @ es) \<Longrightarrow> comparable e"
  shows "\<exists>d'. keep_best key better es d = Inr d' \<and> holds_best (es0 @ es) d'"
  using assms
proof (induction es arbitrary: es0 d)
  case (Cons e es)
  show ?case
  proof (cases "dict_get d (key e)")
    case None
    then have "holds_best (es0 @ [e]) (dict_set (key e) e d)" using Cons.prems(1) by (blast intro: holds_best_add)
    from Cons.IH [OF this] Cons.prems(2) None show ?thesis by simp
  next
    case (Some c)
    then have c: "c \<in> set es0" using Cons.prems(1) by (simp add: holds_best_def)
    then have "better e c = Inr (rank e < rank c)" using Cons.prems(2) by (intro better_rank) auto
    moreover have "holds_best (es0 @ [e]) (if rank e < rank c then dict_set (key e) e d else d)"
      using holds_best_add [OF Cons.prems(1)] holds_best_skip [OF Cons.prems(1) Some] Some by auto
    ultimately show ?thesis using Cons.IH [of "es0 @ [e]"] Cons.prems(2) Some by simp
  qed
qed simp

lemma keep_best_all:
  assumes "\<And>e. e \<in> set es \<Longrightarrow> comparable e"
  obtains d where "keep_best key better es [] = Inr d" and "holds_best es d"
proof -
  have "holds_best [] []" by (simp add: holds_best_def)
  from keep_best_ok [OF this, of es] assms that show thesis by auto
qed

lemma holds_best_values:
  assumes "holds_best es d"
  shows "distinct (map key (dict_values d))" and "set (dict_values d) \<subseteq> set es"
    and "e \<in> set es \<Longrightarrow> \<exists>x \<in> set (dict_values d). key x = key e \<and> rank x \<le> rank e"
proof -
  have ok: "dict_ok d" using assms by (simp add: holds_best_def)
  have ent: "x \<in> set es \<and> key x = k \<and> (\<forall>e' \<in> set es. key e' = k \<longrightarrow> rank x \<le> rank e')" if "(k, x) \<in> set d" for k x
    using assms that dict_get_iff [OF ok, of k x] unfolding holds_best_def by blast
  then have keys: "map key (dict_values d) = dict_keys d" by (auto simp: case_prod_beta)
  show "distinct (map key (dict_values d))" unfolding keys using ok by (simp add: dict_ok_def)
  show "set (dict_values d) \<subseteq> set es" using ent by auto
  assume e: "e \<in> set es"
  then obtain x where "dict_get d (key e) = Some x" using assms unfolding holds_best_def by blast
  then have "(key e, x) \<in> set d" by (rule dict_get_Some_in)
  with ent e show "\<exists>x \<in> set (dict_values d). key x = key e \<and> rank x \<le> rank e" by force
qed

end

text \<open>Route entries whose expiry parses to an instant are compared by expiry, latency and node key.\<close>

definition route_comparable :: "merge_env \<Rightarrow> drt_route_entry \<Rightarrow> bool" where
  "route_comparable env e \<longleftrightarrow> (\<exists>t. parse_datetime env (re_expires_at e) = Some (Aware t))"

definition route_rank :: "merge_env \<Rightarrow> drt_route_entry \<Rightarrow> int \<times> int \<times> string" where
  "route_rank env e = ((case parse_datetime env (re_expires_at e) of Some (Aware t) \<Rightarrow> - t | _ \<Rightarrow> 0),
     pyint_val (re_rtt e), re_pk_physical_node e)"

interpretation rt: best_per_key re_final_path_id "is_better_drt_route_entry env" "route_rank env"
  "route_comparable env" for env
  by unfold_locales
    (auto simp: route_comparable_def route_rank_def is_better_drt_route_entry_def Let_def less_prod_def')

section \<open>Lemmas on the parts\<close>

lemma set_filter_at:
  assumes "filter_at valid clk k es = Inr vs"
  shows "set vs = {es ! j |j. j < length es \<and> valid (clk (k + j)) (es ! j) = Inr True}"
proof -
  from assms obtain ies where ies: "rfilter (\<lambda>(i, e). valid (clk i) e) (List.enumerate k es) = Inr ies"
    "vs = map snd ies" by (auto simp: filter_at_def rbind_Inr_iff)
  have mem: "(i, e) \<in> set ies \<longleftrightarrow> k \<le> i \<and> i < length es + k \<and> es ! (i - k) = e \<and> valid (clk i) e = Inr True" for i e
    unfolding rfilter_Inr_filter [OF ies(1)] by (auto simp: in_set_enumerate_eq)
  show ?thesis
  proof (intro set_eqI iffI)
    fix e assume "e \<in> set vs"
    then obtain i where "(i, e) \<in> set ies" using ies(2) by auto
    with mem [of i e] show "e \<in> {es ! j |j. j < length es \<and> valid (clk (k + j)) (es ! j) = Inr True}"
      by (auto intro!: exI [of _ "i - k"])
  next
    fix e assume "e \<in> {es ! j |j. j < length es \<and> valid (clk (k + j)) (es ! j) = Inr True}"
    then obtain j where "e = es ! j" "j < length es" "valid (clk (k + j)) (es ! j) = Inr True" by blast
    then have "(k + j, e) \<in> set ies" using mem [of "k + j" e] by simp
    then show "e \<in> set vs" using ies(2) by force
  qed
qed

lemma filter_at_raises:
  assumes "e \<in> set es" and "\<And>now. \<exists>err. valid now e = Inl err"
  shows "\<exists>err. filter_at valid clk k es = Inl err"
proof -
  obtain j where j: "j < length es" "es ! j = e" using assms(1) by (auto simp: in_set_conv_nth)
  then have "(k + j, e) \<in> set (List.enumerate k es)" by (simp add: in_set_enumerate_eq)
  then have "\<exists>err. rfilter (\<lambda>(i, e). valid (clk i) e) (List.enumerate k es) = Inl err"
    using assms(2) [of "clk (k + j)"] unfolding rfilter_Inl_iff by force
  then show ?thesis by (auto simp: filter_at_def)
qed

lemma get_fold_setdefault:
  "dict_get (fold (\<lambda>e. dict_setdefault (key e) e) es d) k =
     (case dict_get d k of Some x \<Rightarrow> Some x | None \<Rightarrow> List.find (\<lambda>e. key e = k) es)"
  by (induction es arbitrary: d) (auto split: option.splits)

lemma keep_first_props:
  "distinct (map key (keep_first key es)) \<and> key ` set (keep_first key es) = key ` set es \<and>
   set (keep_first key es) \<subseteq> set es"
proof -
  let ?d = "fold (\<lambda>e. dict_setdefault (key e) e) es []"
  have get: "dict_get ?d k = List.find (\<lambda>e. key e = k) es" for k
    by (simp add: get_fold_setdefault)
  have ok: "dict_ok ?d"
    by (rule fold_invariant [where Q = "\<lambda>_. True" and P = dict_ok]) simp_all
  have ent: "key x = k \<and> x \<in> set es" if "(k, x) \<in> set ?d" for k x
    using that unfolding dict_get_iff [OF ok, symmetric] get by (auto simp: find_Some_iff)
  then have keys: "map key (dict_values ?d) = dict_keys ?d" by (auto simp: case_prod_beta)
  have "k \<in> set (dict_keys ?d) \<longleftrightarrow> k \<in> key ` set es" for k
    using dict_get_None_iff [of ?d k] by (auto simp: get find_None_iff)
  then have "key ` set (dict_values ?d) = key ` set es"
    using arg_cong [OF keys, of set] by (simp add: set_eq_iff image_image)
  moreover have "distinct (map key (dict_values ?d))" unfolding keys using ok by (simp add: dict_ok_def)
  moreover have "set (dict_values ?d) \<subseteq> set es" using ent by auto
  ultimately show ?thesis by (simp add: keep_first_def)
qed

lemma valid_route_comparable:
  assumes "is_valid_drt_route_entry env now e pk key d = Inr True"
  shows "route_comparable env e"
proof -
  have "is_expired env now (re_expires_at e) = Inr False"
    using assms by (auto simp: is_valid_drt_route_entry_def rbind_Inr_iff split: if_splits)
  then show ?thesis
    by (cases "parse_datetime env (re_expires_at e)")
      (auto simp: is_expired_def route_comparable_def elim!: dt_le.elims)
qed

lemma naive_expiry_raises_entry:
  assumes "parse_datetime env (re_expires_at e) = Some (Naive t)"
  shows "is_valid_drt_route_entry env now e pk key d = Inl TypeError"
  using assms by (simp add: is_valid_drt_route_entry_def is_expired_def)

lemma drt_merge_success:
  assumes "validate_and_merge_drt_fragment env clk key (Drt p) (Drt f) d = Inr r"
  obtains vp vf m where
    "key = me_hash env (utf8_encode (''drt|'' @ node_id env (drt_pk_virtual_node p)))"
    "drt_pk_virtual_node p = drt_pk_virtual_node f"
    "filter_at (\<lambda>now e. is_valid_drt_route_entry env now e (drt_pk_virtual_node p) key d) clk 0 (drt_route_entries p) = Inr vp"
    "filter_at (\<lambda>now e. is_valid_drt_route_entry env now e (drt_pk_virtual_node p) key d) clk
       (length (drt_route_entries p)) (drt_route_entries f) = Inr vf"
    "\<not> (drt_route_entries f \<noteq> [] \<and> vf = [])"
    "deduplicate_drt_route_entries env (vp @ vf) = Inr m"
    "r = Drt (p \<lparr> drt_route_entries := m,
       drt_last_update := me_isofmt env (clk (length (drt_route_entries p) + length (drt_route_entries f))) \<rparr>)"
  using assms
  by (auto simp: validate_and_merge_drt_fragment_def rbind_Inr_iff ensure_drt_key_matches_virtual_node_def
      split: if_splits)

lemma deduplicate_drt_ok:
  assumes "\<And>e. e \<in> set es \<Longrightarrow> route_comparable env e"
  obtains m where "deduplicate_drt_route_entries env es = Inr m" and "set m \<subseteq> set es"
    and "distinct (map re_final_path_id m)" and "sorted (map route_entry_sort_key m)"
    and "\<And>e. e \<in> set es \<Longrightarrow> \<exists>x \<in> set m. re_final_path_id x = re_final_path_id e \<and> route_rank env x \<le> route_rank env e"
proof -
  from rt.keep_best_all [of es env] assms obtain d where
    d: "keep_best re_final_path_id (is_better_drt_route_entry env) es [] = Inr d" "rt.holds_best env es d" by blast
  note v = rt.holds_best_values [OF d(2)]
  show thesis
  proof (rule that)
    show "deduplicate_drt_route_entries env es = Inr (sort_key route_entry_sort_key (dict_values d))"
      by (simp add: deduplicate_drt_route_entries_def d(1))
    show "set (sort_key route_entry_sort_key (dict_values d)) \<subseteq> set es" using v(2) by (simp only: set_sort)
    show "distinct (map re_final_path_id (sort_key route_entry_sort_key (dict_values d)))"
      by (rule distinct_sort_key_map [OF v(1)])
    show "sorted (map route_entry_sort_key (sort_key route_entry_sort_key (dict_values d)))" by simp
    show "\<exists>x \<in> set (sort_key route_entry_sort_key (dict_values d)).
        re_final_path_id x = re_final_path_id e \<and> route_rank env x \<le> route_rank env e" if "e \<in> set es" for e
      using v(3) [OF that] by (simp only: set_sort)
  qed
qed

section \<open>Properties\<close>

text \<open>An environment in which every signature verifies, for the concrete instances below.\<close>

definition demo_env :: merge_env where
  "demo_env = \<lparr> me_hash = zero_digest, me_verify = (\<lambda>m s k. Some True),
     me_fromiso = (\<lambda>s. if s = ''2030'' then Some (Aware 1000) else if s = ''2031'' then Some (Aware 2000) else None),
     me_isofmt = (\<lambda>t. ''now'') \<rparr>"

definition demo_route :: "string \<Rightarrow> string \<Rightarrow> drt_route_entry" where
  "demo_route path expires = \<lparr> re_pk_physical_node = ''n'', re_virtual_node_signature = ''v'', re_final_path_id = path,
     re_entry_point_virtual_node_signature = ''v'', re_entry_point_physical_node_signature = ''x'',
     re_physical_node_signature = ''y'', re_expires_at = expires, re_rtt = PyInt 5,
     re_rtt_physical_node_signature = ''z'', re_pow_nonce = Some (PyInt 0) \<rparr>"

definition demo_drt :: "drt_route_entry list \<Rightarrow> dht_payload" where
  "demo_drt es = Drt \<lparr> drt_pk_virtual_node = ''v'', drt_route_entries = es, drt_last_update = ''t'' \<rparr>"

definition demo_key :: string where
  "demo_key = replicate 128 CHR ''0''"

definition demo_page :: dpt_record where
  "demo_page = \<lparr> dpt_pk_virtual_node_owner = ''o'', dpt_title = ''t'', dpt_type = ''page'', dpt_last_modified = ''2030'',
     dpt_target_ref = ''r'', dpt_signature = ''s'', dpt_pow_nonce = Some (PyInt 0) \<rparr>"

definition demo_node :: dpnt_record where
  "demo_node = \<lparr> dpnt_pk_physical_node = ''n'', dpnt_endpoints = [], dpnt_transport_methods = [],
     dpnt_reachability_class = ''public'', dpnt_relay_capable = False, dpnt_hole_punch_capable = False,
     dpnt_protocol_version = ''1'', dpnt_feature_flags = [], dpnt_last_validated_at = ''2030'', dpnt_status = ''active'',
     dpnt_signature = ''s'', dpnt_pow_nonce = Some (PyInt 0) \<rparr>"

lemma demo_verify: "verify_or_false demo_env p sig k" "me_hash demo_env = zero_digest"
  by (simp_all add: verify_or_false_def demo_env_def)

lemma demo_pow:
  "payload_pow_canonical_bytes zero_digest ns key p parent = Inr m \<Longrightarrow> 0 \<le> pyint_val n \<Longrightarrow>
   rbind (build_payload_pow_details zero_digest ns key p (Some n) 0 parent) (\<lambda>det. f (pd_is_valid det)) = f True"
  using digest_nat(1) [OF zero_digest_ok] by (simp add: build_payload_pow_details_def Let_def bits_valid_def)

lemma demo_route_valid:
  "is_valid_drt_route_entry demo_env now (demo_route path ''2030'') ''v'' key 0 = Inr (now < 1000)"
  "is_valid_drt_route_entry demo_env now (demo_route path ''2031'') ''v'' key 0 = Inr (now < 2000)"
proof -
  have z: "replace_z ''2030'' = ''2030''" "replace_z ''2031'' = ''2031''" by code_simp+
  have m: "\<exists>m. payload_pow_canonical_bytes zero_digest ''drt'' key (PowRouteEntry (demo_route path e)) (Some ''v'') = Inr m" for e
    by (simp add: payload_pow_canonical_bytes_def)
  have p: "rbind (build_payload_pow_details zero_digest ''drt'' key (PowRouteEntry (demo_route path e)) (Some (PyInt 0)) 0 (Some ''v''))
      (\<lambda>det. if \<not> pd_is_valid det then Inr False else Inr b) = Inr b" for e b
    using m [of e] demo_pow [where f = "\<lambda>v. if \<not> v then Inr False else Inr b"] by fastforce
  show "is_valid_drt_route_entry demo_env now (demo_route path ''2030'') ''v'' key 0 = Inr (now < 1000)"
    "is_valid_drt_route_entry demo_env now (demo_route path ''2031'') ''v'' key 0 = Inr (now < 2000)"
    using p z by (auto simp: is_valid_drt_route_entry_def is_expired_def parse_datetime_def demo_env_def
        demo_route_def route_entry_signatures_ok_def Let_def)
qed

text \<open>
  C26. A successful merge of route records keeps the virtual node, and every entry of the result was
  checked (not expired at its reading of the clock, five signatures, proof of work) and comes from
  one of the two records; there is one entry per final path, in the canonical order.
\<close>

theorem drt_merge_sound:
  assumes "validate_and_merge_drt_fragment env clk key (Drt p) (Drt f) d = Inr r"
  shows "\<exists>m. r = Drt m \<and> drt_pk_virtual_node m = drt_pk_virtual_node p \<and>
    key = me_hash env (utf8_encode (''drt|'' @ node_id env (drt_pk_virtual_node m))) \<and>
    (\<forall>e \<in> set (drt_route_entries m). e \<in> set (drt_route_entries p) \<union> set (drt_route_entries f) \<and>
       (\<exists>i. is_valid_drt_route_entry env (clk i) e (drt_pk_virtual_node m) key d = Inr True)) \<and>
    distinct (map re_final_path_id (drt_route_entries m)) \<and>
    sorted (map route_entry_sort_key (drt_route_entries m))"
proof -
  from drt_merge_success [OF assms] obtain vp vf m where
    1: "key = me_hash env (utf8_encode (''drt|'' @ node_id env (drt_pk_virtual_node p)))"
    and 2: "filter_at (\<lambda>now e. is_valid_drt_route_entry env now e (drt_pk_virtual_node p) key d) clk 0 (drt_route_entries p) = Inr vp"
    "filter_at (\<lambda>now e. is_valid_drt_route_entry env now e (drt_pk_virtual_node p) key d) clk
       (length (drt_route_entries p)) (drt_route_entries f) = Inr vf"
    and 3: "deduplicate_drt_route_entries env (vp @ vf) = Inr m"
    and r: "r = Drt (p \<lparr> drt_route_entries := m,
       drt_last_update := me_isofmt env (clk (length (drt_route_entries p) + length (drt_route_entries f))) \<rparr>)" .
  have v: "e \<in> set (drt_route_entries p) \<union> set (drt_route_entries f) \<and>
      (\<exists>i. is_valid_drt_route_entry env (clk i) e (drt_pk_virtual_node p) key d = Inr True)" if "e \<in> set (vp @ vf)" for e
    using that by (auto simp: set_filter_at [OF 2(1)] set_filter_at [OF 2(2)])
  then have "\<And>e. e \<in> set (vp @ vf) \<Longrightarrow> route_comparable env e" using valid_route_comparable by blast
  from deduplicate_drt_ok [OF this] 3 have "set m \<subseteq> set (vp @ vf)" "distinct (map re_final_path_id m)"
    "sorted (map route_entry_sort_key m)" by (metis sum.inject(2))+
  with v 1 r show ?thesis by auto
qed

theorem drt_merge_sound_witness:
  "\<exists>m. validate_and_merge_drt_fragment demo_env (\<lambda>i. 7) demo_key (demo_drt []) (demo_drt [demo_route ''p'' ''2030'']) 0 =
     Inr (Drt m) \<and> distinct (map re_final_path_id (drt_route_entries m))"
proof -
  have "\<exists>r. validate_and_merge_drt_fragment demo_env (\<lambda>i. 7) demo_key (demo_drt []) (demo_drt [demo_route ''p'' ''2030'']) 0 = Inr r"
    by (simp add: validate_and_merge_drt_fragment_def demo_drt_def ensure_drt_key_matches_virtual_node_def
        filter_at_def demo_route_valid deduplicate_drt_route_entries_def) (simp add: demo_env_def demo_key_def zero_digest_def)
  then obtain r where "validate_and_merge_drt_fragment demo_env (\<lambda>i. 7) demo_key (demo_drt [])
      (demo_drt [demo_route ''p'' ''2030'']) 0 = Inr r" by blast
  with drt_merge_sound [OF this [unfolded demo_drt_def]] show ?thesis by auto
qed

text \<open>
  C25. The merge of route records keeps the best entry of every path: for each entry of either record
  that passes its checks, the result has an entry for the same final path that expires no earlier,
  and on equal expiry has no larger latency, and then no larger node key.
\<close>

theorem drt_merge_keeps_best:
  assumes "validate_and_merge_drt_fragment env clk key (Drt p) (Drt f) d = Inr (Drt m)"
    and "j < length (drt_route_entries p @ drt_route_entries f)"
    and "e = (drt_route_entries p @ drt_route_entries f) ! j"
    and "is_valid_drt_route_entry env (clk j) e (drt_pk_virtual_node p) key d = Inr True"
  shows "\<exists>x \<in> set (drt_route_entries m). re_final_path_id x = re_final_path_id e \<and> route_rank env x \<le> route_rank env e"
proof -
  let ?v = "\<lambda>now e. is_valid_drt_route_entry env now e (drt_pk_virtual_node p) key d"
  from drt_merge_success [OF assms(1)] obtain vp vf es where
    2: "filter_at ?v clk 0 (drt_route_entries p) = Inr vp"
       "filter_at ?v clk (length (drt_route_entries p)) (drt_route_entries f) = Inr vf"
    and 3: "deduplicate_drt_route_entries env (vp @ vf) = Inr es"
    and m: "Drt m = Drt (p \<lparr> drt_route_entries := es,
       drt_last_update := me_isofmt env (clk (length (drt_route_entries p) + length (drt_route_entries f))) \<rparr>)" .
  have "\<And>e. e \<in> set (vp @ vf) \<Longrightarrow> route_comparable env e"
    using valid_route_comparable by (auto simp: set_filter_at [OF 2(1)] set_filter_at [OF 2(2)])
  from deduplicate_drt_ok [OF this] 3 have best: "\<And>e. e \<in> set (vp @ vf) \<Longrightarrow>
      \<exists>x \<in> set es. re_final_path_id x = re_final_path_id e \<and> route_rank env x \<le> route_rank env e"
    by (metis sum.inject(2))
  have "e \<in> set (vp @ vf)"
  proof (cases "j < length (drt_route_entries p)")
    case True
    with assms(3,4) have "e \<in> set vp" unfolding set_filter_at [OF 2(1)] by (auto simp: nth_append)
    then show ?thesis by simp
  next
    case False
    with assms(2,3,4) have "e \<in> set vf"
      unfolding set_filter_at [OF 2(2)] by (auto simp: nth_append intro!: exI [of _ "j - length (drt_route_entries p)"])
    then show ?thesis by simp
  qed
  from best [OF this] m show ?thesis by simp
qed

theorem drt_merge_keeps_best_witness:
  "\<exists>m. validate_and_merge_drt_fragment demo_env (\<lambda>i. 7) demo_key (demo_drt [demo_route ''p'' ''2030'']) (demo_drt [demo_route ''p'' ''2031'']) 0 =
     Inr (Drt m) \<and> (\<exists>x \<in> set (drt_route_entries m). route_rank demo_env x \<le> route_rank demo_env (demo_route ''p'' ''2031''))"
proof -
  have z: "parse_datetime demo_env ''2030'' = Some (Aware 1000)" "parse_datetime demo_env ''2031'' = Some (Aware 2000)"
    by code_simp+
  have "\<exists>m. validate_and_merge_drt_fragment demo_env (\<lambda>i. 7) demo_key (demo_drt [demo_route ''p'' ''2030''])
      (demo_drt [demo_route ''p'' ''2031'']) 0 = Inr (Drt m)"
    by (simp add: validate_and_merge_drt_fragment_def demo_drt_def ensure_drt_key_matches_virtual_node_def
        filter_at_def demo_route_valid deduplicate_drt_route_entries_def is_better_drt_route_entry_def)
      (simp add: demo_route_def z, simp add: demo_env_def demo_key_def zero_digest_def)
  then obtain m where m: "validate_and_merge_drt_fragment demo_env (\<lambda>i. 7) demo_key (demo_drt [demo_route ''p'' ''2030''])
      (demo_drt [demo_route ''p'' ''2031'']) 0 = Inr (Drt m)" by blast
  from drt_merge_keeps_best [OF m [unfolded demo_drt_def], of 1 "demo_route ''p'' ''2031''"] m
  show ?thesis by (auto simp: demo_route_valid)
qed

text \<open>
  One route entry with an expiry that carries no time zone, in the stored record or in the
  received one, makes the whole merge fail, whatever the other entries are: the comparison of a
  naive time stamp with the aware current time raises instead of rejecting the entry.
\<close>

theorem drt_naive_expiry_aborts:
  assumes "e \<in> set (drt_route_entries p) \<union> set (drt_route_entries f)"
    and "parse_datetime env (re_expires_at e) = Some (Naive t)"
  shows "\<exists>err. validate_and_merge_drt_fragment env clk key (Drt p) (Drt f) d = Inl err"
proof -
  have raises: "\<exists>err. filter_at (\<lambda>now e. is_valid_drt_route_entry env now e pk key d) clk k es = Inl err"
    if "e \<in> set es" for pk k es
    using naive_expiry_raises_entry [OF assms(2)] by (intro filter_at_raises [OF that]) blast
  show ?thesis
  proof (rule ccontr)
    assume "\<not> ?thesis"
    then obtain r where "validate_and_merge_drt_fragment env clk key (Drt p) (Drt f) d = Inr r"
      by (cases "validate_and_merge_drt_fragment env clk key (Drt p) (Drt f) d") auto
    from drt_merge_success [OF this] show False using raises assms(1) by (metis Inl_Inr_False UnE)
  qed
qed

theorem drt_naive_expiry_aborts_witness:
  "\<exists>err. validate_and_merge_drt_fragment (demo_env \<lparr> me_fromiso := \<lambda>s. Some (Naive 5) \<rparr>) (\<lambda>i. 7) demo_key
     (Drt \<lparr> drt_pk_virtual_node = ''v'', drt_route_entries = [demo_route ''p'' ''2030''], drt_last_update = ''t'' \<rparr>)
     (Drt \<lparr> drt_pk_virtual_node = ''v'', drt_route_entries = [], drt_last_update = ''t'' \<rparr>) 0 = Inl err"
  by (rule drt_naive_expiry_aborts [where e = "demo_route ''p'' ''2030''"]) (simp_all add: parse_datetime_def)

text \<open>
  A successful merge of content-holder records is a union: the holders of the result are, up to
  equality of records, exactly the stored ones and the received ones that pass their checks (not
  expired, proof of work, signature by the holder's own key), each once and in the canonical
  order; title, type and tags are the stored ones and agree with the received ones.
\<close>

theorem ddt_merge_union:
  assumes "validate_and_merge_ddt_fragment env clk key (Ddt p) (Ddt f) d = Inr r"
  shows "\<exists>m. r = Ddt m \<and> ddt_title m = ddt_title f \<and> ddt_type m = ddt_type f \<and> ddt_tags m = ddt_tags f \<and>
    holder_key ` set (ddt_holders m) = holder_key ` (set (ddt_holders p) \<union>
      {ddt_holders f ! j |j. j < length (ddt_holders f) \<and>
         is_valid_ddt_holder env (clk j) key (ddt_holders f ! j) d = Inr True}) \<and>
    distinct (map holder_key (ddt_holders m)) \<and>
    sorted (map (\<lambda>x. (dh_pk_virtual_node x, dh_expires_at x, dh_signature x)) (ddt_holders m))"
proof -
  from assms obtain vf where
    vf: "filter_at (\<lambda>now x. is_valid_ddt_holder env now key x d) clk 0 (ddt_holders f) = Inr vf"
    and r: "r = Ddt (p \<lparr> ddt_holders := deduplicate_exact_ddt_holders (ddt_holders p @ vf) \<rparr>)"
    and meta: "ddt_title p = ddt_title f" "ddt_type p = ddt_type f" "ddt_tags p = ddt_tags f"
    by (auto simp: validate_and_merge_ddt_fragment_def rbind_Inr_iff ensure_ddt_metadata_matches_def split: if_splits)
  let ?hs = "keep_first holder_key (ddt_holders p @ vf)"
  note kf = keep_first_props [of holder_key "ddt_holders p @ vf"]
  have "holder_key ` set (deduplicate_exact_ddt_holders (ddt_holders p @ vf)) = holder_key ` (set (ddt_holders p) \<union> set vf)"
    using kf by (simp add: deduplicate_exact_ddt_holders_def)
  moreover have "distinct (map holder_key (deduplicate_exact_ddt_holders (ddt_holders p @ vf)))"
    unfolding deduplicate_exact_ddt_holders_def using kf by (blast intro: distinct_sort_key_map)
  moreover have "sorted (map (\<lambda>x. (dh_pk_virtual_node x, dh_expires_at x, dh_signature x))
      (deduplicate_exact_ddt_holders (ddt_holders p @ vf)))"
    by (simp add: deduplicate_exact_ddt_holders_def)
  ultimately show ?thesis using r meta set_filter_at [OF vf] by simp
qed

theorem ddt_merge_union_witness:
  "\<exists>m. validate_and_merge_ddt_fragment demo_env (\<lambda>i. 7) ''k''
     (Ddt \<lparr> ddt_title = ''t'', ddt_type = ''f'', ddt_tags = [], ddt_holders = [] \<rparr>)
     (Ddt \<lparr> ddt_title = ''t'', ddt_type = ''f'', ddt_tags = [], ddt_holders = [demo_holder \<lparr> dh_pow_nonce := Some (PyInt 0) \<rparr>] \<rparr>) 0 =
       Inr (Ddt m) \<and> distinct (map holder_key (ddt_holders m)) \<and> ddt_holders m \<noteq> []"
proof -
  let ?x = "demo_holder \<lparr> dh_pow_nonce := Some (PyInt 0) \<rparr>"
  let ?p = "\<lparr> ddt_title = ''t'', ddt_type = ''f'', ddt_tags = [], ddt_holders = [] \<rparr> :: ddt_record"
  let ?f = "\<lparr> ddt_title = ''t'', ddt_type = ''f'', ddt_tags = [], ddt_holders = [?x] \<rparr> :: ddt_record"
  have z: "parse_datetime demo_env ''2030'' = Some (Aware 1000)" by code_simp
  have "\<exists>m. payload_pow_canonical_bytes zero_digest ''ddt'' ''k'' (PowHolder ?x) None = Inr m"
    by (simp add: payload_pow_canonical_bytes_def)
  then have "rbind (build_payload_pow_details zero_digest ''ddt'' ''k'' (PowHolder ?x) (Some (PyInt 0)) 0 None)
      (\<lambda>det. if \<not> pd_is_valid det then Inr False else Inr b) = Inr b" for b
    using demo_pow [where f = "\<lambda>v. if \<not> v then Inr False else Inr b"] by fastforce
  then have v: "is_valid_ddt_holder demo_env 7 ''k'' ?x 0 = Inr True"
    using z demo_verify by (simp add: is_valid_ddt_holder_def is_expired_def demo_holder_def)
  then obtain r where r: "validate_and_merge_ddt_fragment demo_env (\<lambda>i. 7) ''k'' (Ddt ?p) (Ddt ?f) 0 = Inr r"
    by (simp add: validate_and_merge_ddt_fragment_def ensure_ddt_metadata_matches_def filter_at_def)
  from ddt_merge_union [OF r] obtain m where m: "r = Ddt m" "distinct (map holder_key (ddt_holders m))"
    "holder_key ` set (ddt_holders m) = holder_key ` (set (ddt_holders ?p) \<union>
      {ddt_holders ?f ! j |j. j < length (ddt_holders ?f) \<and> is_valid_ddt_holder demo_env 7 ''k'' (ddt_holders ?f ! j) 0 = Inr True})"
    by blast
  from m(3) v have "ddt_holders m \<noteq> []" by auto
  with r m(1,2) show ?thesis by blast
qed

text \<open>
  The same for tag records: the entries of the result are exactly the stored ones and the
  received ones that pass their checks, each once and in the canonical order.
\<close>

theorem dtt_merge_union:
  assumes "validate_and_merge_dtt_fragment env clk key (Dtt p) (Dtt f) d = Inr r"
  shows "\<exists>m. r = Dtt m \<and>
    dtt_entry_key ` set (dtt_entries m) = dtt_entry_key ` (set (dtt_entries p) \<union>
      {dtt_entries f ! j |j. j < length (dtt_entries f) \<and>
         is_valid_dtt_entry env (clk j) key (dtt_entries f ! j) d = Inr True}) \<and>
    distinct (map dtt_entry_key (dtt_entries m))"
proof -
  from assms obtain vf where
    vf: "filter_at (\<lambda>now e. is_valid_dtt_entry env now key e d) clk 0 (dtt_entries f) = Inr vf"
    and r: "r = Dtt (p \<lparr> dtt_entries := deduplicate_exact_dtt_entries (dtt_entries p @ vf) \<rparr>)"
    by (auto simp: validate_and_merge_dtt_fragment_def rbind_Inr_iff split: if_splits)
  note kf = keep_first_props [of dtt_entry_key "dtt_entries p @ vf"]
  have "dtt_entry_key ` set (deduplicate_exact_dtt_entries (dtt_entries p @ vf)) =
      dtt_entry_key ` (set (dtt_entries p) \<union> set vf)"
    using kf by (simp add: deduplicate_exact_dtt_entries_def)
  moreover have "distinct (map dtt_entry_key (deduplicate_exact_dtt_entries (dtt_entries p @ vf)))"
    unfolding deduplicate_exact_dtt_entries_def using kf by (blast intro: distinct_sort_key_map)
  ultimately show ?thesis using r set_filter_at [OF vf] by simp
qed

theorem dtt_merge_union_witness:
  "\<exists>m. validate_and_merge_dtt_fragment demo_env (\<lambda>i. 7) ''k''
     (Dtt \<lparr> dtt_entries = [\<lparr> dt_resource_id = ''r'', dt_pk_virtual_node = ''p'', dt_created_at = ''c'', dt_expires_at = ''e'',
        dt_signature = ''s'', dt_pow_nonce = None \<rparr>] \<rparr>) (Dtt \<lparr> dtt_entries = [] \<rparr>) 0 = Inr (Dtt m) \<and>
     distinct (map dtt_entry_key (dtt_entries m))"
proof -
  let ?p = "\<lparr> dtt_entries = [\<lparr> dt_resource_id = ''r'', dt_pk_virtual_node = ''p'', dt_created_at = ''c'', dt_expires_at = ''e'',
        dt_signature = ''s'', dt_pow_nonce = None \<rparr>] \<rparr> :: dtt_record"
  obtain r where r: "validate_and_merge_dtt_fragment demo_env (\<lambda>i. 7) ''k'' (Dtt ?p) (Dtt \<lparr> dtt_entries = [] \<rparr>) 0 = Inr r"
    by (simp add: validate_and_merge_dtt_fragment_def filter_at_def)
  from dtt_merge_union [OF r] r show ?thesis by blast
qed

text \<open>
  C31. A page record is replaced only by a record for the same key that its owner signed, with a valid
  proof of work and a strictly later modification time; otherwise the stored record stays or the
  merge fails.
\<close>

theorem dpt_merge_no_rollback:
  assumes "validate_and_merge_dpt_fragment env key (Dpt p) (Dpt f) d = Inr r"
  shows "r = Dpt p \<or> r = Dpt f \<and>
    key = me_hash env (utf8_encode (''dpt|'' @ node_id env (dpt_pk_virtual_node_owner f) @ ''|'' @ dpt_title f)) \<and>
    validate_dpt_pow (me_hash env) f key d = Inr True \<and>
    me_verify env (canonical_payload_hex (dpt_signed_payload key f)) (dpt_signature f) (dpt_pk_virtual_node_owner f) = Some True \<and>
    (\<exists>t. parse_datetime env (dpt_last_modified f) = Some t \<and>
      (\<forall>t'. parse_datetime env (dpt_last_modified p) = Some t' \<longrightarrow> dt_gt t t' = Inr True))"
proof (cases "r = Dpt p")
  case False
  then have r: "r = Dpt f" and valid: "is_valid_dpt_fragment env key f d = Inr True"
    and newer: "is_fragment_newer env (dpt_last_modified p) (dpt_last_modified f) = Inr True"
    and key: "key = me_hash env (utf8_encode (''dpt|'' @ node_id env (dpt_pk_virtual_node_owner f) @ ''|'' @ dpt_title f))"
    using assms by (auto simp: validate_and_merge_dpt_fragment_def rbind_Inr_iff
        ensure_dpt_key_matches_owner_and_title_def split: if_splits)
  have "validate_dpt_pow (me_hash env) f key d = Inr True"
    "me_verify env (canonical_payload_hex (dpt_signed_payload key f)) (dpt_signature f) (dpt_pk_virtual_node_owner f) = Some True"
    using valid by (auto simp: is_valid_dpt_fragment_def rbind_Inr_iff validate_dpt_pow_def
        validate_payload_pow_nonce_def verify_or_false_def split: if_splits option.splits)
  moreover have "\<exists>t. parse_datetime env (dpt_last_modified f) = Some t \<and>
      (\<forall>t'. parse_datetime env (dpt_last_modified p) = Some t' \<longrightarrow> dt_gt t t' = Inr True)"
    using newer by (auto simp: is_fragment_newer_def split: option.splits)
  ultimately show ?thesis using r key by blast
qed simp

theorem dpt_merge_no_rollback_witness:
  "\<exists>r. validate_and_merge_dpt_fragment demo_env demo_key (Dpt demo_page)
       (Dpt (demo_page \<lparr> dpt_last_modified := ''2031'' \<rparr>)) 0 = Inr r \<and>
     (r = Dpt demo_page \<or> r = Dpt (demo_page \<lparr> dpt_last_modified := ''2031'' \<rparr>))"
proof -
  let ?f = "demo_page \<lparr> dpt_last_modified := ''2031'' \<rparr>"
  have z: "parse_datetime demo_env ''2030'' = Some (Aware 1000)" "parse_datetime demo_env ''2031'' = Some (Aware 2000)"
    by code_simp+
  have "\<exists>m. payload_pow_canonical_bytes zero_digest ''dpt'' demo_key (PowDpt ?f) None = Inr m"
    by (simp add: payload_pow_canonical_bytes_def)
  then have "rbind (build_payload_pow_details zero_digest ''dpt'' demo_key (PowDpt ?f) (Some (PyInt 0)) 0 None)
      (\<lambda>det. if \<not> pd_is_valid det then Inr False else Inr b) = Inr b" for b
    using demo_pow [where f = "\<lambda>v. if \<not> v then Inr False else Inr b"] by fastforce
  then have v: "is_valid_dpt_fragment demo_env demo_key ?f 0 = Inr True"
    using demo_verify by (simp add: is_valid_dpt_fragment_def demo_page_def)
  have key: "ensure_dpt_key_matches_owner_and_title demo_env demo_key pk ti = Inr ()" for pk ti
    by (simp add: ensure_dpt_key_matches_owner_and_title_def demo_env_def demo_key_def zero_digest_def)
  obtain r where r: "validate_and_merge_dpt_fragment demo_env demo_key (Dpt demo_page) (Dpt ?f) 0 = Inr r"
    using v key z by (simp add: validate_and_merge_dpt_fragment_def is_fragment_newer_def demo_page_def)
  from dpt_merge_no_rollback [OF r] r show ?thesis by blast
qed

text \<open>
  C32. A physical-node record is accepted only under the key derived from its own public key, with a
  valid proof of work and a signature of that key over the key and the fields, whose endpoint and
  transport lists are the canonical ones.
\<close>

theorem dpnt_merge_authentic:
  assumes "validate_and_merge_dpnt_fragment env key parent (Dpnt f) d = Inr r"
  shows "r = Dpnt f \<and>
    key = me_hash env (utf8_encode (''dpnt|'' @ node_id env (dpnt_pk_physical_node f))) \<and>
    validate_dpnt_pow (me_hash env) f key d = Inr True \<and>
    me_verify env (canonical_payload_hex (dpnt_signed_payload key f)) (dpnt_signature f) (dpnt_pk_physical_node f) = Some True"
  using assms
  by (auto simp: validate_and_merge_dpnt_fragment_def rbind_Inr_iff ensure_dpnt_key_matches_physical_node_def
      is_valid_dpnt_fragment_def validate_dpnt_pow_def validate_payload_pow_nonce_def verify_or_false_def
      split: if_splits option.splits)

theorem dpnt_merge_authentic_witness:
  "\<exists>r. validate_and_merge_dpnt_fragment demo_env demo_key (Dpnt demo_node) (Dpnt demo_node) 0 = Inr r \<and> r = Dpnt demo_node"
proof -
  have "\<exists>m. payload_pow_canonical_bytes zero_digest ''dpnt'' demo_key (PowDpnt demo_node) None = Inr m"
    by (simp add: payload_pow_canonical_bytes_def)
  then have "rbind (build_payload_pow_details zero_digest ''dpnt'' demo_key (PowDpnt demo_node) (Some (PyInt 0)) 0 None)
      (\<lambda>det. if \<not> pd_is_valid det then Inr False else Inr b) = Inr b" for b
    using demo_pow [where f = "\<lambda>v. if \<not> v then Inr False else Inr b"] by fastforce
  then have v: "is_valid_dpnt_fragment demo_env demo_key demo_node 0 = Inr True"
    using demo_verify by (simp add: is_valid_dpnt_fragment_def demo_node_def)
  have key: "ensure_dpnt_key_matches_physical_node demo_env demo_key pk = Inr ()" for pk
    by (simp add: ensure_dpnt_key_matches_physical_node_def demo_env_def demo_key_def zero_digest_def)
  obtain r where r: "validate_and_merge_dpnt_fragment demo_env demo_key (Dpnt demo_node) (Dpnt demo_node) 0 = Inr r"
    using v key by (simp add: validate_and_merge_dpnt_fragment_def ensure_payload_type_def)
  from dpnt_merge_authentic [OF r] r show ?thesis by blast
qed

end
