(* ===== verification/Base64.thy ===== *)
theory Base64
  imports Prelude
begin

text \<open>
  \<^verbatim>\<open>base64.b64encode\<close> and \<^verbatim>\<open>base64.b64decode(s, validate=True)\<close> of the standard library, as
  \<^verbatim>\<open>app/content/service.py\<close> uses them: groups of four characters for three bytes, padding only at
  the end. The strict decoder rejects characters outside the alphabet, misplaced or missing
  padding and incomplete groups; unused bits before the padding are ignored.
\<close>

definition b64_char :: "nat \<Rightarrow> char" where
  "b64_char n = (if n < 26 then char_of (65 + n) else if n < 52 then char_of (71 + n)
     else if n < 62 then char_of (n - 4) else if n = 62 then CHR ''+'' else CHR ''/'')"

definition b64_val :: "char \<Rightarrow> nat option" where
  "b64_val c = (let n = (of_char c :: nat) in
     if 65 \<le> n \<and> n \<le> 90 then Some (n - 65) else if 97 \<le> n \<and> n \<le> 122 then Some (n - 71)
     else if 48 \<le> n \<and> n \<le> 57 then Some (n + 4) else if n = 43 then Some 62 else if n = 47 then Some 63 else None)"

fun b64encode :: "string \<Rightarrow> string" where
  "b64encode [] = []"
| "b64encode [a] = (let x = of_char a in [b64_char (x div 4), b64_char (x mod 4 * 16), CHR ''='', CHR ''=''])"
| "b64encode [a, b] = (let x = of_char a; y = of_char b in
     [b64_char (x div 4), b64_char (x mod 4 * 16 + y div 16), b64_char (y mod 16 * 4), CHR ''=''])"
| "b64encode (a # b # c # r) = (let x = of_char a; y = of_char b; z = of_char c in
     [b64_char (x div 4), b64_char (x mod 4 * 16 + y div 16), b64_char (y mod 16 * 4 + z div 64), b64_char (z mod 64)] @ b64encode r)"

definition b64_group :: "char \<Rightarrow> char \<Rightarrow> char \<Rightarrow> char \<Rightarrow> string option" where
  "b64_group a b c d = (case (b64_val a, b64_val b, b64_val c, b64_val d) of
     (Some p, Some q, Some r, Some s) \<Rightarrow>
       Some [char_of (p * 4 + q div 16), char_of (q mod 16 * 16 + r div 4), char_of (r mod 4 * 64 + s)]
   | _ \<Rightarrow> None)"

definition b64_last :: "char \<Rightarrow> char \<Rightarrow> char \<Rightarrow> char \<Rightarrow> string option" where
  "b64_last a b c d =
     (if c = CHR ''='' \<and> d = CHR ''='' then
        (case (b64_val a, b64_val b) of (Some p, Some q) \<Rightarrow> Some [char_of (p * 4 + q div 16)] | _ \<Rightarrow> None)
      else if d = CHR ''='' then
        (case (b64_val a, b64_val b, b64_val c) of (Some p, Some q, Some r) \<Rightarrow>
           Some [char_of (p * 4 + q div 16), char_of (q mod 16 * 16 + r div 4)] | _ \<Rightarrow> None)
      else b64_group a b c d)"

fun b64decode :: "string \<Rightarrow> string option" where
  "b64decode [] = Some []"
| "b64decode [a, b, c, d] = b64_last a b c d"
| "b64decode (a # b # c # d # r) = (case (b64_group a b c d, b64decode r) of (Some x, Some y) \<Rightarrow> Some (x @ y) | _ \<Rightarrow> None)"
| "b64decode _ = None"

lemma b64_val_char: "n < 64 \<Longrightarrow> b64_val (b64_char n) = Some n"
  by (auto simp: b64_char_def b64_val_def Let_def)

lemma b64_char_not_pad: "n < 64 \<Longrightarrow> b64_char n \<noteq> CHR ''=''"
  using b64_val_char [of n] by (auto simp: b64_val_def)

lemma group_parts:
  fixes x y z :: nat
  assumes "x < 256" and "y < 256" and "z < 256"
  shows "x div 4 < 64" "x mod 4 * 16 + y div 16 < 64" "y mod 16 * 4 + z div 64 < 64" "z mod 64 < 64" "x mod 4 * 16 < 64" "y mod 16 * 4 < 64"
    and "x div 4 * 4 + (x mod 4 * 16 + y div 16) div 16 = x" "(x mod 4 * 16 + y div 16) mod 16 * 16 + (y mod 16 * 4 + z div 64) div 4 = y"
    and "(y mod 16 * 4 + z div 64) mod 4 * 64 + z mod 64 = z" "x div 4 * 4 + x mod 4 * 16 div 16 = x"
    and "(x mod 4 * 16 + y div 16) mod 16 * 16 + y mod 16 * 4 div 4 = y"
proof -
  have d: "y div 16 < 16" "z div 64 < 4" "x mod 4 < 4" "y mod 16 < 16" "z mod 64 < 64" using assms by simp_all
  show "x div 4 < 64" "z mod 64 < 64" using assms by simp_all
  show "x mod 4 * 16 + y div 16 < 64" "y mod 16 * 4 + z div 64 < 64" "x mod 4 * 16 < 64" "y mod 16 * 4 < 64" using d by linarith+
  show "x div 4 * 4 + (x mod 4 * 16 + y div 16) div 16 = x" using d(1) by simp
  show "x div 4 * 4 + x mod 4 * 16 div 16 = x" by simp
  show "(x mod 4 * 16 + y div 16) mod 16 * 16 + (y mod 16 * 4 + z div 64) div 4 = y" using d(1,2) by simp
  show "(x mod 4 * 16 + y div 16) mod 16 * 16 + y mod 16 * 4 div 4 = y" using d(1) by simp
  show "(y mod 16 * 4 + z div 64) mod 4 * 64 + z mod 64 = z" using d(2) by simp
qed

lemma b64_group_encoded:
  "b64_group (b64_char (of_char a div 4)) (b64_char (of_char a mod 4 * 16 + of_char b div 16))
     (b64_char (of_char b mod 16 * 4 + of_char c div 64)) (b64_char (of_char c mod 64)) = Some [a, b, c]"
  using group_parts [of "of_char a" "of_char b" "of_char c", OF byte_less byte_less byte_less] by (simp add: b64_group_def b64_val_char)

lemma b64decode_more: "r \<noteq> [] \<Longrightarrow> b64decode (a # b # c # d # r) =
    (case (b64_group a b c d, b64decode r) of (Some x, Some y) \<Rightarrow> Some (x @ y) | _ \<Rightarrow> None)"
  by (cases r) simp_all

lemma b64encode_Nil [simp]: "b64encode s = [] \<longleftrightarrow> s = []"
  by (cases s rule: b64encode.cases) (simp_all add: Let_def)

lemma b64_round_trip: "b64decode (b64encode s) = Some s"
proof (induction s rule: b64encode.induct)
  case (2 a)
  show ?case using group_parts [of "of_char a" "of_char a" "of_char a", OF byte_less byte_less byte_less] by (simp add: Let_def b64_last_def b64_val_char)
next
  case (3 a b)
  show ?case using group_parts [of "of_char a" "of_char b" "of_char b", OF byte_less byte_less byte_less] b64_char_not_pad
    by (simp add: Let_def b64_last_def b64_val_char)
next
  case (4 a b c r)
  show ?case
  proof (cases "r = []")
    case True
    have "b64_char (of_char c mod 64) \<noteq> CHR ''=''" by (rule b64_char_not_pad) simp
    with True show ?thesis using b64_group_encoded [of a b c] by (simp add: Let_def b64_last_def)
  next
    case False
    with 4 b64_group_encoded [of a b c] show ?thesis by (simp add: Let_def b64decode_more)
  qed
qed simp

interpretation b64: codec b64encode b64decode "\<lambda>s. True"
  by unfold_locales (rule b64_round_trip)

end
