(* ===== verification/Dht_Service.thy ===== *)
theory Dht_Service
  imports Dht_Pow
begin

text \<open>
  \<^verbatim>\<open>app/dht/service.py\<close>: keys, the XOR distance, publish proof of work and the choice of the nodes
  that are responsible for a key. The three tables the queries read are arguments, as lists of
  rows in the order in which the database returns them; the filters, the join and the ordering of
  the queries are written out (SQLite sorts NULL last in descending order).
\<close>

section \<open>Numbers from text\<close>

text \<open>\<^verbatim>\<open>int(s, 16)\<close>: surrounding white space, a sign, a \<^verbatim>\<open>0x\<close> prefix and single underscores are accepted.\<close>

fun hex_digits_us :: "nat \<Rightarrow> bool \<Rightarrow> string \<Rightarrow> nat option" where
  "hex_digits_us a after_digit [] = (if after_digit then Some a else None)"
| "hex_digits_us a after_digit (c # s) =
     (if c = CHR ''_'' then (if after_digit then hex_digits_us a False s else None)
      else case hex_val c of None \<Rightarrow> None | Some d \<Rightarrow> hex_digits_us (16 * a + d) True s)"

definition hex_body :: "string \<Rightarrow> nat option" where
  "hex_body s = (if take 2 s = ''0x'' \<or> take 2 s = ''0X''
     then (if drop 2 s = [] then None else hex_digits_us 0 True (drop 2 s))
     else hex_digits_us 0 False s)"

definition py_int16 :: "string \<Rightarrow> int result" where
  "py_int16 s =
     (let t = py_strip s;
          (neg, body) = (case t of [] \<Rightarrow> (False, [])
            | c # r \<Rightarrow> if c = CHR ''-'' then (True, r) else if c = CHR ''+'' then (False, r) else (False, t))
      in case hex_body body of
           None \<Rightarrow> Inl (ValueError ''invalid literal for int() with base 16'')
         | Some n \<Rightarrow> Inr (if neg then - int n else int n))"

fun hex_text :: "nat \<Rightarrow> string" where
  "hex_text n = (if n < 16 then [hex_digit n] else hex_text (n div 16) @ [hex_digit (n mod 16)])"

declare hex_text.simps [simp del]

text \<open>\<^verbatim>\<open>format(i, "0128x")\<close>\<close>

definition format_0128x :: "int \<Rightarrow> string" where
  "format_0128x i = (if i < 0 then CHR ''-'' # zfill 127 (hex_text (nat (- i))) else zfill 128 (hex_text (nat i)))"

section \<open>Keys and distance\<close>

definition build_key :: "(string \<Rightarrow> string) \<Rightarrow> string \<Rightarrow> string \<Rightarrow> string result" where
  "build_key h namespace logical_key =
     (if namespace = [] then Inl (ValueError ''namespace e obrigatorio.'')
      else if logical_key = [] then Inl (ValueError ''logical_key e obrigatorio.'')
      else Inr (h (utf8_encode (namespace @ ''|'' @ logical_key))))"

definition xor_distance_hex :: "string \<Rightarrow> string \<Rightarrow> int result" where
  "xor_distance_hex left_hex right_hex =
     (if left_hex = [] \<or> right_hex = [] then Inl (ValueError ''left_hex e right_hex sao obrigatorios.'')
      else rbind (py_int16 left_hex) (\<lambda>a. rbind (py_int16 right_hex) (\<lambda>b. Inr (xor a b))))"

section \<open>Publish proof of work\<close>

definition build_publish_pow_details ::
  "(string \<Rightarrow> string) \<Rightarrow> string \<Rightarrow> string \<Rightarrow> pyint option \<Rightarrow> int \<Rightarrow> pow_details result" where
  "build_publish_pow_details h key_hex record_json nonce difficulty_bits =
     (let canonical_material = utf8_encode (key_hex @ ''|'' @ record_json);
          canonical_hash = h canonical_material
      in case nonce of
           None \<Rightarrow> Inr (invalid_pow_details canonical_hash difficulty_bits nonce)
         | Some n \<Rightarrow>
             if pyint_val n < 0 then Inr (invalid_pow_details canonical_hash difficulty_bits nonce)
             else
               let proof_hash = h (canonical_material @ ''|'' @ pyint_str n) in
               case hex_nat proof_hash of
                 None \<Rightarrow> Inl (ValueError ''invalid literal for int() with base 16'')
               | Some v \<Rightarrow> Inr \<lparr> pd_canonical_hash = canonical_hash, pd_proof_hash = Some proof_hash,
                   pd_proof_hash_prefix = Some (take 16 proof_hash), pd_difficulty_bits = difficulty_bits,
                   pd_nonce = nonce, pd_is_valid = bits_valid difficulty_bits v \<rparr>)"

definition validate_publish_pow :: "(string \<Rightarrow> string) \<Rightarrow> string \<Rightarrow> string \<Rightarrow> pyint \<Rightarrow> int \<Rightarrow> bool result" where
  "validate_publish_pow h key_hex record_json nonce difficulty_bits =
     (if difficulty_bits \<le> 0 then Inr True
      else if pyint_val nonce < 0 then Inr False
      else rbind (build_publish_pow_details h key_hex record_json (Some nonce) difficulty_bits) (\<lambda>d. Inr (pd_is_valid d)))"

definition find_publish_pow_nonce :: "(string \<Rightarrow> string) \<Rightarrow> string \<Rightarrow> string \<Rightarrow> int \<Rightarrow> int result option" where
  "find_publish_pow_nonce h key_hex record_json difficulty_bits =
     (if difficulty_bits \<le> 0 then Some (Inr 0)
      else pow_search (\<lambda>n. validate_publish_pow h key_hex record_json (PyInt n) difficulty_bits) 0)"

section \<open>Responsible nodes\<close>

record local_node_row =
  ln_id :: string
  ln_public_key :: string
  ln_status :: string

record remote_node_row =
  rn_id :: string
  rn_public_key :: string
  rn_status :: string
  rn_last_validated_at :: "time_us option"

record endpoint_row =
  ep_physical_node_hash_id :: string
  ep_transport :: string
  ep_host :: string
  ep_port :: int
  ep_priority :: int
  ep_is_active :: bool
  ep_last_success_at :: "time_us option"

record node_tables =
  tb_local :: "local_node_row list"
  tb_remote :: "remote_node_row list"
  tb_endpoints :: "endpoint_row list"

record node_candidate =
  nc_node_id :: string
  nc_is_local :: bool
  nc_public_key :: string

record ranked_node = node_candidate +
  rk_distance_int :: int
  rk_distance_hex :: string
  rk_endpoints :: "(string \<times> string \<times> int \<times> int) list option"

record k_closest =
  kc_key_hex :: string
  kc_replication_factor :: int
  kc_local_node_is_responsible :: bool
  kc_nodes :: "ranked_node list"

definition load_node_candidates :: "node_tables \<Rightarrow> node_candidate list" where
  "load_node_candidates tb =
     map (\<lambda>n. \<lparr> nc_node_id = ln_id n, nc_is_local = True, nc_public_key = ln_public_key n \<rparr>)
       (filter (\<lambda>n. ln_status n = ''active'') (tb_local tb)) @
     map (\<lambda>n. \<lparr> nc_node_id = rn_id n, nc_is_local = False, nc_public_key = rn_public_key n \<rparr>)
       (filter (\<lambda>n. rn_status n = ''active'' \<and> rn_last_validated_at n \<noteq> None \<and>
          list_ex (\<lambda>e. ep_physical_node_hash_id e = rn_id n \<and> ep_is_active e) (tb_endpoints tb)) (tb_remote tb))"

definition candidate_step ::
  "node_candidate \<Rightarrow> (string, node_candidate) dict \<Rightarrow> (string, node_candidate) dict" where
  "candidate_step c d =
     (if nc_node_id c = [] then d
      else case dict_get d (nc_node_id c) of
        None \<Rightarrow> dict_set (nc_node_id c) c d
      | Some _ \<Rightarrow> if nc_is_local c then dict_set (nc_node_id c) c d else d)"

definition deduplicate_node_candidates :: "node_candidate list \<Rightarrow> node_candidate list" where
  "deduplicate_node_candidates cs = dict_values (fold candidate_step cs [])"

definition rank_node :: "string \<Rightarrow> node_candidate \<Rightarrow> ranked_node result" where
  "rank_node key_hex c = rbind (xor_distance_hex key_hex (nc_node_id c)) (\<lambda>dist.
     Inr \<lparr> nc_node_id = nc_node_id c, nc_is_local = nc_is_local c, nc_public_key = nc_public_key c,
       rk_distance_int = dist, rk_distance_hex = format_0128x dist, rk_endpoints = None \<rparr>)"

definition rank_nodes_by_distance :: "string \<Rightarrow> node_candidate list \<Rightarrow> ranked_node list result" where
  "rank_nodes_by_distance key_hex cs =
     rbind (rmap (rank_node key_hex) cs) (\<lambda>ranked. Inr (py_sorted rk_distance_int ranked))"

definition endpoint_order :: "endpoint_row \<Rightarrow> string \<times> int \<times> int \<times> int" where
  "endpoint_order e = (ep_physical_node_hash_id e, ep_priority e,
     (case ep_last_success_at e of Some t \<Rightarrow> (0, - t) | None \<Rightarrow> (1, 0)))"

definition attach_remote_endpoints :: "node_tables \<Rightarrow> ranked_node list \<Rightarrow> ranked_node list" where
  "attach_remote_endpoints tb selected =
     (let remote_node_ids = map nc_node_id (filter (\<lambda>n. \<not> nc_is_local n) selected) in
      if remote_node_ids = [] then selected
      else
        let endpoints = py_sorted endpoint_order
              (filter (\<lambda>e. ep_physical_node_hash_id e \<in> set remote_node_ids \<and> ep_is_active e) (tb_endpoints tb))
        in map (\<lambda>n. n \<lparr> rk_endpoints := Some (if nc_is_local n then []
             else map (\<lambda>e. (ep_transport e, ep_host e, ep_port e, ep_priority e))
               (filter (\<lambda>e. ep_physical_node_hash_id e = nc_node_id n) endpoints)) \<rparr>) selected)"

definition select_k_closest_nodes :: "node_tables \<Rightarrow> int \<Rightarrow> string \<Rightarrow> k_closest result" where
  "select_k_closest_nodes tb replication_factor key_hex =
     (if key_hex = [] then Inl (ValueError ''key_hex e obrigatorio.'')
      else rbind (rank_nodes_by_distance key_hex (deduplicate_node_candidates (load_node_candidates tb))) (\<lambda>ranked.
        let selected = attach_remote_endpoints tb (slice_upto ranked replication_factor) in
        Inr \<lparr> kc_key_hex = key_hex, kc_replication_factor = replication_factor,
          kc_local_node_is_responsible = list_ex nc_is_local selected, kc_nodes = selected \<rparr>))"

section \<open>The contract of a distance on identifiers\<close>

locale id_distance =
  fixes dist :: "'k \<Rightarrow> 'k \<Rightarrow> int"
    and dom :: "'k \<Rightarrow> bool"
  assumes dist_zero: "dist a b = 0 \<longleftrightarrow> a = b"
    and dist_sym: "dist a b = dist b a"
    and dist_unique: "dist k a = dist k b \<longleftrightarrow> a = b"
    and dist_nonneg: "dom a \<Longrightarrow> dom b \<Longrightarrow> 0 \<le> dist a b"
    and dist_triangle: "dom a \<Longrightarrow> dom b \<Longrightarrow> dom c \<Longrightarrow> dist a c \<le> dist a b + dist b c"
begin

lemma dist_inj: "inj_on pos S \<Longrightarrow> inj_on (\<lambda>e. dist k (pos e)) S"
  by (auto simp: inj_on_def dist_unique)

lemma own_id_closest:
  assumes "dom k" and "dom a" and "a \<noteq> k"
  shows "dist k k < dist k a"
  using dist_zero [of k k] dist_zero [of k a] dist_nonneg [OF assms(1,2)] assms(3) by auto

text \<open>Among the identifiers at most \<open>r\<close> away from \<open>a\<close>, any two are at most \<open>2 * r\<close> apart.\<close>

lemma ball_diameter:
  assumes "dom a" and "dom b" and "dom c" and "dist a b \<le> r" and "dist a c \<le> r"
  shows "dist b c \<le> 2 * r"
  using dist_triangle [OF assms(2,1,3)] dist_sym [of a b] assms(4,5) by simp

end

lemma xor_eq_iff: "xor a (b::int) = xor a c \<longleftrightarrow> b = c"
proof
  assume "xor a b = xor a c"
  then have "xor a (xor a b) = xor a (xor a c)" by simp
  then show "b = c" by (simp add: xor.assoc [symmetric])
qed simp

lemma xor_le_plus:
  assumes "0 \<le> (x::int)" "0 \<le> y"
  shows "xor x y \<le> x + y"
proof -
  have "and (xor x y) (and x y) = 0" by (rule bit_eqI) (auto simp: bit_and_iff bit_xor_iff)
  then have "xor x y + and x y = or (xor x y) (and x y)" by (rule disjunctive_add_eq_or)
  also have "\<dots> = or x y" by (rule bit_eqI) (auto simp: bit_and_iff bit_xor_iff bit_or_iff)
  finally have "xor x y + 2 * and x y = x + y" using plus_and_or [of x y] by simp
  moreover have "0 \<le> and x y" using assms by simp
  ultimately show ?thesis by linarith
qed

interpretation xd: id_distance "xor :: int \<Rightarrow> int \<Rightarrow> int" "\<lambda>a. 0 \<le> a"
proof
  fix a b c k :: int
  show "xor a b = 0 \<longleftrightarrow> a = b" using xor_eq_iff [of a b a] by auto
  show "xor a b = xor b a" by (rule xor.commute)
  show "xor k a = xor k b \<longleftrightarrow> a = b" by (rule xor_eq_iff)
  show "0 \<le> a \<Longrightarrow> 0 \<le> b \<Longrightarrow> 0 \<le> xor a b" by simp
  assume "0 \<le> a" "0 \<le> b" "0 \<le> c"
  then have "xor (xor a b) (xor b c) \<le> xor a b + xor b c" by (intro xor_le_plus) simp_all
  moreover have "xor (xor a b) (xor b c) = xor a c"
    by (rule bit_eqI) (auto simp: bit_xor_iff)
  ultimately show "xor a c \<le> xor a b + xor b c" by simp
qed

section \<open>Identifiers\<close>

text \<open>A SHA-512 digest as the code writes it: 128 lower-case hexadecimal digits.\<close>

definition lower_hex :: "char \<Rightarrow> bool" where
  "lower_hex c \<longleftrightarrow> (let n = (of_char c :: nat) in 48 \<le> n \<and> n \<le> 57 \<or> 97 \<le> n \<and> n \<le> 102)"

definition hex_id :: "string \<Rightarrow> bool" where
  "hex_id s \<longleftrightarrow> length s = 128 \<and> list_all lower_hex s"

definition id_val :: "string \<Rightarrow> int" where
  "id_val s = (case hex_nat s of Some n \<Rightarrow> int n | None \<Rightarrow> 0)"

lemma hex_val_lower: "lower_hex c \<Longrightarrow> \<exists>d < 16. hex_val c = Some d \<and> hex_digit d = c"
  by (auto simp: lower_hex_def hex_val_def hex_digit_def Let_def)

lemma hex_nat_acc_append:
  "hex_nat_acc a (s @ t) = (case hex_nat_acc a s of None \<Rightarrow> None | Some b \<Rightarrow> hex_nat_acc b t)"
  by (induction s arbitrary: a) (auto split: option.splits)

lemma hex_nat_acc_lower: "list_all lower_hex u \<Longrightarrow> \<exists>v. hex_nat_acc a u = Some v"
proof (induction u arbitrary: a)
  case (Cons c u)
  then obtain d where "hex_val c = Some d" using hex_val_lower [of c] by auto
  with Cons show ?case by simp
qed simp

lemma div_mod_digit: "d < 16 \<Longrightarrow> d' < 16 \<Longrightarrow> 16 * v + d = 16 * v' + d' \<Longrightarrow> v = v' \<and> d = d'" for v :: nat
proof -
  assume "d < 16" "d' < 16" and e: "16 * v + d = 16 * v' + d'"
  then have "v = (16 * v + d) div 16" "v' = (16 * v' + d') div 16" by simp_all
  with e show "v = v' \<and> d = d'" by simp
qed

lemma hex_nat_inj:
  "list_all lower_hex s \<Longrightarrow> list_all lower_hex t \<Longrightarrow> length s = length t \<Longrightarrow> hex_nat_acc 0 s = hex_nat_acc 0 t \<Longrightarrow> s = t"
proof (induction s arbitrary: t rule: rev_induct)
  case (snoc c s)
  then obtain t' c' where t: "t = t' @ [c']" by (cases t rule: rev_cases) auto
  have l: "list_all lower_hex s" "list_all lower_hex t'" "lower_hex c" "lower_hex c'" using snoc.prems(1,2) t by simp_all
  obtain d where d: "d < 16" "hex_val c = Some d" "hex_digit d = c" using hex_val_lower [OF l(3)] by blast
  obtain d' where d': "d' < 16" "hex_val c' = Some d'" "hex_digit d' = c'" using hex_val_lower [OF l(4)] by blast
  obtain v where v: "hex_nat_acc 0 s = Some v" using hex_nat_acc_lower [OF l(1)] by blast
  obtain v' where v': "hex_nat_acc 0 t' = Some v'" using hex_nat_acc_lower [OF l(2)] by blast
  have "16 * v + d = 16 * v' + d'"
    using snoc.prems(4) by (simp add: t hex_nat_acc_append v v' d(2) d'(2))
  then have e: "v = v'" "d = d'" using div_mod_digit [OF d(1) d'(1)] by simp_all
  have "s = t'" by (rule snoc.IH [OF l(1,2)]) (use snoc.prems(3) t v v' e(1) in simp_all)
  then show ?case using d(3) d'(3) t e(2) by simp
qed simp

lemma hex_digits_us_plain: "list_all (\<lambda>c. hex_val c \<noteq> None) s \<Longrightarrow> s \<noteq> [] \<or> b \<Longrightarrow> hex_digits_us a b s = hex_nat_acc a s"
proof (induction s arbitrary: a b)
  case (Cons c s)
  then obtain d where d: "hex_val c = Some d" by auto
  then have "c \<noteq> CHR ''_''" by (auto simp: hex_val_def)
  with Cons d show ?case by simp
qed simp

lemma lower_hex_props:
  assumes "lower_hex c"
  shows "\<not> py_space c" "c \<noteq> CHR ''-''" "c \<noteq> CHR ''+''" "c \<noteq> CHR ''x''" "c \<noteq> CHR ''X''"
  using assms by (auto simp: lower_hex_def py_space_def Let_def)

lemma hex_id_val:
  assumes "hex_id s"
  shows "py_int16 s = Inr (id_val s)" and "0 \<le> id_val s" and "s \<noteq> []"
proof -
  have s: "length s = 128" "list_all lower_hex s" using assms by (auto simp: hex_id_def)
  obtain c t where ct: "s = c # t" using s(1) by (cases s) auto
  then show "s \<noteq> []" by simp
  have hv: "list_all (\<lambda>c. hex_val c \<noteq> None) s" "list_all (\<lambda>c. \<not> py_space c) s"
    using s(2) hex_val_lower lower_hex_props(1) by (fastforce simp: list_all_iff)+
  have "take 2 s \<noteq> ''0x''" "take 2 s \<noteq> ''0X''"
    using s lower_hex_props(4,5) by (cases t; auto simp: ct)+
  then have body: "hex_body s = hex_nat_acc 0 s"
    using hex_digits_us_plain [OF hv(1), of False 0] ct by (simp only: hex_body_def simp_thms if_False list.distinct)
  obtain v where v: "hex_nat_acc 0 s = Some v" using hex_nat_acc_bound [of s 0] hv(1) by (auto simp: list_all_iff)
  have "lower_hex c" using s(2) ct by simp
  show "py_int16 s = Inr (id_val s)"
  proof -
    have "(case s of [] \<Rightarrow> (False, []) | c # r \<Rightarrow> if c = CHR ''-'' then (True, r) else if c = CHR ''+'' then (False, r) else (False, s)) =
        (False, s)"
      using lower_hex_props(2,3) [OF \<open>lower_hex c\<close>] by (simp add: ct)
    moreover have "id_val s = int v" using v ct by (simp add: id_val_def hex_nat_def del: hex_nat_acc.simps)
    ultimately show ?thesis
      unfolding py_int16_def py_strip_plain [OF hv(2)] Let_def using body v by (simp del: hex_nat_acc.simps)
  qed
  show "0 \<le> id_val s" by (simp add: id_val_def split: option.split)
qed

lemma id_val_inj: "inj_on id_val {s. hex_id s}"
proof (rule inj_onI)
  fix s t assume "s \<in> {s. hex_id s}" "t \<in> {s. hex_id s}" and eq: "id_val s = id_val t"
  then have st: "hex_id s" "hex_id t" by auto
  have hv: "\<exists>v. hex_nat_acc 0 s = Some v" if "hex_id s" for s
    using that hex_nat_acc_bound [of s 0] hex_val_lower by (fastforce simp: hex_id_def list_all_iff)
  obtain v w where "hex_nat_acc 0 s = Some v" "hex_nat_acc 0 t = Some w" using hv st by blast
  moreover have "v = w" using eq calculation hex_id_val(3) st by (simp add: id_val_def hex_nat_def)
  ultimately show "s = t" using st by (intro hex_nat_inj) (auto simp: hex_id_def)
qed

lemma xor_distance_ids:
  assumes "hex_id a" and "hex_id b"
  shows "xor_distance_hex a b = Inr (xor (id_val a) (id_val b))"
  using hex_id_val [OF assms(1)] hex_id_val [OF assms(2)] by (simp add: xor_distance_hex_def)

section \<open>Publish proof of work\<close>

lemma validate_publish_eq:
  assumes "hexdigest_ok h" and "0 \<le> pyint_val n"
  shows "validate_publish_pow h key rec n d =
    Inr (d \<le> 0 \<or> d \<le> 512 \<and> digest_nat h (utf8_encode (key @ ''|'' @ rec) @ ''|'' @ pyint_str n) < 2 ^ (512 - nat d))"
  using assms digest_nat [OF assms(1)]
  by (simp add: validate_publish_pow_def build_publish_pow_details_def Let_def bits_valid_iff)

text \<open>
  The publish nonce search returns whenever some nonce is valid and returns the least valid one,
  which \<^const>\<open>validate_publish_pow\<close> accepts; a nonce is valid when the hash of the key, the record and the
  nonce is below \<open>2 ^ (512 - difficulty)\<close>.
\<close>

theorem publish_pow_least:
  assumes "hexdigest_ok h" and "0 < d" and "d \<le> 512" and "0 \<le> k"
    and "digest_nat h (utf8_encode (key @ ''|'' @ rec) @ ''|'' @ pyint_str (PyInt k)) < 2 ^ (512 - nat d)"
  shows "\<exists>n. find_publish_pow_nonce h key rec d = Some (Inr n) \<and> 0 \<le> n \<and> n \<le> k \<and>
    validate_publish_pow h key rec (PyInt n) d = Inr True \<and>
    (\<forall>j. 0 \<le> j \<and> j < n \<longrightarrow> validate_publish_pow h key rec (PyInt j) d = Inr False)"
proof -
  have "validate_publish_pow h key rec (PyInt k) d = Inr True"
    using assms(3-5) validate_publish_eq [OF assms(1), of "PyInt k" key rec d] by simp
  moreover have "\<exists>b. validate_publish_pow h key rec (PyInt i) d = Inr b" if "0 \<le> i" for i
    using that validate_publish_eq [OF assms(1), of "PyInt i" key rec d] by simp
  ultimately show ?thesis
    using pow_search_ends [where valid = "\<lambda>n. validate_publish_pow h key rec (PyInt n) d", OF _ assms(4)] assms(2)
    by (simp add: find_publish_pow_nonce_def)
qed

theorem publish_pow_least_witness:
  "\<exists>n. find_publish_pow_nonce zero_digest ''k'' ''{}'' 20 = Some (Inr n) \<and>
     validate_publish_pow zero_digest ''k'' ''{}'' (PyInt n) 20 = Inr True"
  using publish_pow_least [OF zero_digest_ok, of 20 7 "''k''" "''{}''"] zero_digest_nat by auto

section \<open>Candidates and ranking\<close>

lemma get_candidate_step:
  "dict_get (candidate_step x d) k =
     (if nc_node_id x = k \<and> k \<noteq> [] then
        (case dict_get d k of None \<Rightarrow> Some x | Some c \<Rightarrow> if nc_is_local x then Some x else Some c)
      else dict_get d k)"
  by (auto simp: candidate_step_def split: option.splits)

lemma get_candidates:
  "case dict_get (fold candidate_step cs []) k of
     None \<Rightarrow> k = [] \<or> k \<notin> nc_node_id ` set cs
   | Some c \<Rightarrow> k \<noteq> [] \<and> nc_node_id c = k \<and> c \<in> set cs \<and>
       (nc_is_local c \<longleftrightarrow> (\<exists>c' \<in> set cs. nc_node_id c' = k \<and> nc_is_local c'))"
proof (induction cs rule: rev_induct)
  case (snoc x cs)
  then show ?case
    by (cases "dict_get (fold candidate_step cs []) k") (auto simp: get_candidate_step image_iff Bex_def)
qed simp

lemma dict_ok_candidates: "dict_ok (fold candidate_step cs [])"
proof -
  have "dict_ok d \<Longrightarrow> dict_ok (fold candidate_step cs d)" for d
    by (induction cs arbitrary: d) (auto simp: candidate_step_def split: option.split)
  then show ?thesis by simp
qed

lemma deduplicate_props:
  shows "distinct (map nc_node_id (deduplicate_node_candidates cs))"
    and "nc_node_id ` set (deduplicate_node_candidates cs) = nc_node_id ` set cs - {[]}"
    and "c \<in> set (deduplicate_node_candidates cs) \<Longrightarrow> c \<in> set cs \<and>
      (nc_is_local c \<longleftrightarrow> (\<exists>c' \<in> set cs. nc_node_id c' = nc_node_id c \<and> nc_is_local c'))"
proof -
  let ?d = "fold candidate_step cs []"
  have ent: "nc_node_id c = k \<and> k \<noteq> [] \<and> c \<in> set cs \<and>
      (nc_is_local c \<longleftrightarrow> (\<exists>c' \<in> set cs. nc_node_id c' = k \<and> nc_is_local c'))" if "(k, c) \<in> set ?d" for k c
    using get_candidates [where cs = cs and k = k] that [folded dict_get_iff [OF dict_ok_candidates]] by simp
  then have keys: "map nc_node_id (dict_values ?d) = dict_keys ?d" by (auto simp: case_prod_beta)
  show "distinct (map nc_node_id (deduplicate_node_candidates cs))"
    unfolding deduplicate_node_candidates_def keys using dict_ok_candidates [of cs] by (simp add: dict_ok_def)
  have "k \<in> fst ` set ?d \<longleftrightarrow> k \<noteq> [] \<and> k \<in> nc_node_id ` set cs" for k
    using get_candidates [where cs = cs and k = k] dict_get_None_iff [of ?d k] by (cases "dict_get ?d k") auto
  then have "fst ` set ?d = nc_node_id ` set cs - {[]}" by blast
  then show "nc_node_id ` set (deduplicate_node_candidates cs) = nc_node_id ` set cs - {[]}"
    unfolding deduplicate_node_candidates_def using arg_cong [OF keys, of set] by (simp add: image_image)
  assume "c \<in> set (deduplicate_node_candidates cs)"
  then obtain k where "(k, c) \<in> set ?d" by (auto simp: deduplicate_node_candidates_def)
  from ent [OF this] show "c \<in> set cs \<and> (nc_is_local c \<longleftrightarrow> (\<exists>c' \<in> set cs. nc_node_id c' = nc_node_id c \<and> nc_is_local c'))"
    by blast
qed

lemma rank_nodes_ok:
  assumes "hex_id key" and "\<And>c. c \<in> set cs \<Longrightarrow> hex_id (nc_node_id c)"
  obtains ns where "rmap (rank_node key) cs = Inr ns" and "map nc_node_id ns = map nc_node_id cs"
    and "map nc_is_local ns = map nc_is_local cs"
    and "\<And>n. n \<in> set ns \<Longrightarrow> rk_distance_int n = xor (id_val key) (id_val (nc_node_id n))"
proof -
  have d: "rank_node key c = Inr \<lparr> nc_node_id = nc_node_id c, nc_is_local = nc_is_local c, nc_public_key = nc_public_key c,
       rk_distance_int = xor (id_val key) (id_val (nc_node_id c)),
       rk_distance_hex = format_0128x (xor (id_val key) (id_val (nc_node_id c))), rk_endpoints = None \<rparr>" (is "_ = Inr (?n c)")
    if "c \<in> set cs" for c
    using xor_distance_ids [OF assms(1) assms(2) [OF that]] by (simp add: rank_node_def)
  have "rmap (rank_node key) cs = Inr (map ?n cs)"
    unfolding rmap_Inr_iff by (simp add: list_all2_conv_all_nth d)
  then show thesis by (rule that) (auto simp: comp_def)
qed

lemma attach_preserves:
  "map nc_node_id (attach_remote_endpoints tb ns) = map nc_node_id ns"
  "map nc_is_local (attach_remote_endpoints tb ns) = map nc_is_local ns"
  "map rk_distance_int (attach_remote_endpoints tb ns) = map rk_distance_int ns"
  by (simp_all add: attach_remote_endpoints_def Let_def comp_def)

definition tables_ok :: "node_tables \<Rightarrow> bool" where
  "tables_ok tb \<longleftrightarrow> list_all (\<lambda>n. hex_id (ln_id n)) (tb_local tb) \<and> list_all (\<lambda>n. hex_id (rn_id n)) (tb_remote tb)"

text \<open>The nodes that may be responsible for a key.\<close>

definition local_ids :: "node_tables \<Rightarrow> string list" where
  "local_ids tb = map ln_id (filter (\<lambda>n. ln_status n = ''active'') (tb_local tb))"

definition remote_ids :: "node_tables \<Rightarrow> string list" where
  "remote_ids tb = map rn_id (filter (\<lambda>n. rn_status n = ''active'' \<and> rn_last_validated_at n \<noteq> None \<and>
     list_ex (\<lambda>e. ep_physical_node_hash_id e = rn_id n \<and> ep_is_active e) (tb_endpoints tb)) (tb_remote tb))"

definition eligible_ids :: "node_tables \<Rightarrow> string set" where
  "eligible_ids tb = set (local_ids tb) \<union> set (remote_ids tb)"

lemma load_ids: "nc_node_id ` set (load_node_candidates tb) = eligible_ids tb"
  by (simp add: load_node_candidates_def eligible_ids_def local_ids_def remote_ids_def image_image image_Un)

lemma load_local_ids: "c \<in> set (load_node_candidates tb) \<Longrightarrow> nc_is_local c \<Longrightarrow> nc_node_id c \<in> set (local_ids tb)"
  "k \<in> set (local_ids tb) \<Longrightarrow> \<exists>c \<in> set (load_node_candidates tb). nc_node_id c = k \<and> nc_is_local c"
  by (force simp: load_node_candidates_def local_ids_def)+

lemma eligible_hex: "tables_ok tb \<Longrightarrow> k \<in> eligible_ids tb \<Longrightarrow> hex_id k"
  by (auto simp: tables_ok_def eligible_ids_def local_ids_def remote_ids_def list_all_iff)

text \<open>The deduplicated candidates are one candidate per eligible id, local exactly for the local ids.\<close>

lemma candidates_of_tables:
  assumes "tables_ok tb"
  defines "cs \<equiv> deduplicate_node_candidates (load_node_candidates tb)"
  shows "distinct (map nc_node_id cs)" and "nc_node_id ` set cs = eligible_ids tb"
    and "c \<in> set cs \<Longrightarrow> nc_is_local c \<longleftrightarrow> nc_node_id c \<in> set (local_ids tb)"
proof -
  show "distinct (map nc_node_id cs)" unfolding cs_def by (rule deduplicate_props)
  have "[] \<notin> eligible_ids tb" using eligible_hex [OF assms(1), of "[]"] by (auto simp: hex_id_def)
  then show "nc_node_id ` set cs = eligible_ids tb" unfolding cs_def deduplicate_props(2) load_ids by blast
  assume "c \<in> set cs"
  then show "nc_is_local c \<longleftrightarrow> nc_node_id c \<in> set (local_ids tb)"
    using deduplicate_props(3) [of c "load_node_candidates tb"] load_local_ids [where tb = tb] unfolding cs_def by metis
qed

text \<open>
  The XOR distance of two SHA-512 identifiers is defined, symmetric, zero exactly between equal
  identifiers, satisfies the triangle inequality, and two identifiers at the same distance from
  a key are equal, so that no two nodes tie for a key.
\<close>

theorem xor_distance_metric:
  assumes "hex_id a" and "hex_id b" and "hex_id c"
  obtains ab ac bc where "xor_distance_hex a b = Inr ab" and "xor_distance_hex b a = Inr ab"
    and "xor_distance_hex a c = Inr ac" and "xor_distance_hex b c = Inr bc"
    and "0 \<le> ab" and "ab = 0 \<longleftrightarrow> a = b" and "ac \<le> ab + bc" and "ab = ac \<longleftrightarrow> b = c"
proof -
  have inj: "id_val x = id_val y \<longleftrightarrow> x = y" if "hex_id x" "hex_id y" for x y
    using inj_on_eq_iff [OF id_val_inj] that by simp
  note v = hex_id_val(2) [OF assms(1)] hex_id_val(2) [OF assms(2)] hex_id_val(2) [OF assms(3)]
  show thesis
  proof (rule that)
    show "xor_distance_hex b a = Inr (xor (id_val a) (id_val b))"
      using xor_distance_ids [OF assms(2,1)] xd.dist_sym by simp
    show "0 \<le> xor (id_val a) (id_val b)" by (rule xd.dist_nonneg [OF v(1,2)])
    show "xor (id_val a) (id_val b) = 0 \<longleftrightarrow> a = b" using xd.dist_zero inj [OF assms(1,2)] by simp
    show "xor (id_val a) (id_val c) \<le> xor (id_val a) (id_val b) + xor (id_val b) (id_val c)"
      by (rule xd.dist_triangle [OF v])
    show "xor (id_val a) (id_val b) = xor (id_val a) (id_val c) \<longleftrightarrow> b = c"
      using xd.dist_unique inj [OF assms(2,3)] by simp
  qed (rule xor_distance_ids [OF assms(1,2)], rule xor_distance_ids [OF assms(1,3)], rule xor_distance_ids [OF assms(2,3)])
qed

theorem xor_distance_metric_witness:
  "\<exists>d. xor_distance_hex (replicate 128 CHR ''0'') (replicate 127 CHR ''0'' @ ''b'') = Inr d \<and> 0 < d"
proof -
  have h: "hex_id (replicate 128 CHR ''0'')" "hex_id (replicate 127 CHR ''0'' @ ''b'')"
    by code_simp+
  have ne: "replicate 128 CHR ''0'' \<noteq> replicate 127 CHR ''0'' @ ''b''" by code_simp
  show ?thesis by (rule xor_distance_metric [OF h h(2)]) (use ne in auto)
qed

text \<open>The nodes chosen for a key, before the endpoints are attached.\<close>

lemma ranked_selection:
  assumes ok: "tables_ok tb" and key: "hex_id key" and k: "0 \<le> k"
  obtains r and ns :: "ranked_node list" where "select_k_closest_nodes tb k key = Inr r"
    and "map nc_node_id (kc_nodes r) = map nc_node_id (take (nat k) ns)"
    and "kc_local_node_is_responsible r = list_ex nc_is_local (take (nat k) ns)"
    and "distinct (map nc_node_id ns)" and "nc_node_id ` set ns = eligible_ids tb"
    and "\<forall>n \<in> set ns. nc_is_local n \<longleftrightarrow> nc_node_id n \<in> set (local_ids tb)"
    and "map (\<lambda>n. xor (id_val key) (id_val (nc_node_id n))) ns = map rk_distance_int ns" and "sorted (map rk_distance_int ns)"
proof -
  let ?cs = "deduplicate_node_candidates (load_node_candidates tb)"
  note cs = candidates_of_tables [OF ok]
  have hex: "hex_id (nc_node_id c)" if "c \<in> set ?cs" for c using cs(2) eligible_hex [OF ok] that by blast
  obtain ms where ms: "rmap (rank_node key) ?cs = Inr ms" "map nc_node_id ms = map nc_node_id ?cs"
    "map nc_is_local ms = map nc_is_local ?cs"
    "\<And>n. n \<in> set ms \<Longrightarrow> rk_distance_int n = xor (id_val key) (id_val (nc_node_id n))"
    using rank_nodes_ok [OF key hex] by blast
  let ?ns = "py_sorted rk_distance_int ms"
  let ?r = "\<lparr> kc_key_hex = key, kc_replication_factor = k,
      kc_local_node_is_responsible = list_ex nc_is_local (attach_remote_endpoints tb (take (nat k) ?ns)),
      kc_nodes = attach_remote_endpoints tb (take (nat k) ?ns) \<rparr>"
  have loc: "nc_is_local n \<longleftrightarrow> nc_node_id n \<in> set (local_ids tb)" if n: "n \<in> set ms" for n
  proof -
    obtain i where i: "i < length ms" "n = ms ! i" using n unfolding in_set_conv_nth by blast
    have len: "length ms = length ?cs" using arg_cong [OF ms(2), of length] by (simp only: length_map)
    have "nc_node_id (ms ! i) = nc_node_id (?cs ! i)" "nc_is_local (ms ! i) = nc_is_local (?cs ! i)"
      using arg_cong [OF ms(2), of "\<lambda>l. l ! i"] arg_cong [OF ms(3), of "\<lambda>l. l ! i"] i(1) len by simp_all
    with i len cs(3) [OF nth_mem] show ?thesis by simp
  qed
  have ex: "list_ex nc_is_local ns = list_ex id (map nc_is_local ns)" for ns :: "ranked_node list"
    by (induction ns) simp_all
  show thesis
  proof (rule that [of ?r ?ns])
    show "select_k_closest_nodes tb k key = Inr ?r"
      using hex_id_val(3) [OF key] k ms(1)
      by (simp add: select_k_closest_nodes_def rank_nodes_by_distance_def slice_upto_def Let_def)
    show "map nc_node_id (kc_nodes ?r) = map nc_node_id (take (nat k) ?ns)" by (simp add: attach_preserves)
    show "kc_local_node_is_responsible ?r = list_ex nc_is_local (take (nat k) ?ns)" by (simp add: ex attach_preserves)
    show "distinct (map nc_node_id ?ns)" by (rule distinct_sort_key_map) (simp add: ms(2) cs(1))
    show "nc_node_id ` set ?ns = eligible_ids tb" using arg_cong [OF ms(2), of set] cs(2) by simp
    show "map (\<lambda>n. xor (id_val key) (id_val (nc_node_id n))) ?ns = map rk_distance_int ?ns" by (simp add: ms(4))
    show "sorted (map rk_distance_int ?ns)" by (rule sorted_sort_key)
  qed (simp add: loc)
qed

text \<open>
  C27. When the ids in the tables and the key are SHA-512 digests, the nodes chosen for a key are the
  closest ones: they are distinct, as many as the replication factor or all there are, ordered by
  strictly growing distance, each of them active (and, if remote, validated and reachable), and every
  eligible node left out is farther away than every chosen one. The local node counts as responsible
  exactly when an active local identity is chosen.
\<close>

theorem select_k_closest_correct:
  assumes "tables_ok tb" and "hex_id key" and "0 \<le> k"
  obtains r ids where "select_k_closest_nodes tb k key = Inr r" and "ids = map nc_node_id (kc_nodes r)"
    and "set ids \<subseteq> eligible_ids tb" and "length ids = min (nat k) (card (eligible_ids tb))"
    and "sorted_wrt (\<lambda>a b. xor (id_val key) (id_val a) < xor (id_val key) (id_val b)) ids"
    and "\<forall>a \<in> set ids. \<forall>b \<in> eligible_ids tb - set ids. xor (id_val key) (id_val a) < xor (id_val key) (id_val b)"
    and "kc_local_node_is_responsible r \<longleftrightarrow> set ids \<inter> set (local_ids tb) \<noteq> {}"
proof -
  obtain r and ns :: "ranked_node list" where r: "select_k_closest_nodes tb k key = Inr r" "map nc_node_id (kc_nodes r) = map nc_node_id (take (nat k) ns)"
    "kc_local_node_is_responsible r = list_ex nc_is_local (take (nat k) ns)"
    and d: "distinct (map nc_node_id ns)" and e: "nc_node_id ` set ns = eligible_ids tb"
    and l: "\<forall>n \<in> set ns. nc_is_local n \<longleftrightarrow> nc_node_id n \<in> set (local_ids tb)"
    and x: "map (\<lambda>n. xor (id_val key) (id_val (nc_node_id n))) ns = map rk_distance_int ns" and s: "sorted (map rk_distance_int ns)"
    by (rule ranked_selection [OF assms])
  define all where "all = map nc_node_id ns"
  let ?f = "\<lambda>a. xor (id_val key) (id_val a)"
  have da: "distinct all" "set all = eligible_ids tb" using d e by (simp_all add: all_def)
  have "sorted (map ?f all)" unfolding all_def map_map comp_def x by (rule s)
  moreover have "distinct (map ?f all)"
  proof -
    have "inj_on id_val (set all)" using id_val_inj eligible_hex [OF assms(1)] da(2) by (auto simp: inj_on_def)
    from xd.dist_inj [OF this] show ?thesis using da(1) by (simp add: distinct_map)
  qed
  ultimately have "sorted_wrt (<) (map ?f all)" using strict_sorted_iff [of "map ?f all"] by simp
  then have sw: "sorted_wrt (\<lambda>a b. ?f a < ?f b) all" by (simp only: sorted_wrt_map)
  have far: "?f a < ?f b" if "a \<in> set (take (nat k) all)" "b \<in> set all - set (take (nat k) all)" for a b
  proof -
    have "b \<in> set (drop (nat k) all)" using that(2) by (metis Diff_iff Un_iff append_take_drop_id set_append)
    with sw that(1) show ?thesis by (metis append_take_drop_id sorted_wrt_append)
  qed
  show thesis
  proof (rule that [OF r(1) refl])
    have ids: "map nc_node_id (kc_nodes r) = take (nat k) all" using r(2) by (simp add: all_def take_map)
    show "set (map nc_node_id (kc_nodes r)) \<subseteq> eligible_ids tb" unfolding ids da(2) [symmetric] by (rule set_take_subset)
    show "length (map nc_node_id (kc_nodes r)) = min (nat k) (card (eligible_ids tb))"
      unfolding ids using distinct_card [OF da(1)] da(2) by simp
    show "sorted_wrt (\<lambda>a b. ?f a < ?f b) (map nc_node_id (kc_nodes r))"
      unfolding ids using sw by (metis append_take_drop_id sorted_wrt_append)
    show "\<forall>a \<in> set (map nc_node_id (kc_nodes r)). \<forall>b \<in> eligible_ids tb - set (map nc_node_id (kc_nodes r)). ?f a < ?f b"
      unfolding ids using far da(2) by blast
    show "kc_local_node_is_responsible r \<longleftrightarrow> set (map nc_node_id (kc_nodes r)) \<inter> set (local_ids tb) \<noteq> {}"
      unfolding r(2,3) list_ex_iff set_map using bspec [OF l, OF in_set_takeD] by blast
  qed
qed

definition demo_id :: "char \<Rightarrow> string" where
  "demo_id c = replicate 127 CHR ''0'' @ [c]"

definition demo_tables :: node_tables where
  "demo_tables = \<lparr>
     tb_local = [\<lparr> ln_id = demo_id (CHR ''1''), ln_public_key = ''pk1'', ln_status = ''active'' \<rparr>],
     tb_remote =
       [\<lparr> rn_id = demo_id (CHR ''2''), rn_public_key = ''pk2'', rn_status = ''active'', rn_last_validated_at = Some 7 \<rparr>,
        \<lparr> rn_id = demo_id (CHR ''3''), rn_public_key = ''pk3'', rn_status = ''active'', rn_last_validated_at = None \<rparr>,
        \<lparr> rn_id = demo_id (CHR ''4''), rn_public_key = ''pk4'', rn_status = ''active'', rn_last_validated_at = Some 9 \<rparr>],
     tb_endpoints =
       [\<lparr> ep_physical_node_hash_id = demo_id (CHR ''2''), ep_transport = ''tcp'', ep_host = ''h2'', ep_port = 9,
          ep_priority = 1, ep_is_active = True, ep_last_success_at = None \<rparr>,
        \<lparr> ep_physical_node_hash_id = demo_id (CHR ''4''), ep_transport = ''udp'', ep_host = ''h4'', ep_port = 9,
          ep_priority = 1, ep_is_active = True, ep_last_success_at = Some 3 \<rparr>] \<rparr>"

theorem select_k_closest_correct_witness:
  "\<exists>r. select_k_closest_nodes demo_tables 2 (demo_id (CHR ''3'')) = Inr r \<and> length (kc_nodes r) = 2 \<and>
     eligible_ids demo_tables = set [demo_id (CHR ''1''), demo_id (CHR ''2''), demo_id (CHR ''4'')]"
proof -
  have ok: "tables_ok demo_tables" "hex_id (demo_id (CHR ''3''))" by code_simp+
  have l: "local_ids demo_tables = [demo_id (CHR ''1'')]" "remote_ids demo_tables = [demo_id (CHR ''2''), demo_id (CHR ''4'')]"
    by code_simp+
  then have e: "eligible_ids demo_tables = set [demo_id (CHR ''1''), demo_id (CHR ''2''), demo_id (CHR ''4'')]"
    by (auto simp: eligible_ids_def)
  have "card (eligible_ids demo_tables) = 3" unfolding e by (simp add: demo_id_def)
  moreover obtain r where "select_k_closest_nodes demo_tables 2 (demo_id (CHR ''3'')) = Inr r"
    "length (map nc_node_id (kc_nodes r)) = min (nat 2) (card (eligible_ids demo_tables))"
    by (rule select_k_closest_correct [OF ok, of 2]) simp_all
  ultimately show ?thesis using e by simp
qed

end
