(* ===== verification/Content_Service.thy ===== *)
theory Content_Service
  imports Base64 Dht_Service
begin

text \<open>
  \<^verbatim>\<open>app/content/service.py\<close>: local content and downloads by byte ranges. Files are a dictionary from path
  text to bytes and the database tables are lists of rows, all part of the service record;
  directories always exist and reading and writing never fail except for missing files. Paths
  are kept as the text that the code joins (an absolute right operand replaces the left one, as
  \<^verbatim>\<open>pathlib\<close> does); redundant separators are not normalised. SHA-512 (\<open>h\<close>), the signature function and
  \<^verbatim>\<open>isoformat\<close> are parameters, clock readings are arguments: \<open>now\<close> for the reading of an operation and
  \<open>upd\<close> for the one with which the \<^verbatim>\<open>onupdate\<close> column of a changed row is set.
\<close>

section \<open>State\<close>

record content_info =
  ci_content_id :: string
  ci_content_hash :: string
  ci_size_bytes :: int
  ci_content_type :: string
  ci_storage_path :: "string option"

record content_range =
  cr_content_id :: string
  cr_start_byte :: int
  cr_end_byte :: int
  cr_data :: string

definition data_base64 :: "content_range \<Rightarrow> string" where
  "data_base64 r = b64encode (cr_data r)"

record content_download_state =
  ds_session_id :: string
  ds_content_id :: string
  ds_content_hash :: string
  ds_size_bytes :: int
  ds_content_type :: string
  ds_partial_path :: string
  ds_final_path :: string
  ds_next_start_byte :: int
  ds_status :: string
  ds_error_message :: "string option"

definition completed :: "content_download_state \<Rightarrow> bool" where
  "completed st \<longleftrightarrow> ds_status st = ''completed''"

record content_provider_advertisement =
  pa_namespace :: string
  pa_logical_key :: string
  pa_record_json :: string
  pa_expires_at :: time_us
  pa_key :: string

record content_object =
  co_id :: nat
  co_content_hash :: string
  co_title :: "string option"
  co_content_type :: "string option"
  co_mime_type :: "string option"
  co_size_bytes :: int
  co_storage_path :: string
  co_is_encrypted :: bool
  co_encryption_scheme :: "string option"
  co_last_access_at :: "time_us option"
  co_is_deleted :: bool
  co_updated_at :: time_us

record content_tag =
  ct_content_object_id :: nat
  ct_tag :: string
  ct_normalized_tag :: string
  ct_created_at :: time_us

record content_advertisement =
  ad_content_object_id :: nat
  ad_advertiser_virtual_node_id :: string
  ad_published_in_ddt :: bool
  ad_published_at :: "time_us option"
  ad_expires_at :: "time_us option"
  ad_is_active :: bool

record local_virtual_node =
  vn_id :: string
  vn_public_key :: string
  vn_private_key :: string

record content_transfer_service =
  cs_storage_dir :: string
  cs_download_range_size :: int
  cs_downloads :: "(string \<times> string, content_download_state) dict"
  cs_files :: "(string, string) dict"
  cs_objects :: "content_object list"
  cs_tags :: "content_tag list"
  cs_advertisements :: "content_advertisement list"
  cs_virtual_nodes :: "local_virtual_node list"

text \<open>A service over empty tables.\<close>

definition empty_content_service :: content_transfer_service where
  "empty_content_service = \<lparr> cs_storage_dir = ''d'', cs_download_range_size = 2, cs_downloads = [], cs_files = [], cs_objects = [],
     cs_tags = [], cs_advertisements = [], cs_virtual_nodes = [] \<rparr>"

definition configure :: "string \<Rightarrow> int \<Rightarrow> content_transfer_service \<Rightarrow> content_transfer_service" where
  "configure storage_dir download_range_size cs =
     cs \<lparr> cs_storage_dir := storage_dir, cs_download_range_size := max 1 download_range_size \<rparr>"

section \<open>Rows and paths\<close>

text \<open>\<^verbatim>\<open>a or b\<close> on optional strings.\<close>

fun str_or :: "string option \<Rightarrow> string option \<Rightarrow> string option" where
  "str_or (Some (c # s)) b = Some (c # s)"
| "str_or (Some []) b = b"
| "str_or None b = b"

definition content_type_of :: "content_object \<Rightarrow> string" where
  "content_type_of ob = the (str_or (co_mime_type ob) (str_or (co_content_type ob) (Some ''application/octet-stream'')))"

definition build_content_info :: "content_object \<Rightarrow> content_info" where
  "build_content_info ob = \<lparr> ci_content_id = co_content_hash ob, ci_content_hash = co_content_hash ob,
     ci_size_bytes = co_size_bytes ob, ci_content_type = content_type_of ob, ci_storage_path = Some (co_storage_path ob) \<rparr>"

definition path_join :: "string \<Rightarrow> string \<Rightarrow> string" where
  "path_join a b = (if take 1 b = ''/'' then b else a @ ''/'' @ b)"

definition build_content_file_path :: "content_transfer_service \<Rightarrow> string \<Rightarrow> string" where
  "build_content_file_path cs content_hash =
     (let normalized_hash = py_lower (py_strip content_hash) in
      if length normalized_hash \<le> 64 then path_join (cs_storage_dir cs) normalized_hash
      else path_join (path_join (cs_storage_dir cs) (take 2 normalized_hash)) (take 64 (drop 2 normalized_hash)))"

definition find_object :: "string \<Rightarrow> content_transfer_service \<Rightarrow> content_object option" where
  "find_object content_hash cs = find (\<lambda>ob. co_content_hash ob = content_hash) (cs_objects cs)"

definition find_live_object :: "string \<Rightarrow> content_transfer_service \<Rightarrow> content_object option" where
  "find_live_object content_hash cs = find (\<lambda>ob. co_content_hash ob = content_hash \<and> \<not> co_is_deleted ob) (cs_objects cs)"

text \<open>Writing a changed row back; an \<^verbatim>\<open>UPDATE\<close> is issued, and the time stamp set, only if a column changed.\<close>

definition save_object :: "time_us \<Rightarrow> content_object \<Rightarrow> content_transfer_service \<Rightarrow> content_transfer_service" where
  "save_object upd ob cs = cs \<lparr> cs_objects :=
     map (\<lambda>o'. if co_id o' = co_id ob then (if ob = o' then o' else ob \<lparr> co_updated_at := upd \<rparr>) else o') (cs_objects cs) \<rparr>"

definition next_object_id :: "content_transfer_service \<Rightarrow> nat" where
  "next_object_id cs = Suc (fold (\<lambda>ob m. max (co_id ob) m) (cs_objects cs) 0)"

section \<open>Local content\<close>

definition get_content_info :: "time_us \<Rightarrow> time_us \<Rightarrow> string option \<Rightarrow> content_transfer_service \<Rightarrow>
    content_transfer_service \<times> content_info option" where
  "get_content_info now upd content_id cs = (case content_id of None \<Rightarrow> (cs, None)
     | Some cid \<Rightarrow> if cid = [] then (cs, None)
         else (case find_live_object cid cs of None \<Rightarrow> (cs, None)
         | Some ob \<Rightarrow> (save_object upd (ob \<lparr> co_last_access_at := Some now \<rparr>) cs, Some (build_content_info ob))))"

fun collect_tags :: "nat \<Rightarrow> time_us \<Rightarrow> string list \<Rightarrow> string list \<Rightarrow> content_tag list" where
  "collect_tags oid created_at seen [] = []"
| "collect_tags oid created_at seen (tag # tags) =
     (let normalized_tag = py_lower (py_strip tag) in
      if normalized_tag = [] \<or> normalized_tag \<in> set seen then collect_tags oid created_at seen tags
      else \<lparr> ct_content_object_id = oid, ct_tag = py_strip tag, ct_normalized_tag = normalized_tag, ct_created_at = created_at \<rparr>
             # collect_tags oid created_at (normalized_tag # seen) tags)"

definition replace_tags :: "nat \<Rightarrow> string list \<Rightarrow> time_us \<Rightarrow> content_transfer_service \<Rightarrow> content_transfer_service" where
  "replace_tags oid tags created_at cs = cs \<lparr> cs_tags :=
     filter (\<lambda>g. ct_content_object_id g \<noteq> oid) (cs_tags cs) @ collect_tags oid created_at [] tags \<rparr>"

definition write_file :: "string \<Rightarrow> string \<Rightarrow> content_transfer_service \<Rightarrow> content_transfer_service" where
  "write_file path data cs = cs \<lparr> cs_files := dict_set path data (cs_files cs) \<rparr>"

definition store_local_content :: "(string \<Rightarrow> string) \<Rightarrow> time_us \<Rightarrow> time_us \<Rightarrow> string \<Rightarrow> string option \<Rightarrow> string \<Rightarrow>
    string list \<Rightarrow> bool \<Rightarrow> string option \<Rightarrow> content_transfer_service \<Rightarrow> content_transfer_service \<times> content_info result" where
  "store_local_content h now upd data title content_type tags is_encrypted encryption_scheme cs =
     (if data = [] then (cs, Inl (ValueError ''Content cannot be empty.''))
      else
        let content_hash = h data;
            file_path = build_content_file_path cs content_hash;
            cs1 = write_file file_path data cs in
        case find_object content_hash cs1 of
          None \<Rightarrow>
            let ob = \<lparr> co_id = next_object_id cs1, co_content_hash = content_hash, co_title = title,
                  co_content_type = Some content_type, co_mime_type = Some content_type, co_size_bytes = int (length data),
                  co_storage_path = file_path, co_is_encrypted = is_encrypted, co_encryption_scheme = encryption_scheme,
                  co_last_access_at = Some now, co_is_deleted = False, co_updated_at = upd \<rparr>;
                cs2 = cs1 \<lparr> cs_objects := cs_objects cs1 @ [ob] \<rparr>
            in (replace_tags (co_id ob) tags now cs2, Inr (build_content_info ob))
        | Some ob0 \<Rightarrow>
            let ob = ob0 \<lparr> co_title := str_or title (co_title ob0), co_content_type := Some content_type,
                  co_mime_type := Some content_type, co_size_bytes := int (length data), co_storage_path := file_path,
                  co_is_encrypted := is_encrypted, co_encryption_scheme := encryption_scheme,
                  co_last_access_at := Some now, co_is_deleted := False \<rparr>
            in (replace_tags (co_id ob) tags now (save_object upd ob cs1), Inr (build_content_info ob)))"

definition list_content :: "int \<Rightarrow> content_transfer_service \<Rightarrow> content_info list" where
  "list_content limit cs =
     (let resolved_limit = max 1 (min limit 1000) in
      map build_content_info (take (nat resolved_limit)
        (py_sorted (\<lambda>ob. (- co_updated_at ob, - int (co_id ob))) (filter (\<lambda>ob. \<not> co_is_deleted ob) (cs_objects cs)))))"

definition read_content_range :: "time_us \<Rightarrow> time_us \<Rightarrow> string \<Rightarrow> int \<Rightarrow> int \<Rightarrow> content_transfer_service \<Rightarrow>
    content_transfer_service \<times> content_range result" where
  "read_content_range now upd content_id start_byte end_byte cs =
     (if start_byte < 0 then (cs, Inl (ValueError ''start_byte precisa ser maior ou igual a zero.''))
      else if end_byte \<le> start_byte then (cs, Inl (ValueError ''end_byte precisa ser maior que start_byte.''))
      else case get_content_info now upd (Some content_id) cs of
        (cs1, None) \<Rightarrow> (cs1, Inl FileNotFoundError)
      | (cs1, Some info) \<Rightarrow> (cs1,
          (case ci_storage_path info of None \<Rightarrow> Inl FileNotFoundError
           | Some path \<Rightarrow>
               if end_byte > ci_size_bytes info then Inl (ValueError ''end_byte cannot exceed the content size.'')
               else (case dict_get (cs_files cs1) path of None \<Rightarrow> Inl FileNotFoundError
                | Some bytes \<Rightarrow>
                    let data = take (nat (end_byte - start_byte)) (drop (nat start_byte) bytes) in
                    Inr \<lparr> cr_content_id = content_id, cr_start_byte = start_byte,
                      cr_end_byte = start_byte + int (length data), cr_data = data \<rparr>))))"

section \<open>Downloads\<close>

definition download_key :: "string \<Rightarrow> string \<Rightarrow> string \<times> string" where
  "download_key session_id content_id = (session_id, content_id)"

definition find_download_state :: "string \<Rightarrow> string \<Rightarrow> content_transfer_service \<Rightarrow> content_download_state result" where
  "find_download_state session_id content_id cs =
     (case dict_get (cs_downloads cs) (download_key session_id content_id) of
        None \<Rightarrow> Inl (ValueError ''Content download was not started.'') | Some st \<Rightarrow> Inr st)"

definition save_download :: "content_download_state \<Rightarrow> content_transfer_service \<Rightarrow> content_transfer_service" where
  "save_download st cs = cs \<lparr> cs_downloads := dict_set (download_key (ds_session_id st) (ds_content_id st)) st (cs_downloads cs) \<rparr>"

definition reset_partial_download_file :: "string \<Rightarrow> content_transfer_service \<Rightarrow> content_transfer_service" where
  "reset_partial_download_file partial_path cs = write_file partial_path [] cs"

definition start_or_update_download :: "string \<Rightarrow> string \<Rightarrow> string \<Rightarrow> int \<Rightarrow> string \<Rightarrow> content_transfer_service \<Rightarrow>
    content_transfer_service \<times> content_download_state" where
  "start_or_update_download session_id content_id content_hash size_bytes content_type cs =
     (case dict_get (cs_downloads cs) (download_key session_id content_id) of
        Some existing_state \<Rightarrow> (cs, existing_state)
      | None \<Rightarrow>
          let final_path = build_content_file_path cs content_hash;
              partial_path = final_path @ ''.part'';
              cs1 = reset_partial_download_file partial_path cs;
              st = \<lparr> ds_session_id = session_id, ds_content_id = content_id, ds_content_hash = content_hash,
                ds_size_bytes = size_bytes, ds_content_type = content_type, ds_partial_path = partial_path,
                ds_final_path = final_path, ds_next_start_byte = 0, ds_status = ''downloading'', ds_error_message = None \<rparr>
          in (save_download st cs1, st))"

definition get_next_range_request :: "string \<Rightarrow> string \<Rightarrow> content_transfer_service \<Rightarrow> (int \<times> int) option result" where
  "get_next_range_request session_id content_id cs =
     rbind (find_download_state session_id content_id cs) (\<lambda>st.
       if ds_status st \<noteq> ''downloading'' then Inr None
       else if ds_next_start_byte st \<ge> ds_size_bytes st then Inr None
       else Inr (Some (ds_next_start_byte st, min (ds_next_start_byte st + cs_download_range_size cs) (ds_size_bytes st))))"

definition upsert_downloaded_content :: "time_us \<Rightarrow> time_us \<Rightarrow> content_download_state \<Rightarrow>
    content_transfer_service \<Rightarrow> content_transfer_service" where
  "upsert_downloaded_content now upd st cs =
     (case find_object (ds_content_hash st) cs of
        None \<Rightarrow> cs \<lparr> cs_objects := cs_objects cs @
          [\<lparr> co_id = next_object_id cs, co_content_hash = ds_content_hash st, co_title = None,
             co_content_type = Some (ds_content_type st), co_mime_type = Some (ds_content_type st),
             co_size_bytes = ds_size_bytes st, co_storage_path = ds_final_path st, co_is_encrypted = False,
             co_encryption_scheme = None, co_last_access_at = None, co_is_deleted = False, co_updated_at = upd \<rparr>] \<rparr>
      | Some ob \<Rightarrow> save_object upd (ob \<lparr> co_content_type := Some (ds_content_type st),
          co_mime_type := Some (ds_content_type st), co_size_bytes := ds_size_bytes st,
          co_storage_path := ds_final_path st, co_is_deleted := False, co_last_access_at := Some now \<rparr>) cs)"

definition fail_download :: "string \<Rightarrow> content_download_state \<Rightarrow> content_download_state" where
  "fail_download message st = st \<lparr> ds_status := ''failed'', ds_error_message := Some message \<rparr>"

definition complete_download :: "(string \<Rightarrow> string) \<Rightarrow> time_us \<Rightarrow> time_us \<Rightarrow> content_download_state \<Rightarrow>
    content_transfer_service \<Rightarrow> content_transfer_service \<times> content_download_state result" where
  "complete_download h now upd st cs =
     (case dict_get (cs_files cs) (ds_partial_path st) of None \<Rightarrow> (cs, Inl FileNotFoundError)
      | Some bytes \<Rightarrow>
          if int (length bytes) \<noteq> ds_size_bytes st
          then let st' = fail_download ''Final file size does not match metadata.'' st in (save_download st' cs, Inr st')
          else if h bytes \<noteq> ds_content_hash st
          then let st' = fail_download ''Final file hash does not match content_hash.'' st in (save_download st' cs, Inr st')
          else
            let cs1 = cs \<lparr> cs_files := dict_set (ds_final_path st) bytes (dict_pop (ds_partial_path st) (cs_files cs)) \<rparr>;
                cs2 = upsert_downloaded_content now upd st cs1;
                st' = st \<lparr> ds_status := ''completed'' \<rparr>
            in (save_download st' cs2, Inr st'))"

definition handle_content_range_response :: "(string \<Rightarrow> string) \<Rightarrow> time_us \<Rightarrow> time_us \<Rightarrow> string \<Rightarrow> string \<Rightarrow> int \<Rightarrow> int \<Rightarrow> string \<Rightarrow>
    content_transfer_service \<Rightarrow> content_transfer_service \<times> content_download_state result" where
  "handle_content_range_response h now upd session_id content_id start_byte end_byte data64 cs =
     (case find_download_state session_id content_id cs of Inl e \<Rightarrow> (cs, Inl e)
      | Inr st \<Rightarrow>
          if ds_status st \<noteq> ''downloading'' then (cs, Inr st)
          else if start_byte \<noteq> ds_next_start_byte st
          then let st' = fail_download ''Range recebido fora de ordem.'' st in (save_download st' cs, Inr st')
          else (case b64decode data64 of
            None \<Rightarrow> let st' = fail_download ''Range recebido com base64 invalido.'' st in (save_download st' cs, Inr st')
          | Some data \<Rightarrow>
              if end_byte \<noteq> start_byte + int (length data)
              then let st' = fail_download ''Received range size does not match start/end.'' st in (save_download st' cs, Inr st')
              else
                let old = (case dict_get (cs_files cs) (ds_partial_path st) of None \<Rightarrow> [] | Some b \<Rightarrow> b);
                    st1 = st \<lparr> ds_next_start_byte := end_byte \<rparr>;
                    cs1 = save_download st1 (write_file (ds_partial_path st) (old @ data) cs) in
                if ds_next_start_byte st1 \<ge> ds_size_bytes st1 then complete_download h now upd st1 cs1
                else (cs1, Inr st1)))"

definition get_download_state :: "string \<Rightarrow> string \<Rightarrow> content_transfer_service \<Rightarrow> content_download_state option" where
  "get_download_state session_id content_id cs = dict_get (cs_downloads cs) (download_key session_id content_id)"

definition list_download_states :: "string option \<Rightarrow> content_transfer_service \<Rightarrow> content_download_state list" where
  "list_download_states session_id cs =
     (let states = dict_values (cs_downloads cs);
          states1 = (case session_id of None \<Rightarrow> states
            | Some s \<Rightarrow> if s = [] then states else filter (\<lambda>st. ds_session_id st = s) states)
      in py_sorted (\<lambda>st. (ds_session_id st, ds_content_id st)) states1)"

section \<open>Advertising\<close>

definition content_dht_key :: "(string \<Rightarrow> string) \<Rightarrow> string \<Rightarrow> string \<Rightarrow> string" where
  "content_dht_key h namespace logical_key = h (utf8_encode (namespace @ ''|'' @ logical_key))"

definition sign_ddt_holder :: "(string \<Rightarrow> string \<Rightarrow> string) \<Rightarrow> string \<Rightarrow> string \<Rightarrow> string \<Rightarrow> string \<Rightarrow> string" where
  "sign_ddt_holder sign key pk_virtual_node expires_at private_key_pem =
     sign (bytes_to_hex (utf8_encode (json_dumps (JObj
       [(''key'', JStr key), (''pk_virtual_node'', JStr pk_virtual_node), (''expires_at'', JStr expires_at)])))) private_key_pem"

definition build_provider_advertisement :: "(string \<Rightarrow> string) \<Rightarrow> (string \<Rightarrow> string \<Rightarrow> string) \<Rightarrow> (time_us \<Rightarrow> string) \<Rightarrow> time_us \<Rightarrow>
    string \<Rightarrow> string \<Rightarrow> int \<Rightarrow> content_transfer_service \<Rightarrow> content_provider_advertisement option" where
  "build_provider_advertisement h sign isofmt now content_id local_virtual_node_id ttl_seconds cs =
     (if content_id = [] \<or> local_virtual_node_id = [] then None
      else
        let expires_at = now + timedelta_seconds (of_int (max 1 ttl_seconds)) in
        case (find_live_object content_id cs, find (\<lambda>v. vn_id v = local_virtual_node_id) (cs_virtual_nodes cs)) of
          (Some ob, Some v) \<Rightarrow>
            let tags = map ct_tag (py_sorted (\<lambda>g. (ct_normalized_tag g, ct_tag g))
                  (filter (\<lambda>g. ct_content_object_id g = co_id ob) (cs_tags cs)));
                title = the (str_or (co_title ob) (Some (co_content_hash ob)));
                key = content_dht_key h ''ddt'' content_id;
                signature = sign_ddt_holder sign key (vn_public_key v) (isofmt expires_at) (vn_private_key v)
            in Some \<lparr> pa_namespace = ''ddt'', pa_logical_key = content_id,
                 pa_record_json = serialize_record (Ddt \<lparr> ddt_title = title, ddt_type = content_type_of ob, ddt_tags = tags,
                   ddt_holders = [\<lparr> dh_pk_virtual_node = vn_public_key v, dh_expires_at = isofmt expires_at,
                     dh_signature = signature, dh_pow_nonce = None \<rparr>] \<rparr>),
                 pa_expires_at = expires_at, pa_key = key \<rparr>
        | _ \<Rightarrow> None)"

definition mark_provider_advertisement_published :: "time_us \<Rightarrow> string \<Rightarrow> string \<Rightarrow> time_us \<Rightarrow>
    content_transfer_service \<Rightarrow> content_transfer_service" where
  "mark_provider_advertisement_published now content_id local_virtual_node_id expires_at cs =
     (case find_object content_id cs of None \<Rightarrow> cs
      | Some ob \<Rightarrow>
          let mine = (\<lambda>a. ad_content_object_id a = co_id ob \<and> ad_advertiser_virtual_node_id a = local_virtual_node_id);
              published = (\<lambda>a. a \<lparr> ad_published_in_ddt := True, ad_published_at := Some now, ad_expires_at := Some expires_at,
                ad_is_active := True \<rparr>) in
          if list_ex mine (cs_advertisements cs)
          then cs \<lparr> cs_advertisements :=
            (let pre = takeWhile (\<lambda>a. \<not> mine a) (cs_advertisements cs); post = dropWhile (\<lambda>a. \<not> mine a) (cs_advertisements cs)
             in pre @ published (hd post) # tl post) \<rparr>
          else cs \<lparr> cs_advertisements := cs_advertisements cs @
            [\<lparr> ad_content_object_id = co_id ob, ad_advertiser_virtual_node_id = local_virtual_node_id,
               ad_published_in_ddt = True, ad_published_at = Some now, ad_expires_at = Some expires_at, ad_is_active = True \<rparr>] \<rparr>)"

end
