(* ===== verification/Content_Transfer.thy ===== *)
theory Content_Transfer
  imports Content_Service
begin

text \<open>
  Properties of \<^verbatim>\<open>app/content/service.py\<close>: what a stored content serves, what a finished download
  guarantees, and that an honest provider's content arrives. The last one runs two services against
  each other, the requests of one answered by the ranges of the other.
\<close>

section \<open>Files and rows\<close>

lemma write_file_simps [simp]:
  "dict_get (cs_files (write_file p d cs)) q = (if q = p then Some d else dict_get (cs_files cs) q)"
  "cs_downloads (write_file p d cs) = cs_downloads cs" "cs_objects (write_file p d cs) = cs_objects cs"
  "cs_storage_dir (write_file p d cs) = cs_storage_dir cs" "cs_download_range_size (write_file p d cs) = cs_download_range_size cs"
  by (simp_all add: write_file_def)

lemma save_download_simps [simp]:
  "cs_files (save_download st cs) = cs_files cs" "cs_objects (save_download st cs) = cs_objects cs"
  "cs_storage_dir (save_download st cs) = cs_storage_dir cs" "cs_download_range_size (save_download st cs) = cs_download_range_size cs"
  "dict_get (cs_downloads (save_download st cs)) k = (if k = (ds_session_id st, ds_content_id st) then Some st else dict_get (cs_downloads cs) k)"
  by (simp_all add: save_download_def download_key_def)

lemma save_object_simps [simp]:
  "cs_files (save_object upd ob cs) = cs_files cs" "cs_downloads (save_object upd ob cs) = cs_downloads cs"
  "cs_storage_dir (save_object upd ob cs) = cs_storage_dir cs" "cs_download_range_size (save_object upd ob cs) = cs_download_range_size cs"
  by (simp_all add: save_object_def)

declare reset_partial_download_file_def [simp]

text \<open>A row that is changed in place is found again.\<close>

lemma find_saved:
  assumes "find P t = Some ob" and "co_id ob' = co_id ob" and "P ob'" and "P (ob' \<lparr> co_updated_at := upd \<rparr>)"
  shows "\<exists>r. find P (map (\<lambda>o'. if co_id o' = co_id ob' then (if ob' = o' then o' else ob' \<lparr> co_updated_at := upd \<rparr>) else o') t) = Some r \<and>
    (r = ob' \<or> r = ob' \<lparr> co_updated_at := upd \<rparr>)"
  using assms by (induction t) (auto split: if_splits)

lemma find_live_saved:
  assumes "find_live_object cid cs = Some ob" and "co_id ob' = co_id ob" and "co_content_hash ob' = cid" and "\<not> co_is_deleted ob'"
  shows "\<exists>r. find_live_object cid (save_object upd ob' cs) = Some r \<and> (r = ob' \<or> r = ob' \<lparr> co_updated_at := upd \<rparr>)"
  using find_saved [of "\<lambda>ob. co_content_hash ob = cid \<and> \<not> co_is_deleted ob" "cs_objects cs" ob ob' upd] assms
  by (simp add: find_live_object_def save_object_def)

lemma find_SomeD: "find P t = Some x \<Longrightarrow> P x \<and> x \<in> set t"
  by (induction t) (auto split: if_splits)

section \<open>Serving\<close>

text \<open>The service holds the content \<open>data\<close> under the id \<open>cid\<close>.\<close>

definition serves :: "content_transfer_service \<Rightarrow> string \<Rightarrow> string \<Rightarrow> bool" where
  "serves cs cid data \<longleftrightarrow> cid \<noteq> [] \<and> (\<exists>ob. find_live_object cid cs = Some ob \<and> co_size_bytes ob = int (length data) \<and>
     dict_get (cs_files cs) (co_storage_path ob) = Some data)"

lemma serves_info:
  assumes "serves cs cid data"
  shows "serves (fst (get_content_info now upd (Some cid) cs)) cid data"
    and "\<exists>info. snd (get_content_info now upd (Some cid) cs) = Some info \<and> ci_size_bytes info = int (length data) \<and>
      ci_content_hash info = cid \<and> (\<exists>p. ci_storage_path info = Some p \<and> dict_get (cs_files cs) p = Some data)"
proof -
  obtain ob where ob: "cid \<noteq> []" "find_live_object cid cs = Some ob" "co_size_bytes ob = int (length data)"
    "dict_get (cs_files cs) (co_storage_path ob) = Some data" using assms by (auto simp: serves_def)
  have "co_content_hash ob = cid" "\<not> co_is_deleted ob" using find_SomeD [of _ "cs_objects cs" ob] ob(2) by (auto simp: find_live_object_def)
  with find_live_saved [OF ob(2), of "ob \<lparr> co_last_access_at := Some now \<rparr>" upd] ob
  show "serves (fst (get_content_info now upd (Some cid) cs)) cid data" by (auto simp: get_content_info_def serves_def)
  show "\<exists>info. snd (get_content_info now upd (Some cid) cs) = Some info \<and> ci_size_bytes info = int (length data) \<and>
      ci_content_hash info = cid \<and> (\<exists>p. ci_storage_path info = Some p \<and> dict_get (cs_files cs) p = Some data)"
    using ob \<open>co_content_hash ob = cid\<close> by (simp add: get_content_info_def build_content_info_def)
qed

lemma get_info_files [simp]: "cs_files (fst (get_content_info now upd c cs)) = cs_files cs"
  by (simp add: get_content_info_def split: option.split)

lemma read_served:
  assumes "serves cs cid data" and "0 \<le> s" and "s < e" and "e \<le> int (length data)"
  shows "\<exists>cs'. read_content_range now upd cid s e cs = (cs', Inr \<lparr> cr_content_id = cid, cr_start_byte = s, cr_end_byte = e,
      cr_data = take (nat (e - s)) (drop (nat s) data) \<rparr>) \<and> serves cs' cid data"
proof -
  let ?g = "get_content_info now upd (Some cid) cs"
  obtain info p where i: "snd ?g = Some info" "ci_size_bytes info = int (length data)" "ci_storage_path info = Some p"
    "dict_get (cs_files cs) p = Some data" using serves_info(2) [OF assms(1)] by blast
  then have g: "?g = (fst ?g, Some info)" by (metis prod.collapse)
  have "nat (e - s) \<le> length data - nat s" using assms(2-4) by linarith
  then have len: "s + int (length (take (nat (e - s)) (drop (nat s) data))) = e" using assms(2,3) by simp
  show ?thesis
    by (rule exI [of _ "fst ?g"], subst read_content_range_def, subst g)
      (use assms(2-4) i len serves_info(1) [OF assms(1)] in simp)
qed

section \<open>Storing\<close>

lemma find_appended: "find P t = None \<Longrightarrow> P x \<Longrightarrow> find P (t @ [x]) = Some x"
  by (induction t) (auto split: if_splits)

lemma find_NoneD: "find P t = None \<Longrightarrow> x \<in> set t \<Longrightarrow> \<not> P x"
  by (induction t) (auto split: if_splits)

lemma find_None_weaken: "find P t = None \<Longrightarrow> (\<And>x. Q x \<Longrightarrow> P x) \<Longrightarrow> find Q t = None"
  by (induction t) (auto split: if_splits)

text \<open>At most one row per content hash, and distinct ids: the schema's unique columns.\<close>

definition objects_ok :: "content_transfer_service \<Rightarrow> bool" where
  "objects_ok cs \<longleftrightarrow> distinct (map co_id (cs_objects cs)) \<and> distinct (map co_content_hash (cs_objects cs))"

lemma replace_tags_simps [simp]:
  "cs_files (replace_tags oid tags now cs) = cs_files cs" "cs_objects (replace_tags oid tags now cs) = cs_objects cs"
  by (simp_all add: replace_tags_def)

lemma find_saved_row:
  assumes "objects_ok cs" and "find_object x cs = Some ob0" and "co_id ob = co_id ob0" and "co_content_hash ob = x" and "\<not> co_is_deleted ob"
  shows "\<exists>r. find_live_object x (save_object upd ob cs) = Some r \<and> (r = ob \<or> r = ob \<lparr> co_updated_at := upd \<rparr>)"
proof -
  let ?f = "\<lambda>o'. if co_id o' = co_id ob then (if ob = o' then o' else ob \<lparr> co_updated_at := upd \<rparr>) else o'"
  have "\<exists>r. find (\<lambda>ob. co_content_hash ob = x \<and> \<not> co_is_deleted ob) (map ?f t) = Some r \<and> (r = ob \<or> r = ob \<lparr> co_updated_at := upd \<rparr>)"
    if "find (\<lambda>ob. co_content_hash ob = x) t = Some ob0" for t
    using that assms(3-5) by (induction t) (auto split: if_splits)
  with assms(2) show ?thesis by (simp add: find_object_def find_live_object_def save_object_def)
qed

lemma stored_serves:
  assumes "objects_ok cs" and "data \<noteq> []" and "h data \<noteq> []"
  shows "serves (fst (store_local_content h now upd data title ty tags encr scheme cs)) (h data) data"
proof -
  let ?p = "build_content_file_path cs (h data)" and ?cs = "write_file (build_content_file_path cs (h data)) data cs"
  show ?thesis
  proof (cases "find_object (h data) ?cs")
    case None
    then have n: "find (\<lambda>ob. co_content_hash ob = h data) (cs_objects cs) = None" by (simp add: find_object_def)
    have "find (\<lambda>ob. co_content_hash ob = h data \<and> \<not> co_is_deleted ob) (cs_objects cs) = None"
      by (rule find_None_weaken [OF n]) simp
    with None assms(2,3) show ?thesis
      by (simp add: store_local_content_def serves_def Let_def find_live_object_def find_appended)
  next
    case (Some ob0)
    let ?ob = "ob0 \<lparr> co_title := str_or title (co_title ob0), co_content_type := Some ty,
      co_mime_type := Some ty, co_size_bytes := int (length data), co_storage_path := ?p,
      co_is_encrypted := encr, co_encryption_scheme := scheme, co_last_access_at := Some now, co_is_deleted := False \<rparr>"
    have ok: "objects_ok ?cs" using assms(1) by (simp add: objects_ok_def)
    have hash: "co_content_hash ob0 = h data" using find_SomeD [of _ "cs_objects cs" ob0] Some by (auto simp: find_object_def)
    obtain r where r: "find_live_object (h data) (save_object upd ?ob ?cs) = Some r" "r = ?ob \<or> r = ?ob \<lparr> co_updated_at := upd \<rparr>"
      using find_saved_row [OF ok Some, of ?ob upd] hash by auto
    have f: "fst (store_local_content h now upd data title ty tags encr scheme cs) =
        replace_tags (co_id ob0) tags now (save_object upd ?ob ?cs)"
      using assms(2) Some by (simp add: store_local_content_def Let_def)
    from r(2) have "co_size_bytes r = int (length data)" "co_storage_path r = ?p" by auto
    with r(1) assms(3) show ?thesis unfolding f by (simp add: serves_def find_live_object_def)
  qed
qed

section \<open>Downloading\<close>

definition download_live :: "content_transfer_service \<Rightarrow> string \<Rightarrow> string \<Rightarrow> content_download_state \<Rightarrow> string \<Rightarrow> bool" where
  "download_live cs sid cid st got \<longleftrightarrow> dict_get (cs_downloads cs) (sid, cid) = Some st \<and> ds_session_id st = sid \<and> ds_content_id st = cid \<and>
     ds_status st = ''downloading'' \<and> ds_partial_path st = ds_final_path st @ ''.part'' \<and>
     dict_get (cs_files cs) (ds_partial_path st) = Some got \<and> ds_next_start_byte st = int (length got)"

lemma started_live:
  assumes "dict_get (cs_downloads cs) (sid, cid) = None"
  obtains st where "snd (start_or_update_download sid cid hash n ty cs) = st"
    and "download_live (fst (start_or_update_download sid cid hash n ty cs)) sid cid st []"
    and "ds_content_hash st = hash" and "ds_size_bytes st = n" and "ds_final_path st = build_content_file_path cs hash"
  using that assms by (simp add: start_or_update_download_def download_key_def Let_def download_live_def)

lemma upsert_simps [simp]:
  "cs_files (upsert_downloaded_content now upd st cs) = cs_files cs"
  "cs_downloads (upsert_downloaded_content now upd st cs) = cs_downloads cs"
  by (simp_all add: upsert_downloaded_content_def split: option.split)

lemma upserted_found:
  "\<exists>ob. find_object (ds_content_hash st) (upsert_downloaded_content now upd st cs) = Some ob \<and> co_storage_path ob = ds_final_path st \<and>
     co_size_bytes ob = ds_size_bytes st \<and> \<not> co_is_deleted ob"
proof (cases "find_object (ds_content_hash st) cs")
  case None
  then show ?thesis by (simp add: upsert_downloaded_content_def find_object_def find_appended)
next
  case (Some ob)
  let ?ob = "ob \<lparr> co_content_type := Some (ds_content_type st), co_mime_type := Some (ds_content_type st),
    co_size_bytes := ds_size_bytes st, co_storage_path := ds_final_path st, co_is_deleted := False, co_last_access_at := Some now \<rparr>"
  have "co_content_hash ob = ds_content_hash st" using find_SomeD [of _ "cs_objects cs" ob] Some by (auto simp: find_object_def)
  with find_saved [of "\<lambda>ob. co_content_hash ob = ds_content_hash st" "cs_objects cs" ob ?ob upd] Some show ?thesis
    by (auto simp: upsert_downloaded_content_def find_object_def save_object_def)
qed

text \<open>What a response does, by branch.\<close>

lemma response_appends:
  assumes "download_live cs sid cid st got" and "s = int (length got)" and "e = s + int (length data)" and "e < ds_size_bytes st"
  shows "\<exists>cs' st'. handle_content_range_response h now upd sid cid s e (b64encode data) cs = (cs', Inr st') \<and>
    download_live cs' sid cid st' (got @ data) \<and> st' = st \<lparr> ds_next_start_byte := e \<rparr> \<and>
    cs_download_range_size cs' = cs_download_range_size cs"
  using assms by (auto simp: handle_content_range_response_def find_download_state_def download_key_def download_live_def
      b64.dec_enc Let_def)

lemma response_completes:
  assumes "download_live cs sid cid st got" and "s = int (length got)" and "e = s + int (length data)" and "ds_size_bytes st = e"
    and "h (got @ data) = ds_content_hash st"
  shows "\<exists>cs' st'. handle_content_range_response h now upd sid cid s e (b64encode data) cs = (cs', Inr st') \<and> completed st' \<and>
    dict_get (cs_downloads cs') (sid, cid) = Some st' \<and> ds_final_path st' = ds_final_path st \<and>
    dict_get (cs_files cs') (ds_final_path st) = Some (got @ data)"
proof -
  let ?st = "st \<lparr> ds_next_start_byte := e \<rparr>"
  let ?cs = "save_download ?st (write_file (ds_partial_path st) (got @ data) cs)"
  have "handle_content_range_response h now upd sid cid s e (b64encode data) cs = complete_download h now upd ?st ?cs"
    using assms(1-4) unfolding download_live_def
    by (elim conjE) (simp add: handle_content_range_response_def find_download_state_def download_key_def b64.dec_enc Let_def)
  with assms show ?thesis by (auto simp: complete_download_def download_live_def Let_def completed_def)
qed

section \<open>A transfer between two services\<close>

text \<open>
  One round: the downloader asks for its next range and the provider reads it; when either has
  nothing to do or fails, nothing happens.
\<close>

definition transfer_round :: "(string \<Rightarrow> string) \<Rightarrow> time_us \<Rightarrow> time_us \<Rightarrow> string \<Rightarrow> string \<Rightarrow>
    content_transfer_service \<times> content_transfer_service \<Rightarrow> content_transfer_service \<times> content_transfer_service" where
  "transfer_round h now upd sid cid = (\<lambda>(provider, downloader).
     case get_next_range_request sid cid downloader of
       Inr (Some (s, e)) \<Rightarrow>
         (case read_content_range now upd cid s e provider of
            (provider', Inr r) \<Rightarrow> (provider', fst (handle_content_range_response h now upd sid cid
               (cr_start_byte r) (cr_end_byte r) (data_base64 r) downloader))
          | (provider', Inl _) \<Rightarrow> (provider', downloader))
     | _ \<Rightarrow> (provider, downloader))"

lemma transfer_round_step:
  fixes got data :: string
  assumes "serves p cid data" and "download_live d sid cid st got" and "ds_size_bytes st = int (length data)"
    and "ds_content_hash st = h data" and "got = take (length got) data" and "length got < length data" and "1 \<le> cs_download_range_size d"
  defines "k \<equiv> nat (cs_download_range_size d)"
  defines "got' \<equiv> take (length got + k) data"
  shows "\<exists>p' d' st'. transfer_round h now upd sid cid (p, d) = (p', d') \<and> serves p' cid data \<and>
    (if length got + k < length data
     then download_live d' sid cid st' got' \<and> ds_size_bytes st' = int (length data) \<and> ds_content_hash st' = h data \<and>
       ds_final_path st' = ds_final_path st \<and> cs_download_range_size d' = cs_download_range_size d
     else get_download_state sid cid d' = Some st' \<and> completed st' \<and> ds_final_path st' = ds_final_path st \<and>
       dict_get (cs_files d') (ds_final_path st) = Some data)"
proof -
  let ?n = "length got"
  let ?s = "int ?n" and ?e = "int (min (?n + k) (length data))"
  let ?x = "take (nat (?e - ?s)) (drop ?n data)"
  have kk: "cs_download_range_size d = int k" "0 < k" using assms(7) by (simp_all add: k_def)
  have nx: "get_next_range_request sid cid d = Inr (Some (?s, ?e))"
    using assms(2,3,6) kk by (auto simp: get_next_range_request_def find_download_state_def download_key_def download_live_def min_def)
  obtain p' where r: "read_content_range now upd cid ?s ?e p =
      (p', Inr \<lparr> cr_content_id = cid, cr_start_byte = ?s, cr_end_byte = ?e, cr_data = ?x \<rparr>)" "serves p' cid data"
    using read_served [OF assms(1), of ?s ?e now upd] assms(6) kk(2) by auto
  have ex: "?e = ?s + int (length ?x)" using assms(6) by auto
  have "got @ ?x = take ?n data @ take (nat (?e - ?s)) (drop ?n data)" using assms(5) by simp
  also have "\<dots> = take (?n + nat (?e - ?s)) data" by (simp only: take_add)
  also have "?n + nat (?e - ?s) = min (?n + k) (length data)" using assms(6) by auto
  also have "take (min (?n + k) (length data)) data = got'" by (simp add: got'_def min_def)
  finally have glue: "got @ ?x = got'" .
  have rd: "transfer_round h now upd sid cid (p, d) =
      (p', fst (handle_content_range_response h now upd sid cid ?s ?e (b64encode ?x) d))"
    by (simp add: transfer_round_def nx r(1) data_base64_def)
  show ?thesis
  proof (cases "?n + k < length data")
    case True
    with response_appends [OF assms(2) refl ex, of h now upd] assms(3) obtain d' st' where
      "handle_content_range_response h now upd sid cid ?s ?e (b64encode ?x) d = (d', Inr st')"
      "download_live d' sid cid st' (got @ ?x)" "st' = st \<lparr> ds_next_start_byte := ?e \<rparr>" "cs_download_range_size d' = cs_download_range_size d"
      by auto
    with True rd r(2) glue assms(3,4) show ?thesis by auto
  next
    case False
    then have "ds_size_bytes st = ?e" "h (got @ ?x) = ds_content_hash st" using assms(3,4) glue by (simp_all add: got'_def)
    from response_completes [where h = h, OF assms(2) refl ex this, of now upd] obtain d' st' where
      "handle_content_range_response h now upd sid cid ?s ?e (b64encode ?x) d = (d', Inr st')" "completed st'"
      "dict_get (cs_downloads d') (sid, cid) = Some st'" "ds_final_path st' = ds_final_path st"
      "dict_get (cs_files d') (ds_final_path st) = Some (got @ ?x)" by blast
    with False rd r(2) glue show ?thesis by (auto simp: get_download_state_def download_key_def got'_def)
  qed
qed

lemma one_more_round: "0 < k \<Longrightarrow> a = b + k \<Longrightarrow> Suc (a div k) = Suc (Suc (b div k))" for a b k :: nat
  by simp

lemma transfer_rounds:
  fixes got data :: string
  assumes "serves p cid data" and "download_live d sid cid st got" and "ds_size_bytes st = int (length data)"
    and "ds_content_hash st = h data" and "got = take (length got) data" and "length got < length data" and "1 \<le> cs_download_range_size d"
  shows "\<exists>p' d' st'. ((transfer_round h now upd sid cid) ^^ Suc ((length data - length got - 1) div nat (cs_download_range_size d))) (p, d) = (p', d') \<and>
    get_download_state sid cid d' = Some st' \<and> completed st' \<and> ds_final_path st' = ds_final_path st \<and>
    dict_get (cs_files d') (ds_final_path st) = Some data"
  using assms
proof (induction "length data - length got" arbitrary: got p d st rule: less_induct)
  case less
  let ?f = "transfer_round h now upd sid cid" and ?k = "nat (cs_download_range_size d)"
  let ?got = "take (length got + ?k) data"
  obtain p1 d1 st1 where f: "?f (p, d) = (p1, d1)" and sv: "serves p1 cid data" and
    c: "if length got + ?k < length data
     then download_live d1 sid cid st1 ?got \<and> ds_size_bytes st1 = int (length data) \<and> ds_content_hash st1 = h data \<and>
       ds_final_path st1 = ds_final_path st \<and> cs_download_range_size d1 = cs_download_range_size d
     else get_download_state sid cid d1 = Some st1 \<and> completed st1 \<and> ds_final_path st1 = ds_final_path st \<and>
       dict_get (cs_files d1) (ds_final_path st) = Some data"
    using transfer_round_step [where h = h, OF less.prems, of now upd] by auto
  have k: "0 < ?k" using less.prems(7) by simp
  show ?case
  proof (cases "length got + ?k < length data")
    case True
    with c have live: "download_live d1 sid cid st1 ?got" "ds_size_bytes st1 = int (length data)" "ds_content_hash st1 = h data"
      and keep: "ds_final_path st1 = ds_final_path st" "cs_download_range_size d1 = cs_download_range_size d" by auto
    have len: "length ?got = length got + ?k" using True by simp
    have "length data - length ?got < length data - length got" using len less.prems(6) k by simp
    moreover have "?got = take (length ?got) data" unfolding len by (rule refl)
    moreover have "length ?got < length data" "1 \<le> cs_download_range_size d1" using True len keep(2) less.prems(7) by simp_all
    ultimately obtain p' d' st' where
      r: "(?f ^^ Suc ((length data - length ?got - 1) div ?k)) (p1, d1) = (p', d')" "get_download_state sid cid d' = Some st'"
        "completed st'" "ds_final_path st' = ds_final_path st" "dict_get (cs_files d') (ds_final_path st) = Some data"
      using less.hyps [OF _ sv live] unfolding keep by blast
    have "length data - length got - 1 = (length data - length ?got - 1) + ?k" using True len by simp
    then have "Suc ((length data - length got - 1) div ?k) = Suc (Suc ((length data - length ?got - 1) div ?k))"
      by (rule one_more_round [OF k])
    then have "(?f ^^ Suc ((length data - length got - 1) div ?k)) (p, d) = (?f ^^ Suc ((length data - length ?got - 1) div ?k)) (?f (p, d))"
      by (simp only: funpow_Suc_right comp_apply)
    with r f show ?thesis by (simp only:) blast
  next
    case False
    then have "(length data - length got - 1) div ?k = 0" using less.prems(6) by simp
    with c f False show ?thesis by simp
  qed
qed

section \<open>Properties\<close>

text \<open>
  Content arrives: when a provider holds the content under its hash and a node starts a download of it
  with the announced hash and size, then after exactly as many rounds of request and answer as the range size
  demands the download is completed and its file is the content, byte for byte.
\<close>

theorem transfer_completes:
  fixes data :: string
  assumes "serves provider (h data) data" and "data \<noteq> []" and "dict_get (cs_downloads downloader) (sid, h data) = None"
    and "1 \<le> cs_download_range_size downloader"
    and "start_or_update_download sid (h data) (h data) (int (length data)) ty downloader = (downloader1, st)"
  shows "\<exists>p' d' st'. ((transfer_round h now upd sid (h data)) ^^ Suc ((length data - 1) div nat (cs_download_range_size downloader))) (provider, downloader1) = (p', d') \<and>
    get_download_state sid (h data) d' = Some st' \<and> completed st' \<and>
    dict_get (cs_files d') (ds_final_path st') = Some data"
proof -
  have d1: "downloader1 = fst (start_or_update_download sid (h data) (h data) (int (length data)) ty downloader)" using assms(5) by simp
  have k: "cs_download_range_size downloader1 = cs_download_range_size downloader"
    using assms(3) unfolding d1 by (simp add: start_or_update_download_def download_key_def Let_def)
  from started_live [OF assms(3), of "h data" "int (length data)" ty] obtain st0 where
    "download_live downloader1 sid (h data) st0 []" "ds_content_hash st0 = h data" "ds_size_bytes st0 = int (length data)"
    unfolding d1 by blast
  from transfer_rounds [where h = h, OF assms(1) this(1,3,2), of now upd] assms(2,4) k show ?thesis by auto
qed

definition demo_service :: content_transfer_service where
  "demo_service = empty_content_service"

definition demo_hash :: "string \<Rightarrow> string" where
  "demo_hash s = ''h'' @ s"

definition demo_provider :: content_transfer_service where
  "demo_provider = fst (store_local_content demo_hash 1 1 ''hello'' None ''text/plain'' [] False None demo_service)"

theorem transfer_completes_witness:
  "\<exists>p' d' st'. ((transfer_round demo_hash 5 5 ''s'' ''hhello'') ^^ 3)
      (demo_provider, fst (start_or_update_download ''s'' ''hhello'' ''hhello'' 5 ''text/plain'' demo_service)) = (p', d') \<and>
    get_download_state ''s'' ''hhello'' d' = Some st' \<and> completed st'"
proof -
  have sv: "serves demo_provider (demo_hash ''hello'') ''hello''"
    unfolding demo_provider_def by (rule stored_serves) (simp_all add: objects_ok_def demo_service_def empty_content_service_def demo_hash_def)
  have n: "Suc ((length ''hello'' - 1) div nat (cs_download_range_size demo_service)) = 3" by code_simp
  have "dict_get (cs_downloads demo_service) (''s'', demo_hash ''hello'') = None" "1 \<le> cs_download_range_size demo_service"
    by (simp_all add: demo_service_def empty_content_service_def)
  from transfer_completes [where h = demo_hash, OF sv _ this prod.collapse [symmetric], where ty = "''text/plain''" and now = 5 and upd = 5] show ?thesis
    unfolding n by (auto simp: demo_hash_def)
qed

text \<open>
  C38. A finished download is the announced content: when a response completes a download, the file at
  its final path has the announced size and hash, and the content is registered there. A response
  that does not complete it changes no file but the partial one and registers nothing.
\<close>

theorem download_integrity:
  assumes "find_download_state sid cid cs = Inr st0" and "ds_status st0 = ''downloading''"
    and "ds_partial_path st0 \<noteq> ds_final_path st0"
    and "handle_content_range_response h now upd sid cid s e data64 cs = (cs', Inr st)"
  shows "if completed st
    then \<exists>bytes ob. dict_get (cs_files cs') (ds_final_path st0) = Some bytes \<and> h bytes = ds_content_hash st0 \<and>
      int (length bytes) = ds_size_bytes st0 \<and> find_object (ds_content_hash st0) cs' = Some ob \<and>
      co_storage_path ob = ds_final_path st0 \<and> co_size_bytes ob = ds_size_bytes st0 \<and> \<not> co_is_deleted ob
    else cs_objects cs' = cs_objects cs \<and>
      (\<forall>p. p \<noteq> ds_partial_path st0 \<longrightarrow> dict_get (cs_files cs') p = dict_get (cs_files cs) p)"
proof (cases "s = ds_next_start_byte st0 \<and> (\<exists>data. b64decode data64 = Some data \<and> e = s + int (length data)) \<and> ds_size_bytes st0 \<le> e")
  case False
  with assms show ?thesis
    by (auto simp: handle_content_range_response_def fail_download_def completed_def Let_def split: option.splits if_splits)
next
  case True
  then obtain data where d: "b64decode data64 = Some data" "e = s + int (length data)" by blast
  define bytes where "bytes = (case dict_get (cs_files cs) (ds_partial_path st0) of None \<Rightarrow> [] | Some b \<Rightarrow> b) @ data"
  define st1 where "st1 = st0 \<lparr> ds_next_start_byte := e \<rparr>"
  define cs1 where "cs1 = save_download st1 (write_file (ds_partial_path st0) bytes cs)"
  have st1: "ds_partial_path st1 = ds_partial_path st0" "ds_size_bytes st1 = ds_size_bytes st0" "ds_status st1 = ''downloading''"
    "ds_content_hash st1 = ds_content_hash st0" "ds_final_path st1 = ds_final_path st0" using assms(2) by (simp_all add: st1_def)
  have c: "complete_download h now upd st1 cs1 = (cs', Inr st)"
    using assms True d unfolding st1_def cs1_def bytes_def by (simp add: handle_content_range_response_def Let_def)
  show ?thesis
  proof (cases "int (length bytes) = ds_size_bytes st0 \<and> h bytes = ds_content_hash st0")
    case True
    let ?cs2 = "cs1 \<lparr> cs_files := dict_set (ds_final_path st0) bytes (dict_pop (ds_partial_path st0) (cs_files cs1)) \<rparr>"
    have r: "cs' = save_download (st1 \<lparr> ds_status := ''completed'' \<rparr>) (upsert_downloaded_content now upd st1 ?cs2)"
      "st = st1 \<lparr> ds_status := ''completed'' \<rparr>"
      using c True by (auto simp: complete_download_def cs1_def st1 Let_def)
    obtain ob where "find_object (ds_content_hash st0) (upsert_downloaded_content now upd st1 ?cs2) = Some ob"
      "co_storage_path ob = ds_final_path st0" "co_size_bytes ob = ds_size_bytes st0" "\<not> co_is_deleted ob"
      using upserted_found [of st1 now upd ?cs2] by (auto simp: st1)
    moreover have "dict_get (cs_files cs') (ds_final_path st0) = Some bytes" by (simp add: r(1))
    moreover have "completed st" by (simp add: r(2) completed_def)
    ultimately show ?thesis using True by (auto simp: r(1) find_object_def)
  next
    case False
    then have "cs' = save_download st cs1" "ds_status st = ''failed''"
      using c st1 unfolding complete_download_def by (auto simp: cs1_def fail_download_def Let_def split: if_splits)
    then show ?thesis by (simp add: completed_def cs1_def)
  qed
qed

lemma demo_started:
  "find_download_state ''s'' ''c'' (fst (start_or_update_download ''s'' ''c'' ''hab'' 2 ''t'' demo_service)) =
     Inr (snd (start_or_update_download ''s'' ''c'' ''hab'' 2 ''t'' demo_service))"
  by (simp add: find_download_state_def start_or_update_download_def download_key_def demo_service_def empty_content_service_def Let_def)

theorem download_integrity_witness:
  "\<exists>cs st. handle_content_range_response demo_hash 3 3 ''s'' ''c'' 0 2 (b64encode ''ab'')
      (fst (start_or_update_download ''s'' ''c'' ''hab'' 2 ''t'' demo_service)) = (cs, Inr st) \<and> completed st \<and>
    (\<exists>bytes. dict_get (cs_files cs) (ds_final_path st) = Some bytes \<and> demo_hash bytes = ''hab'')"
proof -
  let ?d = "start_or_update_download ''s'' ''c'' ''hab'' 2 ''t'' demo_service"
  let ?r = "handle_content_range_response demo_hash 3 3 ''s'' ''c'' 0 2 (b64encode ''ab'') (fst ?d)"
  have "case ?r of (cs, Inr st) \<Rightarrow> completed st \<and> ds_final_path st = ds_final_path (snd ?d) | _ \<Rightarrow> False" by code_simp
  then obtain cs st where r: "?r = (cs, Inr st)" "completed st" "ds_final_path st = ds_final_path (snd ?d)"
    by (auto split: prod.splits sum.splits)
  have st0: "ds_status (snd ?d) = ''downloading''" "ds_partial_path (snd ?d) \<noteq> ds_final_path (snd ?d)" "ds_content_hash (snd ?d) = ''hab''"
    by (simp_all add: start_or_update_download_def demo_service_def empty_content_service_def download_key_def Let_def)
  from download_integrity [OF demo_started st0(1,2) r(1)] r st0(3) show ?thesis by auto
qed

text \<open>
  C39. The announced hash is never compared with the requested id: a provider can complete a download of
  any content id \<open>cid\<close> with data of its choice, by announcing that data's own hash and size.
\<close>

theorem download_id_not_checked:
  assumes "dict_get (cs_downloads cs) (sid, cid) = None" and "data \<noteq> []"
  shows "\<exists>cs' st. handle_content_range_response h now upd sid cid 0 (int (length data)) (b64encode data)
      (fst (start_or_update_download sid cid (h data) (int (length data)) ty cs)) = (cs', Inr st) \<and>
    completed st \<and> ds_content_id st = cid \<and> dict_get (cs_files cs') (ds_final_path st) = Some data"
proof -
  let ?cs = "fst (start_or_update_download sid cid (h data) (int (length data)) ty cs)"
  obtain st0 where live: "download_live ?cs sid cid st0 []" "ds_content_hash st0 = h data" "ds_size_bytes st0 = int (length data)"
    using started_live [OF assms(1), of "h data" "int (length data)" ty] by blast
  have "0 = int (length ([] :: string))" "int (length data) = 0 + int (length data)" by simp_all
  from response_completes [where h = h, OF live(1) this live(3), of now upd] live(2) obtain cs' st where
    r: "handle_content_range_response h now upd sid cid 0 (int (length data)) (b64encode data) ?cs = (cs', Inr st)" "completed st"
    "ds_final_path st = ds_final_path st0" "dict_get (cs_files cs') (ds_final_path st0) = Some data" by auto
  have "ds_content_id st = cid"
    using r(1) live(1) by (auto simp: handle_content_range_response_def find_download_state_def download_key_def download_live_def
        complete_download_def fail_download_def Let_def split: option.splits if_splits)
  with r show ?thesis by auto
qed

theorem download_id_not_checked_witness:
  "\<exists>cs' st. handle_content_range_response demo_hash 3 3 ''s'' ''hwanted'' 0 4 (b64encode ''evil'')
      (fst (start_or_update_download ''s'' ''hwanted'' ''hevil'' 4 ''t'' demo_service)) = (cs', Inr st) \<and>
    completed st \<and> ds_content_id st = ''hwanted'' \<and> dict_get (cs_files cs') (ds_final_path st) = Some ''evil''"
  using download_id_not_checked [where h = demo_hash and cs = demo_service and sid = "''s''" and cid = "''hwanted''" and data = "''evil''"
      and now = 3 and upd = 3 and ty = "''t''"] by (simp add: demo_hash_def demo_service_def empty_content_service_def)



text \<open>
  Two sessions that download the same content share one partial file: when the second starts, the bytes
  the first has received are lost, and the first download fails at its end although every range it
  received was right.
\<close>

theorem shared_partial_file_fails:
  fixes got data :: string
  assumes "download_live cs sid cid st got" and "got \<noteq> []" and "ds_size_bytes st = int (length (got @ data))"
    and "ds_final_path st = build_content_file_path cs (ds_content_hash st)"
    and "other \<noteq> sid" and "dict_get (cs_downloads cs) (other, cid) = None"
  shows "\<exists>cs' st'. handle_content_range_response h now upd sid cid (int (length got)) (int (length (got @ data))) (b64encode data)
      (fst (start_or_update_download other cid (ds_content_hash st) (ds_size_bytes st) ty cs)) = (cs', Inr st') \<and>
    ds_status st' = ''failed''"
  using assms by (auto simp: handle_content_range_response_def find_download_state_def download_key_def download_live_def
      start_or_update_download_def complete_download_def fail_download_def b64.dec_enc Let_def)

theorem shared_partial_file_fails_witness:
  "\<exists>cs' st'. handle_content_range_response demo_hash 3 3 ''s'' ''c'' 1 2 (b64encode ''b'')
      (fst (start_or_update_download ''s2'' ''c'' ''hab'' 2 ''t''
        (fst (handle_content_range_response demo_hash 3 3 ''s'' ''c'' 0 1 (b64encode ''a'')
          (fst (start_or_update_download ''s'' ''c'' ''hab'' 2 ''t'' demo_service)))))) = (cs', Inr st') \<and> ds_status st' = ''failed''"
proof -
  let ?cs = "fst (handle_content_range_response demo_hash 3 3 ''s'' ''c'' 0 1 (b64encode ''a'')
    (fst (start_or_update_download ''s'' ''c'' ''hab'' 2 ''t'' demo_service)))"
  let ?st = "the (dict_get (cs_downloads ?cs) (''s'', ''c''))"
  have "download_live ?cs ''s'' ''c'' ?st ''a''" unfolding download_live_def by code_simp
  moreover have "ds_size_bytes ?st = int (length (''a'' @ ''b''))" by code_simp
  moreover have "ds_final_path ?st = build_content_file_path ?cs (ds_content_hash ?st)" "dict_get (cs_downloads ?cs) (''s2'', ''c'') = None"
    "ds_content_hash ?st = ''hab''" by code_simp+
  ultimately show ?thesis
    using shared_partial_file_fails [where h = demo_hash and cs = ?cs and sid = "''s''" and cid = "''c''" and st = ?st and got = "''a''" and data = "''b''"
        and now = 3 and upd = 3 and other = "''s2''" and ty = "''t''"] by simp
qed

end
