(* ===== verification/Frame_Codec.thy ===== *)
theory Frame_Codec
  imports Session_Manager
begin

text \<open>
  \<^verbatim>\<open>app/transport/frame_codec.py\<close>: frames on a byte stream, each preceded by its length in four bytes, most
  significant first. A byte string is a \<^typ>\<open>string\<close>, one character per byte. \<^verbatim>\<open>to_bytes\<close> and
  \<^verbatim>\<open>struct.pack\<close> raise on a number that needs more than four bytes; a reader that runs out of input
  raises as well.
\<close>

section \<open>Four-byte numbers\<close>

fun nat_bytes :: "nat \<Rightarrow> nat \<Rightarrow> string" where
  "nat_bytes 0 n = []"
| "nat_bytes (Suc w) n = nat_bytes w (n div 256) @ [char_of (n mod 256)]"

definition bytes_nat :: "string \<Rightarrow> nat" where
  "bytes_nat bs = foldl (\<lambda>a b. 256 * a + of_char b) 0 bs"

definition uint32_bytes :: "nat \<Rightarrow> string result" where
  "uint32_bytes n = (if n < 2 ^ 32 then Inr (nat_bytes 4 n) else Inl StructError)"

lemma length_nat_bytes [simp]: "length (nat_bytes w n) = w"
  by (induction w arbitrary: n) simp_all

lemma bytes_nat_snoc [simp]: "bytes_nat (bs @ [b]) = 256 * bytes_nat bs + of_char b"
  by (simp add: bytes_nat_def)

lemma bytes_nat_bytes: "n < 256 ^ w \<Longrightarrow> bytes_nat (nat_bytes w n) = n"
proof (induction w arbitrary: n)
  case 0
  then show ?case by (simp add: bytes_nat_def)
next
  case (Suc w)
  then have "n div 256 < 256 ^ w" by (simp add: less_mult_imp_div_less)
  with Suc.IH show ?case by simp
qed

lemma digit_step: "a < X \<Longrightarrow> c < 256 \<Longrightarrow> 256 * a + c < 256 * X" for a X c :: nat
  by arith

lemma bytes_nat_less: "bytes_nat bs < 256 ^ length bs"
proof (induction bs rule: rev_induct)
  case (snoc b bs)
  from digit_step [OF this byte_less [of b]] show ?case by simp
qed (simp add: bytes_nat_def)

lemma nat_bytes_nat: "nat_bytes (length bs) (bytes_nat bs) = bs"
proof (induction bs rule: rev_induct)
  case (snoc b bs)
  have "(256 * bytes_nat bs + of_char b) div 256 = bytes_nat bs" using byte_less [of b] by simp
  moreover have "(256 * bytes_nat bs + of_char b) mod 256 = (of_char b :: nat)" using byte_less [of b] by simp
  ultimately show ?case using snoc by simp
qed simp

lemma uint32_bytes_back: "uint32_bytes n = Inr bs \<Longrightarrow> length bs = 4 \<and> bytes_nat bs = n"
  using bytes_nat_bytes [of n 4] length_nat_bytes [of 4 n] by (auto simp: uint32_bytes_def simp del: length_nat_bytes split: if_splits)

section \<open>The codec\<close>

definition FRAME_LENGTH_SIZE :: nat where
  "FRAME_LENGTH_SIZE = 4"

definition frame_encode :: "string \<Rightarrow> string result" where
  "frame_encode payload = rbind (uint32_bytes (length payload)) (\<lambda>len. Inr (len @ payload))"

text \<open>\<^verbatim>\<open>reader.readexactly(n)\<close> on a stream that holds the given bytes and then ends.\<close>

definition readexactly :: "nat \<Rightarrow> string \<Rightarrow> (string \<times> string) result" where
  "readexactly n stream = (if n \<le> length stream then Inr (take n stream, drop n stream)
     else Inl IncompleteReadError)"

definition read_frame :: "string \<Rightarrow> (string \<times> string) result" where
  "read_frame stream = rbind (readexactly FRAME_LENGTH_SIZE stream) (\<lambda>(length_data, stream1).
     let frame_length = bytes_nat length_data in readexactly frame_length stream1)"

text \<open>\<^verbatim>\<open>write_frame\<close> appends the encoded payload to what was written before.\<close>

definition write_frame :: "string \<Rightarrow> string \<Rightarrow> string result" where
  "write_frame written payload = rbind (frame_encode payload) (\<lambda>bs. Inr (written @ bs))"

text \<open>
  The reading loop of a connection (\<^verbatim>\<open>app/transport/tcp_transport.py\<close>, \<open>_read_packets\<close>): the payloads handed to
  the inbound handler, in order, until the stream ends or breaks off inside a frame.
\<close>

function read_packets :: "string \<Rightarrow> string list" where
  "read_packets stream = (case read_frame stream of
     Inl e \<Rightarrow> []
   | Inr (payload, rest) \<Rightarrow> payload # read_packets rest)"
  by pat_completeness auto

lemma read_frame_Inr:
  assumes "read_frame stream = Inr (payload, rest)"
  shows "stream = take 4 stream @ payload @ rest" and "4 \<le> length stream" and "length payload = bytes_nat (take 4 stream)"
  using assms append_take_drop_id [of "bytes_nat (take 4 stream)" "drop 4 stream"]
  by (auto simp: read_frame_def readexactly_def FRAME_LENGTH_SIZE_def Let_def min_def split: if_splits)

termination read_packets
proof (relation "measure length", goal_cases)
  case (2 stream pr payload rest)
  then have "read_frame stream = Inr (payload, rest)" by simp
  from read_frame_Inr [OF this] have "length stream = 4 + length payload + length rest"
    by (metis length_append length_take min.absorb2 add.assoc)
  then show ?case by simp
qed simp

declare read_packets.simps [simp del]

text \<open>Writing several payloads to one stream.\<close>

definition write_frames :: "string list \<Rightarrow> string result" where
  "write_frames ps = foldl (\<lambda>w p. rbind w (\<lambda>bs. write_frame bs p)) (Inr []) ps"

section \<open>Properties\<close>

lemma frame_encode_ok: "length p < 2 ^ 32 \<Longrightarrow> frame_encode p = Inr (nat_bytes 4 (length p) @ p)"
  by (simp add: frame_encode_def uint32_bytes_def)

lemma bytes_len: "length p < 2 ^ 32 \<Longrightarrow> bytes_nat (nat_bytes 4 (length p)) = length p"
  using bytes_nat_bytes [of "length p" 4] by simp

lemma read_frame_encoded:
  assumes "length p < 2 ^ 32"
  shows "read_frame ((nat_bytes 4 (length p) @ p) @ rest) = Inr (p, rest)"
  using bytes_len [OF assms] by (simp add: read_frame_def readexactly_def FRAME_LENGTH_SIZE_def Let_def)

lemma read_frame_short:
  assumes "length p < 2 ^ 32" and "n < length p + 4"
  shows "\<exists>e. read_frame (take n (nat_bytes 4 (length p) @ p)) = Inl e"
  using bytes_len [OF assms(1)] assms(2) by (auto simp: read_frame_def readexactly_def FRAME_LENGTH_SIZE_def Let_def)

lemma write_frames_eq:
  assumes "\<forall>p \<in> set ps. length p < 2 ^ 32"
  shows "write_frames ps = Inr (concat (map (\<lambda>p. nat_bytes 4 (length p) @ p) ps))"
proof -
  have "foldl (\<lambda>w p. rbind w (\<lambda>bs. write_frame bs p)) (Inr w) ps = Inr (w @ concat (map (\<lambda>p. nat_bytes 4 (length p) @ p) ps))" for w
    using assms by (induction ps arbitrary: w) (simp_all add: write_frame_def frame_encode_ok)
  then show ?thesis by (simp add: write_frames_def)
qed

lemma read_packets_cut:
  assumes "\<forall>p \<in> set ps. length p < 2 ^ 32"
  shows "\<exists>k. read_packets (take n (concat (map (\<lambda>p. nat_bytes 4 (length p) @ p) ps))) = take k ps \<and>
    (length (concat (map (\<lambda>p. nat_bytes 4 (length p) @ p) ps)) \<le> n \<longrightarrow> k = length ps)"
  using assms
proof (induction ps arbitrary: n)
  case Nil
  then show ?case by (simp add: read_packets.simps read_frame_def readexactly_def FRAME_LENGTH_SIZE_def)
next
  case (Cons p ps)
  then have len: "length p < 2 ^ 32" by simp
  let ?f = "nat_bytes 4 (length p) @ p" and ?rest = "concat (map (\<lambda>p. nat_bytes 4 (length p) @ p) ps)"
  show ?case
  proof (cases "n < length p + 4")
    case True
    then have "take n (concat (map (\<lambda>p. nat_bytes 4 (length p) @ p) (p # ps))) = take n ?f" by simp
    moreover obtain e where "read_frame (take n ?f) = Inl e" using read_frame_short [OF len True] by blast
    ultimately have "read_packets (take n (concat (map (\<lambda>p. nat_bytes 4 (length p) @ p) (p # ps)))) = take 0 (p # ps)"
      by (simp add: read_packets.simps del: take_append)
    with True show ?thesis by (intro exI [of _ 0]) auto
  next
    case False
    let ?m = "n - (length p + 4)"
    obtain k where k: "read_packets (take ?m ?rest) = take k ps" "length ?rest \<le> ?m \<longrightarrow> k = length ps"
      using Cons.IH [of ?m] Cons.prems by auto
    have "take n (concat (map (\<lambda>p. nat_bytes 4 (length p) @ p) (p # ps))) = ?f @ take ?m ?rest"
      using False by (simp add: add.commute)
    then have "read_packets (take n (concat (map (\<lambda>p. nat_bytes 4 (length p) @ p) (p # ps)))) = p # take k ps"
      using read_frame_encoded [OF len] k(1) by (simp add: read_packets.simps [of "?f @ take ?m ?rest"] del: append_assoc)
    with k(2) False show ?thesis by (intro exI [of _ "Suc k"]) auto
  qed
qed

text \<open>
  C34. Framing is lossless: payloads shorter than \<open>2 ^ 32\<close> bytes that are written one after the other are
  read back as the same payloads in the same order, and whatever point the stream breaks off at,
  what was handed to the handler is an initial part of what was written, never a torn payload.
\<close>

theorem framing_round_trip:
  assumes "\<forall>p \<in> set ps. length p < 2 ^ 32"
  shows "\<exists>stream. write_frames ps = Inr stream \<and> read_packets stream = ps \<and>
    (\<forall>n. \<exists>k. read_packets (take n stream) = take k ps)"
proof -
  let ?s = "concat (map (\<lambda>p. nat_bytes 4 (length p) @ p) ps)"
  obtain k where "read_packets (take (length ?s) ?s) = take k ps" "k = length ps"
    using read_packets_cut [OF assms, of "length ?s"] by blast
  then have "read_packets ?s = ps" by simp
  with write_frames_eq [OF assms] read_packets_cut [OF assms] show ?thesis by blast
qed

theorem framing_round_trip_witness:
  "\<exists>stream. write_frames [''ab'', [], ''c''] = Inr stream \<and> read_packets stream = [''ab'', [], ''c'']"
  using framing_round_trip [of "[''ab'', [], ''c'']"] by auto

end
