(* ===== verification/Udp_Transport.thy ===== *)
theory Udp_Transport
  imports Frame_Codec
begin

text \<open>
  \<^verbatim>\<open>app/transport/udp_transport.py\<close>: payloads cut into numbered datagrams and put together again per
  sender and frame id. The adapter is a record; the event loop's clock, the address the socket was
  bound to, the four random bytes of a frame id and the two environment variables are arguments, and what
  an operation hands to the socket or to the inbound handler is part of its result. Times are
  whole microseconds. Frame ids and positions are four-byte numbers.
\<close>

datatype transport_state = STOPPED | STARTING | STARTED | STOPPING

definition UDP_KEEPALIVE_PAYLOAD :: string where
  "UDP_KEEPALIVE_PAYLOAD = ''ANUDP_KEEPALIVE_V1''"

definition UINT32_MAX :: nat where
  "UINT32_MAX = 4294967295"

definition UDP_DATA_HEADER_SIZE :: nat where
  "UDP_DATA_HEADER_SIZE = 12"

record partial_udp_frame =
  pf_frame_id :: nat
  pf_total_parts :: nat
  pf_parts :: "(nat, string) dict"
  pf_created_at :: time_us

definition is_complete :: "partial_udp_frame \<Rightarrow> bool" where
  "is_complete f \<longleftrightarrow> length (pf_parts f) = pf_total_parts f"

definition build_payload :: "partial_udp_frame \<Rightarrow> string result" where
  "build_payload f = rbind (rmap (\<lambda>i. case dict_get (pf_parts f) i of None \<Rightarrow> Inl KeyError | Some x \<Rightarrow> Inr x)
     [1..<pf_total_parts f + 1]) (\<lambda>xs. Inr (concat xs))"

type_synonym frame_key = "string \<times> int \<times> nat"

record udp_adapter =
  ua_listen_host :: string
  ua_listen_port :: int
  ua_listen_enabled :: bool
  ua_max_datagram_size :: int
  ua_keepalive_interval :: time_us
  ua_reassembly_timeout :: time_us
  ua_state :: transport_state
  ua_has_inbound_handler :: bool
  ua_transport :: bool
  ua_local_endpoint :: "transport_endpoint option"
  ua_known_peers :: "(string \<times> int) list"
  ua_partial_frames :: "(frame_key, partial_udp_frame) dict"
  ua_keepalive_task :: bool

definition new_udp_adapter :: "string \<Rightarrow> int \<Rightarrow> bool \<Rightarrow> int \<Rightarrow> time_us \<Rightarrow> time_us \<Rightarrow> udp_adapter" where
  "new_udp_adapter listen_host listen_port listen_enabled max_datagram_size keepalive_interval timeout =
     \<lparr> ua_listen_host = listen_host, ua_listen_port = listen_port, ua_listen_enabled = listen_enabled,
       ua_max_datagram_size = max_datagram_size, ua_keepalive_interval = keepalive_interval,
       ua_reassembly_timeout = timeout, ua_state = STOPPED, ua_has_inbound_handler = False,
       ua_transport = False, ua_local_endpoint = None, ua_known_peers = [], ua_partial_frames = [],
       ua_keepalive_task = False \<rparr>"

section \<open>Datagrams\<close>

definition is_valid_uint32 :: "nat \<Rightarrow> bool" where
  "is_valid_uint32 v \<longleftrightarrow> 1 \<le> v \<and> v \<le> UINT32_MAX"

definition is_valid_uint32_fragment_position :: "nat \<Rightarrow> nat \<Rightarrow> bool" where
  "is_valid_uint32_fragment_position part total_parts \<longleftrightarrow>
     (1 \<le> part \<and> part \<le> UINT32_MAX) \<and> (1 \<le> total_parts \<and> total_parts \<le> UINT32_MAX) \<and> part \<le> total_parts"

text \<open>The argument is what \<^verbatim>\<open>os.urandom(4)\<close> returned.\<close>

definition new_udp_frame_id :: "string \<Rightarrow> nat" where
  "new_udp_frame_id urandom = (let n = bytes_nat urandom in if n = 0 then 1 else n)"

definition encode_data_frame :: "nat \<Rightarrow> nat \<Rightarrow> nat \<Rightarrow> string \<Rightarrow> string result" where
  "encode_data_frame frame_id part total_parts payload =
     (if \<not> is_valid_uint32 frame_id then Inl (ValueError ''UDP frame id must fit uint32'')
      else if \<not> is_valid_uint32_fragment_position part total_parts
        then Inl (ValueError ''UDP fragment position must fit uint32 and be within total parts'')
      else rbind (uint32_bytes frame_id) (\<lambda>a. rbind (uint32_bytes part) (\<lambda>b. rbind (uint32_bytes total_parts) (\<lambda>c.
        Inr (a @ b @ c @ payload)))))"

definition max_fragment_payload_size :: "udp_adapter \<Rightarrow> int result" where
  "max_fragment_payload_size ua =
     (if ua_max_datagram_size ua \<le> int UDP_DATA_HEADER_SIZE
      then Inl (ValueError ''UDP max datagram size must be larger than the binary fragment header'')
      else Inr (ua_max_datagram_size ua - int UDP_DATA_HEADER_SIZE))"

text \<open>\<^verbatim>\<open>[payload[i:i + size] for i in range(0, len(payload), size)]\<close> for a positive size.\<close>

function split_chunks :: "nat \<Rightarrow> string \<Rightarrow> string list" where
  "split_chunks csize payload =
     (if payload = [] \<or> csize = 0 then [] else take csize payload # split_chunks csize (drop csize payload))"
  by pat_completeness auto
termination by (relation "measure (\<lambda>(n, p). length p)") auto

declare split_chunks.simps [simp del]

definition build_data_datagrams :: "udp_adapter \<Rightarrow> string \<Rightarrow> string \<Rightarrow> string list result" where
  "build_data_datagrams ua urandom payload =
     rbind (max_fragment_payload_size ua) (\<lambda>chunk_size.
       let cs = split_chunks (nat chunk_size) payload; chunks = (if cs = [] then [[]] else cs) in
       if length chunks > UINT32_MAX
         then Inl (ValueError ''UDP payload requires more fragments than uint32 can represent'')
       else
         let frame_id = new_udp_frame_id urandom in
         rbind (rmap (\<lambda>(index, chunk). encode_data_frame frame_id index (length chunks) chunk)
                  (zip [1..<length chunks + 1] chunks)) (\<lambda>datagrams.
           if \<exists>d \<in> set datagrams. int (length d) > ua_max_datagram_size ua
             then Inl (ValueError ''UDP fragment exceeds configured datagram limit'')
           else Inr datagrams))"

section \<open>Reassembly\<close>

definition prune_expired_frames :: "time_us \<Rightarrow> udp_adapter \<Rightarrow> udp_adapter" where
  "prune_expired_frames now ua =
     (let expired_items = filter (\<lambda>(key, frame). now - pf_created_at frame \<ge> ua_reassembly_timeout ua) (ua_partial_frames ua)
      in ua \<lparr> ua_partial_frames := fold (\<lambda>(key, _). dict_pop key) expired_items (ua_partial_frames ua) \<rparr>)"

text \<open>The part after the header checks: file the fragment and hand out the payload when it is the last.\<close>

definition store_fragment ::
  "time_us \<Rightarrow> frame_key \<Rightarrow> nat \<Rightarrow> nat \<Rightarrow> string \<Rightarrow> udp_adapter \<Rightarrow> udp_adapter \<times> string option result" where
  "store_fragment now partial_key part total_parts payload_part ua =
     (let frames = (if part = 1 \<and> dict_get (ua_partial_frames ua) partial_key \<noteq> None
                    then dict_pop partial_key (ua_partial_frames ua) else ua_partial_frames ua);
          partial_frame = (case dict_get frames partial_key of
              None \<Rightarrow> \<lparr> pf_frame_id = snd (snd partial_key), pf_total_parts = total_parts, pf_parts = [], pf_created_at = now \<rparr>
            | Some f \<Rightarrow> f) in
      if pf_total_parts partial_frame \<noteq> total_parts
      then (ua \<lparr> ua_partial_frames := dict_pop partial_key frames \<rparr>, Inr None)
      else
        let partial_frame' = partial_frame \<lparr> pf_parts := dict_setdefault part payload_part (pf_parts partial_frame) \<rparr>;
            frames' = dict_set partial_key partial_frame' frames in
        if \<not> is_complete partial_frame' then (ua \<lparr> ua_partial_frames := frames' \<rparr>, Inr None)
        else (ua \<lparr> ua_partial_frames := dict_pop partial_key frames' \<rparr>, rbind (build_payload partial_frame') (\<lambda>p. Inr (Some p))))"

definition try_reassemble_data_frame ::
  "time_us \<Rightarrow> string \<Rightarrow> string \<Rightarrow> int \<Rightarrow> udp_adapter \<Rightarrow> udp_adapter \<times> string option result" where
  "try_reassemble_data_frame now datagram host port ua =
     (if length datagram < UDP_DATA_HEADER_SIZE then (ua, Inr None)
      else
        let frame_id = bytes_nat (take 4 datagram);
            part = bytes_nat (take 4 (drop 4 datagram));
            total_parts = bytes_nat (take 4 (drop 8 datagram)) in
        if \<not> is_valid_uint32 frame_id then (ua, Inr None)
        else if \<not> is_valid_uint32_fragment_position part total_parts then (ua, Inr None)
        else
          let payload_part = drop UDP_DATA_HEADER_SIZE datagram in
          if total_parts = 1 then (ua, Inr (Some payload_part))
          else store_fragment now (host, port, frame_id) part total_parts payload_part ua)"

section \<open>The adapter\<close>

definition remember_peer :: "string \<Rightarrow> int \<Rightarrow> udp_adapter \<Rightarrow> udp_adapter" where
  "remember_peer host port ua =
     (if host = [] \<or> port \<le> 0 then ua else ua \<lparr> ua_known_peers := List.insert (host, port) (ua_known_peers ua) \<rparr>)"

record dial_env =
  env_advertised_tcp_host :: "string option"
  env_docker_host_gateway :: "string option"

definition resolve_dial_host :: "dial_env \<Rightarrow> string \<Rightarrow> string" where
  "resolve_dial_host env advertised_host =
     (case (env_advertised_tcp_host env, env_docker_host_gateway env) of
        (Some local_advertised_host, Some docker_host_gateway) \<Rightarrow>
          if local_advertised_host \<noteq> [] \<and> docker_host_gateway \<noteq> [] \<and> advertised_host = local_advertised_host
          then docker_host_gateway else advertised_host
      | _ \<Rightarrow> advertised_host)"

definition udp_set_inbound_packet_handler :: "udp_adapter \<Rightarrow> udp_adapter" where
  "udp_set_inbound_packet_handler ua = ua \<lparr> ua_has_inbound_handler := True \<rparr>"

text \<open>
  The log entry at the end of \<open>start\<close> computes the fragment size, so a datagram limit that does not
  exceed the header raises there, after the socket was opened.
\<close>

definition udp_start :: "string \<Rightarrow> int \<Rightarrow> udp_adapter \<Rightarrow> udp_adapter \<times> unit result" where
  "udp_start bound_host bound_port ua =
     (if ua_state ua = STARTED then (ua, Inr ())
      else
        (ua \<lparr> ua_transport := True,
              ua_local_endpoint := Some \<lparr> te_transport_name = ''udp'', te_host = bound_host, te_port = bound_port,
                te_metadata = [(''advertised_listener'', JBool (ua_listen_enabled ua))] \<rparr>,
              ua_state := STARTED,
              ua_keepalive_task := (if ua_keepalive_interval ua > 0 then True else ua_keepalive_task ua) \<rparr>,
         rbind (max_fragment_payload_size ua) (\<lambda>_. Inr ())))"

definition udp_stop :: "udp_adapter \<Rightarrow> udp_adapter" where
  "udp_stop ua = ua \<lparr> ua_keepalive_task := False, ua_transport := False, ua_local_endpoint := None,
     ua_known_peers := [], ua_partial_frames := [], ua_state := STOPPED \<rparr>"

definition udp_send :: "dial_env \<Rightarrow> string \<Rightarrow> outbound_message \<Rightarrow> udp_adapter \<Rightarrow>
    udp_adapter \<times> (string \<times> string \<times> int) list result" where
  "udp_send env urandom m ua =
     (if \<not> ua_transport ua then (ua, Inl (RuntimeError ''UDP transport is not started and cannot send datagrams.''))
      else
        let remote = om_remote_endpoint m;
            ua1 = remember_peer (te_host remote) (te_port remote) ua in
        (ua1, rbind (build_data_datagrams ua1 urandom (om_payload m)) (\<lambda>datagrams.
           Inr (map (\<lambda>d. (d, resolve_dial_host env (te_host remote), te_port remote)) datagrams))))"

definition datagram_received ::
  "time_us \<Rightarrow> time_us \<Rightarrow> string \<Rightarrow> string \<Rightarrow> int \<Rightarrow> udp_adapter \<Rightarrow> udp_adapter \<times> transport_packet option result" where
  "datagram_received now utc data host port ua =
     (let ua1 = remember_peer host port ua in
      if data = UDP_KEEPALIVE_PAYLOAD then (ua1, Inr None)
      else
        let (ua2, r) = try_reassemble_data_frame now data host port (prune_expired_frames now ua1) in
        (ua2, rbind r (\<lambda>p. case p of
           None \<Rightarrow> Inr None
         | Some payload \<Rightarrow>
             if \<not> ua_has_inbound_handler ua2 then Inr None
             else Inr (Some \<lparr> tp_transport_name = ''udp'', tp_payload = payload,
               tp_remote_endpoint = \<lparr> te_transport_name = ''udp'', te_host = host, te_port = port, te_metadata = [] \<rparr>,
               tp_local_endpoint = Some (case ua_local_endpoint ua2 of Some e \<Rightarrow> e
                 | None \<Rightarrow> \<lparr> te_transport_name = ''udp'', te_host = ua_listen_host ua2, te_port = 0, te_metadata = [] \<rparr>),
               tp_received_at = utc, tp_metadata = [] \<rparr>))))"

definition send_keepalives :: "dial_env \<Rightarrow> udp_adapter \<Rightarrow> (string \<times> string \<times> int) list" where
  "send_keepalives env ua =
     (if \<not> ua_transport ua \<or> ua_known_peers ua = [] then []
      else map (\<lambda>(host, port). (UDP_KEEPALIVE_PAYLOAD, resolve_dial_host env host, port))
             (py_sorted (\<lambda>p. p) (ua_known_peers ua)))"

section \<open>Fragments\<close>

lemma concat_split_chunks: "0 < c \<Longrightarrow> concat (split_chunks c p) = p"
proof (induction c p rule: split_chunks.induct)
  case (1 c p)
  then show ?case by (subst split_chunks.simps) auto
qed

lemma split_chunks_length: "x \<in> set (split_chunks c p) \<Longrightarrow> length x \<le> c"
proof (induction c p rule: split_chunks.induct)
  case (1 c p)
  show ?case
  proof (cases "p = [] \<or> c = 0")
    case True
    with 1(2) show ?thesis by (simp add: split_chunks.simps)
  next
    case False
    with 1(2) have "x = take c p \<or> x \<in> set (split_chunks c (drop c p))" by (simp add: split_chunks.simps [of c p])
    with 1(1) [OF False] show ?thesis by auto
  qed
qed

definition udp_chunks :: "udp_adapter \<Rightarrow> string \<Rightarrow> string list" where
  "udp_chunks ua payload = (let cs = split_chunks (nat (ua_max_datagram_size ua - 12)) payload in if cs = [] then [[]] else cs)"

definition udp_header :: "nat \<Rightarrow> nat \<Rightarrow> nat \<Rightarrow> string" where
  "udp_header fid part tot = nat_bytes 4 fid @ nat_bytes 4 part @ nat_bytes 4 tot"

lemma length_udp_header [simp]: "length (udp_header fid part tot) = 12"
  by (simp add: udp_header_def)

lemma udp_chunks_props:
  assumes "12 < ua_max_datagram_size ua"
  shows "udp_chunks ua p \<noteq> []" and "concat (udp_chunks ua p) = p"
    and "x \<in> set (udp_chunks ua p) \<Longrightarrow> int (length x) + 12 \<le> ua_max_datagram_size ua"
proof -
  let ?c = "nat (ua_max_datagram_size ua - 12)"
  show "udp_chunks ua p \<noteq> []" by (simp add: udp_chunks_def Let_def)
  have "concat (split_chunks ?c p) = p" using assms by (intro concat_split_chunks) simp
  then show "concat (udp_chunks ua p) = p" by (auto simp: udp_chunks_def Let_def)
  assume "x \<in> set (udp_chunks ua p)"
  then have "length x \<le> ?c" using split_chunks_length [of x ?c p] by (auto simp: udp_chunks_def Let_def split: if_splits)
  with assms show "int (length x) + 12 \<le> ua_max_datagram_size ua" by simp
qed

lemma new_udp_frame_id_valid: "length urandom = 4 \<Longrightarrow> is_valid_uint32 (new_udp_frame_id urandom)"
  using bytes_nat_less [of urandom] by (auto simp: new_udp_frame_id_def is_valid_uint32_def UINT32_MAX_def Let_def)

lemma encode_data_frame_ok:
  assumes "is_valid_uint32 fid" and "1 \<le> i" and "i \<le> n" and "n \<le> UINT32_MAX"
  shows "encode_data_frame fid i n x = Inr (udp_header fid i n @ x)"
proof -
  have "is_valid_uint32_fragment_position i n" using assms by (simp add: is_valid_uint32_fragment_position_def)
  moreover have "fid < 2 ^ 32" "i < 2 ^ 32" "n < 2 ^ 32" using assms by (simp_all add: is_valid_uint32_def UINT32_MAX_def)
  ultimately show ?thesis using assms(1) by (simp add: encode_data_frame_def udp_header_def uint32_bytes_def)
qed

definition udp_datagrams :: "nat \<Rightarrow> string list \<Rightarrow> string list" where
  "udp_datagrams fid cs = map (\<lambda>i. udp_header fid (Suc i) (length cs) @ cs ! i) [0..<length cs]"

lemma build_data_datagrams_ok:
  assumes "12 < ua_max_datagram_size ua" and "length urandom = 4" and "length (udp_chunks ua p) \<le> UINT32_MAX"
  shows "build_data_datagrams ua urandom p = Inr (udp_datagrams (new_udp_frame_id urandom) (udp_chunks ua p))"
proof -
  let ?cs = "udp_chunks ua p" and ?fid = "new_udp_frame_id urandom"
  let ?e = "\<lambda>(index, chunk). encode_data_frame ?fid index (length ?cs) chunk"
  have len: "int (length d) \<le> ua_max_datagram_size ua" if "d \<in> set (udp_datagrams ?fid ?cs)" for d
    using that udp_chunks_props(3) [OF assms(1), OF nth_mem] by (fastforce simp: udp_datagrams_def)
  have "rmap ?e (zip [1..<length ?cs + 1] ?cs) = Inr (udp_datagrams ?fid ?cs)"
    unfolding rmap_Inr_iff list_all2_conv_all_nth
    using encode_data_frame_ok [OF new_udp_frame_id_valid [OF assms(2)] _ _ assms(3)]
    by (simp add: udp_datagrams_def del: upt_Suc)
  with assms(1,3) len show ?thesis
    by (fastforce simp: build_data_datagrams_def max_fragment_payload_size_def UDP_DATA_HEADER_SIZE_def udp_chunks_def Let_def
        simp del: upt_Suc)
qed

text \<open>The keep-alive text can never be taken for a fragment: read as one, its part number exceeds its total.\<close>

lemma keepalive_no_fragment: "is_valid_uint32_fragment_position part tot \<Longrightarrow> udp_header fid part tot @ x \<noteq> UDP_KEEPALIVE_PAYLOAD"
proof
  assume v: "is_valid_uint32_fragment_position part tot" and k: "udp_header fid part tot @ x = UDP_KEEPALIVE_PAYLOAD"
  have "take 4 (drop 4 (udp_header fid part tot @ x)) = nat_bytes 4 part" "take 4 (drop 8 (udp_header fid part tot @ x)) = nat_bytes 4 tot"
    by (simp_all add: udp_header_def)
  then have n: "nat_bytes 4 part = ''P_KE''" "nat_bytes 4 tot = ''EPAL''"
    unfolding k by (simp_all add: UDP_KEEPALIVE_PAYLOAD_def)
  have "part < 256 ^ 4" "tot < 256 ^ 4" and le: "part \<le> tot"
    using v by (simp_all add: is_valid_uint32_fragment_position_def UINT32_MAX_def)
  then have e: "part = bytes_nat ''P_KE''" "tot = bytes_nat ''EPAL''"
    unfolding n [symmetric] by (simp_all only: bytes_nat_bytes)
  from le have "bytes_nat ''P_KE'' \<le> bytes_nat ''EPAL''" unfolding e .
  moreover have "\<not> bytes_nat ''P_KE'' \<le> bytes_nat ''EPAL''" by (simp add: bytes_nat_def)
  ultimately show False by simp
qed

lemma udp_header_fields:
  assumes "is_valid_uint32 fid" and "is_valid_uint32_fragment_position part tot"
  shows "bytes_nat (take 4 (udp_header fid part tot @ x)) = fid"
    and "bytes_nat (take 4 (drop 4 (udp_header fid part tot @ x))) = part"
    and "bytes_nat (take 4 (drop 8 (udp_header fid part tot @ x))) = tot"
    and "drop 12 (udp_header fid part tot @ x) = x"
proof -
  have "fid < 256 ^ 4" "part < 256 ^ 4" "tot < 256 ^ 4"
    using assms by (simp_all add: is_valid_uint32_def is_valid_uint32_fragment_position_def UINT32_MAX_def)
  note b = this [THEN bytes_nat_bytes]
  show "bytes_nat (take 4 (udp_header fid part tot @ x)) = fid" using b(1) by (simp add: udp_header_def)
  show "bytes_nat (take 4 (drop 4 (udp_header fid part tot @ x))) = part" using b(2) by (simp add: udp_header_def)
  show "bytes_nat (take 4 (drop 8 (udp_header fid part tot @ x))) = tot" using b(3) by (simp add: udp_header_def)
  show "drop 12 (udp_header fid part tot @ x) = x" by simp
qed

section \<open>Reassembly of one frame\<close>

text \<open>What one fragment does to the entry of its own frame, and what it hands out.\<close>

definition frame_step :: "time_us \<Rightarrow> nat \<Rightarrow> nat \<Rightarrow> nat \<Rightarrow> string \<Rightarrow> partial_udp_frame option \<Rightarrow>
    partial_udp_frame option \<times> string option result" where
  "frame_step now fid part tot x cur =
     (let f = (if part = 1 \<or> cur = None
               then \<lparr> pf_frame_id = fid, pf_total_parts = tot, pf_parts = [], pf_created_at = now \<rparr> else the cur);
          f' = f \<lparr> pf_parts := dict_setdefault part x (pf_parts f) \<rparr> in
      if pf_total_parts f \<noteq> tot then (None, Inr None)
      else if is_complete f' then (None, rbind (build_payload f') (\<lambda>p. Inr (Some p)))
      else (Some f', Inr None))"

lemma store_fragment_frame:
  assumes "dict_ok (ua_partial_frames ua)"
  shows "dict_get (ua_partial_frames (fst (store_fragment now (h, p, fid) part tot x ua))) k =
      (if k = (h, p, fid) then fst (frame_step now fid part tot x (dict_get (ua_partial_frames ua) k))
       else dict_get (ua_partial_frames ua) k)"
    and "snd (store_fragment now (h, p, fid) part tot x ua) =
      snd (frame_step now fid part tot x (dict_get (ua_partial_frames ua) (h, p, fid)))"
    and "dict_ok (ua_partial_frames (fst (store_fragment now (h, p, fid) part tot x ua)))"
    and "ua_reassembly_timeout (fst (store_fragment now (h, p, fid) part tot x ua)) = ua_reassembly_timeout ua"
    and "ua_has_inbound_handler (fst (store_fragment now (h, p, fid) part tot x ua)) = ua_has_inbound_handler ua"
  using assms unfolding store_fragment_def frame_step_def Let_def
  by (cases "part = 1"; cases "dict_get (ua_partial_frames ua) (h, p, fid)"; simp)+

lemma get_prune:
  assumes "dict_ok (ua_partial_frames ua)"
  shows "dict_get (ua_partial_frames (prune_expired_frames now ua)) k =
      (case dict_get (ua_partial_frames ua) k of None \<Rightarrow> None
       | Some f \<Rightarrow> if now - pf_created_at f \<ge> ua_reassembly_timeout ua then None else Some f)"
    and "dict_ok (ua_partial_frames (prune_expired_frames now ua))"
proof -
  have pop: "dict_get (fold (\<lambda>(key, _). dict_pop key) es d) k =
      (if k \<in> fst ` set es then None else dict_get d k) \<and> dict_ok (fold (\<lambda>(key, _). dict_pop key) es d)"
    if "dict_ok d" for es :: "(frame_key \<times> partial_udp_frame) list" and d :: "(frame_key, partial_udp_frame) dict"
    using that by (induction es arbitrary: d) (auto split: prod.split)
  let ?ex = "\<lambda>(key :: frame_key, f). now - pf_created_at f \<ge> ua_reassembly_timeout ua"
  have "k \<in> fst ` set (filter ?ex (ua_partial_frames ua)) \<longleftrightarrow>
    (\<exists>f. dict_get (ua_partial_frames ua) k = Some f \<and> now - pf_created_at f \<ge> ua_reassembly_timeout ua)"
    by (force simp: dict_get_iff [OF assms])
  with pop [OF assms] show "dict_get (ua_partial_frames (prune_expired_frames now ua)) k =
      (case dict_get (ua_partial_frames ua) k of None \<Rightarrow> None
       | Some f \<Rightarrow> if now - pf_created_at f \<ge> ua_reassembly_timeout ua then None else Some f)"
    by (auto simp: prune_expired_frames_def Let_def split: option.split)
  from pop [OF assms] show "dict_ok (ua_partial_frames (prune_expired_frames now ua))"
    by (simp add: prune_expired_frames_def Let_def)
qed

section \<open>Runs\<close>

text \<open>Datagrams arriving at an adapter, with the clock readings and the sender's address, and what each handed out.\<close>

record udp_event =
  ev_now :: time_us
  ev_utc :: time_us
  ev_data :: string
  ev_host :: string
  ev_port :: int

fun udp_run :: "udp_event list \<Rightarrow> udp_adapter \<Rightarrow> (udp_event \<times> transport_packet option result) list" where
  "udp_run [] ua = []"
| "udp_run (e # es) ua =
     (let (ua', r) = datagram_received (ev_now e) (ev_utc e) (ev_data e) (ev_host e) (ev_port e) ua
      in (e, r) # udp_run es ua')"

definition payload_of :: "transport_packet option result \<Rightarrow> string option result" where
  "payload_of r = rbind r (\<lambda>p. Inr (map_option tp_payload p))"

text \<open>The events that carry a fragment of a given frame.\<close>

definition ev_of_frame :: "frame_key \<Rightarrow> udp_event \<Rightarrow> bool" where
  "ev_of_frame K e \<longleftrightarrow> (ev_host e, ev_port e, bytes_nat (take 4 (ev_data e))) = K \<and> ev_data e \<noteq> UDP_KEEPALIVE_PAYLOAD \<and>
     12 \<le> length (ev_data e)"

lemma remember_peer_frames [simp]:
  "ua_partial_frames (remember_peer h p ua) = ua_partial_frames ua"
  "ua_reassembly_timeout (remember_peer h p ua) = ua_reassembly_timeout ua"
  "ua_has_inbound_handler (remember_peer h p ua) = ua_has_inbound_handler ua"
  by (simp_all add: remember_peer_def)

lemma prune_fields [simp]:
  "ua_reassembly_timeout (prune_expired_frames now ua) = ua_reassembly_timeout ua"
  "ua_has_inbound_handler (prune_expired_frames now ua) = ua_has_inbound_handler ua"
  by (simp_all add: prune_expired_frames_def Let_def)

lemma reassemble_keeps:
  assumes "dict_ok (ua_partial_frames ua)"
  shows "dict_ok (ua_partial_frames (fst (try_reassemble_data_frame now d h p ua)))"
    and "ua_reassembly_timeout (fst (try_reassemble_data_frame now d h p ua)) = ua_reassembly_timeout ua"
    and "ua_has_inbound_handler (fst (try_reassemble_data_frame now d h p ua)) = ua_has_inbound_handler ua"
    and "12 \<le> length d \<longrightarrow> k \<noteq> (h, p, bytes_nat (take 4 d)) \<Longrightarrow>
      dict_get (ua_partial_frames (fst (try_reassemble_data_frame now d h p ua))) k = dict_get (ua_partial_frames ua) k"
  using store_fragment_frame [OF assms]
  by (simp_all add: try_reassemble_data_frame_def Let_def UDP_DATA_HEADER_SIZE_def assms)

lemma reassemble_fragment:
  assumes "is_valid_uint32 fid" and "is_valid_uint32_fragment_position part tot" and "tot \<noteq> 1"
  shows "try_reassemble_data_frame now (udp_header fid part tot @ x) h p ua = store_fragment now (h, p, fid) part tot x ua"
  using assms udp_header_fields [OF assms(1,2), of x]
  by (simp add: try_reassemble_data_frame_def Let_def UDP_DATA_HEADER_SIZE_def)

lemma datagram_received_split:
  fixes ua :: udp_adapter
  assumes "d \<noteq> UDP_KEEPALIVE_PAYLOAD"
  shows "fst (datagram_received now utc d h p ua) =
      fst (try_reassemble_data_frame now d h p (prune_expired_frames now (remember_peer h p ua)))"
    and "ua_has_inbound_handler (fst (datagram_received now utc d h p ua)) \<Longrightarrow>
      payload_of (snd (datagram_received now utc d h p ua)) =
      snd (try_reassemble_data_frame now d h p (prune_expired_frames now (remember_peer h p ua)))"
proof -
  obtain ua2 r where r: "try_reassemble_data_frame now d h p (prune_expired_frames now (remember_peer h p ua)) = (ua2, r)"
    by (cases "try_reassemble_data_frame now d h p (prune_expired_frames now (remember_peer h p ua))")
  show "fst (datagram_received now utc d h p ua) =
      fst (try_reassemble_data_frame now d h p (prune_expired_frames now (remember_peer h p ua)))"
    using assms by (simp add: datagram_received_def r Let_def)
  show "ua_has_inbound_handler (fst (datagram_received now utc d h p ua)) \<Longrightarrow>
      payload_of (snd (datagram_received now utc d h p ua)) =
      snd (try_reassemble_data_frame now d h p (prune_expired_frames now (remember_peer h p ua)))"
    using assms by (cases r) (auto simp: datagram_received_def r Let_def payload_of_def split: option.split)
qed

lemma datagram_keeps:
  assumes "dict_ok (ua_partial_frames ua)"
  shows "dict_ok (ua_partial_frames (fst (datagram_received now utc d h p ua)))"
    and "ua_reassembly_timeout (fst (datagram_received now utc d h p ua)) = ua_reassembly_timeout ua"
    and "ua_has_inbound_handler (fst (datagram_received now utc d h p ua)) = ua_has_inbound_handler ua"
proof -
  let ?u = "prune_expired_frames now (remember_peer h p ua)"
  have ok: "dict_ok (ua_partial_frames ?u)" using get_prune(2) [of "remember_peer h p ua"] assms by simp
  note k = reassemble_keeps(1-3) [OF ok, of now d h p]
  show "dict_ok (ua_partial_frames (fst (datagram_received now utc d h p ua)))"
    and "ua_reassembly_timeout (fst (datagram_received now utc d h p ua)) = ua_reassembly_timeout ua"
    and "ua_has_inbound_handler (fst (datagram_received now utc d h p ua)) = ua_has_inbound_handler ua"
    using k assms datagram_received_split(1) [of d now utc h p ua]
    by (cases "d = UDP_KEEPALIVE_PAYLOAD"; simp add: datagram_received_def)+
qed

text \<open>The fragments of one frame, one after the other.\<close>

fun frame_run :: "nat \<Rightarrow> nat \<Rightarrow> (time_us \<times> nat \<times> string) list \<Rightarrow> partial_udp_frame option \<Rightarrow> string option result list" where
  "frame_run fid tot [] cur = []"
| "frame_run fid tot ((now, part, x) # fs) cur =
     (let (cur', r) = frame_step now fid part tot x cur in r # frame_run fid tot fs cur')"

definition fragment_of :: "udp_event \<Rightarrow> time_us \<times> nat \<times> string" where
  "fragment_of e = (ev_now e, bytes_nat (take 4 (drop 4 (ev_data e))), drop 12 (ev_data e))"

lemma frame_step_created:
  "fst (frame_step now fid part tot x cur) = Some f \<Longrightarrow> pf_created_at f = now \<or> (\<exists>g. cur = Some g \<and> pf_created_at f = pf_created_at g)"
  by (cases cur) (auto simp: frame_step_def Let_def split: if_splits)

lemma udp_run_frame:
  assumes "is_valid_uint32 fid" and "tot \<noteq> 1"
    and "\<forall>e \<in> set es. ev_of_frame (h, p, fid) e \<longrightarrow>
      (\<exists>part x. is_valid_uint32_fragment_position part tot \<and> ev_data e = udp_header fid part tot @ x)"
    and "\<forall>e \<in> set es. \<forall>e' \<in> set es. ev_now e - ev_now e' < ua_reassembly_timeout ua"
    and "\<forall>f. dict_get (ua_partial_frames ua) (h, p, fid) = Some f \<longrightarrow> (\<forall>e \<in> set es. ev_now e - pf_created_at f < ua_reassembly_timeout ua)"
    and "dict_ok (ua_partial_frames ua)" and "ua_has_inbound_handler ua"
  shows "map (payload_of \<circ> snd) (filter (ev_of_frame (h, p, fid) \<circ> fst) (udp_run es ua)) =
    frame_run fid tot (map fragment_of (filter (ev_of_frame (h, p, fid)) es)) (dict_get (ua_partial_frames ua) (h, p, fid))"
  using assms(3-7)
proof (induction es arbitrary: ua)
  case (Cons e es)
  let ?K = "(h, p, fid)" and ?u = "prune_expired_frames (ev_now e) (remember_peer (ev_host e) (ev_port e) ua)"
  let ?ua = "fst (datagram_received (ev_now e) (ev_utc e) (ev_data e) (ev_host e) (ev_port e) ua)"
  let ?r = "snd (datagram_received (ev_now e) (ev_utc e) (ev_data e) (ev_host e) (ev_port e) ua)"
  have run: "udp_run (e # es) ua = (e, ?r) # udp_run es ?ua" by (simp add: case_prod_beta)
  note k = datagram_keeps [OF Cons.prems(4), of "ev_now e" "ev_utc e" "ev_data e" "ev_host e" "ev_port e"]
  have ok: "dict_ok (ua_partial_frames ?u)"
    using get_prune(2) [of "remember_peer (ev_host e) (ev_port e) ua"] Cons.prems(4) by simp
  have pr: "dict_get (ua_partial_frames ?u) ?K = dict_get (ua_partial_frames ua) ?K"
    using get_prune(1) [of "remember_peer (ev_host e) (ev_port e) ua" "ev_now e" ?K] Cons.prems(3,4)
    by (fastforce split: option.split)
  have IH: "map (payload_of \<circ> snd) (filter (ev_of_frame ?K \<circ> fst) (udp_run es ?ua)) =
    frame_run fid tot (map fragment_of (filter (ev_of_frame ?K) es)) (dict_get (ua_partial_frames ?ua) ?K)"
    if "\<forall>f. dict_get (ua_partial_frames ?ua) ?K = Some f \<longrightarrow> (\<forall>e \<in> set es. ev_now e - pf_created_at f < ua_reassembly_timeout ?ua)"
    by (rule Cons.IH [OF _ _ that]) (use Cons.prems k in auto)
  show ?case
  proof (cases "ev_of_frame ?K e")
    case False
    have "dict_get (ua_partial_frames ?ua) ?K = dict_get (ua_partial_frames ua) ?K"
    proof (cases "ev_data e = UDP_KEEPALIVE_PAYLOAD")
      case False
      then have "12 \<le> length (ev_data e) \<longrightarrow> ?K \<noteq> (ev_host e, ev_port e, bytes_nat (take 4 (ev_data e)))"
        using \<open>\<not> ev_of_frame ?K e\<close> by (auto simp: ev_of_frame_def)
      from reassemble_keeps(4) [OF ok this] show ?thesis using datagram_received_split(1) [OF False] pr by simp
    qed (simp add: datagram_received_def)
    with IH Cons.prems(3) k(2) False show ?thesis unfolding run by (simp add: comp_def)
  next
    case True
    then obtain part x where px: "is_valid_uint32_fragment_position part tot" "ev_data e = udp_header fid part tot @ x"
      using Cons.prems(1) by auto
    have hp: "ev_host e = h" "ev_port e = p" and nk: "ev_data e \<noteq> UDP_KEEPALIVE_PAYLOAD" using True by (auto simp: ev_of_frame_def)
    have re: "try_reassemble_data_frame (ev_now e) (ev_data e) (ev_host e) (ev_port e) ?u = store_fragment (ev_now e) ?K part tot x ?u"
      unfolding hp px(2) by (rule reassemble_fragment [OF assms(1) px(1) assms(2)])
    have fr: "fragment_of e = (ev_now e, part, x)"
      using udp_header_fields [OF assms(1) px(1), of x] by (simp add: fragment_of_def px(2))
    let ?s = "frame_step (ev_now e) fid part tot x (dict_get (ua_partial_frames ua) ?K)"
    have st: "dict_get (ua_partial_frames ?ua) ?K = fst ?s" "payload_of ?r = snd ?s"
      using datagram_received_split [OF nk, of "ev_now e" "ev_utc e" "ev_host e" "ev_port e" ua] store_fragment_frame(1,2) [OF ok]
        Cons.prems(5) k(3) re pr by simp_all
    have "\<forall>f. fst ?s = Some f \<longrightarrow> (\<forall>e \<in> set es. ev_now e - pf_created_at f < ua_reassembly_timeout ?ua)"
      using frame_step_created [of "ev_now e" fid part tot x "dict_get (ua_partial_frames ua) ?K"] Cons.prems(2,3) k(2) by fastforce
    with IH st True fr show ?thesis unfolding run by (simp add: case_prod_beta comp_def)
  qed
qed simp

section \<open>Reassembly refines a set of received parts\<close>

text \<open>
  The specification of reassembly: a frame is the set of the parts seen since the last part 1, and
  it is handed out (and forgotten) when the set is full.
\<close>

fun part_run :: "nat \<Rightarrow> nat list \<Rightarrow> nat set \<Rightarrow> bool list" where
  "part_run n [] S = []"
| "part_run n (i # is) S =
     (let S' = (if i = 1 then {1} else insert i S) in
      if S' = {1..n} then True # part_run n is {} else False # part_run n is S')"

definition frame_abs :: "nat \<Rightarrow> (nat \<Rightarrow> string) \<Rightarrow> nat set \<Rightarrow> partial_udp_frame option \<Rightarrow> bool" where
  "frame_abs n c S cur \<longleftrightarrow> S \<subseteq> {1..n} \<and> (case cur of None \<Rightarrow> S = {}
     | Some f \<Rightarrow> pf_total_parts f = n \<and> dict_ok (pf_parts f) \<and> (\<forall>i. dict_get (pf_parts f) i = (if i \<in> S then Some (c i) else None)))"

lemma dict_ok_length: "dict_ok d \<Longrightarrow> (\<And>i. dict_get d i \<noteq> None \<longleftrightarrow> i \<in> S) \<Longrightarrow> length d = card S"
proof -
  assume d: "dict_ok d" and S: "\<And>i. dict_get d i \<noteq> None \<longleftrightarrow> i \<in> S"
  have "S = set (map fst d)" using S dict_get_None_iff [of d] by auto
  with d show ?thesis by (metis dict_ok_def distinct_card length_map)
qed

lemma build_payload_full:
  assumes "pf_total_parts f = n" and "\<And>i. i \<in> {1..n} \<Longrightarrow> dict_get (pf_parts f) i = Some (c i)"
  shows "build_payload f = Inr (concat (map c [1..<n + 1]))"
proof -
  have "rmap (\<lambda>i. case dict_get (pf_parts f) i of None \<Rightarrow> Inl KeyError | Some x \<Rightarrow> Inr x) [1..<n + 1] = Inr (map c [1..<n + 1])"
    unfolding rmap_Inr_iff list_all2_conv_all_nth using assms(2) by (simp del: upt_Suc)
  then show ?thesis by (simp add: build_payload_def assms(1) del: upt_Suc)
qed

lemma frame_step_abs:
  assumes "frame_abs n c S cur" and "i \<in> {1..n}"
  defines "S' \<equiv> (if i = 1 then {1} else insert i S)"
  shows "S' = {1..n} \<Longrightarrow> frame_step now fid i n (c i) cur = (None, Inr (Some (concat (map c [1..<n + 1]))))"
    and "S' \<noteq> {1..n} \<Longrightarrow> \<exists>f. frame_step now fid i n (c i) cur = (Some f, Inr None) \<and> frame_abs n c S' (Some f)"
proof -
  define f where "f = (if i = 1 \<or> cur = None
      then \<lparr> pf_frame_id = fid, pf_total_parts = n, pf_parts = [], pf_created_at = now \<rparr> else the cur)"
  define f' where "f' = f \<lparr> pf_parts := dict_setdefault i (c i) (pf_parts f) \<rparr>"
  have S: "S' \<subseteq> {1..n}" using assms by (auto simp: frame_abs_def)
  have tot: "pf_total_parts f = n" using assms(1) by (auto simp: f_def frame_abs_def)
  have get: "dict_ok (pf_parts f') \<and> (\<forall>j. dict_get (pf_parts f') j = (if j \<in> S' then Some (c j) else None))"
    using assms(1) by (cases cur) (auto simp: f'_def f_def S'_def frame_abs_def)
  then have len: "length (pf_parts f') = card S'" by (intro dict_ok_length) auto
  have comp: "is_complete f' \<longleftrightarrow> S' = {1..n}"
    using len tot S card_subset_eq [of "{1..n}" S'] by (auto simp: is_complete_def f'_def)
  have step: "frame_step now fid i n (c i) cur =
      (if is_complete f' then (None, rbind (build_payload f') (\<lambda>p. Inr (Some p))) else (Some f', Inr None))"
    unfolding frame_step_def Let_def f_def [symmetric] f'_def [symmetric] using tot by simp
  show "frame_step now fid i n (c i) cur = (None, Inr (Some (concat (map c [1..<n + 1]))))" if "S' = {1..n}"
    using step comp that build_payload_full [of f' n c] get tot by (simp add: f'_def del: upt_Suc)
  show "\<exists>f. frame_step now fid i n (c i) cur = (Some f, Inr None) \<and> frame_abs n c S' (Some f)" if "S' \<noteq> {1..n}"
    using step comp that get tot S by (simp add: frame_abs_def f'_def)
qed

lemma frame_run_abs:
  assumes "frame_abs n c S cur" and "\<forall>(now, i, x) \<in> set fs. i \<in> {1..n} \<and> x = c i"
  shows "frame_run fid n fs cur =
    map (\<lambda>b. Inr (if b then Some (concat (map c [1..<n + 1])) else None)) (part_run n (map (fst \<circ> snd) fs) S)"
  using assms
proof (induction fs arbitrary: S cur)
  case (Cons a fs)
  obtain now i x where a: "a = (now, i, x)" by (cases a)
  then have i: "i \<in> {1..n}" "x = c i" using Cons.prems(2) by auto
  let ?S = "if i = 1 then {1} else insert i S"
  have empty: "frame_abs n c {} None" by (simp add: frame_abs_def)
  show ?case
  proof (cases "?S = {1..n}")
    case True
    have "frame_run fid n fs None =
        map (\<lambda>b. Inr (if b then Some (concat (map c [1..<n + 1])) else None)) (part_run n (map (fst \<circ> snd) fs) {})"
      using Cons.prems(2) by (intro Cons.IH empty) auto
    with frame_step_abs(1) [OF Cons.prems(1) i(1) True, of now fid] True a i(2) show ?thesis
      by (simp add: Let_def comp_def del: upt_Suc)
  next
    case False
    obtain f where f: "frame_step now fid i n (c i) cur = (Some f, Inr None)" "frame_abs n c ?S (Some f)"
      using frame_step_abs(2) [OF Cons.prems(1) i(1) False] by blast
    have "frame_run fid n fs (Some f) =
        map (\<lambda>b. Inr (if b then Some (concat (map c [1..<n + 1])) else None)) (part_run n (map (fst \<circ> snd) fs) ?S)"
      using Cons.prems(2) by (intro Cons.IH f(2)) auto
    with f(1) False a i(2) show ?thesis by (simp add: Let_def comp_def del: upt_Suc)
  qed
qed simp

lemma part_run_step:
  "i \<noteq> 1 \<Longrightarrow> insert i S \<noteq> {1..n} \<Longrightarrow> part_run n (i # is) S = False # part_run n is (insert i S)"
  "i \<noteq> 1 \<Longrightarrow> insert i S = {1..n} \<Longrightarrow> part_run n (i # is) S = True # part_run n is {}"
  "{1} \<noteq> {1..n} \<Longrightarrow> part_run n (1 # is) S = False # part_run n is {1}"
  by (simp_all only: part_run.simps Let_def if_False if_True simp_thms)

lemma part_run_append:
  assumes "1 \<notin> set as" and "1 \<notin> S" and "0 < n"
  shows "part_run n (as @ bs) S = replicate (length as) False @ part_run n bs (S \<union> set as)"
  using assms(1,2)
proof (induction as arbitrary: S)
  case (Cons a as)
  have "1 \<in> {1..n}" using assms(3) by simp
  moreover have "1 \<notin> insert a S" using Cons.prems by auto
  ultimately have "insert a S \<noteq> {1..n}" by blast
  moreover have "a \<noteq> 1" using Cons.prems(1) by auto
  ultimately have "part_run n (a # as @ bs) S = False # part_run n (as @ bs) (insert a S)" by (intro part_run_step(1))
  also have "part_run n (as @ bs) (insert a S) = replicate (length as) False @ part_run n bs (insert a S \<union> set as)"
    using Cons.IH [of "insert a S"] Cons.prems by auto
  finally show ?case by (simp del: part_run.simps)
qed simp

lemma part_run_distinct:
  assumes "distinct ps" and "1 \<notin> set ps" and "set ps \<inter> S = {}" and "S \<union> set ps \<subseteq> {1..n}" and "S \<noteq> {1..n}"
  shows "S \<union> set ps = {1..n} \<Longrightarrow> part_run n ps S = replicate (length ps - 1) False @ [True]"
    and "S \<union> set ps \<noteq> {1..n} \<Longrightarrow> part_run n ps S = replicate (length ps) False"
proof -
  have "(S \<union> set ps = {1..n} \<longrightarrow> part_run n ps S = replicate (length ps - 1) False @ [True]) \<and>
    (S \<union> set ps \<noteq> {1..n} \<longrightarrow> part_run n ps S = replicate (length ps) False)"
    using assms
  proof (induction ps arbitrary: S)
    case (Cons a ps)
    have a: "a \<noteq> 1" using Cons.prems(2) by auto
    have un: "S \<union> set (a # ps) = insert a S \<union> set ps" by auto
    show ?case
    proof (cases "insert a S = {1..n}")
      case True
      then have "set ps \<subseteq> insert a S" using Cons.prems(4) by auto
      then have "ps = []" using Cons.prems(1,3) by (cases ps) auto
      with True part_run_step(2) [OF a True, of ps] show ?thesis unfolding un by (simp del: part_run.simps add: part_run.simps(1))
    next
      case False
      have IH: "(insert a S \<union> set ps = {1..n} \<longrightarrow> part_run n ps (insert a S) = replicate (length ps - 1) False @ [True]) \<and>
        (insert a S \<union> set ps \<noteq> {1..n} \<longrightarrow> part_run n ps (insert a S) = replicate (length ps) False)"
        by (rule Cons.IH) (use Cons.prems False in auto)
      have "insert a S \<union> set ps \<noteq> {1..n}" if "ps = []" using that False by simp
      with IH show ?thesis unfolding un part_run_step(1) [OF a False] by (cases ps) auto
    qed
  qed simp
  then show "S \<union> set ps = {1..n} \<Longrightarrow> part_run n ps S = replicate (length ps - 1) False @ [True]"
    and "S \<union> set ps \<noteq> {1..n} \<Longrightarrow> part_run n ps S = replicate (length ps) False" by blast+
qed

text \<open>When every part arrives exactly once, the frame comes out exactly when part 1 was the first.\<close>

lemma part_run_permutation:
  assumes "2 \<le> n" and "mset ps = mset [1..<n + 1]"
  shows "part_run n ps {} = (if hd ps = 1 then replicate (n - 1) False @ [True] else replicate n False)"
proof -
  have ps: "set ps = {1..n}" "distinct ps" "length ps = n"
    using assms(2) mset_eq_setD [OF assms(2)] mset_eq_imp_distinct_iff [OF assms(2)] mset_eq_length [OF assms(2)] by auto
  have full: "{1} \<noteq> {1..n}" using assms(1) by (metis atLeastAtMost_singleton_iff One_nat_def Suc_1 not_less_eq_eq order_refl)
  show ?thesis
  proof (cases "hd ps = 1")
    case True
    then obtain bs where bs: "ps = 1 # bs" using ps(3) assms(1) by (cases ps) auto
    with ps have "distinct bs" "1 \<notin> set bs" and u: "{1} \<union> set bs = {1..n}" and "length bs = n - 1" by auto
    then have "part_run n bs {1} = replicate (n - 1 - 1) False @ [True]"
      using part_run_distinct(1) [of bs "{1}" n] full by auto
    then have "part_run n ps {} = replicate (Suc (n - 1 - 1)) False @ [True]"
      unfolding bs part_run_step(3) [OF full] by simp
    with True assms(1) show ?thesis by (simp add: Suc_diff_Suc)
  next
    case False
    have "1 \<in> set ps" using ps(1) assms(1) by simp
    then obtain as bs where ab: "ps = as @ 1 # bs" by (meson split_list)
    then have "as \<noteq> []" using False by (cases as) auto
    have d: "distinct bs" "1 \<notin> set bs" "1 \<notin> set as" "set as \<inter> set bs = {}" using ps(2) ab by auto
    have "{1} \<union> set bs \<noteq> {1..n}"
    proof
      assume "{1} \<union> set bs = {1..n}"
      then have "set as \<subseteq> {1} \<union> set bs" using ps(1) ab by auto
      with \<open>as \<noteq> []\<close> d(3,4) show False by (cases as) auto
    qed
    moreover have "{1} \<union> set bs \<subseteq> {1..n}" unfolding ps(1) [symmetric] ab by auto
    ultimately have "part_run n bs {1} = replicate (length bs) False"
      by (intro part_run_distinct(2)) (use d full in simp_all)
    then have "part_run n (1 # bs) (set as) = replicate (Suc (length bs)) False"
      unfolding part_run_step(3) [OF full] by simp
    then have "part_run n ps {} = replicate (length as + Suc (length bs)) False"
      using part_run_append [OF d(3), of "{}" n "1 # bs"] assms(1) ab \<open>part_run n (1 # bs) (set as) = _\<close>
      unfolding replicate_add by (simp del: part_run.simps replicate_Suc)
    with False ps(3) ab show ?thesis by simp
  qed
qed

lemma build_data_datagrams_Inr:
  assumes "build_data_datagrams ua urandom p = Inr ds" and "length urandom = 4"
  shows "12 < ua_max_datagram_size ua" and "length (udp_chunks ua p) \<le> UINT32_MAX"
    and "ds = udp_datagrams (new_udp_frame_id urandom) (udp_chunks ua p)"
proof -
  show a: "12 < ua_max_datagram_size ua"
    using assms(1) by (auto simp: build_data_datagrams_def max_fragment_payload_size_def UDP_DATA_HEADER_SIZE_def split: if_splits)
  show b: "length (udp_chunks ua p) \<le> UINT32_MAX"
    using assms(1) a by (auto simp: build_data_datagrams_def max_fragment_payload_size_def UDP_DATA_HEADER_SIZE_def udp_chunks_def Let_def split: if_splits)
  show "ds = udp_datagrams (new_udp_frame_id urandom) (udp_chunks ua p)"
    using build_data_datagrams_ok [OF a assms(2) b] assms(1) by simp
qed

lemma udp_datagrams_in:
  assumes "d \<in> set (udp_datagrams fid cs)"
  obtains i where "i < length cs" and "d = udp_header fid (Suc i) (length cs) @ cs ! i"
  using assms by (auto simp: udp_datagrams_def)

lemma position_ok: "i < n \<Longrightarrow> n \<le> UINT32_MAX \<Longrightarrow> is_valid_uint32_fragment_position (Suc i) n"
  by (simp add: is_valid_uint32_fragment_position_def)

definition part_number :: "string \<Rightarrow> nat" where
  "part_number d = bytes_nat (take 4 (drop 4 d))"

lemma concat_nth: "concat (map (\<lambda>i. cs ! (i - 1)) [1..<length cs + 1]) = concat cs"
proof -
  have "map (\<lambda>i. cs ! (i - 1)) [1..<length cs + 1] = cs" by (rule nth_equalityI) (simp_all del: upt_Suc)
  then show ?thesis by simp
qed

lemma udp_run_parts:
  assumes "length urandom = 4" and "build_data_datagrams sender urandom payload = Inr ds" and "2 \<le> length ds"
    and "K = (h, p, new_udp_frame_id urandom)"
    and "\<forall>e \<in> set es. ev_of_frame K e \<longrightarrow> ev_data e \<in> set ds"
    and "\<forall>e \<in> set es. \<forall>e' \<in> set es. ev_now e - ev_now e' < ua_reassembly_timeout ua"
    and "dict_get (ua_partial_frames ua) K = None" and "dict_ok (ua_partial_frames ua)" and "ua_has_inbound_handler ua"
  shows "map (payload_of \<circ> snd) (filter (ev_of_frame K \<circ> fst) (udp_run es ua)) =
    map (\<lambda>b. Inr (if b then Some payload else None))
      (part_run (length ds) (map (\<lambda>e. part_number (ev_data e)) (filter (ev_of_frame K) es)) {})"
proof -
  let ?fid = "new_udp_frame_id urandom" and ?cs = "udp_chunks sender payload"
  note b = build_data_datagrams_Inr [OF assms(2,1)]
  note fid = new_udp_frame_id_valid [OF assms(1)]
  have len: "length ds = length ?cs" using b(3) by (simp add: udp_datagrams_def)
  have frag: "\<exists>i < length ?cs. ev_data e = udp_header ?fid (Suc i) (length ?cs) @ ?cs ! i \<and>
      fragment_of e = (ev_now e, Suc i, ?cs ! i) \<and> part_number (ev_data e) = Suc i"
    if e: "e \<in> set es" "ev_of_frame K e" for e
  proof -
    have "ev_data e \<in> set (udp_datagrams ?fid ?cs)" using assms(5) e b(3) by simp
    then obtain i where i: "i < length ?cs" "ev_data e = udp_header ?fid (Suc i) (length ?cs) @ ?cs ! i"
      by (rule udp_datagrams_in)
    with udp_header_fields [OF fid position_ok [OF i(1) b(2)], of "?cs ! i"] show ?thesis
      by (intro exI [of _ i]) (simp add: fragment_of_def part_number_def)
  qed
  have "map (payload_of \<circ> snd) (filter (ev_of_frame K \<circ> fst) (udp_run es ua)) =
      frame_run ?fid (length ?cs) (map fragment_of (filter (ev_of_frame K) es)) (dict_get (ua_partial_frames ua) K)"
    unfolding assms(4)
  proof (rule udp_run_frame [OF fid])
    show "\<forall>e \<in> set es. ev_of_frame (h, p, ?fid) e \<longrightarrow>
        (\<exists>part x. is_valid_uint32_fragment_position part (length ?cs) \<and> ev_data e = udp_header ?fid part (length ?cs) @ x)"
      using frag position_ok [OF _ b(2)] unfolding assms(4) by blast
  qed (use assms(3,4,6-9) len in auto)
  also have "\<dots> = frame_run ?fid (length ?cs) (map fragment_of (filter (ev_of_frame K) es)) None" by (simp only: assms(7))
  also have "\<dots> = map (\<lambda>b. Inr (if b then Some (concat (map (\<lambda>i. ?cs ! (i - 1)) [1..<length ?cs + 1])) else None))
      (part_run (length ?cs) (map (fst \<circ> snd) (map fragment_of (filter (ev_of_frame K) es))) {})"
    using frag by (intro frame_run_abs) (fastforce simp: frame_abs_def)+
  also have "map (fst \<circ> snd) (map fragment_of (filter (ev_of_frame K) es)) = map (\<lambda>e. part_number (ev_data e)) (filter (ev_of_frame K) es)"
    using frag by (simp add: part_number_def fragment_of_def)
  finally show ?thesis unfolding concat_nth udp_chunks_props(2) [OF b(1)] len .
qed

lemma split_chunks_count: "length p \<le> k * c \<Longrightarrow> length (split_chunks c p) \<le> k"
proof (induction c p arbitrary: k rule: split_chunks.induct)
  case (1 c p)
  show ?case
  proof (cases "p = [] \<or> c = 0")
    case True
    then show ?thesis by (simp add: split_chunks.simps)
  next
    case False
    with 1(2) obtain k' where k: "k = Suc k'" by (cases k) auto
    have "length (split_chunks c (drop c p)) \<le> k'" using 1(1) [OF False, of k'] 1(2) k by simp
    with False k show ?thesis by (simp add: split_chunks.simps [of c p])
  qed
qed

text \<open>Every partial frame of the adapter holds fragments of what was sent under its key.\<close>

definition frames_of :: "(frame_key \<Rightarrow> string list) \<Rightarrow> udp_adapter \<Rightarrow> bool" where
  "frames_of sent ua \<longleftrightarrow> dict_ok (ua_partial_frames ua) \<and> (\<forall>K f. dict_get (ua_partial_frames ua) K = Some f \<longrightarrow>
     (\<exists>S. frame_abs (length (sent K)) (\<lambda>i. sent K ! (i - 1)) S (Some f)))"

lemma frames_of_prune: "frames_of sent ua \<Longrightarrow> frames_of sent (prune_expired_frames now (remember_peer h p ua))"
  using get_prune [of "remember_peer h p ua" now] by (auto simp: frames_of_def split: option.splits if_splits)

lemma frames_of_store:
  assumes "frames_of sent ua" and "i < length (sent (h, p, fid))"
  shows "frames_of sent (fst (store_fragment now (h, p, fid) (Suc i) (length (sent (h, p, fid))) (sent (h, p, fid) ! i) ua))" (is ?frames)
    and "snd (store_fragment now (h, p, fid) (Suc i) (length (sent (h, p, fid))) (sent (h, p, fid) ! i) ua) \<in>
      {Inr None, Inr (Some (concat (sent (h, p, fid))))}" (is ?out)
proof -
  let ?K = "(h, p, fid)" and ?cs = "sent (h, p, fid)"
  let ?c = "\<lambda>i. ?cs ! (i - 1)" and ?cur = "dict_get (ua_partial_frames ua) (h, p, fid)"
  let ?s = "frame_step now fid (Suc i) (length ?cs) (?cs ! i) ?cur"
  have ok: "dict_ok (ua_partial_frames ua)" using assms(1) by (simp add: frames_of_def)
  have "\<exists>S. frame_abs (length ?cs) ?c S ?cur"
  proof (cases ?cur)
    case None
    then show ?thesis by (intro exI [of _ "{}"]) (simp add: frame_abs_def)
  next
    case (Some f)
    then show ?thesis using assms(1) unfolding frames_of_def by metis
  qed
  then obtain S where S: "frame_abs (length ?cs) ?c S ?cur" ..
  have "?s = (None, Inr (Some (concat ?cs))) \<or> (\<exists>f S'. ?s = (Some f, Inr None) \<and> frame_abs (length ?cs) ?c S' (Some f))"
    using frame_step_abs [OF S, of "Suc i" now fid] assms(2) concat_nth [of ?cs] by (fastforce simp del: upt_Suc)
  with store_fragment_frame(1-3) [OF ok, of now h p fid "Suc i" "length ?cs" "?cs ! i"] assms(1)
  show ?frames ?out by (auto simp: frames_of_def)
qed

text \<open>A datagram of a peer that sends the payloads \<open>sent\<close>, already cut into parts, or a keep-alive.\<close>

definition honest_event :: "(frame_key \<Rightarrow> string list) \<Rightarrow> udp_event \<Rightarrow> bool" where
  "honest_event sent e \<longleftrightarrow> ev_data e = UDP_KEEPALIVE_PAYLOAD \<or>
     (\<exists>fid. is_valid_uint32 fid \<and> length (sent (ev_host e, ev_port e, fid)) \<le> UINT32_MAX \<and>
        ev_data e \<in> set (udp_datagrams fid (sent (ev_host e, ev_port e, fid))))"

lemma reassemble_honest:
  assumes "frames_of sent ua" and "honest_event sent e" and "ev_data e \<noteq> UDP_KEEPALIVE_PAYLOAD"
  shows "frames_of sent (fst (try_reassemble_data_frame now (ev_data e) (ev_host e) (ev_port e) ua)) \<and>
    (\<exists>fid. snd (try_reassemble_data_frame now (ev_data e) (ev_host e) (ev_port e) ua) \<in>
      {Inr None, Inr (Some (concat (sent (ev_host e, ev_port e, fid))))})"
proof -
  obtain fid where fid: "is_valid_uint32 fid" "length (sent (ev_host e, ev_port e, fid)) \<le> UINT32_MAX"
    "ev_data e \<in> set (udp_datagrams fid (sent (ev_host e, ev_port e, fid)))"
    using assms(2,3) by (auto simp: honest_event_def)
  let ?cs = "sent (ev_host e, ev_port e, fid)"
  obtain i where i: "i < length ?cs" "ev_data e = udp_header fid (Suc i) (length ?cs) @ ?cs ! i"
    using fid(3) by (rule udp_datagrams_in)
  note pos = position_ok [OF i(1) fid(2)]
  show ?thesis
  proof (cases "length ?cs = 1")
    case True
    then have "?cs = [?cs ! i]" using i(1) by (cases ?cs) auto
    then have "concat ?cs = ?cs ! i" by (metis concat.simps append_Nil2)
    moreover have "try_reassemble_data_frame now (ev_data e) (ev_host e) (ev_port e) ua = (ua, Inr (Some (?cs ! i)))"
      using udp_header_fields [OF fid(1) pos, of "?cs ! i"] fid(1) pos True
      by (simp add: i(2) try_reassemble_data_frame_def Let_def UDP_DATA_HEADER_SIZE_def)
    ultimately show ?thesis using assms(1) by (intro conjI exI [of _ fid]) simp_all
  next
    case False
    from frames_of_store [OF assms(1) i(1)] show ?thesis unfolding i(2) reassemble_fragment [OF fid(1) pos False] by blast
  qed
qed

lemma udp_run_honest:
  assumes "frames_of sent ua" and "\<forall>e \<in> set es. honest_event sent e" and "(e, r) \<in> set (udp_run es ua)"
  shows "r = Inr None \<or> (\<exists>pkt fid. r = Inr (Some pkt) \<and> tp_payload pkt = concat (sent (ev_host e, ev_port e, fid)) \<and>
    te_host (tp_remote_endpoint pkt) = ev_host e \<and> te_port (tp_remote_endpoint pkt) = ev_port e)"
  using assms
proof (induction es arbitrary: ua)
  case (Cons e' es)
  let ?d = "datagram_received (ev_now e') (ev_utc e') (ev_data e') (ev_host e') (ev_port e') ua"
  let ?u = "prune_expired_frames (ev_now e') (remember_peer (ev_host e') (ev_port e') ua)"
  let ?t = "try_reassemble_data_frame (ev_now e') (ev_data e') (ev_host e') (ev_port e') ?u"
  have h: "honest_event sent e'" using Cons.prems(2) by simp
  have step: "frames_of sent (fst ?d) \<and> (snd ?d = Inr None \<or> (\<exists>pkt fid. snd ?d = Inr (Some pkt) \<and>
      tp_payload pkt = concat (sent (ev_host e', ev_port e', fid)) \<and> te_host (tp_remote_endpoint pkt) = ev_host e' \<and>
      te_port (tp_remote_endpoint pkt) = ev_port e'))"
  proof (cases "ev_data e' = UDP_KEEPALIVE_PAYLOAD")
    case True
    with Cons.prems(1) show ?thesis by (simp add: datagram_received_def frames_of_def)
  next
    case False
    obtain ua2 q where t: "?t = (ua2, q)" by (cases ?t)
    from reassemble_honest [OF frames_of_prune [OF Cons.prems(1)] h False, of "ev_now e'" "ev_now e'" "ev_host e'" "ev_port e'"] obtain fid where
      "frames_of sent ua2" "q = Inr None \<or> q = Inr (Some (concat (sent (ev_host e', ev_port e', fid))))" unfolding t by auto
    with False have "frames_of sent (fst ?d)" and "snd ?d = Inr None \<or> (\<exists>pkt. snd ?d = Inr (Some pkt) \<and>
        tp_payload pkt = concat (sent (ev_host e', ev_port e', fid)) \<and> te_host (tp_remote_endpoint pkt) = ev_host e' \<and>
        te_port (tp_remote_endpoint pkt) = ev_port e')"
      by (auto simp: datagram_received_def t Let_def)
    then show ?thesis by blast
  qed
  have "udp_run (e' # es) ua = (e', snd ?d) # udp_run es (fst ?d)" by (simp add: case_prod_beta)
  then consider "e = e'" "r = snd ?d" | "(e, r) \<in> set (udp_run es (fst ?d))" using Cons.prems(3) by auto
  then show ?case
  proof cases
    case 1
    with step show ?thesis by blast
  next
    case 2
    from Cons.IH [OF conjunct1 [OF step] _ this] Cons.prems(2) show ?thesis by simp
  qed
qed simp

section \<open>Properties\<close>

text \<open>
  C35. Reassembly refines its specification. Take a payload cut into at least two datagrams, and let them
  arrive with any losses, repetitions and reorderings among arbitrary datagrams of other frames and
  other senders, all within the reassembly time-out. Then what the adapter hands out at the
  fragments of this frame is given by the set of the parts seen since the last part 1: the payload,
  whole and unchanged, when the set becomes full, and nothing otherwise.
\<close>

theorem udp_reassembly_refines:
  assumes "length urandom = 4" and "build_data_datagrams sender urandom payload = Inr ds" and "2 \<le> length ds"
    and "K = (h, p, new_udp_frame_id urandom)"
    and "\<forall>e \<in> set es. ev_of_frame K e \<longrightarrow> ev_data e \<in> set ds"
    and "\<forall>e \<in> set es. \<forall>e' \<in> set es. ev_now e - ev_now e' < ua_reassembly_timeout ua"
    and "dict_get (ua_partial_frames ua) K = None" and "dict_ok (ua_partial_frames ua)" and "ua_has_inbound_handler ua"
  shows "map (payload_of \<circ> snd) (filter (ev_of_frame K \<circ> fst) (udp_run es ua)) =
    map (\<lambda>b. Inr (if b then Some payload else None))
      (part_run (length ds) (map (\<lambda>e. part_number (ev_data e)) (filter (ev_of_frame K) es)) {})"
  by (rule udp_run_parts [OF assms])

definition demo_udp :: udp_adapter where
  "demo_udp = udp_set_inbound_packet_handler (new_udp_adapter ''0.0.0.0'' 9000 True 14 0 1000)"

definition demo_random :: string where
  "demo_random = ''abcd''"

definition demo_udp_event :: "time_us \<Rightarrow> nat \<Rightarrow> udp_event" where
  "demo_udp_event t i = \<lparr> ev_now = t, ev_utc = t, ev_data = udp_datagrams (new_udp_frame_id demo_random) [''he'', ''y''] ! i,
     ev_host = ''10.0.0.1'', ev_port = 7 \<rparr>"

abbreviation demo_frame_key :: frame_key where
  "demo_frame_key \<equiv> (''10.0.0.1'', 7, new_udp_frame_id demo_random)"

lemma demo_build: "build_data_datagrams demo_udp demo_random ''hey'' = Inr (udp_datagrams (new_udp_frame_id demo_random) [''he'', ''y''])"
proof -
  have c: "udp_chunks demo_udp ''hey'' = [''he'', ''y'']"
    by (simp add: udp_chunks_def demo_udp_def udp_set_inbound_packet_handler_def new_udp_adapter_def split_chunks.simps)
  then show ?thesis using build_data_datagrams_ok [of demo_udp demo_random "''hey''"]
    by (simp add: demo_udp_def udp_set_inbound_packet_handler_def new_udp_adapter_def demo_random_def UINT32_MAX_def)
qed

lemma demo_event:
  assumes "i < 2"
  shows "ev_of_frame demo_frame_key (demo_udp_event t i)" and "part_number (ev_data (demo_udp_event t i)) = Suc i"
proof -
  let ?d = "udp_header (new_udp_frame_id demo_random) (Suc i) 2 @ [''he'', ''y''] ! i"
  have d: "ev_data (demo_udp_event t i) = ?d"
    using assms by (cases i) (auto simp: demo_udp_event_def udp_datagrams_def numeral_2_eq_2)
  have fid: "is_valid_uint32 (new_udp_frame_id demo_random)" by (rule new_udp_frame_id_valid) (simp add: demo_random_def)
  have pos: "is_valid_uint32_fragment_position (Suc i) 2" using assms by (intro position_ok) (simp_all add: UINT32_MAX_def)
  note f = udp_header_fields [OF fid pos, of "[''he'', ''y''] ! i"]
  show "ev_of_frame demo_frame_key (demo_udp_event t i)"
    using f(1) keepalive_no_fragment [OF pos] unfolding ev_of_frame_def d by (simp add: demo_udp_event_def)
  show "part_number (ev_data (demo_udp_event t i)) = Suc i" using f(2) unfolding part_number_def d .
qed

lemma demo_udp_fields: "ua_partial_frames demo_udp = []" "ua_has_inbound_handler demo_udp" "ua_reassembly_timeout demo_udp = 1000"
  by (simp_all add: demo_udp_def udp_set_inbound_packet_handler_def new_udp_adapter_def)

lemma demo_parts: "part_run 2 [1, 2] {} = [False, True]" "part_run 2 [2, 1] {} = [False, False]"
proof -
  have s: "{1..2::nat} = {1, 2}" by auto
  have "{1} \<noteq> {1..2::nat}" "{2} \<noteq> {1..2::nat}" "insert 2 {1} = {1..2::nat}" unfolding s by auto
  then show "part_run 2 [1, 2] {} = [False, True]" "part_run 2 [2, 1] {} = [False, False]" by (simp_all add: Let_def)
qed

theorem udp_reassembly_refines_witness:
  "map (payload_of \<circ> snd) (udp_run [demo_udp_event 0 0, demo_udp_event 5 1] demo_udp) = [Inr None, Inr (Some ''hey'')]"
proof -
  let ?es = "[demo_udp_event 0 0, demo_udp_event 5 1]"
  have fs: "fst ` set (udp_run es ua) \<subseteq> set es" for es ua by (induction es arbitrary: ua) (auto simp: case_prod_beta)
  have ev: "ev_data (demo_udp_event t 0) \<in> set (udp_datagrams (new_udp_frame_id demo_random) [''he'', ''y''])"
    "ev_data (demo_udp_event t 1) \<in> set (udp_datagrams (new_udp_frame_id demo_random) [''he'', ''y''])" for t
    by (simp_all add: demo_udp_event_def udp_datagrams_def)
  have "map (payload_of \<circ> snd) (filter (ev_of_frame demo_frame_key \<circ> fst) (udp_run ?es demo_udp)) =
    map (\<lambda>b. Inr (if b then Some ''hey'' else None))
      (part_run (length (udp_datagrams (new_udp_frame_id demo_random) [''he'', ''y'']))
        (map (\<lambda>e. part_number (ev_data e)) (filter (ev_of_frame demo_frame_key) ?es)) {})"
    using ev by (intro udp_reassembly_refines [OF _ demo_build _ refl])
      (simp_all add: demo_random_def udp_datagrams_def demo_udp_fields demo_udp_event_def)
  moreover have "filter (ev_of_frame demo_frame_key \<circ> fst) (udp_run ?es demo_udp) = udp_run ?es demo_udp"
    using fs [of ?es demo_udp] demo_event(1) [of 0 0] demo_event(1) [of 1 5] by (intro filter_True) fastforce
  ultimately show ?thesis using demo_event demo_parts(1) by (simp add: udp_datagrams_def numeral_2_eq_2 del: udp_run.simps part_run.simps)
qed

text \<open>
  C36. If every datagram of a frame arrives exactly once, the payload comes out exactly when part 1 is the
  first to arrive: in any other order the frame is lost although nothing of it was lost on the way,
  because part 1 discards the parts that came before it.
\<close>

theorem udp_once_iff_part_one_first:
  assumes "length urandom = 4" and "build_data_datagrams sender urandom payload = Inr ds" and "2 \<le> length ds"
    and "K = (h, p, new_udp_frame_id urandom)"
    and "mset (map ev_data (filter (ev_of_frame K) es)) = mset ds"
    and "\<forall>e \<in> set es. \<forall>e' \<in> set es. ev_now e - ev_now e' < ua_reassembly_timeout ua"
    and "dict_get (ua_partial_frames ua) K = None" and "dict_ok (ua_partial_frames ua)" and "ua_has_inbound_handler ua"
  shows "map (payload_of \<circ> snd) (filter (ev_of_frame K \<circ> fst) (udp_run es ua)) =
    (if part_number (hd (map ev_data (filter (ev_of_frame K) es))) = 1
     then replicate (length ds - 1) (Inr None) @ [Inr (Some payload)] else replicate (length ds) (Inr None))"
proof -
  let ?n = "length ds" and ?as = "map ev_data (filter (ev_of_frame K) es)"
  note b = build_data_datagrams_Inr [OF assms(2,1)]
  have in_ds: "\<forall>e \<in> set es. ev_of_frame K e \<longrightarrow> ev_data e \<in> set ds"
    using mset_eq_setD [OF assms(5)] by auto
  have "map part_number ds = [1..<?n + 1]"
  proof (rule nth_equalityI)
    fix i assume "i < length (map part_number ds)"
    then have i: "i < length (udp_chunks sender payload)" "i < ?n" using b(3) by (simp_all add: udp_datagrams_def)
    show "map part_number ds ! i = [1..<?n + 1] ! i"
      using i udp_header_fields(2) [OF new_udp_frame_id_valid [OF assms(1)] position_ok [OF i(1) b(2)]] b(3)
      by (simp add: part_number_def udp_datagrams_def del: upt_Suc)
  qed (simp del: upt_Suc)
  then have "mset (map part_number ?as) = mset [1..<?n + 1]" using assms(5) by (metis mset_map)
  from part_run_permutation [OF assms(3) this]
  have "part_run ?n (map part_number ?as) {} =
      (if hd (map part_number ?as) = 1 then replicate (?n - 1) False @ [True] else replicate ?n False)" .
  moreover have "?as \<noteq> []" using mset_eq_length [OF assms(5)] assms(3) by auto
  ultimately show ?thesis
    unfolding udp_run_parts [OF assms(1-4) in_ds assms(6-9)] by (simp add: hd_map comp_def)
qed

theorem udp_once_iff_part_one_first_witness:
  "map (payload_of \<circ> snd) (filter (ev_of_frame demo_frame_key \<circ> fst) (udp_run [demo_udp_event 0 1, demo_udp_event 5 0] demo_udp)) =
     [Inr None, Inr None]"
proof -
  let ?es = "[demo_udp_event 0 1, demo_udp_event 5 0]"
  have f: "filter (ev_of_frame demo_frame_key) ?es = ?es" using demo_event(1) [of 1 0] demo_event(1) [of 0 5] by simp
  have ev: "ev_data (demo_udp_event t i) = udp_datagrams (new_udp_frame_id demo_random) [''he'', ''y''] ! i" for t i
    by (simp add: demo_udp_event_def)
  have "map (payload_of \<circ> snd) (filter (ev_of_frame demo_frame_key \<circ> fst) (udp_run ?es demo_udp)) =
    (if part_number (hd (map ev_data (filter (ev_of_frame demo_frame_key) ?es))) = 1
     then replicate (length (udp_datagrams (new_udp_frame_id demo_random) [''he'', ''y'']) - 1) (Inr None) @ [Inr (Some ''hey'')]
     else replicate (length (udp_datagrams (new_udp_frame_id demo_random) [''he'', ''y''])) (Inr None))"
  proof (rule udp_once_iff_part_one_first [OF _ demo_build _ refl])
    show "mset (map ev_data (filter (ev_of_frame demo_frame_key) ?es)) = mset (udp_datagrams (new_udp_frame_id demo_random) [''he'', ''y''])"
      unfolding f by (simp add: ev udp_datagrams_def)
  qed (simp_all add: demo_random_def udp_datagrams_def demo_udp_fields demo_udp_event_def)
  with demo_event(2) [of 1 0] show ?thesis unfolding f by (simp add: udp_datagrams_def numeral_2_eq_2 del: udp_run.simps)
qed

text \<open>
  Nothing is made up: when peers send only fragments of the payloads \<open>sent\<close> and keep-alives, then with any
  losses, repetitions, reorderings, interleavings and expiries every packet handed to the
  inbound handler carries, whole, the payload of some frame of the very peer it is attributed to, and no
  datagram makes reassembly raise.
\<close>

theorem udp_delivers_only_sent:
  assumes "frames_of sent ua" and "\<forall>e \<in> set es. honest_event sent e" and "(e, r) \<in> set (udp_run es ua)"
  shows "r = Inr None \<or> (\<exists>pkt fid. r = Inr (Some pkt) \<and> tp_payload pkt = concat (sent (ev_host e, ev_port e, fid)) \<and>
    te_host (tp_remote_endpoint pkt) = ev_host e \<and> te_port (tp_remote_endpoint pkt) = ev_port e)"
  by (rule udp_run_honest [OF assms])

theorem udp_delivers_only_sent_witness:
  "\<exists>r. udp_run [demo_udp_event 0 0] demo_udp = [(demo_udp_event 0 0, r)] \<and>
     (r = Inr None \<or> (\<exists>pkt. r = Inr (Some pkt) \<and> tp_payload pkt = ''hey''))"
proof -
  let ?e = "demo_udp_event 0 0"
  obtain r where r: "udp_run [?e] demo_udp = [(?e, r)]" by (simp add: case_prod_beta)
  have "frames_of (\<lambda>K. [''he'', ''y'']) demo_udp" by (simp add: frames_of_def demo_udp_fields)
  moreover have "honest_event (\<lambda>K. [''he'', ''y'']) ?e"
    unfolding honest_event_def using new_udp_frame_id_valid [of demo_random]
    by (intro disjI2 exI [of _ "new_udp_frame_id demo_random"]) (simp add: demo_udp_event_def udp_datagrams_def demo_random_def UINT32_MAX_def)
  ultimately show ?thesis using udp_delivers_only_sent [of "\<lambda>K. [''he'', ''y'']" demo_udp "[?e]" ?e r] r by (auto simp del: udp_run.simps)
qed

text \<open>
  Sending respects the datagram limit: with a limit above the twelve bytes of the header, every payload
  of at most \<open>2 ^ 32 - 1\<close> fragments is cut into datagrams no longer than the limit, whose parts put together
  are the payload; a limit that leaves no room for data is refused.
\<close>

theorem udp_datagrams_fit:
  assumes "length urandom = 4" and "length payload \<le> UINT32_MAX * nat (ua_max_datagram_size ua - 12)"
  shows "(if 12 < ua_max_datagram_size ua
    then \<exists>ds. build_data_datagrams ua urandom payload = Inr ds \<and> ds \<noteq> [] \<and>
      list_all (\<lambda>d. int (length d) \<le> ua_max_datagram_size ua) ds \<and> concat (map (drop 12) ds) = payload
    else \<exists>m. build_data_datagrams ua urandom payload = Inl (ValueError m))"
proof (cases "12 < ua_max_datagram_size ua")
  case True
  let ?cs = "udp_chunks ua payload" and ?fid = "new_udp_frame_id urandom"
  have "length ?cs \<le> UINT32_MAX"
    using split_chunks_count [OF assms(2)] by (auto simp: udp_chunks_def Let_def UINT32_MAX_def)
  from build_data_datagrams_ok [OF True assms(1) this]
  have "build_data_datagrams ua urandom payload = Inr (udp_datagrams ?fid ?cs)" .
  moreover have "udp_datagrams ?fid ?cs \<noteq> []" using udp_chunks_props(1) [OF True, of payload] by (simp add: udp_datagrams_def)
  moreover have "list_all (\<lambda>d. int (length d) \<le> ua_max_datagram_size ua) (udp_datagrams ?fid ?cs)"
    using udp_chunks_props(3) [OF True, OF nth_mem] by (fastforce simp: udp_datagrams_def list_all_iff)
  moreover have "map (drop 12) (udp_datagrams ?fid ?cs) = ?cs"
    by (rule nth_equalityI) (simp_all add: udp_datagrams_def)
  ultimately show ?thesis using True udp_chunks_props(2) [OF True, of payload] by auto
next
  case False
  then show ?thesis by (simp add: build_data_datagrams_def max_fragment_payload_size_def UDP_DATA_HEADER_SIZE_def)
qed

theorem udp_datagrams_fit_witness:
  "\<exists>ds. build_data_datagrams demo_udp demo_random ''hey'' = Inr ds \<and> list_all (\<lambda>d. length d \<le> 14) ds \<and> concat (map (drop 12) ds) = ''hey''"
proof -
  have m: "ua_max_datagram_size demo_udp = 14" by (simp add: demo_udp_def udp_set_inbound_packet_handler_def new_udp_adapter_def)
  have "length demo_random = 4" "length ''hey'' \<le> UINT32_MAX * nat (ua_max_datagram_size demo_udp - 12)"
    by (simp_all add: demo_random_def UINT32_MAX_def m)
  from udp_datagrams_fit [OF this] show ?thesis unfolding m by auto
qed

end
