(* ===== verification/Message_Registry.thy ===== *)
theory Message_Registry
  imports Session_Manager
begin

text \<open>
  \<^verbatim>\<open>app/core/models.py\<close>, \<^verbatim>\<open>app/core/message_registry.py\<close>, \<^verbatim>\<open>app/core/router.py\<close> and
  \<^verbatim>\<open>app/core/protocols/base.py\<close>: packets, envelopes and results, the table that gives every message type
  its handler and its session rule, and the dispatch. The eleven handler objects are a datatype; what a
  handler does is an argument \<open>handle\<close> of the dispatch, so the results hold for every behaviour of the
  handlers. A value of \<^verbatim>\<open>metadata\<close> is a JSON value or a byte string.
\<close>

section \<open>Packets and results\<close>

record packet_context =
  pc_transport_name :: string
  pc_payload :: string
  pc_remote_host :: "string option"
  pc_remote_port :: "int option"
  pc_local_host :: "string option"
  pc_local_port :: "int option"
  pc_connection_id :: "string option"
  pc_received_at :: time_us
  pc_metadata :: payload

record protocol_envelope =
  pe_protocol_name :: string
  pe_message_type :: "string option"
  pe_payload :: json
  pe_raw_payload :: string
  pe_header :: payload

datatype meta = MJson json | MBytes string

record packet_processing_result =
  pr_protocol_name :: string
  pr_handled :: bool
  pr_message_type :: "string option"
  pr_response_payload :: "string option"
  pr_metadata :: "(string, meta) dict"

abbreviation mstr :: "string \<Rightarrow> meta" where
  "mstr s \<equiv> MJson (JStr s)"

section \<open>The registry\<close>

datatype protocol_message_handler =
    PhysicalNodeInfoProtocolHandler | PingProtocolHandler | SessionProtocolHandler
  | PhysicalNodeInfoExchangeProtocolHandler | PhysicalRelayProtocolHandler | DhtProtocolHandler
  | RouteBuildProtocolHandler | RouteExecuteProtocolHandler | VirtualContentProtocolHandler
  | VirtualMessageProtocolHandler | VirtualSessionProtocolHandler

record message_def =
  md_message_type :: string
  md_handler :: protocol_message_handler
  md_layer :: string
  md_requires_physical_session :: bool
  md_requires_virtual_session :: bool

definition message_definition :: "string \<Rightarrow> protocol_message_handler \<Rightarrow> string \<Rightarrow> bool \<Rightarrow> bool \<Rightarrow> message_def" where
  "message_definition message_type handler layer requires_physical_session requires_virtual_session =
     \<lparr> md_message_type = message_type, md_handler = handler, md_layer = layer,
       md_requires_physical_session = requires_physical_session,
       md_requires_virtual_session = requires_virtual_session \<rparr>"

text \<open>The sets of the handlers that are registered as a whole, in some order.\<close>

fun supported_message_types :: "protocol_message_handler \<Rightarrow> string list" where
  "supported_message_types PhysicalRelayProtocolHandler = [''PHYSICAL_RELAY_DATA'']"
| "supported_message_types DhtProtocolHandler = [''DHT_PUBLISH'', ''DHT_QUERY'', ''DHT_RESULT'']"
| "supported_message_types RouteBuildProtocolHandler =
     [''ROUTE_CREATE'', ''ROUTE_CREATE_KEM_INFO'', ''ROUTE_CREATE_VALIDATE_AND_PUBLISH'', ''ROUTE_CREATE_OK'',
      ''ROUTE_CREATE_FAIL'', ''ROUTE_CREATE_PING'', ''ROUTE_CREATE_PONG'']"
| "supported_message_types RouteExecuteProtocolHandler = [''ROUTE_DATA'']"
| "supported_message_types VirtualContentProtocolHandler =
     [''VIRTUAL_CONTENT_INFO_REQUEST'', ''VIRTUAL_CONTENT_INFO_RESPONSE'', ''VIRTUAL_CONTENT_RANGE_REQUEST'',
      ''VIRTUAL_CONTENT_RANGE_RESPONSE'', ''VIRTUAL_CONTENT_NOT_FOUND'', ''VIRTUAL_CONTENT_RANGE_DENIED'',
      ''VIRTUAL_CONTENT_RANGE_ERROR'']"
| "supported_message_types _ = []"

definition register_many :: "message_def list \<Rightarrow> (string, message_def) dict \<Rightarrow> (string, message_def) dict" where
  "register_many definitions d = fold (\<lambda>x. dict_set (md_message_type x) x) definitions d"

definition register_handler :: "protocol_message_handler \<Rightarrow> string \<Rightarrow> bool \<Rightarrow> bool \<Rightarrow>
    (string, message_def) dict \<Rightarrow> (string, message_def) dict" where
  "register_handler handler layer requires_physical_session requires_virtual_session d =
     register_many (map (\<lambda>t. message_definition t handler layer requires_physical_session requires_virtual_session)
       (supported_message_types handler)) d"

definition listed_definitions :: "message_def list" where
  "listed_definitions = [
     message_definition ''PING'' PingProtocolHandler ''physical'' False False,
     message_definition ''PONG'' PingProtocolHandler ''physical'' False False,
     message_definition ''PHYSICAL_NODE_INFO_REQUEST'' PhysicalNodeInfoProtocolHandler ''physical'' False False,
     message_definition ''PHYSICAL_NODE_INFO_RESPONSE'' PhysicalNodeInfoProtocolHandler ''physical'' False False,
     message_definition ''PHYSICAL_SESSION_INIT'' SessionProtocolHandler ''physical'' False False,
     message_definition ''PHYSICAL_SESSION_INIT_OK'' SessionProtocolHandler ''physical'' False False,
     message_definition ''PHYSICAL_SESSION_KEY_CONFIRM'' SessionProtocolHandler ''physical'' False False,
     message_definition ''PHYSICAL_SESSION_READY'' SessionProtocolHandler ''physical'' False False,
     message_definition ''PHYSICAL_SESSION_KEEPALIVE'' SessionProtocolHandler ''physical'' True False,
     message_definition ''PHYSICAL_SESSION_KEEPALIVE_ACK'' SessionProtocolHandler ''physical'' True False,
     message_definition ''PHYSICAL_SESSION_RELIABLE_DATA'' SessionProtocolHandler ''physical'' True False,
     message_definition ''PHYSICAL_SESSION_RELIABLE_ACK'' SessionProtocolHandler ''physical'' True False,
     message_definition ''PHYSICAL_SESSION_CLOSE'' SessionProtocolHandler ''physical'' True False,
     message_definition ''PHYSICAL_NODE_INFO_EXCHANGE_REQUEST'' PhysicalNodeInfoExchangeProtocolHandler ''physical'' True False,
     message_definition ''PHYSICAL_NODE_INFO_EXCHANGE_RESPONSE'' PhysicalNodeInfoExchangeProtocolHandler ''physical'' True False,
     message_definition ''PHYSICAL_NODE_INFO_ANNOUNCE'' PhysicalNodeInfoExchangeProtocolHandler ''physical'' True False,
     message_definition ''VIRTUAL_SESSION_INIT'' VirtualSessionProtocolHandler ''virtual'' True False,
     message_definition ''VIRTUAL_SESSION_INIT_OK'' VirtualSessionProtocolHandler ''virtual'' True False,
     message_definition ''VIRTUAL_SESSION_KEY_CONFIRM'' VirtualSessionProtocolHandler ''virtual'' True False,
     message_definition ''VIRTUAL_SESSION_READY'' VirtualSessionProtocolHandler ''virtual'' True False,
     message_definition ''VIRTUAL_SESSION_KEEPALIVE'' VirtualSessionProtocolHandler ''virtual'' True False,
     message_definition ''VIRTUAL_SESSION_KEEPALIVE_ACK'' VirtualSessionProtocolHandler ''virtual'' True False,
     message_definition ''VIRTUAL_SESSION_RELIABLE_DATA'' VirtualSessionProtocolHandler ''virtual'' True True,
     message_definition ''VIRTUAL_SESSION_RELIABLE_ACK'' VirtualSessionProtocolHandler ''virtual'' True True,
     message_definition ''VIRTUAL_SESSION_DATA'' VirtualMessageProtocolHandler ''virtual'' True True,
     message_definition ''VIRTUAL_SESSION_CLOSE'' VirtualSessionProtocolHandler ''virtual'' True False]"

definition registry_definitions :: "(string, message_def) dict" where
  "registry_definitions =
     register_handler VirtualContentProtocolHandler ''virtual'' True True
     (register_handler RouteExecuteProtocolHandler ''physical'' True False
     (register_handler RouteBuildProtocolHandler ''physical'' True False
     (register_handler DhtProtocolHandler ''physical'' True False
     (register_handler PhysicalRelayProtocolHandler ''physical'' True False
     (register_many listed_definitions [])))))"

definition get_definition :: "string option \<Rightarrow> message_def option" where
  "get_definition message_type = (case message_type of None \<Rightarrow> None
     | Some t \<Rightarrow> dict_get registry_definitions t)"

definition build_unmapped_result :: "protocol_envelope \<Rightarrow> packet_context \<Rightarrow> packet_processing_result" where
  "build_unmapped_result envelope context =
     (let payload = (case as_obj (pe_payload envelope) of Some p \<Rightarrow> p | None \<Rightarrow> []) in
      \<lparr> pr_protocol_name = pe_protocol_name envelope, pr_handled = True, pr_message_type = pe_message_type envelope,
        pr_response_payload = None,
        pr_metadata = [(''protocol_family'', mstr ''unmapped''), (''transport_name'', mstr (pc_transport_name context)),
          (''recognized_keys'', MJson (JList (map JStr (py_sorted id (dict_keys payload))))),
          (''next_step'', mstr ''register_message_handler'')] \<rparr>)"

text \<open>\<open>handle\<close> is the behaviour of the handler objects on the state \<open>st\<close> of the services.\<close>

definition route :: "(protocol_message_handler \<Rightarrow> protocol_envelope \<Rightarrow> packet_context \<Rightarrow> 's \<Rightarrow> 's \<times> packet_processing_result result)
    \<Rightarrow> protocol_envelope \<Rightarrow> packet_context \<Rightarrow> 's \<Rightarrow> 's \<times> packet_processing_result result" where
  "route handle envelope context st =
     (case get_definition (pe_message_type envelope) of
        None \<Rightarrow> (st, Inr (build_unmapped_result envelope context))
      | Some d \<Rightarrow> handle (md_handler d) envelope context st)"

text \<open>\<^verbatim>\<open>ProtocolMessageHandler._build_invalid_result\<close>\<close>

definition build_invalid_result :: "string \<Rightarrow> protocol_envelope \<Rightarrow> string \<Rightarrow> packet_processing_result" where
  "build_invalid_result protocol_family envelope reason =
     \<lparr> pr_protocol_name = pe_protocol_name envelope, pr_handled = False, pr_message_type = pe_message_type envelope,
       pr_response_payload = None,
       pr_metadata = [(''protocol_family'', mstr protocol_family), (''reason'', mstr reason)] \<rparr>"

section \<open>The rules of the table\<close>

text \<open>The message types that are accepted without a physical session.\<close>

definition sessionless_types :: "string list" where
  "sessionless_types = [''PING'', ''PONG'', ''PHYSICAL_NODE_INFO_REQUEST'', ''PHYSICAL_NODE_INFO_RESPONSE'',
     ''PHYSICAL_SESSION_INIT'', ''PHYSICAL_SESSION_INIT_OK'', ''PHYSICAL_SESSION_KEY_CONFIRM'', ''PHYSICAL_SESSION_READY'']"

lemma registry_entries:
  "list_all (\<lambda>(t, d). md_message_type d = t \<and>
     (md_requires_physical_session d \<longleftrightarrow> t \<notin> set sessionless_types)) registry_definitions"
  by code_simp

lemma get_definition_rule:
  assumes "get_definition (Some t) = Some d"
  shows "md_message_type d = t" and "md_requires_physical_session d \<longleftrightarrow> t \<notin> set sessionless_types"
proof -
  have "(t, d) \<in> set registry_definitions"
    using assms by (simp add: get_definition_def dict_get_Some_in)
  with registry_entries show "md_message_type d = t" "md_requires_physical_session d \<longleftrightarrow> t \<notin> set sessionless_types"
    by (auto simp: list_all_iff)
qed

end
