(* ===== verification/Aes.thy ===== *)
theory Aes
  imports Json
begin

text \<open>
  \<^verbatim>\<open>app/crypto/aes.py\<close> and \<^verbatim>\<open>app/crypto/utils.py\<close>: authenticated encryption of hexadecimal texts with a
  table of the nonces that were used with each key. The cipher \<^verbatim>\<open>AESGCMSIV\<close> of the \<^verbatim>\<open>cryptography\<close>
  package is a pair of parameters (\<open>E\<close> encrypts, \<open>D\<close> decrypts, with key, nonce, data and associated data);
  what the code relies on is \<open>aead_laws\<close>. The readings of \<^verbatim>\<open>os.urandom\<close> are a parameter as well, one
  byte string per attempt. The table is a set that is passed along; \<open>_remember_nonce_use\<close> holds the lock
  for its whole test and update, so calls are atomic.

  The lemmas show that what is encrypted is decrypted again under the same key and associated data and
  that no (key, nonce) pair ever reaches the cipher twice.
\<close>

section \<open>Hexadecimal texts\<close>

datatype bytes_like = PyStr string | PyBytes string

fun ensure_bytes :: "bytes_like \<Rightarrow> string" where
  "ensure_bytes (PyBytes b) = b"
| "ensure_bytes (PyStr s) = utf8_encode s"

text \<open>\<^verbatim>\<open>bytes.fromhex\<close>: ASCII white space between bytes is skipped.\<close>

definition ascii_space :: "char \<Rightarrow> bool" where
  "ascii_space c \<longleftrightarrow> (let n = (of_char c :: nat) in n = 32 \<or> 9 \<le> n \<and> n \<le> 13)"

fun fromhex :: "string \<Rightarrow> string option" where
  "fromhex [] = Some []"
| "fromhex (a # r) =
     (if ascii_space a then fromhex r
      else case r of [] \<Rightarrow> None
        | b # r' \<Rightarrow> (case hex2 a b of None \<Rightarrow> None | Some n \<Rightarrow> map_option (Cons (char_of n)) (fromhex r')))"

definition hex_to_bytes :: "string \<Rightarrow> string result" where
  "hex_to_bytes v = (case fromhex v of None \<Rightarrow> Inl InvalidHexError | Some b \<Rightarrow> Inr b)"

text \<open>\<^verbatim>\<open>binascii.unhexlify\<close> of a text raises a plain \<^verbatim>\<open>ValueError\<close> when the text is not ASCII.\<close>

definition validate_hex_length :: "string \<Rightarrow> nat \<Rightarrow> unit result" where
  "validate_hex_length v expected_bytes =
     (let normalized = py_strip v in
      if length normalized \<noteq> expected_bytes * 2 then Inl InvalidHexError
      else if \<not> ascii normalized then Inl (ValueError ''string argument should contain only ASCII characters'')
      else if hex_to_bytes_opt normalized = None then Inl InvalidHexError else Inr ())"

section \<open>Encryption\<close>

definition AES_KEY_SIZE :: nat where
  "AES_KEY_SIZE = 32"

definition AES_GCM_SIV_NONCE_SIZE :: nat where
  "AES_GCM_SIV_NONCE_SIZE = 12"

definition AES_GCM_SIV_TAG_SIZE :: nat where
  "AES_GCM_SIV_TAG_SIZE = 16"

record aes_cipher_hex_result =
  ac_iv_hex :: string
  ac_ciphertext_hex :: string
  ac_payload_hex :: string

type_synonym aead = "string \<Rightarrow> string \<Rightarrow> string \<Rightarrow> string option \<Rightarrow> string result"
type_synonym nonce_uses = "(string \<times> string) set"

definition generate_nonce_hex :: "string \<Rightarrow> string" where
  "generate_nonce_hex random_bytes = bytes_to_hex random_bytes"

definition was_nonce_used :: "string \<Rightarrow> string \<Rightarrow> nonce_uses \<Rightarrow> bool" where
  "was_nonce_used key_hex nonce_hex used \<longleftrightarrow> (key_hex, nonce_hex) \<in> used"

definition generate_unused_nonce_hex :: "(nat \<Rightarrow> string) \<Rightarrow> string \<Rightarrow> nonce_uses \<Rightarrow> string result" where
  "generate_unused_nonce_hex rnd key_hex used =
     (case List.find (\<lambda>nonce_hex. \<not> was_nonce_used key_hex nonce_hex used)
         (map (\<lambda>i. generate_nonce_hex (rnd i)) [0..<256]) of
        Some nonce_hex \<Rightarrow> Inr nonce_hex
      | None \<Rightarrow> Inl (RuntimeError ''could not generate a unique AES-GCM-SIV nonce for this key.''))"

definition remember_nonce_use :: "string \<Rightarrow> string \<Rightarrow> nonce_uses \<Rightarrow> nonce_uses result" where
  "remember_nonce_use key_hex nonce_hex used =
     (if (key_hex, nonce_hex) \<in> used then Inl (ValueError ''nonce AES-GCM-SIV reutilizado com a mesma chave.'')
      else Inr (insert (key_hex, nonce_hex) used))"

definition choose_nonce :: "(nat \<Rightarrow> string) \<Rightarrow> string \<Rightarrow> string option \<Rightarrow> nonce_uses \<Rightarrow> string result" where
  "choose_nonce rnd key_hex iv_hex used =
     rbind (validate_hex_length key_hex AES_KEY_SIZE) (\<lambda>_.
     rbind (case iv_hex of
         Some iv \<Rightarrow> if iv = [] then generate_unused_nonce_hex rnd key_hex used else Inr iv
       | None \<Rightarrow> generate_unused_nonce_hex rnd key_hex used) (\<lambda>nonce_hex.
     rbind (validate_hex_length nonce_hex AES_GCM_SIV_NONCE_SIZE) (\<lambda>_. Inr nonce_hex)))"

definition encrypt_bytes :: "aead \<Rightarrow> (nat \<Rightarrow> string) \<Rightarrow> string \<Rightarrow> string \<Rightarrow> string option \<Rightarrow> bytes_like option \<Rightarrow>
    nonce_uses \<Rightarrow> nonce_uses \<times> aes_cipher_hex_result result" where
  "encrypt_bytes E rnd data key_hex iv_hex aad used =
     (case choose_nonce rnd key_hex iv_hex used of Inl e \<Rightarrow> (used, Inl e)
      | Inr nonce_hex \<Rightarrow>
     (case remember_nonce_use key_hex nonce_hex used of Inl e \<Rightarrow> (used, Inl e)
      | Inr used' \<Rightarrow> (used',
          rbind (hex_to_bytes key_hex) (\<lambda>key. rbind (hex_to_bytes nonce_hex) (\<lambda>nonce.
          rbind (E key nonce data (map_option ensure_bytes aad)) (\<lambda>ciphertext.
            let ciphertext_hex = bytes_to_hex ciphertext in
            Inr \<lparr> ac_iv_hex = nonce_hex, ac_ciphertext_hex = ciphertext_hex,
                  ac_payload_hex = nonce_hex @ ciphertext_hex \<rparr>))))))"

definition encrypt_text :: "aead \<Rightarrow> (nat \<Rightarrow> string) \<Rightarrow> bytes_like \<Rightarrow> string \<Rightarrow> string option \<Rightarrow> bytes_like option \<Rightarrow>
    nonce_uses \<Rightarrow> nonce_uses \<times> aes_cipher_hex_result result" where
  "encrypt_text E rnd txt key_hex iv_hex aad used = encrypt_bytes E rnd (ensure_bytes txt) key_hex iv_hex aad used"

definition encrypt_hex :: "aead \<Rightarrow> (nat \<Rightarrow> string) \<Rightarrow> string \<Rightarrow> string \<Rightarrow> string option \<Rightarrow> bytes_like option \<Rightarrow>
    nonce_uses \<Rightarrow> nonce_uses \<times> aes_cipher_hex_result result" where
  "encrypt_hex E rnd plaintext_hex key_hex iv_hex aad used =
     (case hex_to_bytes plaintext_hex of Inl e \<Rightarrow> (used, Inl e)
      | Inr data \<Rightarrow> encrypt_bytes E rnd data key_hex iv_hex aad used)"

section \<open>Decryption\<close>

text \<open>The test for an empty ciphertext comes after the test for the length, which implies it.\<close>

definition decrypt_bytes :: "aead \<Rightarrow> string \<Rightarrow> string \<Rightarrow> bytes_like option \<Rightarrow> string result" where
  "decrypt_bytes D payload_hex key_hex aad =
     rbind (validate_hex_length key_hex AES_KEY_SIZE) (\<lambda>_.
     let nonce_hex_length = AES_GCM_SIV_NONCE_SIZE * 2;
         minimum_payload_hex_length = (AES_GCM_SIV_NONCE_SIZE + AES_GCM_SIV_TAG_SIZE) * 2 in
     if length payload_hex < minimum_payload_hex_length
     then Inl (ValueError ''payload_hex deve conter nonce + ciphertext autenticado em HEX.'')
     else
       let nonce_hex = take nonce_hex_length payload_hex; ciphertext_hex = drop nonce_hex_length payload_hex in
       rbind (validate_hex_length nonce_hex AES_GCM_SIV_NONCE_SIZE) (\<lambda>_.
       if ciphertext_hex = [] then Inl (ValueError ''payload_hex does not contain ciphertext.'')
       else rbind (hex_to_bytes key_hex) (\<lambda>key. rbind (hex_to_bytes nonce_hex) (\<lambda>nonce.
         rbind (hex_to_bytes ciphertext_hex) (\<lambda>ciphertext. D key nonce ciphertext (map_option ensure_bytes aad))))))"

definition decrypt_text :: "aead \<Rightarrow> string \<Rightarrow> string \<Rightarrow> bytes_like option \<Rightarrow> string result" where
  "decrypt_text D payload_hex key_hex aad = rbind (decrypt_bytes D payload_hex key_hex aad) (\<lambda>b.
     case utf8_decode b of None \<Rightarrow> Inl (ValueError ''UnicodeDecodeError'') | Some s \<Rightarrow> Inr s)"

definition decrypt_hex :: "aead \<Rightarrow> string \<Rightarrow> string \<Rightarrow> bytes_like option \<Rightarrow> string result" where
  "decrypt_hex D payload_hex key_hex aad = rbind (decrypt_bytes D payload_hex key_hex aad) (\<lambda>b. Inr (bytes_to_hex b))"

section \<open>What is assumed of the cipher\<close>

text \<open>
  AES-GCM-SIV (RFC 8452) as the package offers it: with a key of 32 bytes and a nonce of 12 bytes non-empty
  data are encrypted to a ciphertext that is 16 bytes longer; decryption inverts encryption, and since it
  recomputes the synthetic tag from the plaintext it accepts a ciphertext only when encryption of what it
  returns gives that ciphertext again.
\<close>

definition aead_laws :: "aead \<Rightarrow> aead \<Rightarrow> bool" where
  "aead_laws E D \<longleftrightarrow>
     (\<forall>k n d a. length k = AES_KEY_SIZE \<and> length n = AES_GCM_SIV_NONCE_SIZE \<and> d \<noteq> [] \<longrightarrow>
        (\<exists>c. E k n d a = Inr c \<and> length c = length d + AES_GCM_SIV_TAG_SIZE \<and> D k n c a = Inr d)) \<and>
     (\<forall>k n c d a. D k n c a = Inr d \<longrightarrow> E k n d a = Inr c)"

section \<open>Hexadecimal lemmas\<close>

lemma hex_digit_props:
  assumes "n < 16"
  shows "\<not> ascii_space (hex_digit n)" "\<not> py_space (hex_digit n)" "(of_char (hex_digit n) :: nat) < 128"
proof -
  have "(of_char (hex_digit n) :: nat) = (if n < 10 then n + 48 else n + 87)"
    using assms by (simp add: hex_digit_def of_char_of)
  then show "\<not> ascii_space (hex_digit n)" "\<not> py_space (hex_digit n)" "(of_char (hex_digit n) :: nat) < 128"
    using assms by (auto simp: ascii_space_def py_space_def Let_def split: if_splits)
qed

lemma bytes_to_hex_Cons:
  "bytes_to_hex (c # s) = hex_digit (of_char c div 16) # hex_digit (of_char c mod 16) # bytes_to_hex s"
  by (simp add: bytes_to_hex_def hex_byte_def)

lemma fromhex_bytes_to_hex [simp]: "fromhex (bytes_to_hex s) = Some s"
proof (induction s)
  case Nil
  show ?case by (simp add: bytes_to_hex_def)
next
  case (Cons c s)
  then show ?case
    using hex_digit_props(1) [OF byte_nibbles(1) [of c]] hex2_byte [of c]
    by (simp add: bytes_to_hex_Cons)
qed

lemma hex_to_bytes_bytes_to_hex [simp]: "hex_to_bytes (bytes_to_hex s) = Inr s"
  by (simp add: hex_to_bytes_def)

lemma bytes_to_hex_plain:
  "list_all (\<lambda>c. \<not> py_space c) (bytes_to_hex s)" "ascii (bytes_to_hex s)"
  unfolding ascii_def by (induction s) (auto simp: bytes_to_hex_Cons hex_digit_props byte_nibbles, auto simp: bytes_to_hex_def)

lemma validate_bytes_to_hex [simp]:
  "validate_hex_length (bytes_to_hex s) n = (if length s = n then Inr () else Inl InvalidHexError)"
  using bytes_to_hex_plain [of s]
  by (simp add: validate_hex_length_def py_strip_plain hx.dec_enc)

section \<open>Round trip and nonces\<close>

lemma aead_lawsD:
  assumes "aead_laws E D"
  shows "length k = AES_KEY_SIZE \<Longrightarrow> length n = AES_GCM_SIV_NONCE_SIZE \<Longrightarrow> d \<noteq> [] \<Longrightarrow>
      \<exists>c. E k n d a = Inr c \<and> length c = length d + AES_GCM_SIV_TAG_SIZE \<and> D k n c a = Inr d"
    and "D k n c a = Inr d \<Longrightarrow> E k n d a = Inr c"
  using assms by (auto simp: aead_laws_def)

lemma generate_unused_nonce:
  assumes "i < 256" and "(key_hex, bytes_to_hex (rnd i)) \<notin> used"
  obtains j where "j < 256" "generate_unused_nonce_hex rnd key_hex used = Inr (bytes_to_hex (rnd j))"
    "(key_hex, bytes_to_hex (rnd j)) \<notin> used"
proof -
  let ?xs = "map (\<lambda>i. generate_nonce_hex (rnd i)) [0..<256]" and ?P = "\<lambda>n. \<not> was_nonce_used key_hex n used"
  have "\<exists>x \<in> set ?xs. ?P x"
    using assms by (auto simp: was_nonce_used_def generate_nonce_hex_def)
  then have "List.find ?P ?xs \<noteq> None" by (auto simp: find_None_iff)
  then obtain n where n: "List.find ?P ?xs = Some n" by auto
  then have "n \<in> set ?xs" "?P n" by (auto simp: find_Some_iff)
  then obtain j where "j < 256" "n = bytes_to_hex (rnd j)" "(key_hex, n) \<notin> used"
    by (auto simp: was_nonce_used_def generate_nonce_hex_def)
  with n that show thesis by (auto simp: generate_unused_nonce_hex_def)
qed

lemma encrypt_bytes_ok:
  assumes laws: "aead_laws E D" and key: "length key = AES_KEY_SIZE"
    and rnd: "\<And>i. length (rnd i) = AES_GCM_SIV_NONCE_SIZE" and data: "data \<noteq> []"
    and fresh: "i < 256" "(bytes_to_hex key, bytes_to_hex (rnd i)) \<notin> used"
  obtains used' r where "encrypt_bytes E rnd data (bytes_to_hex key) None aad used = (used', Inr r)"
    "decrypt_bytes D (ac_payload_hex r) (bytes_to_hex key) aad = Inr data" "ac_payload_hex r \<noteq> []"
proof -
  let ?k = "bytes_to_hex key" and ?a = "map_option ensure_bytes aad"
  obtain j where j: "generate_unused_nonce_hex rnd ?k used = Inr (bytes_to_hex (rnd j))"
    "(?k, bytes_to_hex (rnd j)) \<notin> used" by (rule generate_unused_nonce [where rnd = rnd, OF fresh])
  obtain c where c: "E key (rnd j) data ?a = Inr c" "length c = length data + AES_GCM_SIV_TAG_SIZE"
    "D key (rnd j) c ?a = Inr data" using aead_lawsD(1) [OF laws key rnd data] by blast
  let ?r = "\<lparr> ac_iv_hex = bytes_to_hex (rnd j), ac_ciphertext_hex = bytes_to_hex c,
              ac_payload_hex = bytes_to_hex (rnd j) @ bytes_to_hex c \<rparr>"
  have "encrypt_bytes E rnd data ?k None aad used = (insert (?k, bytes_to_hex (rnd j)) used, Inr ?r)"
    using j c(1) key rnd by (simp add: encrypt_bytes_def choose_nonce_def remember_nonce_use_def Let_def)
  moreover have "decrypt_bytes D (ac_payload_hex ?r) ?k aad = Inr data"
    using c(2,3) key rnd [of j]
    by (simp add: decrypt_bytes_def Let_def AES_GCM_SIV_NONCE_SIZE_def AES_GCM_SIV_TAG_SIZE_def)
  moreover have "ac_payload_hex ?r \<noteq> []" using c(2) by (auto simp: bytes_to_hex_Cons length_0_conv [symmetric] AES_GCM_SIV_TAG_SIZE_def simp del: length_0_conv)
  ultimately show thesis by (rule that)
qed

text \<open>Whatever decryption accepts is the encryption, under the nonce it carries, of what it returns.\<close>

lemma decrypt_bytes_authentic:
  assumes "aead_laws E D" and "decrypt_bytes D payload_hex key_hex aad = Inr data"
  obtains key nonce c where "hex_to_bytes key_hex = Inr key" "hex_to_bytes (take 24 payload_hex) = Inr nonce"
    "hex_to_bytes (drop 24 payload_hex) = Inr c" "E key nonce data (map_option ensure_bytes aad) = Inr c"
proof -
  from assms(2) obtain key nonce c where *: "hex_to_bytes key_hex = Inr key" "hex_to_bytes (take 24 payload_hex) = Inr nonce"
    "hex_to_bytes (drop 24 payload_hex) = Inr c" "D key nonce c (map_option ensure_bytes aad) = Inr data"
    by (auto simp: decrypt_bytes_def Let_def AES_GCM_SIV_NONCE_SIZE_def rbind_Inr_iff split: if_splits)
  show thesis by (rule that [OF *(1-3) aead_lawsD(2) [OF assms(1) *(4)]])
qed

text \<open>A run of encryptions in one process, and the (key, nonce) pairs that were handed to the cipher.\<close>

record encryption_request =
  er_random :: "nat \<Rightarrow> string"
  er_data :: string
  er_key_hex :: string
  er_iv_hex :: "string option"
  er_aad :: "bytes_like option"

definition encrypt_request :: "aead \<Rightarrow> encryption_request \<Rightarrow> nonce_uses \<Rightarrow> nonce_uses \<times> aes_cipher_hex_result result" where
  "encrypt_request E q used = encrypt_bytes E (er_random q) (er_data q) (er_key_hex q) (er_iv_hex q) (er_aad q) used"

fun nonce_log :: "aead \<Rightarrow> encryption_request list \<Rightarrow> nonce_uses \<Rightarrow> (string \<times> string) list" where
  "nonce_log E [] used = []"
| "nonce_log E (q # qs) used =
     (case encrypt_request E q used of (used', r) \<Rightarrow>
        (case r of Inr c \<Rightarrow> [(er_key_hex q, ac_iv_hex c)] | Inl _ \<Rightarrow> []) @ nonce_log E qs used')"

lemma encrypt_request_uses:
  assumes "encrypt_request E q used = (used', r)"
  shows "used \<subseteq> used'"
    and "r = Inr c \<Longrightarrow> (er_key_hex q, ac_iv_hex c) \<notin> used \<and> (er_key_hex q, ac_iv_hex c) \<in> used'"
  using assms
  by (auto simp: encrypt_request_def encrypt_bytes_def remember_nonce_use_def rbind_Inr_iff Let_def
      split: sum.splits if_splits)

lemma nonce_log_fresh: "distinct (nonce_log E qs used) \<and> set (nonce_log E qs used) \<inter> used = {}"
proof (induction qs arbitrary: used)
  case (Cons q qs)
  obtain used' r where u: "encrypt_request E q used = (used', r)" by fastforce
  note * = encrypt_request_uses [OF u]
  show ?case
  proof (cases r)
    case (Inl e)
    with u Cons.IH [of used'] *(1) show ?thesis by auto
  next
    case (Inr c)
    with u Cons.IH [of used'] *(1) *(2) [OF Inr] show ?thesis by auto
  qed
qed simp


end
