(* ===== verification/Engine_Packets.thy ===== *)
theory Engine_Packets
  imports Message_Registry Session_Table Aes
begin

text \<open>
  The packet layer of \<^verbatim>\<open>app/core/engine.py\<close>: how a message becomes a packet on the wire
  (\<^verbatim>\<open>build_message_header\<close>, \<^verbatim>\<open>_send_message_over_physical_session\<close>, \<^verbatim>\<open>_prepare_outbound_message\<close>), how a packet becomes
  an envelope (\<^verbatim>\<open>_decode_json_packet\<close>, \<^verbatim>\<open>_restore_inbound_payload\<close>), the session rule that guards the handlers
  (\<^verbatim>\<open>_validate_message_policy\<close>) and the entry point \<^verbatim>\<open>process_received_packet\<close>. It composes the session table,
  the cipher and the JSON codec. The state of an engine is its session table, the nonces its process
  has used and the sequence number of the last message. Clock readings, \<^verbatim>\<open>uuid4\<close>, \<^verbatim>\<open>os.urandom\<close> and the
  cipher are arguments. Log output is left out. The texts of \<^verbatim>\<open>UnicodeDecodeError\<close> and
  \<^verbatim>\<open>JSONDecodeError\<close>, both of them \<^verbatim>\<open>ValueError\<close>, are shortened to their names.
\<close>

section \<open>Packets on the wire\<close>

record engine =
  en_sessions :: session_manager
  en_nonces :: nonce_uses
  en_message_sequence :: int

definition PLAINTEXT_SESSION_MESSAGE_TYPES :: "string list" where
  "PLAINTEXT_SESSION_MESSAGE_TYPES = [''PHYSICAL_SESSION_INIT'', ''PHYSICAL_SESSION_INIT_OK'',
     ''PHYSICAL_SESSION_KEY_CONFIRM'', ''PHYSICAL_SESSION_READY'']"

definition build_message_header :: "string \<Rightarrow> string option \<Rightarrow> string option \<Rightarrow> string \<Rightarrow> engine \<Rightarrow> engine \<times> payload" where
  "build_message_header message_type physical_session_id virtual_session_id uuid en =
     (let n = en_message_sequence en + 1 in
      (en \<lparr> en_message_sequence := n \<rparr>,
       [(''version'', JInt 1), (''message_type'', JStr message_type), (''message_id'', JStr uuid),
        (''message_sequence'', JInt n), (''physical_session_id'', opt_str physical_session_id),
        (''virtual_session_id'', opt_str virtual_session_id)]))"

definition build_json_packet_bytes :: "payload \<Rightarrow> payload \<Rightarrow> string" where
  "build_json_packet_bytes header payload = json_dumps (JObj [(''header'', JObj header), (''payload'', JObj payload)])"

text \<open>The JSON value \<^verbatim>\<open>null\<close> reads as \<^verbatim>\<open>None\<close>, like a packet that is not JSON.\<close>

definition load_json_packet :: "string \<Rightarrow> json option" where
  "load_json_packet raw_payload = (case utf8_decode raw_payload of None \<Rightarrow> None
     | Some t \<Rightarrow> (case json_loads t of Some v \<Rightarrow> if v = JNull then None else Some v | None \<Rightarrow> None))"

definition encode_payload_hex :: "payload \<Rightarrow> string" where
  "encode_payload_hex payload = bytes_to_hex (json_dumps (JObj payload))"

definition build_physical_payload_aad :: "payload \<Rightarrow> string" where
  "build_physical_payload_aad header =
     json_dumps (JObj [(''scope'', JStr ''physical_payload''),
       (''header'', JObj (filter (\<lambda>(k, v). k \<noteq> ''payload_encrypted'') header))])"

text \<open>\<^verbatim>\<open>session is None or session.session_state != "active" or not session.shared_secret_hex\<close>\<close>

definition usable_secret :: "network_session option \<Rightarrow> string option" where
  "usable_secret session = (case session of None \<Rightarrow> None
     | Some s \<Rightarrow> if ns_session_state s \<noteq> ''active'' then None
         else (case ns_shared_secret_hex s of None \<Rightarrow> None | Some k \<Rightarrow> if k = [] then None else Some k))"

definition touch :: "string \<Rightarrow> time_us \<Rightarrow> time_us \<Rightarrow> engine \<Rightarrow> engine" where
  "touch session_id now now' en = en \<lparr> en_sessions := fst (touch_session (en_sessions en) session_id None now now') \<rparr>"

definition prepare_outbound_message :: "aead \<Rightarrow> (nat \<Rightarrow> string) \<Rightarrow> time_us \<Rightarrow> time_us \<Rightarrow> outbound_message \<Rightarrow> engine \<Rightarrow>
    engine \<times> outbound_message result" where
  "prepare_outbound_message E rnd now now' message en =
     (case load_json_packet (om_payload message) of
        None \<Rightarrow> (en, Inr message)
      | Some packet \<Rightarrow> (case as_obj packet of
        None \<Rightarrow> (en, Inl AttributeError)
      | Some p \<Rightarrow> (case (as_obj (jget p ''header''), as_obj (jget p ''payload'')) of
        (Some header, Some payload) \<Rightarrow>
          (case (as_str (jget header ''physical_session_id''), as_str (jget header ''message_type'')) of
             (Some session_id, Some message_type) \<Rightarrow>
               if message_type \<in> set PLAINTEXT_SESSION_MESSAGE_TYPES then (en, Inr message)
               else (case usable_secret (get_session_by_session_id (en_sessions en) session_id) of
                  None \<Rightarrow> (en, Inr message)
                | Some secret \<Rightarrow>
                    (case encrypt_hex E rnd (encode_payload_hex payload) secret None
                        (Some (PyBytes (build_physical_payload_aad header))) (en_nonces en) of
                       (used, Inl e) \<Rightarrow> (en \<lparr> en_nonces := used \<rparr>, Inl e)
                     | (used, Inr encrypted_payload) \<Rightarrow>
                         (touch session_id now now' (en \<lparr> en_nonces := used \<rparr>),
                          Inr (message \<lparr> om_payload := build_json_packet_bytes
                            (dict_set ''payload_encrypted'' (JBool True) header)
                            [(''ciphertext_hex'', JStr (ac_payload_hex encrypted_payload))] \<rparr>))))
           | _ \<Rightarrow> (en, Inr message))
      | _ \<Rightarrow> (en, Inr message))))"

text \<open>The body of \<^verbatim>\<open>_build_session_remote_endpoint\<close> is that of \<^verbatim>\<open>build_remote_endpoint_from_session\<close>.\<close>

definition build_session_remote_endpoint :: "network_session \<Rightarrow> transport_endpoint result" where
  "build_session_remote_endpoint session = build_remote_endpoint_from_session session"

text \<open>The message that \<^verbatim>\<open>send_packet\<close> hands to the transport.\<close>

definition send_message_over_physical_session :: "aead \<Rightarrow> (nat \<Rightarrow> string) \<Rightarrow> string \<Rightarrow> time_us \<Rightarrow> time_us \<Rightarrow>
    network_session \<Rightarrow> string \<Rightarrow> payload \<Rightarrow> bool \<Rightarrow> engine \<Rightarrow> engine \<times> outbound_message result" where
  "send_message_over_physical_session E rnd uuid now now' session message_type payload force_new_connection en =
     (case build_session_remote_endpoint session of
        Inl e \<Rightarrow> (en, Inl e)
      | Inr endpoint \<Rightarrow>
          (case build_message_header message_type (Some (ns_session_id session)) None uuid en of (en', header) \<Rightarrow>
             prepare_outbound_message E rnd now now'
               \<lparr> om_transport_name = te_transport_name endpoint, om_payload = build_json_packet_bytes header payload,
                 om_remote_endpoint = endpoint, om_local_endpoint = None,
                 om_metadata = dict_set ''force_new_connection'' (JBool force_new_connection)
                   (dict_set ''target_physical_node_id'' (JStr (ns_remote_identity_id session))
                     (load_json_object (ns_metadata_json session))) \<rparr> en'))"

section \<open>Packets from the wire\<close>

text \<open>\<^verbatim>\<open>json.loads(bytes.fromhex(plaintext_hex).decode("utf-8"))\<close>\<close>

definition read_plaintext :: "string \<Rightarrow> json result" where
  "read_plaintext plaintext_hex = (case fromhex plaintext_hex of
      None \<Rightarrow> Inl (ValueError ''non-hexadecimal number found in fromhex() arg'')
    | Some b \<Rightarrow> (case utf8_decode b of
        None \<Rightarrow> Inl (ValueError ''UnicodeDecodeError'')
      | Some plaintext_json \<Rightarrow> (case json_loads plaintext_json of
          None \<Rightarrow> Inl (ValueError ''JSONDecodeError'')
        | Some restored_payload \<Rightarrow> Inr restored_payload)))"

definition restore_inbound_payload :: "aead \<Rightarrow> time_us \<Rightarrow> time_us \<Rightarrow> payload \<Rightarrow> json \<Rightarrow> engine \<Rightarrow> engine \<times> json result" where
  "restore_inbound_payload D now now' header payload en =
     (if jget header ''payload_encrypted'' \<noteq> JBool True then (en, Inr payload)
      else (case jget_nonempty_str header ''physical_session_id'' of
        None \<Rightarrow> (en, Inl (ValueError ''Encrypted packet without physical_session_id.''))
      | Some session_id \<Rightarrow> (case usable_secret (get_session_by_session_id (en_sessions en) session_id) of
        None \<Rightarrow> (en, Inl (ValueError ''Encrypted packet received for an inactive or unknown physical session.''))
      | Some secret \<Rightarrow> (case as_obj payload of
        None \<Rightarrow> (en, Inl (ValueError ''The encrypted payload must be a JSON object.''))
      | Some p \<Rightarrow> (case jget_nonempty_str p ''ciphertext_hex'' of
        None \<Rightarrow> (en, Inl (ValueError ''The encrypted payload does not contain a valid ciphertext_hex.''))
      | Some ciphertext_hex \<Rightarrow>
          (case rbind (decrypt_hex D ciphertext_hex secret (Some (PyBytes (build_physical_payload_aad header))))
read_plaintext of
             Inl e \<Rightarrow> (en, Inl e)
           | Inr restored_payload \<Rightarrow> (touch session_id now now' en, Inr restored_payload)))))))"

definition decode_json_packet :: "aead \<Rightarrow> time_us \<Rightarrow> time_us \<Rightarrow> packet_context \<Rightarrow> engine \<Rightarrow> engine \<times> protocol_envelope result" where
  "decode_json_packet D now now' context en =
     (case load_json_packet (pc_payload context) of
        None \<Rightarrow> (en, Inl (ValueError ''The received payload does not contain a valid JSON packet.''))
      | Some packet \<Rightarrow> (case as_obj packet of
        None \<Rightarrow> (en, Inl (ValueError ''The JSON packet must be an object.''))
      | Some p \<Rightarrow> (case as_obj (jget p ''header'') of
        None \<Rightarrow> (en, Inl (ValueError (''The '' @ [CHR 0x27] @ ''header'' @ [CHR 0x27] @ '' field must be a JSON object.'')))
      | Some header \<Rightarrow>
          let payload = (if jget p ''payload'' = JNull then JObj [] else jget p ''payload'');
              message_type = jget header ''message_type'' in
          if message_type \<noteq> JNull \<and> as_str message_type = None
          then (en, Inl (ValueError (''The '' @ [CHR 0x27] @ ''header.message_type'' @ [CHR 0x27] @ '' field must be a string.'')))
          else (case restore_inbound_payload D now now' header payload en of
             (en', Inl e) \<Rightarrow> (en', Inl e)
           | (en', Inr restored) \<Rightarrow> (en', Inr \<lparr> pe_protocol_name = ''json'', pe_message_type = as_str message_type,
               pe_payload = restored, pe_raw_payload = pc_payload context, pe_header = header \<rparr>)))))"

definition policy_refusal :: "protocol_envelope \<Rightarrow> message_def \<Rightarrow> string \<Rightarrow> packet_processing_result" where
  "policy_refusal envelope d reason =
     \<lparr> pr_protocol_name = pe_protocol_name envelope, pr_handled = False, pr_message_type = pe_message_type envelope,
       pr_response_payload = None, pr_metadata = [(''reason'', mstr reason), (''layer'', mstr (md_layer d))] \<rparr>"

definition validate_message_policy :: "protocol_envelope \<Rightarrow> engine \<Rightarrow> packet_processing_result option" where
  "validate_message_policy envelope en =
     (case get_definition (pe_message_type envelope) of
        None \<Rightarrow> None
      | Some d \<Rightarrow>
          if \<not> md_requires_physical_session d then None
          else (case jget_nonempty_str (pe_header envelope) ''physical_session_id'' of
             None \<Rightarrow> Some (policy_refusal envelope d ''physical_session_required'')
           | Some session_id \<Rightarrow> (case get_session_by_session_id (en_sessions en) session_id of
               None \<Rightarrow> Some (policy_refusal envelope d ''physical_session_not_found'')
             | Some session \<Rightarrow>
                 if ns_session_state session \<noteq> ''active''
                 then Some (policy_refusal envelope d ''physical_session_not_active'') else None)))"

text \<open>The handlers work on the engine and on the rest \<open>w\<close> of the services.\<close>

type_synonym 'w handlers = "protocol_message_handler \<Rightarrow> protocol_envelope \<Rightarrow> packet_context \<Rightarrow> engine \<times> 'w \<Rightarrow>
  (engine \<times> 'w) \<times> packet_processing_result result"

definition process_protocol_envelope :: "'w handlers \<Rightarrow> protocol_envelope \<Rightarrow> packet_context \<Rightarrow> engine \<times> 'w \<Rightarrow>
    (engine \<times> 'w) \<times> packet_processing_result result" where
  "process_protocol_envelope handle envelope context st =
     (case validate_message_policy envelope (fst st) of
        Some r \<Rightarrow> (st, Inr r)
      | None \<Rightarrow> route handle envelope context st)"

definition process_received_packet :: "aead \<Rightarrow> time_us \<Rightarrow> time_us \<Rightarrow> 'w handlers \<Rightarrow> packet_context \<Rightarrow> engine \<times> 'w \<Rightarrow>
    (engine \<times> 'w) \<times> packet_processing_result result" where
  "process_received_packet D now now' handle context st =
     (case decode_json_packet D now now' context (fst st) of
        (en, Inl (ValueError error)) \<Rightarrow> ((en, snd st), Inr
          \<lparr> pr_protocol_name = ''json'', pr_handled = False, pr_message_type = None, pr_response_payload = None,
            pr_metadata = [(''reason'', mstr ''invalid_json_packet''),
              (''transport_name'', mstr (pc_transport_name context)), (''error'', mstr error)] \<rparr>)
      | (en, Inl e) \<Rightarrow> ((en, snd st), Inl e)
      | (en, Inr envelope) \<Rightarrow> process_protocol_envelope handle envelope context (en, snd st))"

section \<open>Packets as canonical objects\<close>

lemma canon_pair: "canon (JObj [(''header'', a), (''payload'', b)]) = JObj [(''header'', canon a), (''payload'', canon b)]"
proof -
  have "''header'' \<le> ''payload''" by code_simp
  then show ?thesis by simp
qed

lemma canon_obj: "canon (JObj p) = JObj (sort_key fst (map (map_prod id canon) p))"
  by simp

lemma load_packet_bytes:
  assumes "wf_json (JObj header)" and "wf_json (JObj payload)"
  shows "load_json_packet (build_json_packet_bytes header payload) =
    Some (JObj [(''header'', canon (JObj header)), (''payload'', canon (JObj payload))])"
proof -
  let ?v = "JObj [(''header'', JObj header), (''payload'', JObj payload)]"
  have "wf_json ?v" using assms by (simp add: wf_json_JObj)
  note r = json_dumps_loads_utf8 [OF this]
  show ?thesis
    by (simp only: load_json_packet_def build_json_packet_bytes_def r option.case canon_pair) simp
qed

lemma jget_canon:
  assumes "distinct (dict_keys h)"
  shows "jget (sort_key fst (map (map_prod id canon) h)) k = canon (jget h k)"
proof -
  have "distinct (dict_keys (map (map_prod id canon) h))" using assms by (simp add: comp_def)
  then have "dict_get (sort_key fst (map (map_prod id canon) h)) k = map_option canon (dict_get h k)"
    by (simp only: dict_get_sorted dict_get_map_canon)
  then show ?thesis by (cases "dict_get h k") (simp_all add: jget_def)
qed

lemma canon_str: "canon v = JStr s \<longleftrightarrow> v = JStr s" "canon v = JBool b \<longleftrightarrow> v = JBool b" "canon v = JNull \<longleftrightarrow> v = JNull"
  by (cases v; simp)+

abbreviation unmark :: "payload \<Rightarrow> payload" where
  "unmark h \<equiv> filter (\<lambda>(k, v). k \<noteq> ''payload_encrypted'') h"

lemma map_unmark: "unmark (map (map_prod id canon) h) = map (map_prod id canon) (unmark h)"
  by (induction h) auto

lemma canon_unmark: "canon (JObj (unmark (sort_key fst (map (map_prod id canon) h)))) = canon (JObj (unmark h))"
  by (simp only: filter_sort map_unmark canon_obj [symmetric] canon_idem)

lemma wf_unmark: "wf_json (JObj h) \<Longrightarrow> wf_json (JObj (unmark h))"
  by (auto simp: wf_json_JObj distinct_map_filter)

lemma aad_canon_cong:
  assumes "canon (JObj (unmark h)) = canon (JObj (unmark h'))"
  shows "build_physical_payload_aad h = build_physical_payload_aad h'"
  using assms unfolding build_physical_payload_aad_def json_dumps_def
  by (simp only: canon.simps list.map map_prod_simp)

text \<open>The receiver computes the associated data from the header it parsed, marker included.\<close>

lemma aad_received:
  assumes "dict_get h ''payload_encrypted'' = None"
  shows "build_physical_payload_aad (sort_key fst (map (map_prod id canon) (dict_set ''payload_encrypted'' v h))) =
    build_physical_payload_aad h"
proof (rule aad_canon_cong)
  have "unmark (dict_set ''payload_encrypted'' v h) = unmark h"
    using assms by (simp add: dict_set_append)
  then show "canon (JObj (unmark (sort_key fst (map (map_prod id canon) (dict_set ''payload_encrypted'' v h))))) =
      canon (JObj (unmark h))"
    by (simp only: canon_unmark)
qed

text \<open>The associated data determine the header, up to the marker.\<close>

lemma aad_determines_header:
  assumes "wf_json (JObj h)" and "wf_json (JObj h')" and "build_physical_payload_aad h = build_physical_payload_aad h'"
    and "k \<noteq> ''payload_encrypted''"
  shows "map_option canon (dict_get h k) = map_option canon (dict_get h' k)"
proof -
  let ?o = "\<lambda>h. JObj [(''scope'', JStr ''physical_payload''), (''header'', JObj (unmark h))]"
  have le: "''header'' \<le> ''scope''" "\<not> ''scope'' \<le> ''header''" by code_simp+
  have wf: "wf_json (?o g)" if "wf_json (JObj g)" for g
    using wf_unmark [OF that] by (simp add: wf_json_JObj)
  have "canon (?o h) = canon (?o h')"
    using assms(3) json_dumps_eq_iff [OF wf [OF assms(1)] wf [OF assms(2)]]
    by (simp only: build_physical_payload_aad_def)
  then have "canon (JObj (unmark h)) = canon (JObj (unmark h'))" using le by simp
  moreover have "distinct (dict_keys (unmark g))" if "wf_json (JObj g)" for g
    using wf_unmark [OF that] by (simp add: wf_json_JObj)
  ultimately have "map_option canon (dict_get (unmark h) k) = map_option canon (dict_get (unmark h') k)"
    using assms(1,2) by (intro canon_obj_get)
  moreover have "dict_get (unmark g) k = dict_get g k" for g
    using assms(4) by (induction g) (auto simp: dict_get_def)
  ultimately show ?thesis by simp
qed

section \<open>From one engine to another\<close>

lemma encrypt_hex_ok:
  assumes laws: "aead_laws E D" and key: "length key = AES_KEY_SIZE"
    and rnd: "\<And>i. length (rnd i) = AES_GCM_SIV_NONCE_SIZE" and data: "data \<noteq> []"
    and fresh: "i < 256" "(bytes_to_hex key, bytes_to_hex (rnd i)) \<notin> used"
  obtains used' r where "encrypt_hex E rnd (bytes_to_hex data) (bytes_to_hex key) None aad used = (used', Inr r)"
    "decrypt_hex D (ac_payload_hex r) (bytes_to_hex key) aad = Inr (bytes_to_hex data)" "ac_payload_hex r \<noteq> []"
proof -
  obtain used' r where "encrypt_bytes E rnd data (bytes_to_hex key) None aad used = (used', Inr r)"
    "decrypt_bytes D (ac_payload_hex r) (bytes_to_hex key) aad = Inr data" "ac_payload_hex r \<noteq> []"
    by (rule encrypt_bytes_ok [where rnd = rnd, OF laws key rnd data fresh])
  with that show thesis by (simp add: encrypt_hex_def decrypt_hex_def)
qed

text \<open>Preparing a packet for a session with a key: the packet that goes out and how it decrypts.\<close>

lemma prepare_encrypts:
  assumes laws: "aead_laws E D" and key: "length key = AES_KEY_SIZE"
    and rnd: "\<And>i. length (rnd i) = AES_GCM_SIV_NONCE_SIZE"
    and fresh: "i < 256" "(bytes_to_hex key, bytes_to_hex (rnd i)) \<notin> en_nonces en"
    and wf: "wf_json (JObj header)" "wf_json (JObj payload)"
    and hdr: "jget header ''physical_session_id'' = JStr sid" "jget header ''message_type'' = JStr mt"
    and mt: "mt \<notin> set PLAINTEXT_SESSION_MESSAGE_TYPES"
    and secret: "usable_secret (get_session_by_session_id (en_sessions en) sid) = Some (bytes_to_hex key)"
    and msg: "om_payload message = build_json_packet_bytes header payload"
  obtains used ct hc where "canon (JObj header) = JObj hc" "ct \<noteq> []"
    "prepare_outbound_message E rnd now now' message en =
       (touch sid now now' (en \<lparr> en_nonces := used \<rparr>), Inr (message \<lparr> om_payload := build_json_packet_bytes (dict_set ''payload_encrypted'' (JBool True) hc)
         [(''ciphertext_hex'', JStr ct)] \<rparr>))"
    "decrypt_hex D ct (bytes_to_hex key) (Some (PyBytes (build_physical_payload_aad hc))) =
       Inr (bytes_to_hex (json_dumps (JObj payload)))"
proof -
  let ?hc = "sort_key fst (map (map_prod id canon) header)" and ?pc = "sort_key fst (map (map_prod id canon) payload)"
  have dist: "distinct (dict_keys header)" using wf(1) by (simp add: wf_json_JObj)
  have load: "load_json_packet (om_payload message) = Some (JObj [(''header'', JObj ?hc), (''payload'', JObj ?pc)])"
    unfolding msg load_packet_bytes [OF wf] canon_obj by (rule refl)
  have pc: "json_dumps (JObj ?pc) = json_dumps (JObj payload)"
    unfolding json_dumps_def canon_obj [symmetric] by (simp only: canon_idem)
  have ne: "json_dumps (JObj payload) \<noteq> []" using starter_enc by (simp add: json_dumps_def)
  obtain used' r where r: "encrypt_hex E rnd (bytes_to_hex (json_dumps (JObj payload))) (bytes_to_hex key) None
      (Some (PyBytes (build_physical_payload_aad ?hc))) (en_nonces en) = (used', Inr r)"
    "decrypt_hex D (ac_payload_hex r) (bytes_to_hex key) (Some (PyBytes (build_physical_payload_aad ?hc))) =
      Inr (bytes_to_hex (json_dumps (JObj payload)))" "ac_payload_hex r \<noteq> []"
    by (rule encrypt_hex_ok [where rnd = rnd, OF laws key rnd ne fresh])
  have get: "jget ?hc ''physical_session_id'' = JStr sid" "jget ?hc ''message_type'' = JStr mt"
    using hdr by (simp_all add: jget_canon [OF dist])
  have "prepare_outbound_message E rnd now now' message en =
      (touch sid now now' (en \<lparr> en_nonces := used' \<rparr>),
       Inr (message \<lparr> om_payload := build_json_packet_bytes (dict_set ''payload_encrypted'' (JBool True) ?hc)
         [(''ciphertext_hex'', JStr (ac_payload_hex r))] \<rparr>))"
    unfolding prepare_outbound_message_def load
    using mt secret r(1) by (simp add: jget_def [of "[(''header'', _), _]"] dict_get_def get encode_payload_hex_def pc)
  then show thesis by (rule that [OF canon_obj r(3) _ r(2)])
qed

text \<open>Receiving such a packet.\<close>

lemma decode_encrypted:
  assumes wf: "wf_json (JObj hc)" and marker: "dict_get hc ''payload_encrypted'' = None"
    and hdr: "jget hc ''physical_session_id'' = JStr sid" "jget hc ''message_type'' = JStr mt" "sid \<noteq> []"
    and secret: "usable_secret (get_session_by_session_id (en_sessions en) sid) = Some secret" and ct: "ct \<noteq> []"
    and dec: "decrypt_hex D ct secret (Some (PyBytes (build_physical_payload_aad hc))) = Inr (bytes_to_hex (json_dumps (JObj payload)))"
    and wfp: "wf_json (JObj payload)"
    and pkt: "pc_payload ctx = build_json_packet_bytes (dict_set ''payload_encrypted'' (JBool True) hc) [(''ciphertext_hex'', JStr ct)]"
  obtains hr where "\<forall>k. jget hr k = canon (jget (dict_set ''payload_encrypted'' (JBool True) hc) k)"
    "decode_json_packet D now now' ctx en =
      (touch sid now now' en, Inr \<lparr> pe_protocol_name = ''json'', pe_message_type = Some mt,
         pe_payload = canon (JObj payload), pe_raw_payload = pc_payload ctx, pe_header = hr \<rparr>)"
proof -
  let ?hm = "dict_set ''payload_encrypted'' (JBool True) hc"
  let ?hr = "sort_key fst (map (map_prod id canon) ?hm)"
  have app: "?hm = hc @ [(''payload_encrypted'', JBool True)]" using marker by (rule dict_set_append)
  have wfm: "wf_json (JObj ?hm)" using wf marker unfolding app by (auto simp: wf_json_JObj dict_get_None_iff)
  have dist: "distinct (dict_keys ?hm)" using wfm by (simp add: wf_json_JObj)
  have wfc: "wf_json (JObj [(''ciphertext_hex'', JStr ct)])" by simp
  have load: "load_json_packet (pc_payload ctx) =
      Some (JObj [(''header'', JObj ?hr), (''payload'', JObj [(''ciphertext_hex'', JStr ct)])])"
    unfolding pkt load_packet_bytes [OF wfm wfc] canon_obj by simp
  have get: "jget ?hr k = canon (jget ?hm k)" for k by (rule jget_canon [OF dist])
  have hm: "jget ?hm ''physical_session_id'' = JStr sid" "jget ?hm ''message_type'' = JStr mt"
    "jget ?hm ''payload_encrypted'' = JBool True" using hdr by (simp_all add: jget_def)
  have rd: "jget ?hr ''physical_session_id'' = JStr sid" "jget ?hr ''message_type'' = JStr mt"
    "jget ?hr ''payload_encrypted'' = JBool True" unfolding get hm by simp_all
  have "restore_inbound_payload D now now' ?hr (JObj [(''ciphertext_hex'', JStr ct)]) en =
      (touch sid now now' en, Inr (canon (JObj payload)))"
    using secret ct hdr(3) dec json_dumps_loads_utf8 [OF wfp]
    unfolding restore_inbound_payload_def
    by (simp add: rd read_plaintext_def jget_nonempty_str_def aad_received [OF marker] jget_def [of "[(''ciphertext_hex'', _)]"] dict_get_def del: canon.simps(7))
  then have "decode_json_packet D now now' ctx en =
      (touch sid now now' en, Inr \<lparr> pe_protocol_name = ''json'', pe_message_type = Some mt,
         pe_payload = canon (JObj payload), pe_raw_payload = pc_payload ctx, pe_header = ?hr \<rparr>)"
    unfolding decode_json_packet_def load
    by (simp add: rd jget_def [of "[(''header'', _), _]"] dict_get_def del: canon.simps(7))
  with get show thesis by (intro that) auto
qed

text \<open>The header of a message and what a decoded packet says about the one that was sent.\<close>

lemma build_message_header_props:
  assumes "build_message_header mt (Some sid) vsid uuid en = (en', header)"
  shows "en' = en \<lparr> en_message_sequence := en_message_sequence en + 1 \<rparr>" "wf_json (JObj header)"
    "jget header ''physical_session_id'' = JStr sid" "jget header ''message_type'' = JStr mt"
    "jget header ''message_sequence'' = JInt (en_message_sequence en + 1)" "jget header ''message_id'' = JStr uuid"
    "dict_get header ''payload_encrypted'' = None"
  using assms by (cases vsid; auto simp: build_message_header_def Let_def jget_def dict_get_def)+

lemma parsed_header_wf:
  assumes "load_json_packet raw = Some packet" and "as_obj packet = Some p" and "as_obj (jget p ''header'') = Some header"
  shows "wf_json (JObj header)"
proof -
  from assms(1) have "wf_json packet"
    by (auto simp: load_json_packet_def json_loads_wf split: option.splits if_splits)
  moreover have "packet = JObj p" using assms(2) by (cases packet) auto
  moreover have "jget p ''header'' = JObj header" using assms(3) by (cases "jget p ''header''") auto
  then have "(''header'', JObj header) \<in> set p"
    by (auto simp: jget_def dest: dict_get_Some_in split: option.splits)
  ultimately show ?thesis by (auto simp: wf_json_JObj [of p] simp del: wf_json_JObj)
qed

lemma decode_header_wf:
  assumes "decode_json_packet D now now' ctx en = (en', Inr env)"
  shows "wf_json (JObj (pe_header env))"
    and "\<exists>payload. restore_inbound_payload D now now' (pe_header env) payload en = (en', Inr (pe_payload env))"
proof -
  from assms obtain packet p header payload where *: "load_json_packet (pc_payload ctx) = Some packet"
    "as_obj packet = Some p" "as_obj (jget p ''header'') = Some header"
    "restore_inbound_payload D now now' header payload en = (en', Inr (pe_payload env))" "pe_header env = header"
    by (auto simp: decode_json_packet_def Let_def split: option.splits if_splits prod.splits sum.splits)
  then show "wf_json (JObj (pe_header env))"
    "\<exists>payload. restore_inbound_payload D now now' (pe_header env) payload en = (en', Inr (pe_payload env))"
    using parsed_header_wf [OF *(1-3)] by auto
qed

lemma usable_secret_Some:
  "usable_secret s = Some k \<longleftrightarrow> (\<exists>x. s = Some x \<and> ns_session_state x = ''active'' \<and> ns_shared_secret_hex x = Some k \<and> k \<noteq> [])"
  by (auto simp: usable_secret_def split: option.splits if_splits)

section \<open>A concrete pair of engines\<close>

text \<open>Two engines that share a session with a key, and a cipher that satisfies the laws (it only pads).\<close>

definition pad_encrypt :: aead where
  "pad_encrypt k n d a = Inr (d @ replicate 16 CHR ''0'')"

definition pad_decrypt :: aead where
  "pad_decrypt k n c a = (let m = length c - 16 in
     if 16 \<le> length c \<and> drop m c = replicate 16 CHR ''0'' then Inr (take m c) else Inl InvalidTag)"

definition demo_session_key :: string where
  "demo_session_key = replicate 32 CHR ''k''"

definition demo_engine :: engine where
  "demo_engine = \<lparr> en_sessions = fst (store_shared_secret demo_sessions ''s1'' (bytes_to_hex demo_session_key) ''ready'' ''active'' 2 2),
     en_nonces = {}, en_message_sequence = 0 \<rparr>"

lemma pad_laws: "aead_laws pad_encrypt pad_decrypt"
proof -
  have "c = take (length c - 16) c @ replicate 16 CHR ''0''" if "drop (length c - 16) c = replicate 16 CHR ''0''" for c :: string
    using that by (metis append_take_drop_id)
  then show ?thesis
    by (auto simp: aead_laws_def pad_encrypt_def pad_decrypt_def AES_GCM_SIV_TAG_SIZE_def Let_def split: if_splits)
qed

lemma demo_secret: "usable_secret (get_session_by_session_id (en_sessions demo_engine) ''s1'') = Some (bytes_to_hex demo_session_key)"
  by code_simp

section \<open>Properties\<close>

text \<open>Any message with a packet of this engine, prepared here and decoded there.\<close>

lemma prepare_then_decode:
  assumes laws: "aead_laws E D" and key: "length key = AES_KEY_SIZE"
    and rnd: "\<And>i. length (rnd i) = AES_GCM_SIV_NONCE_SIZE"
    and fresh: "i < 256" "(bytes_to_hex key, bytes_to_hex (rnd i)) \<notin> en_nonces a"
    and hdr: "build_message_header mt (Some sid) None uuid a = (a1, header)" and sid: "sid \<noteq> []"
    and secrets: "usable_secret (get_session_by_session_id (en_sessions a) sid) = Some (bytes_to_hex key)"
      "usable_secret (get_session_by_session_id (en_sessions b) sid) = Some (bytes_to_hex key)"
    and msg: "mt \<notin> set PLAINTEXT_SESSION_MESSAGE_TYPES" "wf_json (JObj payload)"
    and packet: "om_payload message = build_json_packet_bytes header payload"
  shows "\<exists>used out env. prepare_outbound_message E rnd now now' message a1 =
      (touch sid now now' (a1 \<lparr> en_nonces := used \<rparr>), Inr (message \<lparr> om_payload := out \<rparr>)) \<and>
    decode_json_packet D t t' (ctx \<lparr> pc_payload := out \<rparr>) b = (touch sid t t' b, Inr env) \<and>
    pe_message_type env = Some mt \<and> pe_payload env = canon (JObj payload) \<and>
    jget (pe_header env) ''physical_session_id'' = JStr sid \<and> jget (pe_header env) ''message_id'' = JStr uuid \<and>
    jget (pe_header env) ''message_sequence'' = JInt (en_message_sequence a + 1) \<and>
    jget (pe_header env) ''payload_encrypted'' = JBool True"
proof -
  note hp = build_message_header_props [OF hdr]
  have a1: "(bytes_to_hex key, bytes_to_hex (rnd i)) \<notin> en_nonces a1"
    "usable_secret (get_session_by_session_id (en_sessions a1) sid) = Some (bytes_to_hex key)"
    using hp(1) fresh(2) secrets(1) by simp_all
  obtain used ct hc where p: "canon (JObj header) = JObj hc" "ct \<noteq> []"
    "prepare_outbound_message E rnd now now' message a1 = (touch sid now now' (a1 \<lparr> en_nonces := used \<rparr>), Inr (message \<lparr> om_payload :=
       build_json_packet_bytes (dict_set ''payload_encrypted'' (JBool True) hc) [(''ciphertext_hex'', JStr ct)] \<rparr>))"
    "decrypt_hex D ct (bytes_to_hex key) (Some (PyBytes (build_physical_payload_aad hc))) =
       Inr (bytes_to_hex (json_dumps (JObj payload)))"
    by (rule prepare_encrypts [where rnd = rnd and en = a1 and message = message and now = now and now' = now',
        OF laws key rnd fresh(1) a1(1) hp(2) msg(2) hp(3,4) msg(1) a1(2) packet])
  have dist: "distinct (dict_keys header)" using hp(2) by (simp add: wf_json_JObj)
  have hc: "hc = sort_key fst (map (map_prod id canon) header)" using p(1) by simp
  have get: "jget hc k = canon (jget header k)" for k unfolding hc by (rule jget_canon [OF dist])
  have mark: "dict_get hc ''payload_encrypted'' = None"
    using hp(7) dist unfolding hc by (simp add: dict_get_sorted dict_get_map_canon comp_def)
  have wfh: "wf_json (JObj hc)" using wf_json_canon [OF hp(2)] unfolding p(1) .
  have rd: "jget hc ''physical_session_id'' = JStr sid" "jget hc ''message_type'' = JStr mt"
    unfolding get hp by simp_all
  let ?c = "ctx \<lparr> pc_payload := build_json_packet_bytes (dict_set ''payload_encrypted'' (JBool True) hc)
    [(''ciphertext_hex'', JStr ct)] \<rparr>"
  have cp: "pc_payload ?c = build_json_packet_bytes (dict_set ''payload_encrypted'' (JBool True) hc) [(''ciphertext_hex'', JStr ct)]"
    by simp
  obtain hr where r0: "\<forall>k. jget hr k = canon (jget (dict_set ''payload_encrypted'' (JBool True) hc) k)"
    and r1: "decode_json_packet D t t' ?c b = (touch sid t t' b, Inr \<lparr> pe_protocol_name = ''json'', pe_message_type = Some mt,
         pe_payload = canon (JObj payload), pe_raw_payload = pc_payload ?c, pe_header = hr \<rparr>)"
    by (rule decode_encrypted [where now = t and now' = t', OF wfh mark rd sid secrets(2) p(2) p(4) msg(2) cp])
  note r = r0 [THEN spec]
  have "jget hr k = canon (jget header k)" if "k \<noteq> ''payload_encrypted''" for k
  proof -
    have "jget (dict_set ''payload_encrypted'' (JBool True) hc) k = jget hc k" using that by (simp add: jget_def)
    then show ?thesis unfolding r get by simp
  qed
  moreover have "jget hr ''payload_encrypted'' = JBool True" unfolding r by (simp add: jget_def)
  ultimately show ?thesis
    by (intro exI [of _ used] exI [of _ "pc_payload ?c"] exI [of _ "\<lparr> pe_protocol_name = ''json'', pe_message_type = Some mt,
         pe_payload = canon (JObj payload), pe_raw_payload = pc_payload ?c, pe_header = hr \<rparr>"])
      (use r1 p(3) hp in \<open>simp del: canon.simps(7)\<close>)
qed

lemma send_then_decode:
  assumes laws: "aead_laws E D" and key: "length key = AES_KEY_SIZE"
    and rnd: "\<And>i. length (rnd i) = AES_GCM_SIV_NONCE_SIZE"
    and fresh: "i < 256" "(bytes_to_hex key, bytes_to_hex (rnd i)) \<notin> en_nonces a"
    and session: "ns_session_id s = sid" "build_session_remote_endpoint s = Inr endpoint" "sid \<noteq> []"
    and secrets: "usable_secret (get_session_by_session_id (en_sessions a) sid) = Some (bytes_to_hex key)"
      "usable_secret (get_session_by_session_id (en_sessions b) sid) = Some (bytes_to_hex key)"
    and msg: "mt \<notin> set PLAINTEXT_SESSION_MESSAGE_TYPES" "wf_json (JObj payload)"
  shows "\<exists>a' m env. send_message_over_physical_session E rnd uuid now now' s mt payload force a = (a', Inr m) \<and>
    om_remote_endpoint m = endpoint \<and>
    decode_json_packet D t t' (ctx \<lparr> pc_payload := om_payload m \<rparr>) b = (touch sid t t' b, Inr env) \<and>
    pe_message_type env = Some mt \<and> pe_payload env = canon (JObj payload) \<and>
    jget (pe_header env) ''physical_session_id'' = JStr sid \<and> jget (pe_header env) ''message_id'' = JStr uuid \<and>
    jget (pe_header env) ''message_sequence'' = JInt (en_message_sequence a + 1) \<and>
    jget (pe_header env) ''payload_encrypted'' = JBool True"
proof -
  obtain a1 header where h: "build_message_header mt (Some sid) None uuid a = (a1, header)" by fastforce
  let ?m = "\<lparr> om_transport_name = te_transport_name endpoint, om_payload = build_json_packet_bytes header payload,
    om_remote_endpoint = endpoint, om_local_endpoint = None,
    om_metadata = dict_set ''force_new_connection'' (JBool force) (dict_set ''target_physical_node_id'' (JStr (ns_remote_identity_id s))
      (load_json_object (ns_metadata_json s))) \<rparr>"
  have send: "send_message_over_physical_session E rnd uuid now now' s mt payload force a =
      prepare_outbound_message E rnd now now' ?m a1"
    using session h by (simp add: send_message_over_physical_session_def)
  have om: "om_payload ?m = build_json_packet_bytes header payload" "om_remote_endpoint ?m = endpoint" by simp_all
  from prepare_then_decode [where rnd = rnd, OF laws key rnd fresh h session(3) secrets msg om(1)]
  show ?thesis unfolding send by (metis outbound_message.select_convs(2,3) outbound_message.update_convs(2))
qed

text \<open>
  C4. A message that one engine sends over a physical session with a key arrives unchanged at the engine on
  the other side of the session: encryption succeeds, the packet decodes to an envelope with the same type,
  session, message id, sequence number and payload (with the keys sorted), and the receiver refreshes its session.
\<close>

theorem packet_round_trip:
  assumes "aead_laws E D" and "length key = AES_KEY_SIZE" and "\<And>i. length (rnd i) = AES_GCM_SIV_NONCE_SIZE"
    and "i < 256" and "(bytes_to_hex key, bytes_to_hex (rnd i)) \<notin> en_nonces a"
    and "ns_session_id s = sid" and "build_session_remote_endpoint s = Inr endpoint" and "sid \<noteq> []"
    and "usable_secret (get_session_by_session_id (en_sessions a) sid) = Some (bytes_to_hex key)"
    and "usable_secret (get_session_by_session_id (en_sessions b) sid) = Some (bytes_to_hex key)"
    and "mt \<notin> set PLAINTEXT_SESSION_MESSAGE_TYPES" and "wf_json (JObj payload)"
  shows "\<exists>a' m env. send_message_over_physical_session E rnd uuid now now' s mt payload force a = (a', Inr m) \<and>
    om_remote_endpoint m = endpoint \<and>
    decode_json_packet D t t' (ctx \<lparr> pc_payload := om_payload m \<rparr>) b = (touch sid t t' b, Inr env) \<and>
    pe_message_type env = Some mt \<and> pe_payload env = canon (JObj payload) \<and>
    jget (pe_header env) ''physical_session_id'' = JStr sid \<and> jget (pe_header env) ''message_id'' = JStr uuid \<and>
    jget (pe_header env) ''message_sequence'' = JInt (en_message_sequence a + 1) \<and>
    jget (pe_header env) ''payload_encrypted'' = JBool True"
  by (rule send_then_decode [where rnd = rnd, OF assms])

definition demo_session :: network_session where
  "demo_session = (case get_session_by_session_id (en_sessions demo_engine) ''s1'' of Some s \<Rightarrow> s)"

definition demo_endpoint :: transport_endpoint where
  "demo_endpoint = \<lparr> te_transport_name = ''udp'', te_host = ''h'', te_port = 9, te_metadata = [] \<rparr>"

definition demo_packet_context :: packet_context where
  "demo_packet_context = \<lparr> pc_transport_name = ''udp'', pc_payload = [], pc_remote_host = None, pc_remote_port = None,
     pc_local_host = None, pc_local_port = None, pc_connection_id = None, pc_received_at = 0, pc_metadata = [] \<rparr>"

lemma demo_session_facts: "ns_session_id demo_session = ''s1''" "build_session_remote_endpoint demo_session = Inr demo_endpoint"
  "en_nonces demo_engine = {}" "length demo_session_key = AES_KEY_SIZE"
  by code_simp+

lemma demo_send:
  "\<exists>a' m env. send_message_over_physical_session pad_encrypt (\<lambda>_. replicate 12 CHR ''n'') ''m1'' 3 3 demo_session ''PING''
      [(''nonce'', JStr ''x'')] False demo_engine = (a', Inr m) \<and> om_remote_endpoint m = demo_endpoint \<and>
    decode_json_packet pad_decrypt 4 4 (demo_packet_context \<lparr> pc_payload := om_payload m \<rparr>) demo_engine = (touch ''s1'' 4 4 demo_engine, Inr env) \<and>
    pe_message_type env = Some ''PING'' \<and> pe_payload env = canon (JObj [(''nonce'', JStr ''x'')]) \<and>
    jget (pe_header env) ''physical_session_id'' = JStr ''s1'' \<and> jget (pe_header env) ''message_id'' = JStr ''m1'' \<and>
    jget (pe_header env) ''message_sequence'' = JInt (en_message_sequence demo_engine + 1) \<and>
    jget (pe_header env) ''payload_encrypted'' = JBool True"
  by (rule send_then_decode [OF pad_laws demo_session_facts(4) _ _ _ demo_session_facts(1,2) _ demo_secret demo_secret, of _ 0])
    (simp_all add: AES_GCM_SIV_NONCE_SIZE_def demo_session_facts(3) PLAINTEXT_SESSION_MESSAGE_TYPES_def)

theorem packet_round_trip_witness:
  "\<exists>a' m env. send_message_over_physical_session pad_encrypt (\<lambda>_. replicate 12 CHR ''n'') ''m1'' 3 3 demo_session ''PING''
      [(''nonce'', JStr ''x'')] False demo_engine = (a', Inr m) \<and> om_remote_endpoint m = demo_endpoint \<and>
    decode_json_packet pad_decrypt 4 4 (demo_packet_context \<lparr> pc_payload := om_payload m \<rparr>) demo_engine = (touch ''s1'' 4 4 demo_engine, Inr env) \<and>
    pe_message_type env = Some ''PING'' \<and> pe_payload env = canon (JObj [(''nonce'', JStr ''x'')]) \<and>
    jget (pe_header env) ''physical_session_id'' = JStr ''s1'' \<and> jget (pe_header env) ''message_id'' = JStr ''m1'' \<and>
    jget (pe_header env) ''message_sequence'' = JInt (en_message_sequence demo_engine + 1) \<and>
    jget (pe_header env) ''payload_encrypted'' = JBool True"
  by (rule packet_round_trip [OF pad_laws demo_session_facts(4) _ _ _ demo_session_facts(1,2) _ demo_secret demo_secret, of _ 0])
    (simp_all add: AES_GCM_SIV_NONCE_SIZE_def demo_session_facts(3) PLAINTEXT_SESSION_MESSAGE_TYPES_def)



text \<open>
  C6. No message of a type that needs a physical session reaches its handler unless the header names an
  active session of the table; otherwise the packet is refused without a response and without any change. The
  types that need none are the eight of \<open>sessionless_types\<close>: the handshake, ping and node information.
\<close>

theorem session_gate:
  assumes "pe_message_type env = Some mt" and "get_definition (Some mt) = Some d"
  shows "if mt \<in> set sessionless_types \<or>
       (\<exists>sid session. jget_nonempty_str (pe_header env) ''physical_session_id'' = Some sid \<and>
          get_session_by_session_id (en_sessions en) sid = Some session \<and> ns_session_state session = ''active'')
     then process_protocol_envelope handle env ctx (en, w) = handle (md_handler d) env ctx (en, w)
     else \<exists>r. process_protocol_envelope handle env ctx (en, w) = ((en, w), Inr r) \<and> \<not> pr_handled r \<and> pr_response_payload r = None"
  using get_definition_rule [OF assms(2)] assms
  by (auto simp: process_protocol_envelope_def validate_message_policy_def route_def policy_refusal_def split: option.splits)

theorem session_gate_witness:
  "\<exists>r. process_protocol_envelope (\<lambda>_ _ _ st. (st, Inl KeyError)) \<lparr> pe_protocol_name = ''json'', pe_message_type = Some ''DHT_PUBLISH'',
       pe_payload = JNull, pe_raw_payload = [], pe_header = [(''physical_session_id'', JStr ''s2'')] \<rparr> demo_packet_context (demo_engine, ()) =
     ((demo_engine, ()), Inr r) \<and> \<not> pr_handled r \<and> pr_response_payload r = None"
proof -
  let ?e = "\<lparr> pe_protocol_name = ''json'', pe_message_type = Some ''DHT_PUBLISH'', pe_payload = JNull, pe_raw_payload = [],
    pe_header = [(''physical_session_id'', JStr ''s2'')] \<rparr>"
  have d: "get_definition (Some ''DHT_PUBLISH'') = Some (message_definition ''DHT_PUBLISH'' DhtProtocolHandler ''physical'' True False)"
    by code_simp
  have n: "get_session_by_session_id (en_sessions demo_engine) ''s2'' = None" by code_simp
  show ?thesis
    using session_gate [of ?e _ _ demo_engine, OF _ d]
    by (simp add: sessionless_types_def jget_nonempty_str_def jget_def dict_get_def n)
qed

text \<open>
  C7. Encryption is not required: a packet in plain text that names an active session reaches the handler of
  its type with its payload, whatever the key of the session and whoever sent it.
\<close>

theorem plaintext_packet_accepted:
  assumes "get_definition (Some mt) = Some d" and "sid \<noteq> []"
    and "get_session_by_session_id (en_sessions en) sid = Some session" and "ns_session_state session = ''active''"
    and "wf_json (JObj payload)"
    and "pc_payload ctx = build_json_packet_bytes [(''message_type'', JStr mt), (''physical_session_id'', JStr sid)] payload"
  shows "process_received_packet D now now' handle ctx (en, w) =
    handle (md_handler d) \<lparr> pe_protocol_name = ''json'', pe_message_type = Some mt, pe_payload = canon (JObj payload),
      pe_raw_payload = pc_payload ctx, pe_header = [(''message_type'', JStr mt), (''physical_session_id'', JStr sid)] \<rparr> ctx (en, w)"
proof -
  let ?h = "[(''message_type'', JStr mt), (''physical_session_id'', JStr sid)]"
  have "''message_type'' \<le> ''physical_session_id''" by code_simp
  then have ch: "canon (JObj ?h) = JObj ?h" by simp
  have wf: "wf_json (JObj ?h)" by simp
  have load: "load_json_packet (pc_payload ctx) = Some (JObj [(''header'', JObj ?h), (''payload'', canon (JObj payload))])"
    using load_packet_bytes [OF wf assms(5)] unfolding assms(6) ch .
  have "decode_json_packet D now now' ctx en = (en, Inr \<lparr> pe_protocol_name = ''json'', pe_message_type = Some mt,
      pe_payload = canon (JObj payload), pe_raw_payload = pc_payload ctx, pe_header = ?h \<rparr>)"
    unfolding decode_json_packet_def load restore_inbound_payload_def
    by (simp add: jget_def dict_get_def)
  with assms(1-4) show ?thesis
    by (simp add: process_received_packet_def process_protocol_envelope_def validate_message_policy_def route_def
        jget_nonempty_str_def jget_def dict_get_def)
qed

theorem plaintext_packet_accepted_witness:
  "process_received_packet pad_decrypt 4 4 (\<lambda>h e _ st. (st, Inl (if h = SessionProtocolHandler then RuntimeError ''called'' else KeyError)))
     (demo_packet_context \<lparr> pc_payload := build_json_packet_bytes
        [(''message_type'', JStr ''PHYSICAL_SESSION_CLOSE''), (''physical_session_id'', JStr ''s1'')] [] \<rparr>) (demo_engine, ()) =
   ((demo_engine, ()), Inl (RuntimeError ''called''))"
proof -
  have d: "get_definition (Some ''PHYSICAL_SESSION_CLOSE'') =
      Some (message_definition ''PHYSICAL_SESSION_CLOSE'' SessionProtocolHandler ''physical'' True False)"
    by code_simp
  have g: "get_session_by_session_id (en_sessions demo_engine) ''s1'' = Some demo_session" "ns_session_state demo_session = ''active''"
    by code_simp+
  show ?thesis
    by (subst plaintext_packet_accepted [OF d _ g, where payload = "[]"]) (simp_all add: message_definition_def)
qed

text \<open>
  A packet whose ciphertext does not authenticate is not answered with the refusal \<^verbatim>\<open>invalid_json_packet\<close>
  like every other packet that cannot be decoded: the exception of the cipher leaves \<^verbatim>\<open>process_received_packet\<close>,
  which only catches \<^verbatim>\<open>ValueError\<close>. No handler runs and the engine is unchanged.
\<close>

theorem forged_packet_raises:
  assumes "usable_secret (get_session_by_session_id (en_sessions en) sid) = Some secret" and "sid \<noteq> []" and "ct \<noteq> []"
    and "decrypt_hex D ct secret (Some (PyBytes (build_physical_payload_aad
        [(''message_type'', JStr mt), (''payload_encrypted'', JBool True), (''physical_session_id'', JStr sid)]))) = Inl InvalidTag"
    and "pc_payload ctx = build_json_packet_bytes
        [(''message_type'', JStr mt), (''payload_encrypted'', JBool True), (''physical_session_id'', JStr sid)] [(''ciphertext_hex'', JStr ct)]"
  shows "process_received_packet D now now' handle ctx (en, w) = ((en, w), Inl InvalidTag)"
proof -
  let ?h = "[(''message_type'', JStr mt), (''payload_encrypted'', JBool True), (''physical_session_id'', JStr sid)]"
  have "''message_type'' \<le> ''payload_encrypted''" "''payload_encrypted'' \<le> ''physical_session_id''" by code_simp+
  then have ch: "canon (JObj ?h) = JObj ?h" by simp
  have load: "load_json_packet (pc_payload ctx) = Some (JObj [(''header'', JObj ?h), (''payload'', JObj [(''ciphertext_hex'', JStr ct)])])"
    unfolding assms(5) using load_packet_bytes [of ?h "[(''ciphertext_hex'', JStr ct)]"] unfolding ch by simp
  show ?thesis
    using assms(1-4)
    by (simp add: process_received_packet_def decode_json_packet_def load restore_inbound_payload_def jget_nonempty_str_def
        jget_def dict_get_def)
qed

theorem forged_packet_raises_witness:
  "process_received_packet pad_decrypt 4 4 (\<lambda>h e _ st. (st, Inl KeyError))
     (demo_packet_context \<lparr> pc_payload := build_json_packet_bytes
        [(''message_type'', JStr ''PING''), (''payload_encrypted'', JBool True), (''physical_session_id'', JStr ''s1'')]
        [(''ciphertext_hex'', JStr (bytes_to_hex (replicate 40 CHR ''x'')))] \<rparr>) (demo_engine, ()) =
   ((demo_engine, ()), Inl InvalidTag)"
proof (rule forged_packet_raises [OF demo_secret])
  show "decrypt_hex pad_decrypt (bytes_to_hex (replicate 40 CHR ''x'')) (bytes_to_hex demo_session_key) (Some (PyBytes (build_physical_payload_aad
      [(''message_type'', JStr ''PING''), (''payload_encrypted'', JBool True), (''physical_session_id'', JStr ''s1'')]))) = Inl InvalidTag"
    by code_simp
  show "bytes_to_hex (replicate 40 CHR ''x'') \<noteq> []" by code_simp
qed simp_all

end
