(* ===== verification/Physical_Client.thy ===== *)
theory Physical_Client
  imports Engine_Packets
begin

text \<open>
  The sending half of \<^verbatim>\<open>app/core/protocol_clients/physical/physical_session.py\<close>: keepalives, close messages and
  reliable messages over a physical session, with the packet builders of
  \<^verbatim>\<open>app/core/protocols/physical/session.py\<close> they call, composed with the packet layer of the engine and the
  reliable state of the session table. One record holds what a send takes from outside: the cipher, the random
  bytes, \<^verbatim>\<open>uuid4\<close>, the clock readings and whether the transport accepts a message or raises.

  The main result follows a reliable message from the table of one engine through encryption, the wire,
  decryption and the parser of the other.
\<close>

record send_io =
  io_encrypt :: aead
  io_random :: "nat \<Rightarrow> string"
  io_uuid :: string
  io_now :: time_us
  io_now' :: time_us
  io_marked_at :: time_us
  io_net :: "outbound_message \<Rightarrow> unit result"

section \<open>Sending\<close>

text \<open>\<^verbatim>\<open>CoreEngine.send_packet\<close>; the result is the message that left.\<close>

definition send_packet :: "send_io \<Rightarrow> outbound_message \<Rightarrow> engine \<Rightarrow> engine \<times> outbound_message result" where
  "send_packet io message en =
     (case prepare_outbound_message (io_encrypt io) (io_random io) (io_now io) (io_now' io) message en of
        (en', Inl e) \<Rightarrow> (en', Inl e)
      | (en', Inr prepared_message) \<Rightarrow> (en', rbind (io_net io prepared_message) (\<lambda>_. Inr prepared_message)))"

definition build_physical_session_keepalive_payload :: "payload \<Rightarrow> string" where
  "build_physical_session_keepalive_payload header = build_json_packet_bytes header []"

definition build_physical_session_close_payload :: "payload \<Rightarrow> string \<Rightarrow> string" where
  "build_physical_session_close_payload header close_reason =
     build_json_packet_bytes header [(''close_reason'', JStr close_reason)]"

text \<open>The common end of the three senders: a header for the session, the packet, and the send.\<close>

definition send_session_packet :: "send_io \<Rightarrow> network_session \<Rightarrow> transport_endpoint \<Rightarrow> string \<Rightarrow> (payload \<Rightarrow> string) \<Rightarrow>
    engine \<Rightarrow> engine \<times> outbound_message result" where
  "send_session_packet io session endpoint message_type build en =
     (case build_message_header message_type (Some (ns_session_id session)) None (io_uuid io) en of (en', header) \<Rightarrow>
        send_packet io \<lparr> om_transport_name = te_transport_name endpoint, om_payload = build header,
          om_remote_endpoint = endpoint, om_local_endpoint = None, om_metadata = [] \<rparr> en')"

definition send_keepalive :: "send_io \<Rightarrow> string \<Rightarrow> engine \<Rightarrow> engine \<times> unit result" where
  "send_keepalive io session_id en =
     (case get_session_by_session_id (en_sessions en) session_id of
        None \<Rightarrow> (en, Inl (ValueError ''The provided physical session does not exist in memory.''))
      | Some session \<Rightarrow>
     (case build_remote_endpoint_from_session session of
        Inl e \<Rightarrow> (en, Inl e)
      | Inr endpoint \<Rightarrow>
          (case send_session_packet io session endpoint ''PHYSICAL_SESSION_KEEPALIVE''
              build_physical_session_keepalive_payload en of
             (en', Inl e) \<Rightarrow> (en', Inl e)
           | (en', Inr _) \<Rightarrow>
               (en' \<lparr> en_sessions := fst (mark_keepalive_sent (en_sessions en') (ns_session_id session) (io_marked_at io)) \<rparr>, Inr ()))))"

definition client_close_session :: "send_io \<Rightarrow> string \<Rightarrow> string \<Rightarrow> engine \<Rightarrow> engine \<times> unit result" where
  "client_close_session io session_id close_reason en =
     (case get_session_by_session_id (en_sessions en) session_id of
        None \<Rightarrow> (en, Inl (ValueError ''The provided physical session does not exist in memory.''))
      | Some session \<Rightarrow>
     (case build_remote_endpoint_from_session session of
        Inl e \<Rightarrow> (en, Inl e)
      | Inr endpoint \<Rightarrow>
          (case send_session_packet io session endpoint ''PHYSICAL_SESSION_CLOSE''
              (\<lambda>header. build_physical_session_close_payload header close_reason) en of
             (en', Inl e) \<Rightarrow> (en', Inl e)
           | (en', Inr _) \<Rightarrow> (en', Inr ()))))"

text \<open>The result also shows the packet.\<close>

definition resend_reliable_message :: "(time_us \<Rightarrow> string) \<Rightarrow> send_io \<Rightarrow> reliable_outbound_message \<Rightarrow> engine \<Rightarrow>
    engine \<times> outbound_message result" where
  "resend_reliable_message isofmt io m en =
     (case get_session_by_session_id (en_sessions en) (ro_session_id m) of
        None \<Rightarrow> (en, Inl (ValueError ''The provided physical session does not exist in memory.''))
      | Some session \<Rightarrow>
          if ns_session_scope session \<noteq> ''physical''
          then (en, Inl (ValueError ''The provided physical session does not exist in memory.''))
          else if ns_session_state session \<noteq> ''active''
          then (en, Inl (ValueError ''The provided physical session is not active.''))
          else (case build_remote_endpoint_from_session session of
             Inl e \<Rightarrow> (en, Inl e)
           | Inr endpoint \<Rightarrow>
               (case send_session_packet io session endpoint ''PHYSICAL_SESSION_RELIABLE_DATA''
                   (\<lambda>header. build_json_packet_bytes header (to_reliable_payload isofmt m)) en of
                  (en', Inl e) \<Rightarrow> (en', Inl e)
                | (en', Inr sent) \<Rightarrow>
                    (en' \<lparr> en_sessions := fst (mark_reliable_outbound_sent (en_sessions en') (ro_session_id m)
                       (ro_sequence_number m) (io_marked_at io)) \<rparr>, Inr sent))))"

text \<open>The retry time and the number of attempts come from the configuration.\<close>

definition send_reliable_protocol_message :: "(time_us \<Rightarrow> string) \<Rightarrow> send_io \<Rightarrow> rat \<Rightarrow> int \<Rightarrow> string \<Rightarrow> time_us \<Rightarrow> string \<Rightarrow> string \<Rightarrow>
    payload \<Rightarrow> engine \<Rightarrow> engine \<times> string result" where
  "send_reliable_protocol_message isofmt io retry_seconds max_attempts uuid now session_id inner_message_type inner_payload en =
     (if inner_message_type = [] then (en, Inl (ValueError ''inner_message_type cannot be empty.''))
      else (case get_session_by_session_id (en_sessions en) session_id of
        None \<Rightarrow> (en, Inl (ValueError ''The provided physical session does not exist in memory.''))
      | Some session \<Rightarrow>
          if ns_session_scope session \<noteq> ''physical''
          then (en, Inl (ValueError ''The provided physical session does not exist in memory.''))
          else if ns_session_state session \<noteq> ''active''
          then (en, Inl (ValueError ''The provided physical session is not active.''))
          else (case prepare_reliable_outbound (en_sessions en) (ns_session_id session) inner_message_type inner_payload
                  retry_seconds max_attempts uuid now of
             Inl e \<Rightarrow> (en, Inl e)
           | Inr (sm, m) \<Rightarrow>
               (case resend_reliable_message isofmt io m (en \<lparr> en_sessions := sm \<rparr>) of
                  (en', Inl e) \<Rightarrow> (en', Inl e)
                | (en', Inr _) \<Rightarrow> (en', Inr (ro_reliable_message_id m))))))"

section \<open>A reliable message from engine to engine\<close>

lemma get_touch_reliable [simp]:
  "get_reliable_outbound (en_sessions (touch sid now now' en)) s k = get_reliable_outbound (en_sessions en) s k"
  by (auto simp: touch_def touch_session_def modify_session_def get_reliable_outbound_def Let_def split: option.splits)

lemma mark_sent_get:
  assumes "get_reliable_outbound sm sid k = Some m" and "pending m"
  shows "get_reliable_outbound (fst (mark_reliable_outbound_sent sm sid k t)) sid k =
    Some (m \<lparr> ro_attempts := ro_attempts m + 1, ro_last_sent_at := Some t \<rparr>)"
  using assms by (simp add: mark_reliable_outbound_sent_def Let_def get_modify_reliable_outbound)

lemma parse_reliable_canon:
  assumes "wf_json (JObj (ro_inner_payload m))" and "ro_reliable_message_id m \<noteq> []" and "ro_inner_message_type m \<noteq> []"
    and "1 \<le> ro_sequence_number m" and "canon (JObj (to_reliable_payload isofmt m)) = JObj p"
  obtains ip where "canon (JObj (ro_inner_payload m)) = JObj ip"
    "parse_reliable_payload p t = Inr \<lparr> ri_reliable_message_id = ro_reliable_message_id m,
       ri_sequence_number = PyInt (ro_sequence_number m), ri_inner_message_type = ro_inner_message_type m,
       ri_inner_payload = ip, ri_received_at = t \<rparr>"
proof -
  let ?q = "to_reliable_payload isofmt m" and ?ip = "sort_key fst (map (map_prod id canon) (ro_inner_payload m))"
  have dist: "distinct (dict_keys ?q)" by (simp add: to_reliable_payload_def)
  have p: "p = sort_key fst (map (map_prod id canon) ?q)" using assms(5) by simp
  have get: "jget p k = canon (jget ?q k)" for k unfolding p by (rule jget_canon [OF dist])
  have f: "jget p ''reliable_message_id'' = JStr (ro_reliable_message_id m)"
    "jget p ''sequence_number'' = JInt (ro_sequence_number m)"
    "jget p ''inner_message_type'' = JStr (ro_inner_message_type m)" "jget p ''inner_payload'' = JObj ?ip"
    unfolding get by (simp_all add: to_reliable_payload_def jget_def dict_get_def)
  have "parse_reliable_payload p t = Inr \<lparr> ri_reliable_message_id = ro_reliable_message_id m,
       ri_sequence_number = PyInt (ro_sequence_number m), ri_inner_message_type = ro_inner_message_type m,
       ri_inner_payload = ?ip, ri_received_at = t \<rparr>"
    using assms(2-4) by (simp add: parse_reliable_payload_def jget_nonempty_str_def f)
  then show thesis by (rule that [OF canon_obj])
qed

lemma wf_reliable_payload: "wf_json (JObj (ro_inner_payload m)) \<Longrightarrow> wf_json (JObj (to_reliable_payload isofmt m))"
  by (simp add: to_reliable_payload_def)

text \<open>
  A reliable message that is resent over a physical session with a key and reaches the other side arrives as it was
  submitted: the packet decodes there to a reliable data envelope whose payload parses to the same message id,
  sequence number, inner type and inner payload (with the keys sorted), while the sender counts the attempt.
\<close>

theorem reliable_message_crosses:
  assumes "aead_laws (io_encrypt io) D" and "length key = AES_KEY_SIZE"
    and "\<And>i. length (io_random io i) = AES_GCM_SIV_NONCE_SIZE"
    and "i < 256" and "(bytes_to_hex key, bytes_to_hex (io_random io i)) \<notin> en_nonces a"
    and "\<And>x. io_net io x = Inr ()"
    and s: "get_session_by_session_id (en_sessions a) sid = Some s" "ns_session_id s = sid" "sid \<noteq> []"
      "ns_session_scope s = ''physical''" "build_remote_endpoint_from_session s = Inr endpoint"
    and secrets: "usable_secret (get_session_by_session_id (en_sessions a) sid) = Some (bytes_to_hex key)"
      "usable_secret (get_session_by_session_id (en_sessions b) sid) = Some (bytes_to_hex key)"
    and m: "get_reliable_outbound (en_sessions a) sid k = Some m" "pending m" "ro_session_id m = sid" "ro_sequence_number m = k"
    and wf: "wf_json (JObj (ro_inner_payload m))" "ro_reliable_message_id m \<noteq> []" "ro_inner_message_type m \<noteq> []" "1 \<le> k"
  shows "\<exists>a' sent env p ip. resend_reliable_message isofmt io m a = (a', Inr sent) \<and> om_remote_endpoint sent = endpoint \<and>
    get_reliable_outbound (en_sessions a') sid k =
      Some (m \<lparr> ro_attempts := ro_attempts m + 1, ro_last_sent_at := Some (io_marked_at io) \<rparr>) \<and>
    decode_json_packet D t t' (ctx \<lparr> pc_payload := om_payload sent \<rparr>) b = (touch sid t t' b, Inr env) \<and>
    pe_message_type env = Some ''PHYSICAL_SESSION_RELIABLE_DATA'' \<and> pe_payload env = JObj p \<and>
    canon (JObj (ro_inner_payload m)) = JObj ip \<and>
    parse_reliable_payload p t = Inr \<lparr> ri_reliable_message_id = ro_reliable_message_id m, ri_sequence_number = PyInt k,
      ri_inner_message_type = ro_inner_message_type m, ri_inner_payload = ip, ri_received_at = t \<rparr>"
proof -
  let ?mt = "''PHYSICAL_SESSION_RELIABLE_DATA''" and ?pl = "to_reliable_payload isofmt m"
  obtain a1 header where h: "build_message_header ?mt (Some sid) None (io_uuid io) a = (a1, header)" by fastforce
  let ?m = "\<lparr> om_transport_name = te_transport_name endpoint, om_payload = build_json_packet_bytes header ?pl,
    om_remote_endpoint = endpoint, om_local_endpoint = None, om_metadata = [] \<rparr>"
  have mt: "?mt \<notin> set PLAINTEXT_SESSION_MESSAGE_TYPES" by (simp add: PLAINTEXT_SESSION_MESSAGE_TYPES_def)
  have om: "om_payload ?m = build_json_packet_bytes header ?pl" by simp
  from prepare_then_decode [where rnd = "io_random io" and now = "io_now io" and now' = "io_now' io" and ctx = ctx
      and t = t and t' = t', OF assms(1-5) h s(3) secrets mt wf_reliable_payload [OF wf(1)] om]
  obtain used out env where e: "prepare_outbound_message (io_encrypt io) (io_random io) (io_now io) (io_now' io) ?m a1 =
      (touch sid (io_now io) (io_now' io) (a1 \<lparr> en_nonces := used \<rparr>), Inr (?m \<lparr> om_payload := out \<rparr>))"
    "decode_json_packet D t t' (ctx \<lparr> pc_payload := out \<rparr>) b = (touch sid t t' b, Inr env)"
    "pe_message_type env = Some ?mt" "pe_payload env = canon (JObj ?pl)" by blast
  let ?a2 = "touch sid (io_now io) (io_now' io) (a1 \<lparr> en_nonces := used \<rparr>)"
  let ?a' = "?a2 \<lparr> en_sessions := fst (mark_reliable_outbound_sent (en_sessions ?a2) sid k (io_marked_at io)) \<rparr>"
  have act: "ns_session_state s = ''active''" using secrets(1) s(1) by (simp add: usable_secret_Some)
  have "resend_reliable_message isofmt io m a = (?a', Inr (?m \<lparr> om_payload := out \<rparr>))"
    using e(1) h s m assms(6) act by (simp add: resend_reliable_message_def send_session_packet_def send_packet_def)
  moreover have "en_sessions a1 = en_sessions a" using build_message_header_props(1) [OF h] by simp
  then have "get_reliable_outbound (en_sessions ?a2) sid k = Some m" using m(1) by simp
  then have "get_reliable_outbound (en_sessions ?a') sid k =
      Some (m \<lparr> ro_attempts := ro_attempts m + 1, ro_last_sent_at := Some (io_marked_at io) \<rparr>)"
    using mark_sent_get [OF _ m(2)] by simp
  moreover obtain p where p: "canon (JObj ?pl) = JObj p" by simp
  moreover from wf(4) m(4) have "1 \<le> ro_sequence_number m" by simp
  from parse_reliable_canon [OF wf(1-3) this p]
  obtain ip where "canon (JObj (ro_inner_payload m)) = JObj ip"
    "parse_reliable_payload p t = Inr \<lparr> ri_reliable_message_id = ro_reliable_message_id m,
       ri_sequence_number = PyInt (ro_sequence_number m), ri_inner_message_type = ro_inner_message_type m,
       ri_inner_payload = ip, ri_received_at = t \<rparr>" by blast
  ultimately show ?thesis
    using e(2-4) m(4) by (intro exI [of _ ?a'] exI [of _ "?m \<lparr> om_payload := out \<rparr>"] exI [of _ env] exI [of _ p] exI [of _ ip]) simp
qed

text \<open>An instance: the engine with a message that waits in its table.\<close>

definition demo_io :: send_io where
  "demo_io = \<lparr> io_encrypt = pad_encrypt, io_random = (\<lambda>_. replicate 12 CHR ''n''), io_uuid = ''u1'', io_now = 5, io_now' = 5,
     io_marked_at = 6, io_net = (\<lambda>_. Inr ()) \<rparr>"

definition waiting_engine :: engine where
  "waiting_engine = (case prepare_reliable_outbound (en_sessions demo_engine) ''s1'' ''chat'' [] 3 5 ''m1'' 2 of
     Inl e \<Rightarrow> demo_engine | Inr (sm, m) \<Rightarrow> demo_engine \<lparr> en_sessions := sm \<rparr>)"

definition waiting_message :: reliable_outbound_message where
  "waiting_message = (case get_reliable_outbound (en_sessions waiting_engine) ''s1'' 1 of Some m \<Rightarrow> m)"

lemma prepare_keeps_sessions:
  "prepare_reliable_outbound sm sid ty p retry n uuid t = Inr (sm', m) \<Longrightarrow>
   get_session_by_session_id sm' x = get_session_by_session_id sm x"
  by (auto simp: prepare_reliable_outbound_def get_reliable_state_def set_reliable_state_def build_reliable_outbound_def Let_def
      get_session_by_session_id_def split: option.splits)

lemma waiting_sessions: "get_session_by_session_id (en_sessions waiting_engine) x = get_session_by_session_id (en_sessions demo_engine) x"
  by (auto simp: waiting_engine_def prepare_keeps_sessions split: sum.split)

lemma waiting_stored: "get_reliable_outbound (en_sessions waiting_engine) ''s1'' 1 = Some waiting_message"
proof -
  have "\<not> Option.is_none (get_reliable_outbound (en_sessions waiting_engine) ''s1'' 1)" by code_simp
  then show ?thesis by (auto simp: waiting_message_def Option.is_none_def)
qed

lemma demo_session_get: "get_session_by_session_id (en_sessions demo_engine) ''s1'' = Some demo_session"
  using demo_secret by (auto simp: demo_session_def usable_secret_def split: option.splits)

lemma waiting_message_eq: "waiting_message =
  \<lparr> ro_session_id = ''s1'', ro_session_scope = ''physical'', ro_reliable_message_id = ''m1'', ro_sequence_number = 1,
    ro_inner_message_type = ''chat'', ro_inner_payload = [], ro_created_at = 2, ro_retry_after_seconds = 3, ro_max_attempts = 5,
    ro_attempts = 0, ro_last_sent_at = None, ro_acked_at = None, ro_failed_at = None, ro_failure_reason = None \<rparr>"
  by code_simp

lemma waiting_facts:
  "pending waiting_message" "ro_session_id waiting_message = ''s1''" "ro_sequence_number waiting_message = 1"
  "ro_inner_payload waiting_message = []" "ro_reliable_message_id waiting_message = ''m1''"
  "ro_inner_message_type waiting_message = ''chat''"
  by (simp_all add: waiting_message_eq pending_def)

lemma demo_session_scope: "ns_session_scope demo_session = ''physical''"
  by code_simp

lemma waiting_nonces: "en_nonces waiting_engine = {}"
  by (auto simp: waiting_engine_def demo_engine_def split: sum.split)

lemma demo_remote_endpoint: "build_remote_endpoint_from_session demo_session = Inr demo_endpoint"
  using demo_session_facts(2) by (simp add: build_session_remote_endpoint_def)

lemma demo_io_facts: "aead_laws (io_encrypt demo_io) pad_decrypt" "length (io_random demo_io i) = AES_GCM_SIV_NONCE_SIZE"
  "io_net demo_io x = Inr ()" "io_marked_at demo_io = 6"
  using pad_laws by (simp_all add: demo_io_def AES_GCM_SIV_NONCE_SIZE_def)

theorem reliable_message_crosses_witness:
  "\<exists>a' sent env p ip. resend_reliable_message (\<lambda>_. ''t'') demo_io waiting_message waiting_engine = (a', Inr sent) \<and>
    om_remote_endpoint sent = demo_endpoint \<and>
    get_reliable_outbound (en_sessions a') ''s1'' 1 =
      Some (waiting_message \<lparr> ro_attempts := ro_attempts waiting_message + 1, ro_last_sent_at := Some (io_marked_at demo_io) \<rparr>) \<and>
    decode_json_packet pad_decrypt 7 7 (demo_packet_context \<lparr> pc_payload := om_payload sent \<rparr>) demo_engine = (touch ''s1'' 7 7 demo_engine, Inr env) \<and>
    pe_message_type env = Some ''PHYSICAL_SESSION_RELIABLE_DATA'' \<and> pe_payload env = JObj p \<and>
    canon (JObj (ro_inner_payload waiting_message)) = JObj ip \<and>
    parse_reliable_payload p 7 = Inr \<lparr> ri_reliable_message_id = ro_reliable_message_id waiting_message, ri_sequence_number = PyInt 1,
      ri_inner_message_type = ro_inner_message_type waiting_message, ri_inner_payload = ip, ri_received_at = 7 \<rparr>"
  by (rule reliable_message_crosses [OF demo_io_facts(1) demo_session_facts(4) demo_io_facts(2) _ _ demo_io_facts(3)
        demo_session_get [folded waiting_sessions] demo_session_facts(1) _ demo_session_scope demo_remote_endpoint
        demo_secret [folded waiting_sessions] demo_secret waiting_stored waiting_facts(1-3), of 0])
    (simp_all add: waiting_facts waiting_nonces)

end
