(* ===== verification/Route_Service.thy ===== *)
theory Route_Service
  imports Dht_Records
begin

text \<open>
  \<^verbatim>\<open>app/route/service.py\<close>: the table of route resolutions of a node, one row per role the node plays in a
  route. The table is a list of rows in order of insertion; queries filter and order it, and an
  insertion or update that would break one of the three \<^verbatim>\<open>unique\<close> columns of the schema
  (\<^verbatim>\<open>app/storage/models/operational.py\<close>) raises \<^const>\<open>IntegrityError\<close> and leaves the table as it was
  (\<^verbatim>\<open>session_scope\<close> rolls back). SQLite numbers the rows from one. The clock and \<^verbatim>\<open>isoformat\<close> are
  arguments; a float of the metadata is a JSON number.
\<close>

section \<open>The table\<close>

record route_resolution =
  rr_id :: nat
  rr_local_role :: string
  rr_route_strategy :: "string option"
  rr_status :: string
  rr_route_nonce :: "int option"
  rr_initial_path_id :: "string option"
  rr_route_path_id :: "string option"
  rr_received_path_id :: "string option"
  rr_generated_path_id :: "string option"
  rr_final_path_id :: "string option"
  rr_from_physical_node_id :: "string option"
  rr_to_physical_node_id :: "string option"
  rr_previous_physical_node_id :: "string option"
  rr_first_hop_physical_node_id :: "string option"
  rr_local_virtual_node_id :: "string option"
  rr_final_physical_node_public_key :: "string option"
  rr_virtual_node_signature :: "string option"
  rr_physical_node_signature :: "string option"
  rr_public_route_acceptance_signature :: "string option"
  rr_kyber_private_key_pem :: "string option"
  rr_kyber_public_key_pem :: "string option"
  rr_shared_secret_hex :: "string option"
  rr_is_valid :: bool
  rr_metadata_json :: "string option"

type_synonym route_table = "route_resolution list"

text \<open>A row with every optional column empty.\<close>

definition blank_row :: "string \<Rightarrow> string \<Rightarrow> route_resolution" where
  "blank_row role status = \<lparr> rr_id = 0, rr_local_role = role, rr_route_strategy = None, rr_status = status,
     rr_route_nonce = None, rr_initial_path_id = None, rr_route_path_id = None, rr_received_path_id = None,
     rr_generated_path_id = None, rr_final_path_id = None, rr_from_physical_node_id = None,
     rr_to_physical_node_id = None, rr_previous_physical_node_id = None, rr_first_hop_physical_node_id = None,
     rr_local_virtual_node_id = None, rr_final_physical_node_public_key = None, rr_virtual_node_signature = None,
     rr_physical_node_signature = None, rr_public_route_acceptance_signature = None,
     rr_kyber_private_key_pem = None, rr_kyber_public_key_pem = None, rr_shared_secret_hex = None,
     rr_is_valid = True, rr_metadata_json = None \<rparr>"

definition same_key :: "string option \<Rightarrow> string option \<Rightarrow> bool" where
  "same_key a b \<longleftrightarrow> a \<noteq> None \<and> a = b"

definition unique_conflict :: "route_resolution \<Rightarrow> route_resolution \<Rightarrow> bool" where
  "unique_conflict r s \<longleftrightarrow> rr_id r \<noteq> rr_id s \<and>
     (same_key (rr_initial_path_id r) (rr_initial_path_id s) \<or> same_key (rr_route_path_id r) (rr_route_path_id s) \<or>
      same_key (rr_final_path_id r) (rr_final_path_id s))"

definition next_row_id :: "route_table \<Rightarrow> nat" where
  "next_row_id t = Suc (fold (\<lambda>r m. max (rr_id r) m) t 0)"

definition insert_row :: "route_resolution \<Rightarrow> route_table \<Rightarrow> route_table \<times> route_resolution result" where
  "insert_row r t =
     (let r' = r \<lparr> rr_id := next_row_id t \<rparr> in
      if list_ex (unique_conflict r') t then (t, Inl IntegrityError) else (t @ [r'], Inr r'))"

definition update_row :: "route_resolution \<Rightarrow> route_table \<Rightarrow> route_table \<times> route_resolution option result" where
  "update_row r t =
     (if list_ex (unique_conflict r) t then (t, Inl IntegrityError)
      else (map (\<lambda>s. if rr_id s = rr_id r then r else s) t, Inr (Some r)))"

text \<open>\<^verbatim>\<open>.filter(P).order_by(id.desc()).first()\<close>, and in ascending order.\<close>

definition first_desc :: "(route_resolution \<Rightarrow> bool) \<Rightarrow> route_table \<Rightarrow> route_resolution option" where
  "first_desc P t = (case py_sorted (\<lambda>r. - int (rr_id r)) (filter P t) of [] \<Rightarrow> None | r # _ \<Rightarrow> Some r)"

definition all_asc :: "(route_resolution \<Rightarrow> bool) \<Rightarrow> route_table \<Rightarrow> route_resolution list" where
  "all_asc P t = py_sorted rr_id (filter P t)"

text \<open>The queries that are followed by a change of the row they find.\<close>

definition update_first :: "(route_resolution \<Rightarrow> bool) \<Rightarrow> (route_resolution \<Rightarrow> route_resolution) \<Rightarrow>
    route_table \<Rightarrow> route_table \<times> route_resolution option result" where
  "update_first P f t = (case first_desc P t of None \<Rightarrow> (t, Inr None) | Some r \<Rightarrow> update_row (f r) t)"

section \<open>Metadata\<close>

definition load_metadata :: "string option \<Rightarrow> payload" where
  "load_metadata metadata_json = (case metadata_json of None \<Rightarrow> [] | Some s \<Rightarrow>
     if s = [] then [] else (case json_loads s of Some (JObj p) \<Rightarrow> p | _ \<Rightarrow> []))"

definition dump_metadata :: "payload \<Rightarrow> string option" where
  "dump_metadata metadata = (if metadata = [] then None else Some (json_dumps (JObj metadata)))"

text \<open>\<^verbatim>\<open>float(value)\<close> of a positive number; a boolean counts as a number.\<close>

fun positive_float :: "json \<Rightarrow> rat option" where
  "positive_float (JInt i) = (if 0 < i then Some (of_int i) else None)"
| "positive_float (JBool b) = (if b then Some 1 else None)"
| "positive_float (JFloat m k) = (if 0 < m then Some (of_int m / 10 ^ k) else None)"
| "positive_float _ = None"

fun first_some :: "'a option list \<Rightarrow> 'a option" where
  "first_some [] = None"
| "first_some (Some x # xs) = Some x"
| "first_some (None # xs) = first_some xs"

definition read_route_rtt_ms :: "route_resolution option \<Rightarrow> rat option" where
  "read_route_rtt_ms resolution = (case resolution of None \<Rightarrow> None
     | Some r \<Rightarrow>
         let metadata = load_metadata (rr_metadata_json r) in
         first_some (map (\<lambda>key. positive_float (jget metadata key))
           [''entry_point_rtt'', ''observed_round_trip_ms'', ''expected_round_trip_ttl_ms'']))"

section \<open>Hops\<close>

definition create_hop_resolution :: "string \<Rightarrow> string \<Rightarrow> string \<Rightarrow> string \<Rightarrow> string \<Rightarrow> string option \<Rightarrow>
    route_table \<Rightarrow> route_table \<times> route_resolution result" where
  "create_hop_resolution route_strategy from_physical_node_id to_physical_node_id received_path_id generated_path_id
       from_physical_session_id t =
     insert_row ((blank_row ''intermediary'' ''forwarding'') \<lparr> rr_route_strategy := Some route_strategy,
       rr_from_physical_node_id := Some from_physical_node_id, rr_to_physical_node_id := Some to_physical_node_id,
       rr_received_path_id := Some received_path_id, rr_generated_path_id := Some generated_path_id,
       rr_metadata_json := dump_metadata [(''from_physical_session_id'', opt_str from_physical_session_id)] \<rparr>) t"

definition get_resolution_by_received_path_id :: "string \<Rightarrow> route_table \<Rightarrow> route_resolution option" where
  "get_resolution_by_received_path_id received_path_id t =
     first_desc (\<lambda>r. rr_received_path_id r = Some received_path_id \<and> rr_is_valid r) t"

definition get_resolution_by_generated_path_id :: "string \<Rightarrow> route_table \<Rightarrow> route_resolution option" where
  "get_resolution_by_generated_path_id generated_path_id t =
     first_desc (\<lambda>r. rr_generated_path_id r = Some generated_path_id \<and> rr_is_valid r) t"

text \<open>What the three invalidations do to the row.\<close>

definition invalidated :: "(time_us \<Rightarrow> string) \<Rightarrow> time_us \<Rightarrow> string \<Rightarrow> route_resolution \<Rightarrow> route_resolution" where
  "invalidated isofmt now reason r =
     (let metadata = load_metadata (rr_metadata_json r);
          metadata1 = dict_set ''invalidated_reason'' (JStr reason) metadata;
          metadata2 = dict_set ''invalidated_at'' (JStr (isofmt now)) metadata1
      in r \<lparr> rr_status := ''invalid'', rr_is_valid := False, rr_metadata_json := dump_metadata metadata2 \<rparr>)"

definition invalidate_hop_resolution_by_path_id :: "(time_us \<Rightarrow> string) \<Rightarrow> time_us \<Rightarrow> string \<Rightarrow> string \<Rightarrow>
    route_table \<Rightarrow> route_table \<times> route_resolution option result" where
  "invalidate_hop_resolution_by_path_id isofmt now path_id reason t =
     update_first (\<lambda>r. rr_local_role r = ''intermediary'' \<and> rr_is_valid r \<and>
         (rr_received_path_id r = Some path_id \<or> rr_generated_path_id r = Some path_id))
       (invalidated isofmt now reason) t"

section \<open>The final endpoint of a route\<close>

definition create_endpoint_resolution :: "string \<Rightarrow> string \<Rightarrow> int \<Rightarrow> string \<Rightarrow> string \<Rightarrow> string \<Rightarrow>
    route_table \<Rightarrow> route_table \<times> route_resolution result" where
  "create_endpoint_resolution previous_physical_node_id route_strategy route_nonce route_path_id
       kyber_private_key_pem kyber_public_key_pem t =
     insert_row ((blank_row ''final_endpoint'' ''pending_validation'') \<lparr> rr_route_strategy := Some route_strategy,
       rr_route_nonce := Some route_nonce, rr_route_path_id := Some route_path_id,
       rr_previous_physical_node_id := Some previous_physical_node_id,
       rr_kyber_private_key_pem := Some kyber_private_key_pem, rr_kyber_public_key_pem := Some kyber_public_key_pem \<rparr>) t"

definition endpoint_by_path :: "string \<Rightarrow> route_resolution \<Rightarrow> bool" where
  "endpoint_by_path route_path_id r \<longleftrightarrow>
     rr_local_role r = ''final_endpoint'' \<and> rr_route_path_id r = Some route_path_id \<and> rr_is_valid r"

definition get_endpoint_resolution_by_path_id :: "string \<Rightarrow> route_table \<Rightarrow> route_resolution option" where
  "get_endpoint_resolution_by_path_id route_path_id t = first_desc (endpoint_by_path route_path_id) t"

definition get_endpoint_resolution_by_final_path_id :: "string \<Rightarrow> route_table \<Rightarrow> route_resolution option" where
  "get_endpoint_resolution_by_final_path_id final_path_id t =
     first_desc (\<lambda>r. rr_local_role r = ''final_endpoint'' \<and> rr_final_path_id r = Some final_path_id \<and> rr_is_valid r) t"

definition invalidate_endpoint_resolution :: "(time_us \<Rightarrow> string) \<Rightarrow> time_us \<Rightarrow> string \<Rightarrow> string \<Rightarrow>
    route_table \<Rightarrow> route_table \<times> route_resolution option result" where
  "invalidate_endpoint_resolution isofmt now route_path_id reason t =
     update_first (endpoint_by_path route_path_id) (invalidated isofmt now reason) t"

text \<open>The arguments of \<open>update_endpoint_resolution_validation_context\<close> besides the path.\<close>

record endpoint_context =
  ec_shared_secret_hex :: string
  ec_final_path_id :: string
  ec_remote_virtual_node_public_key :: string
  ec_virtual_node_signature :: string
  ec_physical_node_signature :: string
  ec_public_route_acceptance_signature :: string
  ec_remote_virtual_node_id :: string
  ec_expected_round_trip_ttl_ms :: int
  ec_ping_id :: string
  ec_ping_sent_at_monotonic_ms :: json

definition with_context :: "endpoint_context \<Rightarrow> route_resolution \<Rightarrow> route_resolution" where
  "with_context c r =
     (let metadata = load_metadata (rr_metadata_json r);
          metadata1 = dict_set ''remote_virtual_node_id'' (JStr (ec_remote_virtual_node_id c)) metadata;
          metadata2 = dict_set ''remote_virtual_node_public_key'' (JStr (ec_remote_virtual_node_public_key c)) metadata1;
          metadata3 = dict_set ''expected_round_trip_ttl_ms'' (JInt (ec_expected_round_trip_ttl_ms c)) metadata2;
          metadata4 = dict_set ''last_ping_id'' (JStr (ec_ping_id c)) metadata3;
          metadata5 = dict_set ''last_ping_sent_at_monotonic_ms'' (ec_ping_sent_at_monotonic_ms c) metadata4
      in r \<lparr> rr_shared_secret_hex := Some (ec_shared_secret_hex c), rr_final_path_id := Some (ec_final_path_id c),
           rr_virtual_node_signature := Some (ec_virtual_node_signature c),
           rr_physical_node_signature := Some (ec_physical_node_signature c),
           rr_public_route_acceptance_signature := Some (ec_public_route_acceptance_signature c),
           rr_status := ''pending_ping_validation'', rr_metadata_json := dump_metadata metadata5 \<rparr>)"

definition update_endpoint_resolution_validation_context :: "string \<Rightarrow> endpoint_context \<Rightarrow>
    route_table \<Rightarrow> route_table \<times> route_resolution option result" where
  "update_endpoint_resolution_validation_context route_path_id c t =
     update_first (endpoint_by_path route_path_id) (with_context c) t"

definition mark_endpoint_resolution_active :: "string \<Rightarrow> route_table \<Rightarrow> route_table \<times> route_resolution option result" where
  "mark_endpoint_resolution_active route_path_id t =
     update_first (endpoint_by_path route_path_id) (rr_status_update (\<lambda>_. ''active'')) t"

section \<open>The initiator of a route\<close>

definition create_initiator_resolution :: "string \<Rightarrow> string \<Rightarrow> string \<Rightarrow> int option \<Rightarrow> string option \<Rightarrow> int option \<Rightarrow>
    string option \<Rightarrow> string option \<Rightarrow> string option \<Rightarrow> route_table \<Rightarrow> route_table \<times> route_resolution result" where
  "create_initiator_resolution first_hop_physical_node_id initial_path_id final_physical_node_public_key
       expected_round_trip_ttl_ms route_strategy route_nonce local_virtual_node_id final_path_id virtual_node_signature t =
     insert_row ((blank_row ''initiator'' ''pending_kem_offer'') \<lparr> rr_route_strategy := route_strategy,
       rr_route_nonce := route_nonce, rr_initial_path_id := Some initial_path_id,
       rr_first_hop_physical_node_id := Some first_hop_physical_node_id, rr_local_virtual_node_id := local_virtual_node_id,
       rr_final_physical_node_public_key := Some final_physical_node_public_key, rr_final_path_id := final_path_id,
       rr_virtual_node_signature := virtual_node_signature,
       rr_metadata_json := dump_metadata [(''expected_round_trip_ttl_ms'',
         (case expected_round_trip_ttl_ms of None \<Rightarrow> JNull | Some i \<Rightarrow> JInt i))] \<rparr>) t"

definition initiator_by_path :: "string \<Rightarrow> route_resolution \<Rightarrow> bool" where
  "initiator_by_path initial_path_id r \<longleftrightarrow>
     rr_local_role r = ''initiator'' \<and> rr_initial_path_id r = Some initial_path_id \<and> rr_is_valid r"

definition get_initiator_resolution_by_final_path_id :: "string \<Rightarrow> route_table \<Rightarrow> route_resolution option" where
  "get_initiator_resolution_by_final_path_id final_path_id t =
     first_desc (\<lambda>r. rr_local_role r = ''initiator'' \<and> rr_final_path_id r = Some final_path_id \<and> rr_is_valid r) t"

definition get_initiator_resolution_by_initial_path_id :: "string \<Rightarrow> route_table \<Rightarrow> route_resolution option" where
  "get_initiator_resolution_by_initial_path_id initial_path_id t = first_desc (initiator_by_path initial_path_id) t"

definition resolve_route_rtt_ms :: "string \<Rightarrow> route_table \<Rightarrow> rat option" where
  "resolve_route_rtt_ms route_id t =
     first_some (map read_route_rtt_ms
       [get_initiator_resolution_by_final_path_id route_id t, get_endpoint_resolution_by_final_path_id route_id t,
        get_endpoint_resolution_by_path_id route_id t])"

definition mark_initiator_resolution_ping_started :: "string \<Rightarrow> string \<Rightarrow> json \<Rightarrow>
    route_table \<Rightarrow> route_table \<times> route_resolution option result" where
  "mark_initiator_resolution_ping_started initial_path_id ping_id started_at_monotonic_ms t =
     update_first (initiator_by_path initial_path_id)
       (\<lambda>r. let metadata = load_metadata (rr_metadata_json r);
               metadata1 = dict_set ''last_ping_id'' (JStr ping_id) metadata;
               metadata2 = dict_set ''last_ping_started_at_monotonic_ms'' started_at_monotonic_ms metadata1
           in r \<lparr> rr_metadata_json := dump_metadata metadata2 \<rparr>) t"

definition pending_statuses :: "string list" where
  "pending_statuses = [''pending_kem_offer'', ''pending_final_validation'']"

definition pending_initiator :: "string \<Rightarrow> route_resolution \<Rightarrow> bool" where
  "pending_initiator local_virtual_node_id r \<longleftrightarrow> rr_local_role r = ''initiator'' \<and>
     rr_local_virtual_node_id r = Some local_virtual_node_id \<and> rr_status r \<in> set pending_statuses \<and> rr_is_valid r"

definition get_pending_initiator_resolution_for_local_virtual_node :: "string \<Rightarrow> route_table \<Rightarrow> route_resolution option" where
  "get_pending_initiator_resolution_for_local_virtual_node local_virtual_node_id t =
     first_desc (pending_initiator local_virtual_node_id) t"

definition list_pending_initiator_resolutions_for_local_virtual_node :: "string \<Rightarrow> route_table \<Rightarrow> route_resolution list" where
  "list_pending_initiator_resolutions_for_local_virtual_node local_virtual_node_id t =
     all_asc (pending_initiator local_virtual_node_id) t"

definition get_any_pending_initiator_resolution :: "route_table \<Rightarrow> route_resolution option" where
  "get_any_pending_initiator_resolution t =
     (case all_asc (\<lambda>r. rr_local_role r = ''initiator'' \<and> rr_status r \<in> set pending_statuses \<and> rr_is_valid r) t of
        [] \<Rightarrow> None | r # _ \<Rightarrow> Some r)"

definition invalidate_initiator_resolution :: "(time_us \<Rightarrow> string) \<Rightarrow> time_us \<Rightarrow> string \<Rightarrow> string \<Rightarrow>
    route_table \<Rightarrow> route_table \<times> route_resolution option result" where
  "invalidate_initiator_resolution isofmt now initial_path_id reason t =
     update_first (initiator_by_path initial_path_id) (invalidated isofmt now reason) t"

definition get_active_initiator_resolution_for_local_virtual_node :: "string \<Rightarrow> route_table \<Rightarrow> route_resolution option" where
  "get_active_initiator_resolution_for_local_virtual_node local_virtual_node_id t =
     first_desc (\<lambda>r. rr_local_role r = ''initiator'' \<and> rr_local_virtual_node_id r = Some local_virtual_node_id \<and>
       rr_status r = ''active'' \<and> rr_final_path_id r \<noteq> None \<and> rr_is_valid r) t"

definition update_initiator_resolution_validation_payload :: "string \<Rightarrow> string \<Rightarrow> string \<Rightarrow> string \<Rightarrow> string \<Rightarrow>
    route_table \<Rightarrow> route_table \<times> route_resolution option result" where
  "update_initiator_resolution_validation_payload initial_path_id local_virtual_node_id final_path_id
       virtual_node_signature shared_secret_hex t =
     update_first (initiator_by_path initial_path_id)
       (\<lambda>r. r \<lparr> rr_local_virtual_node_id := Some local_virtual_node_id, rr_final_path_id := Some final_path_id,
          rr_virtual_node_signature := Some virtual_node_signature, rr_shared_secret_hex := Some shared_secret_hex,
          rr_status := ''pending_final_validation'' \<rparr>) t"

definition mark_initiator_resolution_active :: "string \<Rightarrow> string \<Rightarrow> string \<Rightarrow> string \<Rightarrow> string \<Rightarrow>
    route_table \<Rightarrow> route_table \<times> route_resolution option result" where
  "mark_initiator_resolution_active initial_path_id final_path_id virtual_node_signature physical_node_signature
       public_route_acceptance_signature t =
     update_first (initiator_by_path initial_path_id)
       (\<lambda>r. r \<lparr> rr_final_path_id := Some final_path_id, rr_virtual_node_signature := Some virtual_node_signature,
          rr_physical_node_signature := Some physical_node_signature,
          rr_public_route_acceptance_signature := Some public_route_acceptance_signature, rr_status := ''active'' \<rparr>) t"

section \<open>Publishing a validated route\<close>

record drt_publish_request =
  pr_namespace :: string
  pr_logical_key :: string
  pr_record_json :: string
  pr_expires_at :: string

fun nonempty_str :: "string option \<Rightarrow> bool" where
  "nonempty_str None = False"
| "nonempty_str (Some s) = (s \<noteq> [])"

definition build_drt_publish_request_from_endpoint_resolution ::
  "(string \<Rightarrow> string) \<Rightarrow> (time_us \<Rightarrow> string) \<Rightarrow> time_us \<Rightarrow> string \<Rightarrow> string \<Rightarrow> string \<Rightarrow> int \<Rightarrow> string \<Rightarrow>
    route_table \<Rightarrow> drt_publish_request option" where
  "build_drt_publish_request_from_endpoint_resolution sha512_hex isofmt now route_path_id physical_node_public_key
       rtt_physical_node_signature observed_round_trip_ms expires_at t =
     (case get_endpoint_resolution_by_path_id route_path_id t of None \<Rightarrow> None
      | Some resolution \<Rightarrow>
          let metadata = load_metadata (rr_metadata_json resolution) in
          (case jget_nonempty_str metadata ''remote_virtual_node_public_key'' of None \<Rightarrow> None
           | Some pk_virtual_node \<Rightarrow>
               let virtual_node_id = (case jget_nonempty_str metadata ''remote_virtual_node_id'' of
                     None \<Rightarrow> sha512_hex (utf8_encode pk_virtual_node) | Some v \<Rightarrow> v) in
               if \<not> nonempty_str (rr_virtual_node_signature resolution) then None
               else if \<not> nonempty_str (rr_physical_node_signature resolution) then None
               else if \<not> nonempty_str (rr_final_path_id resolution) then None
               else
                 let virtual_node_signature = the (rr_virtual_node_signature resolution);
                     physical_node_signature = the (rr_physical_node_signature resolution);
                     record_payload = \<lparr> drt_pk_virtual_node = pk_virtual_node,
                       drt_route_entries = [\<lparr> re_pk_physical_node = physical_node_public_key,
                         re_virtual_node_signature = virtual_node_signature,
                         re_final_path_id = the (rr_final_path_id resolution),
                         re_entry_point_virtual_node_signature = virtual_node_signature,
                         re_entry_point_physical_node_signature = physical_node_signature,
                         re_physical_node_signature = physical_node_signature,
                         re_expires_at = expires_at, re_rtt = PyInt observed_round_trip_ms,
                         re_rtt_physical_node_signature = rtt_physical_node_signature, re_pow_nonce = None \<rparr>],
                       drt_last_update = isofmt now \<rparr> in
                 Some \<lparr> pr_namespace = ''drt'', pr_logical_key = virtual_node_id,
                   pr_record_json = serialize_record (Drt record_payload), pr_expires_at = expires_at \<rparr>))"

section \<open>Operations as steps\<close>

text \<open>Every operation that can change the table, with its arguments.\<close>

datatype route_op =
    CreateHop string string string string string "string option"
  | InvalidateHop time_us string string
  | CreateEndpoint string string int string string string
  | InvalidateEndpoint time_us string string
  | EndpointContext string endpoint_context
  | EndpointActive string
  | CreateInitiator string string string "int option" "string option" "int option" "string option" "string option" "string option"
  | PingStarted string string json
  | InvalidateInitiator time_us string string
  | ValidationPayload string string string string string
  | InitiatorActive string string string string string

fun route_exec :: "(time_us \<Rightarrow> string) \<Rightarrow> route_op \<Rightarrow> route_table \<Rightarrow> route_table" where
  "route_exec isofmt (CreateHop a b c d e f) t = fst (create_hop_resolution a b c d e f t)"
| "route_exec isofmt (InvalidateHop n a b) t = fst (invalidate_hop_resolution_by_path_id isofmt n a b t)"
| "route_exec isofmt (CreateEndpoint a b c d e f) t = fst (create_endpoint_resolution a b c d e f t)"
| "route_exec isofmt (InvalidateEndpoint n a b) t = fst (invalidate_endpoint_resolution isofmt n a b t)"
| "route_exec isofmt (EndpointContext a c) t = fst (update_endpoint_resolution_validation_context a c t)"
| "route_exec isofmt (EndpointActive a) t = fst (mark_endpoint_resolution_active a t)"
| "route_exec isofmt (CreateInitiator a b c d e f g h i) t = fst (create_initiator_resolution a b c d e f g h i t)"
| "route_exec isofmt (PingStarted a b c) t = fst (mark_initiator_resolution_ping_started a b c t)"
| "route_exec isofmt (InvalidateInitiator n a b) t = fst (invalidate_initiator_resolution isofmt n a b t)"
| "route_exec isofmt (ValidationPayload a b c d e) t = fst (update_initiator_resolution_validation_payload a b c d e t)"
| "route_exec isofmt (InitiatorActive a b c d e) t = fst (mark_initiator_resolution_active a b c d e t)"

definition route_run :: "(time_us \<Rightarrow> string) \<Rightarrow> route_op list \<Rightarrow> route_table \<Rightarrow> route_table" where
  "route_run isofmt ops t = fold (route_exec isofmt) ops t"

section \<open>The life of a row\<close>

definition hop_ok :: "route_resolution \<Rightarrow> bool" where
  "hop_ok r \<longleftrightarrow> rr_status r \<in> {''forwarding'', ''invalid''} \<and> rr_received_path_id r \<noteq> None \<and> rr_generated_path_id r \<noteq> None \<and>
     rr_initial_path_id r = None \<and> rr_route_path_id r = None \<and> rr_final_path_id r = None"

definition endpoint_ok :: "route_resolution \<Rightarrow> bool" where
  "endpoint_ok r \<longleftrightarrow> rr_status r \<in> {''pending_validation'', ''pending_ping_validation'', ''active'', ''invalid''} \<and>
     rr_route_path_id r \<noteq> None \<and> rr_kyber_private_key_pem r \<noteq> None \<and> rr_initial_path_id r = None \<and>
     rr_received_path_id r = None \<and> rr_generated_path_id r = None \<and>
     (rr_status r = ''pending_ping_validation'' \<longrightarrow> rr_final_path_id r \<noteq> None \<and> rr_shared_secret_hex r \<noteq> None)"

definition initiator_ok :: "route_resolution \<Rightarrow> bool" where
  "initiator_ok r \<longleftrightarrow> rr_status r \<in> {''pending_kem_offer'', ''pending_final_validation'', ''active'', ''invalid''} \<and>
     rr_initial_path_id r \<noteq> None \<and> rr_first_hop_physical_node_id r \<noteq> None \<and> rr_route_path_id r = None \<and>
     rr_received_path_id r = None \<and> rr_generated_path_id r = None \<and>
     (rr_status r = ''pending_final_validation'' \<longrightarrow> rr_final_path_id r \<noteq> None \<and> rr_local_virtual_node_id r \<noteq> None) \<and>
     (rr_status r = ''active'' \<longrightarrow> rr_final_path_id r \<noteq> None \<and> rr_virtual_node_signature r \<noteq> None \<and> rr_physical_node_signature r \<noteq> None)"

definition row_ok :: "route_resolution \<Rightarrow> bool" where
  "row_ok r \<longleftrightarrow> (rr_is_valid r \<longleftrightarrow> rr_status r \<noteq> ''invalid'') \<and>
     (rr_local_role r = ''intermediary'' \<and> hop_ok r \<or> rr_local_role r = ''final_endpoint'' \<and> endpoint_ok r \<or>
      rr_local_role r = ''initiator'' \<and> initiator_ok r)"

lemmas row_defs = row_ok_def hop_ok_def endpoint_ok_def initiator_ok_def

text \<open>What an update never touches.\<close>

definition same_row :: "route_resolution \<Rightarrow> route_resolution \<Rightarrow> bool" where
  "same_row r s \<longleftrightarrow> rr_id s = rr_id r \<and> rr_local_role s = rr_local_role r \<and> rr_initial_path_id s = rr_initial_path_id r \<and>
     rr_route_path_id s = rr_route_path_id r \<and> rr_received_path_id s = rr_received_path_id r \<and>
     rr_generated_path_id s = rr_generated_path_id r \<and> (\<not> rr_is_valid r \<longrightarrow> s = r)"

definition table_ok :: "route_table \<Rightarrow> bool" where
  "table_ok t \<longleftrightarrow> distinct (map rr_id t) \<and> (\<forall>r \<in> set t. row_ok r) \<and> (\<forall>r \<in> set t. \<forall>s \<in> set t. \<not> unique_conflict r s)"

text \<open>A change of a valid row that keeps the row and its form.\<close>

definition good_update :: "(route_resolution \<Rightarrow> bool) \<Rightarrow> (route_resolution \<Rightarrow> route_resolution) \<Rightarrow> bool" where
  "good_update P f \<longleftrightarrow> (\<forall>r. P r \<longrightarrow> rr_is_valid r \<and> (row_ok r \<longrightarrow> row_ok (f r) \<and> same_row r (f r)))"

lemma invalidated_good: "row_ok r \<Longrightarrow> rr_is_valid r \<Longrightarrow> row_ok (invalidated isofmt now reason r) \<and> same_row r (invalidated isofmt now reason r)"
  by (auto simp: row_defs invalidated_def same_row_def Let_def)

text \<open>Every operation inserts a well-formed fresh row or makes such a change.\<close>

definition op_shape :: "(route_table \<Rightarrow> route_table) \<Rightarrow> bool" where
  "op_shape g \<longleftrightarrow> (\<exists>r. (\<forall>n. row_ok (r \<lparr> rr_id := n \<rparr>)) \<and> g = (\<lambda>t. fst (insert_row r t))) \<or>
     (\<exists>P f. good_update P f \<and> g = (\<lambda>t. fst (update_first P f t)))"

lemma shape_insert: "(\<And>n. row_ok (r \<lparr> rr_id := n \<rparr>)) \<Longrightarrow> op_shape (\<lambda>t. fst (insert_row r t))"
  by (auto simp: op_shape_def)

lemma shape_update: "good_update P f \<Longrightarrow> op_shape (\<lambda>t. fst (update_first P f t))"
  by (auto simp: op_shape_def)

lemma good_invalidated: "(\<And>r. P r \<Longrightarrow> rr_is_valid r) \<Longrightarrow> good_update P (invalidated isofmt now reason)"
  using invalidated_good by (simp add: good_update_def)

lemmas update_defs = good_update_def endpoint_by_path_def initiator_by_path_def row_defs same_row_def Let_def

lemma route_exec_shape: "op_shape (route_exec isofmt op)"
proof (cases op)
  case (CreateHop a b c d e f)
  show ?thesis unfolding CreateHop route_exec.simps create_hop_resolution_def
    by (rule shape_insert) (simp add: row_defs blank_row_def)
next
  case (InvalidateHop n a b)
  show ?thesis unfolding InvalidateHop route_exec.simps invalidate_hop_resolution_by_path_id_def
    by (intro shape_update good_invalidated) simp
next
  case (CreateEndpoint a b c d e f)
  show ?thesis unfolding CreateEndpoint route_exec.simps create_endpoint_resolution_def
    by (rule shape_insert) (simp add: row_defs blank_row_def)
next
  case (InvalidateEndpoint n a b)
  show ?thesis unfolding InvalidateEndpoint route_exec.simps invalidate_endpoint_resolution_def
    by (intro shape_update good_invalidated) (simp add: endpoint_by_path_def)
next
  case (EndpointContext a c)
  show ?thesis unfolding EndpointContext route_exec.simps update_endpoint_resolution_validation_context_def
    by (rule shape_update) (auto simp: update_defs with_context_def)
next
  case (EndpointActive a)
  show ?thesis unfolding EndpointActive route_exec.simps mark_endpoint_resolution_active_def
    by (rule shape_update) (auto simp: update_defs)
next
  case (CreateInitiator a b c d e f g h i)
  show ?thesis unfolding CreateInitiator route_exec.simps create_initiator_resolution_def
    by (rule shape_insert) (simp add: row_defs blank_row_def)
next
  case (PingStarted a b c)
  show ?thesis unfolding PingStarted route_exec.simps mark_initiator_resolution_ping_started_def
    by (rule shape_update) (auto simp: update_defs)
next
  case (InvalidateInitiator n a b)
  show ?thesis unfolding InvalidateInitiator route_exec.simps invalidate_initiator_resolution_def
    by (intro shape_update good_invalidated) (simp add: initiator_by_path_def)
next
  case (ValidationPayload a b c d e)
  show ?thesis unfolding ValidationPayload route_exec.simps update_initiator_resolution_validation_payload_def
    by (rule shape_update) (auto simp: update_defs)
next
  case (InitiatorActive a b c d e)
  show ?thesis unfolding InitiatorActive route_exec.simps mark_initiator_resolution_active_def
    by (rule shape_update) (auto simp: update_defs)
qed

section \<open>Queries\<close>

text \<open>A query takes the newest match; a query on distinct rows that match at most once takes that one.\<close>

lemma first_desc_spec:
  "first_desc P t = None \<longleftrightarrow> (\<forall>r \<in> set t. \<not> P r)"
  "first_desc P t = Some r \<Longrightarrow> r \<in> set t \<and> P r \<and> (\<forall>s \<in> set t. P s \<longrightarrow> rr_id s \<le> rr_id r)"
proof -
  let ?s = "py_sorted (\<lambda>r. - int (rr_id r)) (filter P t)"
  have "?s = [] \<longleftrightarrow> filter P t = []" by (metis length_0_conv length_sort)
  then show "first_desc P t = None \<longleftrightarrow> (\<forall>r \<in> set t. \<not> P r)"
    by (auto simp: first_desc_def filter_empty_conv split: list.split)
  assume "first_desc P t = Some r"
  then obtain rs where s: "?s = r # rs" by (auto simp: first_desc_def split: list.splits)
  have "set ?s = {r \<in> set t. P r}" by simp
  then have mem: "insert r (set rs) = {r \<in> set t. P r}" using s by simp
  have "sorted (map (\<lambda>r. - int (rr_id r)) (r # rs))" unfolding s [symmetric] by (rule sorted_sort_key)
  then have le: "\<forall>x \<in> insert r (set rs). rr_id x \<le> rr_id r" by simp
  have "r \<in> {r \<in> set t. P r}" using mem by blast
  with le show "r \<in> set t \<and> P r \<and> (\<forall>s \<in> set t. P s \<longrightarrow> rr_id s \<le> rr_id r)" unfolding mem by blast
qed

lemma first_desc_ex: "r \<in> set t \<Longrightarrow> P r \<Longrightarrow> \<exists>s. first_desc P t = Some s"
  using first_desc_spec(1) [of P t] by auto

lemma first_desc_unique:
  assumes "\<And>r s. r \<in> set t \<Longrightarrow> s \<in> set t \<Longrightarrow> P r \<Longrightarrow> P s \<Longrightarrow> r = s"
  shows "first_desc P t = Some r \<longleftrightarrow> r \<in> set t \<and> P r"
proof
  assume "r \<in> set t \<and> P r"
  then obtain s where "first_desc P t = Some s" using first_desc_ex by blast
  with first_desc_spec(2) [OF this] assms \<open>r \<in> set t \<and> P r\<close> show "first_desc P t = Some r" by blast
qed (use first_desc_spec(2) in blast)

section \<open>Updates\<close>

lemma next_row_id_fresh: "r \<in> set t \<Longrightarrow> rr_id r < next_row_id t"
proof -
  have "m \<le> fold (\<lambda>r m. max (rr_id r) m) t m \<and> (\<forall>r \<in> set t. rr_id r \<le> fold (\<lambda>r m. max (rr_id r) m) t m)" for m
    by (induction t arbitrary: m) (auto, metis max.bounded_iff, metis max.bounded_iff)
  then show "r \<in> set t \<Longrightarrow> rr_id r < next_row_id t" by (simp add: next_row_id_def less_Suc_eq_le)
qed

lemma unique_conflict_sym: "unique_conflict r s \<longleftrightarrow> unique_conflict s r"
  unfolding unique_conflict_def same_key_def by metis

lemma unique_conflict_irrefl [simp]: "\<not> unique_conflict r r"
  by (simp add: unique_conflict_def)

lemma row_by_id: "table_ok t \<Longrightarrow> r \<in> set t \<Longrightarrow> s \<in> set t \<Longrightarrow> rr_id r = rr_id s \<Longrightarrow> r = s"
  by (auto simp: table_ok_def distinct_map dest: inj_onD)

lemma insert_row_ok:
  assumes "table_ok t" and "\<And>n. row_ok (r \<lparr> rr_id := n \<rparr>)"
  shows "table_ok (fst (insert_row r t))"
proof -
  let ?r = "r \<lparr> rr_id := next_row_id t \<rparr>"
  have "rr_id ?r \<notin> rr_id ` set t" using next_row_id_fresh [of _ t] by fastforce
  with assms show ?thesis
    unfolding insert_row_def Let_def
    by (cases "list_ex (unique_conflict ?r) t") (auto simp: table_ok_def list_ex_iff unique_conflict_sym)
qed

lemma update_row_ok:
  assumes "table_ok t" and "row_ok r"
  shows "table_ok (fst (update_row r t))"
proof (cases "list_ex (unique_conflict r) t")
  case True
  with assms(1) show ?thesis by (simp add: update_row_def)
next
  case False
  let ?f = "\<lambda>s. if rr_id s = rr_id r then r else s"
  have "map rr_id (map ?f t) = map rr_id t" by simp
  moreover have "\<not> unique_conflict (?f x) (?f y)" if "x \<in> set t" "y \<in> set t" for x y
    using that False assms(1) unique_conflict_sym by (auto simp: list_ex_iff table_ok_def)
  moreover have "row_ok (?f x)" if "x \<in> set t" for x using that assms by (simp add: table_ok_def)
  ultimately have "table_ok (map ?f t)"
    using assms(1) unfolding table_ok_def set_map ball_simps(9) by (simp only: ball_simps simp_thms) blast
  with False show ?thesis by (simp add: update_row_def)
qed

lemma update_first_ok:
  assumes "table_ok t" and "good_update P f"
  shows "table_ok (fst (update_first P f t))"
proof (cases "first_desc P t")
  case (Some r)
  then have "row_ok (f r)" using first_desc_spec(2) [OF Some] assms by (auto simp: good_update_def table_ok_def)
  with Some assms(1) show ?thesis by (simp add: update_first_def update_row_ok)
qed (use assms in \<open>simp add: update_first_def\<close>)

lemma route_exec_ok: "table_ok t \<Longrightarrow> table_ok (route_exec isofmt op t)"
  using route_exec_shape [of isofmt op] insert_row_ok update_first_ok unfolding op_shape_def by fastforce

lemma route_run_ok: "table_ok t \<Longrightarrow> table_ok (route_run isofmt ops t)"
  unfolding route_run_def by (induction ops arbitrary: t) (simp_all add: route_exec_ok)

text \<open>Rows are never removed, and a row that is no longer valid never changes again.\<close>

lemma same_row_refl [simp]: "same_row r r"
  by (simp add: same_row_def)

lemma same_row_mem: "r \<in> set t \<Longrightarrow> set t \<subseteq> set t' \<Longrightarrow> \<exists>r' \<in> set t'. same_row r r'"
  by (rule bexI [of _ r]) auto

lemma same_row_trans: "same_row r s \<Longrightarrow> same_row s u \<Longrightarrow> same_row r u"
  by (auto simp: same_row_def)

lemma update_row_keeps:
  assumes "table_ok t" and "r \<in> set t" and "s \<in> set t" and "same_row s (g s)"
  shows "\<exists>r' \<in> set (fst (update_row (g s) t)). same_row r r'"
proof (cases "list_ex (unique_conflict (g s)) t")
  case False
  have id: "rr_id (g s) = rr_id s" using assms(4) by (simp add: same_row_def)
  show ?thesis
  proof (cases "rr_id r = rr_id s")
    case True
    then have "r = s" using row_by_id [OF assms(1-3)] by simp
    with False id assms show ?thesis by (force simp: update_row_def)
  next
    case False
    with \<open>\<not> list_ex (unique_conflict (g s)) t\<close> id assms(2) show ?thesis by (force simp: update_row_def)
  qed
qed (use assms in \<open>simp add: update_row_def same_row_mem\<close>)

lemma route_exec_keeps:
  assumes "table_ok t" and "r \<in> set t"
  shows "\<exists>r' \<in> set (route_exec isofmt op t). same_row r r'"
proof -
  from route_exec_shape [of isofmt op, unfolded op_shape_def] show ?thesis
  proof (elim disjE exE conjE)
    fix x assume "route_exec isofmt op = (\<lambda>t. fst (insert_row x t))"
    with assms(2) show ?thesis by (intro same_row_mem) (auto simp: insert_row_def Let_def)
  next
    fix P f assume g: "good_update P f" and e: "route_exec isofmt op = (\<lambda>t. fst (update_first P f t))"
    show ?thesis
    proof (cases "first_desc P t")
      case (Some s)
      note s = first_desc_spec(2) [OF Some]
      then have "same_row s (f s)" using g assms(1) by (auto simp: good_update_def table_ok_def)
      from update_row_keeps [OF assms conjunct1 [OF s], where g = f, OF this] show ?thesis unfolding e update_first_def Some by simp
    qed (use assms e in \<open>simp add: update_first_def same_row_mem\<close>)
  qed
qed

lemma route_run_keeps:
  assumes "table_ok t" and "r \<in> set t"
  shows "\<exists>r' \<in> set (route_run isofmt ops t). same_row r r'"
  using assms
proof (induction ops arbitrary: t r)
  case Nil
  then show ?case by (simp add: route_run_def same_row_mem)
next
  case (Cons op ops)
  obtain s where s: "s \<in> set (route_exec isofmt op t)" "same_row r s" using route_exec_keeps [OF Cons.prems] by blast
  obtain u where "u \<in> set (route_run isofmt ops (route_exec isofmt op t))" "same_row s u"
    using Cons.IH [OF route_exec_ok [OF Cons.prems(1)] s(1)] by blast
  with same_row_trans [OF s(2)] show ?case by (auto simp: route_run_def)
qed

lemma initiator_path_unique:
  assumes "table_ok t" and "r \<in> set t" and "s \<in> set t" and "rr_initial_path_id r = Some p" and "rr_initial_path_id s = Some p"
  shows "r = s"
proof (rule row_by_id [OF assms(1-3)])
  have "\<not> unique_conflict r s" using assms(1-3) by (simp add: table_ok_def)
  with assms(4,5) show "rr_id r = rr_id s" by (auto simp: unique_conflict_def same_key_def)
qed

lemma endpoint_path_unique:
  assumes "table_ok t" and "r \<in> set t" and "s \<in> set t" and "rr_route_path_id r = Some p" and "rr_route_path_id s = Some p"
  shows "r = s"
proof (rule row_by_id [OF assms(1-3)])
  have "\<not> unique_conflict r s" using assms(1-3) by (simp add: table_ok_def)
  with assms(4,5) show "rr_id r = rr_id s" by (auto simp: unique_conflict_def same_key_def)
qed

lemma table_ok_empty [simp]: "table_ok []"
  by (simp add: table_ok_def)

section \<open>Metadata survives updates\<close>

lemma load_dump_metadata:
  assumes "wf_json (JObj m)"
  shows "JObj (load_metadata (dump_metadata m)) = canon (JObj m)"
proof (cases "m = []")
  case False
  with loads_dumps [OF assms] compact_json_text_nonempty [of m] show ?thesis
    by (simp add: load_metadata_def dump_metadata_def compact_json_text_def)
qed (simp add: load_metadata_def dump_metadata_def)

lemma get_load_dump:
  assumes "wf_json (JObj m)" and "dict_get m k = Some v"
  shows "dict_get (load_metadata (dump_metadata m)) k = Some (canon v)"
proof -
  have "JObj (load_metadata (dump_metadata m)) = canon (JObj m)" by (rule load_dump_metadata [OF assms(1)])
  then have "load_metadata (dump_metadata m) = py_sorted fst (map (map_prod id canon) m)"
    by (simp add: map_prod_def)
  with assms show ?thesis by (simp add: dict_get_sorted comp_def dict_get_map_canon)
qed

lemma wf_dict_set: "wf_json (JObj m) \<Longrightarrow> wf_json v \<Longrightarrow> wf_json (JObj (dict_set k v m))"
  using pd.ok_set [of m k v] set_dict_set [of m k v] by (auto simp: dict_ok_def)

section \<open>What an update leaves behind\<close>

lemma update_first_result:
  assumes "update_first P f t = (t', Inr (Some r))" and "\<And>s. P s \<Longrightarrow> rr_id (f s) = rr_id s"
  obtains s where "first_desc P t = Some s" and "s \<in> set t" and "P s" and "r = f s" and "r \<in> set t'"
proof -
  obtain s where s: "first_desc P t = Some s" using assms(1) by (auto simp: update_first_def split: option.splits)
  note q = first_desc_spec(2) [OF s]
  have u: "update_row (f s) t = (t', Inr (Some r))" using assms(1) s by (simp add: update_first_def)
  then have "r = f s" "t' = map (\<lambda>x. if rr_id x = rr_id (f s) then f s else x) t" by (auto simp: update_row_def split: if_splits)
  moreover have "rr_id (f s) = rr_id s" using assms(2) q by simp
  ultimately have "r \<in> set t'" using q by force
  with that [OF s] q \<open>r = f s\<close> show thesis by blast
qed

lemma invalidated_fields [simp]:
  "rr_id (invalidated isofmt now reason r) = rr_id r"
  "rr_initial_path_id (invalidated isofmt now reason r) = rr_initial_path_id r"
  "rr_is_valid (invalidated isofmt now reason r) = False"
  by (simp_all add: invalidated_def Let_def)

lemma with_context_fields [simp]:
  "rr_id (with_context c r) = rr_id r" "rr_local_role (with_context c r) = rr_local_role r"
  "rr_route_path_id (with_context c r) = rr_route_path_id r" "rr_is_valid (with_context c r) = rr_is_valid r"
  "rr_final_path_id (with_context c r) = Some (ec_final_path_id c)"
  "rr_virtual_node_signature (with_context c r) = Some (ec_virtual_node_signature c)"
  "rr_physical_node_signature (with_context c r) = Some (ec_physical_node_signature c)"
  by (simp_all add: with_context_def Let_def)

text \<open>The metadata that the validation context writes is read back.\<close>

lemma with_context_metadata:
  assumes "wf_json (JObj (load_metadata (rr_metadata_json r)))" and "wf_json (ec_ping_sent_at_monotonic_ms c)"
  defines "m \<equiv> load_metadata (rr_metadata_json (with_context c r))"
  shows "dict_get m ''remote_virtual_node_public_key'' = Some (JStr (ec_remote_virtual_node_public_key c))"
    and "dict_get m ''remote_virtual_node_id'' = Some (JStr (ec_remote_virtual_node_id c))"
    and "dict_get m ''expected_round_trip_ttl_ms'' = Some (JInt (ec_expected_round_trip_ttl_ms c))"
proof -
  define m1 where "m1 = dict_set ''remote_virtual_node_id'' (JStr (ec_remote_virtual_node_id c)) (load_metadata (rr_metadata_json r))"
  define m2 where "m2 = dict_set ''remote_virtual_node_public_key'' (JStr (ec_remote_virtual_node_public_key c)) m1"
  define m3 where "m3 = dict_set ''expected_round_trip_ttl_ms'' (JInt (ec_expected_round_trip_ttl_ms c)) m2"
  define m4 where "m4 = dict_set ''last_ping_id'' (JStr (ec_ping_id c)) m3"
  define m5 where "m5 = dict_set ''last_ping_sent_at_monotonic_ms'' (ec_ping_sent_at_monotonic_ms c) m4"
  have m: "m = load_metadata (dump_metadata m5)"
    unfolding m_def with_context_def Let_def m5_def m4_def m3_def m2_def m1_def by simp
  have wf: "wf_json (JObj m5)"
    unfolding m5_def m4_def m3_def m2_def m1_def
    by (rule wf_dict_set [OF wf_dict_set [OF wf_dict_set [OF wf_dict_set [OF wf_dict_set [OF assms(1)]]]]])
      (use assms(2) in simp_all)
  have get: "dict_get m5 ''remote_virtual_node_public_key'' = Some (JStr (ec_remote_virtual_node_public_key c))"
    "dict_get m5 ''remote_virtual_node_id'' = Some (JStr (ec_remote_virtual_node_id c))"
    "dict_get m5 ''expected_round_trip_ttl_ms'' = Some (JInt (ec_expected_round_trip_ttl_ms c))"
    by (simp_all add: m5_def m4_def m3_def m2_def m1_def)
  show "dict_get m ''remote_virtual_node_public_key'' = Some (JStr (ec_remote_virtual_node_public_key c))"
    and "dict_get m ''remote_virtual_node_id'' = Some (JStr (ec_remote_virtual_node_id c))"
    and "dict_get m ''expected_round_trip_ttl_ms'' = Some (JInt (ec_expected_round_trip_ttl_ms c))"
    using get_load_dump [OF wf get(1)] get_load_dump [OF wf get(2)] get_load_dump [OF wf get(3)] by (simp_all add: m)
qed

text \<open>The record a validated endpoint publishes.\<close>

definition published_record :: "(time_us \<Rightarrow> string) \<Rightarrow> time_us \<Rightarrow> string \<Rightarrow> string \<Rightarrow> int \<Rightarrow> string \<Rightarrow> endpoint_context \<Rightarrow> drt_record" where
  "published_record isofmt now pk sig rtt expires c = \<lparr> drt_pk_virtual_node = ec_remote_virtual_node_public_key c,
     drt_route_entries = [\<lparr> re_pk_physical_node = pk, re_virtual_node_signature = ec_virtual_node_signature c,
       re_final_path_id = ec_final_path_id c, re_entry_point_virtual_node_signature = ec_virtual_node_signature c,
       re_entry_point_physical_node_signature = ec_physical_node_signature c,
       re_physical_node_signature = ec_physical_node_signature c, re_expires_at = expires, re_rtt = PyInt rtt,
       re_rtt_physical_node_signature = sig, re_pow_nonce = None \<rparr>], drt_last_update = isofmt now \<rparr>"

section \<open>Properties\<close>

text \<open>
  C37. Every table that the operations produce from an empty one is well formed: row ids are
  distinct, the initial, route and final path ids are unique, a row is valid exactly when its status is not
  \<^verbatim>\<open>invalid\<close>, and each row has the columns and one of the statuses of its role; an active
  initiator row has its final path and both signatures.
\<close>

theorem route_table_invariant: "table_ok (route_run isofmt ops [])"
  by (rule route_run_ok) simp

text \<open>
  Rows are permanent and invalidity is final: whatever operations follow, a row of the table stays, with
  its id, role and path ids, and a row that is no longer valid stays exactly as it is.
\<close>

theorem route_rows_permanent:
  assumes "r \<in> set (route_run isofmt ops [])"
  shows "\<exists>r' \<in> set (route_run isofmt ops' (route_run isofmt ops [])). rr_id r' = rr_id r \<and> rr_local_role r' = rr_local_role r \<and>
    rr_initial_path_id r' = rr_initial_path_id r \<and> rr_route_path_id r' = rr_route_path_id r \<and>
    rr_received_path_id r' = rr_received_path_id r \<and> rr_generated_path_id r' = rr_generated_path_id r \<and>
    (\<not> rr_is_valid r \<longrightarrow> r' = r)"
  using route_run_keeps [OF route_run_ok [OF table_ok_empty] assms, of isofmt ops'] unfolding same_row_def by blast

definition demo_ops :: "route_op list" where
  "demo_ops = [CreateInitiator ''hop'' ''p1'' ''pk'' (Some 40) None None (Some ''vn'') None None, InvalidateInitiator 5 ''p1'' ''lost'']"

theorem route_rows_permanent_witness:
  "\<exists>r \<in> set (route_run (\<lambda>t. []) demo_ops []). \<exists>r' \<in> set (route_run (\<lambda>t. []) [InitiatorActive ''p1'' ''f'' ''s'' ''s'' ''s''] (route_run (\<lambda>t. []) demo_ops [])).
     r' = r \<and> rr_status r = ''invalid''"
proof -
  have "route_run (\<lambda>t. []) demo_ops [] \<noteq> []" by code_simp
  then obtain r where r: "r \<in> set (route_run (\<lambda>t. []) demo_ops [])" by (metis list.set_sel(1))
  have "list_all (\<lambda>r. \<not> rr_is_valid r \<and> rr_status r = ''invalid'') (route_run (\<lambda>t. []) demo_ops [])" by code_simp
  with r have "\<not> rr_is_valid r" "rr_status r = ''invalid''" by (simp_all add: list_all_iff)
  with route_rows_permanent [OF r] r show ?thesis by blast
qed

text \<open>
  The lookups by initial path and by route path are exact: they return the valid row of that role
  with that path whenever there is one, and there is never a second one.
\<close>

theorem route_lookup_exact:
  assumes "t = route_run isofmt ops []"
  shows "(get_initiator_resolution_by_initial_path_id p t = Some r \<longleftrightarrow>
      r \<in> set t \<and> rr_local_role r = ''initiator'' \<and> rr_initial_path_id r = Some p \<and> rr_is_valid r) \<and>
    (get_endpoint_resolution_by_path_id p t = Some r \<longleftrightarrow>
      r \<in> set t \<and> rr_local_role r = ''final_endpoint'' \<and> rr_route_path_id r = Some p \<and> rr_is_valid r)"
proof -
  have ok: "table_ok t" unfolding assms by (rule route_run_ok) simp
  have "first_desc (initiator_by_path p) t = Some r \<longleftrightarrow> r \<in> set t \<and> initiator_by_path p r"
    using initiator_path_unique [OF ok] by (intro first_desc_unique) (auto simp: initiator_by_path_def)
  moreover have "first_desc (endpoint_by_path p) t = Some r \<longleftrightarrow> r \<in> set t \<and> endpoint_by_path p r"
    using endpoint_path_unique [OF ok] by (intro first_desc_unique) (auto simp: endpoint_by_path_def)
  ultimately show ?thesis
    by (simp add: get_initiator_resolution_by_initial_path_id_def get_endpoint_resolution_by_path_id_def
        initiator_by_path_def endpoint_by_path_def)
qed

theorem route_lookup_exact_witness:
  "\<exists>r. get_initiator_resolution_by_initial_path_id ''p1'' (route_run (\<lambda>t. []) (take 1 demo_ops) []) = Some r \<and>
     r \<in> set (route_run (\<lambda>t. []) (take 1 demo_ops) [])"
proof -
  have "get_initiator_resolution_by_initial_path_id ''p1'' (route_run (\<lambda>t. []) (take 1 demo_ops) []) \<noteq> None" by code_simp
  with route_lookup_exact [OF refl, of "''p1''" "\<lambda>t. []" "take 1 demo_ops"] show ?thesis by blast
qed

text \<open>
  An invalidated route never comes back: once an initiator row was invalidated, whatever operations
  follow, its path is not found any more, and a new route with the same initial path is refused
  with an integrity error that leaves the table as it is.
\<close>

theorem invalidated_route_gone:
  assumes "t = route_run isofmt ops []" and "invalidate_initiator_resolution isofmt now p reason t = (t', Inr (Some r))"
    and "t'' = route_run isofmt ops' t'"
  shows "get_initiator_resolution_by_initial_path_id p t'' = None \<and>
    create_initiator_resolution hop p pk ttl strategy nonce vn final sig t'' = (t'', Inl IntegrityError)"
proof -
  have ok: "table_ok t" unfolding assms(1) by (rule route_run_ok) simp
  have t': "t' = route_exec isofmt (InvalidateInitiator now p reason) t" using assms(2) by simp
  have ok': "table_ok t'" "table_ok t''" unfolding t' assms(3) using ok by (simp_all add: route_exec_ok route_run_ok del: route_exec.simps)
  obtain s where s: "initiator_by_path p s" "r = invalidated isofmt now reason s" "r \<in> set t'"
    using assms(2) unfolding invalidate_initiator_resolution_def by (rule update_first_result) auto
  then have r: "rr_initial_path_id r = Some p" "\<not> rr_is_valid r" by (auto simp: initiator_by_path_def)
  obtain r' where "r' \<in> set t''" "same_row r r'" using route_run_keeps [OF ok'(1) s(3)] unfolding assms(3) by blast
  with r have in_t: "r \<in> set t''" by (simp add: same_row_def)
  have "\<forall>x \<in> set t''. \<not> initiator_by_path p x"
    using initiator_path_unique [OF ok'(2) _ in_t _ r(1)] r(2) by (auto simp: initiator_by_path_def)
  then have "get_initiator_resolution_by_initial_path_id p t'' = None"
    unfolding get_initiator_resolution_by_initial_path_id_def first_desc_spec(1) .
  moreover have "create_initiator_resolution hop p pk ttl strategy nonce vn final sig t'' = (t'', Inl IntegrityError)"
    using in_t r(1) next_row_id_fresh [OF in_t]
    by (auto simp: create_initiator_resolution_def insert_row_def Let_def list_ex_iff unique_conflict_def same_key_def intro!: bexI [of _ r])
  ultimately show ?thesis ..
qed

theorem invalidated_route_gone_witness:
  "\<exists>t' r. invalidate_initiator_resolution (\<lambda>t. []) 5 ''p1'' ''lost'' (route_run (\<lambda>t. []) (take 1 demo_ops) []) = (t', Inr (Some r)) \<and>
     get_initiator_resolution_by_initial_path_id ''p1'' t' = None"
proof -
  let ?i = "invalidate_initiator_resolution (\<lambda>t. []) 5 ''p1'' ''lost'' (route_run (\<lambda>t. []) (take 1 demo_ops) [])"
  have "case snd ?i of Inr (Some _) \<Rightarrow> True | _ \<Rightarrow> False" by code_simp
  then obtain t' r where i: "?i = (t', Inr (Some r))" by (cases ?i) (auto split: sum.splits option.splits)
  with invalidated_route_gone [OF refl i refl, of "[]"] show ?thesis by (simp add: route_run_def)
qed

text \<open>
  A new hop can always be recorded, and from then on both of its paths lead to it: the lookups by the
  received and by the generated path return the row just created, even if older hops use the same paths.
\<close>

theorem hop_found_both_ways:
  assumes "t = route_run isofmt ops []"
  shows "\<exists>t' r. create_hop_resolution strategy src dst received generated session t = (t', Inr r) \<and>
    get_resolution_by_received_path_id received t' = Some r \<and> get_resolution_by_generated_path_id generated t' = Some r \<and>
    rr_from_physical_node_id r = Some src \<and> rr_to_physical_node_id r = Some dst"
proof -
  define b where "b = (blank_row ''intermediary'' ''forwarding'') \<lparr> rr_route_strategy := Some strategy,
       rr_from_physical_node_id := Some src, rr_to_physical_node_id := Some dst,
       rr_received_path_id := Some received, rr_generated_path_id := Some generated,
       rr_metadata_json := dump_metadata [(''from_physical_session_id'', opt_str session)] \<rparr>"
  define r where "r = b \<lparr> rr_id := next_row_id t \<rparr>"
  have f: "rr_received_path_id r = Some received" "rr_generated_path_id r = Some generated" "rr_is_valid r"
    "rr_from_physical_node_id r = Some src" "rr_to_physical_node_id r = Some dst" "rr_id r = next_row_id t"
    by (simp_all add: r_def b_def blank_row_def)
  have "\<not> list_ex (unique_conflict r) t"
    by (simp add: list_ex_iff unique_conflict_def same_key_def r_def b_def blank_row_def)
  then have ins: "create_hop_resolution strategy src dst received generated session t = (t @ [r], Inr r)"
    unfolding create_hop_resolution_def insert_row_def b_def [symmetric] Let_def r_def [symmetric] by simp
  have newest: "first_desc P (t @ [r]) = Some r" if P: "P r" for P
  proof -
    obtain s where s: "first_desc P (t @ [r]) = Some s" using first_desc_ex [of r "t @ [r]" P] P by auto
    have "s \<in> set t \<or> s = r" "rr_id r \<le> rr_id s" using first_desc_spec(2) [OF s] P by auto
    with next_row_id_fresh [of s t] f(6) have "s = r" by auto
    with s show ?thesis by simp
  qed
  show ?thesis
    by (intro exI [of _ "t @ [r]"] exI [of _ r])
      (simp add: ins f get_resolution_by_received_path_id_def get_resolution_by_generated_path_id_def newest)
qed

theorem hop_found_both_ways_witness:
  "\<exists>t' r. create_hop_resolution ''s'' ''a'' ''b'' ''in'' ''out'' None (route_run (\<lambda>t. []) demo_ops []) = (t', Inr r) \<and>
     get_resolution_by_received_path_id ''in'' t' = Some r"
  using hop_found_both_ways [OF refl, where isofmt = "\<lambda>t. []" and ops = demo_ops and strategy = "''s''" and src = "''a''" and dst = "''b''"
      and received = "''in''" and generated = "''out''" and session = None] by blast

text \<open>
  What a validated endpoint publishes is what was validated: after the validation context was stored, the
  publish request exists under the virtual node's id, and its text parses to the route record with
  the virtual node's key, the final path, the signatures and the measured latency.
\<close>

theorem endpoint_publishes_validated_route:
  assumes "t = route_run isofmt ops []" and "update_endpoint_resolution_validation_context p c t = (t', Inr (Some r))"
    and "\<forall>s. get_endpoint_resolution_by_path_id p t = Some s \<longrightarrow> wf_json (JObj (load_metadata (rr_metadata_json s)))"
    and "wf_json (ec_ping_sent_at_monotonic_ms c)"
    and "ec_remote_virtual_node_public_key c \<noteq> []" and "ec_remote_virtual_node_id c \<noteq> []" and "ec_virtual_node_signature c \<noteq> []"
    and "ec_physical_node_signature c \<noteq> []" and "ec_final_path_id c \<noteq> []"
    and "pk \<noteq> []" and "sig \<noteq> []" and "expires \<noteq> []" and "isofmt now \<noteq> []"
  shows "\<exists>req. build_drt_publish_request_from_endpoint_resolution h isofmt now p pk sig rtt expires t' = Some req \<and>
    pr_namespace req = ''drt'' \<and> pr_logical_key req = ec_remote_virtual_node_id c \<and>
    parse_record ''drt'' (pr_record_json req) = Inr (Drt (published_record isofmt now pk sig rtt expires c))"
proof -
  have ok: "table_ok t" unfolding assms(1) by (rule route_run_ok) simp
  have t': "t' = route_exec isofmt (EndpointContext p c) t" using assms(2) by simp
  have ok': "table_ok t'" unfolding t' using ok by (simp add: route_exec_ok del: route_exec.simps)
  obtain s where s: "first_desc (endpoint_by_path p) t = Some s" "endpoint_by_path p s" "r = with_context c s" "r \<in> set t'"
    using assms(2) unfolding update_endpoint_resolution_validation_context_def by (rule update_first_result) simp_all
  have wf: "wf_json (JObj (load_metadata (rr_metadata_json s)))"
    using assms(3) s(1) by (simp add: get_endpoint_resolution_by_path_id_def)
  note md = with_context_metadata [OF wf assms(4)]
  have "endpoint_by_path p r" using s(2,3) by (simp add: endpoint_by_path_def)
  then have get: "get_endpoint_resolution_by_path_id p t' = Some r"
    unfolding get_endpoint_resolution_by_path_id_def using s(4) endpoint_path_unique [OF ok']
    by (subst first_desc_unique) (auto simp: endpoint_by_path_def)
  let ?rec = "published_record isofmt now pk sig rtt expires c"
  have req: "build_drt_publish_request_from_endpoint_resolution h isofmt now p pk sig rtt expires t' =
      Some \<lparr> pr_namespace = ''drt'', pr_logical_key = ec_remote_virtual_node_id c, pr_record_json = serialize_record (Drt ?rec),
        pr_expires_at = expires \<rparr>"
    using md assms(5-9) get s(3)
    by (simp add: build_drt_publish_request_from_endpoint_resolution_def jget_nonempty_str_def jget_def Let_def published_record_def)
  have "wf_payload (Drt ?rec)" using assms(5,7-13) by (simp add: published_record_def wf_route_entry_def)
  moreover have "py_lower ''drt'' = payload_namespace (Drt ?rec)" by code_simp
  ultimately have "parse_record ''drt'' (serialize_record (Drt ?rec)) = Inr (Drt ?rec)" by (rule parse_record_back)
  with req show ?thesis by simp
qed

definition demo_context :: endpoint_context where
  "demo_context = \<lparr> ec_shared_secret_hex = ''00'', ec_final_path_id = ''f'', ec_remote_virtual_node_public_key = ''vk'',
     ec_virtual_node_signature = ''vs'', ec_physical_node_signature = ''ps'', ec_public_route_acceptance_signature = ''as'',
     ec_remote_virtual_node_id = ''vid'', ec_expected_round_trip_ttl_ms = 40, ec_ping_id = ''ping'',
     ec_ping_sent_at_monotonic_ms = JFloat 15 1 \<rparr>"

theorem endpoint_publishes_validated_route_witness:
  "\<exists>t' r req. update_endpoint_resolution_validation_context ''e'' demo_context
       (route_run (\<lambda>t. ''now'') [CreateEndpoint ''prev'' ''s'' 1 ''e'' ''sk'' ''pk''] []) = (t', Inr (Some r)) \<and>
     build_drt_publish_request_from_endpoint_resolution (\<lambda>s. s) (\<lambda>t. ''now'') 9 ''e'' ''pk'' ''sig'' 12 ''2030'' t' = Some req \<and>
     pr_logical_key req = ''vid''"
proof -
  let ?t = "route_run (\<lambda>t. ''now'') [CreateEndpoint ''prev'' ''s'' 1 ''e'' ''sk'' ''pk''] []"
  let ?u = "update_endpoint_resolution_validation_context ''e'' demo_context ?t"
  have "case snd ?u of Inr (Some _) \<Rightarrow> True | _ \<Rightarrow> False" by code_simp
  then obtain t' r where u: "?u = (t', Inr (Some r))" by (cases ?u) (auto split: sum.splits option.splits)
  have "case get_endpoint_resolution_by_path_id ''e'' ?t of None \<Rightarrow> True | Some s \<Rightarrow> load_metadata (rr_metadata_json s) = []" by code_simp
  then have wf: "\<forall>s. get_endpoint_resolution_by_path_id ''e'' ?t = Some s \<longrightarrow> wf_json (JObj (load_metadata (rr_metadata_json s)))" by auto
  have "ec_remote_virtual_node_id demo_context = ''vid''" by (simp add: demo_context_def)
  with endpoint_publishes_validated_route [OF refl u wf, where pk = "''pk''" and sig = "''sig''" and expires = "''2030''" and now = 9 and h = "\<lambda>s. s" and rtt = 12] u show ?thesis
    by (auto simp: demo_context_def)
qed

end
