(* ===== verification/Session_Runtime.thy ===== *)
theory Session_Runtime
  imports Physical_Client Route_Service
begin

text \<open>
  \<^verbatim>\<open>app/core/runtime/session_runtime.py\<close>: the periodic task that resends reliable messages, closes sessions whose
  deadline has passed and sends keepalives. Durations in seconds are rationals where the code has floats.
  The sends of physical sessions are those of \<open>Physical_Client\<close>; those of virtual sessions are an argument \<open>vc\<close>
  (the virtual session client). \<open>io\<close> gives for a message id or a session id what its sends take from
  outside, \<open>clk\<close> for a session id the readings of the clock while that session is looked at.
\<close>

section \<open>Decisions\<close>

record runtime_config =
  cf_physical_reliable_retry_seconds :: rat
  cf_virtual_reliable_retry_fallback_seconds :: rat
  cf_virtual_reliable_retry_rtt_multiplier :: rat
  cf_virtual_reliable_retry_min_seconds :: rat
  cf_virtual_reliable_retry_max_seconds :: rat
  cf_virtual_session_timeout_min_seconds :: rat
  cf_virtual_session_timeout_rtt_multiplier :: rat

definition read_positive_float_from_session_metadata :: "network_session \<Rightarrow> string \<Rightarrow> rat option" where
  "read_positive_float_from_session_metadata session key =
     positive_float (jget (load_json_object (ns_metadata_json session)) key)"

definition resolve_virtual_session_route_rtt_ms :: "route_table \<Rightarrow> network_session \<Rightarrow> rat option" where
  "resolve_virtual_session_route_rtt_ms rt session =
     (let metadata_rtt = read_positive_float_from_session_metadata session ''entry_point_rtt'' in
      case ns_bound_route_id session of
        None \<Rightarrow> metadata_rtt
      | Some route_id \<Rightarrow>
          if route_id = [] then metadata_rtt
          else (case resolve_route_rtt_ms route_id rt of
             None \<Rightarrow> metadata_rtt
           | Some route_rtt_ms \<Rightarrow> if 0 < route_rtt_ms then Some route_rtt_ms else metadata_rtt))"

definition resolve_reliable_retry_after_seconds ::
  "runtime_config \<Rightarrow> route_table \<Rightarrow> network_session option \<Rightarrow> reliable_outbound_message \<Rightarrow> rat" where
  "resolve_reliable_retry_after_seconds cfg rt session m =
     (case session of
        None \<Rightarrow> cf_physical_reliable_retry_seconds cfg
      | Some s \<Rightarrow>
          if ro_session_scope m = ''physical'' then cf_physical_reliable_retry_seconds cfg
          else if ro_session_scope m \<noteq> ''virtual'' then ro_retry_after_seconds m
          else (case resolve_virtual_session_route_rtt_ms rt s of
             None \<Rightarrow> cf_virtual_reliable_retry_fallback_seconds cfg
           | Some route_rtt_ms \<Rightarrow>
               let raw_retry_seconds = route_rtt_ms / 1000 * cf_virtual_reliable_retry_rtt_multiplier cfg in
               max (cf_virtual_reliable_retry_min_seconds cfg)
                 (min raw_retry_seconds (cf_virtual_reliable_retry_max_seconds cfg))))"

definition should_close_virtual_session :: "runtime_config \<Rightarrow> route_table \<Rightarrow> time_us \<Rightarrow> network_session \<Rightarrow> bool" where
  "should_close_virtual_session cfg rt now session =
     (let timeout_seconds = max (cf_virtual_session_timeout_min_seconds cfg) (of_int (ns_keepalive_interval_seconds session) * 3);
          timeout_seconds' = (case resolve_virtual_session_route_rtt_ms rt session of
              None \<Rightarrow> timeout_seconds
            | Some route_rtt_ms \<Rightarrow>
                max timeout_seconds (route_rtt_ms / 1000 * cf_virtual_session_timeout_rtt_multiplier cfg))
      in ns_last_activity_at session + timedelta_seconds timeout_seconds' \<le> now)"

definition should_close_session :: "runtime_config \<Rightarrow> route_table \<Rightarrow> time_us \<Rightarrow> time_us \<Rightarrow> network_session \<Rightarrow> bool" where
  "should_close_session cfg rt now now' session =
     (case ns_keepalive_deadline session of
        None \<Rightarrow> False
      | Some deadline \<Rightarrow>
          if now < deadline then False
          else if ns_session_scope session \<noteq> ''virtual'' then True
          else should_close_virtual_session cfg rt now' session)"

definition can_send_session_message :: "network_session \<Rightarrow> bool" where
  "can_send_session_message session =
     (if ns_session_scope session = ''physical'' then
        (if is_observed_only_physical_endpoint session then False
         else ns_transport session \<notin> {None, Some []} \<and> ns_remote_host session \<notin> {None, Some []} \<and> ns_remote_port session \<noteq> None)
      else if ns_session_scope session = ''virtual'' then ns_bound_route_id session \<notin> {None, Some []}
      else False)"

text \<open>\<^verbatim>\<open>interval / 2\<close> of a \<^verbatim>\<open>timedelta\<close> rounds to whole microseconds.\<close>

definition should_send_keepalive :: "time_us \<Rightarrow> network_session \<Rightarrow> bool" where
  "should_send_keepalive now session =
     (if \<not> can_send_session_message session then False
      else
        let interval = timedelta_seconds (of_int (ns_keepalive_interval_seconds session));
            send_at = ns_last_activity_at session + round_half_even (of_int interval / 2) in
        if now < send_at then False
        else (case ns_last_keepalive_sent_at session of
           None \<Rightarrow> True
         | Some t \<Rightarrow> t < ns_last_activity_at session))"

section \<open>Resending\<close>

abbreviation exhausted :: "reliable_outbound_message \<Rightarrow> bool" where
  "exhausted m \<equiv> ro_max_attempts m \<le> ro_attempts m"

definition due_step :: "runtime_config \<Rightarrow> route_table \<Rightarrow> time_us \<Rightarrow> time_us \<Rightarrow> (string \<times> int) \<times> reliable_outbound_message \<Rightarrow>
    session_manager \<times> reliable_outbound_message list \<Rightarrow> session_manager \<times> reliable_outbound_message list" where
  "due_step cfg rt now failed_at x st = (case x of ((sid, k), m) \<Rightarrow> case st of (sm, due_messages) \<Rightarrow>
     if exhausted m
     then (fst (mark_reliable_outbound_failed sm (ro_session_id m) (ro_sequence_number m) ''max_attempts_exceeded'' failed_at), due_messages)
     else
       let session = get_session_by_session_id sm (ro_session_id m);
           retry_after_seconds = resolve_reliable_retry_after_seconds cfg rt session m;
           m' = m \<lparr> ro_retry_after_seconds := retry_after_seconds \<rparr>;
           sm' = modify_reliable_outbound sm sid k (\<lambda>m. m \<lparr> ro_retry_after_seconds := retry_after_seconds \<rparr>) in
       (sm', if due_for_send m' now (Some retry_after_seconds) then due_messages @ [m'] else due_messages))"

definition list_due_reliable_messages :: "runtime_config \<Rightarrow> route_table \<Rightarrow> time_us \<Rightarrow> time_us \<Rightarrow> session_manager \<Rightarrow>
    session_manager \<times> reliable_outbound_message list" where
  "list_due_reliable_messages cfg rt now failed_at sm =
     (case fold (due_step cfg rt now failed_at) (pending_refs sm) (sm, []) of
        (sm', due_messages) \<Rightarrow> (sm', py_sorted outbound_sort_key due_messages))"

record virtual_client =
  vc_resend :: "reliable_outbound_message \<Rightarrow> engine \<Rightarrow> engine \<times> unit result"
  vc_keepalive :: "string \<Rightarrow> engine \<Rightarrow> engine \<times> unit result"
  vc_close :: "string \<Rightarrow> string \<Rightarrow> engine \<Rightarrow> engine \<times> unit result"

text \<open>An exception of a send is logged and the loop goes on.\<close>

definition resend_one :: "(time_us \<Rightarrow> string) \<Rightarrow> (string \<Rightarrow> send_io) \<Rightarrow> virtual_client \<Rightarrow> reliable_outbound_message \<Rightarrow> engine \<Rightarrow> engine" where
  "resend_one isofmt io vc m en =
     (case get_session_by_session_id (en_sessions en) (ro_session_id m) of
        None \<Rightarrow> en
      | Some session \<Rightarrow>
          if ns_session_state session \<noteq> ''active'' then en
          else if ro_session_scope m = ''physical''
          then fst (resend_reliable_message isofmt (io (ro_reliable_message_id m)) m en)
          else if ro_session_scope m = ''virtual'' then fst (vc_resend vc m en)
          else en)"

definition resend_due_reliable_messages :: "(time_us \<Rightarrow> string) \<Rightarrow> (string \<Rightarrow> send_io) \<Rightarrow> virtual_client \<Rightarrow> runtime_config \<Rightarrow> route_table \<Rightarrow>
    time_us \<Rightarrow> time_us \<Rightarrow> engine \<Rightarrow> engine" where
  "resend_due_reliable_messages isofmt io vc cfg rt now failed_at en =
     (case list_due_reliable_messages cfg rt now failed_at (en_sessions en) of
        (sm, due_messages) \<Rightarrow> fold (resend_one isofmt io vc) due_messages (en \<lparr> en_sessions := sm \<rparr>))"

section \<open>Keepalives and expiry\<close>

definition runtime_send_keepalive :: "(string \<Rightarrow> send_io) \<Rightarrow> virtual_client \<Rightarrow> network_session \<Rightarrow> engine \<Rightarrow> engine" where
  "runtime_send_keepalive io vc session en =
     (if ns_session_scope session = ''physical'' then fst (send_keepalive (io (ns_session_id session)) (ns_session_id session) en)
      else if ns_session_scope session = ''virtual'' then fst (vc_keepalive vc (ns_session_id session) en)
      else en)"

definition send_close_message :: "(string \<Rightarrow> send_io) \<Rightarrow> virtual_client \<Rightarrow> network_session \<Rightarrow> engine \<Rightarrow> engine" where
  "send_close_message io vc session en =
     (if ns_session_scope session = ''physical''
      then fst (client_close_session (io (ns_session_id session)) (ns_session_id session) ''keepalive_timeout'' en)
      else if ns_session_scope session = ''virtual'' then fst (vc_close vc (ns_session_id session) ''keepalive_timeout'' en)
      else en)"

definition close_expired_session :: "(string \<Rightarrow> send_io) \<Rightarrow> virtual_client \<Rightarrow> time_us \<Rightarrow> network_session \<Rightarrow> engine \<Rightarrow> engine" where
  "close_expired_session io vc closed_at session en =
     (let en' = (if can_send_session_message session then send_close_message io vc session en else en) in
      en' \<lparr> en_sessions := fst (close_session (en_sessions en') (ns_session_id session) ''keepalive_timeout'' closed_at) \<rparr>)"

definition session_step :: "(string \<Rightarrow> send_io) \<Rightarrow> virtual_client \<Rightarrow> runtime_config \<Rightarrow> route_table \<Rightarrow> (string \<Rightarrow> nat \<Rightarrow> time_us) \<Rightarrow>
    string \<Rightarrow> engine \<Rightarrow> engine" where
  "session_step io vc cfg rt clk sid en =
     (case get_session_by_session_id (en_sessions en) sid of
        None \<Rightarrow> en
      | Some session \<Rightarrow>
          if should_close_session cfg rt (clk sid 0) (clk sid 1) session
          then close_expired_session io vc (clk sid 2) session en
          else if should_send_keepalive (clk sid 3) session then runtime_send_keepalive io vc session en
          else en)"

definition run_once :: "(time_us \<Rightarrow> string) \<Rightarrow> (string \<Rightarrow> send_io) \<Rightarrow> virtual_client \<Rightarrow> runtime_config \<Rightarrow> route_table \<Rightarrow>
    (string \<Rightarrow> nat \<Rightarrow> time_us) \<Rightarrow> time_us \<Rightarrow> time_us \<Rightarrow> engine \<Rightarrow> engine" where
  "run_once isofmt io vc cfg rt clk now failed_at en =
     (let en' = resend_due_reliable_messages isofmt io vc cfg rt now failed_at en in
      fold (session_step io vc cfg rt clk) (map ns_session_id (list_active_sessions (en_sessions en'))) en')"

section \<open>The retry scan\<close>

lemma distinct_pending_refs:
  assumes "sm_ok sm"
  shows "distinct (map fst (pending_refs sm))"
proof -
  have "distinct (map fst (concat (map (\<lambda>(sid, st). map (\<lambda>(k, m). ((sid, k), m))
      (filter (\<lambda>(k, m). pending m) (rs_outbound_by_sequence st))) d)))"
    if "distinct (map fst d)" "\<forall>(sid, st) \<in> set d. distinct (map fst (rs_outbound_by_sequence st))" for d :: "(string, reliable_session_state) dict"
    using that
  proof (induction d)
    case (Cons x d)
    obtain sid st where x: "x = (sid, st)" by (cases x)
    let ?f = "\<lambda>(sid, st). map (\<lambda>(k, m). ((sid, k), m)) (filter (\<lambda>(k, m). pending m) (rs_outbound_by_sequence st))"
    have "map fst (?f (sid, st)) = map (Pair sid) (map fst (filter (\<lambda>(k, m). pending m) (rs_outbound_by_sequence st)))"
      by auto
    moreover have "distinct (map fst (filter (\<lambda>(k, m). pending m) (rs_outbound_by_sequence st)))"
      using Cons.prems(2) x by (simp add: distinct_map_filter)
    ultimately have 1: "distinct (map fst (?f x))" unfolding x by (simp only: distinct_map [of "Pair sid"]) (simp add: inj_on_def)
    have 2: "distinct (map fst (concat (map ?f d)))" using Cons by simp
    have "a \<in> {sid} \<times> UNIV" if "a \<in> set (map fst (?f x))" for a using that x by auto
    moreover have "a \<in> fst ` set d \<times> UNIV" if "a \<in> set (map fst (concat (map ?f d)))" for a using that by force
    moreover have "sid \<notin> fst ` set d" using Cons.prems(1) x by simp
    ultimately have "set (map fst (?f x)) \<inter> set (map fst (concat (map ?f d))) = {}" by blast
    with 1 2 have "distinct (map fst (?f x) @ map fst (concat (map ?f d)))" by (simp only: distinct_append)
    then show ?case by simp
  qed simp
  note d = this
  show ?thesis
    unfolding pending_refs_def
  proof (rule distinct_sort_key_map, rule d)
    show "distinct (map fst (sm_reliable_states_by_session_id sm))"
      using assms by (simp add: sm_ok_def reliable_ok_def dict_ok_def)
    show "\<forall>(sid, st) \<in> set (sm_reliable_states_by_session_id sm). distinct (map fst (rs_outbound_by_sequence st))"
      using assms by (auto simp: sm_ok_def reliable_ok_def outbound_ok_def dict_get_iff dict_ok_def [symmetric])
  qed
qed

text \<open>What the scan makes of a pending message.\<close>

definition scanned :: "runtime_config \<Rightarrow> route_table \<Rightarrow> time_us \<Rightarrow> session_manager \<Rightarrow> reliable_outbound_message \<Rightarrow> reliable_outbound_message" where
  "scanned cfg rt failed_at sm m =
     (if exhausted m then mark_failed failed_at ''max_attempts_exceeded'' m
      else m \<lparr> ro_retry_after_seconds := resolve_reliable_retry_after_seconds cfg rt (get_session_by_session_id sm (ro_session_id m)) m \<rparr>)"

definition scan_due :: "runtime_config \<Rightarrow> route_table \<Rightarrow> time_us \<Rightarrow> session_manager \<Rightarrow> reliable_outbound_message \<Rightarrow> bool" where
  "scan_due cfg rt now sm m \<longleftrightarrow> \<not> exhausted m \<and>
     due_for_send m now (Some (resolve_reliable_retry_after_seconds cfg rt (get_session_by_session_id sm (ro_session_id m)) m))"

lemma modify_reliable_keeps_sessions [simp]:
  "get_session_by_session_id (modify_reliable_outbound sm sid k f) x = get_session_by_session_id sm x"
  by (auto simp: modify_reliable_outbound_def set_reliable_state_def get_session_by_session_id_def split: option.splits)

lemma due_for_send_retry [simp]: "due_for_send (m \<lparr> ro_retry_after_seconds := r \<rparr>) now (Some x) = due_for_send m now (Some x)"
  by (cases "ro_last_sent_at m") (simp_all add: due_for_send_def pending_def)

lemma due_step_eq:
  assumes "get_reliable_outbound sm sid k = Some m" and "pending m" and "ro_session_id m = sid" and "ro_sequence_number m = k"
  shows "due_step cfg rt now failed_at ((sid, k), m) (sm, due) =
    (modify_reliable_outbound sm sid k (if exhausted m then mark_failed failed_at ''max_attempts_exceeded''
       else (\<lambda>x. x \<lparr> ro_retry_after_seconds := resolve_reliable_retry_after_seconds cfg rt (get_session_by_session_id sm sid) m \<rparr>)),
     if scan_due cfg rt now sm m then due @ [scanned cfg rt failed_at sm m] else due)"
  using assms by (simp add: due_step_def mark_reliable_outbound_failed_def scan_due_def scanned_def Let_def)

lemma scan_fold:
  assumes "\<forall>((sid, k), m) \<in> set refs. get_reliable_outbound sm sid k = Some m \<and> pending m \<and> ro_session_id m = sid \<and> ro_sequence_number m = k"
    and "distinct (map fst refs)" and "fold (due_step cfg rt now failed_at) refs (sm, due) = (sm', due')"
  shows "due' = due @ map (scanned cfg rt failed_at sm) (filter (scan_due cfg rt now sm) (map snd refs)) \<and>
    (\<forall>sid k. get_reliable_outbound sm' sid k = map_option (\<lambda>m. if (sid, k) \<in> fst ` set refs then scanned cfg rt failed_at sm m else m)
      (get_reliable_outbound sm sid k)) \<and>
    (\<forall>x. get_session_by_session_id sm' x = get_session_by_session_id sm x)"
  using assms
proof (induction refs arbitrary: sm due)
  case Nil
  then show ?case by (simp add: option.map_ident)
next
  case (Cons x refs)
  obtain sid k m where x: "x = ((sid, k), m)" by (metis surj_pair)
  with Cons.prems(1) have m: "get_reliable_outbound sm sid k = Some m" "pending m" "ro_session_id m = sid" "ro_sequence_number m = k"
    by auto
  let ?f = "if exhausted m then mark_failed failed_at ''max_attempts_exceeded''
       else (\<lambda>x. x \<lparr> ro_retry_after_seconds := resolve_reliable_retry_after_seconds cfg rt (get_session_by_session_id sm sid) m \<rparr>)"
  let ?sm = "modify_reliable_outbound sm sid k ?f"
  have new: "sid \<noteq> sid' \<or> k \<noteq> k'" if "((sid', k'), m') \<in> set refs" for sid' k' m'
    using Cons.prems(2) that x by force
  have notin: "(sid, k) \<notin> fst ` set refs" using Cons.prems(2) x by simp
  have same: "scanned cfg rt failed_at ?sm = scanned cfg rt failed_at sm" "scan_due cfg rt now ?sm = scan_due cfg rt now sm"
    by (simp_all add: scanned_def scan_due_def fun_eq_iff)
  have prem: "\<forall>((sid', k'), m') \<in> set refs. get_reliable_outbound ?sm sid' k' = Some m' \<and> pending m' \<and> ro_session_id m' = sid' \<and> ro_sequence_number m' = k'"
    using Cons.prems(1) new by (fastforce simp: get_modify_reliable_outbound)
  have fold: "fold (due_step cfg rt now failed_at) refs
      (?sm, if scan_due cfg rt now sm m then due @ [scanned cfg rt failed_at sm m] else due) = (sm', due')"
    using Cons.prems(3) by (simp add: x due_step_eq [OF m])
  have dist: "distinct (map fst refs)" using Cons.prems(2) by simp
  note ih = Cons.IH [OF prem dist fold, unfolded same]
  have "?f m = scanned cfg rt failed_at sm m" using m(3) by (simp add: scanned_def)
  then have "get_reliable_outbound sm' a b = map_option (\<lambda>m. if (a, b) \<in> fst ` set (x # refs) then scanned cfg rt failed_at sm m else m)
      (get_reliable_outbound sm a b)" for a b
    using ih m(1) notin by (auto simp: get_modify_reliable_outbound x)
  with ih show ?case by (simp add: x)
qed

lemma list_due_scan:
  assumes "sm_ok sm" and "list_due_reliable_messages cfg rt now failed_at sm = (sm', due)"
  shows "set due = {scanned cfg rt failed_at sm m | m sid k. get_reliable_outbound sm sid k = Some m \<and> pending m \<and> scan_due cfg rt now sm m}"
    and "sorted (map outbound_sort_key due)"
    and "get_reliable_outbound sm' sid k = map_option (\<lambda>m. if pending m then scanned cfg rt failed_at sm m else m) (get_reliable_outbound sm sid k)"
    and "get_session_by_session_id sm' x = get_session_by_session_id sm x"
proof -
  obtain due0 where f: "fold (due_step cfg rt now failed_at) (pending_refs sm) (sm, []) = (sm', due0)"
    and d: "due = sort_key outbound_sort_key due0"
    using assms(2) by (auto simp: list_due_reliable_messages_def split: prod.splits)
  have key: "ro_session_id m = sid \<and> ro_sequence_number m = k" if "get_reliable_outbound sm sid k = Some m" for sid k m
    using that assms(1) by (auto simp: get_reliable_outbound_def sm_ok_def reliable_ok_def outbound_ok_def split: option.splits)
  have refs: "\<forall>((sid, k), m) \<in> set (pending_refs sm). get_reliable_outbound sm sid k = Some m \<and> pending m \<and> ro_session_id m = sid \<and> ro_sequence_number m = k"
    using pending_refs_iff [OF assms(1)] key by fast
  note sf = scan_fold [OF refs distinct_pending_refs [OF assms(1)] f]
  have "set due = scanned cfg rt failed_at sm ` {m \<in> snd ` set (pending_refs sm). scan_due cfg rt now sm m}"
    unfolding d using sf by auto
  also have "snd ` set (pending_refs sm) = {m. \<exists>sid k. get_reliable_outbound sm sid k = Some m \<and> pending m}"
    using pending_refs_iff [OF assms(1)] by force
  finally show "set due = {scanned cfg rt failed_at sm m | m sid k. get_reliable_outbound sm sid k = Some m \<and> pending m \<and> scan_due cfg rt now sm m}"
    by blast
  show "sorted (map outbound_sort_key due)" unfolding d by simp
  show "get_reliable_outbound sm' sid k = map_option (\<lambda>m. if pending m then scanned cfg rt failed_at sm m else m) (get_reliable_outbound sm sid k)"
  proof (cases "get_reliable_outbound sm sid k")
    case (Some m)
    have "(sid, k) \<in> fst ` set (pending_refs sm) \<longleftrightarrow> pending m"
      using Some pending_refs_iff [OF assms(1), of sid k] by force
    with sf Some show ?thesis by simp
  qed (use sf in simp)
  show "get_session_by_session_id sm' x = get_session_by_session_id sm x" using sf by simp
qed

section \<open>Properties\<close>

text \<open>A table with a pending message whose attempts are used up, and a configuration.\<close>

definition demo_config :: runtime_config where
  "demo_config = \<lparr> cf_physical_reliable_retry_seconds = 2, cf_virtual_reliable_retry_fallback_seconds = 5,
     cf_virtual_reliable_retry_rtt_multiplier = 2, cf_virtual_reliable_retry_min_seconds = 2,
     cf_virtual_reliable_retry_max_seconds = 30, cf_virtual_session_timeout_min_seconds = 60,
     cf_virtual_session_timeout_rtt_multiplier = 6 \<rparr>"

text \<open>
  The retry scan of the session runtime hands over, in the order of their last attempt, exactly the pending messages
  that have attempts left and whose retry time has come, each with the retry time that was just resolved for it.
  A pending message without attempts left is marked failed and is never due again, at whatever time. Sessions are
  not touched.
\<close>

theorem runtime_scan_exact:
  assumes "sm_reachable isofmt sm" and "list_due_reliable_messages cfg rt now failed_at sm = (sm', due)"
  shows "sorted (map outbound_sort_key due) \<and>
    set due = {scanned cfg rt failed_at sm m | m sid k. get_reliable_outbound sm sid k = Some m \<and> pending m \<and> scan_due cfg rt now sm m} \<and>
    (get_reliable_outbound sm sid k = Some m \<and> pending m \<and> exhausted m \<longrightarrow>
       get_reliable_outbound sm' sid k = Some (mark_failed failed_at ''max_attempts_exceeded'' m) \<and>
       \<not> due_for_send (mark_failed failed_at ''max_attempts_exceeded'' m) later retry) \<and>
    get_session_by_session_id sm' x = get_session_by_session_id sm x"
proof -
  note ok = sm_reachable_ok [OF assms(1)]
  have "\<not> due_for_send (mark_failed failed_at ''max_attempts_exceeded'' m) later retry"
    by (simp add: due_for_send_def pending_def mark_failed_def)
  with list_due_scan [OF ok assms(2)] show ?thesis by (simp add: scanned_def)
qed

theorem runtime_scan_exact_witness:
  "map ro_sequence_number (snd (list_due_reliable_messages demo_config [] 100 100 demo_table)) = [1] \<and>
   sorted (map outbound_sort_key (snd (list_due_reliable_messages demo_config [] 100 100 demo_table)))"
proof -
  have "map ro_sequence_number (snd (list_due_reliable_messages demo_config [] 100 100 demo_table)) = [1]" by code_simp
  moreover obtain sm' due where "list_due_reliable_messages demo_config [] 100 100 demo_table = (sm', due)" by force
  ultimately show ?thesis using runtime_scan_exact [OF demo_table_reachable [of "\<lambda>t. []"]] by simp
qed


lemma demo_bound_route: "ns_bound_route_id demo_session = None"
  by code_simp

lemma enc_nonempty: "json_dumps v \<noteq> []"
  using starter_enc by (simp add: json_dumps_def)


end
