(* ===== verification/Pqc.thy ===== *)
theory Pqc
  imports Aes
begin

text \<open>
  \<^verbatim>\<open>app/crypto/dilithium.py\<close> and \<^verbatim>\<open>app/crypto/kyber.py\<close>: signatures and key encapsulation. The code writes the
  arguments to files, runs the \<^verbatim>\<open>openssl\<close> program on them and reads its output; the program is a parameter, a
  record of what each command computes, where \<^const>\<open>None\<close> stands for a non-zero exit status. The commands that draw
  random numbers take them as a first argument. What the code relies on are the hypotheses \<open>signature_correct\<close> and
  \<open>kem_correct\<close>.
\<close>

section \<open>The commands\<close>

record openssl =
  os_dsa_keygen :: "string \<Rightarrow> (string \<times> string) option"
  os_sign :: "string \<Rightarrow> string \<Rightarrow> string option"
  os_verify :: "string \<Rightarrow> string \<Rightarrow> string \<Rightarrow> bool"
  os_kem_keygen :: "string \<Rightarrow> (string \<times> string) option"
  os_encap :: "string \<Rightarrow> string \<Rightarrow> (string \<times> string) option"
  os_decap :: "string \<Rightarrow> string \<Rightarrow> string option"

definition run_openssl :: "'a option \<Rightarrow> 'a result" where
  "run_openssl output = (case output of None \<Rightarrow> Inl OpenSSLExecutionError | Some v \<Rightarrow> Inr v)"

lemma run_openssl_simps [simp]:
  "run_openssl (Some v) = Inr v" "run_openssl None = Inl OpenSSLExecutionError"
  "run_openssl c = Inr v \<longleftrightarrow> c = Some v"
  by (simp_all add: run_openssl_def split: option.splits)

section \<open>Signatures\<close>

text \<open>The pair of private and public key.\<close>

definition generate_dilithium_key_pair :: "openssl \<Rightarrow> string \<Rightarrow> (string \<times> string) result" where
  "generate_dilithium_key_pair os seed = run_openssl (os_dsa_keygen os seed)"

definition dilithium_sign_hex :: "openssl \<Rightarrow> string \<Rightarrow> string \<Rightarrow> string result" where
  "dilithium_sign_hex os message_hex private_key_pem =
     rbind (hex_to_bytes message_hex) (\<lambda>m. rbind (run_openssl (os_sign os m private_key_pem)) (\<lambda>s. Inr (bytes_to_hex s)))"

definition dilithium_verify_hex :: "openssl \<Rightarrow> string \<Rightarrow> string \<Rightarrow> string \<Rightarrow> bool result" where
  "dilithium_verify_hex os message_hex signature_hex public_key_pem =
     rbind (hex_to_bytes message_hex) (\<lambda>m. rbind (hex_to_bytes signature_hex) (\<lambda>s.
       rbind (run_openssl (if os_verify os m s public_key_pem then Some () else None)) (\<lambda>_. Inr True)))"

section \<open>Key encapsulation\<close>

record kyber_encapsulation_result =
  ke_ciphertext_hex :: string
  ke_shared_secret_hex :: string

definition generate_kyber_key_pair :: "openssl \<Rightarrow> string \<Rightarrow> (string \<times> string) result" where
  "generate_kyber_key_pair os seed = run_openssl (os_kem_keygen os seed)"

definition kyber_encapsulate_hex :: "openssl \<Rightarrow> string \<Rightarrow> string \<Rightarrow> kyber_encapsulation_result result" where
  "kyber_encapsulate_hex os seed public_key_pem =
     rbind (run_openssl (os_encap os seed public_key_pem)) (\<lambda>(ct, secret).
       Inr \<lparr> ke_ciphertext_hex = bytes_to_hex ct, ke_shared_secret_hex = bytes_to_hex secret \<rparr>)"

definition kyber_decapsulate_hex :: "openssl \<Rightarrow> string \<Rightarrow> string \<Rightarrow> string result" where
  "kyber_decapsulate_hex os ciphertext_hex private_key_pem =
     rbind (hex_to_bytes ciphertext_hex) (\<lambda>ct. rbind (run_openssl (os_decap os ct private_key_pem)) (\<lambda>s. Inr (bytes_to_hex s)))"

section \<open>What the code relies on\<close>

text \<open>The documented behaviour of ML-DSA and ML-KEM: an honest signature verifies, an honest ciphertext opens.\<close>

definition signature_correct :: "openssl \<Rightarrow> bool" where
  "signature_correct os \<longleftrightarrow> (\<forall>seed priv pub m s.
     os_dsa_keygen os seed = Some (priv, pub) \<and> os_sign os m priv = Some s \<longrightarrow> os_verify os m s pub)"

definition kem_correct :: "openssl \<Rightarrow> bool" where
  "kem_correct os \<longleftrightarrow> (\<forall>seed seed' priv pub ct secret.
     os_kem_keygen os seed = Some (priv, pub) \<and> os_encap os seed' pub = Some (ct, secret) \<longrightarrow>
     os_decap os ct priv = Some secret \<and> secret \<noteq> [])"

lemma verify_True_iff:
  "dilithium_verify_hex os m s pub = Inr True \<longleftrightarrow>
   (\<exists>m' s'. hex_to_bytes m = Inr m' \<and> hex_to_bytes s = Inr s' \<and> os_verify os m' s' pub)"
  by (auto simp: dilithium_verify_hex_def rbind_Inr_iff)

lemma sign_then_verify:
  assumes "signature_correct os" and "os_dsa_keygen os seed = Some (priv, pub)"
    and "dilithium_sign_hex os m priv = Inr s"
  shows "dilithium_verify_hex os m s pub = Inr True"
proof -
  obtain m' s' where "hex_to_bytes m = Inr m'" "os_sign os m' priv = Some s'" "s = bytes_to_hex s'"
    using assms(3) by (auto simp: dilithium_sign_hex_def rbind_Inr_iff)
  with assms(1,2) show ?thesis unfolding verify_True_iff signature_correct_def by auto
qed

lemma encapsulate_then_decapsulate:
  assumes "kem_correct os" and "os_kem_keygen os seed = Some (priv, pub)"
    and "kyber_encapsulate_hex os seed' pub = Inr e"
  shows "kyber_decapsulate_hex os (ke_ciphertext_hex e) priv = Inr (ke_shared_secret_hex e)"
    and "ke_shared_secret_hex e \<noteq> []"
proof -
  obtain ct secret where c: "os_encap os seed' pub = Some (ct, secret)"
    and e: "e = \<lparr> ke_ciphertext_hex = bytes_to_hex ct, ke_shared_secret_hex = bytes_to_hex secret \<rparr>"
    using assms(3) by (auto simp: kyber_encapsulate_hex_def rbind_Inr_iff)
  have "os_decap os ct priv = Some secret" "secret \<noteq> []"
    using assms(1,2) c unfolding kem_correct_def by blast+
  moreover from this have "bytes_to_hex secret \<noteq> []" by (metis length_bytes_to_hex length_0_conv mult_eq_0_iff zero_neq_numeral)
  ultimately show "kyber_decapsulate_hex os (ke_ciphertext_hex e) priv = Inr (ke_shared_secret_hex e)"
    and "ke_shared_secret_hex e \<noteq> []"
    using e by (simp_all add: kyber_decapsulate_hex_def)
qed

text \<open>A toy instance, used by the examples only: keys are the seed, a signature is the key before the message.\<close>

definition demo_openssl :: openssl where
  "demo_openssl = \<lparr> os_dsa_keygen = (\<lambda>seed. Some (seed, seed)), os_sign = (\<lambda>m k. Some (k @ m)),
     os_verify = (\<lambda>m s k. s = k @ m), os_kem_keygen = (\<lambda>seed. Some (seed, seed)),
     os_encap = (\<lambda>seed k. Some (seed, k @ seed @ ''x'')), os_decap = (\<lambda>ct k. Some (k @ ct @ ''x'')) \<rparr>"

lemma demo_openssl_laws: "signature_correct demo_openssl" "kem_correct demo_openssl"
  by (simp_all add: signature_correct_def kem_correct_def demo_openssl_def)

end
