(* ===== verification/Identity_Service.thy ===== *)
theory Identity_Service
  imports Pqc Dht_Service
begin

text \<open>
  \<^verbatim>\<open>app/identity/service.py\<close> over the tables of \<^verbatim>\<open>app/storage/models/network.py\<close> and \<^verbatim>\<open>operational.py\<close>: the local
  identities, the remote nodes a node has heard of, their endpoints and what it measured of them. A table is a list
  of rows in order of insertion; every operation runs in one transaction (\<^verbatim>\<open>session_scope\<close>), so that an exception
  leaves the tables as they were. The sessions do not flush before a query (\<^verbatim>\<open>autoflush=False\<close>): a query inside a
  transaction does not see the rows the transaction has added, which \<open>upsert_endpoint\<close> writes out. SQLite refuses
  integers of more than 64 bits (\<^const>\<open>OverflowError\<close>), sorts NULL last in descending order and takes a negative
  \<^verbatim>\<open>LIMIT\<close> for none. \<^verbatim>\<open>ORDER BY random()\<close> is an argument \<open>shuffle\<close>, the clock an argument \<open>now\<close>; the average of the round
  trip times is computed exactly. The columns \<^verbatim>\<open>created_at\<close> and \<^verbatim>\<open>updated_at\<close> are kept where an operation reads them.
\<close>

section \<open>The tables\<close>

record local_physical_node_identity =
  lp_id :: string
  lp_public_key :: string
  lp_private_key_encrypted :: string
  lp_key_algorithm :: string
  lp_status :: string
  lp_created_at :: time_us
  lp_updated_at :: time_us

record local_virtual_node_identity =
  lv_id :: string
  lv_public_key :: string
  lv_private_key_encrypted :: string
  lv_kind :: string
  lv_owner_physical_node_id :: string
  lv_expires_at :: "time_us option"
  lv_is_active :: bool
  lv_metadata_json :: "string option"
  lv_created_at :: time_us

record remote_physical_node_identity =
  rp_id :: string
  rp_public_key :: string
  rp_display_name :: "string option"
  rp_reachability_class :: "string option"
  rp_relay_capable :: bool
  rp_hole_punch_capable :: bool
  rp_protocol_version :: "string option"
  rp_status :: string
  rp_last_seen_at :: "time_us option"
  rp_last_validated_at :: "time_us option"
  rp_notes_json :: "string option"

record node_endpoint =
  ne_id :: nat
  ne_physical_node_hash_id :: string
  ne_transport :: string
  ne_host :: string
  ne_port :: int
  ne_priority :: int
  ne_is_active :: bool
  ne_last_success_at :: "time_us option"
  ne_last_failure_at :: "time_us option"
  ne_failure_count :: int
  ne_metadata_json :: "string option"

record remote_virtual_node_identity =
  rv_id :: string
  rv_public_key :: string
  rv_kind :: string
  rv_status :: string
  rv_first_seen_at :: "time_us option"
  rv_last_seen_at :: "time_us option"
  rv_expires_at :: "time_us option"
  rv_metadata_json :: "string option"

record physical_node_info_exchange_state =
  xs_remote_physical_node_id :: string
  xs_last_exchange_at :: "time_us option"
  xs_last_request_sent_at :: "time_us option"
  xs_last_response_received_at :: "time_us option"
  xs_last_announce_received_at :: "time_us option"

record rtt_info =
  ri_remote_physical_node_id :: string
  ri_min_rtt_ms :: rat
  ri_max_rtt_ms :: rat
  ri_average_rtt_ms :: rat
  ri_observed_count :: int
  ri_last_observed_at :: "time_us option"

record identity_db =
  db_local_physical :: "local_physical_node_identity list"
  db_local_virtual :: "local_virtual_node_identity list"
  db_remote_physical :: "remote_physical_node_identity list"
  db_endpoints :: "node_endpoint list"
  db_remote_virtual :: "remote_virtual_node_identity list"
  db_exchange :: "physical_node_info_exchange_state list"
  db_rtt :: "rtt_info list"

definition endpoint_failure_threshold :: int where
  "endpoint_failure_threshold = 3"

text \<open>\<^verbatim>\<open>a or b\<close> on optional strings.\<close>

definition py_or :: "string option \<Rightarrow> string option \<Rightarrow> string option" where
  "py_or a b = (case a of None \<Rightarrow> b | Some s \<Rightarrow> if s = [] then b else a)"

definition sqlite_int :: "int \<Rightarrow> int result" where
  "sqlite_int i = (if - (2 ^ 63) \<le> i \<and> i < 2 ^ 63 then Inr i else Inl OverflowError)"

definition sql_limit :: "int \<Rightarrow> 'a list \<Rightarrow> 'a list" where
  "sql_limit n xs = (if n < 0 then xs else take (nat n) xs)"

text \<open>\<^verbatim>\<open>session.get\<close>, and the change of the row it finds.\<close>

definition row_by :: "('r \<Rightarrow> string) \<Rightarrow> string \<Rightarrow> 'r list \<Rightarrow> 'r option" where
  "row_by key k rows = List.find (\<lambda>r. key r = k) rows"

definition change_row :: "('r \<Rightarrow> string) \<Rightarrow> string \<Rightarrow> ('r \<Rightarrow> 'r) \<Rightarrow> 'r list \<Rightarrow> 'r list" where
  "change_row key k f rows = map (\<lambda>r. if key r = k then f r else r) rows"

section \<open>Notes and metadata\<close>

definition empty_note :: "json \<Rightarrow> bool" where
  "empty_note v \<longleftrightarrow> v = JNull \<or> v = JStr [] \<or> v = JList []"

definition merge_notes_json :: "string option \<Rightarrow> string option \<Rightarrow> string option" where
  "merge_notes_json existing_notes_json new_notes_json =
     (let merged_notes = fold (\<lambda>(k, v) d. if empty_note v then d else dict_set k v d)
            (load_json_object new_notes_json) (load_json_object existing_notes_json)
      in if merged_notes = [] then None else Some (enc (JObj merged_notes)))"

definition normalize_endpoint_metadata_json :: "payload \<Rightarrow> string option" where
  "normalize_endpoint_metadata_json endpoint_data =
     (case as_obj (jget endpoint_data ''metadata'') of
        Some (x # m) \<Rightarrow> Some (compact_json_text (x # m))
      | _ \<Rightarrow> (case jget_nonempty_str endpoint_data ''metadata_json'' of
          None \<Rightarrow> None
        | Some s \<Rightarrow> let parsed = load_json_object (Some s) in
            if parsed = [] then None else Some (compact_json_text parsed)))"

section \<open>Local identities\<close>

definition build_node_id :: "(string \<Rightarrow> string) \<Rightarrow> string \<Rightarrow> string" where
  "build_node_id sha512 public_key = sha512 (utf8_encode public_key)"

definition protect_private_key :: "string \<Rightarrow> string" where
  "protect_private_key private_key_pem = private_key_pem"

definition get_local_physical_node :: "identity_db \<Rightarrow> local_physical_node_identity option" where
  "get_local_physical_node db =
     (case py_sorted lp_created_at (db_local_physical db) of [] \<Rightarrow> None | n # _ \<Rightarrow> Some n)"

definition ensure_local_physical_node :: "openssl \<Rightarrow> (string \<Rightarrow> string) \<Rightarrow> string \<Rightarrow> time_us \<Rightarrow> time_us \<Rightarrow>
    identity_db \<Rightarrow> identity_db \<times> local_physical_node_identity result" where
  "ensure_local_physical_node os sha512 seed now now' db =
     (case get_local_physical_node db of
        Some n \<Rightarrow> (db, Inr n)
      | None \<Rightarrow> (case generate_dilithium_key_pair os seed of
          Inl e \<Rightarrow> (db, Inl e)
        | Inr (private_key_pem, public_key) \<Rightarrow>
            let n = \<lparr> lp_id = build_node_id sha512 public_key, lp_public_key = public_key,
                  lp_private_key_encrypted = protect_private_key private_key_pem, lp_key_algorithm = ''ml-dsa-65'',
                  lp_status = ''active'', lp_created_at = now, lp_updated_at = now' \<rparr>
            in (db \<lparr> db_local_physical := db_local_physical db @ [n] \<rparr>, Inr n)))"

record physical_node_identity_result =
  pi_id :: string
  pi_public_key :: string
  pi_private_key_pem :: string
  pi_key_algorithm :: string
  pi_status :: string
  pi_created_at :: time_us
  pi_updated_at :: time_us

definition get_local_physical_node_result :: "identity_db \<Rightarrow> physical_node_identity_result option" where
  "get_local_physical_node_result db = map_option (\<lambda>n. \<lparr> pi_id = lp_id n, pi_public_key = lp_public_key n,
     pi_private_key_pem = lp_private_key_encrypted n, pi_key_algorithm = lp_key_algorithm n, pi_status = lp_status n,
     pi_created_at = lp_created_at n, pi_updated_at = lp_updated_at n \<rparr>) (get_local_physical_node db)"

definition get_local_physical_node_id :: "identity_db \<Rightarrow> string option" where
  "get_local_physical_node_id db = map_option lp_id (get_local_physical_node db)"

definition exclude_local_physical_node :: "identity_db \<Rightarrow> remote_physical_node_identity list \<Rightarrow> remote_physical_node_identity list" where
  "exclude_local_physical_node db rows = (case get_local_physical_node_id db of None \<Rightarrow> rows
     | Some i \<Rightarrow> filter (\<lambda>n. rp_id n \<noteq> i) rows)"

record virtual_node_identity_create_input =
  vc_kind :: string
  vc_owner_physical_node_id :: string
  vc_expires_at :: "time_us option"
  vc_is_active :: bool
  vc_metadata_json :: "string option"

definition create_local_virtual_node :: "openssl \<Rightarrow> (string \<Rightarrow> string) \<Rightarrow> string \<Rightarrow> time_us \<Rightarrow>
    virtual_node_identity_create_input \<Rightarrow> identity_db \<Rightarrow> identity_db \<times> local_virtual_node_identity result" where
  "create_local_virtual_node os sha512 seed now data db =
     (case generate_dilithium_key_pair os seed of
        Inl e \<Rightarrow> (db, Inl e)
      | Inr (private_key_pem, public_key) \<Rightarrow>
          let n = \<lparr> lv_id = build_node_id sha512 public_key, lv_public_key = public_key,
                lv_private_key_encrypted = protect_private_key private_key_pem, lv_kind = vc_kind data,
                lv_owner_physical_node_id = vc_owner_physical_node_id data, lv_expires_at = vc_expires_at data,
                lv_is_active = vc_is_active data, lv_metadata_json = vc_metadata_json data, lv_created_at = now \<rparr>
          in if row_by lv_id (lv_id n) (db_local_virtual db) \<noteq> None then (db, Inl IntegrityError)
             else (db \<lparr> db_local_virtual := db_local_virtual db @ [n] \<rparr>, Inr n))"

definition get_local_virtual_node_by_id :: "string \<Rightarrow> identity_db \<Rightarrow> local_virtual_node_identity option" where
  "get_local_virtual_node_by_id virtual_node_id db = row_by lv_id virtual_node_id (db_local_virtual db)"

definition list_local_virtual_nodes :: "bool \<Rightarrow> identity_db \<Rightarrow> local_virtual_node_identity list" where
  "list_local_virtual_nodes only_active db =
     py_sorted lv_created_at (filter (\<lambda>n. only_active \<longrightarrow> lv_is_active n) (db_local_virtual db))"

section \<open>Remote virtual nodes\<close>

definition get_remote_virtual_node_by_id :: "string \<Rightarrow> identity_db \<Rightarrow> remote_virtual_node_identity option" where
  "get_remote_virtual_node_by_id node_id db = row_by rv_id node_id (db_remote_virtual db)"

text \<open>\<^verbatim>\<open>column.desc()\<close> of a time that may be NULL.\<close>

definition desc_time :: "time_us option \<Rightarrow> int \<times> int" where
  "desc_time t = (case t of None \<Rightarrow> (1, 0) | Some t \<Rightarrow> (0, - t))"

definition list_remote_virtual_nodes :: "string option \<Rightarrow> identity_db \<Rightarrow> remote_virtual_node_identity list" where
  "list_remote_virtual_nodes status db =
     py_sorted (\<lambda>n. (desc_time (rv_last_seen_at n), rv_id n))
       (filter (\<lambda>n. case status of None \<Rightarrow> True | Some s \<Rightarrow> s = [] \<or> rv_status n = s) (db_remote_virtual db))"

definition upsert_remote_virtual_node :: "time_us \<Rightarrow> string \<Rightarrow> string \<Rightarrow> string \<Rightarrow> string \<Rightarrow> time_us option \<Rightarrow>
    string option \<Rightarrow> identity_db \<Rightarrow> identity_db" where
  "upsert_remote_virtual_node now node_id public_key kind status expires_at metadata_json db =
     (case row_by rv_id node_id (db_remote_virtual db) of
        None \<Rightarrow> db \<lparr> db_remote_virtual := db_remote_virtual db @ [\<lparr> rv_id = node_id, rv_public_key = public_key,
          rv_kind = kind, rv_status = status, rv_first_seen_at = Some now, rv_last_seen_at = Some now,
          rv_expires_at = expires_at, rv_metadata_json = metadata_json \<rparr>] \<rparr>
      | Some _ \<Rightarrow> db \<lparr> db_remote_virtual := change_row rv_id node_id
          (\<lambda>n. n \<lparr> rv_public_key := public_key, rv_kind := kind, rv_status := status, rv_last_seen_at := Some now,
             rv_expires_at := expires_at, rv_metadata_json := merge_notes_json (rv_metadata_json n) metadata_json \<rparr>)
          (db_remote_virtual db) \<rparr>)"

section \<open>Remote physical nodes\<close>

definition get_remote_physical_node_by_id :: "string \<Rightarrow> identity_db \<Rightarrow> remote_physical_node_identity option" where
  "get_remote_physical_node_by_id node_id db = row_by rp_id node_id (db_remote_physical db)"

record remote_physical_node_endpoint_result = endpoint_result +
  er_priority :: int
  er_is_active :: bool
  er_failure_count :: int
  er_last_success_at :: "time_us option"
  er_last_failure_at :: "time_us option"

definition endpoint_list_order :: "node_endpoint \<Rightarrow> int \<times> int \<times> int \<times> (int \<times> int) \<times> nat" where
  "endpoint_list_order e = (if ne_is_active e then 0 else 1, ne_priority e, ne_failure_count e,
     desc_time (ne_last_success_at e), ne_id e)"

definition list_remote_physical_node_endpoints ::
  "string \<Rightarrow> bool \<Rightarrow> identity_db \<Rightarrow> remote_physical_node_endpoint_result list" where
  "list_remote_physical_node_endpoints node_id only_active db =
     map (\<lambda>e. \<lparr> er_transport = ne_transport e, er_host = ne_host e, er_port = ne_port e,
         er_metadata_json = ne_metadata_json e, er_priority = ne_priority e, er_is_active = ne_is_active e,
         er_failure_count = ne_failure_count e, er_last_success_at = ne_last_success_at e,
         er_last_failure_at = ne_last_failure_at e \<rparr>)
       (py_sorted endpoint_list_order (filter (\<lambda>e. ne_physical_node_hash_id e = node_id \<and>
          (only_active \<longrightarrow> ne_is_active e)) (db_endpoints db)))"

definition find_remote_physical_node_id_by_endpoint ::
  "string \<Rightarrow> string \<Rightarrow> int \<Rightarrow> identity_db \<Rightarrow> string option result" where
  "find_remote_physical_node_id_by_endpoint transport_name host port db =
     rbind (sqlite_int port) (\<lambda>port. Inr
       (case py_sorted (\<lambda>e. (desc_time (ne_last_success_at e), ne_id e))
          (filter (\<lambda>e. ne_transport e = transport_name \<and> ne_host e = host \<and> ne_port e = port \<and> ne_is_active e)
             (db_endpoints db)) of
          [] \<Rightarrow> None | e # _ \<Rightarrow> Some (ne_physical_node_hash_id e)))"

text \<open>The rows of a node with an endpoint that satisfies a condition: the inner join, without duplicates.\<close>

definition nodes_with_endpoint ::
  "(node_endpoint \<Rightarrow> bool) \<Rightarrow> (remote_physical_node_identity \<Rightarrow> bool) \<Rightarrow> identity_db \<Rightarrow> remote_physical_node_identity list" where
  "nodes_with_endpoint P Q db = exclude_local_physical_node db (filter (\<lambda>n. Q n \<and>
     list_ex (\<lambda>e. ne_physical_node_hash_id e = rp_id n \<and> P e) (db_endpoints db)) (db_remote_physical db))"

definition validated_active :: "remote_physical_node_identity \<Rightarrow> bool" where
  "validated_active n \<longleftrightarrow> rp_status n = ''active'' \<and> rp_last_validated_at n \<noteq> None"

definition list_remote_physical_nodes_for_validation ::
  "(remote_physical_node_identity list \<Rightarrow> remote_physical_node_identity list) \<Rightarrow> int \<Rightarrow> time_us option \<Rightarrow> identity_db \<Rightarrow>
   (string \<times> string) list" where
  "list_remote_physical_nodes_for_validation shuffle limit failed_before db =
     map (\<lambda>n. (rp_id n, rp_public_key n)) (sql_limit limit (shuffle (nodes_with_endpoint
       (\<lambda>e. case failed_before of None \<Rightarrow> True | Some t \<Rightarrow>
          (case ne_last_failure_at e of None \<Rightarrow> True | Some f \<Rightarrow> f \<le> t))
       (\<lambda>n. rp_last_validated_at n = None \<and> rp_status n \<noteq> ''active'') db)))"

definition list_remote_physical_nodes_for_info_exchange ::
  "(remote_physical_node_identity list \<Rightarrow> remote_physical_node_identity list) \<Rightarrow> int \<Rightarrow> identity_db \<Rightarrow> string list" where
  "list_remote_physical_nodes_for_info_exchange shuffle limit db =
     map rp_id (sql_limit limit (shuffle (exclude_local_physical_node db (filter validated_active (db_remote_physical db)))))"

definition list_remote_physical_nodes_for_ping ::
  "(remote_physical_node_identity list \<Rightarrow> remote_physical_node_identity list) \<Rightarrow> int \<Rightarrow> identity_db \<Rightarrow> string list" where
  "list_remote_physical_nodes_for_ping shuffle limit db =
     map rp_id (sql_limit limit (shuffle (nodes_with_endpoint ne_is_active validated_active db)))"

definition list_remote_physical_nodes_for_relay_registration ::
  "(remote_physical_node_identity list \<Rightarrow> remote_physical_node_identity list) \<Rightarrow> int \<Rightarrow> identity_db \<Rightarrow> string list" where
  "list_remote_physical_nodes_for_relay_registration shuffle limit db =
     map rp_id (sql_limit limit (shuffle (nodes_with_endpoint (\<lambda>e. ne_is_active e \<and> ne_transport e = ''tcp'')
       (\<lambda>n. validated_active n \<and> rp_relay_capable n) db)))"

record remote_physical_node_route_candidate =
  cd_node_id :: string
  cd_public_key :: string
  cd_average_rtt_ms :: rat

definition list_remote_physical_nodes_for_random_walk_ttl ::
  "(remote_physical_node_identity list \<Rightarrow> remote_physical_node_identity list) \<Rightarrow> int \<Rightarrow> identity_db \<Rightarrow>
   remote_physical_node_route_candidate list" where
  "list_remote_physical_nodes_for_random_walk_ttl shuffle limit db =
     map (\<lambda>n. \<lparr> cd_node_id = rp_id n, cd_public_key = rp_public_key n,
         cd_average_rtt_ms = (case row_by ri_remote_physical_node_id (rp_id n) (db_rtt db) of
            None \<Rightarrow> 40 | Some r \<Rightarrow> ri_average_rtt_ms r) \<rparr>)
       (sql_limit limit (shuffle (nodes_with_endpoint ne_is_active validated_active db)))"

section \<open>Descriptors of remote nodes\<close>

text \<open>
  The description of an endpoint as the loop reads it. The callers pass endpoints with strings for the transport and
  the host and an integer for the port; other types are outside the model and refused.
\<close>

record endpoint_data =
  ed_transport :: string
  ed_host :: string
  ed_port :: int
  ed_priority :: "int option"
  ed_metadata_json :: "string option"

definition read_endpoint_data :: "payload \<Rightarrow> endpoint_data result" where
  "read_endpoint_data e =
     (case (dict_get e ''transport'', dict_get e ''host'', dict_get e ''port'') of
        (Some (JStr tr), Some (JStr host), Some p) \<Rightarrow>
          (case as_pyint p of
             None \<Rightarrow> Inl TypeError
           | Some port \<Rightarrow> rbind (sqlite_int (pyint_val port)) (\<lambda>port.
               Inr \<lparr> ed_transport = tr, ed_host = host, ed_port = port,
                 ed_priority = (case dict_get e ''priority'' of None \<Rightarrow> Some 0 | Some v \<Rightarrow> map_option pyint_val (as_pyint v)),
                 ed_metadata_json = normalize_endpoint_metadata_json e \<rparr>))
      | (Some _, Some _, Some _) \<Rightarrow> Inl TypeError
      | _ \<Rightarrow> Inl KeyError)"

definition read_endpoints :: "payload list \<Rightarrow> endpoint_data list result" where
  "read_endpoints endpoints = rbind (rmap read_endpoint_data endpoints) (\<lambda>ds.
     rbind (rmap (\<lambda>d. case ed_priority d of None \<Rightarrow> Inr 0 | Some p \<Rightarrow> sqlite_int p) ds) (\<lambda>_. Inr ds))"

definition same_endpoint :: "string \<Rightarrow> string \<Rightarrow> string \<Rightarrow> int \<Rightarrow> node_endpoint \<Rightarrow> bool" where
  "same_endpoint node_id transport_name host port e \<longleftrightarrow> ne_physical_node_hash_id e = node_id \<and>
     ne_transport e = transport_name \<and> ne_host e = host \<and> ne_port e = port"

definition next_endpoint_id :: "node_endpoint list \<Rightarrow> nat" where
  "next_endpoint_id rows = Suc (fold (\<lambda>r m. max (ne_id r) m) rows 0)"

definition change_endpoint :: "nat \<Rightarrow> (node_endpoint \<Rightarrow> node_endpoint) \<Rightarrow> node_endpoint list \<Rightarrow> node_endpoint list" where
  "change_endpoint i f rows = map (\<lambda>e. if ne_id e = i then f e else e) rows"

text \<open>One turn of the loop: \<open>committed\<close> are the rows before the transaction, which the query searches.\<close>

definition upsert_endpoint :: "(endpoint_data \<Rightarrow> node_endpoint \<Rightarrow> node_endpoint) \<Rightarrow> (endpoint_data \<Rightarrow> node_endpoint) \<Rightarrow>
    string \<Rightarrow> node_endpoint list \<Rightarrow> endpoint_data \<Rightarrow> node_endpoint list \<Rightarrow> node_endpoint list" where
  "upsert_endpoint changed fresh node_id committed d rows =
     (case List.find (same_endpoint node_id (ed_transport d) (ed_host d) (ed_port d)) committed of
        Some r \<Rightarrow> change_endpoint (ne_id r) (changed d) rows
      | None \<Rightarrow> rows @ [(fresh d) \<lparr> ne_id := next_endpoint_id rows \<rparr>])"

definition upsert_endpoints :: "(endpoint_data \<Rightarrow> node_endpoint \<Rightarrow> node_endpoint) \<Rightarrow> (endpoint_data \<Rightarrow> node_endpoint) \<Rightarrow>
    string \<Rightarrow> endpoint_data list \<Rightarrow> node_endpoint list \<Rightarrow> node_endpoint list" where
  "upsert_endpoints changed fresh node_id ds committed =
     fold (upsert_endpoint changed fresh node_id committed) ds committed"

definition new_endpoint :: "string \<Rightarrow> bool \<Rightarrow> time_us option \<Rightarrow> endpoint_data \<Rightarrow> node_endpoint" where
  "new_endpoint node_id is_active last_success_at d = \<lparr> ne_id = 0, ne_physical_node_hash_id = node_id,
     ne_transport = ed_transport d, ne_host = ed_host d, ne_port = ed_port d,
     ne_priority = (case ed_priority d of None \<Rightarrow> 0 | Some p \<Rightarrow> p), ne_is_active = is_active,
     ne_last_success_at = last_success_at, ne_last_failure_at = None, ne_failure_count = 0,
     ne_metadata_json = ed_metadata_json d \<rparr>"

definition refresh_endpoint :: "endpoint_data \<Rightarrow> node_endpoint \<Rightarrow> node_endpoint" where
  "refresh_endpoint d e = e \<lparr> ne_priority := (case ed_priority d of None \<Rightarrow> ne_priority e | Some p \<Rightarrow> p),
     ne_metadata_json := py_or (ed_metadata_json d) (ne_metadata_json e) \<rparr>"

definition confirm_endpoint :: "time_us \<Rightarrow> node_endpoint \<Rightarrow> node_endpoint" where
  "confirm_endpoint now e = e \<lparr> ne_is_active := True, ne_last_success_at := Some now, ne_failure_count := 0 \<rparr>"

text \<open>The descriptive arguments of both operations.\<close>

record node_description =
  nd_public_key :: string
  nd_protocol_version :: "string option"
  nd_status :: string
  nd_display_name :: "string option"
  nd_reachability_class :: "string option"
  nd_relay_capable :: bool
  nd_hole_punch_capable :: bool
  nd_notes_json :: "string option"

definition new_remote_node :: "time_us \<Rightarrow> string \<Rightarrow> node_description \<Rightarrow> string \<Rightarrow> time_us option \<Rightarrow> remote_physical_node_identity" where
  "new_remote_node now node_id nd status last_validated_at = \<lparr> rp_id = node_id, rp_public_key = nd_public_key nd,
     rp_display_name = nd_display_name nd, rp_reachability_class = nd_reachability_class nd,
     rp_relay_capable = nd_relay_capable nd, rp_hole_punch_capable = nd_hole_punch_capable nd,
     rp_protocol_version = nd_protocol_version nd, rp_status = status, rp_last_seen_at = Some now,
     rp_last_validated_at = last_validated_at, rp_notes_json = nd_notes_json nd \<rparr>"

definition describe_remote_node :: "time_us \<Rightarrow> node_description \<Rightarrow> remote_physical_node_identity \<Rightarrow> remote_physical_node_identity" where
  "describe_remote_node now nd n = n \<lparr> rp_public_key := nd_public_key nd,
     rp_display_name := py_or (nd_display_name nd) (rp_display_name n),
     rp_reachability_class := py_or (nd_reachability_class nd) (rp_reachability_class n),
     rp_relay_capable := nd_relay_capable nd, rp_hole_punch_capable := nd_hole_punch_capable nd,
     rp_protocol_version := py_or (nd_protocol_version nd) (rp_protocol_version n), rp_last_seen_at := Some now,
     rp_notes_json := merge_notes_json (rp_notes_json n) (nd_notes_json nd) \<rparr>"

definition upsert_remote_physical_node :: "time_us \<Rightarrow> string \<Rightarrow> node_description \<Rightarrow> bool \<Rightarrow> payload list \<Rightarrow>
    identity_db \<Rightarrow> identity_db \<times> unit result" where
  "upsert_remote_physical_node now node_id nd mark_validated endpoints db =
     (case read_endpoints endpoints of
        Inl e \<Rightarrow> (db, Inl e)
      | Inr ds \<Rightarrow>
          (db \<lparr> db_remote_physical := (case row_by rp_id node_id (db_remote_physical db) of
                 None \<Rightarrow> db_remote_physical db @
                   [new_remote_node now node_id nd (nd_status nd) (if mark_validated then Some now else None)]
               | Some _ \<Rightarrow> change_row rp_id node_id (\<lambda>n.
                   let n = describe_remote_node now nd n in
                   if mark_validated then n \<lparr> rp_status := nd_status nd, rp_last_validated_at := Some now \<rparr>
                   else if rp_status n \<noteq> ''active'' then n \<lparr> rp_status := nd_status nd \<rparr> else n) (db_remote_physical db)),
               db_endpoints := upsert_endpoints (\<lambda>d e. confirm_endpoint now (refresh_endpoint d e))
                 (new_endpoint node_id True (Some now)) node_id ds (db_endpoints db) \<rparr>, Inr ()))"

definition upsert_discovered_remote_physical_node :: "time_us \<Rightarrow> string \<Rightarrow> node_description \<Rightarrow> payload list \<Rightarrow>
    identity_db \<Rightarrow> identity_db \<times> unit result" where
  "upsert_discovered_remote_physical_node now node_id nd endpoints db =
     (let local_status = (if nd_status nd = ''active'' then ''discovered'' else nd_status nd);
          remote_node = row_by rp_id node_id (db_remote_physical db);
          node_was_validated = (case remote_node of None \<Rightarrow> False | Some n \<Rightarrow> validated_active n)
      in case read_endpoints endpoints of
        Inl e \<Rightarrow> (db, Inl e)
      | Inr ds \<Rightarrow>
          (db \<lparr> db_remote_physical := (case remote_node of
                 None \<Rightarrow> db_remote_physical db @ [new_remote_node now node_id nd local_status None]
               | Some _ \<Rightarrow> change_row rp_id node_id (\<lambda>n.
                   let n = describe_remote_node now nd n in
                   if rp_status n \<noteq> ''active'' then n \<lparr> rp_status := local_status \<rparr> else n) (db_remote_physical db)),
               db_endpoints := upsert_endpoints (\<lambda>d e. let e = refresh_endpoint d e in
                   if node_was_validated then e else e \<lparr> ne_is_active := False \<rparr>)
                 (new_endpoint node_id False None) node_id ds (db_endpoints db) \<rparr>, Inr ()))"

section \<open>Validation\<close>

definition with_endpoint :: "string \<Rightarrow> string \<Rightarrow> string \<Rightarrow> int \<Rightarrow> (node_endpoint \<Rightarrow> node_endpoint) \<Rightarrow>
    node_endpoint list \<Rightarrow> node_endpoint list" where
  "with_endpoint node_id transport_name host port f rows =
     (case List.find (same_endpoint node_id transport_name host port) rows of
        None \<Rightarrow> rows | Some e \<Rightarrow> change_endpoint (ne_id e) f rows)"

definition mark_remote_physical_node_validated :: "time_us \<Rightarrow> string \<Rightarrow> string \<Rightarrow> string \<Rightarrow> int \<Rightarrow>
    identity_db \<Rightarrow> identity_db \<times> remote_physical_node_identity option result" where
  "mark_remote_physical_node_validated now node_id transport_name host port db =
     (case row_by rp_id node_id (db_remote_physical db) of
        None \<Rightarrow> (db, Inr None)
      | Some n \<Rightarrow> (case sqlite_int port of
          Inl e \<Rightarrow> (db, Inl e)
        | Inr port \<Rightarrow>
            let f = (\<lambda>n. n \<lparr> rp_status := ''active'', rp_last_seen_at := Some now, rp_last_validated_at := Some now \<rparr>)
            in (db \<lparr> db_remote_physical := change_row rp_id node_id f (db_remote_physical db),
                     db_endpoints := with_endpoint node_id transport_name host port (confirm_endpoint now) (db_endpoints db) \<rparr>,
                Inr (Some (f n)))))"

definition failed_endpoint :: "time_us \<Rightarrow> node_endpoint \<Rightarrow> node_endpoint" where
  "failed_endpoint now e = (let failure_count = ne_failure_count e + 1 in
     e \<lparr> ne_last_failure_at := Some now, ne_failure_count := failure_count,
         ne_is_active := failure_count < endpoint_failure_threshold \<rparr>)"

definition mark_remote_physical_node_validation_failure :: "time_us \<Rightarrow> string \<Rightarrow> string \<Rightarrow> string \<Rightarrow> int \<Rightarrow>
    identity_db \<Rightarrow> identity_db \<times> remote_physical_node_identity option result" where
  "mark_remote_physical_node_validation_failure now node_id transport_name host port db =
     (case row_by rp_id node_id (db_remote_physical db) of
        None \<Rightarrow> (db, Inr None)
      | Some n \<Rightarrow> (case sqlite_int port of
          Inl e \<Rightarrow> (db, Inl e)
        | Inr port \<Rightarrow>
            (db \<lparr> db_endpoints := with_endpoint node_id transport_name host port (failed_endpoint now) (db_endpoints db) \<rparr>,
             Inr (Some n))))"

section \<open>Exchange of node information\<close>

definition was_physical_node_info_exchange_requested_after :: "string \<Rightarrow> time_us \<Rightarrow> identity_db \<Rightarrow> bool" where
  "was_physical_node_info_exchange_requested_after remote_physical_node_id threshold db =
     (case row_by xs_remote_physical_node_id remote_physical_node_id (db_exchange db) of
        None \<Rightarrow> False
      | Some st \<Rightarrow> (case xs_last_request_sent_at st of None \<Rightarrow> False | Some t \<Rightarrow> threshold \<le> t))"

definition get_or_create_exchange_state :: "string \<Rightarrow> identity_db \<Rightarrow> identity_db" where
  "get_or_create_exchange_state remote_physical_node_id db =
     (case row_by xs_remote_physical_node_id remote_physical_node_id (db_exchange db) of
        Some _ \<Rightarrow> db
      | None \<Rightarrow> db \<lparr> db_exchange := db_exchange db @ [\<lparr> xs_remote_physical_node_id = remote_physical_node_id,
          xs_last_exchange_at = None, xs_last_request_sent_at = None, xs_last_response_received_at = None,
          xs_last_announce_received_at = None \<rparr>] \<rparr>)"

definition change_exchange_state :: "string \<Rightarrow> (physical_node_info_exchange_state \<Rightarrow> physical_node_info_exchange_state) \<Rightarrow>
    identity_db \<Rightarrow> identity_db" where
  "change_exchange_state remote_physical_node_id f db =
     (let db = get_or_create_exchange_state remote_physical_node_id db in
      db \<lparr> db_exchange := change_row xs_remote_physical_node_id remote_physical_node_id f (db_exchange db) \<rparr>)"

definition mark_physical_node_info_exchange_request_sent :: "time_us \<Rightarrow> string \<Rightarrow> identity_db \<Rightarrow> identity_db" where
  "mark_physical_node_info_exchange_request_sent now remote_physical_node_id db =
     change_exchange_state remote_physical_node_id
       (\<lambda>st. st \<lparr> xs_last_request_sent_at := Some now, xs_last_exchange_at := Some now \<rparr>) db"

definition mark_physical_node_info_exchange_response_received :: "time_us \<Rightarrow> string \<Rightarrow> identity_db \<Rightarrow> identity_db" where
  "mark_physical_node_info_exchange_response_received now remote_physical_node_id db =
     change_exchange_state remote_physical_node_id
       (\<lambda>st. st \<lparr> xs_last_response_received_at := Some now, xs_last_exchange_at := Some now \<rparr>) db"

definition mark_physical_node_info_exchange_announce_received :: "time_us \<Rightarrow> string \<Rightarrow> identity_db \<Rightarrow> identity_db" where
  "mark_physical_node_info_exchange_announce_received now remote_physical_node_id db =
     change_exchange_state remote_physical_node_id
       (\<lambda>st. st \<lparr> xs_last_announce_received_at := Some now, xs_last_exchange_at := Some now \<rparr>) db"

section \<open>Round trip times\<close>

definition observe_rtt :: "time_us \<Rightarrow> rat \<Rightarrow> rtt_info \<Rightarrow> rtt_info" where
  "observe_rtt now observed_rtt_ms r =
     (let current_total = ri_average_rtt_ms r * of_int (ri_observed_count r);
          new_count = ri_observed_count r + 1
      in r \<lparr> ri_min_rtt_ms := min (ri_min_rtt_ms r) observed_rtt_ms, ri_max_rtt_ms := max (ri_max_rtt_ms r) observed_rtt_ms,
             ri_average_rtt_ms := (current_total + observed_rtt_ms) / of_int new_count,
             ri_observed_count := new_count, ri_last_observed_at := Some now \<rparr>)"

definition upsert_rtt_info :: "time_us \<Rightarrow> string \<Rightarrow> rat \<Rightarrow> identity_db \<Rightarrow> identity_db \<times> rtt_info option result" where
  "upsert_rtt_info now remote_physical_node_id observed_rtt_ms db =
     (if observed_rtt_ms < 0 then (db, Inl (ValueError ''The observed RTT cannot be negative.''))
      else if row_by rp_id remote_physical_node_id (db_remote_physical db) = None then (db, Inr None)
      else case row_by ri_remote_physical_node_id remote_physical_node_id (db_rtt db) of
        None \<Rightarrow>
          let r = \<lparr> ri_remote_physical_node_id = remote_physical_node_id, ri_min_rtt_ms = observed_rtt_ms,
                ri_max_rtt_ms = observed_rtt_ms, ri_average_rtt_ms = observed_rtt_ms, ri_observed_count = 1,
                ri_last_observed_at = Some now \<rparr>
          in (db \<lparr> db_rtt := db_rtt db @ [r] \<rparr>, Inr (Some r))
      | Some r \<Rightarrow>
          (db \<lparr> db_rtt := change_row ri_remote_physical_node_id remote_physical_node_id (observe_rtt now observed_rtt_ms) (db_rtt db) \<rparr>,
           Inr (Some (observe_rtt now observed_rtt_ms r))))"

section \<open>The record a node publishes of a remote node\<close>

fun str_item :: "json \<Rightarrow> string option" where
  "str_item (JStr s) = Some s"
| "str_item _ = None"

fun as_bool :: "json \<Rightarrow> bool option" where
  "as_bool (JBool b) = Some b"
| "as_bool _ = None"

definition dpnt_of_notes :: "(time_us \<Rightarrow> string) \<Rightarrow> remote_physical_node_identity \<Rightarrow> time_us \<Rightarrow> payload \<Rightarrow> payload list \<Rightarrow> string \<Rightarrow> dpnt_record" where
  "dpnt_of_notes isofmt n validated notes signed_endpoints sig =
     \<lparr> dpnt_pk_physical_node = rp_public_key n, dpnt_endpoints = signed_endpoints,
       dpnt_transport_methods = py_sorted id (remdups (List.map_filter (\<lambda>e. str_item (jget e ''transport'')) signed_endpoints)),
       dpnt_reachability_class = (case jget_nonempty_str notes ''dpnt_reachability_class'' of Some s \<Rightarrow> s
          | None \<Rightarrow> (case py_or (rp_reachability_class n) (Some ''unknown'') of Some s \<Rightarrow> s | None \<Rightarrow> [])),
       dpnt_relay_capable = (case as_bool (jget notes ''dpnt_relay_capable'') of Some b \<Rightarrow> b | None \<Rightarrow> rp_relay_capable n),
       dpnt_hole_punch_capable = (case as_bool (jget notes ''dpnt_hole_punch_capable'') of Some b \<Rightarrow> b
          | None \<Rightarrow> rp_hole_punch_capable n),
       dpnt_protocol_version = (case jget_nonempty_str notes ''dpnt_protocol_version'' of Some s \<Rightarrow> s
          | None \<Rightarrow> (case py_or (rp_protocol_version n) (Some ''1'') of Some s \<Rightarrow> s | None \<Rightarrow> [])),
       dpnt_feature_flags = (case as_list (jget notes ''dpnt_feature_flags'') of None \<Rightarrow> []
          | Some xs \<Rightarrow> List.map_filter str_item xs),
       dpnt_last_validated_at = isofmt validated,
       dpnt_status = (case jget_nonempty_str notes ''dpnt_status'' of Some s \<Rightarrow> s | None \<Rightarrow> rp_status n),
       dpnt_signature = sig, dpnt_pow_nonce = None \<rparr>"

definition build_dpnt_publish_request_for_remote_physical_node ::
  "(time_us \<Rightarrow> string) \<Rightarrow> string \<Rightarrow> identity_db \<Rightarrow> payload option" where
  "build_dpnt_publish_request_for_remote_physical_node isofmt node_id db =
     (case get_remote_physical_node_by_id node_id db of
        None \<Rightarrow> None
      | Some n \<Rightarrow>
          let notes = load_json_object (rp_notes_json n);
              signed_endpoints = canonical_endpoint_list (jget notes ''advertised_endpoints'')
          in case (jget_nonempty_str notes ''dpnt_signature'', rp_last_validated_at n) of
               (Some sig, Some validated) \<Rightarrow>
                 if signed_endpoints = [] then None
                 else Some [(''namespace'', JStr ''dpnt''), (''logical_key'', JStr (rp_id n)),
                   (''record_json'', JStr (serialize_record (Dpnt (dpnt_of_notes isofmt n validated notes signed_endpoints sig)))),
                   (''expires_at'', JNull)]
             | _ \<Rightarrow> None)"

section \<open>Rows\<close>

lemma row_by_Some_iff: "distinct (map key rows) \<Longrightarrow> row_by key k rows = Some r \<longleftrightarrow> r \<in> set rows \<and> key r = k"
  by (induction rows) (auto simp: row_by_def)

lemma row_by_None_iff: "row_by key k rows = None \<longleftrightarrow> k \<notin> key ` set rows"
  by (auto simp: row_by_def find_None_iff)

lemma row_by_change:
  assumes "\<And>r. key (f r) = key r"
  shows "row_by key k' (change_row key k f rows) = map_option (\<lambda>r. if k' = k then f r else r) (row_by key k' rows)"
  by (induction rows) (auto simp: row_by_def change_row_def assms)

lemma row_by_append: "row_by key k (rows @ [r]) = (case row_by key k rows of Some x \<Rightarrow> Some x | None \<Rightarrow> if key r = k then Some r else None)"
  by (induction rows) (auto simp: row_by_def)

lemma change_row_keys: "(\<And>r. key (f r) = key r) \<Longrightarrow> map key (change_row key k f rows) = map key rows"
  by (simp add: change_row_def)

lemma change_row_key_set: "(\<And>r. key (f r) = key r) \<Longrightarrow> key ` set (change_row key k f rows) = key ` set rows"
  using change_row_keys [of key f k rows] by (metis set_map)

text \<open>Endpoints: the columns that identify a row.\<close>

definition endpoint_id :: "node_endpoint \<Rightarrow> string \<times> string \<times> string \<times> int" where
  "endpoint_id e = (ne_physical_node_hash_id e, ne_transport e, ne_host e, ne_port e)"

lemma same_endpoint_iff: "same_endpoint node_id tr host port e \<longleftrightarrow> endpoint_id e = (node_id, tr, host, port)"
  by (auto simp: same_endpoint_def endpoint_id_def)

definition keeps_endpoint :: "(node_endpoint \<Rightarrow> node_endpoint) \<Rightarrow> bool" where
  "keeps_endpoint f \<longleftrightarrow> (\<forall>e. ne_id (f e) = ne_id e \<and> endpoint_id (f e) = endpoint_id e)"

lemma keeps_endpoint_ops [simp]:
  "keeps_endpoint (confirm_endpoint now)" "keeps_endpoint (failed_endpoint now)"
  "keeps_endpoint (refresh_endpoint d)" "keeps_endpoint (\<lambda>e. confirm_endpoint now (refresh_endpoint d e))"
  "keeps_endpoint (\<lambda>e. let e = refresh_endpoint d e in if b then e else e \<lparr> ne_is_active := False \<rparr>)"
  by (simp_all add: keeps_endpoint_def endpoint_id_def confirm_endpoint_def failed_endpoint_def refresh_endpoint_def Let_def)

lemma change_endpoint_keys:
  "keeps_endpoint f \<Longrightarrow> map ne_id (change_endpoint i f rows) = map ne_id rows"
  "keeps_endpoint f \<Longrightarrow> map endpoint_id (change_endpoint i f rows) = map endpoint_id rows"
  by (auto simp: change_endpoint_def keeps_endpoint_def)

lemma fold_max_ge: "x \<in> set xs \<Longrightarrow> f x \<le> fold (\<lambda>r m. max (f r) m) xs (a :: nat)"
  "a \<le> fold (\<lambda>r m. max (f r) m) xs (a :: nat)"
proof (induction xs arbitrary: a)
  case (Cons y ys)
  { case 1 then show ?case using Cons.IH(1) [of "max (f y) a"] Cons.IH(2) [of "max (f y) a"] by auto }
  { case 2 then show ?case using Cons.IH(2) [of "max (f y) a"] by simp }
qed simp_all

lemma next_endpoint_id_fresh: "e \<in> set rows \<Longrightarrow> ne_id e < next_endpoint_id rows"
  using fold_max_ge(1) [of e rows ne_id 0] by (simp add: next_endpoint_id_def)

section \<open>The invariant of the tables\<close>

text \<open>
  Rows have the unique keys of the schema, an endpoint belongs to a known node, failures are counted from zero, and a
  round trip average lies between the extremes.
\<close>

definition rtt_ok :: "rtt_info \<Rightarrow> bool" where
  "rtt_ok r \<longleftrightarrow> 0 \<le> ri_min_rtt_ms r \<and> ri_min_rtt_ms r \<le> ri_average_rtt_ms r \<and> ri_average_rtt_ms r \<le> ri_max_rtt_ms r \<and>
     1 \<le> ri_observed_count r"

definition endpoints_ok :: "string set \<Rightarrow> node_endpoint list \<Rightarrow> bool" where
  "endpoints_ok known rows \<longleftrightarrow> distinct (map ne_id rows) \<and>
     (\<forall>e \<in> set rows. ne_physical_node_hash_id e \<in> known \<and> 0 \<le> ne_failure_count e)"

definition identity_ok :: "identity_db \<Rightarrow> bool" where
  "identity_ok db \<longleftrightarrow> length (db_local_physical db) \<le> 1 \<and> distinct (map lv_id (db_local_virtual db)) \<and>
     distinct (map rp_id (db_remote_physical db)) \<and> distinct (map rv_id (db_remote_virtual db)) \<and>
     distinct (map xs_remote_physical_node_id (db_exchange db)) \<and> distinct (map ri_remote_physical_node_id (db_rtt db)) \<and>
     endpoints_ok (rp_id ` set (db_remote_physical db)) (db_endpoints db) \<and> list_all rtt_ok (db_rtt db)"

lemma endpoints_ok_mono: "endpoints_ok K rows \<Longrightarrow> K \<subseteq> K' \<Longrightarrow> endpoints_ok K' rows"
  by (auto simp: endpoints_ok_def)

lemma endpoints_ok_change:
  assumes "endpoints_ok K rows" and "keeps_endpoint f" and "\<And>e. 0 \<le> ne_failure_count e \<Longrightarrow> 0 \<le> ne_failure_count (f e)"
  shows "endpoints_ok K (change_endpoint i f rows)"
proof -
  have "ne_physical_node_hash_id (f e) = ne_physical_node_hash_id e" for e
    using assms(2) by (simp add: keeps_endpoint_def endpoint_id_def)
  then show ?thesis
    using assms(1,3) unfolding endpoints_ok_def change_endpoint_keys(1) [OF assms(2)] by (auto simp: change_endpoint_def)
qed

lemma endpoints_ok_with:
  assumes "endpoints_ok K rows" and "keeps_endpoint f" and "\<And>e. 0 \<le> ne_failure_count e \<Longrightarrow> 0 \<le> ne_failure_count (f e)"
  shows "endpoints_ok K (with_endpoint node_id tr host port f rows)"
  using assms by (simp add: with_endpoint_def endpoints_ok_change split: option.split)

lemma endpoints_ok_upsert:
  assumes "endpoints_ok K rows" and "\<And>d. keeps_endpoint (changed d)"
    and "\<And>d e. 0 \<le> ne_failure_count e \<Longrightarrow> 0 \<le> ne_failure_count (changed d e)" and "node_id \<in> K"
  shows "endpoints_ok K (upsert_endpoints changed (new_endpoint node_id b t) node_id ds rows)"
  unfolding upsert_endpoints_def
proof (rule fold_invariant [where Q = "\<lambda>_. True" and P = "endpoints_ok K"])
  fix d r assume r: "endpoints_ok K r"
  have "endpoints_ok K (r @ [(new_endpoint node_id b t d) \<lparr> ne_id := next_endpoint_id r \<rparr>])"
    using r next_endpoint_id_fresh [of _ r] assms(4)
    by (auto simp: endpoints_ok_def new_endpoint_def) blast
  then show "endpoints_ok K (upsert_endpoint changed (new_endpoint node_id b t) node_id rows d r)"
    using endpoints_ok_change [OF r assms(2,3)] by (simp add: upsert_endpoint_def split: option.split)
qed (simp_all add: assms(1))

text \<open>The operations that change the tables, as steps.\<close>

inductive identity_step :: "openssl \<Rightarrow> (string \<Rightarrow> string) \<Rightarrow> identity_db \<Rightarrow> identity_db \<Rightarrow> bool" for os sha512 where
  ensure_local: "identity_step os sha512 db (fst (ensure_local_physical_node os sha512 seed now now' db))"
| create_virtual: "identity_step os sha512 db (fst (create_local_virtual_node os sha512 seed now data db))"
| upsert_virtual: "identity_step os sha512 db (upsert_remote_virtual_node now node_id pk kind status ex mj db)"
| upsert_physical: "identity_step os sha512 db (fst (upsert_remote_physical_node now node_id nd v eps db))"
| upsert_discovered: "identity_step os sha512 db (fst (upsert_discovered_remote_physical_node now node_id nd eps db))"
| validated: "identity_step os sha512 db (fst (mark_remote_physical_node_validated now node_id tr host port db))"
| validation_failed: "identity_step os sha512 db (fst (mark_remote_physical_node_validation_failure now node_id tr host port db))"
| request_sent: "identity_step os sha512 db (mark_physical_node_info_exchange_request_sent now node_id db)"
| response_received: "identity_step os sha512 db (mark_physical_node_info_exchange_response_received now node_id db)"
| announce_received: "identity_step os sha512 db (mark_physical_node_info_exchange_announce_received now node_id db)"
| rtt_observed: "identity_step os sha512 db (fst (upsert_rtt_info now node_id rtt db))"

definition empty_identity_db :: identity_db where
  "empty_identity_db = \<lparr> db_local_physical = [], db_local_virtual = [], db_remote_physical = [], db_endpoints = [],
     db_remote_virtual = [], db_exchange = [], db_rtt = [] \<rparr>"

lemma describe_remote_node_id [simp]: "rp_id (describe_remote_node now nd n) = rp_id n"
  "rp_status (describe_remote_node now nd n) = rp_status n"
  "rp_last_validated_at (describe_remote_node now nd n) = rp_last_validated_at n"
  by (simp_all add: describe_remote_node_def)

lemma new_remote_node_id [simp]: "rp_id (new_remote_node now node_id nd st v) = node_id"
  "rp_status (new_remote_node now node_id nd st v) = st" "rp_last_validated_at (new_remote_node now node_id nd st v) = v"
  by (simp_all add: new_remote_node_def)

lemma remote_upsert_keys:
  assumes "distinct (map rp_id rows)" and "rp_id n = node_id" and "\<And>n. rp_id (f n) = rp_id n"
  defines "rows' \<equiv> (case row_by rp_id node_id rows of None \<Rightarrow> rows @ [n] | Some _ \<Rightarrow> change_row rp_id node_id f rows)"
  shows "distinct (map rp_id rows')" and "rp_id ` set rows' = insert node_id (rp_id ` set rows)"
proof -
  have s: "rp_id ` set (change_row rp_id node_id f rows) = rp_id ` set rows"
    by (rule change_row_key_set) (rule assms(3))
  have m: "row_by rp_id node_id rows = Some x \<Longrightarrow> node_id \<in> rp_id ` set rows" for x
    using row_by_None_iff [of rp_id node_id rows] by auto
  show "distinct (map rp_id rows')" and "rp_id ` set rows' = insert node_id (rp_id ` set rows)"
    using assms(1,2) row_by_None_iff [of rp_id node_id rows] change_row_keys [of rp_id f, OF assms(3)] s m
    by (auto simp: rows'_def insert_absorb split: option.splits)
qed

lemma identity_ok_upsert:
  assumes "identity_ok db" and "rp_id n = node_id" and "\<And>n. rp_id (f n) = rp_id n"
    and "\<And>d. keeps_endpoint (changed d)" and "\<And>d e. 0 \<le> ne_failure_count e \<Longrightarrow> 0 \<le> ne_failure_count (changed d e)"
  shows "identity_ok (db \<lparr> db_remote_physical := (case row_by rp_id node_id (db_remote_physical db) of
        None \<Rightarrow> db_remote_physical db @ [n] | Some _ \<Rightarrow> change_row rp_id node_id f (db_remote_physical db)),
      db_endpoints := upsert_endpoints changed (new_endpoint node_id b t) node_id ds (db_endpoints db) \<rparr>)"
proof -
  have d: "distinct (map rp_id (db_remote_physical db))" using assms(1) by (simp add: identity_ok_def)
  note k = remote_upsert_keys [OF d assms(2,3)]
  have e: "endpoints_ok (insert node_id (rp_id ` set (db_remote_physical db))) (db_endpoints db)"
    using assms(1) by (auto simp: identity_ok_def intro: endpoints_ok_mono)
  show ?thesis
    using assms(1) k endpoints_ok_upsert [OF e assms(4,5)] by (simp add: identity_ok_def)
qed

lemma observe_rtt_ok:
  assumes "rtt_ok r" and "0 \<le> x"
  shows "rtt_ok (observe_rtt now x r)"
proof -
  let ?c = "of_int (ri_observed_count r) :: rat"
  let ?a = "ri_average_rtt_ms r" and ?lo = "min (ri_min_rtt_ms r) x" and ?hi = "max (ri_max_rtt_ms r) x"
  have c: "1 \<le> ?c" and b: "?lo \<le> ?a" "?a \<le> ?hi" "?lo \<le> x" "x \<le> ?hi"
    using assms by (auto simp: rtt_ok_def)
  have "?lo * (?c + 1) \<le> ?a * ?c + x" and "?a * ?c + x \<le> ?hi * (?c + 1)"
    using c add_mono [OF mult_right_mono [OF b(1), of ?c] b(3)] add_mono [OF mult_right_mono [OF b(2), of ?c] b(4)]
    unfolding distrib_left by linarith+
  then have "?lo \<le> (?a * ?c + x) / (?c + 1)" "(?a * ?c + x) / (?c + 1) \<le> ?hi"
    using c by (simp_all add: pos_le_divide_eq pos_divide_le_eq)
  then show ?thesis
    using assms by (simp add: rtt_ok_def observe_rtt_def Let_def add.commute)
qed

lemma exchange_ok:
  assumes "identity_ok db" and "\<And>st. xs_remote_physical_node_id (f st) = xs_remote_physical_node_id st"
  shows "identity_ok (change_exchange_state node_id f db)"
proof -
  have "identity_ok (get_or_create_exchange_state node_id db)"
    using assms(1) row_by_None_iff [of xs_remote_physical_node_id node_id "db_exchange db"]
    by (auto simp: get_or_create_exchange_state_def identity_ok_def split: option.split)
  then show ?thesis
    by (simp add: change_exchange_state_def Let_def identity_ok_def change_row_keys [of xs_remote_physical_node_id f, OF assms(2)])
qed

lemma sort_key_Nil_iff [simp]: "sort_key f xs = [] \<longleftrightarrow> xs = []"
  by (metis set_sort set_empty)

lemma identity_ok_step:
  assumes "identity_step os sha512 db db'" and "identity_ok db"
  shows "identity_ok db'"
  using assms
proof cases
  case (ensure_local seed now now')
  with assms(2) show ?thesis
    by (auto simp: ensure_local_physical_node_def get_local_physical_node_def identity_ok_def Let_def
        split: option.split sum.split list.splits)
next
  case (create_virtual seed now data)
  with assms(2) show ?thesis
    by (auto simp: create_local_virtual_node_def identity_ok_def Let_def row_by_None_iff split: sum.split)
next
  case (upsert_virtual now node_id pk kind status ex mj)
  with assms(2) row_by_None_iff [of rv_id node_id "db_remote_virtual db"] show ?thesis
    by (auto simp: upsert_remote_virtual_node_def identity_ok_def change_row_keys [where key = rv_id] split: option.split)
next
  case (upsert_physical now node_id nd v eps)
  have "identity_ok (fst (upsert_remote_physical_node now node_id nd v eps db))"
    unfolding upsert_remote_physical_node_def
    by (cases "read_endpoints eps"; simp only: sum.case fst_conv assms(2))
      (rule identity_ok_upsert [OF assms(2)], simp_all add: Let_def, simp add: confirm_endpoint_def)
  with upsert_physical show ?thesis by simp
next
  case (upsert_discovered now node_id nd eps)
  have "identity_ok (fst (upsert_discovered_remote_physical_node now node_id nd eps db))"
    unfolding upsert_discovered_remote_physical_node_def Let_def
    by (cases "read_endpoints eps"; simp only: sum.case fst_conv assms(2))
      (rule identity_ok_upsert [OF assms(2)], simp_all add: keeps_endpoint_def endpoint_id_def refresh_endpoint_def)
  with upsert_discovered show ?thesis by simp
next
  case (validated now node_id tr host port)
  with assms(2) show ?thesis
    by (auto simp: mark_remote_physical_node_validated_def identity_ok_def Let_def confirm_endpoint_def
        change_row_keys [where key = rp_id] change_row_key_set [where key = rp_id]
        split: option.split sum.split intro!: endpoints_ok_with)
next
  case (validation_failed now node_id tr host port)
  with assms(2) show ?thesis
    by (auto simp: mark_remote_physical_node_validation_failure_def identity_ok_def failed_endpoint_def Let_def
        split: option.split sum.split intro!: endpoints_ok_with)
next
  case (rtt_observed now node_id rtt)
  have "list_all rtt_ok (change_row ri_remote_physical_node_id node_id (observe_rtt now rtt) (db_rtt db))" if "0 \<le> rtt"
    using assms(2) observe_rtt_ok [OF _ that] by (auto simp: identity_ok_def list_all_iff change_row_def)
  with rtt_observed assms(2) show ?thesis
    using row_by_None_iff [of ri_remote_physical_node_id node_id "db_rtt db"]
    by (auto simp: upsert_rtt_info_def identity_ok_def Let_def rtt_ok_def change_row_keys observe_rtt_def split: option.split)
qed (simp_all add: exchange_ok mark_physical_node_info_exchange_request_sent_def
    mark_physical_node_info_exchange_response_received_def mark_physical_node_info_exchange_announce_received_def)

section \<open>What a descriptor of an unvalidated node can change\<close>

text \<open>The tables as the DHT reads them.\<close>

definition node_tables_of :: "identity_db \<Rightarrow> node_tables" where
  "node_tables_of db = \<lparr>
     tb_local = map (\<lambda>n. \<lparr> ln_id = lp_id n, ln_public_key = lp_public_key n, ln_status = lp_status n \<rparr>) (db_local_physical db),
     tb_remote = map (\<lambda>n. \<lparr> rn_id = rp_id n, rn_public_key = rp_public_key n, rn_status = rp_status n,
       rn_last_validated_at = rp_last_validated_at n \<rparr>) (db_remote_physical db),
     tb_endpoints = map (\<lambda>e. \<lparr> ep_physical_node_hash_id = ne_physical_node_hash_id e, ep_transport = ne_transport e,
       ep_host = ne_host e, ep_port = ne_port e, ep_priority = ne_priority e, ep_is_active = ne_is_active e,
       ep_last_success_at = ne_last_success_at e \<rparr>) (db_endpoints db) \<rparr>"

definition is_validated :: "identity_db \<Rightarrow> string \<Rightarrow> bool" where
  "is_validated db i \<longleftrightarrow> (\<exists>n \<in> set (db_remote_physical db). rp_id n = i \<and> validated_active n)"

definition has_active_endpoint :: "node_endpoint list \<Rightarrow> string \<Rightarrow> bool" where
  "has_active_endpoint rows i \<longleftrightarrow> (\<exists>e \<in> set rows. ne_physical_node_hash_id e = i \<and> ne_is_active e)"

lemma pool_iff:
  "i \<in> rp_id ` set (nodes_with_endpoint ne_is_active validated_active db) \<longleftrightarrow>
   is_validated db i \<and> has_active_endpoint (db_endpoints db) i \<and> get_local_physical_node_id db \<noteq> Some i"
  unfolding nodes_with_endpoint_def exclude_local_physical_node_def is_validated_def has_active_endpoint_def
  by (auto simp: list_ex_iff image_iff split: option.split)

lemma dht_candidates_iff:
  "i \<in> nc_node_id ` set (load_node_candidates (node_tables_of db)) \<longleftrightarrow>
   (\<exists>n \<in> set (db_local_physical db). lp_id n = i \<and> lp_status n = ''active'') \<or>
   is_validated db i \<and> has_active_endpoint (db_endpoints db) i"
  unfolding load_node_candidates_def node_tables_of_def is_validated_def has_active_endpoint_def validated_active_def
  by (simp add: filter_map comp_def image_Un image_image list_ex_iff) auto

text \<open>Rows of a transaction against the rows it started from: the old rows keep their identity.\<close>

definition extends_rows :: "node_endpoint list \<Rightarrow> node_endpoint list \<Rightarrow> bool" where
  "extends_rows committed rows \<longleftrightarrow> ne_id ` set committed \<subseteq> ne_id ` set rows \<and>
     (\<forall>c \<in> set committed. \<forall>e \<in> set rows. ne_id e = ne_id c \<longrightarrow> endpoint_id e = endpoint_id c)"

lemma extends_rows_refl: "distinct (map ne_id rows) \<Longrightarrow> extends_rows rows rows"
  by (auto simp: extends_rows_def distinct_map inj_on_def)

lemma extends_rows_change:
  assumes "extends_rows committed rows" and "keeps_endpoint f"
  shows "extends_rows committed (change_endpoint i f rows)"
proof -
  have "ne_id ` set (change_endpoint i f rows) = ne_id ` set rows"
    using change_endpoint_keys(1) [OF assms(2)] by (metis set_map)
  then show ?thesis
    using assms unfolding extends_rows_def by (auto simp: change_endpoint_def keeps_endpoint_def)
qed

lemma extends_rows_append:
  assumes "extends_rows committed rows"
  shows "extends_rows committed (rows @ [e \<lparr> ne_id := next_endpoint_id rows \<rparr>])"
proof -
  have "ne_id c \<noteq> next_endpoint_id rows" if "c \<in> set committed" for c
    using assms that next_endpoint_id_fresh [of _ rows] by (force simp: extends_rows_def)
  then show ?thesis using assms unfolding extends_rows_def by auto
qed

lemma active_unchanged_step:
  assumes ext: "extends_rows committed rows" and "keeps_endpoint (changed d)"
    and keep: "i \<noteq> node_id \<or> (\<forall>e. ne_is_active (changed d e) = ne_is_active e)"
  shows "has_active_endpoint (upsert_endpoint changed (new_endpoint node_id False t) node_id committed d rows) i =
    has_active_endpoint rows i"
proof (cases "List.find (same_endpoint node_id (ed_transport d) (ed_host d) (ed_port d)) committed")
  case None
  then show ?thesis by (auto simp: upsert_endpoint_def has_active_endpoint_def new_endpoint_def)
next
  case (Some r)
  then have r: "r \<in> set committed" "ne_physical_node_hash_id r = node_id"
    by (auto simp: find_Some_iff same_endpoint_def)
  have "ne_physical_node_hash_id e = node_id" if "e \<in> set rows" "ne_id e = ne_id r" for e
    using ext r that by (auto simp: extends_rows_def endpoint_id_def)
  moreover have "ne_physical_node_hash_id (changed d e) = ne_physical_node_hash_id e" for e
    using assms(2) by (simp add: keeps_endpoint_def endpoint_id_def)
  ultimately have "ne_physical_node_hash_id (if ne_id e = ne_id r then changed d e else e) = i \<and>
      ne_is_active (if ne_id e = ne_id r then changed d e else e) \<longleftrightarrow> ne_physical_node_hash_id e = i \<and> ne_is_active e"
    if "e \<in> set rows" for e
    using keep that by auto
  with Some show ?thesis
    unfolding upsert_endpoint_def has_active_endpoint_def change_endpoint_def by (simp del: if_image_distrib)
qed

lemma active_unchanged:
  assumes "distinct (map ne_id rows)" and "\<And>d. keeps_endpoint (changed d)"
    and "i \<noteq> node_id \<or> (\<forall>d e. ne_is_active (changed d e) = ne_is_active e)"
  shows "has_active_endpoint (upsert_endpoints changed (new_endpoint node_id False t) node_id ds rows) i = has_active_endpoint rows i"
proof -
  have "extends_rows rows (upsert_endpoints changed (new_endpoint node_id False t) node_id ds rows) \<and>
    has_active_endpoint (upsert_endpoints changed (new_endpoint node_id False t) node_id ds rows) i = has_active_endpoint rows i"
    unfolding upsert_endpoints_def
  proof (rule fold_invariant [where Q = "\<lambda>_. True"])
    fix d r assume *: "extends_rows rows r \<and> has_active_endpoint r i = has_active_endpoint rows i"
    then have "extends_rows rows (upsert_endpoint changed (new_endpoint node_id False t) node_id rows d r)"
      using extends_rows_change [OF _ assms(2)] extends_rows_append
      by (simp add: upsert_endpoint_def split: option.split)
    moreover have "i \<noteq> node_id \<or> (\<forall>e. ne_is_active (changed d e) = ne_is_active e)" using assms(3) by auto
    note active_unchanged_step [where changed = changed, OF conjunct1 [OF *] assms(2) this]
    ultimately show "extends_rows rows (upsert_endpoint changed (new_endpoint node_id False t) node_id rows d r) \<and>
        has_active_endpoint (upsert_endpoint changed (new_endpoint node_id False t) node_id rows d r) i = has_active_endpoint rows i"
      using * by simp
  qed (simp_all add: extends_rows_refl assms(1))
  then show ?thesis by blast
qed

lemma validated_unchanged:
  assumes "\<And>n. rp_id (f n) = rp_id n" and "\<And>n. validated_active (f n) = validated_active n"
  shows "(\<exists>n \<in> set (change_row rp_id node_id f rows). rp_id n = i \<and> validated_active n) \<longleftrightarrow>
    (\<exists>n \<in> set rows. rp_id n = i \<and> validated_active n)"
proof -
  have "rp_id (if rp_id n = node_id then f n else n) = i \<and> validated_active (if rp_id n = node_id then f n else n) \<longleftrightarrow>
      rp_id n = i \<and> validated_active n" for n
    using assms by simp
  then show ?thesis by (simp add: change_row_def del: if_image_distrib)
qed

lemma discovered_pool:
  assumes "identity_ok db"
    and "db' = fst (upsert_discovered_remote_physical_node now node_id nd eps db)"
  shows "is_validated db' i = is_validated db i"
    and "is_validated db i \<Longrightarrow> has_active_endpoint (db_endpoints db') i = has_active_endpoint (db_endpoints db) i"
    and "db_local_physical db' = db_local_physical db"
proof -
  let ?ls = "if nd_status nd = ''active'' then ''discovered'' else nd_status nd"
  have d: "distinct (map rp_id (db_remote_physical db))" "distinct (map ne_id (db_endpoints db))"
    using assms(1) by (simp_all add: identity_ok_def endpoints_ok_def)
  have vu: "(\<exists>n \<in> set (change_row rp_id node_id (\<lambda>n. if rp_status (describe_remote_node now nd n) \<noteq> ''active''
        then (describe_remote_node now nd n) \<lparr> rp_status := ?ls \<rparr> else describe_remote_node now nd n) (db_remote_physical db)).
        rp_id n = i \<and> validated_active n) \<longleftrightarrow> is_validated db i"
    unfolding is_validated_def by (rule validated_unchanged) (auto simp: validated_active_def)
  have "(\<exists>n \<in> set (db_remote_physical db @ [new_remote_node now node_id nd ?ls None]). rp_id n = i \<and> validated_active n) \<longleftrightarrow> is_validated db i"
    by (auto simp: is_validated_def validated_active_def)
  moreover have sel: "db_remote_physical (db \<lparr> db_remote_physical := x, db_endpoints := y \<rparr>) = x" for x y by simp
  ultimately show "is_validated db' i = is_validated db i"
    using vu
    unfolding assms(2) upsert_discovered_remote_physical_node_def Let_def
    by (cases "read_endpoints eps"; cases "row_by rp_id node_id (db_remote_physical db)";
        simp only: sum.case fst_conv option.case is_validated_def [of "_ \<lparr> db_remote_physical := _, db_endpoints := _ \<rparr>"] sel)
  show "db_local_physical db' = db_local_physical db"
    by (simp add: assms(2) upsert_discovered_remote_physical_node_def Let_def split: sum.split)
  assume v: "is_validated db i"
  have "i \<noteq> node_id \<or> (case row_by rp_id node_id (db_remote_physical db) of None \<Rightarrow> False | Some n \<Rightarrow> validated_active n)"
  proof -
    from v obtain n where n: "n \<in> set (db_remote_physical db)" "rp_id n = i" "validated_active n" by (auto simp: is_validated_def)
    then have "row_by rp_id i (db_remote_physical db) = Some n" by (simp add: row_by_Some_iff [OF d(1)])
    with n(3) show ?thesis by auto
  qed
  then show "has_active_endpoint (db_endpoints db') i = has_active_endpoint (db_endpoints db) i"
    unfolding assms(2) upsert_discovered_remote_physical_node_def Let_def
    by (cases "read_endpoints eps"; simp)
      (rule active_unchanged [OF d(2)]; auto simp: keeps_endpoint_def endpoint_id_def refresh_endpoint_def split: option.splits)
qed

lemma failures_in_a_row:
  "ne_failure_count ((failed_endpoint now ^^ k) e) = ne_failure_count e + int k"
  "ne_is_active ((failed_endpoint now ^^ Suc k) e) \<longleftrightarrow> ne_failure_count e + int (Suc k) < endpoint_failure_threshold"
proof -
  show c: "ne_failure_count ((failed_endpoint now ^^ k) e) = ne_failure_count e + int k" for k
    by (induction k) (simp_all add: failed_endpoint_def Let_def)
  show "ne_is_active ((failed_endpoint now ^^ Suc k) e) \<longleftrightarrow> ne_failure_count e + int (Suc k) < endpoint_failure_threshold"
    using c [of k] by (simp add: failed_endpoint_def [of _ "(failed_endpoint now ^^ k) e"] Let_def ac_simps)
qed

lemma failures_in_tables:
  assumes "row_by rp_id node_id (db_remote_physical db) = Some n" and "sqlite_int port = Inr port"
    and "List.find (same_endpoint node_id tr host port) (db_endpoints db) = Some e"
  shows "List.find (same_endpoint node_id tr host port)
      (db_endpoints (((\<lambda>db. fst (mark_remote_physical_node_validation_failure now node_id tr host port db)) ^^ k) db)) =
    Some ((failed_endpoint now ^^ k) e) \<and>
    db_remote_physical (((\<lambda>db. fst (mark_remote_physical_node_validation_failure now node_id tr host port db)) ^^ k) db) =
    db_remote_physical db"
proof (induction k)
  case (Suc k)
  let ?g = "\<lambda>db. fst (mark_remote_physical_node_validation_failure now node_id tr host port db)"
  have keep: "find P (change_endpoint (ne_id e) f rows) = Some (f e)"
    if "find P rows = Some e" "\<And>x. P (f x) = P x" for P f rows and e :: node_endpoint
    using that by (induction rows) (auto simp: change_endpoint_def split: if_splits)
  have "same_endpoint node_id tr host port (failed_endpoint now x) = same_endpoint node_id tr host port x" for x
    by (simp add: same_endpoint_def failed_endpoint_def Let_def)
  with Suc assms keep [of "same_endpoint node_id tr host port" "db_endpoints ((?g ^^ k) db)" "(failed_endpoint now ^^ k) e" "failed_endpoint now"]
  show ?case
    by (simp add: mark_remote_physical_node_validation_failure_def with_endpoint_def)
qed (simp add: assms)

lemma row_by_rtt_step:
  assumes "row_by rp_id node_id (db_remote_physical db) = Some n" and "0 \<le> x"
  shows "row_by ri_remote_physical_node_id node_id (db_rtt (fst (upsert_rtt_info now node_id x db))) =
     Some (case row_by ri_remote_physical_node_id node_id (db_rtt db) of
        None \<Rightarrow> \<lparr> ri_remote_physical_node_id = node_id, ri_min_rtt_ms = x, ri_max_rtt_ms = x, ri_average_rtt_ms = x,
          ri_observed_count = 1, ri_last_observed_at = Some now \<rparr>
      | Some r \<Rightarrow> observe_rtt now x r)"
    and "db_remote_physical (fst (upsert_rtt_info now node_id x db)) = db_remote_physical db"
  using assms by (auto simp: upsert_rtt_info_def Let_def row_by_append row_by_change observe_rtt_def split: option.split)

lemma rtt_fold:
  assumes "row_by rp_id node_id (db_remote_physical db) = Some n"
    and "row_by ri_remote_physical_node_id node_id (db_rtt db) = None" and "xs \<noteq> []" and "list_all (\<lambda>x. 0 \<le> x) xs"
  shows "(\<exists>r. row_by ri_remote_physical_node_id node_id
        (db_rtt (fold (\<lambda>x db. fst (upsert_rtt_info now node_id x db)) xs db)) = Some r \<and>
      ri_observed_count r = int (length xs) \<and> ri_min_rtt_ms r = Min (set xs) \<and> ri_max_rtt_ms r = Max (set xs) \<and>
      ri_average_rtt_ms r * of_nat (length xs) = sum_list xs) \<and>
    db_remote_physical (fold (\<lambda>x db. fst (upsert_rtt_info now node_id x db)) xs db) = db_remote_physical db"
  using assms(3,4)
proof (induction xs rule: rev_induct)
  case (snoc x xs)
  let ?g = "\<lambda>x db. fst (upsert_rtt_info now node_id x db)"
  show ?case
  proof (cases "xs = []")
    case True
    with snoc.prems row_by_rtt_step [OF assms(1), of x now] assms(2) show ?thesis by simp
  next
    case False
    with snoc obtain r where r: "row_by ri_remote_physical_node_id node_id (db_rtt (fold ?g xs db)) = Some r"
      "ri_observed_count r = int (length xs)" "ri_min_rtt_ms r = Min (set xs)" "ri_max_rtt_ms r = Max (set xs)"
      "ri_average_rtt_ms r * of_nat (length xs) = sum_list xs"
      and p: "db_remote_physical (fold ?g xs db) = db_remote_physical db"
      by auto
    have x: "0 \<le> x" and n: "row_by rp_id node_id (db_remote_physical (fold ?g xs db)) = Some n"
      using snoc.prems p assms(1) by simp_all
    have "(1 + of_nat (length xs) :: rat) \<noteq> 0" by linarith
    then have "s * (1 + of_nat (length xs)) / (of_nat (length xs) + 1) = s" for s :: rat by (simp add: add.commute)
    with False r row_by_rtt_step [OF n x, of now] p show ?thesis
      by (simp add: observe_rtt_def Let_def min.commute max.commute)
  qed
qed simp

section \<open>Properties\<close>


definition demo_description :: node_description where
  "demo_description = \<lparr> nd_public_key = ''pk'', nd_protocol_version = Some ''1'', nd_status = ''discovered'', nd_display_name = None,
     nd_reachability_class = None, nd_relay_capable = False, nd_hole_punch_capable = False, nd_notes_json = None \<rparr>"

definition demo_endpoint_data :: payload where
  "demo_endpoint_data = [(''transport'', JStr ''tcp''), (''host'', JStr ''h''), (''port'', JInt 9), (''priority'', JInt 0), (''metadata'', JObj [])]"

definition demo_identity_db :: identity_db where
  "demo_identity_db = fst (upsert_discovered_remote_physical_node 5 ''n1'' demo_description [demo_endpoint_data] empty_identity_db)"

lemma demo_identity_db_eq: "demo_identity_db = empty_identity_db \<lparr>
    db_remote_physical := [new_remote_node 5 ''n1'' demo_description ''discovered'' None],
    db_endpoints := [\<lparr> ne_id = 1, ne_physical_node_hash_id = ''n1'', ne_transport = ''tcp'', ne_host = ''h'', ne_port = 9,
      ne_priority = 0, ne_is_active = False, ne_last_success_at = None, ne_last_failure_at = None, ne_failure_count = 0,
      ne_metadata_json = None \<rparr>] \<rparr>"
  by (simp add: demo_identity_db_def upsert_discovered_remote_physical_node_def read_endpoints_def read_endpoint_data_def
      demo_endpoint_data_def dict_get_def sqlite_int_def demo_description_def row_by_def empty_identity_db_def
      upsert_endpoints_def upsert_endpoint_def new_endpoint_def next_endpoint_id_def normalize_endpoint_metadata_json_def jget_def
      jget_nonempty_str_def)

lemma demo_identity_reachable: "(identity_step os sha512)\<^sup>*\<^sup>* empty_identity_db demo_identity_db"
  unfolding demo_identity_db_def by (rule r_into_rtranclp) (rule identity_step.upsert_discovered)


text \<open>
  C12. A descriptor that a node merely received never makes a remote node trusted: after
  \<^verbatim>\<open>upsert_discovered_remote_physical_node\<close> exactly the same nodes as before are candidates for pings and routes, and
  exactly the same nodes are candidates for the storage of DHT records, whatever the descriptor says.
\<close>

theorem discovery_changes_no_candidates:
  assumes "identity_ok db" and "db' = fst (upsert_discovered_remote_physical_node now node_id nd eps db)"
  shows "rp_id ` set (nodes_with_endpoint ne_is_active validated_active db') =
      rp_id ` set (nodes_with_endpoint ne_is_active validated_active db) \<and>
    nc_node_id ` set (load_node_candidates (node_tables_of db')) = nc_node_id ` set (load_node_candidates (node_tables_of db))"
proof -
  note d = discovered_pool [OF assms]
  have "get_local_physical_node_id db' = get_local_physical_node_id db"
    using d(3) by (simp add: get_local_physical_node_id_def get_local_physical_node_def)
  then show ?thesis
    using d by (auto simp: set_eq_iff pool_iff dht_candidates_iff simp del: set_map image_iff)
qed

theorem discovery_changes_no_candidates_witness:
  "rp_id ` set (nodes_with_endpoint ne_is_active validated_active demo_identity_db) =
      rp_id ` set (nodes_with_endpoint ne_is_active validated_active empty_identity_db) \<and>
   nc_node_id ` set (load_node_candidates (node_tables_of demo_identity_db)) =
      nc_node_id ` set (load_node_candidates (node_tables_of empty_identity_db))"
  by (rule discovery_changes_no_candidates [OF _ demo_identity_db_def])
    (simp add: identity_ok_def empty_identity_db_def endpoints_ok_def)

text \<open>
  C13. After \<open>k\<close> failed validations in a row of an endpoint with no failures so far, the endpoint is active
  exactly when \<open>k < 3\<close>, whether or not it was active before: the third failure switches it off, but the first one
  switches on an endpoint that was never reached, which a descriptor had added as inactive.
\<close>

theorem endpoint_failures:
  assumes "row_by rp_id node_id (db_remote_physical db) = Some n" and "sqlite_int port = Inr port"
    and "List.find (same_endpoint node_id tr host port) (db_endpoints db) = Some e" and "ne_failure_count e = 0" and "0 < k"
  shows "\<exists>e'. List.find (same_endpoint node_id tr host port)
      (db_endpoints (((\<lambda>db. fst (mark_remote_physical_node_validation_failure now node_id tr host port db)) ^^ k) db)) = Some e' \<and>
    (ne_is_active e' \<longleftrightarrow> k < 3) \<and> ne_failure_count e' = int k"
proof (intro exI conjI)
  obtain j where j: "k = Suc j" using assms(5) by (cases k) auto
  show "List.find (same_endpoint node_id tr host port)
      (db_endpoints (((\<lambda>db. fst (mark_remote_physical_node_validation_failure now node_id tr host port db)) ^^ k) db)) =
    Some ((failed_endpoint now ^^ k) e)"
    by (rule failures_in_tables [OF assms(1-3), THEN conjunct1])
  show "ne_is_active ((failed_endpoint now ^^ k) e) \<longleftrightarrow> k < 3"
    unfolding j failures_in_a_row(2) assms(4) endpoint_failure_threshold_def by linarith
  show "ne_failure_count ((failed_endpoint now ^^ k) e) = int k"
    unfolding failures_in_a_row(1) assms(4) by simp
qed

theorem endpoint_failures_witness:
  "\<not> ne_is_active (hd (db_endpoints demo_identity_db)) \<and>
   (\<exists>e'. List.find (same_endpoint ''n1'' ''tcp'' ''h'' 9)
      (db_endpoints (((\<lambda>db. fst (mark_remote_physical_node_validation_failure 7 ''n1'' ''tcp'' ''h'' 9 db)) ^^ 1) demo_identity_db)) = Some e' \<and>
    (ne_is_active e' \<longleftrightarrow> (1 :: nat) < 3) \<and> ne_failure_count e' = int 1)"
proof (rule conjI)
  show "\<not> ne_is_active (hd (db_endpoints demo_identity_db))" by (simp add: demo_identity_db_eq)
  show "\<exists>e'. List.find (same_endpoint ''n1'' ''tcp'' ''h'' 9)
      (db_endpoints (((\<lambda>db. fst (mark_remote_physical_node_validation_failure 7 ''n1'' ''tcp'' ''h'' 9 db)) ^^ 1) demo_identity_db)) = Some e' \<and>
    (ne_is_active e' \<longleftrightarrow> (1 :: nat) < 3) \<and> ne_failure_count e' = int 1"
    by (rule endpoint_failures [where e = "hd (db_endpoints demo_identity_db)"]) (simp_all add: demo_identity_db_eq row_by_def sqlite_int_def same_endpoint_def)
qed



end
