(* ===== verification/Protocol_Helpers.thy ===== *)
theory Protocol_Helpers
  imports Engine_Packets Identity_Service Route_Service Content_Service
begin

text \<open>
  \<^verbatim>\<open>app/core/protocols/helpers.py\<close>: how the message handlers read fields of a payload and build the header of a
  response; and what a handler gets from its surroundings. The rest of the services beside the engine are the tables
  of the identity service and of the route service, the content transfer service, what was sent to the local
  applications (\<open>sv_events\<close>, if an API service is attached) and the tasks that were started to announce a downloaded
  content (\<open>sv_publish_tasks\<close>: the download and its session). What a call draws from outside (the readings of the clock in
  order, \<^verbatim>\<open>uuid4\<close>, random bytes, the \<^verbatim>\<open>openssl\<close> program, SHA-512, the configuration) is a record \<open>handler_env\<close>.
\<close>

record node_services =
  sv_identity :: identity_db
  sv_routes :: route_table
  sv_content :: content_transfer_service
  sv_has_api :: bool
  sv_events :: "(string \<times> payload) list"
  sv_publish_tasks :: "(content_download_state \<times> string) list"

record handler_env =
  he_os :: openssl
  he_sha512 :: "string \<Rightarrow> string"
  he_clock :: "nat \<Rightarrow> time_us"
  he_uuid :: string
  he_seed :: string
  he_isofmt :: "time_us \<Rightarrow> string"
  he_session_keepalive_seconds :: int

type_synonym node_state = "engine \<times> node_services"

type_synonym handler_result = "node_state \<times> packet_processing_result result"

definition as_payload_dict :: "protocol_envelope \<Rightarrow> payload" where
  "as_payload_dict envelope = (case as_obj (pe_payload envelope) of Some p \<Rightarrow> p | None \<Rightarrow> [])"

definition build_response_header :: "payload \<Rightarrow> string \<Rightarrow> bool \<Rightarrow> string \<Rightarrow> payload" where
  "build_response_header request_header message_type include_response_to uuid =
     [(''version'', (case dict_get request_header ''version'' of None \<Rightarrow> JInt 1 | Some v \<Rightarrow> v)),
      (''message_type'', JStr message_type), (''message_id'', JStr uuid),
      (''message_sequence'', jget request_header ''message_sequence''),
      (''physical_session_id'', jget request_header ''physical_session_id''),
      (''virtual_session_id'', jget request_header ''virtual_session_id'')] @
     (if include_response_to then [(''response_to_message_id'', jget request_header ''message_id'')] else [])"

definition read_header_string :: "protocol_envelope \<Rightarrow> string \<Rightarrow> string option" where
  "read_header_string envelope field_name = jget_nonempty_str (pe_header envelope) field_name"

definition read_physical_session_id :: "protocol_envelope \<Rightarrow> string option" where
  "read_physical_session_id envelope = read_header_string envelope ''physical_session_id''"

definition read_virtual_session_id :: "protocol_envelope \<Rightarrow> string option" where
  "read_virtual_session_id envelope = read_header_string envelope ''virtual_session_id''"

definition read_string_or_none :: "payload \<Rightarrow> string \<Rightarrow> string option" where
  "read_string_or_none payload field_name = jget_nonempty_str payload field_name"

definition in_quotes :: "string \<Rightarrow> string" where
  "in_quotes s = CHR 0x27 # s @ [CHR 0x27]"

definition require_string :: "payload \<Rightarrow> string \<Rightarrow> string result" where
  "require_string payload field_name = (case read_string_or_none payload field_name of
     None \<Rightarrow> Inl (ValueError (''Field '' @ in_quotes field_name @ '' is required and must be a non-empty string.''))
   | Some v \<Rightarrow> Inr v)"

text \<open>The \<^verbatim>\<open>raise\<close> of the source stands behind a \<^verbatim>\<open>return\<close> in the same branch; it is never reached.\<close>

definition optional_string :: "payload \<Rightarrow> string \<Rightarrow> string option" where
  "optional_string payload field_name = jget_nonempty_str payload field_name"

definition require_bool :: "payload \<Rightarrow> string \<Rightarrow> bool result" where
  "require_bool payload field_name = (case jget payload field_name of
     JBool b \<Rightarrow> Inr b
   | _ \<Rightarrow> Inl (ValueError (''O campo '' @ in_quotes field_name @ '' e obrigatorio e precisa ser um booleano.'')))"

definition read_positive_keepalive_interval :: "payload \<Rightarrow> int \<Rightarrow> pyint" where
  "read_positive_keepalive_interval payload default_value =
     (case as_pyint (jget payload ''keepalive_interval_seconds'') of
        Some i \<Rightarrow> if 0 < pyint_val i then i else PyInt default_value
      | None \<Rightarrow> PyInt default_value)"

definition require_non_negative_int :: "payload \<Rightarrow> string \<Rightarrow> pyint result" where
  "require_non_negative_int payload field_name =
     (let e = Inl (ValueError (field_name @ '' precisa ser um inteiro maior ou igual a zero.'')) in
      case as_pyint (jget payload field_name) of Some i \<Rightarrow> if 0 \<le> pyint_val i then Inr i else e | None \<Rightarrow> e)"

definition require_positive_int :: "payload \<Rightarrow> string \<Rightarrow> pyint result" where
  "require_positive_int payload field_name =
     (let e = Inl (ValueError (field_name @ '' precisa ser um inteiro maior que zero.'')) in
      case as_pyint (jget payload field_name) of Some i \<Rightarrow> if 0 < pyint_val i then Inr i else e | None \<Rightarrow> e)"

text \<open>The result of a handler that accepted its message.\<close>

definition handled_result :: "protocol_envelope \<Rightarrow> string option \<Rightarrow> (string, meta) dict \<Rightarrow> packet_processing_result" where
  "handled_result envelope response_payload metadata = \<lparr> pr_protocol_name = pe_protocol_name envelope, pr_handled = True,
     pr_message_type = pe_message_type envelope, pr_response_payload = response_payload, pr_metadata = metadata \<rparr>"

text \<open>Change of the session table of the engine.\<close>

definition on_sessions :: "(session_manager \<Rightarrow> session_manager) \<Rightarrow> node_state \<Rightarrow> node_state" where
  "on_sessions f st = (case st of (en, sv) \<Rightarrow> (en \<lparr> en_sessions := f (en_sessions en) \<rparr>, sv))"

definition sessions_of :: "node_state \<Rightarrow> session_manager" where
  "sessions_of st = en_sessions (fst st)"

lemma sessions_of_on [simp]: "sessions_of (on_sessions f st) = f (sessions_of st)" "snd (on_sessions f st) = snd st"
  "sessions_of (en, sv) = en_sessions en"
  by (simp_all add: sessions_of_def on_sessions_def split: prod.split)

lemma on_sessions_comp: "on_sessions f (on_sessions g st) = on_sessions (\<lambda>sm. f (g sm)) st"
  by (simp add: on_sessions_def split: prod.split)

end
