(* ===== verification/Session_Protocol.thy ===== *)
theory Session_Protocol
  imports Protocol_Helpers
begin

text \<open>
  \<^verbatim>\<open>app/core/protocols/physical/session.py\<close>: the handshake of physical sessions (\<^verbatim>\<open>INIT\<close>, \<^verbatim>\<open>INIT_OK\<close>, \<^verbatim>\<open>KEY_CONFIRM\<close>,
  \<^verbatim>\<open>READY\<close>), keepalives, close, and the envelope of reliable messages. A handler runs on the engine and the services and
  returns the changed state with a result or an exception, which leaves the changes made so far. Inner messages of
  reliable data go back to the engine through the argument \<open>dispatch\<close>. A keepalive interval that arrives as a boolean
  is stored as the number it stands for. The log entries are left out, but not the \<^verbatim>\<open>len\<close> of a field that the
  first of them evaluates, which raises \<^verbatim>\<open>TypeError\<close> for a number.
\<close>

section \<open>Packets of the protocol\<close>

definition build_session_response :: "payload \<Rightarrow> string \<Rightarrow> string \<Rightarrow> payload \<Rightarrow> string" where
  "build_session_response request_header message_type uuid payload =
     build_json_packet_bytes (build_response_header request_header message_type False uuid) payload"

definition build_physical_session_init_payload :: "payload \<Rightarrow> string \<Rightarrow> string \<Rightarrow> payload list \<Rightarrow> int \<Rightarrow> string" where
  "build_physical_session_init_payload header initiator_physical_node_id initiator_public_key initiator_endpoints
       keepalive_interval_seconds =
     build_json_packet_bytes header
       [(''initiator_physical_node_id'', JStr initiator_physical_node_id), (''initiator_public_key'', JStr initiator_public_key),
        (''initiator_endpoints'', JList (map JObj initiator_endpoints)),
        (''keepalive_interval_seconds'', JInt keepalive_interval_seconds)]"

definition build_physical_session_init_ok_payload :: "payload \<Rightarrow> string \<Rightarrow> string \<Rightarrow> string \<Rightarrow> pyint \<Rightarrow> string" where
  "build_physical_session_init_ok_payload request_header uuid responder_ephemeral_public_key signature_hex keepalive_interval_seconds =
     build_session_response request_header ''PHYSICAL_SESSION_INIT_OK'' uuid
       [(''responder_ephemeral_public_key'', JStr responder_ephemeral_public_key), (''signature_hex'', JStr signature_hex),
        (''keepalive_interval_seconds'', json_of_pyint keepalive_interval_seconds)]"

definition build_physical_session_key_confirm_payload :: "payload \<Rightarrow> string \<Rightarrow> string \<Rightarrow> string" where
  "build_physical_session_key_confirm_payload request_header uuid encapsulated_key_hex =
     build_session_response request_header ''PHYSICAL_SESSION_KEY_CONFIRM'' uuid
       [(''encapsulated_key_hex'', JStr encapsulated_key_hex)]"

definition build_physical_session_ready_payload :: "payload \<Rightarrow> string \<Rightarrow> int \<Rightarrow> string" where
  "build_physical_session_ready_payload request_header uuid keepalive_interval_seconds =
     build_session_response request_header ''PHYSICAL_SESSION_READY'' uuid
       [(''status'', JStr ''active''), (''keepalive_interval_seconds'', JInt keepalive_interval_seconds)]"

definition build_physical_session_keepalive_ack_payload :: "payload \<Rightarrow> string \<Rightarrow> string" where
  "build_physical_session_keepalive_ack_payload request_header uuid =
     build_session_response request_header ''PHYSICAL_SESSION_KEEPALIVE_ACK'' uuid []"

section \<open>The remote endpoint of a session\<close>

definition find_known_endpoint_metadata :: "identity_db \<Rightarrow> string \<Rightarrow> string option \<Rightarrow> string option \<Rightarrow> int option \<Rightarrow> payload" where
  "find_known_endpoint_metadata db remote_physical_node_id transport_name host port =
     (case (transport_name, host, port) of
        (Some t, Some h, Some p) \<Rightarrow>
          (case List.find (\<lambda>e. er_transport e = t \<and> er_host e = h \<and> er_port e = p)
              (list_remote_physical_node_endpoints remote_physical_node_id False db) of
             None \<Rightarrow> [] | Some e \<Rightarrow> load_json_object (er_metadata_json e))
      | _ \<Rightarrow> [])"

definition merge_endpoint_metadata :: "payload \<Rightarrow> payload \<Rightarrow> payload" where
  "merge_endpoint_metadata endpoint_metadata context_metadata = fold (\<lambda>(k, v). dict_set k v) context_metadata endpoint_metadata"

definition build_endpoint_metadata_update :: "string \<Rightarrow> payload \<Rightarrow> string option \<Rightarrow> session_state_update_input" where
  "build_endpoint_metadata_update endpoint_source context_metadata fallback_target_physical_node_id =
     (let metadata = filter (\<lambda>(k, v). k \<in> {''relay_physical_node_id'', ''target_physical_node_id''} \<and>
            (case as_str v of Some s \<Rightarrow> s \<noteq> [] | None \<Rightarrow> False)) context_metadata;
          metadata = (case fallback_target_physical_node_id of
             Some t \<Rightarrow> if dict_get metadata ''target_physical_node_id'' = None \<and> t \<noteq> []
               then dict_set ''target_physical_node_id'' (JStr t) metadata else metadata
           | None \<Rightarrow> metadata);
          metadata = dict_set ''physical_endpoint_source'' (JStr endpoint_source) metadata
      in session_state_update_defaults \<lparr> su_metadata_json := Some (compact_json_text metadata) \<rparr>)"

definition read_endpoint_source :: "string option \<Rightarrow> string option" where
  "read_endpoint_source metadata_json = as_str (jget (load_json_object metadata_json) ''physical_endpoint_source'')"

definition resolve_preferred_remote_endpoint :: "identity_db \<Rightarrow> string \<Rightarrow> string option \<Rightarrow> string option \<Rightarrow> int option \<Rightarrow>
    string option \<Rightarrow> string \<Rightarrow> string option \<Rightarrow> int option \<Rightarrow> string \<times> string option \<times> int option \<times> string" where
  "resolve_preferred_remote_endpoint db remote_physical_node_id current_transport current_host current_port
       current_endpoint_source fallback_transport fallback_host fallback_port =
     (if fallback_transport = ''relay_tcp'' then (fallback_transport, fallback_host, fallback_port, ''relay'')
      else
        let known_endpoints = list_remote_physical_node_endpoints remote_physical_node_id False db in
        case List.find (\<lambda>e. er_transport e = fallback_transport) known_endpoints of
          Some e \<Rightarrow> (er_transport e, Some (er_host e), Some (er_port e), ''advertised'')
        | None \<Rightarrow> (case known_endpoints of
            e # _ \<Rightarrow> (er_transport e, Some (er_host e), Some (er_port e), ''advertised'')
          | [] \<Rightarrow> (case current_transport of
              Some t \<Rightarrow> (t, current_host, current_port,
                if current_endpoint_source = Some ''observed'' \<or> (current_host = fallback_host \<and> current_port = fallback_port)
                then ''observed'' else ''current'')
            | None \<Rightarrow> (fallback_transport, fallback_host, fallback_port, ''observed''))))"

text \<open>The metadata that is stored with the resolved endpoint.\<close>

definition endpoint_metadata_update :: "identity_db \<Rightarrow> string \<Rightarrow> string \<times> string option \<times> int option \<times> string \<Rightarrow> packet_context \<Rightarrow>
    session_state_update_input" where
  "endpoint_metadata_update db remote_id resolved ctx =
     (case resolved of (tr, host, port, source) \<Rightarrow>
        build_endpoint_metadata_update source
          (merge_endpoint_metadata (find_known_endpoint_metadata db remote_id (Some tr) host port) (pc_metadata ctx)) (Some remote_id))"

definition refresh_session_remote_endpoint :: "string \<Rightarrow> packet_context \<Rightarrow> node_state \<Rightarrow> node_state" where
  "refresh_session_remote_endpoint session_id ctx st =
     (case get_session_by_session_id (sessions_of st) session_id of
        None \<Rightarrow> st
      | Some session \<Rightarrow>
          let db = sv_identity (snd st);
              remote_id = ns_remote_identity_id session;
              resolved = resolve_preferred_remote_endpoint db remote_id (ns_transport session) (ns_remote_host session)
                (ns_remote_port session) (read_endpoint_source (ns_metadata_json session))
                (pc_transport_name ctx) (pc_remote_host ctx) (pc_remote_port ctx)
          in on_sessions (\<lambda>sm.
               let sm = (case resolved of (tr, host, port, source) \<Rightarrow> fst (bind_remote_endpoint sm session_id (Some tr) host port))
               in fst (update_session_state sm session_id (endpoint_metadata_update db remote_id resolved ctx))) st)"

section \<open>The signed part of the handshake\<close>

definition init_ok_signed_payload :: "string \<Rightarrow> string \<Rightarrow> pyint \<Rightarrow> payload" where
  "init_ok_signed_payload session_id responder_ephemeral_public_key keepalive_interval_seconds =
     [(''session_id'', JStr session_id), (''responder_ephemeral_public_key'', JStr responder_ephemeral_public_key),
      (''keepalive_interval_seconds'', json_of_pyint keepalive_interval_seconds)]"

definition sign_physical_session_init_ok :: "openssl \<Rightarrow> string \<Rightarrow> string \<Rightarrow> pyint \<Rightarrow> string \<Rightarrow> string result" where
  "sign_physical_session_init_ok os session_id responder_ephemeral_public_key keepalive_interval_seconds local_private_key_pem =
     dilithium_sign_hex os (canonical_payload_hex
       (init_ok_signed_payload session_id responder_ephemeral_public_key keepalive_interval_seconds)) local_private_key_pem"

definition verify_physical_session_init_ok :: "openssl \<Rightarrow> string \<Rightarrow> string \<Rightarrow> pyint \<Rightarrow> string \<Rightarrow> string \<Rightarrow> bool" where
  "verify_physical_session_init_ok os session_id responder_ephemeral_public_key keepalive_interval_seconds signature_hex
       remote_public_key_pem =
     (case dilithium_verify_hex os (canonical_payload_hex
         (init_ok_signed_payload session_id responder_ephemeral_public_key keepalive_interval_seconds)) signature_hex
         remote_public_key_pem of
        Inr b \<Rightarrow> b | Inl _ \<Rightarrow> False)"

section \<open>The handshake\<close>

definition session_invalid :: "protocol_envelope \<Rightarrow> string \<Rightarrow> packet_processing_result" where
  "session_invalid envelope reason = build_invalid_result ''session'' envelope reason"

definition session_meta :: "packet_context \<Rightarrow> string \<Rightarrow> string \<Rightarrow> (string, meta) dict" where
  "session_meta ctx action session_id = [(''protocol_family'', mstr ''session''), (''transport_name'', mstr (pc_transport_name ctx)),
     (''action'', mstr action), (''session_id'', mstr session_id)]"

text \<open>\<^verbatim>\<open>len(value or [])\<close> raises for a number that is not zero.\<close>

fun has_len :: "json \<Rightarrow> bool" where
  "has_len (JInt i) \<longleftrightarrow> i = 0"
| "has_len (JFloat m k) \<longleftrightarrow> m = 0"
| "has_len (JBool b) \<longleftrightarrow> \<not> b"
| "has_len _ \<longleftrightarrow> True"

definition persist_initiator_node_descriptor :: "handler_env \<Rightarrow> payload \<Rightarrow> string \<Rightarrow> node_state \<Rightarrow> node_state \<times> unit result" where
  "persist_initiator_node_descriptor he payload initiator_physical_node_id st =
     (case jget_nonempty_str payload ''initiator_public_key'' of
        None \<Rightarrow> (st, Inr ())
      | Some initiator_public_key \<Rightarrow>
          if he_sha512 he (utf8_encode initiator_public_key) \<noteq> initiator_physical_node_id then (st, Inr ())
          else
            let initiator_endpoints = normalize_endpoint_list (jget payload ''initiator_endpoints'') in
            if initiator_endpoints = [] then (st, Inr ())
            else (case upsert_discovered_remote_physical_node (he_clock he 0) initiator_physical_node_id
                \<lparr> nd_public_key = initiator_public_key, nd_protocol_version = Some ''1'', nd_status = ''discovered'',
                  nd_display_name = None, nd_reachability_class = None, nd_relay_capable = False,
                  nd_hole_punch_capable = False,
                  nd_notes_json = Some (compact_json_text [(''source'', JStr ''physical_session_init'')]) \<rparr>
                initiator_endpoints (sv_identity (snd st)) of
              (db, r) \<Rightarrow> ((fst st, (snd st) \<lparr> sv_identity := db \<rparr>), r)))"

definition handle_physical_session_init :: "handler_env \<Rightarrow> protocol_envelope \<Rightarrow> packet_context \<Rightarrow> node_state \<Rightarrow> handler_result" where
  "handle_physical_session_init he envelope ctx st =
     (let payload = as_payload_dict envelope;
          keepalive_interval_seconds = read_positive_keepalive_interval payload (he_session_keepalive_seconds he)
      in case get_local_physical_node_result (sv_identity (snd st)) of
        None \<Rightarrow> (st, Inr (session_invalid envelope ''local_physical_node_not_initialized''))
      | Some local_node \<Rightarrow> (case (read_physical_session_id envelope, as_str (jget payload ''initiator_physical_node_id'')) of
          (Some session_id, Some initiator_physical_node_id) \<Rightarrow>
            (case persist_initiator_node_descriptor he payload initiator_physical_node_id st of
               (st, Inl e) \<Rightarrow> (st, Inl e)
             | (st, Inr _) \<Rightarrow>
                 if \<not> has_len (jget payload ''initiator_endpoints'') then (st, Inl TypeError)
                 else
                   let db = sv_identity (snd st);
                       remote_node = get_remote_physical_node_by_id initiator_physical_node_id db;
                       resolved = resolve_preferred_remote_endpoint db initiator_physical_node_id None None None None
                         (pc_transport_name ctx) (pc_remote_host ctx) (pc_remote_port ctx)
                   in case resolved of (tr, host, port, source) \<Rightarrow>
                     (case create_inbound_physical_session (sessions_of st) session_id (pi_id local_node) initiator_physical_node_id
                         (map_option rp_public_key remote_node) tr host port (pyint_val keepalive_interval_seconds)
                         (he_clock he 1) (he_clock he 2) of
                        Inl e \<Rightarrow> (st, Inl e)
                      | Inr (sm, session) \<Rightarrow>
                          let st = on_sessions (\<lambda>_. fst (update_session_state sm session_id
                                (endpoint_metadata_update db initiator_physical_node_id resolved ctx))) st
                          in case generate_kyber_key_pair (he_os he) (he_seed he) of
                               Inl e \<Rightarrow> (st, Inl e)
                             | Inr (private_key_pem, public_key_pem) \<Rightarrow>
                                 let st = on_sessions (\<lambda>sm. fst (store_local_ephemeral_keypair sm session_id private_key_pem
                                       public_key_pem ''init_ok_sent'' (he_clock he 3) (he_clock he 4))) st
                                 in case sign_physical_session_init_ok (he_os he) session_id public_key_pem
                                       keepalive_interval_seconds (pi_private_key_pem local_node) of
                                      Inl e \<Rightarrow> (st, Inl e)
                                    | Inr signature_hex \<Rightarrow>
                                        (st, Inr (handled_result envelope
                                          (Some (build_physical_session_init_ok_payload (pe_header envelope) (he_uuid he)
                                             public_key_pem signature_hex keepalive_interval_seconds))
                                          (session_meta ctx ''physical_session_init_ok_sent'' (ns_session_id session))))))
        | _ \<Rightarrow> (st, Inr (session_invalid envelope ''invalid_physical_session_init''))))"

definition handle_physical_session_init_ok :: "handler_env \<Rightarrow> protocol_envelope \<Rightarrow> packet_context \<Rightarrow> node_state \<Rightarrow> handler_result" where
  "handle_physical_session_init_ok he envelope ctx st =
     (let payload = as_payload_dict envelope;
          keepalive_interval_seconds = read_positive_keepalive_interval payload (he_session_keepalive_seconds he)
      in case (read_physical_session_id envelope, as_str (jget payload ''responder_ephemeral_public_key''),
               as_str (jget payload ''signature_hex'')) of
        (Some session_id, Some responder_ephemeral_public_key, Some signature_hex) \<Rightarrow>
          (case get_session_by_session_id (sessions_of st) session_id of
             None \<Rightarrow> (st, Inr (session_invalid envelope ''physical_session_not_found''))
           | Some session \<Rightarrow>
               let st = refresh_session_remote_endpoint session_id ctx st in
               (case ns_remote_public_key session of
                  Some (c # cs) \<Rightarrow>
                    if \<not> verify_physical_session_init_ok (he_os he) session_id responder_ephemeral_public_key
                         keepalive_interval_seconds signature_hex (c # cs)
                    then (on_sessions (\<lambda>sm. fst (close_session sm session_id ''invalid_init_ok_signature'' (he_clock he 0))) st,
                          Inr (session_invalid envelope ''invalid_physical_session_init_ok_signature''))
                    else
                      let st = on_sessions (\<lambda>sm. fst (touch_session
                            (fst (store_remote_ephemeral_public_key sm session_id responder_ephemeral_public_key
                               ''init_ok_verified'' (he_clock he 0) (he_clock he 1)))
                            session_id (Some (pyint_val keepalive_interval_seconds)) (he_clock he 2) (he_clock he 3))) st
                      in (case kyber_encapsulate_hex (he_os he) (he_seed he) responder_ephemeral_public_key of
                            Inl e \<Rightarrow> (st, Inl e)
                          | Inr encapsulation \<Rightarrow>
                              (on_sessions (\<lambda>sm. fst (store_shared_secret sm session_id (ke_shared_secret_hex encapsulation)
                                 ''key_confirm_sent'' ''pending'' (he_clock he 4) (he_clock he 5))) st,
                               Inr (handled_result envelope
                                 (Some (build_physical_session_key_confirm_payload (pe_header envelope) (he_uuid he)
                                    (ke_ciphertext_hex encapsulation)))
                                 (session_meta ctx ''physical_session_key_confirm_sent'' session_id))))
                | _ \<Rightarrow> (st, Inr (session_invalid envelope ''remote_physical_node_public_key_not_found''))))
      | _ \<Rightarrow> (st, Inr (session_invalid envelope ''invalid_physical_session_init_ok'')))"

definition handle_physical_session_key_confirm :: "handler_env \<Rightarrow> protocol_envelope \<Rightarrow> packet_context \<Rightarrow> node_state \<Rightarrow> handler_result" where
  "handle_physical_session_key_confirm he envelope ctx st =
     (let payload = as_payload_dict envelope
      in case (read_physical_session_id envelope, as_str (jget payload ''encapsulated_key_hex'')) of
        (Some session_id, Some encapsulated_key_hex) \<Rightarrow>
          (case get_session_by_session_id (sessions_of st) session_id of
             None \<Rightarrow> (st, Inr (session_invalid envelope ''physical_session_ephemeral_key_not_found''))
           | Some session \<Rightarrow> (case ns_local_ephemeral_private_key session of
               Some (c # cs) \<Rightarrow>
                 let st = refresh_session_remote_endpoint session_id ctx st in
                 (case kyber_decapsulate_hex (he_os he) encapsulated_key_hex (c # cs) of
                    Inl e \<Rightarrow> (st, Inl e)
                  | Inr shared_secret_hex \<Rightarrow>
                      (on_sessions (\<lambda>sm. fst (activate_session
                         (fst (store_shared_secret sm session_id shared_secret_hex ''ready_sent'' ''pending'' (he_clock he 0) (he_clock he 1)))
                         session_id (he_clock he 2) (he_clock he 3))) st,
                       Inr (handled_result envelope
                         (Some (build_physical_session_ready_payload (pe_header envelope) (he_uuid he)
                            (ns_keepalive_interval_seconds session)))
                         (session_meta ctx ''physical_session_ready_sent'' session_id))))
             | _ \<Rightarrow> (st, Inr (session_invalid envelope ''physical_session_ephemeral_key_not_found''))))
      | _ \<Rightarrow> (st, Inr (session_invalid envelope ''invalid_physical_session_key_confirm'')))"

definition handle_physical_session_ready :: "handler_env \<Rightarrow> protocol_envelope \<Rightarrow> packet_context \<Rightarrow> node_state \<Rightarrow> handler_result" where
  "handle_physical_session_ready he envelope ctx st =
     (let payload = as_payload_dict envelope;
          keepalive_interval_seconds = read_positive_keepalive_interval payload (he_session_keepalive_seconds he)
      in case read_physical_session_id envelope of
        None \<Rightarrow> (st, Inr (session_invalid envelope ''invalid_physical_session_ready''))
      | Some session_id \<Rightarrow>
          (case get_session_by_session_id (sessions_of st) session_id of
             None \<Rightarrow> (st, Inr (session_invalid envelope ''physical_session_shared_secret_not_found''))
           | Some session \<Rightarrow> (case ns_shared_secret_hex session of
               Some (c # cs) \<Rightarrow>
                 (on_sessions (\<lambda>sm. fst (activate_session
                    (fst (touch_session sm session_id (Some (pyint_val keepalive_interval_seconds)) (he_clock he 0) (he_clock he 1)))
                    session_id (he_clock he 2) (he_clock he 3))) (refresh_session_remote_endpoint session_id ctx st),
                  Inr (handled_result envelope None (session_meta ctx ''physical_session_activated'' session_id)))
             | _ \<Rightarrow> (st, Inr (session_invalid envelope ''physical_session_shared_secret_not_found'')))))"

section \<open>Established sessions\<close>

text \<open>The envelope of an inner message and the loop that hands the delivered messages to the engine.\<close>

definition inner_envelope :: "protocol_envelope \<Rightarrow> reliable_inbound_message \<Rightarrow> protocol_envelope" where
  "inner_envelope envelope inbound = \<lparr> pe_protocol_name = pe_protocol_name envelope,
     pe_message_type = Some (ri_inner_message_type inbound), pe_payload = JObj (ri_inner_payload inbound),
     pe_raw_payload = pe_raw_payload envelope,
     pe_header = dict_set ''reliable_sequence_number'' (json_of_pyint (ri_sequence_number inbound))
       (dict_set ''reliable_message_id'' (JStr (ri_reliable_message_id inbound))
       (dict_set ''message_type'' (JStr (ri_inner_message_type inbound)) (pe_header envelope))) \<rparr>"

fun dispatch_deliveries :: "(protocol_envelope \<Rightarrow> packet_context \<Rightarrow> node_state \<Rightarrow> handler_result) option \<Rightarrow> protocol_envelope \<Rightarrow>
    packet_context \<Rightarrow> reliable_inbound_message list \<Rightarrow> int \<Rightarrow> packet_processing_result option \<Rightarrow> node_state \<Rightarrow>
    node_state \<times> (int \<times> packet_processing_result option) result" where
  "dispatch_deliveries dispatch envelope ctx [] delivered_count last_inner_result st = (st, Inr (delivered_count, last_inner_result))"
| "dispatch_deliveries dispatch envelope ctx (inbound # rest) delivered_count last_inner_result st =
     (case dispatch of
        None \<Rightarrow> dispatch_deliveries dispatch envelope ctx rest delivered_count last_inner_result st
      | Some d \<Rightarrow> (case d (inner_envelope envelope inbound) ctx st of
          (st, Inl e) \<Rightarrow> (st, Inl e)
        | (st, Inr r) \<Rightarrow> dispatch_deliveries dispatch envelope ctx rest (delivered_count + 1) (Some r) st))"

definition handle_physical_session_reliable_data :: "(protocol_envelope \<Rightarrow> packet_context \<Rightarrow> node_state \<Rightarrow> handler_result) option \<Rightarrow>
    handler_env \<Rightarrow> protocol_envelope \<Rightarrow> packet_context \<Rightarrow> node_state \<Rightarrow> handler_result" where
  "handle_physical_session_reliable_data dispatch he envelope ctx st =
     (case read_physical_session_id envelope of
        None \<Rightarrow> (st, Inr (session_invalid envelope ''invalid_physical_reliable_session_id''))
      | Some session_id \<Rightarrow>
          let (sm, session) = touch_session (sessions_of st) session_id None (he_clock he 0) (he_clock he 1);
              st = on_sessions (\<lambda>_. sm) st
          in if (case session of None \<Rightarrow> True | Some s \<Rightarrow> ns_session_scope s \<noteq> ''physical'')
             then (st, Inr (session_invalid envelope ''physical_session_not_found''))
             else
               let st = refresh_session_remote_endpoint session_id ctx st in
               (case receive_reliable_inbound (he_isofmt he) (sessions_of st) session_id (as_payload_dict envelope)
                   (he_clock he 2) (he_clock he 3) of
                  (sm, Inl (ValueError reason)) \<Rightarrow> (on_sessions (\<lambda>_. sm) st, Inr (session_invalid envelope reason))
                | (sm, Inl e) \<Rightarrow> (on_sessions (\<lambda>_. sm) st, Inl e)
                | (sm, Inr receive_result) \<Rightarrow>
                    (case dispatch_deliveries dispatch envelope ctx (rr_deliveries receive_result) 0 None (on_sessions (\<lambda>_. sm) st) of
                       (st, Inl e) \<Rightarrow> (st, Inl e)
                     | (st, Inr (delivered_count, last_inner_result)) \<Rightarrow>
                         (st, Inr (handled_result envelope
                           (Some (build_session_response (pe_header envelope) ''PHYSICAL_SESSION_RELIABLE_ACK'' (he_uuid he)
                              (rr_ack_payload receive_result)))
                           (session_meta ctx ''physical_reliable_ack_sent'' session_id @
                            [(''delivered_count'', MJson (JInt delivered_count)),
                             (''inner_action'', (case last_inner_result of None \<Rightarrow> MJson JNull
                                | Some r \<Rightarrow> (case dict_get (pr_metadata r) ''action'' of None \<Rightarrow> MJson JNull | Some m \<Rightarrow> m)))]))))))"

definition handle_physical_session_reliable_ack :: "handler_env \<Rightarrow> protocol_envelope \<Rightarrow> packet_context \<Rightarrow> node_state \<Rightarrow> handler_result" where
  "handle_physical_session_reliable_ack he envelope ctx st =
     (let payload = as_payload_dict envelope
      in case (read_physical_session_id envelope, as_pyint (jget payload ''ack_for_sequence_number''),
               jget_nonempty_str payload ''ack_for_message_id'') of
        (Some session_id, Some ack_for_sequence, Some ack_for_message_id) \<Rightarrow>
          let st = refresh_session_remote_endpoint session_id ctx st;
              (sm, acked) = mark_reliable_outbound_acked (sessions_of st) session_id (pyint_val ack_for_sequence)
                ack_for_message_id (he_clock he 0)
          in (on_sessions (\<lambda>_. fst (touch_session sm session_id None (he_clock he 1) (he_clock he 2))) st,
              Inr (handled_result envelope None (session_meta ctx ''physical_reliable_ack_received'' session_id @
                [(''ack_matched'', MJson (JBool (acked \<noteq> None)))])))
      | _ \<Rightarrow> (st, Inr (session_invalid envelope ''invalid_physical_reliable_ack'')))"

definition handle_physical_session_keepalive :: "handler_env \<Rightarrow> protocol_envelope \<Rightarrow> packet_context \<Rightarrow> node_state \<Rightarrow> handler_result" where
  "handle_physical_session_keepalive he envelope ctx st =
     (case read_physical_session_id envelope of
        None \<Rightarrow> (st, Inr (session_invalid envelope ''invalid_physical_session_keepalive''))
      | Some session_id \<Rightarrow> (case touch_session (sessions_of st) session_id None (he_clock he 0) (he_clock he 1) of
          (sm, None) \<Rightarrow> (on_sessions (\<lambda>_. sm) st, Inr (session_invalid envelope ''physical_session_not_found''))
        | (sm, Some _) \<Rightarrow> (refresh_session_remote_endpoint session_id ctx (on_sessions (\<lambda>_. sm) st),
            Inr (handled_result envelope (Some (build_physical_session_keepalive_ack_payload (pe_header envelope) (he_uuid he)))
              (session_meta ctx ''physical_session_keepalive_ack_sent'' session_id)))))"

definition handle_physical_session_keepalive_ack :: "handler_env \<Rightarrow> protocol_envelope \<Rightarrow> packet_context \<Rightarrow> node_state \<Rightarrow> handler_result" where
  "handle_physical_session_keepalive_ack he envelope ctx st =
     (case read_physical_session_id envelope of
        None \<Rightarrow> (st, Inr (session_invalid envelope ''invalid_physical_session_keepalive_ack''))
      | Some session_id \<Rightarrow> (case touch_session (sessions_of st) session_id None (he_clock he 0) (he_clock he 1) of
          (sm, None) \<Rightarrow> (on_sessions (\<lambda>_. sm) st, Inr (session_invalid envelope ''physical_session_not_found''))
        | (sm, Some _) \<Rightarrow> (refresh_session_remote_endpoint session_id ctx (on_sessions (\<lambda>_. sm) st),
            Inr (handled_result envelope None (session_meta ctx ''physical_session_keepalive_ack_received'' session_id)))))"

definition handle_physical_session_close :: "handler_env \<Rightarrow> protocol_envelope \<Rightarrow> packet_context \<Rightarrow> node_state \<Rightarrow> handler_result" where
  "handle_physical_session_close he envelope ctx st =
     (case read_physical_session_id envelope of
        None \<Rightarrow> (st, Inr (session_invalid envelope ''invalid_physical_session_close''))
      | Some session_id \<Rightarrow>
          let close_reason = (case as_str (jget (as_payload_dict envelope) ''close_reason'') of Some r \<Rightarrow> r | None \<Rightarrow> ''remote_closed'')
          in (case close_session (sessions_of st) session_id close_reason (he_clock he 0) of
                (sm, None) \<Rightarrow> (on_sessions (\<lambda>_. sm) st, Inr (session_invalid envelope ''physical_session_not_found''))
              | (sm, Some _) \<Rightarrow> (on_sessions (\<lambda>_. sm) st,
                  Inr (handled_result envelope None (session_meta ctx ''physical_session_closed'' session_id)))))"

definition session_not_implemented :: "protocol_envelope \<Rightarrow> packet_context \<Rightarrow> node_state \<Rightarrow> packet_processing_result" where
  "session_not_implemented envelope ctx st = handled_result envelope None
     [(''protocol_family'', mstr ''session''), (''transport_name'', mstr (pc_transport_name ctx)),
      (''session_count'', MJson (JInt (int (length (list_sessions (sessions_of st) None))))),
      (''next_step'', mstr ''implement_virtual_session_protocol_flow'')]"

definition session_handle :: "(protocol_envelope \<Rightarrow> packet_context \<Rightarrow> node_state \<Rightarrow> handler_result) option \<Rightarrow> handler_env \<Rightarrow>
    protocol_envelope \<Rightarrow> packet_context \<Rightarrow> node_state \<Rightarrow> handler_result" where
  "session_handle dispatch he envelope ctx st =
     (if pe_message_type envelope = Some ''PHYSICAL_SESSION_INIT'' then handle_physical_session_init he envelope ctx st
      else if pe_message_type envelope = Some ''PHYSICAL_SESSION_INIT_OK'' then handle_physical_session_init_ok he envelope ctx st
      else if pe_message_type envelope = Some ''PHYSICAL_SESSION_KEY_CONFIRM'' then handle_physical_session_key_confirm he envelope ctx st
      else if pe_message_type envelope = Some ''PHYSICAL_SESSION_READY'' then handle_physical_session_ready he envelope ctx st
      else if pe_message_type envelope = Some ''PHYSICAL_SESSION_KEEPALIVE'' then handle_physical_session_keepalive he envelope ctx st
      else if pe_message_type envelope = Some ''PHYSICAL_SESSION_KEEPALIVE_ACK'' then handle_physical_session_keepalive_ack he envelope ctx st
      else if pe_message_type envelope = Some ''PHYSICAL_SESSION_RELIABLE_DATA''
        then handle_physical_session_reliable_data dispatch he envelope ctx st
      else if pe_message_type envelope = Some ''PHYSICAL_SESSION_RELIABLE_ACK'' then handle_physical_session_reliable_ack he envelope ctx st
      else if pe_message_type envelope = Some ''PHYSICAL_SESSION_CLOSE'' then handle_physical_session_close he envelope ctx st
      else (st, Inr (session_not_implemented envelope ctx st)))"

section \<open>Effects on the session table\<close>

lemma get_modify:
  assumes "index_ok sm"
  shows "get_session_by_session_id (fst (modify_session sm sid f)) k =
    (if k = sid then map_option f (get_session_by_session_id sm sid) else get_session_by_session_id sm k)"
proof (cases "get_session_by_session_id sm sid")
  case None
  then have "dict_get (sm_sessions_by_session_id sm) sid = None" by (simp add: get_session_by_session_id_def)
  then have "fst (modify_session sm sid f) = sm" by (simp add: modify_session_def)
  with None show ?thesis by simp
next
  case (Some s)
  with assms show ?thesis by (simp add: modify_session_same modify_session_other)
qed

lemma get_create_session:
  assumes "index_ok sm" and "create_session sm d now = Inr (sm', s)"
  shows "get_session_by_session_id sm' k = (if k = sc_session_id d then Some s else get_session_by_session_id sm k)"
proof -
  have h: "sm_heap sm' = sm_heap sm @ [s]"
    "sm_sessions_by_session_id sm' = dict_set (sc_session_id d) (length (sm_heap sm)) (sm_sessions_by_session_id sm)"
    using assms(2) by (auto simp: create_session_def Let_def split: if_splits)
  show ?thesis
    using h index_okD(4) [OF assms(1), of k]
    by (cases "dict_get (sm_sessions_by_session_id sm) k") (auto simp: get_session_by_session_id_def nth_append)
qed

text \<open>What a refresh of the endpoint may change of a session.\<close>

definition without_endpoint :: "network_session \<Rightarrow> network_session" where
  "without_endpoint s = s \<lparr> ns_transport := None, ns_remote_host := None, ns_remote_port := None, ns_metadata_json := None \<rparr>"

definition endpoint_only :: "network_session \<Rightarrow> network_session \<Rightarrow> bool" where
  "endpoint_only s s' \<longleftrightarrow> without_endpoint s' = without_endpoint s"

lemma endpoint_only_keeps:
  assumes "endpoint_only s s'"
  shows "ns_session_id s' = ns_session_id s" "ns_session_state s' = ns_session_state s" "ns_shared_secret_hex s' = ns_shared_secret_hex s"
    "ns_remote_public_key s' = ns_remote_public_key s" "ns_remote_identity_id s' = ns_remote_identity_id s"
    "ns_local_ephemeral_private_key s' = ns_local_ephemeral_private_key s" "ns_session_scope s' = ns_session_scope s"
    "ns_keepalive_interval_seconds s' = ns_keepalive_interval_seconds s"
  using assms [unfolded endpoint_only_def, THEN arg_cong, of ns_session_id] assms [unfolded endpoint_only_def, THEN arg_cong, of ns_session_state]
    assms [unfolded endpoint_only_def, THEN arg_cong, of ns_shared_secret_hex] assms [unfolded endpoint_only_def, THEN arg_cong, of ns_remote_public_key]
    assms [unfolded endpoint_only_def, THEN arg_cong, of ns_remote_identity_id]
    assms [unfolded endpoint_only_def, THEN arg_cong, of ns_local_ephemeral_private_key]
    assms [unfolded endpoint_only_def, THEN arg_cong, of ns_session_scope] assms [unfolded endpoint_only_def, THEN arg_cong, of ns_keepalive_interval_seconds]
  by (simp_all add: without_endpoint_def)

lemma bind_endpoint_only:
  "get_session_by_session_id sm sid = Some s \<Longrightarrow> index_ok sm \<Longrightarrow>
   \<exists>s'. get_session_by_session_id (fst (bind_remote_endpoint sm sid tr host port)) sid = Some s' \<and> endpoint_only s s'"
  unfolding bind_remote_endpoint_def by (simp add: get_modify endpoint_only_def without_endpoint_def Let_def split: option.split)

lemma metadata_endpoint_only: "endpoint_only s (apply_state_update (session_state_update_defaults \<lparr> su_metadata_json := m \<rparr>) s)"
  by (simp add: endpoint_only_def without_endpoint_def apply_state_update_def session_state_update_defaults_def set_some_def)

lemma endpoint_update_only: "\<exists>m. endpoint_metadata_update db remote_id resolved ctx = session_state_update_defaults \<lparr> su_metadata_json := m \<rparr>"
  by (auto simp: endpoint_metadata_update_def build_endpoint_metadata_update_def Let_def split: prod.split)

lemma mutations_other:
  assumes "index_ok sm" and "k \<noteq> sid"
  shows "get_session_by_session_id (fst (touch_session sm sid iv t t')) k = get_session_by_session_id sm k"
    and "get_session_by_session_id (fst (store_local_ephemeral_keypair sm sid priv pub h t t')) k = get_session_by_session_id sm k"
    and "get_session_by_session_id (fst (store_remote_ephemeral_public_key sm sid pub h t t')) k = get_session_by_session_id sm k"
    and "get_session_by_session_id (fst (store_shared_secret sm sid sec h ss t t')) k = get_session_by_session_id sm k"
    and "get_session_by_session_id (fst (activate_session sm sid t t')) k = get_session_by_session_id sm k"
    and "get_session_by_session_id (fst (bind_remote_endpoint sm sid tr host port)) k = get_session_by_session_id sm k"
    and "get_session_by_session_id (fst (update_session_state sm sid d)) k = get_session_by_session_id sm k"
  unfolding sm_mutation_defs using assms by (simp_all add: get_modify)

lemma sm_ok_index: "sm_ok sm \<Longrightarrow> index_ok sm"
  by (simp add: sm_ok_def)

lemma refresh_effect:
  assumes "sm_ok (sessions_of st)" and "get_session_by_session_id (sessions_of st) sid = Some s"
  shows "\<exists>s'. get_session_by_session_id (sessions_of (refresh_session_remote_endpoint sid ctx st)) sid = Some s' \<and> endpoint_only s s'"
    and "sm_ok (sessions_of (refresh_session_remote_endpoint sid ctx st))" and "snd (refresh_session_remote_endpoint sid ctx st) = snd st"
    and "k \<noteq> sid \<Longrightarrow> get_session_by_session_id (sessions_of (refresh_session_remote_endpoint sid ctx st)) k = get_session_by_session_id (sessions_of st) k"
proof -
  obtain tr host port source where r: "resolve_preferred_remote_endpoint (sv_identity (snd st)) (ns_remote_identity_id s) (ns_transport s)
      (ns_remote_host s) (ns_remote_port s) (read_endpoint_source (ns_metadata_json s)) (pc_transport_name ctx) (pc_remote_host ctx)
      (pc_remote_port ctx) = (tr, host, port, source)" (is "?res = _")
    by (cases ?res) auto
  let ?d = "endpoint_metadata_update (sv_identity (snd st)) (ns_remote_identity_id s) (tr, host, port, source) ctx"
  let ?b = "fst (bind_remote_endpoint (sessions_of st) sid (Some tr) host port)"
  have f: "refresh_session_remote_endpoint sid ctx st = on_sessions (\<lambda>sm. fst (update_session_state
      (fst (bind_remote_endpoint sm sid (Some tr) host port)) sid ?d)) st"
    using assms(2) by (simp add: refresh_session_remote_endpoint_def r Let_def)
  have b: "sm_ok ?b" by (rule sm_ok_mutations(7) [OF assms(1)])
  obtain s' where s': "get_session_by_session_id ?b sid = Some s'" "endpoint_only s s'"
    using bind_endpoint_only [OF assms(2) sm_ok_index [OF assms(1)]] by blast
  obtain m where m: "?d = session_state_update_defaults \<lparr> su_metadata_json := m \<rparr>" using endpoint_update_only by blast
  have "get_session_by_session_id (fst (update_session_state ?b sid ?d)) sid = Some (apply_state_update ?d s')"
    using s'(1) by (simp add: update_session_state_def get_modify [OF sm_ok_index [OF b]])
  moreover have "endpoint_only s (apply_state_update ?d s')"
    using s'(2) metadata_endpoint_only [of s' m] unfolding m endpoint_only_def by simp
  ultimately show "\<exists>s'. get_session_by_session_id (sessions_of (refresh_session_remote_endpoint sid ctx st)) sid = Some s' \<and> endpoint_only s s'"
    by (simp add: f)
  show "sm_ok (sessions_of (refresh_session_remote_endpoint sid ctx st))" by (simp add: f sm_ok_mutations(8) [OF b])
  show "snd (refresh_session_remote_endpoint sid ctx st) = snd st" by (simp add: f)
  assume "k \<noteq> sid"
  then show "get_session_by_session_id (sessions_of (refresh_session_remote_endpoint sid ctx st)) k = get_session_by_session_id (sessions_of st) k"
    by (simp add: f mutations_other(7) [OF sm_ok_index [OF b]] mutations_other(6) [OF sm_ok_index [OF assms(1)]])
qed

section \<open>The steps of the handshake\<close>

lemma persist_sessions: "persist_initiator_node_descriptor he payload nid st = (st', r) \<Longrightarrow> fst st' = fst st"
  by (auto simp: persist_initiator_node_descriptor_def Let_def split: option.splits if_splits prod.splits)

lemma create_inbound_effect:
  assumes "sm_ok sm" and "create_inbound_physical_session sm sid lid nid pk tr host port iv t t' = Inr (sm', session)"
  shows "sm_ok sm'" and "\<exists>s'. get_session_by_session_id sm' sid = Some s' \<and> ns_session_id session = ns_session_id s' \<and>
      (case get_session_by_session_id sm sid of
         None \<Rightarrow> ns_remote_identity_id s' = nid \<and> ns_session_state s' = ''pending'' \<and> ns_session_id s' = sid \<and> ns_keepalive_interval_seconds s' = iv
       | Some s \<Rightarrow> endpoint_only s s')"
    and "k \<noteq> sid \<Longrightarrow> get_session_by_session_id sm' k = get_session_by_session_id sm k"
proof -
  note idx = sm_ok_index [OF assms(1)]
  show "sm_ok sm'" by (rule sm_ok_create_inbound_physical [OF assms])
  show "\<exists>s'. get_session_by_session_id sm' sid = Some s' \<and> ns_session_id session = ns_session_id s' \<and>
      (case get_session_by_session_id sm sid of
         None \<Rightarrow> ns_remote_identity_id s' = nid \<and> ns_session_state s' = ''pending'' \<and> ns_session_id s' = sid \<and> ns_keepalive_interval_seconds s' = iv
       | Some s \<Rightarrow> endpoint_only s s')"
  proof (cases "get_session_by_session_id sm sid")
    case None
    with assms(2) have c: "create_session sm (base_create_input \<lparr> sc_session_id := sid, sc_session_scope := ''physical'',
          sc_local_identity_type := ''physical_node'', sc_local_identity_id := lid,
          sc_remote_identity_type := ''physical_node'', sc_remote_identity_id := nid,
          sc_direction := ''inbound'', sc_initiator_side := ''responder'',
          sc_handshake_state := ''init_received'', sc_session_state := ''pending'',
          sc_transport := Some tr, sc_remote_host := host, sc_remote_port := port,
          sc_key_exchange_algorithm := Some ''ml-kem-768'', sc_signature_algorithm := Some ''ml-dsa-65'',
          sc_symmetric_algorithm := Some ''aes-256-gcm-siv'', sc_hash_algorithm := Some ''sha512'',
          sc_remote_public_key := pk, sc_keepalive_interval_seconds := iv,
          sc_keepalive_deadline := Some (build_keepalive_deadline iv t) \<rparr>) t' = Inr (sm', session)"
      by (simp add: create_inbound_physical_session_def)
    then have "ns_remote_identity_id session = nid \<and> ns_session_state session = ''pending'' \<and> ns_session_id session = sid \<and>
        ns_keepalive_interval_seconds session = iv"
      by (auto simp: create_session_def Let_def split: if_splits)
    with None get_create_session [OF idx c, of sid] show ?thesis by simp
  next
    case (Some s)
    obtain s' where s': "get_session_by_session_id (fst (bind_remote_endpoint sm sid (Some tr) host port)) sid = Some s'" "endpoint_only s s'"
      using bind_endpoint_only [OF Some idx] by blast
    moreover have "snd (bind_remote_endpoint sm sid (Some tr) host port) =
        get_session_by_session_id (fst (bind_remote_endpoint sm sid (Some tr) host port)) sid"
      using Some idx by (auto simp: bind_remote_endpoint_def modify_session_def get_session_by_session_id_def Let_def index_ok_def)
    ultimately have "sm' = fst (bind_remote_endpoint sm sid (Some tr) host port)" "session = s'"
      using assms(2) Some by (auto simp: create_inbound_physical_session_def split: prod.splits)
    with s' Some show ?thesis by auto
  qed
  assume "k \<noteq> sid"
  then show "get_session_by_session_id sm' k = get_session_by_session_id sm k"
    using assms(2) get_create_session [OF idx] mutations_other(6) [OF idx, of k sid]
    by (auto simp: create_inbound_physical_session_def split: option.splits prod.splits) (metis fst_conv)+
qed

lemma create_inbound_total: "\<exists>sm' s. create_inbound_physical_session sm sid lid nid pk tr host port iv t t' = Inr (sm', s)"
proof (cases "get_session_by_session_id sm sid")
  case None
  then have "dict_get (sm_sessions_by_session_id sm) sid = None" by (simp add: get_session_by_session_id_def)
  with None show ?thesis by (simp add: create_inbound_physical_session_def create_session_def base_create_input_def Let_def)
next
  case (Some s)
  then show ?thesis
    by (cases "bind_remote_endpoint sm sid (Some tr) host port"; cases "snd (bind_remote_endpoint sm sid (Some tr) host port)")
      (auto simp: create_inbound_physical_session_def)
qed

lemma init_step:
  assumes ok: "sm_ok (sessions_of st)" and local_node: "get_local_physical_node_result (sv_identity (snd st)) = Some lnode"
    and sid: "read_physical_session_id env = Some sid" and nid: "as_str (jget (as_payload_dict env) ''initiator_physical_node_id'') = Some nid"
    and persist: "persist_initiator_node_descriptor he (as_payload_dict env) nid st = (st1, Inr ())"
    and len: "has_len (jget (as_payload_dict env) ''initiator_endpoints'')"
    and gen: "os_kem_keygen (he_os he) (he_seed he) = Some (kpriv, kpub)"
    and iv: "iv = read_positive_keepalive_interval (as_payload_dict env) (he_session_keepalive_seconds he)"
    and sign: "sign_physical_session_init_ok (he_os he) sid kpub iv (pi_private_key_pem lnode) = Inr sig"
  obtains st' s' r where "handle_physical_session_init he env ctx st = (st', Inr r)"
    "pr_response_payload r = Some (build_physical_session_init_ok_payload (pe_header env) (he_uuid he) kpub sig iv)"
    "sm_ok (sessions_of st')" "get_session_by_session_id (sessions_of st') sid = Some s'" "ns_local_ephemeral_private_key s' = Some kpriv"
    "case get_session_by_session_id (sessions_of st) sid of
       None \<Rightarrow> ns_remote_identity_id s' = nid \<and> ns_session_state s' = ''pending'' \<and> ns_keepalive_interval_seconds s' = pyint_val iv
     | Some s \<Rightarrow> ns_remote_identity_id s' = ns_remote_identity_id s \<and> ns_session_state s' = ns_session_state s \<and>
         ns_shared_secret_hex s' = ns_shared_secret_hex s"
    "\<forall>k. k \<noteq> sid \<longrightarrow> get_session_by_session_id (sessions_of st') k = get_session_by_session_id (sessions_of st) k"
proof -
  have s1: "sessions_of st1 = sessions_of st" using persist_sessions [OF persist] by (simp add: sessions_of_def)
  let ?db = "sv_identity (snd st1)"
  obtain tr host port source where res: "resolve_preferred_remote_endpoint ?db nid None None None None (pc_transport_name ctx)
      (pc_remote_host ctx) (pc_remote_port ctx) = (tr, host, port, source)" (is "?res = _") by (cases ?res) auto
  let ?pk = "map_option rp_public_key (get_remote_physical_node_by_id nid ?db)"
  obtain sm session where c: "create_inbound_physical_session (sessions_of st1) sid (pi_id lnode) nid ?pk tr host port (pyint_val iv)
      (he_clock he 1) (he_clock he 2) = Inr (sm, session)"
    using create_inbound_total by blast
  let ?d = "endpoint_metadata_update ?db nid (tr, host, port, source) ctx"
  let ?sm = "fst (update_session_state sm sid ?d)"
  let ?sm' = "fst (store_local_ephemeral_keypair ?sm sid kpriv kpub ''init_ok_sent'' (he_clock he 3) (he_clock he 4))"
  note e = create_inbound_effect [OF ok [folded s1] c, unfolded s1]
  obtain s where s: "get_session_by_session_id sm sid = Some s" "ns_session_id session = ns_session_id s"
    and cs: "case get_session_by_session_id (sessions_of st) sid of
         None \<Rightarrow> ns_remote_identity_id s = nid \<and> ns_session_state s = ''pending'' \<and> ns_session_id s = sid \<and> ns_keepalive_interval_seconds s = pyint_val iv
       | Some s0 \<Rightarrow> endpoint_only s0 s"
    using e(2) by blast
  obtain m where m: "?d = session_state_update_defaults \<lparr> su_metadata_json := m \<rparr>" using endpoint_update_only by blast
  have ok1: "sm_ok ?sm" by (rule sm_ok_mutations(8) [OF e(1)])
  let ?s1 = "apply_state_update ?d s"
  have g1: "get_session_by_session_id ?sm sid = Some ?s1"
    using s(1) by (simp add: update_session_state_def get_modify [OF sm_ok_index [OF e(1)]])
  have eo: "endpoint_only s ?s1" unfolding m by (rule metadata_endpoint_only)
  let ?s2 = "touched None (he_clock he 3) (he_clock he 4) (?s1 \<lparr> ns_local_ephemeral_private_key := Some kpriv,
            ns_local_ephemeral_public_key := Some kpub, ns_handshake_state := ''init_ok_sent'' \<rparr>)"
  have g2: "get_session_by_session_id ?sm' sid = Some ?s2"
    using g1 by (simp add: store_local_ephemeral_keypair_def get_modify [OF sm_ok_index [OF ok1]])
  have h: "handle_physical_session_init he env ctx st = (on_sessions (\<lambda>_. ?sm') st1,
      Inr (handled_result env (Some (build_physical_session_init_ok_payload (pe_header env) (he_uuid he) kpub sig iv))
        (session_meta ctx ''physical_session_init_ok_sent'' (ns_session_id session))))"
    using local_node sid nid persist len gen sign c res
    by (simp add: handle_physical_session_init_def Let_def iv [symmetric] generate_kyber_key_pair_def on_sessions_comp)
  have other: "\<forall>k. k \<noteq> sid \<longrightarrow> get_session_by_session_id ?sm' k = get_session_by_session_id (sessions_of st) k"
    using mutations_other(2) [OF sm_ok_index [OF ok1]] mutations_other(7) [OF sm_ok_index [OF e(1)]] e(3) by simp
  show thesis
  proof (rule that [OF h])
    show "sm_ok (sessions_of (on_sessions (\<lambda>_. ?sm') st1))" using sm_ok_mutations(2) [OF ok1] by simp
    show "get_session_by_session_id (sessions_of (on_sessions (\<lambda>_. ?sm') st1)) sid = Some ?s2" using g2 by simp
    show "case get_session_by_session_id (sessions_of st) sid of
       None \<Rightarrow> ns_remote_identity_id ?s2 = nid \<and> ns_session_state ?s2 = ''pending'' \<and> ns_keepalive_interval_seconds ?s2 = pyint_val iv
     | Some s \<Rightarrow> ns_remote_identity_id ?s2 = ns_remote_identity_id s \<and> ns_session_state ?s2 = ns_session_state s \<and>
         ns_shared_secret_hex ?s2 = ns_shared_secret_hex s"
      using cs endpoint_only_keeps [OF eo] endpoint_only_keeps(2,3,5)
      by (auto simp: touched_def Let_def split: option.splits)
  qed (simp_all add: handled_result_def touched_def Let_def other)
qed

lemma init_ok_step:
  assumes ok: "sm_ok (sessions_of st)" and sid: "read_physical_session_id env = Some sid"
    and key: "as_str (jget (as_payload_dict env) ''responder_ephemeral_public_key'') = Some kpub"
    and sig: "as_str (jget (as_payload_dict env) ''signature_hex'') = Some sig"
    and session: "get_session_by_session_id (sessions_of st) sid = Some s" "ns_remote_public_key s = Some pub" "pub \<noteq> []"
    and verify: "verify_physical_session_init_ok (he_os he) sid kpub
      (read_positive_keepalive_interval (as_payload_dict env) (he_session_keepalive_seconds he)) sig pub"
    and encap: "kyber_encapsulate_hex (he_os he) (he_seed he) kpub = Inr c"
  obtains st' s' r where "handle_physical_session_init_ok he env ctx st = (st', Inr r)"
    "pr_response_payload r = Some (build_physical_session_key_confirm_payload (pe_header env) (he_uuid he) (ke_ciphertext_hex c))"
    "sm_ok (sessions_of st')" "get_session_by_session_id (sessions_of st') sid = Some s'"
    "ns_shared_secret_hex s' = Some (ke_shared_secret_hex c)" "ns_session_state s' = ''pending''"
    "ns_remote_identity_id s' = ns_remote_identity_id s"
    "\<forall>k. k \<noteq> sid \<longrightarrow> get_session_by_session_id (sessions_of st') k = get_session_by_session_id (sessions_of st) k"
proof -
  let ?iv = "read_positive_keepalive_interval (as_payload_dict env) (he_session_keepalive_seconds he)"
  let ?st = "refresh_session_remote_endpoint sid ctx st"
  let ?sm1 = "fst (store_remote_ephemeral_public_key (sessions_of ?st) sid kpub ''init_ok_verified'' (he_clock he 0) (he_clock he 1))"
  let ?sm2 = "fst (touch_session ?sm1 sid (Some (pyint_val ?iv)) (he_clock he 2) (he_clock he 3))"
  let ?sm3 = "fst (store_shared_secret ?sm2 sid (ke_shared_secret_hex c) ''key_confirm_sent'' ''pending'' (he_clock he 4) (he_clock he 5))"
  note rf = refresh_effect [OF ok session(1), where ctx = ctx]
  obtain s1 where s1: "get_session_by_session_id (sessions_of ?st) sid = Some s1" "endpoint_only s s1" using rf(1) by blast
  have ok1: "sm_ok ?sm1" and ok2: "sm_ok ?sm2" and ok3: "sm_ok ?sm3"
    using sm_ok_mutations(3) [OF rf(2)] sm_ok_mutations(1,4) by blast+
  note idx = sm_ok_index [OF rf(2)] sm_ok_index [OF ok1] sm_ok_index [OF ok2]
  have g: "\<exists>s3. get_session_by_session_id ?sm3 sid = Some s3 \<and> ns_shared_secret_hex s3 = Some (ke_shared_secret_hex c) \<and>
      ns_session_state s3 = ''pending'' \<and> ns_remote_identity_id s3 = ns_remote_identity_id s"
    using s1(1) endpoint_only_keeps(5) [OF s1(2)] unfolding store_shared_secret_def get_modify [OF idx(3)]
    unfolding touch_session_def get_modify [OF idx(2) [unfolded touch_session_def]]
    unfolding store_remote_ephemeral_public_key_def get_modify [OF idx(1)]
    by (simp add: touched_def Let_def)
  then obtain s3 where s3: "get_session_by_session_id ?sm3 sid = Some s3" "ns_shared_secret_hex s3 = Some (ke_shared_secret_hex c)"
      "ns_session_state s3 = ''pending''" "ns_remote_identity_id s3 = ns_remote_identity_id s" by blast
  obtain ch cs where pub: "pub = ch # cs" using session(3) by (cases pub) auto
  have h: "handle_physical_session_init_ok he env ctx st = (on_sessions (\<lambda>_. ?sm3) ?st,
      Inr (handled_result env (Some (build_physical_session_key_confirm_payload (pe_header env) (he_uuid he) (ke_ciphertext_hex c)))
        (session_meta ctx ''physical_session_key_confirm_sent'' sid)))"
    using sid key sig session verify encap
    by (simp add: handle_physical_session_init_ok_def Let_def pub on_sessions_comp) (simp add: on_sessions_def sessions_of_def split: prod.split)
  have other: "\<forall>k. k \<noteq> sid \<longrightarrow> get_session_by_session_id ?sm3 k = get_session_by_session_id (sessions_of st) k"
    using mutations_other(4) [OF idx(3)] mutations_other(1) [OF idx(2)] mutations_other(3) [OF idx(1)] rf(4) by simp
  show thesis
    by (rule that [OF h, of s3]) (simp_all add: handled_result_def ok3 s3 other del: One_nat_def)
qed

lemma key_confirm_step:
  assumes ok: "sm_ok (sessions_of st)" and sid: "read_physical_session_id env = Some sid"
    and ct: "as_str (jget (as_payload_dict env) ''encapsulated_key_hex'') = Some ct"
    and session: "get_session_by_session_id (sessions_of st) sid = Some s" "ns_local_ephemeral_private_key s = Some kpriv" "kpriv \<noteq> []"
    and decap: "kyber_decapsulate_hex (he_os he) ct kpriv = Inr secret"
  obtains st' s' r where "handle_physical_session_key_confirm he env ctx st = (st', Inr r)"
    "pr_response_payload r = Some (build_physical_session_ready_payload (pe_header env) (he_uuid he) (ns_keepalive_interval_seconds s))"
    "sm_ok (sessions_of st')" "get_session_by_session_id (sessions_of st') sid = Some s'"
    "ns_shared_secret_hex s' = Some secret" "ns_session_state s' = ''active''" "ns_remote_identity_id s' = ns_remote_identity_id s"
    "\<forall>k. k \<noteq> sid \<longrightarrow> get_session_by_session_id (sessions_of st') k = get_session_by_session_id (sessions_of st) k"
proof -
  let ?st = "refresh_session_remote_endpoint sid ctx st"
  let ?sm1 = "fst (store_shared_secret (sessions_of ?st) sid secret ''ready_sent'' ''pending'' (he_clock he 0) (he_clock he 1))"
  let ?sm2 = "fst (activate_session ?sm1 sid (he_clock he 2) (he_clock he 3))"
  note rf = refresh_effect [OF ok session(1), where ctx = ctx]
  obtain s1 where s1: "get_session_by_session_id (sessions_of ?st) sid = Some s1" "endpoint_only s s1" using rf(1) by blast
  have ok1: "sm_ok ?sm1" and ok2: "sm_ok ?sm2" using sm_ok_mutations(4) [OF rf(2)] sm_ok_mutations(5) by blast+
  note idx = sm_ok_index [OF rf(2)] sm_ok_index [OF ok1]
  have "\<exists>s2. get_session_by_session_id ?sm2 sid = Some s2 \<and> ns_shared_secret_hex s2 = Some secret \<and>
      ns_session_state s2 = ''active'' \<and> ns_remote_identity_id s2 = ns_remote_identity_id s"
    using s1(1) endpoint_only_keeps(5) [OF s1(2)] unfolding activate_session_def get_modify [OF idx(2)]
    unfolding store_shared_secret_def get_modify [OF idx(1)] by (simp add: touched_def Let_def)
  then obtain s2 where s2: "get_session_by_session_id ?sm2 sid = Some s2" "ns_shared_secret_hex s2 = Some secret"
      "ns_session_state s2 = ''active''" "ns_remote_identity_id s2 = ns_remote_identity_id s" by blast
  obtain ch cs where k: "kpriv = ch # cs" using session(3) by (cases kpriv) auto
  have h: "handle_physical_session_key_confirm he env ctx st = (on_sessions (\<lambda>_. ?sm2) ?st,
      Inr (handled_result env (Some (build_physical_session_ready_payload (pe_header env) (he_uuid he) (ns_keepalive_interval_seconds s)))
        (session_meta ctx ''physical_session_ready_sent'' sid)))"
    using sid ct session decap
    by (simp add: handle_physical_session_key_confirm_def Let_def k) (simp add: on_sessions_def sessions_of_def split: prod.split)
  have other: "\<forall>k. k \<noteq> sid \<longrightarrow> get_session_by_session_id ?sm2 k = get_session_by_session_id (sessions_of st) k"
    using mutations_other(5) [OF idx(2)] mutations_other(4) [OF idx(1)] rf(4) by simp
  show thesis
    by (rule that [OF h, of s2]) (simp_all add: handled_result_def ok2 s2 other del: One_nat_def)
qed

lemma ready_step:
  assumes ok: "sm_ok (sessions_of st)" and sid: "read_physical_session_id env = Some sid"
    and session: "get_session_by_session_id (sessions_of st) sid = Some s" "ns_shared_secret_hex s = Some secret" "secret \<noteq> []"
  obtains st' s' r where "handle_physical_session_ready he env ctx st = (st', Inr r)" "pr_handled r" "pr_response_payload r = None"
    "sm_ok (sessions_of st')" "get_session_by_session_id (sessions_of st') sid = Some s'"
    "ns_shared_secret_hex s' = Some secret" "ns_session_state s' = ''active''" "ns_remote_identity_id s' = ns_remote_identity_id s"
    "\<forall>k. k \<noteq> sid \<longrightarrow> get_session_by_session_id (sessions_of st') k = get_session_by_session_id (sessions_of st) k"
proof -
  let ?iv = "read_positive_keepalive_interval (as_payload_dict env) (he_session_keepalive_seconds he)"
  let ?st = "refresh_session_remote_endpoint sid ctx st"
  let ?sm1 = "fst (touch_session (sessions_of ?st) sid (Some (pyint_val ?iv)) (he_clock he 0) (he_clock he 1))"
  let ?sm2 = "fst (activate_session ?sm1 sid (he_clock he 2) (he_clock he 3))"
  note rf = refresh_effect [OF ok session(1), where ctx = ctx]
  obtain s1 where s1: "get_session_by_session_id (sessions_of ?st) sid = Some s1" "endpoint_only s s1" using rf(1) by blast
  have ok1: "sm_ok ?sm1" and ok2: "sm_ok ?sm2" using sm_ok_mutations(1) [OF rf(2)] sm_ok_mutations(5) by blast+
  note idx = sm_ok_index [OF rf(2)] sm_ok_index [OF ok1]
  have "\<exists>s2. get_session_by_session_id ?sm2 sid = Some s2 \<and> ns_shared_secret_hex s2 = Some secret \<and>
      ns_session_state s2 = ''active'' \<and> ns_remote_identity_id s2 = ns_remote_identity_id s"
    using s1(1) session(2) endpoint_only_keeps(3,5) [OF s1(2)] unfolding activate_session_def get_modify [OF idx(2)]
    unfolding touch_session_def get_modify [OF idx(1)] by (simp add: touched_def Let_def)
  then obtain s2 where s2: "get_session_by_session_id ?sm2 sid = Some s2" "ns_shared_secret_hex s2 = Some secret"
      "ns_session_state s2 = ''active''" "ns_remote_identity_id s2 = ns_remote_identity_id s" by blast
  obtain ch cs where k: "secret = ch # cs" using session(3) by (cases secret) auto
  have h: "handle_physical_session_ready he env ctx st = (on_sessions (\<lambda>_. ?sm2) ?st,
      Inr (handled_result env None (session_meta ctx ''physical_session_activated'' sid)))"
    using sid session
    by (simp add: handle_physical_session_ready_def Let_def k) (simp add: on_sessions_def sessions_of_def split: prod.split)
  have other: "\<forall>k. k \<noteq> sid \<longrightarrow> get_session_by_session_id ?sm2 k = get_session_by_session_id (sessions_of st) k"
    using mutations_other(5) [OF idx(2)] mutations_other(1) [OF idx(1)] rf(4) by simp
  show thesis
    by (rule that [OF h, of s2]) (simp_all add: handled_result_def ok2 s2 other del: One_nat_def)
qed

section \<open>Packets of the handshake on the wire\<close>

text \<open>A node whose session messages go to the handlers of this theory; the other handlers are an argument.\<close>

definition node_handlers :: "node_services handlers \<Rightarrow> (protocol_envelope \<Rightarrow> packet_context \<Rightarrow> node_state \<Rightarrow> handler_result) option \<Rightarrow>
    handler_env \<Rightarrow> node_services handlers" where
  "node_handlers other dispatch he h = (if h = SessionProtocolHandler then session_handle dispatch he else other h)"

definition receive_packet :: "node_services handlers \<Rightarrow> (protocol_envelope \<Rightarrow> packet_context \<Rightarrow> node_state \<Rightarrow> handler_result) option \<Rightarrow>
    aead \<Rightarrow> handler_env \<Rightarrow> packet_context \<Rightarrow> string \<Rightarrow> node_state \<Rightarrow> handler_result" where
  "receive_packet other dispatch D he ctx bytes st =
     process_received_packet D (he_clock he 6) (he_clock he 7) (node_handlers other dispatch he) (ctx \<lparr> pc_payload := bytes \<rparr>) st"

definition canon_fields :: "payload \<Rightarrow> payload" where
  "canon_fields h = sort_key fst (map (map_prod id canon) h)"

lemma canon_JObj_fields: "canon (JObj h) = JObj (canon_fields h)"
  by (simp add: canon_fields_def)

lemma jget_canon_fields: "wf_json (JObj h) \<Longrightarrow> jget (canon_fields h) k = canon (jget h k)"
  by (simp add: canon_fields_def jget_canon wf_json_JObj)

lemma wf_jget: "wf_json (JObj h) \<Longrightarrow> wf_json (jget h k)"
  by (auto simp: jget_def wf_json_JObj dest: dict_get_Some_in split: option.split)

lemma wf_canon_fields: "wf_json (JObj h) \<Longrightarrow> wf_json (JObj (canon_fields h))"
  using wf_json_canon [of "JObj h"] by (simp add: canon_JObj_fields del: canon.simps)

lemma canon_scalars [simp]: "as_str (canon v) = as_str v" "as_pyint (canon v) = as_pyint v" "has_len (canon v) = has_len v"
  "canon v = JNull \<longleftrightarrow> v = JNull"
  by (cases v; simp)+

lemma canon_as_str: "v = JStr s \<Longrightarrow> canon v = JStr s"
  by simp

text \<open>A header in plain text for a session.\<close>

definition plain_header :: "string \<Rightarrow> string \<Rightarrow> payload \<Rightarrow> bool" where
  "plain_header sid mt h \<longleftrightarrow> wf_json (JObj h) \<and> jget h ''message_type'' = JStr mt \<and> jget h ''physical_session_id'' = JStr sid \<and>
     jget h ''payload_encrypted'' = JNull"

definition wire_envelope :: "string \<Rightarrow> payload \<Rightarrow> payload \<Rightarrow> protocol_envelope" where
  "wire_envelope mt h p = \<lparr> pe_protocol_name = ''json'', pe_message_type = Some mt, pe_payload = JObj (canon_fields p),
     pe_raw_payload = build_json_packet_bytes h p, pe_header = canon_fields h \<rparr>"

lemma wire_envelope_simps [simp]:
  "pe_message_type (wire_envelope mt h p) = Some mt" "pe_header (wire_envelope mt h p) = canon_fields h"
  "as_payload_dict (wire_envelope mt h p) = canon_fields p"
  by (simp_all add: wire_envelope_def as_payload_dict_def)

lemma read_wire_session_id:
  "plain_header sid mt h \<Longrightarrow> sid \<noteq> [] \<Longrightarrow> read_physical_session_id (wire_envelope mt h p) = Some sid"
  by (simp add: read_physical_session_id_def read_header_string_def jget_nonempty_str_def plain_header_def jget_canon_fields)

lemma response_header_plain:
  assumes "plain_header sid mt h"
  shows "plain_header sid mt' (build_response_header (canon_fields h) mt' False uuid)"
proof -
  have wf: "wf_json (JObj h)" using assms unfolding plain_header_def by blast
  note w = wf_canon_fields [OF wf]
  have "wf_json v" if "dict_get (canon_fields h) ''version'' = Some v" for v
    using that w by (auto simp: wf_json_JObj dest: dict_get_Some_in)
  with assms show ?thesis
    using wf_jget [OF w] jget_canon_fields [OF wf]
    by (auto simp: plain_header_def build_response_header_def wf_json_JObj jget_def dict_get_def split: option.split)
qed

lemma handshake_definitions:
  "get_definition (Some ''PHYSICAL_SESSION_INIT'') = Some (message_definition ''PHYSICAL_SESSION_INIT'' SessionProtocolHandler ''physical'' False False)"
  "get_definition (Some ''PHYSICAL_SESSION_INIT_OK'') = Some (message_definition ''PHYSICAL_SESSION_INIT_OK'' SessionProtocolHandler ''physical'' False False)"
  "get_definition (Some ''PHYSICAL_SESSION_KEY_CONFIRM'') = Some (message_definition ''PHYSICAL_SESSION_KEY_CONFIRM'' SessionProtocolHandler ''physical'' False False)"
  "get_definition (Some ''PHYSICAL_SESSION_READY'') = Some (message_definition ''PHYSICAL_SESSION_READY'' SessionProtocolHandler ''physical'' False False)"
  by code_simp+

lemma decode_plain:
  assumes "plain_header sid mt h" and "wf_json (JObj p)" and "pc_payload ctx = build_json_packet_bytes h p"
  shows "decode_json_packet D now now' ctx en = (en, Inr (wire_envelope mt h p))"
proof -
  have wf: "wf_json (JObj h)" using assms(1) by (simp add: plain_header_def)
  have l: "load_json_packet (pc_payload ctx) = Some (JObj [(''header'', JObj (canon_fields h)), (''payload'', JObj (canon_fields p))])"
    unfolding assms(3) load_packet_bytes [OF wf assms(2)] canon_JObj_fields ..
  have j: "jget [(''header'', JObj (canon_fields h)), (''payload'', JObj (canon_fields p))] ''header'' = JObj (canon_fields h)"
    "jget [(''header'', JObj (canon_fields h)), (''payload'', JObj (canon_fields p))] ''payload'' = JObj (canon_fields p)"
    by (simp_all add: jget_def dict_get_def)
  show ?thesis
    using assms(1,3) unfolding decode_json_packet_def l restore_inbound_payload_def
    by (simp add: j plain_header_def jget_canon_fields wire_envelope_def)
qed

lemma receive_plain:
  assumes "plain_header sid mt h" and "wf_json (JObj p)"
    and "mt \<in> {''PHYSICAL_SESSION_INIT'', ''PHYSICAL_SESSION_INIT_OK'', ''PHYSICAL_SESSION_KEY_CONFIRM'', ''PHYSICAL_SESSION_READY''}"
  shows "receive_packet other dispatch D he ctx (build_json_packet_bytes h p) st =
    session_handle dispatch he (wire_envelope mt h p) (ctx \<lparr> pc_payload := build_json_packet_bytes h p \<rparr>) st"
proof -
  have "decode_json_packet D (he_clock he 6) (he_clock he 7) (ctx \<lparr> pc_payload := build_json_packet_bytes h p \<rparr>) (fst st) =
      (fst st, Inr (wire_envelope mt h p))"
    by (rule decode_plain [OF assms(1,2)]) simp
  with assms(3) show ?thesis
    by (auto simp: receive_packet_def process_received_packet_def process_protocol_envelope_def validate_message_policy_def route_def
        handshake_definitions message_definition_def node_handlers_def)
qed

section \<open>Properties\<close>

text \<open>The payload of an \<^verbatim>\<open>INIT\<close> packet.\<close>

definition init_payload :: "string \<Rightarrow> string \<Rightarrow> payload list \<Rightarrow> int \<Rightarrow> payload" where
  "init_payload nid pk eps iv = [(''initiator_physical_node_id'', JStr nid), (''initiator_public_key'', JStr pk),
     (''initiator_endpoints'', JList (map JObj eps)), (''keepalive_interval_seconds'', JInt iv)]"

lemma wf_init_payload: "list_all (\<lambda>e. wf_json (JObj e)) eps \<Longrightarrow> wf_json (JObj (init_payload nid pk eps iv))"
  by (simp add: init_payload_def wf_json_JObj wf_json_JList list_all_iff)

lemma init_payload_fields:
  assumes "list_all (\<lambda>e. wf_json (JObj e)) eps" and "0 < iv"
  shows "as_str (jget (canon_fields (init_payload nid pk eps iv)) ''initiator_physical_node_id'') = Some nid"
    "has_len (jget (canon_fields (init_payload nid pk eps iv)) ''initiator_endpoints'')"
    "read_positive_keepalive_interval (canon_fields (init_payload nid pk eps iv)) d = PyInt iv"
  unfolding read_positive_keepalive_interval_def jget_canon_fields [OF wf_init_payload [OF assms(1)]]
  using assms(2) by (simp_all add: init_payload_def jget_def dict_get_def)

lemma init_wire:
  assumes ok: "sm_ok (sessions_of st)" and ln: "get_local_physical_node_result (sv_identity (snd st)) = Some lnode"
    and gen: "os_kem_keygen (he_os he) (he_seed he) = Some (kpriv, kpub)"
    and sign: "sign_physical_session_init_ok (he_os he) sid kpub (PyInt iv) (pi_private_key_pem lnode) = Inr sig" and sid: "sid \<noteq> []"
    and hdr: "plain_header sid ''PHYSICAL_SESSION_INIT'' h" and pl: "list_all (\<lambda>e. wf_json (JObj e)) eps" "0 < iv"
    and persist: "persist_initiator_node_descriptor he (canon_fields (init_payload nid pk eps iv)) nid st = (st1, Inr ())"
  obtains st' s' r h' where "receive_packet other dispatch D he ctx (build_physical_session_init_payload h nid pk eps iv) st = (st', Inr r)"
    "pr_response_payload r = Some (build_json_packet_bytes h' [(''responder_ephemeral_public_key'', JStr kpub), (''signature_hex'', JStr sig),
       (''keepalive_interval_seconds'', JInt iv)])" "plain_header sid ''PHYSICAL_SESSION_INIT_OK'' h'"
    "sm_ok (sessions_of st')" "get_session_by_session_id (sessions_of st') sid = Some s'" "ns_local_ephemeral_private_key s' = Some kpriv"
    "case get_session_by_session_id (sessions_of st) sid of
       None \<Rightarrow> ns_remote_identity_id s' = nid \<and> ns_session_state s' = ''pending'' \<and> ns_keepalive_interval_seconds s' = pyint_val (PyInt iv)
     | Some s \<Rightarrow> ns_remote_identity_id s' = ns_remote_identity_id s \<and> ns_session_state s' = ns_session_state s \<and>
         ns_shared_secret_hex s' = ns_shared_secret_hex s"
    "\<forall>k. k \<noteq> sid \<longrightarrow> get_session_by_session_id (sessions_of st') k = get_session_by_session_id (sessions_of st) k"
proof -
  let ?p = "init_payload nid pk eps iv"
  let ?e = "wire_envelope ''PHYSICAL_SESSION_INIT'' h ?p" and ?c = "ctx \<lparr> pc_payload := build_json_packet_bytes h ?p \<rparr>"
  note f = init_payload_fields [OF pl, of nid pk]
  have b: "build_physical_session_init_payload h nid pk eps iv = build_json_packet_bytes h ?p"
    by (simp add: build_physical_session_init_payload_def init_payload_def)
  have rc: "receive_packet other dispatch D he ctx (build_physical_session_init_payload h nid pk eps iv) st = handle_physical_session_init he ?e ?c st"
    unfolding b receive_plain [OF hdr wf_init_payload [OF pl(1)], simplified] by (simp add: session_handle_def)
  show thesis
    by (rule init_step [OF ok ln read_wire_session_id [OF hdr sid, of ?p], of nid he st1 kpriv kpub "PyInt iv" sig ?c])
      (use f persist gen sign rc response_header_plain [OF hdr] in
        \<open>auto simp: build_physical_session_init_ok_payload_def build_session_response_def intro: that\<close>)
qed

lemma init_ok_wire:
  assumes ok: "sm_ok (sessions_of st)" and sid: "sid \<noteq> []" and hdr: "plain_header sid ''PHYSICAL_SESSION_INIT_OK'' h" and iv: "0 < iv"
    and session: "get_session_by_session_id (sessions_of st) sid = Some s" "ns_remote_public_key s = Some pub" "pub \<noteq> []"
    and verify: "verify_physical_session_init_ok (he_os he) sid kpub (PyInt iv) sig pub"
    and encap: "kyber_encapsulate_hex (he_os he) (he_seed he) kpub = Inr c"
  obtains st' s' r h' where "receive_packet other dispatch D he ctx (build_json_packet_bytes h [(''responder_ephemeral_public_key'', JStr kpub),
       (''signature_hex'', JStr sig), (''keepalive_interval_seconds'', JInt iv)]) st = (st', Inr r)"
    "pr_response_payload r = Some (build_json_packet_bytes h' [(''encapsulated_key_hex'', JStr (ke_ciphertext_hex c))])"
    "plain_header sid ''PHYSICAL_SESSION_KEY_CONFIRM'' h'" "sm_ok (sessions_of st')" "get_session_by_session_id (sessions_of st') sid = Some s'"
    "ns_shared_secret_hex s' = Some (ke_shared_secret_hex c)" "ns_remote_identity_id s' = ns_remote_identity_id s"
    "\<forall>k. k \<noteq> sid \<longrightarrow> get_session_by_session_id (sessions_of st') k = get_session_by_session_id (sessions_of st) k"
proof -
  let ?p = "[(''responder_ephemeral_public_key'', JStr kpub), (''signature_hex'', JStr sig), (''keepalive_interval_seconds'', JInt iv)]"
  let ?e = "wire_envelope ''PHYSICAL_SESSION_INIT_OK'' h ?p" and ?c = "ctx \<lparr> pc_payload := build_json_packet_bytes h ?p \<rparr>"
  have wf: "wf_json (JObj ?p)" by (simp add: wf_json_JObj)
  have rc: "receive_packet other dispatch D he ctx (build_json_packet_bytes h ?p) st = handle_physical_session_init_ok he ?e ?c st"
    unfolding receive_plain [OF hdr wf, simplified] by (simp add: session_handle_def)
  have g: "as_str (jget (canon_fields ?p) ''responder_ephemeral_public_key'') = Some kpub" "as_str (jget (canon_fields ?p) ''signature_hex'') = Some sig"
    "read_positive_keepalive_interval (canon_fields ?p) d = PyInt iv" for d
    unfolding read_positive_keepalive_interval_def jget_canon_fields [OF wf] using iv by (simp_all add: jget_def dict_get_def)
  show thesis
    by (rule init_ok_step [OF ok read_wire_session_id [OF hdr sid, of ?p], of kpub sig s pub he c ?c])
      (use g session verify encap rc response_header_plain [OF hdr] in
        \<open>auto simp: build_physical_session_key_confirm_payload_def build_session_response_def intro: that\<close>)
qed

lemma key_confirm_wire:
  assumes ok: "sm_ok (sessions_of st)" and sid: "sid \<noteq> []" and hdr: "plain_header sid ''PHYSICAL_SESSION_KEY_CONFIRM'' h"
    and session: "get_session_by_session_id (sessions_of st) sid = Some s" "ns_local_ephemeral_private_key s = Some kpriv" "kpriv \<noteq> []"
    and decap: "kyber_decapsulate_hex (he_os he) ct kpriv = Inr secret"
  obtains st' s' r h' where "receive_packet other dispatch D he ctx (build_json_packet_bytes h [(''encapsulated_key_hex'', JStr ct)]) st = (st', Inr r)"
    "pr_response_payload r = Some (build_json_packet_bytes h' [(''status'', JStr ''active''), (''keepalive_interval_seconds'', JInt (ns_keepalive_interval_seconds s))])"
    "plain_header sid ''PHYSICAL_SESSION_READY'' h'" "sm_ok (sessions_of st')" "get_session_by_session_id (sessions_of st') sid = Some s'"
    "ns_shared_secret_hex s' = Some secret" "ns_session_state s' = ''active''" "ns_remote_identity_id s' = ns_remote_identity_id s"
    "\<forall>k. k \<noteq> sid \<longrightarrow> get_session_by_session_id (sessions_of st') k = get_session_by_session_id (sessions_of st) k"
proof -
  let ?p = "[(''encapsulated_key_hex'', JStr ct)]"
  let ?e = "wire_envelope ''PHYSICAL_SESSION_KEY_CONFIRM'' h ?p" and ?c = "ctx \<lparr> pc_payload := build_json_packet_bytes h ?p \<rparr>"
  have wf: "wf_json (JObj ?p)" by (simp add: wf_json_JObj)
  have rc: "receive_packet other dispatch D he ctx (build_json_packet_bytes h ?p) st = handle_physical_session_key_confirm he ?e ?c st"
    unfolding receive_plain [OF hdr wf, simplified] by (simp add: session_handle_def)
  have g: "as_str (jget (canon_fields ?p) ''encapsulated_key_hex'') = Some ct"
    unfolding jget_canon_fields [OF wf] by (simp add: jget_def dict_get_def)
  show thesis
    by (rule key_confirm_step [OF ok read_wire_session_id [OF hdr sid, of ?p], of ct s kpriv he secret ?c])
      (use g session decap rc response_header_plain [OF hdr] in
        \<open>auto simp: build_physical_session_ready_payload_def build_session_response_def intro: that\<close>)
qed

lemma ready_wire:
  assumes ok: "sm_ok (sessions_of st)" and sid: "sid \<noteq> []" and hdr: "plain_header sid ''PHYSICAL_SESSION_READY'' h" and wf: "wf_json (JObj p)"
    and session: "get_session_by_session_id (sessions_of st) sid = Some s" "ns_shared_secret_hex s = Some secret" "secret \<noteq> []"
  obtains st' s' r where "receive_packet other dispatch D he ctx (build_json_packet_bytes h p) st = (st', Inr r)" "pr_handled r"
    "sm_ok (sessions_of st')" "get_session_by_session_id (sessions_of st') sid = Some s'"
    "ns_shared_secret_hex s' = Some secret" "ns_session_state s' = ''active''" "ns_remote_identity_id s' = ns_remote_identity_id s"
    "\<forall>k. k \<noteq> sid \<longrightarrow> get_session_by_session_id (sessions_of st') k = get_session_by_session_id (sessions_of st) k"
proof -
  let ?e = "wire_envelope ''PHYSICAL_SESSION_READY'' h p" and ?c = "ctx \<lparr> pc_payload := build_json_packet_bytes h p \<rparr>"
  have rc: "receive_packet other dispatch D he ctx (build_json_packet_bytes h p) st = handle_physical_session_ready he ?e ?c st"
    unfolding receive_plain [OF hdr wf, simplified] by (simp add: session_handle_def)
  show thesis
    by (rule ready_step [OF ok read_wire_session_id [OF hdr sid, of p] session, of he ?c]) (use rc in \<open>auto intro: that\<close>)
qed

lemma sign_total:
  assumes "\<And>m. os_sign os m priv \<noteq> None"
  obtains sig where "sign_physical_session_init_ok os sid kpub iv priv = Inr sig"
proof -
  obtain x where "os_sign os (compact_json_bytes (init_ok_signed_payload sid kpub iv)) priv = Some x" using assms by blast
  then show thesis
    using that [of "bytes_to_hex x"] by (simp add: sign_physical_session_init_ok_def dilithium_sign_hex_def canonical_payload_hex_def)
qed

text \<open>
  C10. The handshake works: an initiator that knows the public key of the responder sends \<^verbatim>\<open>INIT\<close>, and the three
  answers are delivered. Then both engines have the session \<open>sid\<close> active, with the same shared secret, the one
  the initiator encapsulated, bound to each other, and no other session of either engine has changed. Every
  packet goes through the bytes on the wire and the packet entry point of the engine.
\<close>

theorem handshake_agreement:
  assumes laws: "signature_correct os" "kem_correct os" and os: "he_os b1 = os" "he_os a1 = os" "he_os b2 = os" "he_os a2 = os"
    and ln: "get_local_physical_node_result (sv_identity (snd stB)) = Some lnode" "os_dsa_keygen os seed = Some (pi_private_key_pem lnode, pub)"
    and signs: "\<And>m. os_sign os m (pi_private_key_pem lnode) \<noteq> None"
    and kem: "os_kem_keygen os (he_seed b1) = Some (kpriv, kpub)" "os_encap os (he_seed a1) kpub = Some (ct, secret)" "kpriv \<noteq> []" "pub \<noteq> []"
    and ok: "sm_ok (sessions_of stA)" "sm_ok (sessions_of stB)" "get_session_by_session_id (sessions_of stB) sid = None"
    and A: "get_session_by_session_id (sessions_of stA) sid = Some sA" "ns_remote_public_key sA = Some pub" and sid: "sid \<noteq> []"
    and hdr: "plain_header sid ''PHYSICAL_SESSION_INIT'' h" and pl: "list_all (\<lambda>e. wf_json (JObj e)) eps" "0 < iv"
    and persist: "persist_initiator_node_descriptor b1 (canon_fields (init_payload nid pk eps iv)) nid stB = (stB1, Inr ())"
  shows "\<exists>stB' r1 m1 stA' r2 m2 stB'' r3 m3 stA'' r4 sA'' sB''.
    receive_packet other dispatch D b1 c1 (build_physical_session_init_payload h nid pk eps iv) stB = (stB', Inr r1) \<and> pr_response_payload r1 = Some m1 \<and>
    receive_packet other dispatch D a1 c2 m1 stA = (stA', Inr r2) \<and> pr_response_payload r2 = Some m2 \<and>
    receive_packet other dispatch D b2 c3 m2 stB' = (stB'', Inr r3) \<and> pr_response_payload r3 = Some m3 \<and>
    receive_packet other dispatch D a2 c4 m3 stA' = (stA'', Inr r4) \<and> pr_handled r4 \<and>
    get_session_by_session_id (sessions_of stA'') sid = Some sA'' \<and> get_session_by_session_id (sessions_of stB'') sid = Some sB'' \<and>
    ns_session_state sA'' = ''active'' \<and> ns_session_state sB'' = ''active'' \<and>
    ns_shared_secret_hex sA'' = Some (bytes_to_hex secret) \<and> ns_shared_secret_hex sB'' = Some (bytes_to_hex secret) \<and>
    ns_remote_identity_id sA'' = ns_remote_identity_id sA \<and> ns_remote_identity_id sB'' = nid \<and>
    (\<forall>k. k = sid \<or> get_session_by_session_id (sessions_of stA'') k = get_session_by_session_id (sessions_of stA) k \<and>
       get_session_by_session_id (sessions_of stB'') k = get_session_by_session_id (sessions_of stB) k)"
proof -
  obtain sig where sg: "sign_physical_session_init_ok os sid kpub (PyInt iv) (pi_private_key_pem lnode) = Inr sig"
    by (rule sign_total [OF signs])
  have v: "verify_physical_session_init_ok os sid kpub (PyInt iv) sig pub"
    using sign_then_verify [OF laws(1) ln(2)] sg by (simp add: sign_physical_session_init_ok_def verify_physical_session_init_ok_def)
  let ?c = "\<lparr> ke_ciphertext_hex = bytes_to_hex ct, ke_shared_secret_hex = bytes_to_hex secret \<rparr>"
  have en: "kyber_encapsulate_hex os (he_seed a1) kpub = Inr ?c" using kem(2) by (simp add: kyber_encapsulate_hex_def)
  note de = encapsulate_then_decapsulate [OF laws(2) kem(1) en, simplified]
  obtain stB' sB' r1 h2 where B1: "receive_packet other dispatch D b1 c1 (build_physical_session_init_payload h nid pk eps iv) stB = (stB', Inr r1)"
    "pr_response_payload r1 = Some (build_json_packet_bytes h2 [(''responder_ephemeral_public_key'', JStr kpub), (''signature_hex'', JStr sig),
       (''keepalive_interval_seconds'', JInt iv)])" "plain_header sid ''PHYSICAL_SESSION_INIT_OK'' h2"
    "sm_ok (sessions_of stB')" "get_session_by_session_id (sessions_of stB') sid = Some sB'" "ns_local_ephemeral_private_key sB' = Some kpriv"
    "ns_remote_identity_id sB' = nid"
    "\<forall>k. k \<noteq> sid \<longrightarrow> get_session_by_session_id (sessions_of stB') k = get_session_by_session_id (sessions_of stB) k"
    by (rule init_wire [OF ok(2) ln(1), of b1 kpriv kpub sid iv sig h eps nid pk stB1 other dispatch D c1])
      (use kem os sg sid hdr pl persist ok(3) in simp_all)
  obtain stA' sA' r2 h3 where A1: "receive_packet other dispatch D a1 c2 (build_json_packet_bytes h2 [(''responder_ephemeral_public_key'', JStr kpub),
       (''signature_hex'', JStr sig), (''keepalive_interval_seconds'', JInt iv)]) stA = (stA', Inr r2)"
    "pr_response_payload r2 = Some (build_json_packet_bytes h3 [(''encapsulated_key_hex'', JStr (bytes_to_hex ct))])"
    "plain_header sid ''PHYSICAL_SESSION_KEY_CONFIRM'' h3" "sm_ok (sessions_of stA')" "get_session_by_session_id (sessions_of stA') sid = Some sA'"
    "ns_shared_secret_hex sA' = Some (bytes_to_hex secret)" "ns_remote_identity_id sA' = ns_remote_identity_id sA"
    "\<forall>k. k \<noteq> sid \<longrightarrow> get_session_by_session_id (sessions_of stA') k = get_session_by_session_id (sessions_of stA) k"
    by (rule init_ok_wire [OF ok(1) sid B1(3) pl(2) A kem(4), of a1 kpub sig ?c other dispatch D c2]) (use os v en in simp_all)
  obtain stB'' sB'' r3 h4 where B2: "receive_packet other dispatch D b2 c3 (build_json_packet_bytes h3 [(''encapsulated_key_hex'', JStr (bytes_to_hex ct))]) stB' = (stB'', Inr r3)"
    "pr_response_payload r3 = Some (build_json_packet_bytes h4 [(''status'', JStr ''active''), (''keepalive_interval_seconds'', JInt (ns_keepalive_interval_seconds sB'))])"
    "plain_header sid ''PHYSICAL_SESSION_READY'' h4" "get_session_by_session_id (sessions_of stB'') sid = Some sB''"
    "ns_shared_secret_hex sB'' = Some (bytes_to_hex secret)" "ns_session_state sB'' = ''active''" "ns_remote_identity_id sB'' = ns_remote_identity_id sB'"
    "\<forall>k. k \<noteq> sid \<longrightarrow> get_session_by_session_id (sessions_of stB'') k = get_session_by_session_id (sessions_of stB') k"
    by (rule key_confirm_wire [OF B1(4) sid A1(3) B1(5,6) kem(3), of b2 "bytes_to_hex ct" "bytes_to_hex secret" other dispatch D c3]) (use os de in simp_all)
  have wf4: "wf_json (JObj [(''status'', JStr ''active''), (''keepalive_interval_seconds'', JInt (ns_keepalive_interval_seconds sB'))])"
    by (simp add: wf_json_JObj)
  obtain stA'' sA'' r4 where A2: "receive_packet other dispatch D a2 c4 (build_json_packet_bytes h4 [(''status'', JStr ''active''),
       (''keepalive_interval_seconds'', JInt (ns_keepalive_interval_seconds sB'))]) stA' = (stA'', Inr r4)" "pr_handled r4"
    "get_session_by_session_id (sessions_of stA'') sid = Some sA''" "ns_shared_secret_hex sA'' = Some (bytes_to_hex secret)"
    "ns_session_state sA'' = ''active''" "ns_remote_identity_id sA'' = ns_remote_identity_id sA'"
    "\<forall>k. k \<noteq> sid \<longrightarrow> get_session_by_session_id (sessions_of stA'') k = get_session_by_session_id (sessions_of stA') k"
    by (rule ready_wire [OF A1(4) sid B2(3) wf4 A1(5,6) de(2), of other dispatch D a2 c4])
  have ids: "ns_remote_identity_id sA'' = ns_remote_identity_id sA" "ns_remote_identity_id sB'' = nid" using A1(7) A2(6) B1(7) B2(7) by simp_all
  have frame: "\<forall>k. k = sid \<or> get_session_by_session_id (sessions_of stA'') k = get_session_by_session_id (sessions_of stA) k \<and>
      get_session_by_session_id (sessions_of stB'') k = get_session_by_session_id (sessions_of stB) k"
    using A1(8) A2(7) B1(8) B2(8) by metis
  show ?thesis
    by (intro exI conjI; rule B1(1) B1(2) A1(1) A1(2) B2(1) B2(2) A2(1-5) B2(4-6) ids frame)
qed

definition demo_env :: "string \<Rightarrow> handler_env" where
  "demo_env seed = \<lparr> he_os = demo_openssl, he_sha512 = id, he_clock = int, he_uuid = ''u'', he_seed = seed, he_isofmt = (\<lambda>_. ''t''),
     he_session_keepalive_seconds = 20 \<rparr>"

definition demo_initiator_table :: session_manager where
  "demo_initiator_table = (case create_outbound_physical_session new_session_manager ''s1'' ''A'' ''B'' (Some ''B'') ''tcp'' ''h'' 9 30 0 0 of
     Inr (sm, _) \<Rightarrow> sm | Inl _ \<Rightarrow> new_session_manager)"

definition demo_node :: "session_manager \<Rightarrow> string \<Rightarrow> node_state" where
  "demo_node sm i = (\<lparr> en_sessions = sm, en_nonces = {}, en_message_sequence = 0 \<rparr>,
     \<lparr> sv_identity = empty_identity_db \<lparr> db_local_physical := [\<lparr> lp_id = i, lp_public_key = i, lp_private_key_encrypted = i,
          lp_key_algorithm = ''ml-dsa-65'', lp_status = ''active'', lp_created_at = 0, lp_updated_at = 0 \<rparr>] \<rparr>, sv_routes = [], sv_content = empty_content_service, sv_has_api = False,
          sv_events = [], sv_publish_tasks = [] \<rparr>)"

definition demo_init_header :: payload where
  "demo_init_header = [(''message_type'', JStr ''PHYSICAL_SESSION_INIT''), (''physical_session_id'', JStr ''s1'')]"

lemma demo_init_header_plain: "plain_header ''s1'' ''PHYSICAL_SESSION_INIT'' demo_init_header"
  by (simp add: plain_header_def demo_init_header_def wf_json_JObj jget_def dict_get_def)

lemma demo_initiator_ok: "sm_ok demo_initiator_table"
proof -
  obtain r where r: "create_outbound_physical_session new_session_manager ''s1'' ''A'' ''B'' (Some ''B'') ''tcp'' ''h'' 9 30 0 0 = Inr r"
    by (simp add: create_outbound_physical_session_def create_session_def base_create_input_def new_session_manager_def Let_def)
  show ?thesis
    using sm_ok_create [OF sm_ok_new] r unfolding demo_initiator_table_def r create_outbound_physical_session_def
    by (cases r) auto
qed

lemma demo_initiator_session:
  "map_option (\<lambda>s. (ns_remote_public_key s, ns_remote_identity_id s)) (get_session_by_session_id demo_initiator_table ''s1'') = Some (Some ''B'', ''B'')"
  by code_simp

lemma demo_node_simps:
  "sessions_of (demo_node sm i) = sm"
  "get_local_physical_node_result (sv_identity (snd (demo_node sm i))) = Some \<lparr> pi_id = i, pi_public_key = i, pi_private_key_pem = i,
     pi_key_algorithm = ''ml-dsa-65'', pi_status = ''active'', pi_created_at = 0, pi_updated_at = 0 \<rparr>"
  "persist_initiator_node_descriptor he (canon_fields (init_payload ''A'' [] [] 30)) ''A'' (demo_node sm i) = (demo_node sm i, Inr ())"
proof -
  show "persist_initiator_node_descriptor he (canon_fields (init_payload ''A'' [] [] 30)) ''A'' (demo_node sm i) = (demo_node sm i, Inr ())"
    unfolding persist_initiator_node_descriptor_def jget_nonempty_str_def
      jget_canon_fields [OF wf_init_payload [of "[]", OF list.pred_inject(1)]]
    by (simp add: init_payload_def jget_def dict_get_def)
qed (simp_all add: demo_node_def get_local_physical_node_result_def get_local_physical_node_def)

theorem handshake_agreement_witness:
  "\<exists>stB' r1 m1 stA' r2 m2 stB'' r3 m3 stA'' r4 sA'' sB''.
    receive_packet (\<lambda>_ _ _ st. (st, Inl KeyError)) None pad_decrypt (demo_env ''k'') demo_packet_context
      (build_physical_session_init_payload demo_init_header ''A'' [] [] 30) (demo_node new_session_manager ''B'') = (stB', Inr r1) \<and> pr_response_payload r1 = Some m1 \<and>
    receive_packet (\<lambda>_ _ _ st. (st, Inl KeyError)) None pad_decrypt (demo_env ''e'') demo_packet_context m1 (demo_node demo_initiator_table ''A'') = (stA', Inr r2) \<and>
      pr_response_payload r2 = Some m2 \<and>
    receive_packet (\<lambda>_ _ _ st. (st, Inl KeyError)) None pad_decrypt (demo_env []) demo_packet_context m2 stB' = (stB'', Inr r3) \<and> pr_response_payload r3 = Some m3 \<and>
    receive_packet (\<lambda>_ _ _ st. (st, Inl KeyError)) None pad_decrypt (demo_env []) demo_packet_context m3 stA' = (stA'', Inr r4) \<and> pr_handled r4 \<and>
    get_session_by_session_id (sessions_of stA'') ''s1'' = Some sA'' \<and> get_session_by_session_id (sessions_of stB'') ''s1'' = Some sB'' \<and>
    ns_session_state sA'' = ''active'' \<and> ns_session_state sB'' = ''active'' \<and>
    ns_shared_secret_hex sA'' = Some (bytes_to_hex ''kex'') \<and> ns_shared_secret_hex sB'' = Some (bytes_to_hex ''kex'') \<and>
    ns_remote_identity_id sA'' = ''B'' \<and> ns_remote_identity_id sB'' = ''A'' \<and>
    (\<forall>k. k = ''s1'' \<or> get_session_by_session_id (sessions_of stA'') k = get_session_by_session_id demo_initiator_table k \<and>
       get_session_by_session_id (sessions_of stB'') k = get_session_by_session_id new_session_manager k)"
proof -
  obtain sA where sA: "get_session_by_session_id demo_initiator_table ''s1'' = Some sA" "ns_remote_public_key sA = Some ''B''" "ns_remote_identity_id sA = ''B''"
    using demo_initiator_session by (cases "get_session_by_session_id demo_initiator_table ''s1''") auto
  have os: "he_os (demo_env x) = demo_openssl" "he_seed (demo_env x) = x" for x by (simp_all add: demo_env_def)
  have none: "get_session_by_session_id new_session_manager ''s1'' = None" by code_simp
  have persist: "persist_initiator_node_descriptor (demo_env ''k'') (canon_fields (init_payload ''A'' [] [] 30)) ''A'' (demo_node new_session_manager ''B'') =
      (demo_node new_session_manager ''B'', Inr ())" by (rule demo_node_simps(3))
  show ?thesis
    using handshake_agreement [OF demo_openssl_laws os(1) os(1) os(1) os(1) demo_node_simps(2) _ _ _ _ _ _ _ _ _ _ _ _ demo_init_header_plain _ _ persist,
      where pub = "''B''" and seed = "''B''" and kpriv = "''k''" and kpub = "''k''" and ct = "''e''" and secret = "''kex''" and stA = "demo_node demo_initiator_table ''A''"
        and sA = sA and other = "\<lambda>_ _ _ st. (st, Inl KeyError)" and dispatch = None and D = pad_decrypt and ?c1.0 = demo_packet_context
        and ?c2.0 = demo_packet_context and ?c3.0 = demo_packet_context and ?c4.0 = demo_packet_context]
    unfolding os demo_node_simps(1) sA(3)
    by (simp add: demo_openssl_def demo_initiator_ok sm_ok_new none sA(1,2))
qed

text \<open>The secret of a session, and the operations that leave every secret alone.\<close>

definition secret_of :: "session_manager \<Rightarrow> string \<Rightarrow> string option option" where
  "secret_of sm k = map_option ns_shared_secret_hex (get_session_by_session_id sm k)"

lemma secret_modify:
  "index_ok sm \<Longrightarrow> (\<And>s. ns_shared_secret_hex (f s) = ns_shared_secret_hex s) \<Longrightarrow> secret_of (fst (modify_session sm sid f)) k = secret_of sm k"
  by (cases "get_session_by_session_id sm sid") (auto simp: secret_of_def get_modify)

lemma secret_refresh:
  assumes "sm_ok (sessions_of st)"
  shows "secret_of (sessions_of (refresh_session_remote_endpoint sid ctx st)) k = secret_of (sessions_of st) k"
proof (cases "get_session_by_session_id (sessions_of st) sid")
  case None
  then show ?thesis by (simp add: refresh_session_remote_endpoint_def)
next
  case (Some s)
  note r = refresh_effect [OF assms Some, where ctx = ctx]
  obtain s' where "get_session_by_session_id (sessions_of (refresh_session_remote_endpoint sid ctx st)) sid = Some s'" "endpoint_only s s'"
    using r(1) by blast
  then show ?thesis
    using r(4) [of k] Some endpoint_only_keeps(3) by (cases "k = sid") (auto simp: secret_of_def)
qed

lemma secret_mutations:
  assumes "sm_ok sm"
  shows "secret_of (fst (touch_session sm sid iv t t')) k = secret_of sm k"
    and "secret_of (fst (store_remote_ephemeral_public_key sm sid pub h t t')) k = secret_of sm k"
    and "secret_of (fst (close_session sm sid r t)) k = secret_of sm k"
  unfolding sm_mutation_defs
  by (rule secret_modify [OF sm_ok_index [OF assms]]; simp add: touched_def apply_state_update_def Let_def split: option.split)+

lemma verify_valid:
  "verify_physical_session_init_ok os sid kpub iv sig pub \<Longrightarrow>
   \<exists>sb. hex_to_bytes sig = Inr sb \<and> os_verify os (compact_json_bytes (init_ok_signed_payload sid kpub iv)) sb pub"
  unfolding verify_physical_session_init_ok_def canonical_payload_hex_def
  using verify_True_iff [of os "bytes_to_hex (compact_json_bytes (init_ok_signed_payload sid kpub iv))" sig pub]
  by (auto split: sum.splits)

text \<open>
  C15. The initiator is safe from forged answers: if handling an \<^verbatim>\<open>INIT_OK\<close> changes the shared secret of any session,
  then the packet names that session and carries a signature of this session id, this ephemeral key and this
  interval which is valid under the public key the initiator stored for the responder before it sent \<^verbatim>\<open>INIT\<close>.
\<close>

theorem init_ok_authenticated:
  assumes ok: "sm_ok (sessions_of st)" and h: "handle_physical_session_init_ok he env ctx st = (st', r)"
    and changed: "secret_of (sessions_of st') k \<noteq> secret_of (sessions_of st) k"
  shows "read_physical_session_id env = Some k \<and>
    (\<exists>s pub kpub sig sb. get_session_by_session_id (sessions_of st) k = Some s \<and> ns_remote_public_key s = Some pub \<and>
      jget (as_payload_dict env) ''responder_ephemeral_public_key'' = JStr kpub \<and> jget (as_payload_dict env) ''signature_hex'' = JStr sig \<and>
      hex_to_bytes sig = Inr sb \<and>
      os_verify (he_os he) (compact_json_bytes (init_ok_signed_payload k kpub
        (read_positive_keepalive_interval (as_payload_dict env) (he_session_keepalive_seconds he)))) sb pub)"
proof -
  have as_strD: "as_str v = Some x \<Longrightarrow> v = JStr x" for v x by (cases v) auto
  note sr = secret_refresh [OF ok]
  obtain sid kpub sig where f: "read_physical_session_id env = Some sid" "jget (as_payload_dict env) ''responder_ephemeral_public_key'' = JStr kpub"
    "jget (as_payload_dict env) ''signature_hex'' = JStr sig"
    using h changed by (auto simp: handle_physical_session_init_ok_def Let_def dest: as_strD split: option.splits)
  then obtain s where s: "get_session_by_session_id (sessions_of st) sid = Some s"
    using h changed by (auto simp: handle_physical_session_init_ok_def Let_def split: option.splits)
  let ?st = "refresh_session_remote_endpoint sid ctx st"
  have rok: "sm_ok (sessions_of ?st)" by (rule refresh_effect(2) [OF ok s])
  obtain c cs where pub: "ns_remote_public_key s = Some (c # cs)"
    using h changed f s sr by (auto simp: handle_physical_session_init_ok_def Let_def split: option.splits list.splits)
  have v: "verify_physical_session_init_ok (he_os he) sid kpub
      (read_positive_keepalive_interval (as_payload_dict env) (he_session_keepalive_seconds he)) sig (c # cs)"
    using h changed f s pub sr secret_mutations(3) [OF rok]
    by (auto simp: handle_physical_session_init_ok_def Let_def split: if_splits)
  have "k = sid"
  proof (rule ccontr)
    assume "k \<noteq> sid"
    then have o: "index_ok sm \<Longrightarrow> secret_of (fst (modify_session sm sid g)) k = secret_of sm k" for sm g
      by (simp add: secret_of_def get_modify)
    have "secret_of (sessions_of st') k = secret_of (sessions_of st) k"
      using h f s pub v sr sm_ok_mutations(3) [OF rok] sm_ok_mutations(1) secret_mutations(2) [OF rok] secret_mutations(1)
      by (auto simp: handle_physical_session_init_ok_def Let_def store_shared_secret_def o sm_ok_index split: sum.splits)
    with changed show False by simp
  qed
  with f s pub verify_valid [OF v] show ?thesis by auto
qed

definition demo_init_ok_payload :: payload where
  "demo_init_ok_payload = [(''responder_ephemeral_public_key'', JStr ''k''),
     (''signature_hex'', JStr (bytes_to_hex (''B'' @ compact_json_bytes (init_ok_signed_payload ''s1'' ''k'' (PyInt 30))))),
     (''keepalive_interval_seconds'', JInt 30)]"

definition demo_init_ok_envelope :: protocol_envelope where
  "demo_init_ok_envelope = \<lparr> pe_protocol_name = ''json'', pe_message_type = Some ''PHYSICAL_SESSION_INIT_OK'', pe_payload = JObj demo_init_ok_payload,
     pe_raw_payload = [], pe_header = [(''physical_session_id'', JStr ''s1'')] \<rparr>"

lemma demo_init_ok_fields: "as_payload_dict demo_init_ok_envelope = demo_init_ok_payload" "read_physical_session_id demo_init_ok_envelope = Some ''s1''"
  "jget demo_init_ok_payload ''responder_ephemeral_public_key'' = JStr ''k''"
  "jget demo_init_ok_payload ''signature_hex'' = JStr (bytes_to_hex (''B'' @ compact_json_bytes (init_ok_signed_payload ''s1'' ''k'' (PyInt 30))))"
  "read_positive_keepalive_interval demo_init_ok_payload d = PyInt 30"
  by (simp_all add: demo_init_ok_envelope_def demo_init_ok_payload_def as_payload_dict_def read_physical_session_id_def read_header_string_def
      jget_nonempty_str_def jget_def dict_get_def read_positive_keepalive_interval_def)

theorem init_ok_authenticated_witness:
  "\<exists>st' r. handle_physical_session_init_ok (demo_env ''e'') demo_init_ok_envelope demo_packet_context (demo_node demo_initiator_table ''A'') = (st', r) \<and>
    secret_of (sessions_of st') ''s1'' \<noteq> secret_of demo_initiator_table ''s1'' \<and>
    (\<exists>s pub kpub sig sb. get_session_by_session_id demo_initiator_table ''s1'' = Some s \<and> ns_remote_public_key s = Some pub \<and>
      jget demo_init_ok_payload ''responder_ephemeral_public_key'' = JStr kpub \<and> jget demo_init_ok_payload ''signature_hex'' = JStr sig \<and>
      hex_to_bytes sig = Inr sb \<and> os_verify demo_openssl (compact_json_bytes (init_ok_signed_payload ''s1'' kpub (PyInt 30))) sb pub)"
proof -
  let ?st = "demo_node demo_initiator_table ''A''" and ?c = "\<lparr> ke_ciphertext_hex = bytes_to_hex ''e'', ke_shared_secret_hex = bytes_to_hex ''kex'' \<rparr>"
  have os: "he_os (demo_env ''e'') = demo_openssl" "he_seed (demo_env ''e'') = ''e''" by (simp_all add: demo_env_def)
  have ok: "sm_ok (sessions_of ?st)" by (simp add: demo_node_simps demo_initiator_ok)
  obtain sA where sA: "get_session_by_session_id (sessions_of ?st) ''s1'' = Some sA" "ns_remote_public_key sA = Some ''B''"
    using demo_initiator_session by (cases "get_session_by_session_id demo_initiator_table ''s1''") (auto simp: demo_node_simps)
  have "map_option ns_shared_secret_hex (get_session_by_session_id demo_initiator_table ''s1'') = Some None" by code_simp
  then have none: "secret_of demo_initiator_table ''s1'' = Some None" by (simp add: secret_of_def)
  have v: "verify_physical_session_init_ok demo_openssl ''s1'' ''k'' (PyInt 30)
      (bytes_to_hex (''B'' @ compact_json_bytes (init_ok_signed_payload ''s1'' ''k'' (PyInt 30)))) ''B''"
    by (simp add: verify_physical_session_init_ok_def dilithium_verify_hex_def canonical_payload_hex_def demo_openssl_def)
  have en: "kyber_encapsulate_hex demo_openssl ''e'' ''k'' = Inr ?c" by (simp add: kyber_encapsulate_hex_def demo_openssl_def)
  obtain st' s' r where h: "handle_physical_session_init_ok (demo_env ''e'') demo_init_ok_envelope demo_packet_context ?st = (st', Inr r)"
    "get_session_by_session_id (sessions_of st') ''s1'' = Some s'" "ns_shared_secret_hex s' = Some (bytes_to_hex ''kex'')"
    by (rule init_ok_step [OF ok demo_init_ok_fields(2) _ _ sA, where he = "demo_env ''e''" and c = ?c and ctx = demo_packet_context and kpub = "''k''"])
      (use v en in \<open>simp_all add: demo_init_ok_fields os\<close>)
  then have "secret_of (sessions_of st') ''s1'' \<noteq> secret_of (sessions_of ?st) ''s1''" by (simp add: demo_node_simps none secret_of_def [of "sessions_of st'"])
  from init_ok_authenticated [OF ok h(1) this] h(1) this show ?thesis
    by (auto simp: demo_init_ok_fields demo_node_simps os)
qed

text \<open>
  C16. A session can be taken over: \<^verbatim>\<open>INIT\<close> for the id of a session that exists keeps the session with its remote
  identity and its state but replaces the ephemeral key, and \<^verbatim>\<open>KEY_CONFIRM\<close> then installs the secret of whoever
  encapsulated to the key that the answer shows. Neither packet is signed, and the id travels in every header. So
  an active session ends up active, in the name of the old peer, with the secret \<open>secret\<close> of the sender.
\<close>

theorem session_takeover:
  assumes kem: "kem_correct os" and os: "he_os b1 = os" "he_os b2 = os" and ok: "sm_ok (sessions_of st)"
    and s: "get_session_by_session_id (sessions_of st) sid = Some s" "ns_session_state s = ''active''" "sid \<noteq> []"
    and ln: "get_local_physical_node_result (sv_identity (snd st)) = Some lnode" and signs: "\<And>m. os_sign os m (pi_private_key_pem lnode) \<noteq> None"
    and gen: "os_kem_keygen os (he_seed b1) = Some (kpriv, kpub)" "kpriv \<noteq> []" and encap: "os_encap os seed kpub = Some (ct, secret)"
    and hdr: "plain_header sid ''PHYSICAL_SESSION_INIT'' h" "plain_header sid ''PHYSICAL_SESSION_KEY_CONFIRM'' h'"
    and pl: "list_all (\<lambda>e. wf_json (JObj e)) eps" "0 < iv"
    and persist: "persist_initiator_node_descriptor b1 (canon_fields (init_payload nid pk eps iv)) nid st = (st1, Inr ())"
  shows "\<exists>st' r1 h2 sig st'' r2 s''.
    receive_packet other dispatch D b1 c1 (build_physical_session_init_payload h nid pk eps iv) st = (st', Inr r1) \<and>
    pr_response_payload r1 = Some (build_json_packet_bytes h2 [(''responder_ephemeral_public_key'', JStr kpub), (''signature_hex'', JStr sig),
       (''keepalive_interval_seconds'', JInt iv)]) \<and>
    receive_packet other dispatch D b2 c2 (build_json_packet_bytes h' [(''encapsulated_key_hex'', JStr (bytes_to_hex ct))]) st' = (st'', Inr r2) \<and>
    get_session_by_session_id (sessions_of st'') sid = Some s'' \<and> ns_session_state s'' = ''active'' \<and>
    ns_remote_identity_id s'' = ns_remote_identity_id s \<and> ns_shared_secret_hex s'' = Some (bytes_to_hex secret)"
proof -
  obtain sig where sg: "sign_physical_session_init_ok os sid kpub (PyInt iv) (pi_private_key_pem lnode) = Inr sig"
    by (rule sign_total [OF signs])
  have "kyber_encapsulate_hex os seed kpub = Inr \<lparr> ke_ciphertext_hex = bytes_to_hex ct, ke_shared_secret_hex = bytes_to_hex secret \<rparr>"
    using encap by (simp add: kyber_encapsulate_hex_def)
  note de = encapsulate_then_decapsulate(1) [OF kem gen(1) this, simplified]
  obtain st' s' r1 h2 where 1: "receive_packet other dispatch D b1 c1 (build_physical_session_init_payload h nid pk eps iv) st = (st', Inr r1)"
    "pr_response_payload r1 = Some (build_json_packet_bytes h2 [(''responder_ephemeral_public_key'', JStr kpub), (''signature_hex'', JStr sig),
       (''keepalive_interval_seconds'', JInt iv)])" "sm_ok (sessions_of st')" "get_session_by_session_id (sessions_of st') sid = Some s'"
    "ns_local_ephemeral_private_key s' = Some kpriv" "ns_remote_identity_id s' = ns_remote_identity_id s"
    by (rule init_wire [OF ok ln, of b1 kpriv kpub sid iv sig h eps nid pk st1 other dispatch D c1])
      (use gen os sg s hdr pl persist in simp_all)
  obtain st'' s'' r2 where 2: "receive_packet other dispatch D b2 c2 (build_json_packet_bytes h' [(''encapsulated_key_hex'', JStr (bytes_to_hex ct))]) st' = (st'', Inr r2)"
    "get_session_by_session_id (sessions_of st'') sid = Some s''" "ns_shared_secret_hex s'' = Some (bytes_to_hex secret)" "ns_session_state s'' = ''active''"
    "ns_remote_identity_id s'' = ns_remote_identity_id s'"
    by (rule key_confirm_wire [OF 1(3) s(3) hdr(2) 1(4,5) gen(2), of b2 "bytes_to_hex ct" "bytes_to_hex secret" other dispatch D c2]) (use os de in simp_all)
  show ?thesis
    by (intro exI conjI; (rule 1(1,2) 2(1-4))?) (use 1(6) 2(5) in simp)
qed

lemma demo_active_table: "sm_ok (en_sessions demo_engine)"
  unfolding demo_engine_def using sm_ok_mutations(4) [OF sm_reachable_ok [OF demo_sessions_reachable]] by simp

theorem session_takeover_witness:
  "\<exists>st' r1 h2 sig st'' r2 s''.
    receive_packet (\<lambda>_ _ _ st. (st, Inl KeyError)) None pad_decrypt (demo_env ''k'') demo_packet_context
      (build_physical_session_init_payload demo_init_header ''A'' [] [] 30) (demo_node (en_sessions demo_engine) ''B'') = (st', Inr r1) \<and>
    pr_response_payload r1 = Some (build_json_packet_bytes h2 [(''responder_ephemeral_public_key'', JStr ''k''), (''signature_hex'', JStr sig),
       (''keepalive_interval_seconds'', JInt 30)]) \<and>
    receive_packet (\<lambda>_ _ _ st. (st, Inl KeyError)) None pad_decrypt (demo_env []) demo_packet_context
      (build_json_packet_bytes [(''message_type'', JStr ''PHYSICAL_SESSION_KEY_CONFIRM''), (''physical_session_id'', JStr ''s1'')]
        [(''encapsulated_key_hex'', JStr (bytes_to_hex ''evil''))]) st' = (st'', Inr r2) \<and>
    get_session_by_session_id (sessions_of st'') ''s1'' = Some s'' \<and> ns_session_state s'' = ''active'' \<and>
    ns_remote_identity_id s'' = ns_remote_identity_id demo_session \<and> ns_shared_secret_hex s'' = Some (bytes_to_hex ''kevilx'')"
proof -
  have os: "he_os (demo_env x) = demo_openssl" "he_seed (demo_env x) = x" for x by (simp_all add: demo_env_def)
  have s: "get_session_by_session_id (sessions_of (demo_node (en_sessions demo_engine) ''B'')) ''s1'' = Some demo_session"
    unfolding demo_node_simps by code_simp
  have a: "ns_session_state demo_session = ''active''" by code_simp
  have h: "plain_header ''s1'' ''PHYSICAL_SESSION_KEY_CONFIRM'' [(''message_type'', JStr ''PHYSICAL_SESSION_KEY_CONFIRM''), (''physical_session_id'', JStr ''s1'')]"
    by (simp add: plain_header_def wf_json_JObj jget_def dict_get_def)
  show ?thesis
    by (rule session_takeover [OF demo_openssl_laws(2) os(1) os(1) _ s a _ demo_node_simps(2) _ _ _ _ demo_init_header_plain h _ _ demo_node_simps(3),
        where kpriv = "''k''" and seed = "''evil''"])
      (simp_all add: demo_openssl_def os demo_node_simps demo_active_table)
qed

text \<open>
  C17. Closing a session is not final: \<^verbatim>\<open>READY\<close> in plain text activates every session of the table that has a secret,
  in whatever state it is, also one that was closed.
\<close>

theorem ready_reactivates:
  assumes "sm_ok (sessions_of st)" and "sid \<noteq> []" and "plain_header sid ''PHYSICAL_SESSION_READY'' h" and "wf_json (JObj p)"
    and "get_session_by_session_id (sessions_of st) sid = Some s" and "ns_shared_secret_hex s = Some secret" and "secret \<noteq> []"
  shows "\<exists>st' r s'. receive_packet other dispatch D he ctx (build_json_packet_bytes h p) st = (st', Inr r) \<and> pr_handled r \<and>
    get_session_by_session_id (sessions_of st') sid = Some s' \<and> ns_session_state s' = ''active'' \<and> ns_shared_secret_hex s' = Some secret"
  by (rule ready_wire [OF assms, of other dispatch D he ctx]) blast

theorem ready_reactivates_witness:
  "map_option ns_session_state (get_session_by_session_id (fst (close_session (en_sessions demo_engine) ''s1'' ''done'' 9)) ''s1'') = Some ''closed'' \<and>
   (\<exists>st' r s'. receive_packet (\<lambda>_ _ _ st. (st, Inl KeyError)) None pad_decrypt (demo_env []) demo_packet_context
      (build_json_packet_bytes [(''message_type'', JStr ''PHYSICAL_SESSION_READY''), (''physical_session_id'', JStr ''s1'')] [])
      (demo_node (fst (close_session (en_sessions demo_engine) ''s1'' ''done'' 9)) ''B'') = (st', Inr r) \<and> pr_handled r \<and>
    get_session_by_session_id (sessions_of st') ''s1'' = Some s' \<and> ns_session_state s' = ''active'' \<and>
    ns_shared_secret_hex s' = Some (bytes_to_hex demo_session_key))"
proof (rule conjI)
  let ?sm = "fst (close_session (en_sessions demo_engine) ''s1'' ''done'' 9)"
  show "map_option ns_session_state (get_session_by_session_id ?sm ''s1'') = Some ''closed''" by code_simp
  have "map_option ns_shared_secret_hex (get_session_by_session_id ?sm ''s1'') = Some (Some (bytes_to_hex demo_session_key))" by code_simp
  then obtain s where s: "get_session_by_session_id ?sm ''s1'' = Some s" "ns_shared_secret_hex s = Some (bytes_to_hex demo_session_key)"
    by (cases "get_session_by_session_id ?sm ''s1''") auto
  have k: "bytes_to_hex demo_session_key \<noteq> []" by code_simp
  show "\<exists>st' r s'. receive_packet (\<lambda>_ _ _ st. (st, Inl KeyError)) None pad_decrypt (demo_env []) demo_packet_context
      (build_json_packet_bytes [(''message_type'', JStr ''PHYSICAL_SESSION_READY''), (''physical_session_id'', JStr ''s1'')] [])
      (demo_node ?sm ''B'') = (st', Inr r) \<and> pr_handled r \<and>
    get_session_by_session_id (sessions_of st') ''s1'' = Some s' \<and> ns_session_state s' = ''active'' \<and>
    ns_shared_secret_hex s' = Some (bytes_to_hex demo_session_key)"
    by (rule ready_reactivates [OF _ _ _ _ _ s(2) k])
      (use s k sm_ok_mutations(9) [OF demo_active_table] in \<open>simp_all add: demo_node_simps plain_header_def wf_json_JObj jget_def dict_get_def\<close>)
qed

section \<open>Handlers keep the state well formed\<close>

definition node_ok :: "node_state \<Rightarrow> bool" where
  "node_ok st \<longleftrightarrow> sm_ok (sessions_of st) \<and> identity_ok (sv_identity (snd st))"

definition keeps_node_ok :: "(protocol_envelope \<Rightarrow> packet_context \<Rightarrow> node_state \<Rightarrow> handler_result) \<Rightarrow> bool" where
  "keeps_node_ok d \<longleftrightarrow> (\<forall>e c st. node_ok st \<longrightarrow> node_ok (fst (d e c st)))"

lemma node_ok_on_sessions: "node_ok st \<Longrightarrow> (sm_ok (sessions_of st) \<Longrightarrow> sm_ok (f (sessions_of st))) \<Longrightarrow> node_ok (on_sessions f st)"
  by (simp add: node_ok_def)

lemma node_ok_replace: "node_ok st \<Longrightarrow> sm_ok sm \<Longrightarrow> node_ok (on_sessions (\<lambda>_. sm) st)"
  by (simp add: node_ok_def)

lemma node_ok_refresh: "node_ok st \<Longrightarrow> node_ok (refresh_session_remote_endpoint sid ctx st)"
  unfolding refresh_session_remote_endpoint_def Let_def
  by (auto intro!: node_ok_on_sessions sm_ok_mutations(8) sm_ok_mutations(7) split: option.split prod.split)

lemma node_ok_persist: "node_ok st \<Longrightarrow> node_ok (fst (persist_initiator_node_descriptor he p nid st))"
  unfolding persist_initiator_node_descriptor_def Let_def
  by (auto simp: node_ok_def sessions_of_def split: option.split prod.split)
    (metis fst_conv identity_ok_step identity_step.upsert_discovered)

lemmas node_ok_mutations = sm_ok_mutations sm_ok_mark_acked sm_ok_receive

lemma node_ok_init: "node_ok st \<Longrightarrow> node_ok (fst (handle_physical_session_init he env ctx st))"
proof -
  assume ok: "node_ok st"
  have p: "persist_initiator_node_descriptor he q nid st = (st1, r) \<Longrightarrow> node_ok st1" for q nid st1 r
    using node_ok_persist [OF ok, of he q nid] by simp
  show ?thesis
    using ok p unfolding handle_physical_session_init_def Let_def
    by (auto split: option.split sum.split prod.split intro!: node_ok_replace node_ok_on_sessions sm_ok_mutations(2,8) intro: sm_ok_create_inbound_physical)
qed

lemma node_ok_handshake:
  assumes "node_ok st"
  shows "node_ok (fst (handle_physical_session_init_ok he env ctx st))" and "node_ok (fst (handle_physical_session_key_confirm he env ctx st))"
    and "node_ok (fst (handle_physical_session_ready he env ctx st))"
  using assms unfolding handle_physical_session_init_ok_def handle_physical_session_key_confirm_def handle_physical_session_ready_def Let_def
  by (auto split: option.split sum.split list.split intro!: node_ok_on_sessions node_ok_refresh sm_ok_mutations)

lemma node_ok_dispatch:
  assumes "pred_option keeps_node_ok dispatch" and "node_ok st"
  shows "node_ok (fst (dispatch_deliveries dispatch env ctx ms n r st))"
  using assms(2)
proof (induction ms arbitrary: n r st)
  case (Cons m ms)
  have "node_ok (fst (d (inner_envelope env m) ctx st))" if "dispatch = Some d" for d using assms(1) that Cons.prems by (cases st) (simp add: keeps_node_ok_def)
  then have *: "node_ok st1" if "dispatch = Some d" "d (inner_envelope env m) ctx st = (st1, x)" for d st1 x
    using that(1) by (metis that(2) fst_conv)
  show ?case
  proof (cases dispatch)
    case None
    with Cons.IH [OF Cons.prems] Cons.prems show ?thesis by (simp split: option.split)
  next
    case (Some d)
    with * Cons.IH Cons.prems show ?thesis by (auto split: option.split prod.split sum.split)
  qed
qed simp

lemma node_ok_established:
  assumes "node_ok st"
  shows "node_ok (fst (handle_physical_session_reliable_ack he env ctx st))" and "node_ok (fst (handle_physical_session_keepalive he env ctx st))"
    and "node_ok (fst (handle_physical_session_keepalive_ack he env ctx st))" and "node_ok (fst (handle_physical_session_close he env ctx st))"
proof -
  have t: "sm_ok (fst (touch_session (sessions_of st) sid k t t'))" "sm_ok (fst (close_session (sessions_of st) sid r t))" for sid k t t' r
    using assms by (simp_all add: node_ok_def sm_ok_mutations)
  have r: "node_ok (refresh_session_remote_endpoint sid ctx st)" for sid by (rule node_ok_refresh [OF assms])
  have a: "sm_ok (fst (touch_session (fst (mark_reliable_outbound_acked (sessions_of (refresh_session_remote_endpoint sid ctx st)) sid n mid t)) sid k t' t''))"
    for sid n mid t k t' t'' using r [of sid] by (simp add: node_ok_def sm_ok_mutations sm_ok_mark_acked)
  show "node_ok (fst (handle_physical_session_reliable_ack he env ctx st))"
    using a r assms by (auto simp: handle_physical_session_reliable_ack_def Let_def intro!: node_ok_replace split: option.split prod.split) (metis fst_conv)
  show "node_ok (fst (handle_physical_session_keepalive he env ctx st))" "node_ok (fst (handle_physical_session_keepalive_ack he env ctx st))"
    using t(1) assms unfolding handle_physical_session_keepalive_def handle_physical_session_keepalive_ack_def
    by (auto intro!: node_ok_refresh node_ok_replace split: option.split prod.split) (metis fst_conv)+
  show "node_ok (fst (handle_physical_session_close he env ctx st))"
    using t(2) assms unfolding handle_physical_session_close_def Let_def
    by (auto intro!: node_ok_replace split: option.split prod.split) (metis fst_conv)+
qed

lemma node_ok_reliable_data:
  assumes d: "pred_option keeps_node_ok dispatch" and ok: "node_ok st"
  shows "node_ok (fst (handle_physical_session_reliable_data dispatch he env ctx st))"
proof (cases "read_physical_session_id env")
  case None
  with ok show ?thesis by (simp add: handle_physical_session_reliable_data_def)
next
  case (Some sid)
  obtain sm s where t: "touch_session (sessions_of st) sid None (he_clock he 0) (he_clock he 1) = (sm, s)" by fastforce
  have "sm_ok sm" using sm_ok_mutations(1) [of "sessions_of st" sid None "he_clock he 0" "he_clock he 1"] ok t by (simp add: node_ok_def)
  then have 1: "node_ok (on_sessions (\<lambda>_. sm) st)" by (rule node_ok_replace [OF ok])
  let ?st = "refresh_session_remote_endpoint sid ctx (on_sessions (\<lambda>_. sm) st)"
  obtain sm' r where q: "receive_reliable_inbound (he_isofmt he) (sessions_of ?st) sid (as_payload_dict env) (he_clock he 2) (he_clock he 3) = (sm', r)"
    by fastforce
  have 2: "node_ok ?st" by (rule node_ok_refresh [OF 1])
  then have "sm_ok sm'" using sm_ok_receive [of "sessions_of ?st" "he_isofmt he" sid "as_payload_dict env" "he_clock he 2" "he_clock he 3"] q by (simp add: node_ok_def)
  then have 3: "node_ok (on_sessions (\<lambda>_. sm') ?st)" by (rule node_ok_replace [OF 2])
  have 4: "dispatch_deliveries dispatch env ctx ms n r0 (on_sessions (\<lambda>_. sm') ?st) = (st2, x) \<Longrightarrow> node_ok st2" for ms n r0 st2 x
    using node_ok_dispatch [OF d 3, of env ctx ms n r0] by simp
  show ?thesis
    using 1 3 4 Some t q unfolding handle_physical_session_reliable_data_def Let_def
    by (auto simp del: One_nat_def split: option.split prod.split sum.split py_error.split)
qed



end
