(* ===== verification/Content_Protocol.thy ===== *)
theory Content_Protocol
  imports Session_Protocol Content_Transfer
begin

text \<open>
  \<^verbatim>\<open>app/core/protocols/virtual/content.py\<close>: the messages by which one virtual node downloads a content of another
  in byte ranges, and the announcement of a finished download in the DHT. The answer of a handler is the field
  \<^verbatim>\<open>virtual_response_envelope\<close> of its metadata. The clock readings of a handler are \<open>he_clock he 0\<close>, \<open>1\<close>
  for the session and \<open>2\<close>, \<open>3\<close> for the content service. A Boolean in a numeric field, which \<^verbatim>\<open>isinstance(value, int)\<close>
  accepts, is used as the number it equals.
\<close>

section \<open>Payloads\<close>

record content_info_payload =
  cip_content_id :: string
  cip_size_bytes :: int
  cip_content_hash :: string
  cip_content_type :: string

record content_range_payload =
  crp_content_id :: string
  crp_start_byte :: int
  crp_end_byte :: int
  crp_length :: int
  crp_data_base64 :: string

definition new_content_range_payload :: "string \<Rightarrow> int \<Rightarrow> int \<Rightarrow> string option \<Rightarrow> content_range_payload" where
  "new_content_range_payload content_id start_byte end_byte data64 = \<lparr> crp_content_id = content_id, crp_start_byte = start_byte,
     crp_end_byte = end_byte, crp_length = end_byte - start_byte, crp_data_base64 = (case data64 of None \<Rightarrow> [] | Some d \<Rightarrow> d) \<rparr>"

definition parse_content_info_payload :: "payload \<Rightarrow> content_info_payload result" where
  "parse_content_info_payload payload =
     rbind (require_string payload ''content_id'') (\<lambda>content_id.
     rbind (require_non_negative_int payload ''size_bytes'') (\<lambda>size_bytes.
     rbind (require_string payload ''content_hash'') (\<lambda>content_hash.
     rbind (require_string payload ''content_type'') (\<lambda>content_type.
     Inr \<lparr> cip_content_id = content_id, cip_size_bytes = pyint_val size_bytes, cip_content_hash = content_hash,
       cip_content_type = content_type \<rparr>))))"

definition parse_range_request_payload :: "payload \<Rightarrow> content_range_payload result" where
  "parse_range_request_payload payload =
     rbind (require_string payload ''content_id'') (\<lambda>content_id.
     rbind (require_non_negative_int payload ''start_byte'') (\<lambda>start_byte.
     rbind (require_positive_int payload ''end_byte'') (\<lambda>end_byte.
     if pyint_val end_byte \<le> pyint_val start_byte
     then Inl (ValueError ''end_byte precisa ser maior que start_byte.'')
     else Inr (new_content_range_payload content_id (pyint_val start_byte) (pyint_val end_byte) None))))"

definition parse_range_response_payload :: "payload \<Rightarrow> content_range_payload result" where
  "parse_range_response_payload payload =
     rbind (parse_range_request_payload payload) (\<lambda>r.
     rbind (require_string payload ''data_base64'') (\<lambda>data64.
     Inr (new_content_range_payload (crp_content_id r) (crp_start_byte r) (crp_end_byte r) (Some data64))))"

definition build_content_info_request_payload :: "string option \<Rightarrow> string option \<Rightarrow> payload" where
  "build_content_info_request_payload content_id ddt_key =
     (case content_id of Some (c # cs) \<Rightarrow> [(''content_id'', JStr (c # cs))] | _ \<Rightarrow> []) @
     (case ddt_key of Some (c # cs) \<Rightarrow> [(''ddt_key'', JStr (c # cs))] | _ \<Rightarrow> [])"

definition build_content_info_response_payload :: "string \<Rightarrow> int \<Rightarrow> string \<Rightarrow> string \<Rightarrow> string option \<Rightarrow> int option \<Rightarrow> payload" where
  "build_content_info_response_payload content_id size_bytes content_hash content_type ddt_key max_range_size =
     [(''content_id'', JStr content_id), (''size_bytes'', JInt size_bytes), (''content_hash'', JStr content_hash),
      (''content_type'', JStr content_type), (''range_unit'', JStr ''bytes'')] @
     (case ddt_key of Some (c # cs) \<Rightarrow> [(''ddt_key'', JStr (c # cs))] | _ \<Rightarrow> []) @
     (case max_range_size of Some n \<Rightarrow> [(''max_range_size'', JInt n)] | None \<Rightarrow> [])"

definition build_content_range_request_payload :: "string \<Rightarrow> int \<Rightarrow> int \<Rightarrow> payload" where
  "build_content_range_request_payload content_id start_byte end_byte =
     [(''content_id'', JStr content_id), (''start_byte'', JInt start_byte), (''end_byte'', JInt end_byte), (''range_unit'', JStr ''bytes'')]"

definition build_content_range_response_payload :: "string \<Rightarrow> int \<Rightarrow> int \<Rightarrow> string \<Rightarrow> payload" where
  "build_content_range_response_payload content_id start_byte end_byte data64 =
     [(''content_id'', JStr content_id), (''start_byte'', JInt start_byte), (''end_byte'', JInt end_byte), (''range_unit'', JStr ''bytes''),
      (''data_base64'', JStr data64)]"

definition build_content_error_payload :: "string option \<Rightarrow> string \<Rightarrow> string \<Rightarrow> payload" where
  "build_content_error_payload content_id error_code error_message =
     [(''error_code'', JStr error_code), (''error_message'', JStr error_message)] @
     (case content_id of Some (c # cs) \<Rightarrow> [(''content_id'', JStr (c # cs))] | _ \<Rightarrow> [])"

definition build_virtual_response_envelope :: "payload \<Rightarrow> string \<Rightarrow> payload \<Rightarrow> string \<Rightarrow> payload" where
  "build_virtual_response_envelope request_header message_type payload uuid =
     [(''header'', JObj
        [(''version'', (case dict_get request_header ''version'' of None \<Rightarrow> JInt 1 | Some v \<Rightarrow> v)),
         (''message_type'', JStr message_type), (''message_id'', JStr uuid),
         (''message_sequence'', jget request_header ''message_sequence''),
         (''physical_session_id'', jget request_header ''physical_session_id''),
         (''virtual_session_id'', jget request_header ''virtual_session_id''),
         (''response_to_message_id'', jget request_header ''message_id'')]),
      (''payload'', JObj payload)]"

section \<open>Results\<close>

definition content_session_meta :: "protocol_envelope \<Rightarrow> meta" where
  "content_session_meta envelope = MJson (opt_str (read_virtual_session_id envelope))"

definition build_skeleton_result :: "protocol_envelope \<Rightarrow> string \<Rightarrow> (string, meta) dict \<Rightarrow> packet_processing_result" where
  "build_skeleton_result envelope action metadata = handled_result envelope None
     ([(''protocol_family'', mstr ''content_transfer''), (''action'', mstr action), (''session_id'', content_session_meta envelope)] @ metadata)"

definition build_virtual_response_result :: "string \<Rightarrow> protocol_envelope \<Rightarrow> string \<Rightarrow> string \<Rightarrow> payload \<Rightarrow> (string, meta) dict \<Rightarrow>
    packet_processing_result" where
  "build_virtual_response_result uuid envelope action response_message_type payload metadata = handled_result envelope None
     ([(''protocol_family'', mstr ''content_transfer''), (''action'', mstr action), (''session_id'', content_session_meta envelope),
       (''virtual_response_message_type'', mstr response_message_type),
       (''virtual_response_envelope'', MJson (JObj (build_virtual_response_envelope (pe_header envelope) response_message_type payload uuid)))]
      @ metadata)"

definition build_content_invalid_result :: "protocol_envelope \<Rightarrow> string \<Rightarrow> packet_processing_result" where
  "build_content_invalid_result envelope reason = \<lparr> pr_protocol_name = pe_protocol_name envelope, pr_handled = False,
     pr_message_type = pe_message_type envelope, pr_response_payload = None,
     pr_metadata = [(''protocol_family'', mstr ''content_transfer''), (''reason'', mstr reason), (''session_id'', content_session_meta envelope)] \<rparr>"

text \<open>\<^verbatim>\<open>try: ... except ValueError as error\<close>: what the handler does with the text of the error, and with the value.\<close>

definition catch_value_error :: "'a result \<Rightarrow> (string \<Rightarrow> 'b) \<Rightarrow> (py_error \<Rightarrow> 'b) \<Rightarrow> ('a \<Rightarrow> 'b) \<Rightarrow> 'b" where
  "catch_value_error r on_value on_other k = (case r of
     Inr x \<Rightarrow> k x
   | Inl e \<Rightarrow> (case e of ValueError m \<Rightarrow> on_value m | _ \<Rightarrow> on_other e))"

lemma catch_value_error_simps [simp]:
  "catch_value_error (Inr x) f g k = k x"
  "catch_value_error (Inl (ValueError m)) f g k = f m"
  "catch_value_error (Inl FileNotFoundError) f g k = g FileNotFoundError"
  by (simp_all add: catch_value_error_def)

section \<open>Handlers\<close>

definition content_of :: "node_state \<Rightarrow> content_transfer_service" where
  "content_of st = sv_content (snd st)"

definition with_content :: "content_transfer_service \<Rightarrow> node_state \<Rightarrow> node_state" where
  "with_content cs st = (fst st, (snd st) \<lparr> sv_content := cs \<rparr>)"

definition emit_api_event :: "string \<Rightarrow> payload \<Rightarrow> node_state \<Rightarrow> node_state" where
  "emit_api_event event_type data st =
     (if sv_has_api (snd st) then (fst st, (snd st) \<lparr> sv_events := sv_events (snd st) @ [(event_type, data)] \<rparr>) else st)"

definition schedule_download_provider_publish_to_ddt :: "content_download_state \<Rightarrow> string \<Rightarrow> node_state \<Rightarrow> node_state" where
  "schedule_download_provider_publish_to_ddt download_state session_id st =
     (fst st, (snd st) \<lparr> sv_publish_tasks := sv_publish_tasks (snd st) @ [(download_state, session_id)] \<rparr>)"

definition require_active_virtual_session :: "handler_env \<Rightarrow> protocol_envelope \<Rightarrow> node_state \<Rightarrow>
    node_state \<times> packet_processing_result option" where
  "require_active_virtual_session he envelope st =
     (case read_virtual_session_id envelope of
        None \<Rightarrow> (st, Some (build_content_invalid_result envelope ''virtual_session_id_required''))
      | Some session_id \<Rightarrow> (case get_session_by_session_id (sessions_of st) session_id of
          None \<Rightarrow> (st, Some (build_content_invalid_result envelope ''virtual_session_not_found''))
        | Some session \<Rightarrow>
            if ns_session_scope session \<noteq> ''virtual'' then (st, Some (build_content_invalid_result envelope ''virtual_session_not_found''))
            else if ns_session_state session \<noteq> ''active'' then (st, Some (build_content_invalid_result envelope ''virtual_session_not_active''))
            else (on_sessions (\<lambda>sm. fst (touch_session sm session_id None (he_clock he 0) (he_clock he 1))) st, None)))"

text \<open>The guard of every handler.\<close>

definition with_active_virtual_session :: "handler_env \<Rightarrow> protocol_envelope \<Rightarrow> node_state \<Rightarrow> (node_state \<Rightarrow> handler_result) \<Rightarrow> handler_result" where
  "with_active_virtual_session he envelope st k = (case require_active_virtual_session he envelope st of
     (st, Some r) \<Rightarrow> (st, Inr r) | (st, None) \<Rightarrow> k st)"

definition handle_content_info_request :: "handler_env \<Rightarrow> protocol_envelope \<Rightarrow> packet_context \<Rightarrow> node_state \<Rightarrow> handler_result" where
  "handle_content_info_request he envelope ctx st0 =
     with_active_virtual_session he envelope st0 (\<lambda>st.
       let payload = as_payload_dict envelope;
           content_id = optional_string payload ''content_id'';
           ddt_key = optional_string payload ''ddt_key''
       in if content_id = None \<and> ddt_key = None
          then (st, Inr (build_content_invalid_result envelope ''content_id_or_ddt_key_required''))
          else (case get_content_info (he_clock he 2) (he_clock he 3) content_id (content_of st) of
             (cs, None) \<Rightarrow> (with_content cs st, Inr (build_virtual_response_result (he_uuid he) envelope ''content_info_not_found''
                ''VIRTUAL_CONTENT_NOT_FOUND''
                (build_content_error_payload content_id ''content_not_found'' ''Content not found on the local node.'')
                [(''content_id'', MJson (opt_str content_id)), (''ddt_key'', MJson (opt_str ddt_key))]))
           | (cs, Some info) \<Rightarrow> (with_content cs st, Inr (build_virtual_response_result (he_uuid he) envelope ''content_info_response_ready''
                ''VIRTUAL_CONTENT_INFO_RESPONSE''
                (build_content_info_response_payload (ci_content_id info) (ci_size_bytes info) (ci_content_hash info)
                   (ci_content_type info) ddt_key None)
                [(''content_id'', mstr (ci_content_id info)), (''content_hash'', mstr (ci_content_hash info)),
                 (''size_bytes'', MJson (JInt (ci_size_bytes info))), (''content_type'', mstr (ci_content_type info)),
                 (''ddt_key'', MJson (opt_str ddt_key))]))))"

definition content_range_request_result :: "string \<Rightarrow> protocol_envelope \<Rightarrow> string \<Rightarrow> int \<Rightarrow> int \<Rightarrow> packet_processing_result" where
  "content_range_request_result uuid envelope content_id start_byte end_byte =
     build_virtual_response_result uuid envelope ''content_range_request_ready'' ''VIRTUAL_CONTENT_RANGE_REQUEST''
       (build_content_range_request_payload content_id start_byte end_byte)
       [(''content_id'', mstr content_id), (''start_byte'', MJson (JInt start_byte)), (''end_byte'', MJson (JInt end_byte)),
        (''length'', MJson (JInt (end_byte - start_byte)))]"

definition handle_content_info_response :: "handler_env \<Rightarrow> protocol_envelope \<Rightarrow> packet_context \<Rightarrow> node_state \<Rightarrow> handler_result" where
  "handle_content_info_response he envelope ctx st0 =
     with_active_virtual_session he envelope st0 (\<lambda>st.
       catch_value_error (parse_content_info_payload (as_payload_dict envelope))
         (\<lambda>m. (st, Inr (build_content_invalid_result envelope m))) (\<lambda>e. (st, Inl e)) (\<lambda>info.
       case read_virtual_session_id envelope of
         None \<Rightarrow> (st, Inr (build_content_invalid_result envelope ''virtual_session_id_required''))
       | Some session_id \<Rightarrow>
           let (cs, download_state) = start_or_update_download session_id (cip_content_id info) (cip_content_hash info)
                 (cip_size_bytes info) (cip_content_type info) (content_of st);
               st = with_content cs st
           in (case get_next_range_request session_id (cip_content_id info) cs of
                Inl e \<Rightarrow> (st, Inl e)
              | Inr (Some (start_byte, end_byte)) \<Rightarrow>
                  (st, Inr (content_range_request_result (he_uuid he) envelope (cip_content_id info) start_byte end_byte))
              | Inr None \<Rightarrow> (st, Inr (build_skeleton_result envelope ''content_info_response_received''
                  [(''content_id'', mstr (cip_content_id info)), (''size_bytes'', MJson (JInt (cip_size_bytes info))),
                   (''content_hash'', mstr (cip_content_hash info)), (''content_type'', mstr (cip_content_type info)),
                   (''next_step'', mstr ''store_pending_content_metadata_for_range_reads'')])))))"

definition handle_content_range_request :: "handler_env \<Rightarrow> protocol_envelope \<Rightarrow> packet_context \<Rightarrow> node_state \<Rightarrow> handler_result" where
  "handle_content_range_request he envelope ctx st0 =
     with_active_virtual_session he envelope st0 (\<lambda>st.
       catch_value_error (parse_range_request_payload (as_payload_dict envelope))
         (\<lambda>m. (st, Inr (build_content_invalid_result envelope m))) (\<lambda>e. (st, Inl e)) (\<lambda>range_request.
       case read_content_range (he_clock he 2) (he_clock he 3) (crp_content_id range_request) (crp_start_byte range_request)
           (crp_end_byte range_request) (content_of st) of
         (cs, Inl FileNotFoundError) \<Rightarrow> (with_content cs st, Inr (build_virtual_response_result (he_uuid he) envelope
            ''content_range_not_found'' ''VIRTUAL_CONTENT_NOT_FOUND''
            (build_content_error_payload (Some (crp_content_id range_request)) ''content_not_found'' ''Content not found on the local node.'')
            [(''content_id'', mstr (crp_content_id range_request))]))
       | (cs, Inl (ValueError m)) \<Rightarrow> (with_content cs st, Inr (build_virtual_response_result (he_uuid he) envelope
            ''content_range_denied'' ''VIRTUAL_CONTENT_RANGE_DENIED''
            (build_content_error_payload (Some (crp_content_id range_request)) ''invalid_range'' m)
            [(''content_id'', mstr (crp_content_id range_request)), (''start_byte'', MJson (JInt (crp_start_byte range_request))),
             (''end_byte'', MJson (JInt (crp_end_byte range_request)))]))
       | (cs, Inl e) \<Rightarrow> (with_content cs st, Inl e)
       | (cs, Inr r) \<Rightarrow> (with_content cs st, Inr (build_virtual_response_result (he_uuid he) envelope
            ''content_range_response_ready'' ''VIRTUAL_CONTENT_RANGE_RESPONSE''
            (build_content_range_response_payload (cr_content_id r) (cr_start_byte r) (cr_end_byte r) (data_base64 r))
            [(''content_id'', mstr (cr_content_id r)), (''start_byte'', MJson (JInt (cr_start_byte r))),
             (''end_byte'', MJson (JInt (cr_end_byte r))), (''length'', MJson (JInt (cr_end_byte r - cr_start_byte r)))]))))"

text \<open>What follows the service's reaction to a range: an event, the announcement, or the next request.\<close>

definition after_content_range :: "handler_env \<Rightarrow> protocol_envelope \<Rightarrow> string \<Rightarrow> content_range_payload \<Rightarrow> content_download_state \<Rightarrow>
    node_state \<Rightarrow> handler_result" where
  "after_content_range he envelope session_id range_response download_state st =
     (if ds_status download_state = ''failed''
      then (emit_api_event ''content_download_failed'' [(''session_id'', JStr session_id), (''content_id'', JStr (ds_content_id download_state)),
              (''error_message'', opt_str (ds_error_message download_state))] st,
            Inr (build_skeleton_result envelope ''content_download_failed''
              [(''content_id'', mstr (ds_content_id download_state)), (''error_message'', MJson (opt_str (ds_error_message download_state)))]))
      else if ds_status download_state = ''completed''
      then (emit_api_event ''content_download_completed'' [(''session_id'', JStr session_id), (''content_id'', JStr (ds_content_id download_state)),
              (''content_hash'', JStr (ds_content_hash download_state)), (''size_bytes'', JInt (ds_size_bytes download_state)),
              (''storage_path'', JStr (ds_final_path download_state))]
              (schedule_download_provider_publish_to_ddt download_state session_id st),
            Inr (build_skeleton_result envelope ''content_download_completed''
              [(''content_id'', mstr (ds_content_id download_state)), (''content_hash'', mstr (ds_content_hash download_state)),
               (''size_bytes'', MJson (JInt (ds_size_bytes download_state))), (''storage_path'', mstr (ds_final_path download_state))]))
      else (case get_next_range_request session_id (crp_content_id range_response) (content_of st) of
          Inl e \<Rightarrow> (st, Inl e)
        | Inr (Some (start_byte, end_byte)) \<Rightarrow>
            (st, Inr (content_range_request_result (he_uuid he) envelope (crp_content_id range_response) start_byte end_byte))
        | Inr None \<Rightarrow> (st, Inr (build_skeleton_result envelope ''content_range_response_received''
            [(''content_id'', mstr (crp_content_id range_response)), (''start_byte'', MJson (JInt (crp_start_byte range_response))),
             (''end_byte'', MJson (JInt (crp_end_byte range_response))),
             (''data_base64_size'', MJson (JInt (int (length (crp_data_base64 range_response))))),
             (''download_status'', mstr (ds_status download_state))]))))"

definition handle_content_range_response_message :: "handler_env \<Rightarrow> protocol_envelope \<Rightarrow> packet_context \<Rightarrow> node_state \<Rightarrow> handler_result" where
  "handle_content_range_response_message he envelope ctx st0 =
     with_active_virtual_session he envelope st0 (\<lambda>st.
       catch_value_error (parse_range_response_payload (as_payload_dict envelope))
         (\<lambda>m. (st, Inr (build_content_invalid_result envelope m))) (\<lambda>e. (st, Inl e)) (\<lambda>range_response.
       case read_virtual_session_id envelope of
         None \<Rightarrow> (st, Inr (build_content_invalid_result envelope ''virtual_session_id_required''))
       | Some session_id \<Rightarrow>
           (case handle_content_range_response (he_sha512 he) (he_clock he 2) (he_clock he 3) session_id (crp_content_id range_response)
               (crp_start_byte range_response) (crp_end_byte range_response) (crp_data_base64 range_response) (content_of st) of
              (cs, r) \<Rightarrow> let st = with_content cs st in
                catch_value_error r (\<lambda>m. (st, Inr (build_content_invalid_result envelope m))) (\<lambda>e. (st, Inl e))
                  (\<lambda>download_state. after_content_range he envelope session_id range_response download_state st))))"

definition handle_content_error_message :: "handler_env \<Rightarrow> protocol_envelope \<Rightarrow> packet_context \<Rightarrow> string \<Rightarrow> node_state \<Rightarrow> handler_result" where
  "handle_content_error_message he envelope ctx action st0 =
     with_active_virtual_session he envelope st0 (\<lambda>st.
       let payload = as_payload_dict envelope in
       (st, Inr (build_skeleton_result envelope action
          [(''content_id'', MJson (opt_str (optional_string payload ''content_id''))),
           (''error_code'', MJson (opt_str (optional_string payload ''error_code''))),
           (''error_message'', MJson (opt_str (optional_string payload ''error_message'')))])))"

definition handle_content_not_found :: "handler_env \<Rightarrow> protocol_envelope \<Rightarrow> packet_context \<Rightarrow> node_state \<Rightarrow> handler_result" where
  "handle_content_not_found he envelope ctx = handle_content_error_message he envelope ctx ''content_not_found_received''"

definition handle_content_range_denied :: "handler_env \<Rightarrow> protocol_envelope \<Rightarrow> packet_context \<Rightarrow> node_state \<Rightarrow> handler_result" where
  "handle_content_range_denied he envelope ctx = handle_content_error_message he envelope ctx ''content_range_denied_received''"

definition handle_content_range_error :: "handler_env \<Rightarrow> protocol_envelope \<Rightarrow> packet_context \<Rightarrow> node_state \<Rightarrow> handler_result" where
  "handle_content_range_error he envelope ctx = handle_content_error_message he envelope ctx ''content_range_error_received''"

definition content_handle :: "handler_env \<Rightarrow> protocol_envelope \<Rightarrow> packet_context \<Rightarrow> node_state \<Rightarrow> handler_result" where
  "content_handle he envelope ctx st =
     (if pe_message_type envelope = Some ''VIRTUAL_CONTENT_INFO_REQUEST'' then handle_content_info_request he envelope ctx st
      else if pe_message_type envelope = Some ''VIRTUAL_CONTENT_INFO_RESPONSE'' then handle_content_info_response he envelope ctx st
      else if pe_message_type envelope = Some ''VIRTUAL_CONTENT_RANGE_REQUEST'' then handle_content_range_request he envelope ctx st
      else if pe_message_type envelope = Some ''VIRTUAL_CONTENT_RANGE_RESPONSE'' then handle_content_range_response_message he envelope ctx st
      else if pe_message_type envelope = Some ''VIRTUAL_CONTENT_NOT_FOUND'' then handle_content_not_found he envelope ctx st
      else if pe_message_type envelope = Some ''VIRTUAL_CONTENT_RANGE_DENIED'' then handle_content_range_denied he envelope ctx st
      else if pe_message_type envelope = Some ''VIRTUAL_CONTENT_RANGE_ERROR'' then handle_content_range_error he envelope ctx st
      else (st, Inr (build_content_invalid_result envelope ''unsupported_content_message_type'')))"

section \<open>Announcing a download\<close>

text \<open>
  The task a completed download starts. \<open>publish\<close> is the DHT client: what attempt \<open>n\<close> returns, \<open>None\<close> for an
  exception; it is absent when there are no protocol clients. The delay between attempts is not visible.
\<close>

fun publish_attempts :: "(nat \<Rightarrow> payload option) \<Rightarrow> nat \<Rightarrow> nat \<Rightarrow> payload \<Rightarrow> payload" where
  "publish_attempts publish attempt 0 publish_result = publish_result"
| "publish_attempts publish attempt (Suc left) publish_result = (case publish attempt of
     None \<Rightarrow> publish_attempts publish (Suc attempt) left publish_result
   | Some r \<Rightarrow> if jget r ''status'' = JStr ''stored'' then r else publish_attempts publish (Suc attempt) left r)"

definition publish_download_provider_to_ddt :: "handler_env \<Rightarrow> (string \<Rightarrow> string \<Rightarrow> string) \<Rightarrow> int \<Rightarrow> int \<Rightarrow> (nat \<Rightarrow> payload option) option \<Rightarrow>
    content_download_state \<Rightarrow> string \<Rightarrow> node_state \<Rightarrow> node_state" where
  "publish_download_provider_to_ddt he sign ttl_seconds retry_attempts publish download_state session_id st =
     (case get_session_by_session_id (sessions_of st) session_id of
        None \<Rightarrow> st
      | Some session \<Rightarrow>
          if ns_local_identity_type session \<noteq> ''virtual_node'' then st
          else (case (build_provider_advertisement (he_sha512 he) sign (he_isofmt he) (he_clock he 0) (ds_content_id download_state)
              (ns_local_identity_id session) ttl_seconds (content_of st), publish) of
             (Some advertisement, Some publish) \<Rightarrow>
               let publish_result = publish_attempts publish 1 (nat (max 1 retry_attempts)) [(''status'', JStr ''not_started'')] in
               if jget publish_result ''status'' \<noteq> JStr ''stored'' then st
               else emit_api_event ''content_provider_published''
                 [(''session_id'', JStr session_id), (''content_id'', JStr (ds_content_id download_state)),
                  (''local_virtual_node_id'', JStr (ns_local_identity_id session)), (''ddt_key'', JStr (pa_key advertisement)),
                  (''expires_at'', JStr (he_isofmt he (pa_expires_at advertisement)))]
                 (with_content (mark_provider_advertisement_published (he_clock he 1) (ds_content_id download_state)
                    (ns_local_identity_id session) (pa_expires_at advertisement) (content_of st)) st)
           | _ \<Rightarrow> st))"

section \<open>The guard\<close>

definition virtual_active :: "string \<Rightarrow> node_state \<Rightarrow> bool" where
  "virtual_active sid st \<longleftrightarrow> sm_ok (sessions_of st) \<and> (\<exists>s. get_session_by_session_id (sessions_of st) sid = Some s \<and>
     ns_session_scope s = ''virtual'' \<and> ns_session_state s = ''active'')"

definition touched_node :: "handler_env \<Rightarrow> string \<Rightarrow> node_state \<Rightarrow> node_state" where
  "touched_node he sid st = on_sessions (\<lambda>sm. fst (touch_session sm sid None (he_clock he 0) (he_clock he 1))) st"

lemma content_of_simps [simp]:
  "content_of (on_sessions f st) = content_of st" "content_of (with_content cs st) = cs" "content_of (touched_node he sid st) = content_of st"
  "content_of (emit_api_event ev d st) = content_of st" "content_of (schedule_download_provider_publish_to_ddt ds sid st) = content_of st"
  by (simp_all add: content_of_def with_content_def touched_node_def emit_api_event_def schedule_download_provider_publish_to_ddt_def)

lemma fst_content_simps [simp]:
  "fst (with_content cs st) = fst st" "fst (emit_api_event ev d st) = fst st" "fst (schedule_download_provider_publish_to_ddt ds sid st) = fst st"
  by (simp_all add: with_content_def emit_api_event_def schedule_download_provider_publish_to_ddt_def)

lemma sessions_content_simps [simp]:
  "sessions_of (with_content cs st) = sessions_of st" "sessions_of (emit_api_event ev d st) = sessions_of st"
  "sessions_of (schedule_download_provider_publish_to_ddt ds sid st) = sessions_of st"
  by (simp_all add: sessions_of_def)

lemma virtual_active_simps [simp]:
  "virtual_active sid (with_content cs st) = virtual_active sid st" "virtual_active sid (emit_api_event ev d st) = virtual_active sid st"
  "virtual_active sid (schedule_download_provider_publish_to_ddt ds s st) = virtual_active sid st"
  by (simp_all add: virtual_active_def)

lemma virtual_active_touched [simp]: "virtual_active sid st \<Longrightarrow> virtual_active sid (touched_node he sid st)"
  unfolding virtual_active_def touched_node_def
  by (auto simp: sm_ok_mutations) (simp add: touch_session_def get_modify sm_ok_index touched_def Let_def)

lemma guard_active [simp]:
  "virtual_active sid st \<Longrightarrow> read_virtual_session_id env = Some sid \<Longrightarrow>
   with_active_virtual_session he env st k = k (touched_node he sid st)"
  by (auto simp: with_active_virtual_session_def require_active_virtual_session_def virtual_active_def touched_node_def)

lemma guard_cases:
  obtains (refused) reason where "with_active_virtual_session he env st k = (st, Inr (build_content_invalid_result env reason))"
  | (active) sid s where "read_virtual_session_id env = Some sid" "get_session_by_session_id (sessions_of st) sid = Some s"
      "ns_session_scope s = ''virtual''" "ns_session_state s = ''active''"
      "with_active_virtual_session he env st k = k (touched_node he sid st)"
proof (cases "read_virtual_session_id env")
  case None
  then show ?thesis by (intro refused) (simp add: with_active_virtual_session_def require_active_virtual_session_def)
next
  case (Some sid)
  show ?thesis
  proof (cases "get_session_by_session_id (sessions_of st) sid")
    case None
    with Some show ?thesis by (intro refused) (simp add: with_active_virtual_session_def require_active_virtual_session_def)
  next
    case (Some s)
    show ?thesis
    proof (cases "ns_session_scope s = ''virtual'' \<and> ns_session_state s = ''active''")
      case True
      with Some \<open>read_virtual_session_id env = Some sid\<close> show ?thesis
        by (intro active [of sid s]) (simp_all add: with_active_virtual_session_def require_active_virtual_session_def touched_node_def)
    next
      case False
      with Some \<open>read_virtual_session_id env = Some sid\<close> show ?thesis
        by (cases "ns_session_scope s = ''virtual''")
          (auto intro!: refused simp: with_active_virtual_session_def require_active_virtual_session_def)
    qed
  qed
qed

section \<open>Every message is answered\<close>

lemma parse_value_errors:
  "require_string p f = Inl e \<Longrightarrow> \<exists>m. e = ValueError m" "require_non_negative_int p f = Inl e \<Longrightarrow> \<exists>m. e = ValueError m"
  "require_positive_int p f = Inl e \<Longrightarrow> \<exists>m. e = ValueError m"
  by (auto simp: require_string_def require_non_negative_int_def require_positive_int_def Let_def split: option.splits if_splits)

lemma parse_content_errors:
  "parse_content_info_payload p = Inl e \<Longrightarrow> \<exists>m. e = ValueError m" "parse_range_request_payload p = Inl e \<Longrightarrow> \<exists>m. e = ValueError m"
  "parse_range_response_payload p = Inl e \<Longrightarrow> \<exists>m. e = ValueError m"
  unfolding parse_content_info_payload_def parse_range_request_payload_def parse_range_response_payload_def
  by (auto simp: rbind_Inl_iff dest: parse_value_errors split: if_splits)

lemma catch_total:
  assumes "\<And>e. r = Inl e \<Longrightarrow> \<exists>m. e = ValueError m" and "\<And>m. P (f m)" and "\<And>x. r = Inr x \<Longrightarrow> P (k x)"
  shows "P (catch_value_error r f g k)"
  using assms by (cases r) auto

lemma range_errors: "read_content_range now upd c s e cs = (cs', Inl x) \<Longrightarrow> x = FileNotFoundError \<or> (\<exists>m. x = ValueError m)"
  by (auto simp: read_content_range_def Let_def split: if_splits prod.splits option.splits)

lemma next_range_started: "start_or_update_download sid cid hash n ty cs = (cs', st) \<Longrightarrow> \<exists>r. get_next_range_request sid cid cs' = Inr r"
  by (auto simp: start_or_update_download_def get_next_range_request_def find_download_state_def download_key_def Let_def
      split: option.splits)

lemma response_errors:
  assumes "handle_content_range_response h now upd sid cid s e d64 cs = (cs', r)"
  shows "(\<exists>m. r = Inl (ValueError m)) \<or> (\<exists>x y. r = Inr x \<and> get_next_range_request sid cid cs' = Inr y)"
  using assms
  by (auto simp: handle_content_range_response_def complete_download_def get_next_range_request_def find_download_state_def
      download_key_def Let_def split: option.splits if_splits)

lemma guard_rule:
  assumes "\<And>reason. P (st, Inr (build_content_invalid_result env reason))"
    and "\<And>sid s. read_virtual_session_id env = Some sid \<Longrightarrow> get_session_by_session_id (sessions_of st) sid = Some s \<Longrightarrow>
      ns_session_scope s = ''virtual'' \<Longrightarrow> ns_session_state s = ''active'' \<Longrightarrow> P (k (touched_node he sid st))"
  shows "P (with_active_virtual_session he env st k)"
  using assms by (cases rule: guard_cases [of he env st k]) simp_all

definition answered :: "node_state \<Rightarrow> handler_result \<Rightarrow> bool" where
  "answered st x \<longleftrightarrow> (\<exists>r. snd x = Inr r) \<and> (node_ok st \<longrightarrow> node_ok (fst x))"

lemma answeredI: "(node_ok st \<Longrightarrow> node_ok st') \<Longrightarrow> answered st (st', Inr r)"
  by (simp add: answered_def)

lemma node_ok_content [simp]:
  "node_ok (with_content cs st) = node_ok st" "node_ok (emit_api_event ev d st) = node_ok st"
  "node_ok (schedule_download_provider_publish_to_ddt ds sid st) = node_ok st"
  by (simp_all add: node_ok_def with_content_def emit_api_event_def schedule_download_provider_publish_to_ddt_def sessions_of_def)

lemma node_ok_touched: "node_ok st \<Longrightarrow> node_ok (touched_node he sid st)"
  unfolding touched_node_def by (rule node_ok_on_sessions) (simp_all add: sm_ok_mutations)

lemma answered_after_range:
  assumes "\<exists>y. get_next_range_request sid (crp_content_id rr) (content_of st') = Inr y" and "node_ok st \<Longrightarrow> node_ok st'"
  shows "answered st (after_content_range he env sid rr ds st')"
  using assms by (auto simp: after_content_range_def intro!: answeredI split: option.split)

lemmas answered_guard = guard_rule [where P = "answered st" for st]
lemmas answered_catch = catch_total [where P = "answered st" for st]

lemma answered_invalid: "node_ok st \<longrightarrow> node_ok st' \<Longrightarrow> answered st (st', Inr r)"
  by (simp add: answered_def)

lemma answered_info_request: "answered st (handle_content_info_request he env ctx st)"
  unfolding handle_content_info_request_def Let_def
  by (rule answered_guard) (auto intro!: answeredI node_ok_touched split: option.split prod.split)

lemma answered_parsed:
  assumes "\<And>e. r = Inl e \<Longrightarrow> \<exists>m. e = ValueError m" and "node_ok st \<Longrightarrow> node_ok st'" and "\<And>x. r = Inr x \<Longrightarrow> answered st (k x)"
  shows "answered st (catch_value_error r (\<lambda>m. (st', Inr (build_content_invalid_result env m))) (\<lambda>e. (st', Inl e)) k)"
  by (rule answered_catch) (use assms in \<open>auto intro: answeredI\<close>)

lemma answered_info_response: "answered st (handle_content_info_response he env ctx st)"
  unfolding handle_content_info_response_def Let_def
  by (rule answered_guard, rule answeredI, assumption, rule answered_parsed)
    (auto intro!: answeredI node_ok_touched dest: parse_content_errors next_range_started split: option.split prod.split sum.split)

lemma answered_range_request: "answered st (handle_content_range_request he env ctx st)"
  unfolding handle_content_range_request_def
  by (rule answered_guard, rule answeredI, assumption, rule answered_parsed)
    (auto intro!: answeredI node_ok_touched dest: parse_content_errors range_errors split: prod.split sum.split py_error.split)

lemma answered_range_response: "answered st (handle_content_range_response_message he env ctx st)"
  unfolding handle_content_range_response_message_def Let_def
  by (rule answered_guard, rule answeredI, assumption, rule answered_parsed)
    (auto intro!: answeredI node_ok_touched answered_parsed answered_after_range dest: response_errors parse_content_errors split: option.split prod.split)

lemma answered_error_message: "answered st (handle_content_error_message he env ctx act st)"
  unfolding handle_content_error_message_def Let_def by (rule answered_guard) (auto intro!: answeredI node_ok_touched)

section \<open>A download by messages\<close>

text \<open>The envelope a handler answers with, as the other node receives it.\<close>

definition reply_envelope :: "packet_processing_result \<Rightarrow> protocol_envelope option" where
  "reply_envelope r = (case dict_get (pr_metadata r) ''virtual_response_envelope'' of
     Some (MJson (JObj e)) \<Rightarrow> (case as_obj (jget e ''header'') of
         Some h \<Rightarrow> Some \<lparr> pe_protocol_name = ''json'', pe_message_type = as_str (jget h ''message_type''), pe_payload = jget e ''payload'',
           pe_raw_payload = compact_json_bytes e, pe_header = h \<rparr>
       | None \<Rightarrow> None)
   | _ \<Rightarrow> None)"

text \<open>
  One round between a provider and a downloader: the message is handled by the provider, its answer by the
  downloader, whose answer is the next message.
\<close>

definition content_round :: "packet_context \<Rightarrow> handler_env \<times> handler_env \<Rightarrow> node_state \<times> node_state \<times> protocol_envelope option \<Rightarrow>
    node_state \<times> node_state \<times> protocol_envelope option" where
  "content_round ctx hes x = (case x of
     (p, d, None) \<Rightarrow> (p, d, None)
   | (p, d, Some m) \<Rightarrow> (case content_handle (fst hes) m ctx p of
       (p, Inl e) \<Rightarrow> (p, d, None)
     | (p, Inr r) \<Rightarrow> (case reply_envelope r of
         None \<Rightarrow> (p, d, None)
       | Some m' \<Rightarrow> (case content_handle (snd hes) m' ctx d of
           (d, Inl e) \<Rightarrow> (p, d, None)
         | (d, Inr r') \<Rightarrow> (p, d, reply_envelope r')))))"

definition message_of :: "string \<Rightarrow> string \<Rightarrow> payload \<Rightarrow> protocol_envelope \<Rightarrow> bool" where
  "message_of sid mt pl env \<longleftrightarrow> pe_message_type env = Some mt \<and> jget (pe_header env) ''virtual_session_id'' = JStr sid \<and> pe_payload env = JObj pl"

lemma message_read:
  assumes "message_of sid mt pl env" and "sid \<noteq> []"
  shows "read_virtual_session_id env = Some sid" "as_payload_dict env = pl" "pe_message_type env = Some mt"
  using assms by (simp_all add: message_of_def read_virtual_session_id_def read_header_string_def jget_nonempty_str_def as_payload_dict_def)

lemma reply_message:
  assumes "message_of sid mt pl env"
  obtains env' where "reply_envelope (build_virtual_response_result u env act mt' pl' md) = Some env'" "message_of sid mt' pl' env'"
  using assms that by (simp add: reply_envelope_def build_virtual_response_result_def handled_result_def build_virtual_response_envelope_def
      message_of_def dict_get_def)

lemma no_reply [simp]: "dict_get md ''virtual_response_envelope'' = None \<Longrightarrow> reply_envelope (build_skeleton_result env act md) = None"
  by (simp add: reply_envelope_def build_skeleton_result_def handled_result_def dict_get_def)

lemma parse_built:
  "c \<noteq> [] \<Longrightarrow> 0 \<le> s \<Longrightarrow> s < e \<Longrightarrow> parse_range_request_payload (build_content_range_request_payload c s e) = Inr (new_content_range_payload c s e None)"
  "c \<noteq> [] \<Longrightarrow> 0 \<le> s \<Longrightarrow> s < e \<Longrightarrow> d \<noteq> [] \<Longrightarrow>
     parse_range_response_payload (build_content_range_response_payload c s e d) = Inr (new_content_range_payload c s e (Some d))"
  "c \<noteq> [] \<Longrightarrow> 0 \<le> n \<Longrightarrow> hash \<noteq> [] \<Longrightarrow> ty \<noteq> [] \<Longrightarrow> parse_content_info_payload (build_content_info_response_payload c n hash ty None None) =
     Inr \<lparr> cip_content_id = c, cip_size_bytes = n, cip_content_hash = hash, cip_content_type = ty \<rparr>"
  by (simp_all add: parse_range_request_payload_def parse_range_response_payload_def parse_content_info_payload_def
      build_content_range_request_payload_def build_content_range_response_payload_def build_content_info_response_payload_def
      require_string_def read_string_or_none_def jget_nonempty_str_def require_non_negative_int_def require_positive_int_def Let_def
      new_content_range_payload_def)

lemma content_type_nonempty: "content_type_of ob \<noteq> []"
proof -
  have "a \<noteq> Some [] \<Longrightarrow> a \<noteq> None \<Longrightarrow> str_or b a \<noteq> Some [] \<and> str_or b a \<noteq> None" for a b by (cases "(b, a)" rule: str_or.cases) auto
  then have "str_or (co_mime_type ob) (str_or (co_content_type ob) (Some ''application/octet-stream'')) \<noteq> Some [] \<and>
    str_or (co_mime_type ob) (str_or (co_content_type ob) (Some ''application/octet-stream'')) \<noteq> None" by blast
  then show ?thesis by (auto simp: content_type_of_def)
qed

lemma info_type: "get_content_info now upd c cs = (cs', Some info) \<Longrightarrow> ci_content_type info \<noteq> [] \<and> ci_content_id info = ci_content_hash info"
  by (auto simp: get_content_info_def build_content_info_def content_type_nonempty split: option.splits if_splits)

lemma handle_type:
  assumes "message_of sid mt pl env" and "sid \<noteq> []"
  shows "mt = ''VIRTUAL_CONTENT_INFO_REQUEST'' \<Longrightarrow> content_handle he env ctx st = handle_content_info_request he env ctx st"
    and "mt = ''VIRTUAL_CONTENT_INFO_RESPONSE'' \<Longrightarrow> content_handle he env ctx st = handle_content_info_response he env ctx st"
    and "mt = ''VIRTUAL_CONTENT_RANGE_REQUEST'' \<Longrightarrow> content_handle he env ctx st = handle_content_range_request he env ctx st"
    and "mt = ''VIRTUAL_CONTENT_RANGE_RESPONSE'' \<Longrightarrow> content_handle he env ctx st = handle_content_range_response_message he env ctx st"
  using message_read(3) [OF assms] by (simp_all add: content_handle_def)

text \<open>The provider's part of a round of ranges.\<close>

lemma provider_range:
  assumes "virtual_active sid p" "sid \<noteq> []" "serves (content_of p) cid data" "0 \<le> s" "s < e" "e \<le> int (length data)"
    and "message_of sid ''VIRTUAL_CONTENT_RANGE_REQUEST'' (build_content_range_request_payload cid s e) m"
  obtains p' r m' where "content_handle he m ctx p = (p', Inr r)" "reply_envelope r = Some m'" "virtual_active sid p'" "serves (content_of p') cid data"
    "message_of sid ''VIRTUAL_CONTENT_RANGE_RESPONSE''
       (build_content_range_response_payload cid s e (b64encode (take (nat (e - s)) (drop (nat s) data)))) m'"
proof -
  note rd = message_read [OF assms(7,2)]
  have c: "cid \<noteq> []" using assms(3) by (simp add: serves_def)
  obtain cs' where r: "read_content_range (he_clock he 2) (he_clock he 3) cid s e (content_of p) = (cs', Inr \<lparr> cr_content_id = cid, cr_start_byte = s, cr_end_byte = e,
      cr_data = take (nat (e - s)) (drop (nat s) data) \<rparr>)" "serves cs' cid data"
    using read_served [OF assms(3-6), of "he_clock he 2" "he_clock he 3"] by blast
  show thesis
    by (rule reply_message [OF assms(7)], rule that [of "with_content cs' (touched_node he sid p)"])
     (use rd r assms c in \<open>auto simp: handle_type(3) [OF assms(7,2)] handle_content_range_request_def parse_built new_content_range_payload_def data_base64_def\<close>)
qed

text \<open>The downloader's part: the next request, or the end of the download.\<close>

definition chunk_end :: "content_transfer_service \<Rightarrow> string \<Rightarrow> string \<Rightarrow> nat" where
  "chunk_end cs got data = min (length got + nat (cs_download_range_size cs)) (length data)"

definition asks_next :: "string \<Rightarrow> string \<Rightarrow> content_transfer_service \<Rightarrow> string \<Rightarrow> string \<Rightarrow> protocol_envelope \<Rightarrow> bool" where
  "asks_next sid cid cs got data m \<longleftrightarrow> message_of sid ''VIRTUAL_CONTENT_RANGE_REQUEST''
     (build_content_range_request_payload cid (int (length got)) (int (chunk_end cs got data))) m"

lemma next_range_live:
  assumes "download_live cs sid cid st got" "ds_size_bytes st = int (length data)" "length got < length data" "1 \<le> cs_download_range_size cs"
  shows "get_next_range_request sid cid cs = Inr (Some (int (length got), int (chunk_end cs got data)))"
  using assms by (auto simp: get_next_range_request_def find_download_state_def download_key_def download_live_def chunk_end_def min_def)

lemma range_request_reply:
  assumes "message_of sid mt pl env"
  obtains m where "reply_envelope (content_range_request_result u env cid s e) = Some m"
    "message_of sid ''VIRTUAL_CONTENT_RANGE_REQUEST'' (build_content_range_request_payload cid s e) m"
  by (rule reply_message [OF assms], rule that) (simp_all add: content_range_request_result_def)

lemma after_range_completed:
  assumes "ds_status ds = ''completed''"
  obtains ev data act md where "after_content_range he env sid rr ds st =
      (emit_api_event ev data (schedule_download_provider_publish_to_ddt ds sid st), Inr (build_skeleton_result env act md))"
    "dict_get md ''virtual_response_envelope'' = None"
  using assms that by (simp add: after_content_range_def dict_get_def)

lemma publish_tasks_simps [simp]:
  "sv_publish_tasks (snd (emit_api_event ev data st)) = sv_publish_tasks (snd st)"
  "sv_publish_tasks (snd (schedule_download_provider_publish_to_ddt ds sid st)) = sv_publish_tasks (snd st) @ [(ds, sid)]"
  "sv_publish_tasks (snd (with_content cs st)) = sv_publish_tasks (snd st)"
  "sv_publish_tasks (snd (touched_node he sid st)) = sv_publish_tasks (snd st)"
  by (simp_all add: emit_api_event_def schedule_download_provider_publish_to_ddt_def with_content_def touched_node_def)

lemma downloader_range:
  assumes "virtual_active sid d" "sid \<noteq> []" "cid \<noteq> []" "download_live (content_of d) sid cid st got" "ds_size_bytes st = int (length data)"
    and "ds_content_hash st = he_sha512 he data" "got = take (length got) data" "length got < length data" "1 \<le> cs_download_range_size (content_of d)"
    and m: "message_of sid ''VIRTUAL_CONTENT_RANGE_RESPONSE'' (build_content_range_response_payload cid (int (length got)) (int n)
       (b64encode (take (n - length got) (drop (length got) data)))) m" and n: "n = chunk_end (content_of d) got data"
  shows "\<exists>d' r. content_handle he m ctx d = (d', Inr r) \<and> virtual_active sid d' \<and>
    (if n < length data then \<exists>m' st'. reply_envelope r = Some m' \<and> download_live (content_of d') sid cid st' (take n data) \<and>
       st' = st \<lparr> ds_next_start_byte := int n \<rparr> \<and> cs_download_range_size (content_of d') = cs_download_range_size (content_of d) \<and>
       asks_next sid cid (content_of d') (take n data) data m'
     else \<exists>st'. reply_envelope r = None \<and> get_download_state sid cid (content_of d') = Some st' \<and> completed st' \<and>
       dict_get (cs_files (content_of d')) (ds_final_path st') = Some data \<and> sv_publish_tasks (snd d') = sv_publish_tasks (snd d) @ [(st', sid)])"
proof -
  let ?x = "take (n - length got) (drop (length got) data)"
  have n1: "length got < n" "n \<le> length data" using assms(8,9) n by (auto simp: chunk_end_def)
  have ex: "int n = int (length got) + int (length ?x)" using n1 by simp
  have "got @ ?x = take (length got) data @ take (n - length got) (drop (length got) data)" using assms(7) by simp
  also have "\<dots> = take (length got + (n - length got)) data" by (simp only: take_add)
  finally have glue: "got @ ?x = take n data" using n1 by simp
  note rd = message_read [OF m assms(2)]
  have x: "?x \<noteq> []" using n1 by simp
  define cs where "cs = content_of d"
  let ?svc = "handle_content_range_response (he_sha512 he) (he_clock he 2) (he_clock he 3) sid cid (int (length got)) (int n) (b64encode ?x) (content_of d)"
  have ch: "content_handle he m ctx d = (case ?svc of (cs, r) \<Rightarrow> let st = with_content cs (touched_node he sid d) in
      catch_value_error r (\<lambda>t. (st, Inr (build_content_invalid_result m t))) (\<lambda>e. (st, Inl e))
        (\<lambda>ds. after_content_range he m sid (new_content_range_payload cid (int (length got)) (int n) (Some (b64encode ?x))) ds st))"
    unfolding handle_type(4) [OF m assms(2) refl] handle_content_range_response_message_def
    using rd assms(1,3) n1 x by (simp add: parse_built new_content_range_payload_def)
  show ?thesis
  proof (cases "n < length data")
    case True
    obtain cs' st' where r: "?svc = (cs', Inr st')" "download_live cs' sid cid st' (got @ ?x)" "st' = st \<lparr> ds_next_start_byte := int n \<rparr>"
        "cs_download_range_size cs' = cs_download_range_size (content_of d)"
      using response_appends [OF assms(4) refl ex, of "he_sha512 he" "he_clock he 2" "he_clock he 3"] True assms(5) by auto
    have g: "get_next_range_request sid cid cs' = Inr (Some (int n, int (chunk_end cs' (take n data) data)))"
      using next_range_live [OF r(2), of data] r(3,4) assms(5,9) True glue n1 by simp
    have st: "ds_status st' = ''downloading''" using r(2) by (simp add: download_live_def)
    obtain m' where m': "reply_envelope (content_range_request_result (he_uuid he) m cid (int n) (int (chunk_end cs' (take n data) data))) = Some m'"
      "message_of sid ''VIRTUAL_CONTENT_RANGE_REQUEST'' (build_content_range_request_payload cid (int n) (int (chunk_end cs' (take n data) data))) m'"
      by (rule range_request_reply [OF m])
    have "content_handle he m ctx d = (with_content cs' (touched_node he sid d),
        Inr (content_range_request_result (he_uuid he) m cid (int n) (int (chunk_end cs' (take n data) data))))"
      unfolding ch r(1) using g st by (simp add: after_content_range_def new_content_range_payload_def)
    with r m' True assms(1) glue n1 show ?thesis by (simp add: asks_next_def min_def)
  next
    case False
    then have e: "n = length data" using n1 by simp
    obtain cs' st' where r: "?svc = (cs', Inr st')" "completed st'" "dict_get (cs_downloads cs') (sid, cid) = Some st'"
        "ds_final_path st' = ds_final_path st" "dict_get (cs_files cs') (ds_final_path st) = Some (got @ ?x)"
      using response_completes [where h = "he_sha512 he", OF assms(4) refl ex, of "he_clock he 2" "he_clock he 3"] e assms(5,6) glue by auto
    have st: "ds_status st' = ''completed''" using r(2) by (simp add: completed_def)
    obtain ev dt act md where a: "content_handle he m ctx d =
        (emit_api_event ev dt (schedule_download_provider_publish_to_ddt st' sid (with_content cs' (touched_node he sid d))), Inr (build_skeleton_result m act md))"
        "dict_get md ''virtual_response_envelope'' = None"
      unfolding ch r(1) by (rule after_range_completed [OF st]) (simp add: that)
    show ?thesis
      unfolding a(1) using False assms(1) r glue e a(2) by (simp add: get_download_state_def download_key_def)
  qed
qed

lemma info_round:
  assumes "virtual_active sid p" "virtual_active sid d" "sid \<noteq> []" "serves (content_of p) cid data" "data \<noteq> []"
    and "dict_get (cs_downloads (content_of d)) (sid, cid) = None" "1 \<le> cs_download_range_size (content_of d)"
    and m: "message_of sid ''VIRTUAL_CONTENT_INFO_REQUEST'' (build_content_info_request_payload (Some cid) None) m"
  shows "\<exists>p' d' m' st. content_round ctx hes (p, d, Some m) = (p', d', Some m') \<and> virtual_active sid p' \<and> virtual_active sid d' \<and>
    serves (content_of p') cid data \<and> download_live (content_of d') sid cid st [] \<and> ds_size_bytes st = int (length data) \<and> ds_content_hash st = cid \<and>
    cs_download_range_size (content_of d') = cs_download_range_size (content_of d) \<and> asks_next sid cid (content_of d') [] data m' \<and>
    sv_publish_tasks (snd d') = sv_publish_tasks (snd d)"
proof -
  note rd = message_read [OF m assms(3)]
  have c: "cid \<noteq> []" using assms(4) by (simp add: serves_def)
  have rq: "optional_string (as_payload_dict m) ''content_id'' = Some cid" "optional_string (as_payload_dict m) ''ddt_key'' = None"
    using c by (cases cid; simp add: rd build_content_info_request_payload_def optional_string_def jget_nonempty_str_def)+
  let ?hp = "fst hes" and ?hd = "snd hes"
  let ?g = "get_content_info (he_clock ?hp 2) (he_clock ?hp 3) (Some cid) (content_of p)"
  obtain cs info where g: "?g = (cs, Some info)" "ci_size_bytes info = int (length data)" "ci_content_hash info = cid" "serves cs cid data"
    using serves_info [OF assms(4), of "he_clock ?hp 2" "he_clock ?hp 3"] by (metis prod.collapse)
  note it = info_type [OF g(1)]
  let ?pl = "build_content_info_response_payload cid (int (length data)) cid (ci_content_type info) None None"
  let ?r = "build_virtual_response_result (he_uuid ?hp) m ''content_info_response_ready'' ''VIRTUAL_CONTENT_INFO_RESPONSE'' ?pl
    [(''content_id'', mstr cid), (''content_hash'', mstr cid), (''size_bytes'', MJson (JInt (int (length data)))),
     (''content_type'', mstr (ci_content_type info)), (''ddt_key'', MJson JNull)]"
  have p: "content_handle ?hp m ctx p = (with_content cs (touched_node ?hp sid p), Inr ?r)"
    unfolding handle_type(1) [OF m assms(3) refl] handle_content_info_request_def using rd assms(1) g it rq by simp
  obtain m1 where m1: "reply_envelope ?r = Some m1" "message_of sid ''VIRTUAL_CONTENT_INFO_RESPONSE'' ?pl m1" by (rule reply_message [OF m])
  let ?s = "start_or_update_download sid cid cid (int (length data)) (ci_content_type info) (content_of d)"
  obtain st where st: "snd ?s = st" "download_live (fst ?s) sid cid st []" "ds_content_hash st = cid" "ds_size_bytes st = int (length data)"
    by (rule started_live [OF assms(6)])
  have k: "cs_download_range_size (fst ?s) = cs_download_range_size (content_of d)"
    using assms(6) by (simp add: start_or_update_download_def download_key_def Let_def)
  have nx: "get_next_range_request sid cid (fst ?s) = Inr (Some (0, int (chunk_end (fst ?s) [] data)))"
    using next_range_live [OF st(2,4)] assms(5,7) k by simp
  let ?r' = "content_range_request_result (he_uuid ?hd) m1 cid 0 (int (chunk_end (fst ?s) [] data))"
  note rd1 = message_read [OF m1(2) assms(3)]
  have d: "content_handle ?hd m1 ctx d = (with_content (fst ?s) (touched_node ?hd sid d), Inr ?r')"
    unfolding handle_type(2) [OF m1(2) assms(3) refl] handle_content_info_response_def
    using rd1 assms(2) c it nx by (simp add: parse_built prod.case_eq_if)
  obtain m2 where m2: "reply_envelope ?r' = Some m2"
    "message_of sid ''VIRTUAL_CONTENT_RANGE_REQUEST'' (build_content_range_request_payload cid 0 (int (chunk_end (fst ?s) [] data))) m2"
    by (rule range_request_reply [OF m1(2)])
  have "content_round ctx hes (p, d, Some m) = (with_content cs (touched_node ?hp sid p), with_content (fst ?s) (touched_node ?hd sid d), Some m2)"
    by (simp add: content_round_def p m1 d m2(1))
  with assms(1,2) g(4) st k m2(2) show ?thesis by (auto simp: asks_next_def)
qed

lemma range_round:
  assumes "virtual_active sid p" "virtual_active sid d" "sid \<noteq> []" "serves (content_of p) cid data"
    and live: "download_live (content_of d) sid cid st got" "ds_size_bytes st = int (length data)" "ds_content_hash st = cid"
    and "got = take (length got) data" "length got < length data" "1 \<le> cs_download_range_size (content_of d)"
    and m: "asks_next sid cid (content_of d) got data m" and h: "he_sha512 (snd hes) data = cid" and n: "n = chunk_end (content_of d) got data"
  shows "\<exists>p' d'. virtual_active sid p' \<and> virtual_active sid d' \<and> serves (content_of p') cid data \<and>
    (if n < length data then \<exists>m' st'. content_round ctx hes (p, d, Some m) = (p', d', Some m') \<and> download_live (content_of d') sid cid st' (take n data) \<and>
       ds_size_bytes st' = int (length data) \<and> ds_content_hash st' = cid \<and> cs_download_range_size (content_of d') = cs_download_range_size (content_of d) \<and>
       asks_next sid cid (content_of d') (take n data) data m'
     else \<exists>st'. content_round ctx hes (p, d, Some m) = (p', d', None) \<and> get_download_state sid cid (content_of d') = Some st' \<and> completed st' \<and>
       dict_get (cs_files (content_of d')) (ds_final_path st') = Some data \<and> (st', sid) \<in> set (sv_publish_tasks (snd d')))"
proof -
  have c: "cid \<noteq> []" using assms(4) by (simp add: serves_def)
  have n1: "length got < n" "n \<le> length data" using assms(9,10) n by (auto simp: chunk_end_def)
  have rq: "message_of sid ''VIRTUAL_CONTENT_RANGE_REQUEST'' (build_content_range_request_payload cid (int (length got)) (int n)) m"
    using m n by (simp add: asks_next_def)
  obtain p' r m1 where p: "content_handle (fst hes) m ctx p = (p', Inr r)" "reply_envelope r = Some m1" "virtual_active sid p'" "serves (content_of p') cid data"
    "message_of sid ''VIRTUAL_CONTENT_RANGE_RESPONSE'' (build_content_range_response_payload cid (int (length got)) (int n)
       (b64encode (take (nat (int n - int (length got))) (drop (nat (int (length got))) data)))) m1"
    by (rule provider_range [OF assms(1,3,4) _ _ _ rq]) (use n1 in auto)
  have rs: "message_of sid ''VIRTUAL_CONTENT_RANGE_RESPONSE'' (build_content_range_response_payload cid (int (length got)) (int n)
       (b64encode (take (n - length got) (drop (length got) data)))) m1" using p(5) n1 by (simp add: nat_diff_distrib' flip: of_nat_diff)
  have h': "ds_content_hash st = he_sha512 (snd hes) data" using live(3) h by simp
  obtain d' r' where d: "content_handle (snd hes) m1 ctx d = (d', Inr r')" "virtual_active sid d'"
    "if n < length data then \<exists>m' st'. reply_envelope r' = Some m' \<and> download_live (content_of d') sid cid st' (take n data) \<and>
       st' = st \<lparr> ds_next_start_byte := int n \<rparr> \<and> cs_download_range_size (content_of d') = cs_download_range_size (content_of d) \<and>
       asks_next sid cid (content_of d') (take n data) data m'
     else \<exists>st'. reply_envelope r' = None \<and> get_download_state sid cid (content_of d') = Some st' \<and> completed st' \<and>
       dict_get (cs_files (content_of d')) (ds_final_path st') = Some data \<and> sv_publish_tasks (snd d') = sv_publish_tasks (snd d) @ [(st', sid)]"
    using downloader_range [OF assms(2,3) c live(1,2) h' assms(8,9,10) rs n, of ctx] by blast
  have cr: "content_round ctx hes (p, d, Some m) = (p', d', reply_envelope r')" by (simp add: content_round_def p(1,2) d(1))
  have "\<exists>m' st'. reply_envelope r' = Some m' \<and> download_live (content_of d') sid cid st' (take n data) \<and> ds_size_bytes st' = int (length data) \<and>
      ds_content_hash st' = cid \<and> cs_download_range_size (content_of d') = cs_download_range_size (content_of d) \<and>
      asks_next sid cid (content_of d') (take n data) data m'" if "n < length data"
    using d(3) that live(2,3) by force
  note more = this
  show ?thesis by (rule exI [of _ p'], rule exI [of _ d']) (use more cr p(3,4) d(2,3) in \<open>auto split: if_splits\<close>)
qed

lemma content_rounds:
  fixes data :: string
  assumes "virtual_active sid p" "virtual_active sid d" "sid \<noteq> []" "serves (content_of p) cid data"
    and "download_live (content_of d) sid cid st got" "ds_size_bytes st = int (length data)" "ds_content_hash st = cid"
    and "got = take (length got) data" "length got < length data" "1 \<le> cs_download_range_size (content_of d)"
    and "asks_next sid cid (content_of d) got data m" and "\<forall>x\<in>set hes. he_sha512 (snd x) data = cid"
    and "length hes = Suc ((length data - length got - 1) div nat (cs_download_range_size (content_of d)))"
  shows "\<exists>p' d' st'. fold (content_round ctx) hes (p, d, Some m) = (p', d', None) \<and> get_download_state sid cid (content_of d') = Some st' \<and> completed st' \<and>
    dict_get (cs_files (content_of d')) (ds_final_path st') = Some data \<and> (st', sid) \<in> set (sv_publish_tasks (snd d'))"
  using assms
proof (induction hes arbitrary: p d st got m)
  case (Cons he hes)
  let ?k = "nat (cs_download_range_size (content_of d))" and ?n = "chunk_end (content_of d) got data"
  have h: "he_sha512 (snd he) data = cid" using Cons.prems(12) by simp
  obtain p1 d1 where 1: "virtual_active sid p1" "virtual_active sid d1" "serves (content_of p1) cid data"
    "if ?n < length data then \<exists>m' st'. content_round ctx he (p, d, Some m) = (p1, d1, Some m') \<and> download_live (content_of d1) sid cid st' (take ?n data) \<and>
       ds_size_bytes st' = int (length data) \<and> ds_content_hash st' = cid \<and> cs_download_range_size (content_of d1) = cs_download_range_size (content_of d) \<and>
       asks_next sid cid (content_of d1) (take ?n data) data m'
     else \<exists>st'. content_round ctx he (p, d, Some m) = (p1, d1, None) \<and> get_download_state sid cid (content_of d1) = Some st' \<and> completed st' \<and>
       dict_get (cs_files (content_of d1)) (ds_final_path st') = Some data \<and> (st', sid) \<in> set (sv_publish_tasks (snd d1))"
    using range_round [OF Cons.prems(1-11) h refl, of ctx] by blast
  have k: "0 < ?k" using Cons.prems(10) by simp
  show ?case
  proof (cases "?n < length data")
    case True
    then have n: "?n = length got + ?k" by (simp add: chunk_end_def min_def split: if_splits)
    obtain m' st' where r: "content_round ctx he (p, d, Some m) = (p1, d1, Some m')" "download_live (content_of d1) sid cid st' (take ?n data)"
       "ds_size_bytes st' = int (length data)" "ds_content_hash st' = cid" "cs_download_range_size (content_of d1) = cs_download_range_size (content_of d)"
       "asks_next sid cid (content_of d1) (take ?n data) data m'" using 1(4) True by auto
    have len: "length (take ?n data) = ?n" using True by simp
    have "length data - length got - 1 = (length data - ?n - 1) + ?k" using True n by simp
    then have "length hes = Suc ((length data - length (take ?n data) - 1) div nat (cs_download_range_size (content_of d1)))"
      using Cons.prems(13) one_more_round [OF k] len r(5) by simp
    from Cons.IH [OF 1(1,2) Cons.prems(3) 1(3) r(2-4) _ _ _ r(6) _ this] len True r(5) Cons.prems(10,12) r(1) show ?thesis by simp
  next
    case False
    then have "(length data - length got - 1) div ?k = 0" using Cons.prems(9) by (auto simp: chunk_end_def min_def split: if_splits)
    then have "hes = []" using Cons.prems(13) by simp
    with 1(4) False show ?thesis by auto
  qed
qed simp


text \<open>
  C22. A download works over its messages: when the provider holds the content under the hash of its bytes and both
  nodes have the virtual session active, a request for information about it, with every answer delivered to the
  other node, leads after exactly one round more than the range size demands to a completed download whose file
  is the content, byte for byte, and to the task that announces the downloader as a further provider.
\<close>

theorem content_download_by_messages:
  fixes data :: string
  assumes "virtual_active sid p" "virtual_active sid d" "sid \<noteq> []" "serves (content_of p) cid data" "data \<noteq> []"
    and "dict_get (cs_downloads (content_of d)) (sid, cid) = None" "1 \<le> cs_download_range_size (content_of d)"
    and "message_of sid ''VIRTUAL_CONTENT_INFO_REQUEST'' (build_content_info_request_payload (Some cid) None) m"
    and "length hes = 2 + (length data - 1) div nat (cs_download_range_size (content_of d))"
    and "\<forall>x\<in>set hes. he_sha512 (snd x) data = cid"
  shows "\<exists>p' d' st. fold (content_round ctx) hes (p, d, Some m) = (p', d', None) \<and> get_download_state sid cid (content_of d') = Some st \<and>
    completed st \<and> dict_get (cs_files (content_of d')) (ds_final_path st) = Some data \<and> (st, sid) \<in> set (sv_publish_tasks (snd d'))"
proof -
  obtain he hes' where hes: "hes = he # hes'" using assms(9) by (cases hes) auto
  obtain p1 d1 m1 st where r: "content_round ctx he (p, d, Some m) = (p1, d1, Some m1)" "virtual_active sid p1" "virtual_active sid d1"
    "serves (content_of p1) cid data" "download_live (content_of d1) sid cid st []" "ds_size_bytes st = int (length data)" "ds_content_hash st = cid"
    "cs_download_range_size (content_of d1) = cs_download_range_size (content_of d)" "asks_next sid cid (content_of d1) [] data m1"
    using info_round [OF assms(1-8), of ctx he] by blast
  from content_rounds [OF r(2,3) assms(3) r(4-7) _ _ _ r(9), of hes' ctx] r(1,8) assms(5,7,9,10) show ?thesis by (simp add: hes)
qed

section \<open>Properties\<close>

definition demo_virtual_table :: session_manager where
  "demo_virtual_table = fst (activate_session (case create_inbound_virtual_session new_session_manager ''v1'' ''P'' ''D'' None None 30 0 0 of
     Inr (sm, _) \<Rightarrow> sm | Inl _ \<Rightarrow> new_session_manager) ''v1'' 1 1)"

lemma demo_virtual_ok: "sm_ok demo_virtual_table"
proof -
  obtain sm s where r: "create_inbound_virtual_session new_session_manager ''v1'' ''P'' ''D'' None None 30 0 0 = Inr (sm, s)"
    by (simp add: create_inbound_virtual_session_def get_session_by_session_id_def create_session_def base_create_input_def new_session_manager_def Let_def)
  have "sm_ok sm" using r
    by (auto simp: create_inbound_virtual_session_def intro: sm_ok_create [OF sm_ok_new] split: option.splits)
       (simp add: get_session_by_session_id_def new_session_manager_def)
  then show ?thesis unfolding demo_virtual_table_def r by (simp add: sm_ok_mutations)
qed

definition demo_virtual_node :: "content_transfer_service \<Rightarrow> node_state" where
  "demo_virtual_node cs = with_content cs (demo_node demo_virtual_table ''P'')"

lemma demo_virtual_active: "virtual_active ''v1'' (demo_virtual_node cs)"
proof -
  have "map_option (\<lambda>s. (ns_session_scope s, ns_session_state s)) (get_session_by_session_id demo_virtual_table ''v1'') = Some (''virtual'', ''active'')"
    by code_simp
  then show ?thesis by (auto simp: virtual_active_def demo_virtual_node_def demo_node_simps demo_virtual_ok)
qed

definition demo_message :: "string \<Rightarrow> payload \<Rightarrow> protocol_envelope" where
  "demo_message mt pl = \<lparr> pe_protocol_name = ''json'', pe_message_type = Some mt, pe_payload = JObj pl, pe_raw_payload = [],
     pe_header = [(''message_type'', JStr mt), (''virtual_session_id'', JStr ''v1'')] \<rparr>"

lemma demo_message_of: "message_of ''v1'' mt pl (demo_message mt pl)"
  by (simp add: message_of_def demo_message_def)

theorem content_download_by_messages_witness:
  "\<exists>p' d' st. fold (content_round demo_packet_context) (replicate 4 (demo_env ''e'' \<lparr> he_sha512 := demo_hash \<rparr>, demo_env ''e'' \<lparr> he_sha512 := demo_hash \<rparr>))
      (demo_virtual_node demo_provider, demo_virtual_node demo_service,
       Some (demo_message ''VIRTUAL_CONTENT_INFO_REQUEST'' (build_content_info_request_payload (Some ''hhello'') None))) = (p', d', None) \<and>
    get_download_state ''v1'' ''hhello'' (content_of d') = Some st \<and> completed st \<and>
    dict_get (cs_files (content_of d')) (ds_final_path st) = Some ''hello'' \<and> (st, ''v1'') \<in> set (sv_publish_tasks (snd d'))"
proof -
  have s: "serves demo_provider ''hhello'' ''hello''"
    using stored_serves [of demo_service "''hello''" demo_hash 1 1 None "''text/plain''" "[]" False None]
    by (simp add: demo_provider_def demo_hash_def demo_service_def empty_content_service_def objects_ok_def)
  have d: "cs_downloads demo_service = []" "cs_download_range_size demo_service = 2" by (simp_all add: demo_service_def empty_content_service_def)
  show ?thesis
    by (rule content_download_by_messages [OF demo_virtual_active demo_virtual_active _ _ _ _ _ demo_message_of])
      (use s d in \<open>auto simp: demo_virtual_node_def demo_hash_def dict_get_def\<close>)
qed


lemma demo_virtual_node_ok: "node_ok (demo_virtual_node cs)"
  by (simp add: demo_virtual_node_def) (simp add: node_ok_def demo_node_simps demo_virtual_ok, simp add: demo_node_def identity_ok_def
      empty_identity_db_def endpoints_ok_def)


text \<open>The downloads are filed under their own ids.\<close>

definition downloads_keyed :: "content_transfer_service \<Rightarrow> bool" where
  "downloads_keyed cs \<longleftrightarrow> (\<forall>k ds. dict_get (cs_downloads cs) k = Some ds \<longrightarrow> k = (ds_session_id ds, ds_content_id ds))"

definition keeps_ended :: "content_transfer_service \<Rightarrow> content_transfer_service \<Rightarrow> bool" where
  "keeps_ended cs cs' \<longleftrightarrow> (\<forall>k ds. dict_get (cs_downloads cs) k = Some ds \<and> ds_status ds \<noteq> ''downloading'' \<longrightarrow> dict_get (cs_downloads cs') k = Some ds)"

lemma keeps_ended_same: "cs_downloads cs' = cs_downloads cs \<Longrightarrow> keeps_ended cs cs'"
  by (simp add: keeps_ended_def)

lemma keeps_ended_refl [simp]: "keeps_ended cs cs"
  by (simp add: keeps_ended_def)

lemma info_downloads: "get_content_info now upd c cs = (cs', i) \<Longrightarrow> cs_downloads cs' = cs_downloads cs"
  by (auto simp: get_content_info_def split: option.splits if_splits)

lemma read_downloads: "read_content_range now upd c s e cs = (cs', r) \<Longrightarrow> cs_downloads cs' = cs_downloads cs"
  by (auto simp: read_content_range_def dest: info_downloads split: if_splits prod.splits option.splits)

lemma start_keeps: "start_or_update_download sid cid hash n ty cs = (cs', ds) \<Longrightarrow> keeps_ended cs cs'"
  by (auto simp: start_or_update_download_def keeps_ended_def download_key_def Let_def split: option.splits)

lemma response_keeps:
  assumes "downloads_keyed cs" and "handle_content_range_response h now upd sid cid s e d64 cs = (cs', r)"
  shows "keeps_ended cs cs'"
proof (cases "dict_get (cs_downloads cs) (sid, cid)")
  case None
  with assms(2) show ?thesis by (simp add: handle_content_range_response_def find_download_state_def download_key_def keeps_ended_same)
next
  case (Some ds)
  with assms(1) have "ds_session_id ds = sid" "ds_content_id ds = cid" by (auto simp: downloads_keyed_def)
  with Some assms(2) show ?thesis
    by (auto simp: handle_content_range_response_def find_download_state_def download_key_def keeps_ended_def complete_download_def
        fail_download_def Let_def split: if_splits option.splits)
qed

definition ended_kept :: "node_state \<Rightarrow> handler_result \<Rightarrow> bool" where
  "ended_kept st x \<longleftrightarrow> keeps_ended (content_of st) (content_of (fst x))"

lemma ended_keptI: "keeps_ended (content_of st) (content_of st') \<Longrightarrow> ended_kept st (st', r)"
  by (simp add: ended_kept_def)

lemmas ended_guard = guard_rule [where P = "ended_kept st" for st]

lemma ended_catch:
  assumes "keeps_ended (content_of st) (content_of st')" and "\<And>x. r = Inr x \<Longrightarrow> ended_kept st (k x)"
  shows "ended_kept st (catch_value_error r (\<lambda>m. (st', Inr (f m))) (\<lambda>e. (st', Inl e)) k)"
  using assms by (auto simp: catch_value_error_def ended_kept_def split: sum.split py_error.split)

lemma after_range_content [simp]: "content_of (fst (after_content_range he env sid rr ds st)) = content_of st"
  by (auto simp: after_content_range_def split: option.split sum.split)

lemma catch_content [simp]:
  "(\<And>x. content_of (fst (k x)) = content_of st') \<Longrightarrow> content_of (fst (catch_value_error r (\<lambda>m. (st', Inr (f m))) (\<lambda>e. (st', Inl e)) k)) = content_of st'"
  by (auto simp: catch_value_error_def split: sum.split py_error.split)

text \<open>
  C24. A download that has failed or is completed is never touched again: no content message of any session changes
  it, so a failed download cannot be repeated within its session.
\<close>

theorem ended_download_final:
  assumes "downloads_keyed (content_of st)" and "get_download_state sid cid (content_of st) = Some ds" and "ds_status ds \<noteq> ''downloading''"
  shows "get_download_state sid cid (content_of (fst (content_handle he env ctx st))) = Some ds"
proof -
  have "ended_kept st (handle_content_info_request he env ctx st)"
    unfolding handle_content_info_request_def Let_def
    by (rule ended_guard) (auto intro!: ended_keptI keeps_ended_same dest: info_downloads split: option.split prod.split)
  moreover have "ended_kept st (handle_content_info_response he env ctx st)"
    unfolding handle_content_info_response_def Let_def
    by (rule ended_guard, rule ended_keptI, simp add: keeps_ended_same, rule ended_catch)
      (auto intro!: ended_keptI dest: start_keeps split: option.split prod.split sum.split)
  moreover have "ended_kept st (handle_content_range_request he env ctx st)"
    unfolding handle_content_range_request_def Let_def
    by (rule ended_guard, rule ended_keptI, simp add: keeps_ended_same, rule ended_catch)
      (auto intro!: ended_keptI keeps_ended_same dest: read_downloads split: prod.split sum.split py_error.split)
  moreover have "ended_kept st (handle_content_range_response_message he env ctx st)"
    unfolding handle_content_range_response_message_def Let_def
    by (rule ended_guard, rule ended_keptI, simp add: keeps_ended_same, rule ended_catch)
      (auto intro!: ended_keptI ended_catch simp: ended_kept_def dest: response_keeps [OF assms(1)] split: option.split prod.split)
  moreover have "ended_kept st (handle_content_error_message he env ctx act st)" for act
    unfolding handle_content_error_message_def Let_def by (rule ended_guard) (auto intro!: ended_keptI keeps_ended_same)
  moreover have "ended_kept st (st, Inr r)" for r by (simp add: ended_keptI keeps_ended_same)
  ultimately have "ended_kept st (content_handle he env ctx st)"
    by (simp add: content_handle_def handle_content_not_found_def handle_content_range_denied_def handle_content_range_error_def)
  with assms(2,3) show ?thesis by (simp add: ended_kept_def keeps_ended_def get_download_state_def download_key_def)
qed


definition demo_failed_service :: content_transfer_service where
  "demo_failed_service = fst (handle_content_range_response demo_hash 3 3 ''v1'' ''c'' 7 8 (b64encode ''b'')
     (fst (start_or_update_download ''v1'' ''c'' ''hab'' 2 ''t'' demo_service)))"

theorem ended_download_final_witness:
  "map_option ds_status (get_download_state ''v1'' ''c'' (content_of (fst (content_handle (demo_env ''e'')
     (demo_message ''VIRTUAL_CONTENT_INFO_RESPONSE'' (build_content_info_response_payload ''c'' 2 ''hab'' ''t'' None None)) demo_packet_context
     (demo_virtual_node demo_failed_service))))) = Some ''failed''"
proof -
  let ?ds = "the (get_download_state ''v1'' ''c'' demo_failed_service)"
  have "get_download_state ''v1'' ''c'' demo_failed_service = Some ?ds" "ds_status ?ds = ''failed''" by code_simp+
  moreover have "cs_downloads demo_failed_service = [((''v1'', ''c''), ?ds)]" "ds_session_id ?ds = ''v1''" "ds_content_id ?ds = ''c''" by code_simp+
  then have "downloads_keyed demo_failed_service" by (simp add: downloads_keyed_def dict_get_def split: if_splits)
  ultimately have "get_download_state ''v1'' ''c'' (content_of (fst (content_handle (demo_env ''e'')
     (demo_message ''VIRTUAL_CONTENT_INFO_RESPONSE'' (build_content_info_response_payload ''c'' 2 ''hab'' ''t'' None None)) demo_packet_context
     (demo_virtual_node demo_failed_service)))) = Some ?ds"
    by (intro ended_download_final) (simp_all add: demo_virtual_node_def)
  then show ?thesis using \<open>ds_status ?ds = ''failed''\<close> by simp
qed

text \<open>
  An error message of the provider ends nothing: the download stays open, nothing is asked again and no
  application is told.
\<close>

theorem provider_error_ignored:
  assumes "virtual_active sid st" "sid \<noteq> []" "message_of sid mt pl env"
    and "mt \<in> {''VIRTUAL_CONTENT_NOT_FOUND'', ''VIRTUAL_CONTENT_RANGE_DENIED'', ''VIRTUAL_CONTENT_RANGE_ERROR''}"
  shows "\<exists>st' r. content_handle he env ctx st = (st', Inr r) \<and> pr_handled r \<and> snd st' = snd st \<and> reply_envelope r = None"
proof -
  note rd = message_read [OF assms(3,2)]
  have e: "\<exists>r. handle_content_error_message he env ctx act st = (touched_node he sid st, Inr r) \<and> pr_handled r \<and> reply_envelope r = None" for act
    unfolding handle_content_error_message_def guard_active [OF assms(1) rd(1)] Let_def
    by (simp add: dict_get_def) (simp add: build_skeleton_result_def handled_result_def)
  have "\<exists>act. content_handle he env ctx st = handle_content_error_message he env ctx act st"
    using assms(4) unfolding content_handle_def rd(3) handle_content_not_found_def handle_content_range_denied_def handle_content_range_error_def
    by (elim insertE emptyE) (simp; blast)+
  with e show ?thesis by (metis sessions_of_on(2) touched_node_def)
qed

theorem provider_error_ignored_witness:
  "\<exists>st' r. content_handle (demo_env ''e'') (demo_message ''VIRTUAL_CONTENT_NOT_FOUND'' [(''content_id'', JStr ''c'')]) demo_packet_context
      (demo_virtual_node (fst (start_or_update_download ''v1'' ''c'' ''hab'' 2 ''t'' demo_service))) = (st', Inr r) \<and>
    pr_handled r \<and> snd st' = snd (demo_virtual_node (fst (start_or_update_download ''v1'' ''c'' ''hab'' 2 ''t'' demo_service))) \<and> reply_envelope r = None"
  by (rule provider_error_ignored [OF demo_virtual_active _ demo_message_of]) simp_all

section \<open>The announcement\<close>

definition stored_at :: "(nat \<Rightarrow> payload option) \<Rightarrow> nat \<Rightarrow> bool" where
  "stored_at publish a \<longleftrightarrow> (\<exists>r. publish a = Some r \<and> jget r ''status'' = JStr ''stored'')"

lemma publish_attempts_stored:
  assumes "jget r0 ''status'' \<noteq> JStr ''stored''"
  shows "jget (publish_attempts publish a n r0) ''status'' = JStr ''stored'' \<longleftrightarrow> (\<exists>i<n. stored_at publish (a + i))"
  using assms
proof (induction n arbitrary: a r0)
  case (Suc n)
  show ?case
    unfolding Ex_less_Suc2 using Suc by (auto simp: stored_at_def split: option.splits)
qed simp

lemma dropWhile_first: "list_ex P xs \<Longrightarrow> \<exists>y ys. dropWhile (\<lambda>a. \<not> P a) xs = y # ys \<and> P y"
  by (induction xs) auto

lemma marked_published:
  assumes "find_object cid cs = Some ob"
  shows "\<exists>a \<in> set (cs_advertisements (mark_provider_advertisement_published now cid nid ex cs)).
    ad_content_object_id a = co_id ob \<and> ad_advertiser_virtual_node_id a = nid \<and> ad_published_in_ddt a \<and> ad_expires_at a = Some ex"
proof (cases "list_ex (\<lambda>a. ad_content_object_id a = co_id ob \<and> ad_advertiser_virtual_node_id a = nid) (cs_advertisements cs)")
  case True
  from dropWhile_first [OF this] True assms show ?thesis by (auto simp: mark_provider_advertisement_published_def Let_def)
next
  case False
  with assms show ?thesis by (simp add: mark_provider_advertisement_published_def Let_def)
qed

text \<open>
  A finished download is marked as announced exactly when one of the permitted attempts to publish it was
  stored; otherwise the task changes nothing.
\<close>

theorem provider_announced_iff_stored:
  assumes "get_session_by_session_id (sessions_of st) sid = Some s" and "ns_local_identity_type s = ''virtual_node''"
    and "build_provider_advertisement (he_sha512 he) sign (he_isofmt he) (he_clock he 0) (ds_content_id ds) (ns_local_identity_id s) ttl (content_of st) = Some adv"
    and "find_object (ds_content_id ds) (content_of st) = Some ob"
  shows "if \<exists>i < nat (max 1 attempts). stored_at publish (Suc i)
    then \<exists>a \<in> set (cs_advertisements (content_of (publish_download_provider_to_ddt he sign ttl attempts (Some publish) ds sid st))).
      ad_content_object_id a = co_id ob \<and> ad_advertiser_virtual_node_id a = ns_local_identity_id s \<and> ad_published_in_ddt a \<and>
      ad_expires_at a = Some (pa_expires_at adv)
    else publish_download_provider_to_ddt he sign ttl attempts (Some publish) ds sid st = st"
  using assms marked_published [OF assms(4), of "he_clock he 1" "ns_local_identity_id s" "pa_expires_at adv"]
    publish_attempts_stored [of "[(''status'', JStr ''not_started'')]" publish "Suc 0" "nat (max 1 attempts)"]
  by (simp add: publish_download_provider_to_ddt_def Let_def)


definition demo_holder :: content_transfer_service where
  "demo_holder = demo_provider \<lparr> cs_virtual_nodes := [\<lparr> vn_id = ''P'', vn_public_key = ''pk'', vn_private_key = ''sk'' \<rparr>] \<rparr>"

definition demo_publish :: "nat \<Rightarrow> payload option" where
  "demo_publish n = (if n = 2 then Some [(''status'', JStr ''stored'')] else None)"

theorem provider_announced_iff_stored_witness:
  "\<exists>a \<in> set (cs_advertisements (content_of (publish_download_provider_to_ddt (demo_env ''e'' \<lparr> he_sha512 := demo_hash \<rparr>) (\<lambda>m k. k) 60 3 (Some demo_publish)
      (the (get_download_state ''v1'' ''c'' demo_failed_service) \<lparr> ds_content_id := ''hhello'' \<rparr>) ''v1'' (demo_virtual_node demo_holder)))).
    ad_content_object_id a = 1 \<and> ad_advertiser_virtual_node_id a = ''P'' \<and> ad_published_in_ddt a"
proof -
  let ?he = "demo_env ''e'' \<lparr> he_sha512 := demo_hash \<rparr>" and ?st = "demo_virtual_node demo_holder"
  let ?ds = "the (get_download_state ''v1'' ''c'' demo_failed_service) \<lparr> ds_content_id := ''hhello'' \<rparr>"
  obtain s where s: "get_session_by_session_id (sessions_of ?st) ''v1'' = Some s" "ns_local_identity_type s = ''virtual_node''" "ns_local_identity_id s = ''P''"
  proof -
    have "map_option (\<lambda>s. (ns_local_identity_type s, ns_local_identity_id s)) (get_session_by_session_id demo_virtual_table ''v1'') = Some (''virtual_node'', ''P'')"
      by code_simp
    then show thesis using that by (auto simp: demo_virtual_node_def demo_node_simps)
  qed
  let ?adv = "build_provider_advertisement demo_hash (\<lambda>m k. k) (\<lambda>_. ''t'') 0 ''hhello'' ''P'' 60 demo_holder"
  have "?adv \<noteq> None" by code_simp
  then obtain adv where a: "?adv = Some adv" by blast
  have o: "map_option co_id (find_object ''hhello'' demo_holder) = Some 1" by code_simp
  then obtain ob where o: "find_object ''hhello'' demo_holder = Some ob" "co_id ob = 1" by auto
  have "stored_at demo_publish (Suc 1)" by (simp add: stored_at_def demo_publish_def)
  then have "\<exists>i < nat (max 1 3). stored_at demo_publish (Suc i)" by (intro exI [of _ 1]) simp
  then show ?thesis
    using provider_announced_iff_stored [OF s(1,2), of ?he "\<lambda>m k. k" ?ds 60 adv ob 3 demo_publish] a o s(3)
    by (auto simp: demo_env_def demo_virtual_node_def)
qed

end
