(* ===== verification/Virtual_Session_Protocol.thy ===== *)
theory Virtual_Session_Protocol
  imports Content_Protocol
begin

text \<open>
  \<^verbatim>\<open>app/core/protocols/virtual/session.py\<close> and \<^verbatim>\<open>app/core/protocols/virtual/message.py\<close>: the handshake, keepalive and reliable
  delivery of virtual sessions, and the delivery of application messages. Answers are the field
  \<^verbatim>\<open>virtual_response_envelope\<close> of the metadata. As in \<^verbatim>\<open>Session_Protocol\<close>, the environment of a call holds the clock readings
  in their order, and inner messages of the reliable delivery go to the engine through the argument \<open>dispatch\<close>
  (\<^const>\<open>None\<close> without an engine).
\<close>

section \<open>Results\<close>

definition virtual_invalid :: "protocol_envelope \<Rightarrow> string \<Rightarrow> packet_processing_result" where
  "virtual_invalid envelope reason = build_invalid_result ''virtual_session'' envelope reason"

definition virtual_response_result :: "string \<Rightarrow> protocol_envelope \<Rightarrow> string \<Rightarrow> payload \<Rightarrow> (string, meta) dict \<Rightarrow> packet_processing_result" where
  "virtual_response_result uuid envelope response_message_type payload extra_metadata = handled_result envelope None
     ([(''protocol_family'', mstr ''virtual_session''),
       (''virtual_response_envelope'', MJson (JObj
          [(''header'', JObj (build_response_header (pe_header envelope) response_message_type True uuid)), (''payload'', JObj payload)]))] @
      extra_metadata)"

definition virtual_session_meta :: "string \<Rightarrow> string \<Rightarrow> (string, meta) dict" where
  "virtual_session_meta action session_id = [(''action'', mstr action), (''session_id'', mstr session_id)]"

definition virtual_handled :: "protocol_envelope \<Rightarrow> string \<Rightarrow> string \<Rightarrow> packet_processing_result" where
  "virtual_handled envelope action session_id =
     handled_result envelope None ((''protocol_family'', mstr ''virtual_session'') # virtual_session_meta action session_id)"

section \<open>The handshake\<close>

text \<open>
  The payload that is signed, the signature and its check are those of \<^verbatim>\<open>physical/session.py\<close>, word for word.
\<close>

definition sign_virtual_session_init_ok :: "openssl \<Rightarrow> string \<Rightarrow> string \<Rightarrow> pyint \<Rightarrow> string \<Rightarrow> string result" where
  "sign_virtual_session_init_ok os session_id responder_ephemeral_public_key keepalive_interval_seconds local_private_key_pem =
     dilithium_sign_hex os (canonical_payload_hex
       (init_ok_signed_payload session_id responder_ephemeral_public_key keepalive_interval_seconds)) local_private_key_pem"

definition verify_virtual_session_init_ok :: "openssl \<Rightarrow> string \<Rightarrow> string \<Rightarrow> pyint \<Rightarrow> string \<Rightarrow> string \<Rightarrow> bool" where
  "verify_virtual_session_init_ok os session_id responder_ephemeral_public_key keepalive_interval_seconds signature_hex
       remote_public_key_pem =
     (case dilithium_verify_hex os (canonical_payload_hex
         (init_ok_signed_payload session_id responder_ephemeral_public_key keepalive_interval_seconds)) signature_hex
         remote_public_key_pem of
        Inr b \<Rightarrow> b | Inl _ \<Rightarrow> False)"

definition remember_virtual_peer :: "handler_env \<Rightarrow> string \<Rightarrow> string \<Rightarrow> string \<Rightarrow> node_state \<Rightarrow> node_state" where
  "remember_virtual_peer he node_id public_key metadata_json st = (fst st, (snd st) \<lparr> sv_identity :=
     upsert_remote_virtual_node (he_clock he 0) node_id public_key ''virtual_session_peer'' ''active'' None (Some metadata_json)
       (sv_identity (snd st)) \<rparr>)"

definition set_remote_public_key :: "string \<Rightarrow> string \<Rightarrow> node_state \<Rightarrow> node_state" where
  "set_remote_public_key session_id public_key =
     on_sessions (\<lambda>sm. fst (modify_session sm session_id (\<lambda>s. s \<lparr> ns_remote_public_key := Some public_key \<rparr>)))"

definition handle_virtual_session_init :: "handler_env \<Rightarrow> protocol_envelope \<Rightarrow> packet_context \<Rightarrow> node_state \<Rightarrow> handler_result" where
  "handle_virtual_session_init he envelope ctx st =
     (let payload = as_payload_dict envelope;
          keepalive_interval_seconds = read_positive_keepalive_interval payload (he_session_keepalive_seconds he)
      in case (read_virtual_session_id envelope, as_str (jget payload ''initiator_virtual_node_id''),
               as_str (jget payload ''initiator_virtual_node_public_key''), as_str (jget payload ''target_virtual_node_id'')) of
        (Some session_id, Some initiator_virtual_node_id, Some initiator_virtual_node_public_key, Some target_virtual_node_id) \<Rightarrow>
          if he_sha512 he (utf8_encode initiator_virtual_node_public_key) \<noteq> initiator_virtual_node_id
          then (st, Inr (virtual_invalid envelope ''invalid_initiator_virtual_node_public_key''))
          else (case get_local_virtual_node_by_id target_virtual_node_id (sv_identity (snd st)) of
             None \<Rightarrow> (st, Inr (virtual_invalid envelope ''local_virtual_node_not_found''))
           | Some local_virtual_node \<Rightarrow>
               let st = remember_virtual_peer he initiator_virtual_node_id initiator_virtual_node_public_key
                     (compact_json_text [(''source'', JStr ''virtual_session_init'')]) st
               in (case create_inbound_virtual_session (sessions_of st) session_id target_virtual_node_id initiator_virtual_node_id
                     (Some initiator_virtual_node_public_key) (jget_nonempty_str (pc_metadata ctx) ''route_path_id'')
                     (pyint_val keepalive_interval_seconds) (he_clock he 1) (he_clock he 2) of
                   Inl e \<Rightarrow> (st, Inl e)
                 | Inr (sm, session) \<Rightarrow>
                     let st = set_remote_public_key session_id initiator_virtual_node_public_key (on_sessions (\<lambda>_. sm) st)
                     in (case generate_kyber_key_pair (he_os he) (he_seed he) of
                           Inl e \<Rightarrow> (st, Inl e)
                         | Inr (private_key_pem, public_key_pem) \<Rightarrow>
                             let st = on_sessions (\<lambda>sm. fst (store_local_ephemeral_keypair sm session_id private_key_pem
                                   public_key_pem ''init_ok_sent'' (he_clock he 3) (he_clock he 4))) st
                             in (case sign_virtual_session_init_ok (he_os he) session_id public_key_pem keepalive_interval_seconds
                                   (lv_private_key_encrypted local_virtual_node) of
                                   Inl e \<Rightarrow> (st, Inl e)
                                 | Inr signature_hex \<Rightarrow>
                                     (st, Inr (virtual_response_result (he_uuid he) envelope ''VIRTUAL_SESSION_INIT_OK''
                                       [(''responder_virtual_node_public_key'', JStr (lv_public_key local_virtual_node)),
                                        (''responder_ephemeral_public_key'', JStr public_key_pem), (''signature_hex'', JStr signature_hex),
                                        (''keepalive_interval_seconds'', json_of_pyint keepalive_interval_seconds)]
                                       (virtual_session_meta ''virtual_session_init_ok_sent'' (ns_session_id session))))))))
      | _ \<Rightarrow> (st, Inr (virtual_invalid envelope ''invalid_virtual_session_init'')))"

definition handle_virtual_session_init_ok :: "handler_env \<Rightarrow> protocol_envelope \<Rightarrow> packet_context \<Rightarrow> node_state \<Rightarrow> handler_result" where
  "handle_virtual_session_init_ok he envelope ctx st =
     (let payload = as_payload_dict envelope;
          keepalive_interval_seconds = read_positive_keepalive_interval payload (he_session_keepalive_seconds he)
      in case (read_virtual_session_id envelope, as_str (jget payload ''responder_virtual_node_public_key''),
               as_str (jget payload ''responder_ephemeral_public_key''), as_str (jget payload ''signature_hex'')) of
        (Some session_id, Some responder_virtual_node_public_key, Some responder_ephemeral_public_key, Some signature_hex) \<Rightarrow>
          (case get_session_by_session_id (sessions_of st) session_id of
             None \<Rightarrow> (st, Inr (virtual_invalid envelope ''virtual_session_not_found''))
           | Some session \<Rightarrow>
               if he_sha512 he (utf8_encode responder_virtual_node_public_key) \<noteq> ns_remote_identity_id session
               then (on_sessions (\<lambda>sm. fst (close_session sm session_id ''invalid_responder_public_key'' (he_clock he 0))) st,
                     Inr (virtual_invalid envelope ''invalid_responder_virtual_node_public_key''))
               else
                 let st = remember_virtual_peer he (ns_remote_identity_id session) responder_virtual_node_public_key
                       (compact_json_text [(''source'', JStr ''virtual_session_init_ok'')])
                       (set_remote_public_key session_id responder_virtual_node_public_key st)
                 in if \<not> verify_virtual_session_init_ok (he_os he) session_id responder_ephemeral_public_key
                      keepalive_interval_seconds signature_hex responder_virtual_node_public_key
                    then (on_sessions (\<lambda>sm. fst (close_session sm session_id ''invalid_init_ok_signature'' (he_clock he 1))) st,
                          Inr (virtual_invalid envelope ''invalid_virtual_session_init_ok_signature''))
                    else
                      let st = on_sessions (\<lambda>sm. fst (touch_session
                            (fst (store_remote_ephemeral_public_key sm session_id responder_ephemeral_public_key
                               ''init_ok_verified'' (he_clock he 1) (he_clock he 2)))
                            session_id (Some (pyint_val keepalive_interval_seconds)) (he_clock he 3) (he_clock he 4))) st
                      in (case kyber_encapsulate_hex (he_os he) (he_seed he) responder_ephemeral_public_key of
                            Inl e \<Rightarrow> (st, Inl e)
                          | Inr encapsulation \<Rightarrow>
                              (on_sessions (\<lambda>sm. fst (store_shared_secret sm session_id (ke_shared_secret_hex encapsulation)
                                 ''key_confirm_sent'' ''pending'' (he_clock he 5) (he_clock he 6))) st,
                               Inr (virtual_response_result (he_uuid he) envelope ''VIRTUAL_SESSION_KEY_CONFIRM''
                                 [(''encapsulated_key_hex'', JStr (ke_ciphertext_hex encapsulation))]
                                 (virtual_session_meta ''virtual_session_key_confirm_sent'' session_id)))))
      | _ \<Rightarrow> (st, Inr (virtual_invalid envelope ''invalid_virtual_session_init_ok'')))"

definition handle_virtual_session_key_confirm :: "handler_env \<Rightarrow> protocol_envelope \<Rightarrow> packet_context \<Rightarrow> node_state \<Rightarrow> handler_result" where
  "handle_virtual_session_key_confirm he envelope ctx st =
     (let payload = as_payload_dict envelope
      in case (read_virtual_session_id envelope, as_str (jget payload ''encapsulated_key_hex'')) of
        (Some session_id, Some encapsulated_key_hex) \<Rightarrow>
          (case get_session_by_session_id (sessions_of st) session_id of
             None \<Rightarrow> (st, Inr (virtual_invalid envelope ''virtual_session_ephemeral_key_not_found''))
           | Some session \<Rightarrow> (case ns_local_ephemeral_private_key session of
               Some (c # cs) \<Rightarrow>
                 (case kyber_decapsulate_hex (he_os he) encapsulated_key_hex (c # cs) of
                    Inl e \<Rightarrow> (st, Inl e)
                  | Inr shared_secret_hex \<Rightarrow>
                      (on_sessions (\<lambda>sm. fst (activate_session
                         (fst (store_shared_secret sm session_id shared_secret_hex ''ready_sent'' ''pending'' (he_clock he 0) (he_clock he 1)))
                         session_id (he_clock he 2) (he_clock he 3))) st,
                       Inr (virtual_response_result (he_uuid he) envelope ''VIRTUAL_SESSION_READY''
                         [(''status'', JStr ''active''), (''keepalive_interval_seconds'', JInt (ns_keepalive_interval_seconds session))]
                         (virtual_session_meta ''virtual_session_ready_sent'' session_id))))
             | _ \<Rightarrow> (st, Inr (virtual_invalid envelope ''virtual_session_ephemeral_key_not_found''))))
      | _ \<Rightarrow> (st, Inr (virtual_invalid envelope ''invalid_virtual_session_key_confirm'')))"

definition handle_virtual_session_ready :: "handler_env \<Rightarrow> protocol_envelope \<Rightarrow> packet_context \<Rightarrow> node_state \<Rightarrow> handler_result" where
  "handle_virtual_session_ready he envelope ctx st =
     (let payload = as_payload_dict envelope;
          keepalive_interval_seconds = read_positive_keepalive_interval payload (he_session_keepalive_seconds he)
      in case read_virtual_session_id envelope of
        None \<Rightarrow> (st, Inr (virtual_invalid envelope ''invalid_virtual_session_ready''))
      | Some session_id \<Rightarrow>
          (case get_session_by_session_id (sessions_of st) session_id of
             None \<Rightarrow> (st, Inr (virtual_invalid envelope ''virtual_session_shared_secret_not_found''))
           | Some session \<Rightarrow> (case ns_shared_secret_hex session of
               Some (c # cs) \<Rightarrow>
                 (on_sessions (\<lambda>sm. fst (activate_session
                    (fst (touch_session sm session_id (Some (pyint_val keepalive_interval_seconds)) (he_clock he 0) (he_clock he 1)))
                    session_id (he_clock he 2) (he_clock he 3))) st,
                  Inr (virtual_handled envelope ''virtual_session_activated'' session_id))
             | _ \<Rightarrow> (st, Inr (virtual_invalid envelope ''virtual_session_shared_secret_not_found'')))))"

section \<open>Reliable delivery\<close>

text \<open>The envelope a result carries as its synchronous reply, and the loop that collects the replies.\<close>

definition carried_reply :: "packet_processing_result \<Rightarrow> json list" where
  "carried_reply r = (case dict_get (pr_metadata r) ''virtual_response_envelope'' of
     Some (MJson (JObj e)) \<Rightarrow> [JObj e] | _ \<Rightarrow> [])"

fun dispatch_virtual_deliveries :: "(protocol_envelope \<Rightarrow> packet_context \<Rightarrow> node_state \<Rightarrow> handler_result) option \<Rightarrow> protocol_envelope \<Rightarrow>
    packet_context \<Rightarrow> reliable_inbound_message list \<Rightarrow> int \<Rightarrow> packet_processing_result option \<Rightarrow> json list \<Rightarrow> node_state \<Rightarrow>
    node_state \<times> (int \<times> packet_processing_result option \<times> json list) result" where
  "dispatch_virtual_deliveries dispatch envelope ctx [] delivered_count last_inner_result replies st =
     (st, Inr (delivered_count, last_inner_result, replies))"
| "dispatch_virtual_deliveries dispatch envelope ctx (inbound # rest) delivered_count last_inner_result replies st =
     (case dispatch of
        None \<Rightarrow> dispatch_virtual_deliveries dispatch envelope ctx rest delivered_count last_inner_result replies st
      | Some d \<Rightarrow> (case d (inner_envelope envelope inbound) ctx st of
          (st, Inl e) \<Rightarrow> (st, Inl e)
        | (st, Inr r) \<Rightarrow> dispatch_virtual_deliveries dispatch envelope ctx rest (delivered_count + 1) (Some r) (replies @ carried_reply r) st))"

definition inner_action :: "packet_processing_result option \<Rightarrow> meta" where
  "inner_action last_result = (case last_result of None \<Rightarrow> MJson JNull
     | Some r \<Rightarrow> (case dict_get (pr_metadata r) ''action'' of None \<Rightarrow> MJson JNull | Some m \<Rightarrow> m))"

definition handle_virtual_session_reliable_data :: "(protocol_envelope \<Rightarrow> packet_context \<Rightarrow> node_state \<Rightarrow> handler_result) option \<Rightarrow>
    handler_env \<Rightarrow> protocol_envelope \<Rightarrow> packet_context \<Rightarrow> node_state \<Rightarrow> handler_result" where
  "handle_virtual_session_reliable_data dispatch he envelope ctx st =
     (case read_virtual_session_id envelope of
        None \<Rightarrow> (st, Inr (virtual_invalid envelope ''invalid_virtual_reliable_session_id''))
      | Some session_id \<Rightarrow>
          let (sm, session) = touch_session (sessions_of st) session_id None (he_clock he 0) (he_clock he 1);
              st = on_sessions (\<lambda>_. sm) st
          in if (case session of None \<Rightarrow> True | Some s \<Rightarrow> ns_session_scope s \<noteq> ''virtual'')
             then (st, Inr (virtual_invalid envelope ''virtual_session_not_found''))
             else
               (case receive_reliable_inbound (he_isofmt he) (sessions_of st) session_id (as_payload_dict envelope)
                   (he_clock he 2) (he_clock he 3) of
                  (sm, Inl (ValueError reason)) \<Rightarrow> (on_sessions (\<lambda>_. sm) st, Inr (virtual_invalid envelope reason))
                | (sm, Inl e) \<Rightarrow> (on_sessions (\<lambda>_. sm) st, Inl e)
                | (sm, Inr receive_result) \<Rightarrow>
                    (case dispatch_virtual_deliveries dispatch envelope ctx (rr_deliveries receive_result) 0 None [] (on_sessions (\<lambda>_. sm) st) of
                       (st, Inl e) \<Rightarrow> (st, Inl e)
                     | (st, Inr (delivered_count, last_inner_result, replies)) \<Rightarrow>
                         let ack_payload = (if replies = [] then rr_ack_payload receive_result
                               else dict_set ''inner_response_envelopes'' (JList replies) (rr_ack_payload receive_result))
                         in (st, Inr (virtual_response_result (he_uuid he) envelope ''VIRTUAL_SESSION_RELIABLE_ACK'' ack_payload
                              (virtual_session_meta ''virtual_reliable_ack_sent'' session_id @
                               [(''delivered_count'', MJson (JInt delivered_count)), (''inner_action'', inner_action last_inner_result)]))))))"

definition dispatch_inner_virtual_response_from_ack :: "(protocol_envelope \<Rightarrow> packet_context \<Rightarrow> node_state \<Rightarrow> handler_result) option \<Rightarrow>
    protocol_envelope \<Rightarrow> packet_context \<Rightarrow> string \<Rightarrow> payload \<Rightarrow> node_state \<Rightarrow> node_state \<times> packet_processing_result option result" where
  "dispatch_inner_virtual_response_from_ack dispatch envelope ctx session_id inner_response_envelope st =
     (case (as_obj (jget inner_response_envelope ''header''), as_obj (jget inner_response_envelope ''payload'')) of
        (Some header, Some payload) \<Rightarrow>
          (case (jget_nonempty_str header ''message_type'', dispatch) of
             (Some message_type, Some d) \<Rightarrow>
               (case d \<lparr> pe_protocol_name = pe_protocol_name envelope, pe_message_type = Some message_type, pe_payload = JObj payload,
                     pe_raw_payload = pe_raw_payload envelope,
                     pe_header = dict_set ''virtual_session_id'' (JStr session_id)
                       (dict_set ''physical_session_id'' (jget (pe_header envelope) ''physical_session_id'') header) \<rparr> ctx st of
                  (st, Inl e) \<Rightarrow> (st, Inl e)
                | (st, Inr r) \<Rightarrow> (st, Inr (Some r)))
           | _ \<Rightarrow> (st, Inr None))
      | _ \<Rightarrow> (st, Inr None))"

fun dispatch_inner_responses :: "(protocol_envelope \<Rightarrow> packet_context \<Rightarrow> node_state \<Rightarrow> handler_result) option \<Rightarrow>
    protocol_envelope \<Rightarrow> packet_context \<Rightarrow> string \<Rightarrow> json list \<Rightarrow> packet_processing_result list \<Rightarrow> node_state \<Rightarrow>
    node_state \<times> packet_processing_result list result" where
  "dispatch_inner_responses dispatch envelope ctx session_id [] inner_results st = (st, Inr inner_results)"
| "dispatch_inner_responses dispatch envelope ctx session_id (v # rest) inner_results st =
     (case as_obj v of
        None \<Rightarrow> dispatch_inner_responses dispatch envelope ctx session_id rest inner_results st
      | Some e \<Rightarrow> (case dispatch_inner_virtual_response_from_ack dispatch envelope ctx session_id e st of
          (st, Inl e) \<Rightarrow> (st, Inl e)
        | (st, Inr None) \<Rightarrow> dispatch_inner_responses dispatch envelope ctx session_id rest inner_results st
        | (st, Inr (Some r)) \<Rightarrow> dispatch_inner_responses dispatch envelope ctx session_id rest (inner_results @ [r]) st))"

definition read_inner_responses :: "payload \<Rightarrow> json list" where
  "read_inner_responses payload = (case as_list (jget payload ''inner_response_envelopes'') of
     Some xs \<Rightarrow> xs
   | None \<Rightarrow> (case as_obj (jget payload ''inner_response_envelope'') of Some e \<Rightarrow> [JObj e] | None \<Rightarrow> []))"

definition handle_virtual_session_reliable_ack :: "(protocol_envelope \<Rightarrow> packet_context \<Rightarrow> node_state \<Rightarrow> handler_result) option \<Rightarrow>
    handler_env \<Rightarrow> protocol_envelope \<Rightarrow> packet_context \<Rightarrow> node_state \<Rightarrow> handler_result" where
  "handle_virtual_session_reliable_ack dispatch he envelope ctx st =
     (let payload = as_payload_dict envelope
      in case (read_virtual_session_id envelope, as_pyint (jget payload ''ack_for_sequence_number''),
               jget_nonempty_str payload ''ack_for_message_id'') of
        (Some session_id, Some ack_for_sequence, Some ack_for_message_id) \<Rightarrow>
          let (sm, acked) = mark_reliable_outbound_acked (sessions_of st) session_id (pyint_val ack_for_sequence)
                ack_for_message_id (he_clock he 0);
              st = on_sessions (\<lambda>_. fst (touch_session sm session_id None (he_clock he 1) (he_clock he 2))) st
          in (case dispatch_inner_responses dispatch envelope ctx session_id (read_inner_responses payload) [] st of
                (st, Inl e) \<Rightarrow> (st, Inl e)
              | (st, Inr inner_results) \<Rightarrow>
                  (st, Inr (handled_result envelope None ((''protocol_family'', mstr ''virtual_session'') #
                    virtual_session_meta ''virtual_reliable_ack_received'' session_id @
                    [(''ack_matched'', MJson (JBool (acked \<noteq> None))), (''inner_response_count'', MJson (JInt (int (length inner_results)))),
                     (''inner_action'', inner_action (if inner_results = [] then None else Some (last inner_results)))]))))
      | _ \<Rightarrow> (st, Inr (virtual_invalid envelope ''invalid_virtual_reliable_ack'')))"

section \<open>Keepalive and end\<close>

definition handle_virtual_session_keepalive :: "handler_env \<Rightarrow> protocol_envelope \<Rightarrow> packet_context \<Rightarrow> node_state \<Rightarrow> handler_result" where
  "handle_virtual_session_keepalive he envelope ctx st =
     (case read_virtual_session_id envelope of
        None \<Rightarrow> (st, Inr (virtual_invalid envelope ''invalid_virtual_session_keepalive''))
      | Some session_id \<Rightarrow> (case touch_session (sessions_of st) session_id None (he_clock he 0) (he_clock he 1) of
          (sm, None) \<Rightarrow> (on_sessions (\<lambda>_. sm) st, Inr (virtual_invalid envelope ''virtual_session_not_found''))
        | (sm, Some _) \<Rightarrow> (on_sessions (\<lambda>_. sm) st,
            Inr (virtual_response_result (he_uuid he) envelope ''VIRTUAL_SESSION_KEEPALIVE_ACK'' []
              (virtual_session_meta ''virtual_session_keepalive_ack_sent'' session_id)))))"

definition handle_virtual_session_keepalive_ack :: "handler_env \<Rightarrow> protocol_envelope \<Rightarrow> packet_context \<Rightarrow> node_state \<Rightarrow> handler_result" where
  "handle_virtual_session_keepalive_ack he envelope ctx st =
     (case read_virtual_session_id envelope of
        None \<Rightarrow> (st, Inr (virtual_invalid envelope ''invalid_virtual_session_keepalive_ack''))
      | Some session_id \<Rightarrow> (case touch_session (sessions_of st) session_id None (he_clock he 0) (he_clock he 1) of
          (sm, None) \<Rightarrow> (on_sessions (\<lambda>_. sm) st, Inr (virtual_invalid envelope ''virtual_session_not_found''))
        | (sm, Some _) \<Rightarrow> (on_sessions (\<lambda>_. sm) st,
            Inr (virtual_handled envelope ''virtual_session_keepalive_ack_received'' session_id))))"

definition handle_virtual_session_close :: "handler_env \<Rightarrow> protocol_envelope \<Rightarrow> packet_context \<Rightarrow> node_state \<Rightarrow> handler_result" where
  "handle_virtual_session_close he envelope ctx st =
     (case read_virtual_session_id envelope of
        None \<Rightarrow> (st, Inr (virtual_invalid envelope ''invalid_virtual_session_close''))
      | Some session_id \<Rightarrow>
          let close_reason = (case as_str (jget (as_payload_dict envelope) ''close_reason'') of Some r \<Rightarrow> r | None \<Rightarrow> ''remote_closed'')
          in (case close_session (sessions_of st) session_id close_reason (he_clock he 0) of
                (sm, None) \<Rightarrow> (on_sessions (\<lambda>_. sm) st, Inr (virtual_invalid envelope ''virtual_session_not_found''))
              | (sm, Some _) \<Rightarrow> (on_sessions (\<lambda>_. sm) st, Inr (virtual_handled envelope ''virtual_session_closed'' session_id))))"

definition virtual_not_implemented :: "protocol_envelope \<Rightarrow> node_state \<Rightarrow> packet_processing_result" where
  "virtual_not_implemented envelope st = handled_result envelope None
     [(''protocol_family'', mstr ''virtual_session''),
      (''session_count'', MJson (JInt (int (length (list_sessions (sessions_of st) None))))),
      (''next_step'', mstr ''implement_virtual_session_protocol_flow'')]"

definition virtual_session_handle :: "(protocol_envelope \<Rightarrow> packet_context \<Rightarrow> node_state \<Rightarrow> handler_result) option \<Rightarrow> handler_env \<Rightarrow>
    protocol_envelope \<Rightarrow> packet_context \<Rightarrow> node_state \<Rightarrow> handler_result" where
  "virtual_session_handle dispatch he envelope ctx st =
     (if pe_message_type envelope = Some ''VIRTUAL_SESSION_INIT'' then handle_virtual_session_init he envelope ctx st
      else if pe_message_type envelope = Some ''VIRTUAL_SESSION_INIT_OK'' then handle_virtual_session_init_ok he envelope ctx st
      else if pe_message_type envelope = Some ''VIRTUAL_SESSION_KEY_CONFIRM'' then handle_virtual_session_key_confirm he envelope ctx st
      else if pe_message_type envelope = Some ''VIRTUAL_SESSION_READY'' then handle_virtual_session_ready he envelope ctx st
      else if pe_message_type envelope = Some ''VIRTUAL_SESSION_KEEPALIVE'' then handle_virtual_session_keepalive he envelope ctx st
      else if pe_message_type envelope = Some ''VIRTUAL_SESSION_KEEPALIVE_ACK'' then handle_virtual_session_keepalive_ack he envelope ctx st
      else if pe_message_type envelope = Some ''VIRTUAL_SESSION_RELIABLE_DATA''
        then handle_virtual_session_reliable_data dispatch he envelope ctx st
      else if pe_message_type envelope = Some ''VIRTUAL_SESSION_RELIABLE_ACK''
        then handle_virtual_session_reliable_ack dispatch he envelope ctx st
      else if pe_message_type envelope = Some ''VIRTUAL_SESSION_CLOSE'' then handle_virtual_session_close he envelope ctx st
      else (st, Inr (virtual_not_implemented envelope st)))"

section \<open>Application messages\<close>

text \<open>
  \<^verbatim>\<open>handle_virtual_message\<close> runs the handler an application registered; the handlers of the session manager are
  functions of the message, which do not change the session table.
\<close>

definition message_invalid :: "protocol_envelope \<Rightarrow> string \<Rightarrow> packet_processing_result" where
  "message_invalid envelope reason = build_invalid_result ''virtual_message'' envelope reason"

definition virtual_message_handle :: "handler_env \<Rightarrow> protocol_envelope \<Rightarrow> packet_context \<Rightarrow> node_state \<Rightarrow> handler_result" where
  "virtual_message_handle he envelope ctx st =
     (let payload = as_payload_dict envelope;
          app_payload = (case jget payload ''payload'' of JNull \<Rightarrow> JObj [] | v \<Rightarrow> v);
          request_id = jget payload ''request_id''
      in case read_virtual_session_id envelope of
        None \<Rightarrow> (st, Inr (message_invalid envelope ''virtual_session_id_required''))
      | Some session_id \<Rightarrow> (case jget_nonempty_str payload ''app_message_type'' of
        None \<Rightarrow> (st, Inr (message_invalid envelope ''app_message_type_required''))
      | Some app_message_type \<Rightarrow> (case as_obj app_payload of
        None \<Rightarrow> (st, Inr (message_invalid envelope ''payload_must_be_object''))
      | Some app_dict \<Rightarrow>
          if request_id \<noteq> JNull \<and> as_str request_id = None
          then (st, Inr (message_invalid envelope ''request_id_must_be_string''))
          else (case get_session_by_session_id (sessions_of st) session_id of
             None \<Rightarrow> (st, Inr (message_invalid envelope ''virtual_session_not_found''))
           | Some session \<Rightarrow>
               if ns_session_scope session \<noteq> ''virtual'' then (st, Inr (message_invalid envelope ''virtual_session_not_found''))
               else if ns_session_state session \<noteq> ''active'' then (st, Inr (message_invalid envelope ''virtual_session_not_active''))
               else (case handle_virtual_message (sessions_of st)
                   \<lparr> vm_session_id = session_id, vm_local_virtual_node_id = ns_local_identity_id session,
                     vm_remote_virtual_node_id = ns_remote_identity_id session, vm_app_message_type = app_message_type,
                     vm_payload = app_dict, vm_route_path_id = jget_nonempty_str (pc_metadata ctx) ''route_path_id'',
                     vm_request_id = as_str request_id \<rparr> of
                  Inl e \<Rightarrow> (st, Inl e)
                | Inr reply \<Rightarrow>
                    let st = on_sessions (\<lambda>sm. fst (touch_session sm session_id None (he_clock he 0) (he_clock he 1))) st;
                        metadata = [(''protocol_family'', mstr ''virtual_message''),
                          (''action'', mstr (if reply = None then ''virtual_message_delivered'' else ''virtual_message_reply'')),
                          (''session_id'', mstr session_id), (''app_message_type'', mstr app_message_type), (''request_id'', MJson request_id),
                          (''has_handler'', MJson (JBool (has_virtual_message_handler (sessions_of st) app_message_type)))]
                    in (st, Inr (handled_result envelope None (metadata @ (case reply of None \<Rightarrow> []
                         | Some r \<Rightarrow> [(''virtual_response_envelope'', MJson (JObj
                             [(''header'', JObj (build_response_header (pe_header envelope) ''VIRTUAL_SESSION_DATA'' True (he_uuid he))),
                              (''payload'', JObj [(''app_message_type'', JStr (vr_app_message_type r)),
                                 (''request_id'', opt_str (vr_request_id r)), (''payload'', vr_payload r)])]))])))))))))"

section \<open>Sessions after a handler\<close>

text \<open>What each change of the session table does to the lookup, as rewrite rules.\<close>

lemma get_after:
  assumes "sm_ok sm"
  shows "get_session_by_session_id (fst (modify_session sm sid f)) k =
      (if k = sid then map_option f (get_session_by_session_id sm sid) else get_session_by_session_id sm k)"
    and "get_session_by_session_id (fst (touch_session sm sid iv t t')) k =
      (if k = sid then map_option (touched iv t t') (get_session_by_session_id sm sid) else get_session_by_session_id sm k)"
    and "get_session_by_session_id (fst (store_local_ephemeral_keypair sm sid priv pub h t t')) k =
      (if k = sid then map_option (\<lambda>s. touched None t t' (s \<lparr> ns_local_ephemeral_private_key := Some priv,
         ns_local_ephemeral_public_key := Some pub, ns_handshake_state := h \<rparr>)) (get_session_by_session_id sm sid) else get_session_by_session_id sm k)"
    and "get_session_by_session_id (fst (store_remote_ephemeral_public_key sm sid pub h t t')) k =
      (if k = sid then map_option (\<lambda>s. touched None t t' (s \<lparr> ns_remote_ephemeral_public_key := Some pub, ns_handshake_state := h \<rparr>))
         (get_session_by_session_id sm sid) else get_session_by_session_id sm k)"
    and "get_session_by_session_id (fst (store_shared_secret sm sid sec h ss t t')) k =
      (if k = sid then map_option (\<lambda>s. touched None t t' (s \<lparr> ns_shared_secret_hex := Some sec, ns_session_key_id := Some sid,
         ns_handshake_state := h, ns_session_state := ss \<rparr>)) (get_session_by_session_id sm sid) else get_session_by_session_id sm k)"
    and "get_session_by_session_id (fst (activate_session sm sid t t')) k =
      (if k = sid then map_option (\<lambda>s. s \<lparr> ns_handshake_state := ''ready'', ns_session_state := ''active'',
         ns_established_at := Some t, ns_last_activity_at := t,
         ns_keepalive_deadline := Some (build_keepalive_deadline (ns_keepalive_interval_seconds s) t') \<rparr>)
         (get_session_by_session_id sm sid) else get_session_by_session_id sm k)"
    and "get_session_by_session_id (fst (close_session sm sid r t)) k =
      (if k = sid then map_option (apply_state_update (session_state_update_defaults \<lparr> su_handshake_state := Some ''closed'',
         su_session_state := Some ''closed'', su_closed_at := Some t, su_close_reason := Some r \<rparr>)) (get_session_by_session_id sm sid)
       else get_session_by_session_id sm k)"
  unfolding sm_mutation_defs by (simp_all add: get_modify [OF sm_ok_index [OF assms]])

lemma touched_fields [simp]:
  fixes s :: network_session
  shows
  "ns_shared_secret_hex (touched iv t t' s) = ns_shared_secret_hex s" "ns_session_state (touched iv t t' s) = ns_session_state s"
  "ns_session_scope (touched iv t t' s) = ns_session_scope s" "ns_remote_identity_id (touched iv t t' s) = ns_remote_identity_id s"
  "ns_local_ephemeral_private_key (touched iv t t' s) = ns_local_ephemeral_private_key s" "ns_remote_public_key (touched iv t t' s) = ns_remote_public_key s"
  "ns_session_id (touched iv t t' s) = ns_session_id s"
  by (simp_all add: touched_def Let_def split: option.split)

lemma sm_ok_set_remote_key:
  "sm_ok sm \<Longrightarrow> sm_ok (fst (modify_session sm sid (\<lambda>s. s \<lparr> ns_remote_public_key := pk \<rparr>)))"
  by (rule sm_ok_modify) (simp_all add: keeps_ids_def)

lemma peer_sessions [simp]: "sessions_of (remember_virtual_peer he nid pk m st) = sessions_of st"
  by (simp add: remember_virtual_peer_def sessions_of_def)

lemma set_key_sessions [simp]:
  "sessions_of (set_remote_public_key sid pk st) = fst (modify_session (sessions_of st) sid (\<lambda>s. s \<lparr> ns_remote_public_key := Some pk \<rparr>))"
  by (simp add: set_remote_public_key_def)

lemma create_virtual_fresh:
  assumes "sm_ok sm" and "get_session_by_session_id sm sid = None"
  obtains sm' s where "create_inbound_virtual_session sm sid l r pk b k t t' = Inr (sm', s)" "sm_ok sm'"
    "get_session_by_session_id sm' sid = Some s" "ns_remote_identity_id s = r" "ns_session_id s = sid" "ns_session_scope s = ''virtual''"
    "\<And>k. k \<noteq> sid \<Longrightarrow> get_session_by_session_id sm' k = get_session_by_session_id sm k"
proof -
  obtain sm' s where c: "create_inbound_virtual_session sm sid l r pk b k t t' = Inr (sm', s)"
    using assms(2) sm_ok_index [OF assms(1)]
    by (auto simp: create_inbound_virtual_session_def create_session_def get_session_by_session_id_def Let_def base_create_input_def split: option.splits)
  define d where "d = base_create_input \<lparr> sc_session_id := sid, sc_session_scope := ''virtual'',
          sc_local_identity_type := ''virtual_node'', sc_local_identity_id := l,
          sc_remote_identity_type := ''virtual_node'', sc_remote_identity_id := r,
          sc_direction := ''inbound'', sc_initiator_side := ''responder'',
          sc_handshake_state := ''init_received'', sc_session_state := ''pending'',
          sc_key_exchange_algorithm := Some ''ml-kem-768'', sc_signature_algorithm := Some ''ml-dsa-65'',
          sc_symmetric_algorithm := Some ''aes-256-gcm-siv'', sc_hash_algorithm := Some ''sha512'',
          sc_remote_public_key := pk, sc_bound_route_id := b, sc_keepalive_interval_seconds := k,
          sc_keepalive_deadline := Some (build_keepalive_deadline k t) \<rparr>"
  have cs: "create_session sm d t' = Inr (sm', s)" using c assms(2) by (simp add: create_inbound_virtual_session_def d_def)
  have sid: "sc_session_id d = sid" by (simp add: d_def)
  have f: "ns_remote_identity_id s = r" "ns_session_id s = sid" "ns_session_scope s = ''virtual''"
    using cs by (auto simp: create_session_def d_def Let_def split: if_splits)
  show thesis
    by (rule that [OF c sm_ok_create [OF assms(1) cs] _ f]) (simp_all add: get_create_session [OF sm_ok_index [OF assms(1)] cs] sid)
qed

section \<open>Handshake\<close>

lemma virtual_reply:
  assumes "message_of sid mt pl env"
  obtains env' where "reply_envelope (virtual_response_result u env mt' pl' md) = Some env'" "message_of sid mt' pl' env'"
  using assms that by (simp add: reply_envelope_def virtual_response_result_def handled_result_def build_response_header_def
      message_of_def dict_get_def)

definition virtual_init_payload :: "string \<Rightarrow> string \<Rightarrow> string \<Rightarrow> int \<Rightarrow> payload" where
  "virtual_init_payload initiator_id initiator_key target_id iv =
     [(''initiator_virtual_node_id'', JStr initiator_id), (''initiator_virtual_node_public_key'', JStr initiator_key),
      (''target_virtual_node_id'', JStr target_id), (''keepalive_interval_seconds'', JInt iv)]"

lemma virtual_init_step:
  assumes ok: "sm_ok (sessions_of st)" "get_session_by_session_id (sessions_of st) sid = None" and sid: "sid \<noteq> []"
    and m: "message_of sid ''VIRTUAL_SESSION_INIT'' (virtual_init_payload aid apk tid iv) m" "0 < iv"
    and id: "he_sha512 he (utf8_encode apk) = aid" and node: "get_local_virtual_node_by_id tid (sv_identity (snd st)) = Some n"
    and kem: "os_kem_keygen (he_os he) (he_seed he) = Some (kpriv, kpub)"
    and sig: "sign_virtual_session_init_ok (he_os he) sid kpub (PyInt iv) (lv_private_key_encrypted n) = Inr sig"
  obtains st' r m' s where "virtual_session_handle dispatch he m ctx st = (st', Inr r)" "reply_envelope r = Some m'"
    "message_of sid ''VIRTUAL_SESSION_INIT_OK'' [(''responder_virtual_node_public_key'', JStr (lv_public_key n)),
       (''responder_ephemeral_public_key'', JStr kpub), (''signature_hex'', JStr sig), (''keepalive_interval_seconds'', JInt iv)] m'"
    "sm_ok (sessions_of st')" "get_session_by_session_id (sessions_of st') sid = Some s" "ns_local_ephemeral_private_key s = Some kpriv"
    "ns_remote_identity_id s = aid" "ns_remote_public_key s = Some apk" "ns_session_scope s = ''virtual''"
    "\<And>k. k \<noteq> sid \<Longrightarrow> get_session_by_session_id (sessions_of st') k = get_session_by_session_id (sessions_of st) k"
proof -
  note rd = message_read [OF m(1) sid]
  let ?st = "remember_virtual_peer he aid apk (compact_json_text [(''source'', JStr ''virtual_session_init'')]) st"
  obtain sm s0 where c: "create_inbound_virtual_session (sessions_of ?st) sid tid aid (Some apk) (jget_nonempty_str (pc_metadata ctx) ''route_path_id'')
      iv (he_clock he 1) (he_clock he 2) = Inr (sm, s0)" "sm_ok sm" "get_session_by_session_id sm sid = Some s0" "ns_remote_identity_id s0 = aid"
      "ns_session_id s0 = sid" "ns_session_scope s0 = ''virtual''"
      "\<And>k. k \<noteq> sid \<Longrightarrow> get_session_by_session_id sm k = get_session_by_session_id (sessions_of st) k"
    using create_virtual_fresh [of "sessions_of ?st"] ok by (metis peer_sessions)
  have iv: "read_positive_keepalive_interval (virtual_init_payload aid apk tid iv) d = PyInt iv" for d
    using m(2) by (simp add: read_positive_keepalive_interval_def virtual_init_payload_def)
  have g: "generate_kyber_key_pair (he_os he) (he_seed he) = Inr (kpriv, kpub)" using kem by (simp add: generate_kyber_key_pair_def)
  let ?st2 = "on_sessions (\<lambda>sm. fst (store_local_ephemeral_keypair sm sid kpriv kpub ''init_ok_sent'' (he_clock he 3) (he_clock he 4)))
    (set_remote_public_key sid apk (on_sessions (\<lambda>_. sm) ?st))"
  let ?r = "virtual_response_result (he_uuid he) m ''VIRTUAL_SESSION_INIT_OK'' [(''responder_virtual_node_public_key'', JStr (lv_public_key n)),
       (''responder_ephemeral_public_key'', JStr kpub), (''signature_hex'', JStr sig), (''keepalive_interval_seconds'', JInt iv)]
       (virtual_session_meta ''virtual_session_init_ok_sent'' (ns_session_id s0))"
  have h: "virtual_session_handle dispatch he m ctx st = (?st2, Inr ?r)"
    using rd id node c(1) g sig by (simp add: virtual_session_handle_def handle_virtual_session_init_def iv) (simp add: virtual_init_payload_def)
  obtain m' where m': "reply_envelope ?r = Some m'" "message_of sid ''VIRTUAL_SESSION_INIT_OK'' [(''responder_virtual_node_public_key'', JStr (lv_public_key n)),
       (''responder_ephemeral_public_key'', JStr kpub), (''signature_hex'', JStr sig), (''keepalive_interval_seconds'', JInt iv)] m'"
    by (rule virtual_reply [OF m(1)])
  obtain s where s: "get_session_by_session_id (sessions_of ?st2) sid = Some s" "ns_local_ephemeral_private_key s = Some kpriv"
    "ns_remote_identity_id s = aid" "ns_remote_public_key s = Some apk" "ns_session_scope s = ''virtual''"
    by (simp add: get_after sm_ok_set_remote_key sm_ok_mutations c)
  show thesis
    by (rule that [OF h m' _ s]) (simp_all add: get_after sm_ok_set_remote_key sm_ok_mutations c)
qed

lemma virtual_init_ok_step:
  assumes ok: "sm_ok (sessions_of st)" and sid: "sid \<noteq> []"
    and m: "message_of sid ''VIRTUAL_SESSION_INIT_OK'' [(''responder_virtual_node_public_key'', JStr pub),
       (''responder_ephemeral_public_key'', JStr kpub), (''signature_hex'', JStr sig), (''keepalive_interval_seconds'', JInt iv)] m" "0 < iv"
    and session: "get_session_by_session_id (sessions_of st) sid = Some s" "he_sha512 he (utf8_encode pub) = ns_remote_identity_id s"
    and verify: "verify_virtual_session_init_ok (he_os he) sid kpub (PyInt iv) sig pub"
    and encap: "kyber_encapsulate_hex (he_os he) (he_seed he) kpub = Inr c"
  obtains st' r m' s' where "virtual_session_handle dispatch he m ctx st = (st', Inr r)" "reply_envelope r = Some m'"
    "message_of sid ''VIRTUAL_SESSION_KEY_CONFIRM'' [(''encapsulated_key_hex'', JStr (ke_ciphertext_hex c))] m'"
    "sm_ok (sessions_of st')" "get_session_by_session_id (sessions_of st') sid = Some s'"
    "ns_shared_secret_hex s' = Some (ke_shared_secret_hex c)" "ns_remote_identity_id s' = ns_remote_identity_id s" "ns_remote_public_key s' = Some pub"
    "\<And>k. k \<noteq> sid \<Longrightarrow> get_session_by_session_id (sessions_of st') k = get_session_by_session_id (sessions_of st) k"
proof -
  note rd = message_read [OF m(1) sid]
  let ?pl = "[(''responder_virtual_node_public_key'', JStr pub), (''responder_ephemeral_public_key'', JStr kpub), (''signature_hex'', JStr sig),
    (''keepalive_interval_seconds'', JInt iv)]"
  have iv: "read_positive_keepalive_interval ?pl d = PyInt iv" for d using m(2) by (simp add: read_positive_keepalive_interval_def)
  let ?st = "remember_virtual_peer he (ns_remote_identity_id s) pub (compact_json_text [(''source'', JStr ''virtual_session_init_ok'')])
     (set_remote_public_key sid pub st)"
  let ?st2 = "on_sessions (\<lambda>sm. fst (store_shared_secret sm sid (ke_shared_secret_hex c) ''key_confirm_sent'' ''pending'' (he_clock he 5) (he_clock he 6)))
    (on_sessions (\<lambda>sm. fst (touch_session (fst (store_remote_ephemeral_public_key sm sid kpub ''init_ok_verified'' (he_clock he 1) (he_clock he 2)))
       sid (Some iv) (he_clock he 3) (he_clock he 4))) ?st)"
  let ?r = "virtual_response_result (he_uuid he) m ''VIRTUAL_SESSION_KEY_CONFIRM'' [(''encapsulated_key_hex'', JStr (ke_ciphertext_hex c))]
    (virtual_session_meta ''virtual_session_key_confirm_sent'' sid)"
  have h: "virtual_session_handle dispatch he m ctx st = (?st2, Inr ?r)"
    using rd session verify encap by (simp add: virtual_session_handle_def handle_virtual_session_init_ok_def iv)
  obtain m' where m': "reply_envelope ?r = Some m'" "message_of sid ''VIRTUAL_SESSION_KEY_CONFIRM'' [(''encapsulated_key_hex'', JStr (ke_ciphertext_hex c))] m'"
    by (rule virtual_reply [OF m(1)])
  obtain s' where s': "get_session_by_session_id (sessions_of ?st2) sid = Some s'" "ns_shared_secret_hex s' = Some (ke_shared_secret_hex c)"
    "ns_remote_identity_id s' = ns_remote_identity_id s" "ns_remote_public_key s' = Some pub"
    by (simp add: get_after sm_ok_set_remote_key sm_ok_mutations ok session(1))
  show thesis
    by (rule that [OF h m' _ s']) (simp_all add: get_after sm_ok_set_remote_key sm_ok_mutations ok session(1))
qed

lemma virtual_key_confirm_step:
  assumes ok: "sm_ok (sessions_of st)" and sid: "sid \<noteq> []"
    and m: "message_of sid ''VIRTUAL_SESSION_KEY_CONFIRM'' [(''encapsulated_key_hex'', JStr ct)] m"
    and session: "get_session_by_session_id (sessions_of st) sid = Some s" "ns_local_ephemeral_private_key s = Some priv" "priv \<noteq> []"
    and decap: "kyber_decapsulate_hex (he_os he) ct priv = Inr secret"
  obtains st' r m' s' where "virtual_session_handle dispatch he m ctx st = (st', Inr r)" "reply_envelope r = Some m'"
    "message_of sid ''VIRTUAL_SESSION_READY'' [(''status'', JStr ''active''), (''keepalive_interval_seconds'', JInt (ns_keepalive_interval_seconds s))] m'"
    "get_session_by_session_id (sessions_of st') sid = Some s'" "ns_shared_secret_hex s' = Some secret" "ns_session_state s' = ''active''"
    "ns_remote_identity_id s' = ns_remote_identity_id s" "ns_remote_public_key s' = ns_remote_public_key s"
    "\<And>k. k \<noteq> sid \<Longrightarrow> get_session_by_session_id (sessions_of st') k = get_session_by_session_id (sessions_of st) k"
proof -
  note rd = message_read [OF m sid]
  obtain c cs where p: "priv = c # cs" using session(3) by (cases priv) auto
  let ?st2 = "on_sessions (\<lambda>sm. fst (activate_session (fst (store_shared_secret sm sid secret ''ready_sent'' ''pending'' (he_clock he 0) (he_clock he 1)))
     sid (he_clock he 2) (he_clock he 3))) st"
  let ?pl = "[(''status'', JStr ''active''), (''keepalive_interval_seconds'', JInt (ns_keepalive_interval_seconds s))]"
  let ?r = "virtual_response_result (he_uuid he) m ''VIRTUAL_SESSION_READY'' ?pl (virtual_session_meta ''virtual_session_ready_sent'' sid)"
  have h: "virtual_session_handle dispatch he m ctx st = (?st2, Inr ?r)"
    using rd session decap p by (simp add: virtual_session_handle_def handle_virtual_session_key_confirm_def)
  obtain m' where m': "reply_envelope ?r = Some m'" "message_of sid ''VIRTUAL_SESSION_READY'' ?pl m'" by (rule virtual_reply [OF m])
  obtain s' where s': "get_session_by_session_id (sessions_of ?st2) sid = Some s'" "ns_shared_secret_hex s' = Some secret"
    "ns_session_state s' = ''active''" "ns_remote_identity_id s' = ns_remote_identity_id s" "ns_remote_public_key s' = ns_remote_public_key s"
    by (simp add: get_after sm_ok_mutations ok session(1))
  show thesis by (rule that [OF h m' s']) (simp_all add: get_after sm_ok_mutations ok)
qed

lemma virtual_ready_step:
  assumes ok: "sm_ok (sessions_of st)" and sid: "sid \<noteq> []" and m: "message_of sid ''VIRTUAL_SESSION_READY'' pl m"
    and session: "get_session_by_session_id (sessions_of st) sid = Some s" "ns_shared_secret_hex s = Some secret" "secret \<noteq> []"
  obtains st' r s' where "virtual_session_handle dispatch he m ctx st = (st', Inr r)" "pr_handled r"
    "get_session_by_session_id (sessions_of st') sid = Some s'" "ns_shared_secret_hex s' = Some secret" "ns_session_state s' = ''active''"
    "ns_remote_identity_id s' = ns_remote_identity_id s" "ns_remote_public_key s' = ns_remote_public_key s"
    "\<And>k. k \<noteq> sid \<Longrightarrow> get_session_by_session_id (sessions_of st') k = get_session_by_session_id (sessions_of st) k"
proof -
  note rd = message_read [OF m sid]
  obtain c cs where p: "secret = c # cs" using session(3) by (cases secret) auto
  let ?st2 = "on_sessions (\<lambda>sm. fst (activate_session
      (fst (touch_session sm sid (Some (pyint_val (read_positive_keepalive_interval pl (he_session_keepalive_seconds he)))) (he_clock he 0) (he_clock he 1)))
      sid (he_clock he 2) (he_clock he 3))) st"
  have h: "virtual_session_handle dispatch he m ctx st = (?st2, Inr (virtual_handled m ''virtual_session_activated'' sid))"
    using rd session p by (simp add: virtual_session_handle_def handle_virtual_session_ready_def)
  obtain s' where s': "get_session_by_session_id (sessions_of ?st2) sid = Some s'" "ns_shared_secret_hex s' = Some secret"
    "ns_session_state s' = ''active''" "ns_remote_identity_id s' = ns_remote_identity_id s" "ns_remote_public_key s' = ns_remote_public_key s"
    by (simp add: get_after sm_ok_mutations ok session)
  show thesis by (rule that [OF h _ s']) (simp_all add: get_after sm_ok_mutations ok virtual_handled_def handled_result_def)
qed

text \<open>
  C19. The handshake of virtual sessions works: when an initiator that addresses a virtual node by its id sends
  \<^verbatim>\<open>VIRTUAL_SESSION_INIT\<close> and the three answers are delivered, both nodes have the session active with the same shared
  secret, each with the public key of the other, and no other session has changed.
\<close>

theorem virtual_handshake_agreement:
  assumes laws: "signature_correct os" "kem_correct os" and os: "he_os b1 = os" "he_os a1 = os" "he_os b2 = os" "he_os a2 = os"
    and node: "get_local_virtual_node_by_id tid (sv_identity (snd stB)) = Some n" "os_dsa_keygen os seed = Some (lv_private_key_encrypted n, lv_public_key n)"
    and signs: "\<And>m. os_sign os m (lv_private_key_encrypted n) \<noteq> None"
    and kem: "os_kem_keygen os (he_seed b1) = Some (kpriv, kpub)" "os_encap os (he_seed a1) kpub = Some (ct, secret)" "kpriv \<noteq> []"
    and ok: "sm_ok (sessions_of stA)" "sm_ok (sessions_of stB)" "get_session_by_session_id (sessions_of stB) sid = None"
    and A: "get_session_by_session_id (sessions_of stA) sid = Some sA" "ns_remote_identity_id sA = he_sha512 a1 (utf8_encode (lv_public_key n))"
    and sid: "sid \<noteq> []" and m: "message_of sid ''VIRTUAL_SESSION_INIT'' (virtual_init_payload (he_sha512 b1 (utf8_encode apk)) apk tid iv) m" "0 < iv"
  shows "\<exists>stB' r1 m1 stA' r2 m2 stB'' r3 m3 stA'' r4 sA'' sB''.
    virtual_session_handle dispatch b1 m c1 stB = (stB', Inr r1) \<and> reply_envelope r1 = Some m1 \<and>
    virtual_session_handle dispatch a1 m1 c2 stA = (stA', Inr r2) \<and> reply_envelope r2 = Some m2 \<and>
    virtual_session_handle dispatch b2 m2 c3 stB' = (stB'', Inr r3) \<and> reply_envelope r3 = Some m3 \<and>
    virtual_session_handle dispatch a2 m3 c4 stA' = (stA'', Inr r4) \<and> pr_handled r4 \<and>
    get_session_by_session_id (sessions_of stA'') sid = Some sA'' \<and> get_session_by_session_id (sessions_of stB'') sid = Some sB'' \<and>
    ns_session_state sA'' = ''active'' \<and> ns_session_state sB'' = ''active'' \<and>
    ns_shared_secret_hex sA'' = Some (bytes_to_hex secret) \<and> ns_shared_secret_hex sB'' = Some (bytes_to_hex secret) \<and>
    ns_remote_public_key sA'' = Some (lv_public_key n) \<and> ns_remote_public_key sB'' = Some apk \<and>
    (\<forall>k. k = sid \<or> get_session_by_session_id (sessions_of stA'') k = get_session_by_session_id (sessions_of stA) k \<and>
       get_session_by_session_id (sessions_of stB'') k = get_session_by_session_id (sessions_of stB) k)"
proof -
  obtain x where "os_sign os (compact_json_bytes (init_ok_signed_payload sid kpub (PyInt iv))) (lv_private_key_encrypted n) = Some x" using signs by blast
  then have sg: "sign_virtual_session_init_ok os sid kpub (PyInt iv) (lv_private_key_encrypted n) = Inr (bytes_to_hex x)"
    by (simp add: sign_virtual_session_init_ok_def dilithium_sign_hex_def canonical_payload_hex_def)
  have v: "verify_virtual_session_init_ok os sid kpub (PyInt iv) (bytes_to_hex x) (lv_public_key n)"
    using sign_then_verify [OF laws(1) node(2)] sg by (simp add: sign_virtual_session_init_ok_def verify_virtual_session_init_ok_def)
  let ?c = "\<lparr> ke_ciphertext_hex = bytes_to_hex ct, ke_shared_secret_hex = bytes_to_hex secret \<rparr>"
  have en: "kyber_encapsulate_hex os (he_seed a1) kpub = Inr ?c" using kem(2) by (simp add: kyber_encapsulate_hex_def)
  note de = encapsulate_then_decapsulate [OF laws(2) kem(1) en, simplified]
  obtain stB' r1 m1 sB' where B1: "virtual_session_handle dispatch b1 m c1 stB = (stB', Inr r1)" "reply_envelope r1 = Some m1"
    "message_of sid ''VIRTUAL_SESSION_INIT_OK'' [(''responder_virtual_node_public_key'', JStr (lv_public_key n)),
       (''responder_ephemeral_public_key'', JStr kpub), (''signature_hex'', JStr (bytes_to_hex x)), (''keepalive_interval_seconds'', JInt iv)] m1"
    "sm_ok (sessions_of stB')" "get_session_by_session_id (sessions_of stB') sid = Some sB'" "ns_local_ephemeral_private_key sB' = Some kpriv"
    "ns_remote_public_key sB' = Some apk" "\<And>k. k \<noteq> sid \<Longrightarrow> get_session_by_session_id (sessions_of stB') k = get_session_by_session_id (sessions_of stB) k"
    by (rule virtual_init_step [OF ok(2,3) sid m refl node(1), of kpriv kpub "bytes_to_hex x" dispatch c1]) (use os kem sg in simp_all)
  obtain stA' r2 m2 sA' where A1: "virtual_session_handle dispatch a1 m1 c2 stA = (stA', Inr r2)" "reply_envelope r2 = Some m2"
    "message_of sid ''VIRTUAL_SESSION_KEY_CONFIRM'' [(''encapsulated_key_hex'', JStr (ke_ciphertext_hex ?c))] m2"
    "sm_ok (sessions_of stA')" "get_session_by_session_id (sessions_of stA') sid = Some sA'"
    "ns_shared_secret_hex sA' = Some (ke_shared_secret_hex ?c)" "ns_remote_public_key sA' = Some (lv_public_key n)"
    "\<And>k. k \<noteq> sid \<Longrightarrow> get_session_by_session_id (sessions_of stA') k = get_session_by_session_id (sessions_of stA) k"
    by (rule virtual_init_ok_step [OF ok(1) sid B1(3) m(2) A(1), of a1 ?c dispatch c2]) (use os v en A(2) in simp_all)
  obtain stB'' r3 m3 sB'' where B2: "virtual_session_handle dispatch b2 m2 c3 stB' = (stB'', Inr r3)" "reply_envelope r3 = Some m3"
    "message_of sid ''VIRTUAL_SESSION_READY'' [(''status'', JStr ''active''), (''keepalive_interval_seconds'', JInt (ns_keepalive_interval_seconds sB'))] m3"
    "get_session_by_session_id (sessions_of stB'') sid = Some sB''" "ns_shared_secret_hex sB'' = Some (bytes_to_hex secret)" "ns_session_state sB'' = ''active''"
    "ns_remote_public_key sB'' = ns_remote_public_key sB'"
    "\<And>k. k \<noteq> sid \<Longrightarrow> get_session_by_session_id (sessions_of stB'') k = get_session_by_session_id (sessions_of stB') k"
    by (rule virtual_key_confirm_step [OF B1(4) sid A1(3) B1(5,6) kem(3), of b2 "bytes_to_hex secret" dispatch c3]) (use os de in simp_all)
  obtain stA'' r4 sA'' where A2: "virtual_session_handle dispatch a2 m3 c4 stA' = (stA'', Inr r4)" "pr_handled r4"
    "get_session_by_session_id (sessions_of stA'') sid = Some sA''" "ns_shared_secret_hex sA'' = Some (bytes_to_hex secret)" "ns_session_state sA'' = ''active''"
    "ns_remote_public_key sA'' = ns_remote_public_key sA'"
    "\<And>k. k \<noteq> sid \<Longrightarrow> get_session_by_session_id (sessions_of stA'') k = get_session_by_session_id (sessions_of stA') k"
    by (rule virtual_ready_step [OF A1(4) sid B2(3) A1(5), of "bytes_to_hex secret" dispatch a2 c4]) (use A1(6) de(2) in simp_all)
  have keys: "ns_remote_public_key sA'' = Some (lv_public_key n)" "ns_remote_public_key sB'' = Some apk" using A1(7) A2(6) B1(7) B2(7) by simp_all
  have frame: "\<forall>k. k = sid \<or> get_session_by_session_id (sessions_of stA'') k = get_session_by_session_id (sessions_of stA) k \<and>
      get_session_by_session_id (sessions_of stB'') k = get_session_by_session_id (sessions_of stB) k"
    using A1(8) A2(7) B1(8) B2(8) by metis
  show ?thesis by (intro exI conjI; rule B1(1) B1(2) A1(1) A1(2) B2(1) B2(2) A2(1-5) B2(4-6) keys frame)
qed

section \<open>Authenticity\<close>

lemma verify_virtual_valid:
  "verify_virtual_session_init_ok os sid kpub iv sig pub \<Longrightarrow>
   \<exists>sb. hex_to_bytes sig = Inr sb \<and> os_verify os (compact_json_bytes (init_ok_signed_payload sid kpub iv)) sb pub"
  unfolding verify_virtual_session_init_ok_def canonical_payload_hex_def
  using verify_True_iff [of os "bytes_to_hex (compact_json_bytes (init_ok_signed_payload sid kpub iv))" sig pub]
  by (auto split: sum.splits)

lemma secret_set_key:
  "sm_ok sm \<Longrightarrow> secret_of (fst (modify_session sm sid (\<lambda>s. s \<lparr> ns_remote_public_key := pk \<rparr>))) k = secret_of sm k"
  by (rule secret_modify [OF sm_ok_index]) simp_all

lemmas virtual_secret_rules = secret_mutations secret_set_key sm_ok_mutations sm_ok_set_remote_key

text \<open>
  C20. A virtual session is bound to the identity it was opened for: if handling a \<^verbatim>\<open>VIRTUAL_SESSION_INIT_OK\<close> changes the
  secret of a session, the message names that session, and it carries a signature over the session id, the
  ephemeral key and the interval that is valid under a public key whose SHA-512 is the id of the remote node.
\<close>

theorem virtual_init_ok_authenticated:
  assumes ok: "sm_ok (sessions_of st)" and h: "handle_virtual_session_init_ok he env ctx st = (st', r)"
    and changed: "secret_of (sessions_of st') k \<noteq> secret_of (sessions_of st) k"
  shows "read_virtual_session_id env = Some k \<and>
    (\<exists>s pub kpub sig sb. get_session_by_session_id (sessions_of st) k = Some s \<and> he_sha512 he (utf8_encode pub) = ns_remote_identity_id s \<and>
      jget (as_payload_dict env) ''responder_ephemeral_public_key'' = JStr kpub \<and> jget (as_payload_dict env) ''signature_hex'' = JStr sig \<and>
      hex_to_bytes sig = Inr sb \<and>
      os_verify (he_os he) (compact_json_bytes (init_ok_signed_payload k kpub
        (read_positive_keepalive_interval (as_payload_dict env) (he_session_keepalive_seconds he)))) sb pub)"
proof -
  have as_str: "as_str v = Some x \<longleftrightarrow> v = JStr x" for v x by (cases v) auto
  obtain sid pub kpub sig where f: "read_virtual_session_id env = Some sid" "jget (as_payload_dict env) ''responder_virtual_node_public_key'' = JStr pub"
      "jget (as_payload_dict env) ''responder_ephemeral_public_key'' = JStr kpub" "jget (as_payload_dict env) ''signature_hex'' = JStr sig"
    using h changed by (auto simp: handle_virtual_session_init_ok_def Let_def as_str split: option.splits)
  obtain s where s: "get_session_by_session_id (sessions_of st) sid = Some s"
    using h changed f by (auto simp: handle_virtual_session_init_ok_def Let_def split: option.splits)
  have id: "he_sha512 he (utf8_encode pub) = ns_remote_identity_id s"
    using h changed f s by (auto simp: handle_virtual_session_init_ok_def Let_def virtual_secret_rules ok split: if_splits)
  let ?iv = "read_positive_keepalive_interval (as_payload_dict env) (he_session_keepalive_seconds he)"
  have v: "verify_virtual_session_init_ok (he_os he) sid kpub ?iv sig pub"
    using h changed f s id by (auto simp: handle_virtual_session_init_ok_def Let_def virtual_secret_rules ok split: if_splits)
  have "k = sid"
  proof (rule ccontr)
    assume "k \<noteq> sid"
    then have "secret_of (sessions_of st') k = secret_of (sessions_of st) k"
      using h f s id v by (auto simp: handle_virtual_session_init_ok_def Let_def virtual_secret_rules ok secret_of_def get_after split: sum.splits)
    with changed show False by simp
  qed
  with verify_virtual_valid [OF v] f s id show ?thesis by blast
qed

section \<open>Replies and acknowledgements\<close>

text \<open>A message that was delivered is a duplicate ever after.\<close>

lemma deliver_loop_mono: "deliver_loop st acc = (st', ds) \<Longrightarrow> rs_next_expected_inbound_sequence st \<le> rs_next_expected_inbound_sequence st'"
proof (induction st acc arbitrary: st' ds rule: deliver_loop.induct)
  case (1 st acc)
  show ?case
  proof (cases "dict_get (rs_inbound_buffer_by_sequence st) (rs_next_expected_inbound_sequence st)")
    case None
    with "1.prems" show ?thesis by (simp add: deliver_loop.simps [of st])
  next
    case (Some m)
    with "1.prems" have "rs_next_expected_inbound_sequence st + 1 \<le> rs_next_expected_inbound_sequence st'"
      using "1.IH" [OF Some refl, of st' ds] by (simp add: deliver_loop.simps [of st] Let_def)
    then show ?thesis by simp
  qed
qed

lemma deliver_loop_passes:
  assumes "deliver_loop st acc = (st', ds)" and "dict_get (rs_inbound_buffer_by_sequence st) (rs_next_expected_inbound_sequence st) \<noteq> None"
  shows "rs_next_expected_inbound_sequence st < rs_next_expected_inbound_sequence st'"
proof -
  obtain m where m: "dict_get (rs_inbound_buffer_by_sequence st) (rs_next_expected_inbound_sequence st) = Some m" using assms(2) by blast
  obtain st1 acc1 where 1: "deliver_loop st acc = deliver_loop st1 acc1" "rs_next_expected_inbound_sequence st1 = rs_next_expected_inbound_sequence st + 1"
    using m by (simp add: deliver_loop.simps [of st] Let_def)
  then show ?thesis using deliver_loop_mono [of st1 acc1 st' ds] assms(1) by simp
qed

lemma received_then_duplicate:
  assumes "receive_inbound st m ack = (st', r)" and "rr_deliveries r \<noteq> []" and "ri_seq m' = ri_seq m"
  shows "receive_inbound st' m' ack' = (st', \<lparr> rr_ack_payload = ack', rr_deliveries = [], rr_duplicate = True, rr_buffered = False \<rparr>)"
proof -
  have seq: "ri_seq m = rs_next_expected_inbound_sequence st" using assms(1,2) by (auto simp: receive_inbound_def split: if_splits)
  have "\<exists>ds. deliver_loop (st \<lparr> rs_inbound_buffer_by_sequence := dict_set (ri_seq m) m (rs_inbound_buffer_by_sequence st) \<rparr>) [] = (st', ds)"
    using assms(1,2) by (auto simp: receive_inbound_def split: if_splits prod.splits)
  then have "rs_next_expected_inbound_sequence st < rs_next_expected_inbound_sequence st'"
    using deliver_loop_passes seq by fastforce
  then show ?thesis using assms(3) seq by (simp add: receive_inbound_def)
qed

lemma parse_seq: "parse_reliable_payload p t = Inr m \<Longrightarrow> parse_reliable_payload p t' = Inr (m \<lparr> ri_received_at := t' \<rparr>)"
  by (auto simp: parse_reliable_payload_def rbind_def Let_def split: sum.splits if_splits option.splits)

lemma parse_same: "parse_reliable_payload p t = Inr m \<Longrightarrow> \<exists>m'. parse_reliable_payload p t' = Inr m' \<and> ri_seq m' = ri_seq m \<and>
    ri_reliable_message_id m' = ri_reliable_message_id m"
  by (auto dest: parse_seq)

text \<open>An inner handler that leaves the reliable states and the kinds of the sessions alone.\<close>

definition keeps_delivery :: "(protocol_envelope \<Rightarrow> packet_context \<Rightarrow> node_state \<Rightarrow> handler_result) \<Rightarrow> bool" where
  "keeps_delivery d \<longleftrightarrow> (\<forall>e c st. sm_ok (sessions_of st) \<longrightarrow> sm_ok (sessions_of (fst (d e c st))) \<and>
     sm_reliable_states_by_session_id (sessions_of (fst (d e c st))) = sm_reliable_states_by_session_id (sessions_of st) \<and>
     (\<forall>k. map_option ns_session_scope (get_session_by_session_id (sessions_of (fst (d e c st))) k) =
        map_option ns_session_scope (get_session_by_session_id (sessions_of st) k)))"

lemma keeps_deliveryD:
  assumes "keeps_delivery d" and "sm_ok (sessions_of st)" and "d e c st = (st', x)"
  shows "sm_ok (sessions_of st')" "sm_reliable_states_by_session_id (sessions_of st') = sm_reliable_states_by_session_id (sessions_of st)"
    "map_option ns_session_scope (get_session_by_session_id (sessions_of st') k) = map_option ns_session_scope (get_session_by_session_id (sessions_of st) k)"
  using assms unfolding keeps_delivery_def by (metis fst_conv)+

lemma deliveries_keep:
  assumes "keeps_delivery d" and "sm_ok (sessions_of st)" and "dispatch_virtual_deliveries (Some d) env ctx ms n l rs st = (st', x)"
  shows "sm_ok (sessions_of st') \<and> sm_reliable_states_by_session_id (sessions_of st') = sm_reliable_states_by_session_id (sessions_of st) \<and>
    map_option ns_session_scope (get_session_by_session_id (sessions_of st') k) = map_option ns_session_scope (get_session_by_session_id (sessions_of st) k)"
  using assms(2,3)
proof (induction ms arbitrary: n l rs st)
  case (Cons m ms)
  obtain st1 y where d: "d (inner_envelope env m) ctx st = (st1, y)" by fastforce
  note k = keeps_deliveryD [OF assms(1) Cons.prems(1) d]
  show ?case
  proof (cases y)
    case (Inl e)
    with Cons.prems(2) d k show ?thesis by simp
  next
    case (Inr r)
    with Cons.prems(2) d Cons.IH [OF k(1)] k show ?thesis by simp
  qed
qed simp

lemma no_deliveries_no_replies: "dispatch_virtual_deliveries dispatch env ctx [] n l rs st = (st, Inr (n, l, rs))"
  by simp

lemma virtual_message_keeps: "keeps_delivery (virtual_message_handle he)"
proof -
  have "sm_ok (sessions_of (fst (virtual_message_handle he e c st))) \<and>
     sm_reliable_states_by_session_id (sessions_of (fst (virtual_message_handle he e c st))) = sm_reliable_states_by_session_id (sessions_of st) \<and>
     (\<forall>k. map_option ns_session_scope (get_session_by_session_id (sessions_of (fst (virtual_message_handle he e c st))) k) =
        map_option ns_session_scope (get_session_by_session_id (sessions_of st) k))" if "sm_ok (sessions_of st)" for e c st
  proof -
    obtain st' x where h: "virtual_message_handle he e c st = (st', x)" by fastforce
    then have "st' = st \<or> (\<exists>sid. st' = on_sessions (\<lambda>sm. fst (touch_session sm sid None (he_clock he 0) (he_clock he 1))) st)"
      by (auto simp: virtual_message_handle_def Let_def split: option.splits if_splits sum.splits)
    then show ?thesis
      unfolding h using that by (auto simp: sm_ok_mutations get_after option.map_comp comp_def) (simp add: touch_session_def)
  qed
  then show ?thesis by (simp add: keeps_delivery_def)
qed

definition reliable_of :: "session_manager \<Rightarrow> network_session \<Rightarrow> reliable_session_state" where
  "reliable_of sm s = (case dict_get (sm_reliable_states_by_session_id sm) (ns_session_id s) of
     Some r \<Rightarrow> r | None \<Rightarrow> new_reliable_session_state (ns_session_id s) (ns_session_scope s))"

lemma get_session_id: "sm_ok sm \<Longrightarrow> get_session_by_session_id sm k = Some s \<Longrightarrow> ns_session_id s = k"
  using index_okD(4) [OF sm_ok_index] by (auto simp: get_session_by_session_id_def split: option.splits)

text \<open>What a reliable message does to the table.\<close>

lemma virtual_receive_effect:
  assumes "get_session_by_session_id sm sid = Some s" and "parse_reliable_payload p t = Inr m"
    and "receive_inbound (reliable_of sm s) m (reliable_ack_payload isofmt m t') = (rs, r)"
  obtains sm' where "receive_reliable_inbound isofmt sm sid p t t' = (sm', Inr r)"
    "dict_get (sm_reliable_states_by_session_id sm') (ns_session_id s) = Some rs" "\<And>k. get_session_by_session_id sm' k = get_session_by_session_id sm k"
  using assms that
  by (auto simp: receive_reliable_inbound_def get_reliable_state_def set_reliable_state_def receive_reliable_payload_def reliable_of_def
      get_session_by_session_id_def Let_def split: option.splits)

lemma receive_sessions:
  "receive_reliable_inbound isofmt sm sid p t t' = (sm', x) \<Longrightarrow> get_session_by_session_id sm' k = get_session_by_session_id sm k"
  by (auto simp: receive_reliable_inbound_def get_reliable_state_def set_reliable_state_def get_session_by_session_id_def Let_def
      split: option.splits sum.splits)

lemma receive_inverse:
  assumes "get_session_by_session_id sm sid = Some s" and "receive_reliable_inbound isofmt sm sid p t t' = (sm', Inr r)"
  obtains m rs where "parse_reliable_payload p t = Inr m"
    "receive_inbound (reliable_of sm s) m (reliable_ack_payload isofmt m t') = (rs, r)"
    "dict_get (sm_reliable_states_by_session_id sm') (ns_session_id s) = Some rs"
proof -
  obtain m where m: "parse_reliable_payload p t = Inr m"
    using assms by (auto simp: receive_reliable_inbound_def receive_reliable_payload_def get_reliable_state_def Let_def rbind_def
        split: option.splits sum.splits prod.splits)
  obtain rs r' where i: "receive_inbound (reliable_of sm s) m (reliable_ack_payload isofmt m t') = (rs, r')" by fastforce
  obtain sm'' where e: "receive_reliable_inbound isofmt sm sid p t t' = (sm'', Inr r')"
    "dict_get (sm_reliable_states_by_session_id sm'') (ns_session_id s) = Some rs" by (rule virtual_receive_effect [OF assms(1) m i])
  with assms(2) have "sm'' = sm'" "r' = r" by simp_all
  with that [OF m] i e(2) show thesis by simp
qed

lemma ack_no_replies: "read_inner_responses (reliable_ack_payload isofmt m t) = []"
  by (simp add: read_inner_responses_def reliable_ack_payload_def)

lemma receive_ack: "receive_inbound rs m a = (rs', r) \<Longrightarrow> rr_ack_payload r = a"
  by (auto simp: receive_inbound_def split: if_splits prod.splits)

lemma touch_some:
  assumes "sm_ok sm" and "get_session_by_session_id sm sid = Some s"
  obtains sm' where "touch_session sm sid iv t t' = (sm', Some (touched iv t t' s))" "sm_ok sm'"
    "sm_reliable_states_by_session_id sm' = sm_reliable_states_by_session_id sm"
    "get_session_by_session_id sm' k = (if k = sid then Some (touched iv t t' s) else get_session_by_session_id sm k)"
proof -
  have "snd (touch_session sm sid iv t t') = Some (touched iv t t' s)"
    using assms(2) by (auto simp: touch_session_def modify_session_def get_session_by_session_id_def Let_def split: option.splits)
  then show thesis
    using that [of "fst (touch_session sm sid iv t t')"] sm_ok_mutations(1) [OF assms(1), of sid iv t t'] get_after(2) [OF assms(1), of sid iv t t' k] assms(2)
    by (metis modify_session_frame(3) option.simps(9) prod.collapse touch_session_def)
qed

text \<open>The acknowledgement of a message that is handled in a virtual session.\<close>

lemma reliable_data_step:
  assumes ok: "sm_ok (sessions_of st)" and s: "get_session_by_session_id (sessions_of st) sid = Some s" "ns_session_scope s = ''virtual''"
    and sid: "sid \<noteq> []" and m: "message_of sid ''VIRTUAL_SESSION_RELIABLE_DATA'' pl m" and p: "parse_reliable_payload pl (he_clock he 2) = Inr x"
    and dup: "receive_inbound (reliable_of (sessions_of st) s) x (reliable_ack_payload (he_isofmt he) x (he_clock he 3)) = (rs, r)" "rr_deliveries r = []"
  shows "\<exists>st' res a. virtual_session_handle dispatch he m ctx st = (st', Inr res) \<and> reply_envelope res = Some a \<and>
    message_of sid ''VIRTUAL_SESSION_RELIABLE_ACK'' (reliable_ack_payload (he_isofmt he) x (he_clock he 3)) a"
proof -
  note rd = message_read [OF m sid]
  obtain sm1 where t: "touch_session (sessions_of st) sid None (he_clock he 0) (he_clock he 1) = (sm1, Some (touched None (he_clock he 0) (he_clock he 1) s))"
    "sm_ok sm1" "sm_reliable_states_by_session_id sm1 = sm_reliable_states_by_session_id (sessions_of st)"
    "get_session_by_session_id sm1 sid = (if sid = sid then Some (touched None (he_clock he 0) (he_clock he 1) s) else get_session_by_session_id (sessions_of st) sid)"
    by (rule touch_some [OF ok s(1)])
  have ro: "reliable_of sm1 (touched None (he_clock he 0) (he_clock he 1) s) = reliable_of (sessions_of st) s"
    by (simp add: reliable_of_def t(3) split: option.split)
  obtain sm2 where e: "receive_reliable_inbound (he_isofmt he) sm1 sid pl (he_clock he 2) (he_clock he 3) = (sm2, Inr r)"
    by (rule virtual_receive_effect [OF _ p, of sm1 sid "touched None (he_clock he 0) (he_clock he 1) s" "he_isofmt he" "he_clock he 3" rs r])
      (use t(4) ro dup in simp_all)
  have h: "virtual_session_handle dispatch he m ctx st = (on_sessions (\<lambda>_. sm2) (on_sessions (\<lambda>_. sm1) st),
      Inr (virtual_response_result (he_uuid he) m ''VIRTUAL_SESSION_RELIABLE_ACK'' (rr_ack_payload r)
        (virtual_session_meta ''virtual_reliable_ack_sent'' sid @ [(''delivered_count'', MJson (JInt 0)), (''inner_action'', inner_action None)])))"
    using rd s t(1) e dup(2) by (simp add: virtual_session_handle_def handle_virtual_session_reliable_data_def del: One_nat_def)
  obtain a where "reply_envelope (virtual_response_result (he_uuid he) m ''VIRTUAL_SESSION_RELIABLE_ACK'' (rr_ack_payload r)
        (virtual_session_meta ''virtual_reliable_ack_sent'' sid @ [(''delivered_count'', MJson (JInt 0)), (''inner_action'', inner_action None)])) = Some a"
      "message_of sid ''VIRTUAL_SESSION_RELIABLE_ACK'' (rr_ack_payload r) a" by (rule virtual_reply [OF m])
  with h receive_ack [OF dup(1)] show ?thesis by auto
qed


lemma reliable_data_inverse:
  assumes ok: "sm_ok (sessions_of st)" and sid: "sid \<noteq> []" and d: "keeps_delivery d" and m: "message_of sid ''VIRTUAL_SESSION_RELIABLE_DATA'' pl m"
    and h: "virtual_session_handle (Some d) he m ctx st = (st1, Inr r1)" "reply_envelope r1 = Some a1" "read_inner_responses (as_payload_dict a1) \<noteq> []"
  obtains x s1 rs r where "parse_reliable_payload pl (he_clock he 2) = Inr x" "sm_ok (sessions_of st1)" "get_session_by_session_id (sessions_of st1) sid = Some s1"
    "ns_session_scope s1 = ''virtual''" "receive_inbound rs x (reliable_ack_payload (he_isofmt he) x (he_clock he 3)) = (reliable_of (sessions_of st1) s1, r)"
    "rr_deliveries r \<noteq> []" "jget (as_payload_dict a1) ''ack_for_message_id'' = JStr (ri_reliable_message_id x)"
proof -
  note rd = message_read [OF m sid]
  have hd: "handle_virtual_session_reliable_data (Some d) he m ctx st = (st1, Inr r1)" using h(1) rd by (simp add: virtual_session_handle_def)
  have bad: "r1 \<noteq> virtual_invalid m reason" for reason using h(2) by (auto simp: virtual_invalid_def build_invalid_result_def reply_envelope_def dict_get_def)
  have g0: "snd (touch_session (sessions_of st) sid None (he_clock he 0) (he_clock he 1)) = None" if "get_session_by_session_id (sessions_of st) sid = None"
    using that by (auto simp: touch_session_def modify_session_def get_session_by_session_id_def split: option.splits)
  obtain s where s: "get_session_by_session_id (sessions_of st) sid = Some s"
    using hd rd bad g0 by (cases "get_session_by_session_id (sessions_of st) sid")
      (auto simp: handle_virtual_session_reliable_data_def Let_def simp del: One_nat_def split: prod.splits)
  obtain sm1 where t: "touch_session (sessions_of st) sid None (he_clock he 0) (he_clock he 1) = (sm1, Some (touched None (he_clock he 0) (he_clock he 1) s))"
    "sm_ok sm1" "get_session_by_session_id sm1 sid = (if sid = sid then Some (touched None (he_clock he 0) (he_clock he 1) s) else get_session_by_session_id (sessions_of st) sid)"
    by (rule touch_some [OF ok s])
  let ?s = "touched None (he_clock he 0) (he_clock he 1) s"
  have sc: "ns_session_scope s = ''virtual''"
    using hd rd bad t(1) by (auto simp: handle_virtual_session_reliable_data_def Let_def simp del: One_nat_def split: if_splits)
  obtain sm2 r where e: "receive_reliable_inbound (he_isofmt he) sm1 sid pl (he_clock he 2) (he_clock he 3) = (sm2, Inr r)"
    using hd rd bad t(1) sc by (auto simp: handle_virtual_session_reliable_data_def Let_def simp del: One_nat_def split: prod.splits sum.splits py_error.splits)
  obtain x rs where x: "parse_reliable_payload pl (he_clock he 2) = Inr x"
    "receive_inbound (reliable_of sm1 ?s) x (reliable_ack_payload (he_isofmt he) x (he_clock he 3)) = (rs, r)"
    "dict_get (sm_reliable_states_by_session_id sm2) (ns_session_id ?s) = Some rs"
    by (rule receive_inverse [OF _ e, of ?s]) (use t(3) in simp_all)
  have ok2: "sm_ok sm2" using sm_ok_receive [OF t(2), of "he_isofmt he" sid pl "he_clock he 2" "he_clock he 3"] e by simp
  obtain n l replies where dd: "dispatch_virtual_deliveries (Some d) m ctx (rr_deliveries r) 0 None [] (on_sessions (\<lambda>_. sm2) (on_sessions (\<lambda>_. sm1) st)) = (st1, Inr (n, l, replies))"
    and r1: "r1 = virtual_response_result (he_uuid he) m ''VIRTUAL_SESSION_RELIABLE_ACK''
      (if replies = [] then rr_ack_payload r else dict_set ''inner_response_envelopes'' (JList replies) (rr_ack_payload r))
      (virtual_session_meta ''virtual_reliable_ack_sent'' sid @ [(''delivered_count'', MJson (JInt n)), (''inner_action'', inner_action l)])"
    using hd rd t(1) sc e by (auto simp: handle_virtual_session_reliable_data_def Let_def simp del: One_nat_def split: prod.splits sum.splits)
  obtain a where a: "reply_envelope r1 = Some a" "message_of sid ''VIRTUAL_SESSION_RELIABLE_ACK''
      (if replies = [] then rr_ack_payload r else dict_set ''inner_response_envelopes'' (JList replies) (rr_ack_payload r)) a"
    unfolding r1 by (rule virtual_reply [OF m])
  have ap: "as_payload_dict a1 = (if replies = [] then rr_ack_payload r else dict_set ''inner_response_envelopes'' (JList replies) (rr_ack_payload r))"
    using a h(2) message_read(2) [OF a(2) sid] by simp
  have rne: "replies \<noteq> []" using h(3) ap ack_no_replies receive_ack [OF x(2)] by auto
  have dne: "rr_deliveries r \<noteq> []" using dd rne by auto
  have k: "sm_ok (sessions_of st1) \<and> sm_reliable_states_by_session_id (sessions_of st1) = sm_reliable_states_by_session_id sm2 \<and>
      map_option ns_session_scope (get_session_by_session_id (sessions_of st1) sid) = map_option ns_session_scope (get_session_by_session_id sm2 sid)"
    using deliveries_keep [OF d _ dd, of sid] ok2 by simp
  have g2: "get_session_by_session_id sm2 sid = Some ?s" using receive_sessions [OF e, of sid] t(3) by simp
  obtain s1 where s1: "get_session_by_session_id (sessions_of st1) sid = Some s1" "ns_session_scope s1 = ''virtual''" using k g2 sc by auto
  have "ns_session_id s1 = sid" "ns_session_id ?s = sid" using get_session_id [of _ sid] k s1(1) ok2 g2 by blast+
  then have "reliable_of (sessions_of st1) s1 = rs" using x(3) k by (simp add: reliable_of_def)
  with x(2) have ri: "receive_inbound (reliable_of sm1 ?s) x (reliable_ack_payload (he_isofmt he) x (he_clock he 3)) = (reliable_of (sessions_of st1) s1, r)" by simp
  show thesis
    by (rule that [OF x(1) _ s1 ri dne]) (use k rne ap receive_ack [OF x(2)] in \<open>simp_all add: reliable_ack_payload_def dict_set_def\<close>)
qed

text \<open>
  C21. The reply of a reliably delivered request travels only in the acknowledgement of its first delivery: when the
  sender repeats the message, because that acknowledgement was lost, the answer acknowledges it again and carries no
  reply, so the reply never arrives.
\<close>

theorem reply_lost_with_ack:
  assumes "sm_ok (sessions_of st)" and "sid \<noteq> []" and "keeps_delivery d" and "message_of sid ''VIRTUAL_SESSION_RELIABLE_DATA'' pl m"
    and "virtual_session_handle (Some d) he m ctx st = (st1, Inr r1)" and "reply_envelope r1 = Some a1" and "read_inner_responses (as_payload_dict a1) \<noteq> []"
    and again: "message_of sid ''VIRTUAL_SESSION_RELIABLE_DATA'' pl m'"
  shows "\<exists>st2 r2 a2. virtual_session_handle (Some d) he' m' ctx' st1 = (st2, Inr r2) \<and> reply_envelope r2 = Some a2 \<and>
    jget (as_payload_dict a2) ''ack_for_message_id'' = jget (as_payload_dict a1) ''ack_for_message_id'' \<and> read_inner_responses (as_payload_dict a2) = []"
proof -
  obtain x s1 rs r where x: "parse_reliable_payload pl (he_clock he 2) = Inr x" "sm_ok (sessions_of st1)" "get_session_by_session_id (sessions_of st1) sid = Some s1"
    "ns_session_scope s1 = ''virtual''" "receive_inbound rs x (reliable_ack_payload (he_isofmt he) x (he_clock he 3)) = (reliable_of (sessions_of st1) s1, r)"
    "rr_deliveries r \<noteq> []" "jget (as_payload_dict a1) ''ack_for_message_id'' = JStr (ri_reliable_message_id x)"
    by (rule reliable_data_inverse [OF assms(1-7)])
  obtain x' where x': "parse_reliable_payload pl (he_clock he' 2) = Inr x'" "ri_seq x' = ri_seq x" "ri_reliable_message_id x' = ri_reliable_message_id x"
    using parse_same [OF x(1)] by blast
  note dup = received_then_duplicate [OF x(5,6) x'(2), of "reliable_ack_payload (he_isofmt he') x' (he_clock he' 3)"]
  obtain st2 r2 a2 where r: "virtual_session_handle (Some d) he' m' ctx' st1 = (st2, Inr r2)" "reply_envelope r2 = Some a2"
    "message_of sid ''VIRTUAL_SESSION_RELIABLE_ACK'' (reliable_ack_payload (he_isofmt he') x' (he_clock he' 3)) a2"
    using reliable_data_step [OF x(2-4) assms(2) again x'(1) dup, of "Some d" ctx'] by auto
  have "as_payload_dict a2 = reliable_ack_payload (he_isofmt he') x' (he_clock he' 3)" by (rule message_read(2) [OF r(3) assms(2)])
  with r x(7) x'(3) ack_no_replies show ?thesis by (simp add: reliable_ack_payload_def read_inner_responses_def)
qed

definition demo_app_handler :: virtual_session_message_handler where
  "demo_app_handler msg = HReply \<lparr> vr_app_message_type = ''pong'', vr_payload = JObj [], vr_request_id = vm_request_id msg \<rparr>"

definition demo_app_node :: node_state where
  "demo_app_node = on_sessions (\<lambda>sm. sm \<lparr> sm_virtual_message_handlers := [(''ping'', demo_app_handler)] \<rparr>) (demo_virtual_node demo_service)"

definition demo_request :: payload where
  "demo_request = [(''reliable_message_id'', JStr ''r1''), (''sequence_number'', JInt 1), (''inner_message_type'', JStr ''VIRTUAL_SESSION_DATA''),
     (''inner_payload'', JObj [(''app_message_type'', JStr ''ping''), (''request_id'', JStr ''q1''), (''payload'', JObj [])])]"

definition demo_first :: handler_result where
  "demo_first = virtual_session_handle (Some (virtual_message_handle (demo_env ''e''))) (demo_env ''e'')
     (demo_message ''VIRTUAL_SESSION_RELIABLE_DATA'' demo_request) demo_packet_context demo_app_node"

lemma demo_app_ok: "sm_ok (sessions_of demo_app_node)"
  using demo_virtual_ok by (simp add: demo_app_node_def demo_virtual_node_def demo_node_simps sm_ok_handlers)

theorem reply_lost_with_ack_witness:
  "\<exists>st2 r2 a2. virtual_session_handle (Some (virtual_message_handle (demo_env ''e''))) (demo_env ''e'')
      (demo_message ''VIRTUAL_SESSION_RELIABLE_DATA'' demo_request) demo_packet_context (fst demo_first) = (st2, Inr r2) \<and> reply_envelope r2 = Some a2 \<and>
    read_inner_responses (as_payload_dict a2) = []"
proof -
  have "case snd demo_first of Inr r \<Rightarrow> (case reply_envelope r of Some a \<Rightarrow> read_inner_responses (as_payload_dict a) \<noteq> [] | None \<Rightarrow> False) | Inl _ \<Rightarrow> False"
    by code_simp
  then obtain r a where "snd demo_first = Inr r" "reply_envelope r = Some a" "read_inner_responses (as_payload_dict a) \<noteq> []"
    by (auto split: sum.splits option.splits)
  then have "virtual_session_handle (Some (virtual_message_handle (demo_env ''e''))) (demo_env ''e'') (demo_message ''VIRTUAL_SESSION_RELIABLE_DATA'' demo_request)
      demo_packet_context demo_app_node = (fst demo_first, Inr r)" "reply_envelope r = Some a" "read_inner_responses (as_payload_dict a) \<noteq> []"
    unfolding demo_first_def by (simp_all add: prod_eq_iff)
  from reply_lost_with_ack [OF demo_app_ok _ virtual_message_keeps demo_message_of this demo_message_of, of "demo_env ''e''" demo_packet_context]
  show ?thesis by auto
qed

section \<open>Well formed states\<close>

lemma node_ok_peer: "node_ok st \<Longrightarrow> node_ok (remember_virtual_peer he nid pk m st)"
  unfolding node_ok_def remember_virtual_peer_def by (auto simp: sessions_of_def intro: identity_ok_step identity_step.upsert_virtual)

lemma node_ok_set_key: "node_ok st \<Longrightarrow> node_ok (set_remote_public_key sid pk st)"
  unfolding set_remote_public_key_def by (rule node_ok_on_sessions) (simp_all add: sm_ok_set_remote_key)

lemma sm_ok_create_inbound_virtual: "sm_ok sm \<Longrightarrow> create_inbound_virtual_session sm sid l r pk b k t t' = Inr (sm', s) \<Longrightarrow> sm_ok sm'"
  by (auto simp: create_inbound_virtual_session_def intro: sm_ok_create split: option.splits)

lemma node_ok_virtual_handshake:
  assumes "node_ok st"
  shows "node_ok (fst (handle_virtual_session_init he env ctx st))" and "node_ok (fst (handle_virtual_session_init_ok he env ctx st))"
    and "node_ok (fst (handle_virtual_session_key_confirm he env ctx st))" and "node_ok (fst (handle_virtual_session_ready he env ctx st))"
proof -
  have c: "node_ok (on_sessions (\<lambda>_. sm) (remember_virtual_peer he nid pk' m st))"
    if "create_inbound_virtual_session (sessions_of st) sid l r pk b k t t' = Inr (sm, s)" for sm nid pk' m sid l r pk b k t t' s
    using node_ok_replace [OF node_ok_peer [OF assms]] sm_ok_create_inbound_virtual [OF _ that] assms by (simp add: node_ok_def)
  show "node_ok (fst (handle_virtual_session_init he env ctx st))"
    using assms unfolding handle_virtual_session_init_def Let_def
    by (auto split: option.split sum.split prod.split intro!: node_ok_set_key node_ok_peer sm_ok_mutations node_ok_on_sessions intro: c sm_ok_create_inbound_virtual)
  show "node_ok (fst (handle_virtual_session_init_ok he env ctx st))"
    using assms unfolding handle_virtual_session_init_ok_def Let_def
    by (auto split: option.split sum.split intro!: node_ok_on_sessions node_ok_peer node_ok_set_key sm_ok_mutations)
  show "node_ok (fst (handle_virtual_session_key_confirm he env ctx st))" "node_ok (fst (handle_virtual_session_ready he env ctx st))"
    using assms unfolding handle_virtual_session_key_confirm_def handle_virtual_session_ready_def Let_def
    by (auto split: option.split sum.split list.split intro!: node_ok_on_sessions sm_ok_mutations)
qed


lemma node_ok_virtual_deliveries:
  assumes "pred_option keeps_node_ok dispatch" and "node_ok st"
  shows "node_ok (fst (dispatch_virtual_deliveries dispatch env ctx ms n r rs st))"
  using assms(2)
proof (induction ms arbitrary: n r rs st)
  case (Cons m ms)
  show ?case
  proof (cases dispatch)
    case None
    with Cons.IH [OF Cons.prems] show ?thesis by simp
  next
    case (Some d)
    obtain st1 x where d: "d (inner_envelope env m) ctx st = (st1, x)" by fastforce
    have "node_ok st1" using assms(1) Some Cons.prems d by (cases st) (auto simp: keeps_node_ok_def, metis fst_conv)
    with Some d Cons.IH show ?thesis by (auto split: sum.split)
  qed
qed simp

lemma node_ok_inner_responses:
  assumes "pred_option keeps_node_ok dispatch" and "node_ok st"
  shows "node_ok (fst (dispatch_inner_responses dispatch env ctx sid vs rs st))"
  using assms(2)
proof (induction vs arbitrary: rs st)
  case (Cons v vs)
  have one: "node_ok (fst (dispatch_inner_virtual_response_from_ack dispatch env ctx sid e st))" for e
  proof (cases dispatch)
    case (Some d)
    then have k: "node_ok (fst (d x ctx st))" for x using assms(1) Cons.prems by (cases st) (simp add: keeps_node_ok_def)
    then have "d x ctx st = (st1, y) \<Longrightarrow> node_ok st1" for x st1 y by (metis fst_conv)
    with Some Cons.prems show ?thesis
      by (auto simp: dispatch_inner_virtual_response_from_ack_def split: option.split prod.split sum.split)
  qed (use Cons.prems in \<open>auto simp: dispatch_inner_virtual_response_from_ack_def split: option.split\<close>)
  show ?case
  proof (cases "as_obj v")
    case None
    with Cons show ?thesis by simp
  next
    case (Some e)
    obtain st1 x where d: "dispatch_inner_virtual_response_from_ack dispatch env ctx sid e st = (st1, x)" by fastforce
    with one [of e] have "node_ok st1" by simp
    with Some d Cons.IH show ?thesis by (auto split: sum.split option.split)
  qed
qed simp

lemma node_ok_virtual_established:
  assumes "pred_option keeps_node_ok dispatch" and ok: "node_ok st"
  shows "node_ok (fst (handle_virtual_session_reliable_data dispatch he env ctx st))" and "node_ok (fst (handle_virtual_session_reliable_ack dispatch he env ctx st))"
    and "node_ok (fst (handle_virtual_session_keepalive he env ctx st))" and "node_ok (fst (handle_virtual_session_keepalive_ack he env ctx st))"
    and "node_ok (fst (handle_virtual_session_close he env ctx st))"
proof -
  have t: "touch_session (sessions_of st) sid k t t' = (sm, x) \<Longrightarrow> node_ok (on_sessions (\<lambda>_. sm) st)" for sid k t t' sm x
    using sm_ok_mutations(1) [of "sessions_of st" sid k t t'] ok node_ok_replace [OF ok] by (simp add: node_ok_def)
  have c: "close_session (sessions_of st) sid k t = (sm, x) \<Longrightarrow> node_ok (on_sessions (\<lambda>_. sm) st)" for sid k t sm x
    using sm_ok_mutations(9) [of "sessions_of st" sid k t] ok node_ok_replace [OF ok] by (simp add: node_ok_def)
  show "node_ok (fst (handle_virtual_session_keepalive he env ctx st))" "node_ok (fst (handle_virtual_session_keepalive_ack he env ctx st))"
    using ok t unfolding handle_virtual_session_keepalive_def handle_virtual_session_keepalive_ack_def by (auto split: option.split prod.split)
  show "node_ok (fst (handle_virtual_session_close he env ctx st))"
    using ok c unfolding handle_virtual_session_close_def Let_def by (auto split: option.split prod.split)
  have a: "mark_reliable_outbound_acked (sessions_of st) sid n mid t = (sm, x) \<Longrightarrow> node_ok (on_sessions (\<lambda>_. fst (touch_session sm sid k t' t'')) st)"
    for sid n mid t sm x k t' t'' using sm_ok_mark_acked [of "sessions_of st" sid n mid t] ok node_ok_replace [OF ok] by (simp add: node_ok_def sm_ok_mutations)
  have ia: "dispatch_inner_responses dispatch env ctx sid vs rs st' = (st1, y) \<Longrightarrow> node_ok st' \<Longrightarrow> node_ok st1" for sid vs rs st' st1 y
    using node_ok_inner_responses [OF assms(1), of st' env ctx sid vs rs] by simp
  show "node_ok (fst (handle_virtual_session_reliable_ack dispatch he env ctx st))"
    using ok unfolding handle_virtual_session_reliable_ack_def Let_def
    by (auto split: option.split prod.split sum.split dest!: a intro: ia)
  have r: "receive_reliable_inbound i sm' sid p t t' = (sm, x) \<Longrightarrow> node_ok (on_sessions (\<lambda>_. sm') st) \<Longrightarrow>
      node_ok (on_sessions (\<lambda>_. sm) (on_sessions (\<lambda>_. sm') st))" for i sm' sid p t t' sm x
    using sm_ok_receive [of sm' i sid p t t'] node_ok_replace [of "on_sessions (\<lambda>_. sm') st" sm] by (simp add: node_ok_def)
  have da: "dispatch_virtual_deliveries dispatch env ctx ms n l rs st' = (st1, y) \<Longrightarrow> node_ok st' \<Longrightarrow> node_ok st1" for ms n l rs st' st1 y
    using node_ok_virtual_deliveries [OF assms(1), of st' env ctx ms n l rs] by simp
  show "node_ok (fst (handle_virtual_session_reliable_data dispatch he env ctx st))"
    using ok unfolding handle_virtual_session_reliable_data_def Let_def
    by (auto split: option.split prod.split sum.split py_error.split dest!: t intro: da r)
qed


text \<open>
  Every message of the virtual session protocol keeps the tables well formed, if the handlers of inner messages do.
\<close>

theorem virtual_session_handler_keeps_ok:
  assumes "node_ok st" and "pred_option keeps_node_ok dispatch"
  shows "node_ok (fst (virtual_session_handle dispatch he env ctx st))"
  using node_ok_virtual_handshake [OF assms(1)] node_ok_virtual_established [OF assms(2,1)] assms(1)
  by (simp add: virtual_session_handle_def)

lemma node_ok_virtual_message: "keeps_node_ok (virtual_message_handle he)"
proof -
  have "node_ok (fst (virtual_message_handle he e c st))" if "node_ok st" for e c st
    using that by (auto simp: virtual_message_handle_def Let_def intro!: node_ok_on_sessions sm_ok_mutations
        split: option.split sum.split)
  then show ?thesis by (simp add: keeps_node_ok_def)
qed

theorem virtual_session_handler_keeps_ok_witness:
  "node_ok (fst (virtual_session_handle (Some (virtual_message_handle (demo_env ''e''))) (demo_env ''e'')
     (demo_message ''VIRTUAL_SESSION_RELIABLE_DATA'' demo_request) demo_packet_context (demo_virtual_node demo_service)))"
  by (rule virtual_session_handler_keeps_ok [OF demo_virtual_node_ok]) (simp add: node_ok_virtual_message)

definition demo_outbound_table :: session_manager where
  "demo_outbound_table = (case create_outbound_virtual_session new_session_manager ''v1'' ''A'' ''B'' None None 30 0 0 of
     Inr (sm, _) \<Rightarrow> sm | Inl _ \<Rightarrow> new_session_manager)"

lemma demo_outbound_ok: "sm_ok demo_outbound_table"
proof -
  obtain r where r: "create_outbound_virtual_session new_session_manager ''v1'' ''A'' ''B'' None None 30 0 0 = Inr r"
    by (simp add: create_outbound_virtual_session_def create_session_def base_create_input_def new_session_manager_def Let_def)
  show ?thesis
    using sm_ok_create [OF sm_ok_new] r unfolding demo_outbound_table_def r create_outbound_virtual_session_def by (cases r) auto
qed

definition demo_target :: local_virtual_node_identity where
  "demo_target = \<lparr> lv_id = ''B'', lv_public_key = ''B'', lv_private_key_encrypted = ''B'', lv_kind = ''k'', lv_owner_physical_node_id = ''P'',
     lv_expires_at = None, lv_is_active = True, lv_metadata_json = None, lv_created_at = 0 \<rparr>"

definition demo_responder :: node_state where
  "demo_responder = (fst (demo_node new_session_manager ''P''), (snd (demo_node new_session_manager ''P''))
     \<lparr> sv_identity := empty_identity_db \<lparr> db_local_virtual := [demo_target] \<rparr> \<rparr>)"

lemma demo_responder_facts:
  "get_local_virtual_node_by_id ''B'' (sv_identity (snd demo_responder)) = Some demo_target" "sessions_of demo_responder = new_session_manager"
  by (simp_all add: demo_responder_def get_local_virtual_node_by_id_def row_by_def demo_target_def sessions_of_def demo_node_def)

lemma demo_env_fields: "he_os (demo_env x) = demo_openssl" "he_seed (demo_env x) = x" "he_sha512 (demo_env x) = id"
  by (simp_all add: demo_env_def)

lemma demo_outbound_session:
  obtains s where "get_session_by_session_id demo_outbound_table ''v1'' = Some s" "ns_remote_identity_id s = ''B''" "ns_shared_secret_hex s = None"
proof -
  have "map_option (\<lambda>s. (ns_remote_identity_id s, ns_shared_secret_hex s)) (get_session_by_session_id demo_outbound_table ''v1'') = Some (''B'', None)" by code_simp
  then show thesis using that by auto
qed

theorem virtual_handshake_agreement_witness:
  "\<exists>stB' r1 m1 stA' r2 m2 stB'' r3 m3 stA'' r4 sA'' sB''.
    virtual_session_handle None (demo_env ''k'') (demo_message ''VIRTUAL_SESSION_INIT'' (virtual_init_payload ''A'' ''A'' ''B'' 30)) demo_packet_context demo_responder
      = (stB', Inr r1) \<and> reply_envelope r1 = Some m1 \<and>
    virtual_session_handle None (demo_env ''e'') m1 demo_packet_context (demo_node demo_outbound_table ''Q'') = (stA', Inr r2) \<and> reply_envelope r2 = Some m2 \<and>
    virtual_session_handle None (demo_env []) m2 demo_packet_context stB' = (stB'', Inr r3) \<and> reply_envelope r3 = Some m3 \<and>
    virtual_session_handle None (demo_env []) m3 demo_packet_context stA' = (stA'', Inr r4) \<and> pr_handled r4 \<and>
    get_session_by_session_id (sessions_of stA'') ''v1'' = Some sA'' \<and> get_session_by_session_id (sessions_of stB'') ''v1'' = Some sB'' \<and>
    ns_session_state sA'' = ''active'' \<and> ns_session_state sB'' = ''active'' \<and>
    ns_shared_secret_hex sA'' = Some (bytes_to_hex ''kex'') \<and> ns_shared_secret_hex sB'' = Some (bytes_to_hex ''kex'') \<and>
    ns_remote_public_key sA'' = Some ''B'' \<and> ns_remote_public_key sB'' = Some ''A'' \<and>
    (\<forall>k. k = ''v1'' \<or> get_session_by_session_id (sessions_of stA'') k = get_session_by_session_id (sessions_of (demo_node demo_outbound_table ''Q'')) k \<and>
       get_session_by_session_id (sessions_of stB'') k = get_session_by_session_id (sessions_of demo_responder) k)"
proof -
  obtain sA where sA: "get_session_by_session_id demo_outbound_table ''v1'' = Some sA" "ns_remote_identity_id sA = ''B''" by (rule demo_outbound_session)
  have none: "get_session_by_session_id new_session_manager ''v1'' = None" by code_simp
  have u: "utf8_encode ''A'' = ''A''" "utf8_encode ''B'' = ''B''" by code_simp+
  have msg: "message_of ''v1'' ''VIRTUAL_SESSION_INIT'' (virtual_init_payload (he_sha512 (demo_env ''k'') (utf8_encode ''A'')) ''A'' ''B'' 30)
      (demo_message ''VIRTUAL_SESSION_INIT'' (virtual_init_payload ''A'' ''A'' ''B'' 30))"
    by (simp add: demo_env_fields u demo_message_of)
  have k: "lv_private_key_encrypted demo_target = ''B''" "lv_public_key demo_target = ''B''" by (simp_all add: demo_target_def)
  have o: "os_dsa_keygen demo_openssl ''B'' = Some (lv_private_key_encrypted demo_target, lv_public_key demo_target)"
    "\<And>m. os_sign demo_openssl m (lv_private_key_encrypted demo_target) \<noteq> None"
    "os_kem_keygen demo_openssl (he_seed (demo_env ''k'')) = Some (''k'', ''k'')" "os_encap demo_openssl (he_seed (demo_env ''e'')) ''k'' = Some (''e'', ''kex'')"
    by (simp_all add: demo_openssl_def demo_env_def k)
  have s: "sm_ok (sessions_of (demo_node demo_outbound_table ''Q''))" "sm_ok (sessions_of demo_responder)"
    "get_session_by_session_id (sessions_of demo_responder) ''v1'' = None" "get_session_by_session_id (sessions_of (demo_node demo_outbound_table ''Q'')) ''v1'' = Some sA"
    "ns_remote_identity_id sA = he_sha512 (demo_env ''e'') (utf8_encode (lv_public_key demo_target))"
    by (simp_all add: demo_node_simps demo_outbound_ok demo_responder_facts sm_ok_new none sA k u demo_env_fields)
  from virtual_handshake_agreement [OF demo_openssl_laws demo_env_fields(1) demo_env_fields(1) demo_env_fields(1) [of "[]"] demo_env_fields(1) [of "[]"] demo_responder_facts(1) o(1,2) o(3,4) _ s _ msg,
      where dispatch = None and ?c1.0 = demo_packet_context and ?c2.0 = demo_packet_context and ?c3.0 = demo_packet_context and ?c4.0 = demo_packet_context]
  show ?thesis unfolding k by simp
qed


definition demo_virtual_init_ok :: payload where
  "demo_virtual_init_ok = [(''responder_virtual_node_public_key'', JStr ''B''), (''responder_ephemeral_public_key'', JStr ''k''),
     (''signature_hex'', JStr (bytes_to_hex (''B'' @ compact_json_bytes (init_ok_signed_payload ''v1'' ''k'' (PyInt 30))))), (''keepalive_interval_seconds'', JInt 30)]"

theorem virtual_init_ok_authenticated_witness:
  "\<exists>st' r. handle_virtual_session_init_ok (demo_env ''e'') (demo_message ''VIRTUAL_SESSION_INIT_OK'' demo_virtual_init_ok) demo_packet_context
      (demo_node demo_outbound_table ''Q'') = (st', r) \<and> secret_of (sessions_of st') ''v1'' \<noteq> secret_of demo_outbound_table ''v1'' \<and>
    (\<exists>s pub sig sb. get_session_by_session_id demo_outbound_table ''v1'' = Some s \<and> id (utf8_encode pub) = ns_remote_identity_id s \<and>
      jget demo_virtual_init_ok ''signature_hex'' = JStr sig \<and> hex_to_bytes sig = Inr sb)"
proof -
  let ?st = "demo_node demo_outbound_table ''Q''" and ?c = "\<lparr> ke_ciphertext_hex = bytes_to_hex ''e'', ke_shared_secret_hex = bytes_to_hex ''kex'' \<rparr>"
  let ?m = "demo_message ''VIRTUAL_SESSION_INIT_OK'' demo_virtual_init_ok"
  obtain sA where sA: "get_session_by_session_id demo_outbound_table ''v1'' = Some sA" "ns_remote_identity_id sA = ''B''" "ns_shared_secret_hex sA = None"
    by (rule demo_outbound_session)
  have ok: "sm_ok (sessions_of ?st)" by (simp add: demo_node_simps demo_outbound_ok)
  have u: "utf8_encode ''B'' = ''B''" by code_simp
  have msg: "message_of ''v1'' ''VIRTUAL_SESSION_INIT_OK'' [(''responder_virtual_node_public_key'', JStr ''B''), (''responder_ephemeral_public_key'', JStr ''k''),
     (''signature_hex'', JStr (bytes_to_hex (''B'' @ compact_json_bytes (init_ok_signed_payload ''v1'' ''k'' (PyInt 30))))), (''keepalive_interval_seconds'', JInt 30)] ?m"
    unfolding demo_virtual_init_ok_def by (rule demo_message_of)
  have v: "verify_virtual_session_init_ok demo_openssl ''v1'' ''k'' (PyInt 30)
      (bytes_to_hex (''B'' @ compact_json_bytes (init_ok_signed_payload ''v1'' ''k'' (PyInt 30)))) ''B''"
    by (simp add: verify_virtual_session_init_ok_def dilithium_verify_hex_def canonical_payload_hex_def demo_openssl_def)
  have en: "kyber_encapsulate_hex demo_openssl ''e'' ''k'' = Inr ?c" by (simp add: kyber_encapsulate_hex_def demo_openssl_def)
  obtain st' r s' where h: "virtual_session_handle None (demo_env ''e'') ?m demo_packet_context ?st = (st', Inr r)"
    "get_session_by_session_id (sessions_of st') ''v1'' = Some s'" "ns_shared_secret_hex s' = Some (ke_shared_secret_hex ?c)"
    by (rule virtual_init_ok_step [OF ok _ msg, of sA "demo_env ''e''" ?c None demo_packet_context])
      (use sA u v en in \<open>simp_all add: demo_node_simps demo_env_fields\<close>)
  have h': "handle_virtual_session_init_ok (demo_env ''e'') ?m demo_packet_context ?st = (st', Inr r)"
    using h(1) by (simp add: virtual_session_handle_def demo_message_def)
  have ch: "secret_of (sessions_of st') ''v1'' \<noteq> secret_of (sessions_of ?st) ''v1''"
    using h(2,3) sA by (simp add: secret_of_def demo_node_simps)
  have pl: "as_payload_dict ?m = demo_virtual_init_ok" by (simp add: as_payload_dict_def demo_message_def)
  from virtual_init_ok_authenticated [OF ok h' ch] h' ch show ?thesis
    unfolding pl demo_node_simps(1) demo_env_fields by blast
qed

end
