(* ===== verification/Spec2Isabelle.thy ===== *)
theory Spec2Isabelle
  imports Reliable_Channel Dht_Merge Content_Transfer Endpoints Udp_Transport Session_Runtime Virtual_Session_Protocol
begin

text \<open>
  A verification library for AnonNetCore, a peer-to-peer node written in Python (\<^verbatim>\<open>src/app\<close>). A node keeps
  physical sessions with its neighbours and virtual sessions with anonymous peers behind routes, stores records in a
  distributed hash table and transfers content. Packets come in through a transport, are decoded by the engine, dispatched to
  a handler by their message type, and answered or forwarded.

  \<^bold>\<open>Layout.\<close> Every theory models one component, in the order of its source file, and proves its lemmas.
  \<^item> \<open>Prelude\<close>: Python exceptions as a sum type, dictionaries as association lists in insertion order, sorting,
    text, time; the interfaces \<open>dictionary\<close> and \<open>codec\<close>.
  \<^item> \<open>Json\<close> (\<^verbatim>\<open>common/json.py\<close>, the \<^verbatim>\<open>json\<close> module): writer and reader of canonical JSON, their round trip, and that the
    canonical text determines the value.
  \<^item> \<open>Base64\<close>, \<open>Aes\<close> (\<^verbatim>\<open>crypto/aes.py\<close>, \<^verbatim>\<open>crypto/utils.py\<close>): encodings and authenticated encryption with its
    table of used nonces.
  \<^item> \<open>Reliable\<close> (\<^verbatim>\<open>sessions/reliable.py\<close>), \<open>Session_Manager\<close> and \<open>Session_Table\<close> (\<^verbatim>\<open>sessions/manager.py\<close>): reliable delivery
    and the table of sessions, over an explicit store of session objects; its invariant over all operations.
  \<^item> \<open>Reliable_Channel\<close>: two session managers joined by a network that loses, repeats and reorders; delivery in order,
    at most once, without loss, and always able to finish.
  \<^item> \<open>Message_Registry\<close> (\<^verbatim>\<open>core/message_registry.py\<close>, \<^verbatim>\<open>core/models.py\<close>), \<open>Engine_Packets\<close> (\<^verbatim>\<open>core/engine.py\<close>): packets,
    encryption and decryption, the session rule and dispatch; round trip between two engines, authenticity of what
    is accepted, and what the rule lets through.
  \<^item> \<open>Physical_Client\<close> (\<^verbatim>\<open>core/protocol_clients/physical/physical_session.py\<close>), \<open>Session_Runtime\<close>
    (\<^verbatim>\<open>core/runtime/session_runtime.py\<close>): sends over physical sessions and the periodic pass over all sessions.
  \<^item> \<open>Endpoints\<close>, \<open>Frame_Codec\<close>, \<open>Udp_Transport\<close> (\<^verbatim>\<open>transport/\<close>): endpoint lists, frames on a byte stream, and datagrams
    with fragmentation, whose reassembly refines a set of seen parts.
  \<^item> \<open>Dht_Records\<close>, \<open>Dht_Pow\<close>, \<open>Dht_Service\<close>, \<open>Dht_Merge\<close> (\<^verbatim>\<open>dht/\<close>): records and their parsers, proof of work, choice
    of the closest nodes, and the merge of records with all its checks.
  \<^item> \<open>Route_Service\<close> (\<^verbatim>\<open>route/service.py\<close>): the table of route resolutions with its uniqueness constraints.
  \<^item> \<open>Content_Service\<close>, \<open>Content_Transfer\<close> (\<^verbatim>\<open>content/service.py\<close>): stored content and downloads in ranges.

  \<^bold>\<open>State and effects.\<close> A Python object is a record, a service with mutable state a record that is passed along and
  returned; an exception is a value of \<open>py_error\<close> on the left of a sum. Session objects live in a store and are shared by
  two dictionaries, as in the code. Readings of the clock, \<^verbatim>\<open>uuid4\<close>, \<^verbatim>\<open>os.urandom\<close>, the hash, signatures,
  the cipher, \<^verbatim>\<open>isoformat\<close> and \<^verbatim>\<open>fromisoformat\<close> are arguments, with what is needed of them as named hypotheses
  (for instance \<open>aead_laws\<close>). Database tables are lists of rows in order of insertion. Log output is left out.

  \<^bold>\<open>Bounds.\<close> Text holds code points below 256. The JSON reader has fuel \<open>2 * length + 2\<close>, which \<open>enc_read\<close> shows to be
  enough for every written text. The nonce search is a \<^verbatim>\<open>partial_function\<close>: it returns the least valid nonce when there is
  one and only then returns. Floats are decimal fractions or rationals.

  \<^bold>\<open>Not modelled.\<close> Sockets, asyncio tasks and locks (each operation is atomic); the handlers of
  \<^verbatim>\<open>core/protocols\<close> and the random walk of \<^verbatim>\<open>core/routing_strategies\<close>; the identity service and the other
  database tables; the HTTP interface, logging, start-up, cluster scripts and tests. The manifest lists every
  part with its reason.
\<close>

end
